(* ===== verification/Prelude.thy ===== *)
theory Prelude
  imports Main "HOL-Library.Sublist" "HOL-Library.Char_ord" "HOL-Library.List_Lexorder"
    "HOL-Library.Word"
begin

text \<open>
  Shared vocabulary of the development: what the Go sources use of the language and of its
  standard library (errors, the \<open>strings\<close> package, slices that may be nil), and the
  generic lemmas about lists that the component theories rely on.

  Strings are \<open>char list\<close>, one \<open>char\<close> per byte.  Case mapping and white space
  are modelled on the ASCII range, which is the range the constants of the sources use.
  A Go slice that distinguishes nil from empty is an \<open>'a list option\<close> with
  \<open>None\<close> for nil.  A Go result \<open>(T, error)\<close> is \<open>go_err + 'a\<close>.
\<close>

named_theorems go_defs "definitions of the Go standard library model"
named_theorems session_simps "how the database session primitives act on a world"

section \<open>Types\<close>

type_synonym uuid = "128 word"
type_synonym instant = int
type_synonym ('k, 'v) alist = "('k \<times> 'v) list"

text \<open>
  Error values.  The first four constructors are the typed errors of
  tenancy-manager/internal/ent/ent.go; \<open>Errorf\<close> is an untyped error with its message and
  \<open>Wrap\<close> an error made with the verb \<open>%w\<close>: its whole message and the error it wraps.
\<close>

datatype go_err =
    NotFoundError string
  | NotSingularError string
  | ConstraintError string
  | ValidationError string string
  | Errorf string
  | Wrap string go_err

fun err_text :: "go_err \<Rightarrow> string" where
  "err_text (NotFoundError l) = ''ent: '' @ l @ '' not found''"
| "err_text (NotSingularError l) = ''ent: '' @ l @ '' not singular''"
| "err_text (ConstraintError m) = ''ent: constraint failed: '' @ m"
| "err_text (ValidationError n m) = m"
| "err_text (Errorf m) = m"
| "err_text (Wrap m e) = m"

text \<open>\<open>errors.As\<close> walks the chain of wrapped errors.\<close>

fun IsNotFound :: "go_err \<Rightarrow> bool" where
  "IsNotFound (NotFoundError l) = True"
| "IsNotFound (Wrap m e) = IsNotFound e"
| "IsNotFound _ = False"

fun IsConstraintError :: "go_err \<Rightarrow> bool" where
  "IsConstraintError (ConstraintError m) = True"
| "IsConstraintError (Wrap m e) = IsConstraintError e"
| "IsConstraintError _ = False"

text \<open>\<open>fmt.Errorf\<close> with the format "m: %w".\<close>

definition wrapf :: "string \<Rightarrow> go_err \<Rightarrow> go_err" where
  "wrapf m e = Wrap (m @ '': '' @ err_text e) e"

section \<open>The strings package\<close>

definition HasPrefix :: "string \<Rightarrow> string \<Rightarrow> bool" where [go_defs]:
  "HasPrefix s p \<longleftrightarrow> prefix p s"

definition HasSuffix :: "string \<Rightarrow> string \<Rightarrow> bool" where [go_defs]:
  "HasSuffix s p \<longleftrightarrow> suffix p s"

definition Contains :: "string \<Rightarrow> string \<Rightarrow> bool" where [go_defs]:
  "Contains s t \<longleftrightarrow> sublist t s"

text \<open>\<open>strings.ReplaceAll\<close>: left to right, without overlaps; an empty pattern matches
  before every byte and at the end.\<close>

function replace_from :: "string \<Rightarrow> string \<Rightarrow> string \<Rightarrow> string" where
  "replace_from old new [] = []"
| "replace_from old new (c # cs) =
     (if old \<noteq> [] \<and> prefix old (c # cs)
      then new @ replace_from old new (drop (length old) (c # cs))
      else c # replace_from old new cs)"
  by pat_completeness auto
termination
  by (relation "measure (\<lambda>(old, new, s). length s)") (auto simp: length_greater_0_conv)

definition ReplaceAll :: "string \<Rightarrow> string \<Rightarrow> string \<Rightarrow> string" where
  "ReplaceAll s old new =
     (if old = [] then new @ concat (map (\<lambda>c. c # new) s) else replace_from old new s)"

text \<open>\<open>strings.Split\<close> and \<open>strings.SplitN\<close> with a one-byte separator.\<close>

fun Split :: "string \<Rightarrow> char \<Rightarrow> string list" where
  "Split [] sep = [[]]"
| "Split (c # cs) sep =
     (if c = sep then [] # Split cs sep
      else (case Split cs sep of [] \<Rightarrow> [[c]] | p # ps \<Rightarrow> (c # p) # ps))"

definition SplitN2 :: "string \<Rightarrow> char \<Rightarrow> string list" where
  "SplitN2 s sep =
     (let h = takeWhile (\<lambda>c. c \<noteq> sep) s in
      if h = s then [s] else [h, drop (Suc (length h)) s])"

fun Join :: "string list \<Rightarrow> string \<Rightarrow> string" where
  "Join [] sep = []"
| "Join [s] sep = s"
| "Join (s # t # ss) sep = s @ sep @ Join (t # ss) sep"

definition to_lower_char :: "char \<Rightarrow> char" where
  "to_lower_char c =
     (if CHR ''A'' \<le> c \<and> c \<le> CHR ''Z'' then char_of (of_char c + 32 :: nat) else c)"

definition ToLower :: "string \<Rightarrow> string" where
  "ToLower s = map to_lower_char s"

definition EqualFold :: "string \<Rightarrow> string \<Rightarrow> bool" where
  "EqualFold s t \<longleftrightarrow> ToLower s = ToLower t"

definition is_space :: "char \<Rightarrow> bool" where
  "is_space c \<longleftrightarrow> c \<in> set [CHR '' '', CHR 0x09, CHR 0x0A, CHR 0x0B, CHR 0x0C, CHR 0x0D]"

definition TrimSpace :: "string \<Rightarrow> string" where
  "TrimSpace s = rev (dropWhile is_space (rev (dropWhile is_space s)))"

text \<open>The verb \<open>%q\<close> on printable ASCII text.\<close>

definition quote :: "string \<Rightarrow> string" where
  "quote s = [CHR 0x22] @
     concat (map (\<lambda>c. if c = CHR 0x22 \<or> c = CHR 0x5C then [CHR 0x5C, c] else [c]) s) @ [CHR 0x22]"

section \<open>strconv\<close>

text \<open>\<open>%d\<close> and \<open>strconv.Itoa\<close>.\<close>

function decimal :: "nat \<Rightarrow> string" where
  "decimal n = (if n < 10 then [char_of (48 + n)] else decimal (n div 10) @ [char_of (48 + n mod 10)])"
  by auto
termination by (relation "measure id") auto

declare decimal.simps [simp del]

definition decimal_int :: "int \<Rightarrow> string" where
  "decimal_int i = (if i < 0 then ''-'' @ decimal (nat (- i)) else decimal (nat i))"

text \<open>\<open>strconv.ParseInt(s, 10, 64)\<close>: an optional sign and decimal digits in range.\<close>

definition digit_value :: "char \<Rightarrow> int option" where
  "digit_value c = (if CHR ''0'' \<le> c \<and> c \<le> CHR ''9'' then Some (of_char c - 48) else None)"

fun parse_digits :: "string \<Rightarrow> int \<Rightarrow> int option" where
  "parse_digits [] acc = Some acc"
| "parse_digits (c # cs) acc =
     (case digit_value c of None \<Rightarrow> None | Some v \<Rightarrow> parse_digits cs (acc * 10 + v))"

definition ParseInt :: "string \<Rightarrow> int option" where
  "ParseInt s =
     (let (neg, ds) =
            (case s of
               [] \<Rightarrow> (False, s)
             | c # cs \<Rightarrow> if c = CHR ''-'' then (True, cs) else if c = CHR ''+'' then (False, cs) else (False, s))
      in if ds = [] then None
         else case parse_digits ds 0 of
                None \<Rightarrow> None
              | Some v \<Rightarrow>
                  if neg then (if v \<le> 9223372036854775808 then Some (- v) else None)
                  else (if v \<le> 9223372036854775807 then Some v else None))"

section \<open>Lemmas about the strings package\<close>

lemma Split_not_Nil [simp]: "Split s sep \<noteq> []"
  by (cases s) (auto split: list.splits)

lemma Split_no_sep: "p \<in> set (Split s sep) \<Longrightarrow> sep \<notin> set p"
  by (induction s arbitrary: p) (auto split: if_splits list.splits)

lemma Join_Cons: "ps \<noteq> [] \<Longrightarrow> Join (p # ps) sep = p @ sep @ Join ps sep"
  by (cases ps) auto

lemma Join_Split: "Join (Split s sep) [sep] = s"
proof (induction s)
  case Nil
  show ?case by simp
next
  case (Cons c cs)
  obtain p ps where ps: "Split cs sep = p # ps"
    by (cases "Split cs sep") auto
  show ?case
  proof (cases "c = sep")
    case True
    with Cons.IH show ?thesis by (simp add: Join_Cons)
  next
    case False
    with Cons.IH ps show ?thesis by (cases ps) auto
  qed
qed

lemma Split_no_sep_id: "sep \<notin> set s \<Longrightarrow> Split s sep = [s]"
  by (induction s) auto

lemma Split_append: "sep \<notin> set p \<Longrightarrow> Split (p @ sep # s) sep = p # Split s sep"
  by (induction p) auto

lemma Split_Join:
  "ps \<noteq> [] \<Longrightarrow> \<forall>p \<in> set ps. sep \<notin> set p \<Longrightarrow> Split (Join ps [sep]) sep = ps"
proof (induction ps)
  case Nil
  then show ?case by simp
next
  case (Cons p ps)
  show ?case
  proof (cases "ps = []")
    case True
    with Cons.prems show ?thesis by (simp add: Split_no_sep_id)
  next
    case False
    with Cons show ?thesis by (simp add: Join_Cons Split_append)
  qed
qed

lemma TrimSpace_no_edge:
  assumes "TrimSpace s \<noteq> []"
  shows "\<not> is_space (hd (TrimSpace s)) \<and> \<not> is_space (last (TrimSpace s))"
proof -
  let ?u = "dropWhile is_space s"
  let ?t = "dropWhile is_space (rev ?u)"
  from assms have t: "?t \<noteq> []" by (simp add: TrimSpace_def)
  have suf: "suffix ?t (rev ?u)" by (rule suffix_dropWhile)
  then obtain zs where zs: "rev ?u = zs @ ?t" by (auto simp: suffix_def)
  then have u: "?u = rev ?t @ rev zs" by (metis rev_append rev_rev_ident)
  with t have "hd ?u = hd (rev ?t)" by (metis hd_append2 rev_is_Nil_conv)
  moreover from u t have "?u \<noteq> []" by (metis Nil_is_append_conv rev_is_Nil_conv)
  ultimately have "\<not> is_space (hd (rev ?t))" using hd_dropWhile by metis
  moreover from t have "\<not> is_space (last (rev ?t))"
    by (simp add: last_rev hd_dropWhile)
  ultimately show ?thesis by (simp add: TrimSpace_def)
qed

lemma replace_from_id: "old \<noteq> [] \<Longrightarrow> \<not> sublist old s \<Longrightarrow> replace_from old new s = s"
  by (induction old new s rule: replace_from.induct) (auto simp: sublist_Cons_right)

lemma ReplaceAll_id: "old \<noteq> [] \<Longrightarrow> \<not> Contains s old \<Longrightarrow> ReplaceAll s old new = s"
  by (simp add: ReplaceAll_def Contains_def replace_from_id)

lemma replace_from_match:
  "old \<noteq> [] \<Longrightarrow> replace_from old new (old @ s) = new @ replace_from old new s"
  by (cases old) (auto simp: prefix_def)

section \<open>Lemmas about lists\<close>

lemma distinct_map_snoc: "distinct (map f (xs @ [x])) \<longleftrightarrow> distinct (map f xs) \<and> f x \<notin> f ` set xs"
  by auto

lemma distinct_map_unique:
  "distinct (map f xs) \<Longrightarrow> x \<in> set xs \<Longrightarrow> y \<in> set xs \<Longrightarrow> f x = f y \<Longrightarrow> x = y"
  by (meson distinct_map inj_onD)

lemma distinct_map_filterI: "distinct (map f xs) \<Longrightarrow> distinct (map f (filter P xs))"
  by (induction xs) auto

lemma filter_unique:
  assumes "distinct (map f xs)" and "x \<in> set xs"
  shows "filter (\<lambda>y. f y = f x) xs = [x]"
  using assms
proof (induction xs)
  case Nil
  then show ?case by simp
next
  case (Cons y ys)
  show ?case
  proof (cases "x = y")
    case True
    with Cons.prems have "\<forall>z \<in> set ys. f z \<noteq> f x" by (metis distinct.simps(2) imageI list.set_map list.simps(9))
    then have "filter (\<lambda>z. f z = f x) ys = []" by (simp add: filter_empty_conv)
    with True show ?thesis by simp
  next
    case False
    with Cons show ?thesis by auto
  qed
qed

lemma length_filter_key_le1: "distinct (map f xs) \<Longrightarrow> length (filter (\<lambda>y. f y = k) xs) \<le> 1"
proof (cases "\<exists>x \<in> set xs. f x = k")
  case True
  then obtain x where "x \<in> set xs" "f x = k" by blast
  moreover assume "distinct (map f xs)"
  ultimately show ?thesis using filter_unique [of f xs x] by simp
next
  case False
  then have "filter (\<lambda>y. f y = k) xs = []" by (simp add: filter_empty_conv)
  then show ?thesis by simp
qed

lemma map_upd_key [simp]:
  "(\<And>x. f (g x) = f x) \<Longrightarrow> map f (map (\<lambda>x. if P x then g x else x) xs) = map f xs"
  by simp

lemma find_Some_mem: "find P xs = Some x \<Longrightarrow> x \<in> set xs \<and> P x"
  by (auto simp: find_Some_iff)

lemma find_unique:
  assumes "distinct (map f xs)" and "x \<in> set xs"
  shows "find (\<lambda>y. f y = f x) xs = Some x"
proof (cases "find (\<lambda>y. f y = f x) xs")
  case None
  with assms(2) show ?thesis by (auto simp: find_None_iff)
next
  case (Some y)
  then have "y \<in> set xs" "f y = f x" by (auto dest: find_Some_mem)
  with assms have "y = x" by (metis distinct_map_unique)
  with Some show ?thesis by simp
qed

section \<open>Calls in sequence\<close>

text \<open>How a sequence of two calls ends: the first fails, or the second one gives the result.\<close>

lemma bind_elim:
  assumes "(case m of (Inl e, k) \<Rightarrow> (Inl (h e), k) | (Inr a, k) \<Rightarrow> f a k) = (res, k')"
  obtains (fails) e where "m = (Inl e, k')" and "res = Inl (h e)"
    | (goes) a k1 where "m = (Inr a, k1)" and "f a k1 = (res, k')"
  using assms by (auto split: prod.splits sum.splits)

end
