(* ===== verification/Tenancy_Db.thy ===== *)
theory Tenancy_Db
  imports Prelude
begin

text \<open>
  The data layer of the Tenant Manager: the rows and constraints declared by
  tenancy-manager/internal/ent/schema and ent/migrate/schema.go, the ent builders that the
  store calls (their defaults, validators and the statement they send), and the session
  through which they are sent.

  A table is the list of its rows in insertion order.  The database is reached through a
  \<^emph>\<open>world\<close>: the committed tables, the working copy of the open transaction (if
  any), the event sequence, and an environment that decides, call by call, whether the driver
  reports an error, what the clock reads and which UUID is drawn.  One ent call is one driver
  decision.  A call can fail before it had any effect (\<open>Fault\<close>) or have its effect
  and still be reported as failed (\<open>LostAck\<close>, a connection lost after the statement
  or the commit was executed).  The event sequence is not part of the tables: Postgres never
  rolls a sequence back.
\<close>

section \<open>Rows and tables\<close>

record org_row =
  org_id :: uuid
  org_name :: string
  org_description :: string
  org_created_at :: instant
  org_updated_at :: instant
  org_deleted_at :: "instant option"

record folder_row =
  folder_id :: uuid
  folder_name :: string
  folder_created_at :: instant
  folder_updated_at :: instant
  folder_org :: uuid

record project_row =
  proj_id :: uuid
  proj_name :: string
  proj_description :: string
  proj_created_at :: instant
  proj_updated_at :: instant
  proj_deleted_at :: "instant option"
  proj_folder :: uuid

record event_row =
  ev_id :: int
  ev_type :: string
  ev_resource_type :: string
  ev_resource_id :: uuid
  ev_resource_name :: string
  ev_org_id :: "uuid option"
  ev_org_name :: "string option"
  ev_folder_id :: "uuid option"
  ev_created_at :: instant

record status_row =
  cs_controller :: string
  cs_resource_type :: string
  cs_resource_id :: uuid
  cs_status :: string
  cs_message :: string
  cs_updated_at :: instant

record db =
  orgs :: "org_row list"
  folders :: "folder_row list"
  projects :: "project_row list"
  events :: "event_row list"
  statuses :: "status_row list"

text \<open>A project with its eagerly loaded edges: \<open>WithFolder(q.WithOrg())\<close>.\<close>

type_synonym project_node = "project_row \<times> (folder_row \<times> org_row option) option"

section \<open>The session\<close>

datatype fault = Fault string | LostAck string

primrec fault_text :: "fault \<Rightarrow> string" where
  "fault_text (Fault m) = m"
| "fault_text (LostAck m) = m"

record environment =
  fault_at :: "nat \<Rightarrow> fault option"
  clock_at :: "nat \<Rightarrow> instant"
  uuid_at :: "nat \<Rightarrow> uuid"

record world =
  tables :: db
  tx :: "db option"
  event_seq :: int
  env :: environment
  ticks :: nat

abbreviation ErrTxDone :: go_err where
  "ErrTxDone \<equiv> Errorf ''sql: transaction has already been committed or rolled back''"

definition tick :: "world \<Rightarrow> world" where
  "tick w = w\<lparr>ticks := Suc (ticks w)\<rparr>"

definition next_fault :: "world \<Rightarrow> fault option" where
  "next_fault w = fault_at (env w) (ticks w)"

definition now :: "world \<Rightarrow> instant \<times> world" where
  "now w = (clock_at (env w) (ticks w), tick w)"

definition new_uuid :: "world \<Rightarrow> uuid \<times> world" where
  "new_uuid w = (uuid_at (env w) (ticks w), tick w)"

definition begin_tx :: "world \<Rightarrow> (go_err + unit) \<times> world" where
  "begin_tx w =
     (case next_fault w of
        Some f \<Rightarrow> (Inl (Errorf (fault_text f)), tick w)
      | None \<Rightarrow> (Inr (), (tick w)\<lparr>tx := Some (tables w)\<rparr>))"

definition commit_tx :: "world \<Rightarrow> (go_err + unit) \<times> world" where
  "commit_tx w =
     (case tx w of
        None \<Rightarrow> (Inl ErrTxDone, w)
      | Some d \<Rightarrow>
          (case next_fault w of
             None \<Rightarrow> (Inr (), (tick w)\<lparr>tables := d, tx := None\<rparr>)
           | Some (Fault m) \<Rightarrow> (Inl (Errorf m), (tick w)\<lparr>tx := None\<rparr>)
           | Some (LostAck m) \<Rightarrow> (Inl (Errorf m), (tick w)\<lparr>tables := d, tx := None\<rparr>)))"

definition rollback_tx :: "world \<Rightarrow> (go_err + unit) \<times> world" where
  "rollback_tx w =
     (case tx w of
        None \<Rightarrow> (Inl ErrTxDone, w)
      | Some d \<Rightarrow>
          (case next_fault w of
             None \<Rightarrow> (Inr (), (tick w)\<lparr>tx := None\<rparr>)
           | Some f \<Rightarrow> (Inl (Errorf (fault_text f)), (tick w)\<lparr>tx := None\<rparr>)))"

text \<open>A call through the transaction's client, and one through the store's own client
  (a statement that commits by itself).\<close>

definition in_tx :: "(db \<Rightarrow> go_err + 'a \<times> db) \<Rightarrow> world \<Rightarrow> (go_err + 'a) \<times> world" where
  "in_tx f w =
     (case tx w of
        None \<Rightarrow> (Inl ErrTxDone, w)
      | Some d \<Rightarrow>
          (case next_fault w of
             Some ft \<Rightarrow> (Inl (Errorf (fault_text ft)), tick w)
           | None \<Rightarrow>
               (case f d of
                  Inl e \<Rightarrow> (Inl e, tick w)
                | Inr (a, d') \<Rightarrow> (Inr a, (tick w)\<lparr>tx := Some d'\<rparr>))))"

definition in_db :: "(db \<Rightarrow> go_err + 'a \<times> db) \<Rightarrow> world \<Rightarrow> (go_err + 'a) \<times> world" where
  "in_db f w =
     (case next_fault w of
        Some (Fault m) \<Rightarrow> (Inl (Errorf m), tick w)
      | Some (LostAck m) \<Rightarrow>
          (case f (tables w) of
             Inl e \<Rightarrow> (Inl (Errorf m), tick w)
           | Inr (a, d') \<Rightarrow> (Inl (Errorf m), (tick w)\<lparr>tables := d'\<rparr>))
      | None \<Rightarrow>
          (case f (tables w) of
             Inl e \<Rightarrow> (Inl e, tick w)
           | Inr (a, d') \<Rightarrow> (Inr a, (tick w)\<lparr>tables := d'\<rparr>)))"

section \<open>Queries\<close>

text \<open>The generated query builders, over the rows that satisfy the predicates in the
  requested order.  \<open>Only\<close> and \<open>First\<close> set the limit of the query
  themselves, so they overwrite one set before.\<close>

record 'a query =
  q_rows :: "'a list"
  q_limit :: "nat option"

definition query :: "'a list \<Rightarrow> 'a query" where
  "query rows = \<lparr>q_rows = rows, q_limit = None\<rparr>"

definition query_limit :: "nat \<Rightarrow> 'a query \<Rightarrow> 'a query" where
  "query_limit n q = q\<lparr>q_limit := Some n\<rparr>"

definition query_all :: "'a query \<Rightarrow> 'a list" where
  "query_all q = (case q_limit q of None \<Rightarrow> q_rows q | Some n \<Rightarrow> take n (q_rows q))"

definition query_only :: "string \<Rightarrow> 'a query \<Rightarrow> go_err + 'a" where
  "query_only label q =
     (case query_all (query_limit 2 q) of
        [] \<Rightarrow> Inl (NotFoundError label)
      | [r] \<Rightarrow> Inr r
      | _ \<Rightarrow> Inl (NotSingularError label))"

definition query_first :: "string \<Rightarrow> 'a query \<Rightarrow> go_err + 'a" where
  "query_first label q =
     (case query_all (query_limit 1 q) of
        [] \<Rightarrow> Inl (NotFoundError label)
      | r # _ \<Rightarrow> Inr r)"

definition select :: "(db \<Rightarrow> go_err + 'a) \<Rightarrow> db \<Rightarrow> go_err + 'a \<times> db" where
  "select q d = (case q d of Inl e \<Rightarrow> Inl e | Inr a \<Rightarrow> Inr (a, d))"

definition load_org :: "db \<Rightarrow> folder_row \<Rightarrow> org_row option" where
  "load_org d f = find (\<lambda>o'. org_id o' = folder_org f) (orgs d)"

definition load_folder :: "db \<Rightarrow> project_row \<Rightarrow> (folder_row \<times> org_row option) option" where
  "load_folder d p =
     map_option (\<lambda>f. (f, load_org d f)) (find (\<lambda>f. folder_id f = proj_folder p) (folders d))"

definition with_folder :: "db \<Rightarrow> project_row \<Rightarrow> project_node" where
  "with_folder d p = (p, load_folder d p)"

text \<open>\<open>project.HasFolderWith(folder.HasOrgWith(ps...))\<close>.\<close>

definition has_org_with :: "db \<Rightarrow> (org_row \<Rightarrow> bool) \<Rightarrow> project_row \<Rightarrow> bool" where
  "has_org_with d P p \<longleftrightarrow>
     (\<exists>f \<in> set (folders d). folder_id f = proj_folder p \<and>
        (\<exists>o' \<in> set (orgs d). org_id o' = folder_org f \<and> P o'))"

abbreviation org_active :: "org_row \<Rightarrow> bool" where
  "org_active o' \<equiv> org_deleted_at o' = None"

abbreviation proj_active :: "project_row \<Rightarrow> bool" where
  "proj_active p \<equiv> proj_deleted_at p = None"

section \<open>Builders\<close>

text \<open>The field validators of the schema: \<open>MaxLen(253)\<close> then \<open>NotEmpty()\<close>.\<close>

definition name_validator :: "string \<Rightarrow> string option" where
  "name_validator v =
     (if length v > 253 then Some ''value is greater than the required length''
      else if v = [] then Some ''value is less than the required length''
      else None)"

definition not_empty :: "string \<Rightarrow> string option" where
  "not_empty v = (if v = [] then Some ''value is less than the required length'' else None)"

definition max_len :: "string \<Rightarrow> string option" where
  "max_len v = (if length v > 253 then Some ''value is greater than the required length'' else None)"

definition validator_failed :: "string \<Rightarrow> string \<Rightarrow> string \<Rightarrow> go_err" where
  "validator_failed field qualified m =
     ValidationError field (''ent: validator failed for field '' @ [CHR 0x22] @ qualified @ [CHR 0x22] @ '': '' @ m)"

definition org_check :: "org_row \<Rightarrow> go_err option" where
  "org_check r = map_option (validator_failed ''name'' ''Org.name'') (name_validator (org_name r))"

definition insert_org :: "org_row \<Rightarrow> db \<Rightarrow> go_err + org_row \<times> db" where
  "insert_org r d =
     (if org_id r \<in> org_id ` set (orgs d) then Inl (ConstraintError ''orgs_pkey'')
      else if org_name r \<in> org_name ` set (orgs d) then Inl (ConstraintError ''orgs_name_key'')
      else Inr (r, d\<lparr>orgs := orgs d @ [r]\<rparr>))"

definition org_create :: "string \<Rightarrow> string \<Rightarrow> world \<Rightarrow> (go_err + org_row) \<times> world" where
  "org_create name description w =
     (let (c, w1) = now w; (u, w2) = now w1; (i, w3) = new_uuid w2;
          r = \<lparr>org_id = i, org_name = name, org_description = description,
               org_created_at = c, org_updated_at = u, org_deleted_at = None\<rparr>
      in case org_check r of
           Some e \<Rightarrow> (Inl e, w3)
         | None \<Rightarrow> in_tx (insert_org r) w3)"

definition folder_check :: "folder_row \<Rightarrow> go_err option" where
  "folder_check r =
     map_option (validator_failed ''name'' ''Folder.name'') (name_validator (folder_name r))"

definition insert_folder :: "folder_row \<Rightarrow> db \<Rightarrow> go_err + folder_row \<times> db" where
  "insert_folder r d =
     (if folder_id r \<in> folder_id ` set (folders d) then Inl (ConstraintError ''folders_pkey'')
      else if (folder_name r, folder_org r) \<in> (\<lambda>f. (folder_name f, folder_org f)) ` set (folders d)
      then Inl (ConstraintError ''folder_name_org_folders'')
      else if folder_org r \<notin> org_id ` set (orgs d)
      then Inl (ConstraintError ''folders_orgs_folders'')
      else Inr (r, d\<lparr>folders := folders d @ [r]\<rparr>))"

definition folder_create :: "string \<Rightarrow> org_row \<Rightarrow> world \<Rightarrow> (go_err + folder_row) \<times> world" where
  "folder_create name o' w =
     (let (c, w1) = now w; (u, w2) = now w1; (i, w3) = new_uuid w2;
          r = \<lparr>folder_id = i, folder_name = name, folder_created_at = c,
               folder_updated_at = u, folder_org = org_id o'\<rparr>
      in case folder_check r of
           Some e \<Rightarrow> (Inl e, w3)
         | None \<Rightarrow> in_tx (insert_folder r) w3)"

definition project_check :: "project_row \<Rightarrow> go_err option" where
  "project_check r =
     map_option (validator_failed ''name'' ''Project.name'') (name_validator (proj_name r))"

definition insert_project :: "project_row \<Rightarrow> db \<Rightarrow> go_err + project_row \<times> db" where
  "insert_project r d =
     (if proj_id r \<in> proj_id ` set (projects d) then Inl (ConstraintError ''projects_pkey'')
      else if (proj_name r, proj_folder r) \<in> (\<lambda>p. (proj_name p, proj_folder p)) ` set (projects d)
      then Inl (ConstraintError ''project_name_folder_projects'')
      else if proj_folder r \<notin> folder_id ` set (folders d)
      then Inl (ConstraintError ''projects_folders_projects'')
      else Inr (r, d\<lparr>projects := projects d @ [r]\<rparr>))"

definition project_create ::
  "string \<Rightarrow> string \<Rightarrow> folder_row \<Rightarrow> world \<Rightarrow> (go_err + project_row) \<times> world" where
  "project_create name description f w =
     (let (c, w1) = now w; (u, w2) = now w1; (i, w3) = new_uuid w2;
          r = \<lparr>proj_id = i, proj_name = name, proj_description = description,
               proj_created_at = c, proj_updated_at = u, proj_deleted_at = None,
               proj_folder = folder_id f\<rparr>
      in case project_check r of
           Some e \<Rightarrow> (Inl e, w3)
         | None \<Rightarrow> in_tx (insert_project r) w3)"

text \<open>Events: the check of tenancyevent\_create.go, in its order, and the BIGSERIAL key.\<close>

definition event_check :: "event_row \<Rightarrow> go_err option" where
  "event_check r =
     (case not_empty (ev_type r) of
        Some m \<Rightarrow> Some (validator_failed ''event_type'' ''TenancyEvent.event_type'' m)
      | None \<Rightarrow>
     (case not_empty (ev_resource_type r) of
        Some m \<Rightarrow> Some (validator_failed ''resource_type'' ''TenancyEvent.resource_type'' m)
      | None \<Rightarrow>
     (case max_len (ev_resource_name r) of
        Some m \<Rightarrow> Some (validator_failed ''resource_name'' ''TenancyEvent.resource_name'' m)
      | None \<Rightarrow>
     (case Option.bind (ev_org_name r) max_len of
        Some m \<Rightarrow> Some (validator_failed ''org_name'' ''TenancyEvent.org_name'' m)
      | None \<Rightarrow> None))))"

definition max_int64 :: int where
  "max_int64 = 9223372036854775807"

definition insert_event :: "event_row \<Rightarrow> db \<Rightarrow> go_err + event_row \<times> db" where
  "insert_event r d =
     (if ev_id r > max_int64 then Inl (Errorf ''nextval: reached maximum value of sequence'')
      else if ev_id r \<in> ev_id ` set (events d) then Inl (ConstraintError ''tenancy_events_pkey'')
      else Inr (r, d\<lparr>events := events d @ [r]\<rparr>))"

definition event_create :: "event_row \<Rightarrow> world \<Rightarrow> (go_err + event_row) \<times> world" where
  "event_create e w =
     (let (c, w1) = now w;
          r = e\<lparr>ev_id := event_seq w1, ev_created_at := c\<rparr>
      in case event_check r of
           Some err \<Rightarrow> (Inl err, w1)
         | None \<Rightarrow>
             (case in_tx (insert_event r) w1 of
                (res, w2) \<Rightarrow>
                  (res, if next_fault w1 = None then w2\<lparr>event_seq := event_seq w2 + 1\<rparr> else w2)))"

text \<open>An event before \<open>Save\<close>: the fields the caller sets.\<close>

definition new_event :: "string \<Rightarrow> string \<Rightarrow> uuid \<Rightarrow> string \<Rightarrow> event_row" where
  "new_event t rt rid rn =
     \<lparr>ev_id = 0, ev_type = t, ev_resource_type = rt, ev_resource_id = rid, ev_resource_name = rn,
      ev_org_id = None, ev_org_name = None, ev_folder_id = None, ev_created_at = 0\<rparr>"

section \<open>Updates and deletes\<close>

text \<open>\<open>Update().Where(ID(i), DeletedAtIsNil()).SetDeletedAt(t).Save\<close>: the guarded
  soft delete; \<open>updated_at\<close> takes its update default.  The result is the number of rows
  the statement changed.\<close>

definition soft_delete_orgs :: "uuid \<Rightarrow> instant \<Rightarrow> instant \<Rightarrow> db \<Rightarrow> go_err + nat \<times> db" where
  "soft_delete_orgs i t u d =
     (let P = (\<lambda>r. org_id r = i \<and> org_active r) in
      Inr (length (filter P (orgs d)),
           d\<lparr>orgs := map (\<lambda>r. if P r then r\<lparr>org_deleted_at := Some t, org_updated_at := u\<rparr> else r)
                       (orgs d)\<rparr>))"

definition org_set_deleted_at :: "uuid \<Rightarrow> instant \<Rightarrow> world \<Rightarrow> (go_err + nat) \<times> world" where
  "org_set_deleted_at i t w = (let (u, w1) = now w in in_tx (soft_delete_orgs i t u) w1)"

definition soft_delete_projects :: "uuid \<Rightarrow> instant \<Rightarrow> instant \<Rightarrow> db \<Rightarrow> go_err + nat \<times> db" where
  "soft_delete_projects i t u d =
     (let P = (\<lambda>r. proj_id r = i \<and> proj_active r) in
      Inr (length (filter P (projects d)),
           d\<lparr>projects := map (\<lambda>r. if P r then r\<lparr>proj_deleted_at := Some t, proj_updated_at := u\<rparr> else r)
                           (projects d)\<rparr>))"

definition project_set_deleted_at :: "uuid \<Rightarrow> instant \<Rightarrow> world \<Rightarrow> (go_err + nat) \<times> world" where
  "project_set_deleted_at i t w = (let (u, w1) = now w in in_tx (soft_delete_projects i t u) w1)"

text \<open>\<open>o.Update().SetDescription(s).Save\<close>: one row by id, returned as updated.\<close>

definition describe_org :: "uuid \<Rightarrow> string \<Rightarrow> instant \<Rightarrow> db \<Rightarrow> go_err + org_row \<times> db" where
  "describe_org i s u d =
     (case find (\<lambda>r. org_id r = i) (orgs d) of
        None \<Rightarrow> Inl (NotFoundError ''org'')
      | Some r \<Rightarrow>
          Inr (r\<lparr>org_description := s, org_updated_at := u\<rparr>,
               d\<lparr>orgs := map (\<lambda>r. if org_id r = i
                              then r\<lparr>org_description := s, org_updated_at := u\<rparr> else r) (orgs d)\<rparr>))"

definition org_set_description :: "uuid \<Rightarrow> string \<Rightarrow> world \<Rightarrow> (go_err + org_row) \<times> world" where
  "org_set_description i s w = (let (u, w1) = now w in in_tx (describe_org i s u) w1)"

definition describe_project :: "uuid \<Rightarrow> string \<Rightarrow> instant \<Rightarrow> db \<Rightarrow> go_err + project_row \<times> db" where
  "describe_project i s u d =
     (case find (\<lambda>r. proj_id r = i) (projects d) of
        None \<Rightarrow> Inl (NotFoundError ''project'')
      | Some r \<Rightarrow>
          Inr (r\<lparr>proj_description := s, proj_updated_at := u\<rparr>,
               d\<lparr>projects := map (\<lambda>r. if proj_id r = i
                                  then r\<lparr>proj_description := s, proj_updated_at := u\<rparr> else r) (projects d)\<rparr>))"

definition project_set_description :: "uuid \<Rightarrow> string \<Rightarrow> world \<Rightarrow> (go_err + project_row) \<times> world" where
  "project_set_description i s w = (let (u, w1) = now w in in_tx (describe_project i s u) w1)"

text \<open>Controller statuses: the enum validator, the update by key and the insert.\<close>

definition status_validator :: "string \<Rightarrow> string option" where
  "status_validator s =
     (if s \<in> set [''in_progress'', ''completed'', ''error''] then None
      else Some (''controllerstatus: invalid enum value for status field: '' @ quote s))"

definition status_key :: "string \<Rightarrow> string \<Rightarrow> uuid \<Rightarrow> status_row \<Rightarrow> bool" where
  "status_key c rt i r \<longleftrightarrow> cs_controller r = c \<and> cs_resource_type r = rt \<and> cs_resource_id r = i"

definition update_statuses ::
  "string \<Rightarrow> string \<Rightarrow> uuid \<Rightarrow> string \<Rightarrow> string \<Rightarrow> instant \<Rightarrow> db \<Rightarrow> go_err + nat \<times> db" where
  "update_statuses c rt i st msg u d =
     Inr (length (filter (status_key c rt i) (statuses d)),
          d\<lparr>statuses := map (\<lambda>r. if status_key c rt i r
                              then r\<lparr>cs_status := st, cs_message := msg, cs_updated_at := u\<rparr> else r)
                         (statuses d)\<rparr>)"

definition status_update ::
  "string \<Rightarrow> string \<Rightarrow> uuid \<Rightarrow> string \<Rightarrow> string \<Rightarrow> world \<Rightarrow> (go_err + nat) \<times> world" where
  "status_update c rt i st msg w =
     (let (u, w1) = now w in
      case status_validator st of
        Some m \<Rightarrow> (Inl (validator_failed ''status'' ''ControllerStatus.status'' m), w1)
      | None \<Rightarrow> in_db (update_statuses c rt i st msg u) w1)"

definition status_check :: "status_row \<Rightarrow> go_err option" where
  "status_check r =
     (case not_empty (cs_controller r) of
        Some m \<Rightarrow> Some (validator_failed ''controller_name'' ''ControllerStatus.controller_name'' m)
      | None \<Rightarrow>
     (case not_empty (cs_resource_type r) of
        Some m \<Rightarrow> Some (validator_failed ''resource_type'' ''ControllerStatus.resource_type'' m)
      | None \<Rightarrow>
     (case status_validator (cs_status r) of
        Some m \<Rightarrow> Some (validator_failed ''status'' ''ControllerStatus.status'' m)
      | None \<Rightarrow> None)))"

definition insert_status :: "status_row \<Rightarrow> db \<Rightarrow> go_err + unit \<times> db" where
  "insert_status r d =
     (if \<exists>s \<in> set (statuses d). status_key (cs_controller r) (cs_resource_type r) (cs_resource_id r) s
      then Inl (ConstraintError ''controllerstatus_controller_name_resource_type_resource_id'')
      else Inr ((), d\<lparr>statuses := statuses d @ [r]\<rparr>))"

definition status_create ::
  "string \<Rightarrow> string \<Rightarrow> uuid \<Rightarrow> string \<Rightarrow> string \<Rightarrow> world \<Rightarrow> (go_err + unit) \<times> world" where
  "status_create c rt i st msg w =
     (let (u, w1) = now w;
          r = \<lparr>cs_controller = c, cs_resource_type = rt, cs_resource_id = i, cs_status = st,
               cs_message = msg, cs_updated_at = u\<rparr>
      in case status_check r of
           Some e \<Rightarrow> (Inl e, w1)
         | None \<Rightarrow> in_db (insert_status r) w1)"

text \<open>Deletes.  A row that another row references is kept: the foreign keys are declared
  with \<open>OnDelete: NoAction\<close>.\<close>

definition delete_statuses :: "(status_row \<Rightarrow> bool) \<Rightarrow> db \<Rightarrow> go_err + nat \<times> db" where
  "delete_statuses P d =
     Inr (length (filter P (statuses d)), d\<lparr>statuses := filter (\<lambda>r. \<not> P r) (statuses d)\<rparr>)"

definition delete_events :: "(event_row \<Rightarrow> bool) \<Rightarrow> db \<Rightarrow> go_err + nat \<times> db" where
  "delete_events P d =
     Inr (length (filter P (events d)), d\<lparr>events := filter (\<lambda>r. \<not> P r) (events d)\<rparr>)"

definition delete_folders :: "(folder_row \<Rightarrow> bool) \<Rightarrow> db \<Rightarrow> go_err + nat \<times> db" where
  "delete_folders P d =
     (if \<exists>f \<in> set (folders d). P f \<and> folder_id f \<in> proj_folder ` set (projects d)
      then Inl (ConstraintError ''projects_folders_projects'')
      else Inr (length (filter P (folders d)), d\<lparr>folders := filter (\<lambda>f. \<not> P f) (folders d)\<rparr>))"

definition delete_one_project :: "uuid \<Rightarrow> db \<Rightarrow> go_err + unit \<times> db" where
  "delete_one_project i d =
     (if i \<notin> proj_id ` set (projects d) then Inl (NotFoundError ''project'')
      else Inr ((), d\<lparr>projects := filter (\<lambda>p. proj_id p \<noteq> i) (projects d)\<rparr>))"

definition delete_one_org :: "uuid \<Rightarrow> db \<Rightarrow> go_err + unit \<times> db" where
  "delete_one_org i d =
     (if i \<in> folder_org ` set (folders d) then Inl (ConstraintError ''folders_orgs_folders'')
      else if i \<notin> org_id ` set (orgs d) then Inl (NotFoundError ''org'')
      else Inr ((), d\<lparr>orgs := filter (\<lambda>r. org_id r \<noteq> i) (orgs d)\<rparr>))"

section \<open>A concrete session\<close>

text \<open>An empty database behind a driver without faults; used to evaluate the model.\<close>

definition sample_env :: environment where
  "sample_env = \<lparr>fault_at = (\<lambda>_. None), clock_at = (\<lambda>n. int n), uuid_at = (\<lambda>n. word_of_nat n)\<rparr>"

definition sample_world :: world where
  "sample_world =
     \<lparr>tables = \<lparr>orgs = [], folders = [], projects = [], events = [], statuses = []\<rparr>, tx = None,
      event_seq = 1, env = sample_env, ticks = 1\<rparr>"

section \<open>How the session acts on a world\<close>

text \<open>What no statement inside a transaction touches: the committed tables and the
  environment; the event sequence only grows.\<close>

definition frame :: "world \<Rightarrow> world \<Rightarrow> bool" where
  "frame w w' \<longleftrightarrow> tables w' = tables w \<and> env w' = env w \<and> event_seq w \<le> event_seq w'"

lemma frame_refl [simp, intro]: "frame w w"
  by (simp add: frame_def)

lemma frame_trans: "frame u v \<Longrightarrow> frame v w \<Longrightarrow> frame u w"
  by (simp add: frame_def)

lemma tick_simps [simp]:
  "tables (tick w) = tables w" "tx (tick w) = tx w" "event_seq (tick w) = event_seq w"
  "env (tick w) = env w" "ticks (tick w) = Suc (ticks w)"
  by (simp_all add: tick_def)

lemma nowD: "now w = (t, w') \<Longrightarrow> frame w w' \<and> tx w' = tx w \<and> event_seq w' = event_seq w"
  by (auto simp: now_def frame_def)

lemma begin_txD:
  "begin_tx w = (r, w') \<Longrightarrow>
     frame w w' \<and> event_seq w' = event_seq w \<and>
     tx w' = (case r of Inl _ \<Rightarrow> tx w | Inr _ \<Rightarrow> Some (tables w))"
  by (auto simp: begin_tx_def frame_def split: option.splits)

text \<open>Only an environment that loses an acknowledgement makes a commit report an error after
  it took effect.\<close>

definition loses_ack :: "world \<Rightarrow> bool" where
  "loses_ack w \<longleftrightarrow> (\<exists>k m. fault_at (env w) k = Some (LostAck m))"

lemma loses_ack_cong: "env w' = env w \<Longrightarrow> loses_ack w' = loses_ack w"
  by (simp add: loses_ack_def)

lemma commit_txD:
  "commit_tx w = (r, w') \<Longrightarrow> \<forall>d. tx w = Some d \<longrightarrow>
     tx w' = None \<and> env w' = env w \<and> event_seq w' = event_seq w \<and>
     (case r of Inl _ \<Rightarrow> tables w' = tables w \<or> tables w' = d \<and> loses_ack w | Inr _ \<Rightarrow> tables w' = d)"
  by (auto simp: commit_tx_def loses_ack_def next_fault_def split: option.splits fault.splits)

lemma rollback_txD: "rollback_tx w = (r, w') \<Longrightarrow> frame w w' \<and> event_seq w' = event_seq w \<and> tx w' = None"
  by (auto simp: rollback_tx_def frame_def split: option.splits)

lemma in_txD:
  "in_tx f w = (r, w') \<Longrightarrow> \<forall>d. tx w = Some d \<longrightarrow>
     frame w w' \<and> event_seq w' = event_seq w \<and>
     (case r of
        Inl _ \<Rightarrow> tx w' = Some d
      | Inr a \<Rightarrow> \<exists>d'. f d = Inr (a, d') \<and> tx w' = Some d' \<and> next_fault w = None)"
  by (auto simp: in_tx_def frame_def split: option.splits sum.splits)

lemma in_tx_selectD:
  "in_tx (select q) w = (r, w') \<Longrightarrow> \<forall>d. tx w = Some d \<longrightarrow>
     frame w w' \<and> event_seq w' = event_seq w \<and> tx w' = Some d \<and>
     (case r of Inl _ \<Rightarrow> True | Inr a \<Rightarrow> q d = Inr a)"
  by (auto simp: in_tx_def frame_def select_def split: option.splits sum.splits)

text \<open>A read through the store's client changes no table.\<close>

lemma in_db_selectD:
  "in_db (select q) w = (r, w') \<Longrightarrow>
     tables w' = tables w \<and> tx w' = tx w \<and> env w' = env w \<and> event_seq w' = event_seq w \<and>
     (case r of Inl e \<Rightarrow> next_fault w = None \<longrightarrow> q (tables w) = Inl e | Inr a \<Rightarrow> q (tables w) = Inr a)"
  by (auto simp: in_db_def select_def split: option.splits fault.splits sum.splits)

lemma in_db_select_ok:
  "next_fault w = None \<Longrightarrow> in_db (select q) w = (q (tables w), tick w\<lparr>tables := tables w\<rparr>)"
  by (auto simp: in_db_def select_def tick_def split: sum.splits)

lemma in_dbD:
  "in_db f w = (r, w') \<Longrightarrow>
     tx w' = tx w \<and> env w' = env w \<and> event_seq w' = event_seq w \<and>
     (tables w' = tables w \<or> (\<exists>a d'. f (tables w) = Inr (a, d') \<and> tables w' = d')) \<and>
     (\<forall>a. r = Inr a \<longrightarrow> (\<exists>d'. f (tables w) = Inr (a, d') \<and> tables w' = d'))"
  by (auto simp: in_db_def split: option.splits fault.splits sum.splits)

lemma query_only_Inr: "query_only l (query rows) = Inr r \<longleftrightarrow> rows = [r]"
  by (auto simp: query_only_def query_all_def query_limit_def query_def numeral_2_eq_2
      split: list.splits) (case_tac rows; case_tac "tl rows"; simp)+

lemma query_all_query [simp]: "query_all (query rows) = rows"
  by (simp add: query_all_def query_def)

section \<open>What the builders do inside a transaction\<close>

abbreviation valid_name :: "string \<Rightarrow> bool" where
  "valid_name n \<equiv> name_validator n = None"

lemma org_createD:
  "org_create n s w = (r, w') \<Longrightarrow> \<forall>d. tx w = Some d \<longrightarrow>
     frame w w' \<and> event_seq w' = event_seq w \<and>
     (case r of
        Inl _ \<Rightarrow> tx w' = Some d
      | Inr o' \<Rightarrow> tx w' = Some (d\<lparr>orgs := orgs d @ [o']\<rparr>) \<and> org_name o' = n \<and>
          org_description o' = s \<and> org_active o' \<and> valid_name n \<and>
          org_id o' \<notin> org_id ` set (orgs d) \<and> n \<notin> org_name ` set (orgs d))"
  by (auto simp: org_create_def now_def new_uuid_def insert_org_def org_check_def in_tx_def frame_def
      Let_def split: option.splits sum.splits if_splits)

lemma folder_createD:
  "folder_create n o' w = (r, w') \<Longrightarrow> \<forall>d. tx w = Some d \<longrightarrow>
     frame w w' \<and> event_seq w' = event_seq w \<and>
     (case r of
        Inl _ \<Rightarrow> tx w' = Some d
      | Inr f \<Rightarrow> tx w' = Some (d\<lparr>folders := folders d @ [f]\<rparr>) \<and> folder_name f = n \<and>
          folder_org f = org_id o' \<and> folder_id f \<notin> folder_id ` set (folders d) \<and>
          (n, org_id o') \<notin> (\<lambda>f. (folder_name f, folder_org f)) ` set (folders d) \<and>
          org_id o' \<in> org_id ` set (orgs d))"
  by (auto simp: folder_create_def now_def new_uuid_def insert_folder_def folder_check_def in_tx_def
      frame_def Let_def split: option.splits sum.splits if_splits)

lemma project_createD:
  "project_create n s f w = (r, w') \<Longrightarrow> \<forall>d. tx w = Some d \<longrightarrow>
     frame w w' \<and> event_seq w' = event_seq w \<and>
     (case r of
        Inl _ \<Rightarrow> tx w' = Some d
      | Inr p \<Rightarrow> tx w' = Some (d\<lparr>projects := projects d @ [p]\<rparr>) \<and> proj_name p = n \<and>
          proj_description p = s \<and> proj_active p \<and> valid_name n \<and> proj_folder p = folder_id f \<and>
          proj_id p \<notin> proj_id ` set (projects d) \<and>
          (n, folder_id f) \<notin> (\<lambda>p. (proj_name p, proj_folder p)) ` set (projects d))"
  by (auto simp: project_create_def now_def new_uuid_def insert_project_def project_check_def in_tx_def
      frame_def Let_def split: option.splits sum.splits if_splits)

text \<open>An event up to the key and the time stamp that \<open>Save\<close> fills in.\<close>

definition payload :: "event_row \<Rightarrow> event_row" where
  "payload e = e\<lparr>ev_id := 0, ev_created_at := 0\<rparr>"

lemma payload_fields [simp]:
  "ev_type (payload e) = ev_type e" "ev_resource_type (payload e) = ev_resource_type e"
  "ev_resource_id (payload e) = ev_resource_id e"
  by (simp_all add: payload_def)

lemma payload_new_event [simp]: "payload (new_event t rt i n) = new_event t rt i n"
  by (simp add: payload_def new_event_def)

lemma event_createD:
  "event_create e w = (r, w') \<Longrightarrow> \<forall>d. tx w = Some d \<longrightarrow>
     frame w w' \<and>
     (case r of
        Inl _ \<Rightarrow> tx w' = Some d
      | Inr e' \<Rightarrow> tx w' = Some (d\<lparr>events := events d @ [e']\<rparr>) \<and> payload e' = payload e \<and>
          ev_id e' = event_seq w \<and> event_seq w' = event_seq w + 1)"
  by (auto simp: event_create_def now_def insert_event_def in_tx_def frame_def payload_def
      next_fault_def Let_def split: option.splits sum.splits if_splits)

lemma org_set_deleted_atD:
  "org_set_deleted_at i t w = (r, w') \<Longrightarrow> \<forall>d. tx w = Some d \<longrightarrow>
     frame w w' \<and> event_seq w' = event_seq w \<and>
     (case r of
        Inl _ \<Rightarrow> tx w' = Some d
      | Inr k \<Rightarrow> \<exists>u d'. soft_delete_orgs i t u d = Inr (k, d') \<and> tx w' = Some d' \<and> events d' = events d)"
  by (auto simp: org_set_deleted_at_def soft_delete_orgs_def now_def in_tx_def frame_def split: option.splits sum.splits)

lemma project_set_deleted_atD:
  "project_set_deleted_at i t w = (r, w') \<Longrightarrow> \<forall>d. tx w = Some d \<longrightarrow>
     frame w w' \<and> event_seq w' = event_seq w \<and>
     (case r of
        Inl _ \<Rightarrow> tx w' = Some d
      | Inr k \<Rightarrow> \<exists>u d'. soft_delete_projects i t u d = Inr (k, d') \<and> tx w' = Some d' \<and> events d' = events d)"
  by (auto simp: project_set_deleted_at_def soft_delete_projects_def now_def in_tx_def frame_def split: option.splits sum.splits)

lemma org_set_descriptionD:
  "org_set_description i s w = (r, w') \<Longrightarrow> \<forall>d. tx w = Some d \<longrightarrow>
     frame w w' \<and> event_seq w' = event_seq w \<and>
     (case r of
        Inl _ \<Rightarrow> tx w' = Some d
      | Inr o' \<Rightarrow> \<exists>u d'. describe_org i s u d = Inr (o', d') \<and> tx w' = Some d')"
  by (auto simp: org_set_description_def now_def in_tx_def frame_def split: option.splits sum.splits)

lemma project_set_descriptionD:
  "project_set_description i s w = (r, w') \<Longrightarrow> \<forall>d. tx w = Some d \<longrightarrow>
     frame w w' \<and> event_seq w' = event_seq w \<and>
     (case r of
        Inl _ \<Rightarrow> tx w' = Some d
      | Inr p \<Rightarrow> \<exists>u d'. describe_project i s u d = Inr (p, d') \<and> tx w' = Some d')"
  by (auto simp: project_set_description_def now_def in_tx_def frame_def split: option.splits sum.splits)

end
