(* ===== verification/Tenancy_Store.thy ===== *)
theory Tenancy_Store
  imports Tenancy_Db
begin

text \<open>
  The store of the Tenant Manager, tenancy-manager/internal/store/store.go: one definition per
  method, over the session of \<open>Tenancy_Db\<close>.  Every early return, rollback and
  guarded update of the source is a branch here; the result is the Go result with the world
  after the call.
\<close>

section \<open>Rollback\<close>

definition rollback :: "go_err \<Rightarrow> world \<Rightarrow> go_err \<times> world" where
  "rollback err w =
     (case rollback_tx w of
        (Inl rerr, w') \<Rightarrow> (Wrap (err_text err @ '': '' @ err_text rerr) err, w')
      | (Inr _, w') \<Rightarrow> (err, w'))"

text \<open>\<open>return nil, rollback(tx, err)\<close>.\<close>

definition return_rollback :: "go_err \<Rightarrow> world \<Rightarrow> (go_err + 'a) \<times> world" where
  "return_rollback err w = (case rollback err w of (e, w') \<Rightarrow> (Inl e, w'))"

text \<open>\<open>if err := tx.Commit(); err != nil { return nil, err }\<close> and then the result.\<close>

definition return_commit :: "'a \<Rightarrow> world \<Rightarrow> (go_err + 'a) \<times> world" where
  "return_commit a w =
     (case commit_tx w of (Inl err, w') \<Rightarrow> (Inl err, w') | (Inr _, w') \<Rightarrow> (Inr a, w'))"

section \<open>Org operations\<close>

definition org_by_name :: "string \<Rightarrow> db \<Rightarrow> go_err + org_row" where
  "org_by_name name d =
     query_only ''org'' (query (filter (\<lambda>r. org_name r = name \<and> org_active r) (orgs d)))"

definition CreateOrg :: "string \<Rightarrow> string \<Rightarrow> world \<Rightarrow> (go_err + org_row) \<times> world" where
  "CreateOrg name description w =
     (case begin_tx w of
        (Inl err, w) \<Rightarrow> (Inl err, w)
      | (Inr _, w) \<Rightarrow>
     (case org_create name description w of
        (Inl err, w) \<Rightarrow> return_rollback err w
      | (Inr o', w) \<Rightarrow>
     (case folder_create ''default'' o' w of
        (Inl err, w) \<Rightarrow> return_rollback err w
      | (Inr _, w) \<Rightarrow>
     (case event_create (new_event ''created'' ''org'' (org_id o') (org_name o')) w of
        (Inl err, w) \<Rightarrow> return_rollback err w
      | (Inr _, w) \<Rightarrow>
          return_commit o' w))))"

definition GetOrgNamesByUUIDs :: "uuid list \<Rightarrow> world \<Rightarrow> (go_err + (uuid \<rightharpoonup> string)) \<times> world" where
  "GetOrgNamesByUUIDs ids w =
     (if ids = [] then (Inr Map.empty, w)
      else case in_db (select (\<lambda>d. Inr (query_all (query
               (filter (\<lambda>r. org_id r \<in> set ids \<and> org_active r) (orgs d)))))) w of
             (Inl err, w) \<Rightarrow> (Inl (Wrap (''querying orgs by UUID: '' @ err_text err) err), w)
           | (Inr rows, w) \<Rightarrow>
               (Inr (foldl (\<lambda>m r. m(org_id r \<mapsto> org_name r)) Map.empty rows), w))"

definition GetOrg :: "string \<Rightarrow> world \<Rightarrow> (go_err + org_row) \<times> world" where
  "GetOrg name w = in_db (select (org_by_name name)) w"

definition ListOrgs :: "world \<Rightarrow> (go_err + org_row list) \<times> world" where
  "ListOrgs w =
     in_db (select (\<lambda>d. Inr (query_all (query (sort_key org_name (filter org_active (orgs d))))))) w"

definition UpdateOrg :: "string \<Rightarrow> string \<Rightarrow> world \<Rightarrow> (go_err + org_row) \<times> world" where
  "UpdateOrg name description w =
     (case begin_tx w of
        (Inl err, w) \<Rightarrow> (Inl err, w)
      | (Inr _, w) \<Rightarrow>
     (case in_tx (select (org_by_name name)) w of
        (Inl err, w) \<Rightarrow> return_rollback err w
      | (Inr o', w) \<Rightarrow>
     (case org_set_description (org_id o') description w of
        (Inl err, w) \<Rightarrow> return_rollback err w
      | (Inr updated, w) \<Rightarrow>
          return_commit updated w)))"

text \<open>The loop of \<open>DeleteOrg\<close> over the active projects; an error leaves the loop.\<close>

definition project_deleted_event :: "org_row \<Rightarrow> project_node \<Rightarrow> event_row" where
  "project_deleted_event o' n =
     (let p = fst n;
          ev = (new_event ''deleted'' ''project'' (proj_id p) (proj_name p))
                 \<lparr>ev_org_id := Some (org_id o'), ev_org_name := Some (org_name o')\<rparr>
      in case snd n of
           Some (f, _) \<Rightarrow> ev\<lparr>ev_folder_id := Some (folder_id f)\<rparr>
         | None \<Rightarrow> ev)"

fun delete_org_projects ::
  "org_row \<Rightarrow> instant \<Rightarrow> project_node list \<Rightarrow> world \<Rightarrow> (go_err + unit) \<times> world" where
  "delete_org_projects o' t [] w = (Inr (), w)"
| "delete_org_projects o' t (n # ns) w =
     (case project_set_deleted_at (proj_id (fst n)) t w of
        (Inl err, w) \<Rightarrow> (Inl err, w)
      | (Inr k, w) \<Rightarrow>
          if k = 0 then delete_org_projects o' t ns w
          else
            (case event_create (project_deleted_event o' n) w of
               (Inl err, w) \<Rightarrow> (Inl err, w)
             | (Inr _, w) \<Rightarrow> delete_org_projects o' t ns w))"

definition active_projects_of_org :: "uuid \<Rightarrow> db \<Rightarrow> project_node list" where
  "active_projects_of_org i d =
     query_all (query (map (with_folder d)
       (filter (\<lambda>p. has_org_with d (\<lambda>r. org_id r = i) p \<and> proj_active p) (projects d))))"

definition DeleteOrg :: "string \<Rightarrow> world \<Rightarrow> (go_err + unit) \<times> world" where
  "DeleteOrg name w =
     (case begin_tx w of
        (Inl err, w) \<Rightarrow> (Inl err, w)
      | (Inr _, w) \<Rightarrow>
     (case in_tx (select (org_by_name name)) w of
        (Inl err, w) \<Rightarrow> return_rollback err w
      | (Inr o', w) \<Rightarrow>
     (case in_tx (select (\<lambda>d. Inr (active_projects_of_org (org_id o') d))) w of
        (Inl err, w) \<Rightarrow> return_rollback err w
      | (Inr activeProjects, w) \<Rightarrow>
     (case now w of
        (t, w) \<Rightarrow>
     (case delete_org_projects o' t activeProjects w of
        (Inl err, w) \<Rightarrow> return_rollback err w
      | (Inr _, w) \<Rightarrow>
     (case org_set_deleted_at (org_id o') t w of
        (Inl err, w) \<Rightarrow> return_rollback err w
      | (Inr n, w) \<Rightarrow>
          if n = 0 then return_rollback (NotFoundError []) w
          else
     (case event_create (new_event ''deleted'' ''org'' (org_id o') (org_name o')) w of
        (Inl err, w) \<Rightarrow> return_rollback err w
      | (Inr _, w) \<Rightarrow> commit_tx w)))))))"

definition GetOrgIncludingDeleted :: "string \<Rightarrow> world \<Rightarrow> (go_err + org_row) \<times> world" where
  "GetOrgIncludingDeleted name w =
     in_db (select (\<lambda>d. query_only ''org'' (query (filter (\<lambda>r. org_name r = name) (orgs d))))) w"

section \<open>Project operations\<close>

definition default_folder :: "uuid \<Rightarrow> db \<Rightarrow> go_err + folder_row" where
  "default_folder i d =
     query_only ''folder'' (query
       (filter (\<lambda>f. folder_name f = ''default'' \<and>
          (\<exists>r \<in> set (orgs d). org_id r = folder_org f \<and> org_id r = i)) (folders d)))"

definition CreateProject ::
  "string \<Rightarrow> string \<Rightarrow> string \<Rightarrow> world \<Rightarrow> (go_err + project_row \<times> org_row) \<times> world" where
  "CreateProject orgName projectName description w =
     (case begin_tx w of
        (Inl err, w) \<Rightarrow> (Inl err, w)
      | (Inr _, w) \<Rightarrow>
     (case in_tx (select (org_by_name orgName)) w of
        (Inl err, w) \<Rightarrow> return_rollback err w
      | (Inr o', w) \<Rightarrow>
     (case in_tx (select (default_folder (org_id o'))) w of
        (Inl err, w) \<Rightarrow> return_rollback err w
      | (Inr f, w) \<Rightarrow>
     (case project_create projectName description f w of
        (Inl err, w) \<Rightarrow> return_rollback err w
      | (Inr p, w) \<Rightarrow>
     (case event_create
              ((new_event ''created'' ''project'' (proj_id p) (proj_name p))
                 \<lparr>ev_org_id := Some (org_id o'), ev_org_name := Some (org_name o'),
                  ev_folder_id := Some (folder_id f)\<rparr>) w of
        (Inl err, w) \<Rightarrow> return_rollback err w
      | (Inr _, w) \<Rightarrow>
          return_commit (p, o') w)))))"

text \<open>The org a node was loaded with: nil when an edge is missing.\<close>

definition node_org :: "project_node \<Rightarrow> org_row option" where
  "node_org n = (case snd n of None \<Rightarrow> None | Some (f, o') \<Rightarrow> o')"

definition GetProjectByID ::
  "uuid \<Rightarrow> world \<Rightarrow> (go_err + project_row \<times> org_row option) \<times> world" where
  "GetProjectByID i w =
     (case in_db (select (\<lambda>d. query_only ''project'' (query (map (with_folder d)
              (filter (\<lambda>p. proj_id p = i \<and> proj_active p) (projects d)))))) w of
        (Inl err, w) \<Rightarrow> (Inl err, w)
      | (Inr n, w) \<Rightarrow> (Inr (fst n, node_org n), w))"

text \<open>The query by name that \<open>GetProject\<close>, \<open>UpdateProject\<close> and
  \<open>DeleteProject\<close> build: scoped to active orgs when a scope is given.\<close>

definition denied :: "string list option \<Rightarrow> bool" where
  "denied orgNames \<longleftrightarrow> orgNames = Some []"

definition in_scope :: "db \<Rightarrow> string list option \<Rightarrow> project_row \<Rightarrow> bool" where
  "in_scope d orgNames p \<longleftrightarrow>
     (case orgNames of
        None \<Rightarrow> True
      | Some ns \<Rightarrow> ns = [] \<or> has_org_with d (\<lambda>r. org_name r \<in> set ns \<and> org_active r) p)"

definition projects_named :: "string \<Rightarrow> string list option \<Rightarrow> db \<Rightarrow> project_node list" where
  "projects_named name orgNames d =
     query_all (query (map (with_folder d)
       (filter (\<lambda>p. proj_name p = name \<and> proj_active p \<and> in_scope d orgNames p) (projects d))))"

definition ambiguous :: "string \<Rightarrow> go_err" where
  "ambiguous name = Errorf (''ambiguous project name '' @ quote name @ '' exists in multiple orgs'')"

definition GetProject ::
  "string \<Rightarrow> string list option \<Rightarrow> world \<Rightarrow> (go_err + project_row \<times> org_row option) \<times> world" where
  "GetProject name orgNames w =
     (if denied orgNames then (Inl (NotFoundError []), w)
      else case in_db (select (\<lambda>d. Inr (projects_named name orgNames d))) w of
             (Inl err, w) \<Rightarrow> (Inl err, w)
           | (Inr ps, w) \<Rightarrow>
               (case ps of
                  [] \<Rightarrow> (Inl (NotFoundError []), w)
                | [n] \<Rightarrow> (Inr (fst n, node_org n), w)
                | _ \<Rightarrow> (Inl (ambiguous name), w)))"

definition ListProjects ::
  "string list option \<Rightarrow> world \<Rightarrow> (go_err + project_node list) \<times> world" where
  "ListProjects orgNames w =
     (if denied orgNames then (Inr [], w)
      else in_db (select (\<lambda>d. Inr (query_all (query (map (with_folder d) (sort_key proj_name
             (filter (\<lambda>p. proj_active p \<and> in_scope d orgNames p) (projects d)))))))) w)"

definition UpdateProject ::
  "string \<Rightarrow> string list option \<Rightarrow> string \<Rightarrow> world
     \<Rightarrow> (go_err + project_row \<times> org_row option) \<times> world" where
  "UpdateProject name orgNames description w =
     (if denied orgNames then (Inl (NotFoundError []), w)
      else
     (case begin_tx w of
        (Inl err, w) \<Rightarrow> (Inl err, w)
      | (Inr _, w) \<Rightarrow>
     (case in_tx (select (\<lambda>d. Inr (projects_named name orgNames d))) w of
        (Inl err, w) \<Rightarrow> return_rollback err w
      | (Inr ps, w) \<Rightarrow>
     (case ps of
        [] \<Rightarrow> return_rollback (NotFoundError []) w
      | [n] \<Rightarrow>
     (case project_set_description (proj_id (fst n)) description w of
        (Inl err, w) \<Rightarrow> return_rollback err w
      | (Inr updated, w) \<Rightarrow>
          return_commit (updated, node_org n) w)
      | _ \<Rightarrow> return_rollback (ambiguous name) w))))"

definition deleted_event_of :: "project_node \<Rightarrow> event_row" where
  "deleted_event_of n =
     (let p = fst n;
          ev = new_event ''deleted'' ''project'' (proj_id p) (proj_name p);
          ev1 = (case node_org n of
                   Some o' \<Rightarrow> ev\<lparr>ev_org_id := Some (org_id o'), ev_org_name := Some (org_name o')\<rparr>
                 | None \<Rightarrow> ev)
      in case snd n of
           Some (f, _) \<Rightarrow> ev1\<lparr>ev_folder_id := Some (folder_id f)\<rparr>
         | None \<Rightarrow> ev1)"

definition DeleteProject ::
  "string \<Rightarrow> string list option \<Rightarrow> world \<Rightarrow> (go_err + unit) \<times> world" where
  "DeleteProject name orgNames w =
     (if denied orgNames then (Inl (NotFoundError []), w)
      else
     (case begin_tx w of
        (Inl err, w) \<Rightarrow> (Inl err, w)
      | (Inr _, w) \<Rightarrow>
     (case in_tx (select (\<lambda>d. Inr (projects_named name orgNames d))) w of
        (Inl err, w) \<Rightarrow> return_rollback err w
      | (Inr ps, w) \<Rightarrow>
     (case ps of
        [] \<Rightarrow> return_rollback (NotFoundError []) w
      | [n] \<Rightarrow>
     (case now w of
        (t, w) \<Rightarrow>
     (case project_set_deleted_at (proj_id (fst n)) t w of
        (Inl err, w) \<Rightarrow> return_rollback err w
      | (Inr k, w) \<Rightarrow>
          if k = 0 then return_rollback (NotFoundError []) w
          else
     (case event_create (deleted_event_of n) w of
        (Inl err, w) \<Rightarrow> return_rollback err w
      | (Inr _, w) \<Rightarrow> commit_tx w)))
      | _ \<Rightarrow> return_rollback (ambiguous name) w))))"

definition GetProjectIncludingDeleted ::
  "string \<Rightarrow> string list option \<Rightarrow> world \<Rightarrow> (go_err + project_row \<times> org_row option) \<times> world" where
  "GetProjectIncludingDeleted name orgNames w =
     (if denied orgNames then (Inl (NotFoundError []), w)
      else case in_db (select (\<lambda>d. Inr (query_all (query (map (with_folder d)
               (filter (\<lambda>p. proj_name p = name \<and>
                  (case orgNames of None \<Rightarrow> True
                   | Some ns \<Rightarrow> ns = [] \<or> has_org_with d (\<lambda>r. org_name r \<in> set ns) p))
                 (projects d))))))) w of
             (Inl err, w) \<Rightarrow> (Inl err, w)
           | (Inr ps, w) \<Rightarrow>
               (case ps of
                  [] \<Rightarrow> (Inl (NotFoundError []), w)
                | [n] \<Rightarrow> (Inr (fst n, node_org n), w)
                | _ \<Rightarrow> (Inl (ambiguous name), w)))"

section \<open>A concrete tenant\<close>

text \<open>The database of \<open>sample_world\<close> after two calls.\<close>

definition sample_tenant :: world where
  "sample_tenant = snd (CreateProject ''acme'' ''web'' [] (snd (CreateOrg ''acme'' [] sample_world)))"

section \<open>Atomicity\<close>

text \<open>
  \<open>atomically w (r, w') eff\<close>: no transaction is left open; the committed tables went
  through \<open>eff\<close> if the call reports success and, if it reports an error, either did not
  change or (a commit whose acknowledgement the environment loses) went through \<open>eff\<close> as a whole; the
  events the call wrote were appended with fresh, increasing keys.
\<close>

definition fresh_events :: "world \<Rightarrow> db \<Rightarrow> int \<Rightarrow> bool" where
  "fresh_events w d k \<longleftrightarrow>
     (\<exists>es. events d = events (tables w) @ es \<and> sorted_wrt (<) (map ev_id es) \<and>
           (\<forall>e \<in> set es. event_seq w \<le> ev_id e \<and> ev_id e < k))"

definition atomically ::
  "world \<Rightarrow> (go_err + 'a) \<times> world \<Rightarrow> ('a \<Rightarrow> db \<Rightarrow> db \<Rightarrow> bool) \<Rightarrow> bool" where
  "atomically w res eff \<longleftrightarrow>
     (case res of (r, w') \<Rightarrow>
        tx w' = None \<and> env w' = env w \<and> event_seq w \<le> event_seq w' \<and>
        fresh_events w (tables w') (event_seq w') \<and>
        (case r of
           Inl _ \<Rightarrow> tables w' = tables w \<or> loses_ack w \<and> (\<exists>a. eff a (tables w) (tables w'))
         | Inr a \<Rightarrow> eff a (tables w) (tables w')))"

lemma fresh_events_refl [simp]: "fresh_events w (tables w) k"
  by (simp add: fresh_events_def)

lemma fresh_events_same:
  "fresh_events w d k \<Longrightarrow> events d' = events d \<Longrightarrow> k \<le> k' \<Longrightarrow> fresh_events w d' k'"
  by (force simp: fresh_events_def)

lemma fresh_events_snoc:
  assumes "fresh_events w d k" and "ev_id e = k" and "event_seq w \<le> k"
  shows "fresh_events w (d\<lparr>events := events d @ [e]\<rparr>) (k + 1)"
proof -
  from assms(1) obtain es where es: "events d = events (tables w) @ es"
    "sorted_wrt (<) (map ev_id es)" "\<forall>e \<in> set es. event_seq w \<le> ev_id e \<and> ev_id e < k"
    by (auto simp: fresh_events_def)
  with assms(2,3) have "sorted_wrt (<) (map ev_id (es @ [e]))"
    by (auto simp: sorted_wrt_append)
  moreover from es(3) assms(2,3)
  have "\<forall>x \<in> set (es @ [e]). event_seq w \<le> ev_id x \<and> ev_id x < k + 1" by auto
  ultimately show ?thesis using es(1) by (auto simp: fresh_events_def intro!: exI [of _ "es @ [e]"])
qed

lemma fresh_events_eq: "events d = events (tables w) \<Longrightarrow> fresh_events w d k"
  by (simp add: fresh_events_def)

lemma fresh_events_one:
  "events d = events (tables w) @ [e] \<Longrightarrow> ev_id e = event_seq w \<Longrightarrow> k = event_seq w + 1 \<Longrightarrow>
     fresh_events w d k"
  by (auto simp: fresh_events_def)

lemma fresh_events_append:
  "events d = events (tables w) @ es \<Longrightarrow> sorted_wrt (<) (map ev_id es) \<Longrightarrow>
     \<forall>e \<in> set es. event_seq w \<le> ev_id e \<and> ev_id e < k \<Longrightarrow> fresh_events w d k"
  by (auto simp: fresh_events_def)

lemma return_rollbackD:
  "return_rollback e w = (r, w') \<Longrightarrow>
     frame w w' \<and> event_seq w' = event_seq w \<and> tx w' = None \<and> (\<exists>e'. r = Inl e')"
  by (auto simp: return_rollback_def rollback_def split: prod.splits sum.splits dest: rollback_txD)

lemma atomic_Inl:
  "atomically w (Inl e, w') eff \<longleftrightarrow>
     tx w' = None \<and> env w' = env w \<and> event_seq w \<le> event_seq w' \<and>
     fresh_events w (tables w') (event_seq w') \<and>
     (tables w' = tables w \<or> loses_ack w \<and> (\<exists>a. eff a (tables w) (tables w')))"
  by (simp add: atomically_def)

lemma atomic_Inr:
  "atomically w (Inr a, w') eff \<longleftrightarrow>
     tx w' = None \<and> env w' = env w \<and> event_seq w \<le> event_seq w' \<and>
     fresh_events w (tables w') (event_seq w') \<and> eff a (tables w) (tables w')"
  by (simp add: atomically_def)

lemma atomic_rollback: "frame w w1 \<Longrightarrow> atomically w (return_rollback e w1) eff"
  by (cases "return_rollback e w1 :: (go_err + 'a) \<times> world")
    (auto dest!: return_rollbackD simp: atomically_def frame_def)

lemma atomic_return_commit:
  assumes "frame w w1" and "tx w1 \<noteq> None" and "fresh_events w (the (tx w1)) (event_seq w1)"
    and "eff a (tables w) (the (tx w1))"
  shows "atomically w (return_commit a w1) eff"
proof (cases "commit_tx w1")
  case (Pair r w2)
  with assms show ?thesis
    by (cases r) (auto dest!: commit_txD simp: return_commit_def atomic_Inl atomic_Inr frame_def
        loses_ack_cong [of w1 w])
qed

lemma commit_tx_unit: "commit_tx w = return_commit () w"
  by (auto simp: return_commit_def split: prod.splits sum.splits)

text \<open>\<open>if err != nil\<close>: the two ways a call can go on.\<close>

lemma atomic_step:
  assumes "\<And>e w1. m = (Inl e, w1) \<Longrightarrow> atomically w (A e w1) eff"
    and "\<And>a w1. m = (Inr a, w1) \<Longrightarrow> atomically w (B a w1) eff"
  shows "atomically w (case m of (Inl e, w1) \<Rightarrow> A e w1 | (Inr a, w1) \<Rightarrow> B a w1) eff"
  using assms by (auto split: prod.splits sum.splits)

lemma atomic_begin:
  assumes "tx w = None"
    and "\<And>w1. frame w w1 \<Longrightarrow> event_seq w1 = event_seq w \<Longrightarrow> tx w1 = Some (tables w) \<Longrightarrow>
           atomically w (B w1) eff"
  shows "atomically w (case begin_tx w of (Inl e, w1) \<Rightarrow> (Inl e, w1) | (Inr _, w1) \<Rightarrow> B w1) eff"
  using assms
  by (auto simp: atomic_Inl frame_def fresh_events_eq dest!: begin_txD split: prod.splits sum.splits)

lemmas session_rules = begin_txD org_createD folder_createD project_createD event_createD
  in_tx_selectD nowD org_set_deleted_atD project_set_deleted_atD org_set_descriptionD
  project_set_descriptionD

subsection \<open>CreateOrg\<close>

definition create_org_eff :: "string \<Rightarrow> string \<Rightarrow> org_row \<Rightarrow> db \<Rightarrow> db \<Rightarrow> bool" where
  "create_org_eff n s o' d d' \<longleftrightarrow>
     (\<exists>f e. orgs d' = orgs d @ [o'] \<and> folders d' = folders d @ [f] \<and> events d' = events d @ [e] \<and>
        projects d' = projects d \<and> statuses d' = statuses d \<and>
        org_name o' = n \<and> org_description o' = s \<and> org_active o' \<and> valid_name n \<and>
        org_id o' \<notin> org_id ` set (orgs d) \<and> n \<notin> org_name ` set (orgs d) \<and>
        folder_name f = ''default'' \<and> folder_org f = org_id o' \<and>
        folder_id f \<notin> folder_id ` set (folders d) \<and>
        (''default'', org_id o') \<notin> (\<lambda>f. (folder_name f, folder_org f)) ` set (folders d) \<and>
        payload e = new_event ''created'' ''org'' (org_id o') n)"

lemma CreateOrg_atomic:
  assumes "tx w = None"
  shows "atomically w (CreateOrg n s w) (create_org_eff n s)"
  unfolding CreateOrg_def
  by (rule atomic_begin [OF assms], intro atomic_step)
    (auto dest!: session_rules simp: create_org_eff_def frame_def
      intro!: atomic_rollback atomic_return_commit fresh_events_append)

subsection \<open>UpdateOrg\<close>

definition update_org_eff :: "string \<Rightarrow> string \<Rightarrow> org_row \<Rightarrow> db \<Rightarrow> db \<Rightarrow> bool" where
  "update_org_eff n s o' d d' \<longleftrightarrow>
     (\<exists>r u. r \<in> set (orgs d) \<and> org_name r = n \<and> org_active r \<and>
        o' = r\<lparr>org_description := s, org_updated_at := u\<rparr> \<and>
        orgs d' = map (\<lambda>q. if org_id q = org_id r
                        then q\<lparr>org_description := s, org_updated_at := u\<rparr> else q) (orgs d) \<and>
        folders d' = folders d \<and> projects d' = projects d \<and> events d' = events d \<and>
        statuses d' = statuses d)"

lemma org_by_nameD: "org_by_name n d = Inr r \<Longrightarrow> r \<in> set (orgs d) \<and> org_name r = n \<and> org_active r"
proof -
  assume "org_by_name n d = Inr r"
  then have "filter (\<lambda>r. org_name r = n \<and> org_active r) (orgs d) = [r]"
    by (simp add: org_by_name_def query_only_Inr)
  then have "r \<in> set (filter (\<lambda>r. org_name r = n \<and> org_active r) (orgs d))" by simp
  then show ?thesis by simp
qed

lemma update_org_effI:
  assumes "r \<in> set (orgs d)" and "org_active r" and "distinct (map org_id (orgs d))"
    and "describe_org (org_id r) s u d = Inr (o', d')"
  shows "update_org_eff (org_name r) s o' d d' \<and> events d' = events d"
  using assms find_unique [of org_id "orgs d" r]
  by (auto simp: describe_org_def update_org_eff_def intro!: exI [of _ r] exI [of _ u])

lemma UpdateOrg_atomic:
  assumes "tx w = None" and "distinct (map org_id (orgs (tables w)))"
  shows "atomically w (UpdateOrg n s w) (update_org_eff n s)"
  unfolding UpdateOrg_def
  by (rule atomic_begin [OF assms(1)], intro atomic_step)
    (use assms(2) in \<open>auto dest!: session_rules org_by_nameD update_org_effI [rotated 3] simp: frame_def
      intro!: atomic_rollback atomic_return_commit fresh_events_eq\<close>)

subsection \<open>CreateProject\<close>

text \<open>The result of a create is the new row and the org it was created in.\<close>

definition create_project_eff ::
  "string \<Rightarrow> string \<Rightarrow> string \<Rightarrow> project_row \<times> org_row \<Rightarrow> db \<Rightarrow> db \<Rightarrow> bool" where
  "create_project_eff orgName n s po d d' \<longleftrightarrow>
     (case po of (p, o') \<Rightarrow>
       (\<exists>f e. orgs d' = orgs d \<and> folders d' = folders d \<and> projects d' = projects d @ [p] \<and>
          events d' = events d @ [e] \<and> statuses d' = statuses d \<and>
          o' \<in> set (orgs d) \<and> org_name o' = orgName \<and> org_active o' \<and>
          f \<in> set (folders d) \<and> folder_name f = ''default'' \<and> folder_org f = org_id o' \<and>
          proj_name p = n \<and> proj_description p = s \<and> proj_active p \<and> valid_name n \<and>
          proj_folder p = folder_id f \<and> proj_id p \<notin> proj_id ` set (projects d) \<and>
          (n, folder_id f) \<notin> (\<lambda>p. (proj_name p, proj_folder p)) ` set (projects d) \<and>
          payload e = (new_event ''created'' ''project'' (proj_id p) n)
             \<lparr>ev_org_id := Some (org_id o'), ev_org_name := Some orgName,
              ev_folder_id := Some (folder_id f)\<rparr>))"

lemma default_folderD:
  assumes "default_folder i d = Inr f"
  shows "f \<in> set (folders d) \<and> folder_name f = ''default'' \<and> folder_org f = i"
proof -
  let ?P = "\<lambda>f. folder_name f = ''default'' \<and> (\<exists>r \<in> set (orgs d). org_id r = folder_org f \<and> org_id r = i)"
  from assms have "filter ?P (folders d) = [f]" by (simp add: default_folder_def query_only_Inr)
  then have "f \<in> set (filter ?P (folders d))" by simp
  then show ?thesis by auto
qed

lemma payload_edges [simp]:
  "payload ((new_event t rt i n)\<lparr>ev_org_id := a, ev_org_name := b, ev_folder_id := c\<rparr>)
     = (new_event t rt i n)\<lparr>ev_org_id := a, ev_org_name := b, ev_folder_id := c\<rparr>"
  by (simp add: payload_def new_event_def)

lemma create_project_effI:
  assumes "org_by_name orgName d = Inr o'" and "default_folder (org_id o') d = Inr f"
    and "d' = d\<lparr>projects := projects d @ [p], events := events d @ [e]\<rparr>"
    and "proj_name p = n" "proj_description p = s" "proj_active p" "valid_name n"
    and "proj_folder p = folder_id f" "proj_id p \<notin> proj_id ` set (projects d)"
    and "(n, folder_id f) \<notin> (\<lambda>p. (proj_name p, proj_folder p)) ` set (projects d)"
    and "payload e = (new_event ''created'' ''project'' (proj_id p) n)
             \<lparr>ev_org_id := Some (org_id o'), ev_org_name := Some (org_name o'),
              ev_folder_id := Some (folder_id f)\<rparr>"
  shows "create_project_eff orgName n s (p, o') d d'"
  unfolding create_project_eff_def prod.case
  by (rule exI [of _ f], rule exI [of _ e])
    (use assms org_by_nameD [OF assms(1)] default_folderD [OF assms(2)] in simp)

lemma CreateProject_atomic:
  assumes "tx w = None"
  shows "atomically w (CreateProject orgName n s w) (create_project_eff orgName n s)"
  unfolding CreateProject_def
  by (rule atomic_begin [OF assms], intro atomic_step)
    (auto dest!: session_rules simp: frame_def
      intro!: atomic_rollback atomic_return_commit fresh_events_one create_project_effI)

subsection \<open>UpdateProject and DeleteProject\<close>

text \<open>The projects a name and a scope select are active and, when a scope is given, belong to
  an active org of that scope.\<close>

definition selected :: "string \<Rightarrow> string list option \<Rightarrow> db \<Rightarrow> project_row \<Rightarrow> bool" where
  "selected n sc d p \<longleftrightarrow> p \<in> set (projects d) \<and> proj_name p = n \<and> proj_active p \<and> in_scope d sc p"

definition selects_only :: "string \<Rightarrow> string list option \<Rightarrow> db \<Rightarrow> project_row \<Rightarrow> bool" where
  "selects_only n sc d p \<longleftrightarrow> selected n sc d p \<and> (\<forall>q. selected n sc d q \<longrightarrow> q = p)"

lemma projects_namedD:
  assumes "projects_named n sc d = [(p, l)]"
  shows "l = snd (with_folder d p) \<and> selects_only n sc d p"
proof -
  let ?l = "filter (\<lambda>p. proj_name p = n \<and> proj_active p \<and> in_scope d sc p) (projects d)"
  from assms have "map (with_folder d) ?l = [(p, l)]" by (simp add: projects_named_def)
  then have l: "?l = [p]" and x: "l = snd (with_folder d p)" by (auto simp: with_folder_def)
  have "selected n sc d q \<longleftrightarrow> q \<in> set ?l" for q by (auto simp: selected_def)
  with l x show ?thesis by (simp add: selects_only_def)
qed

definition update_project_eff ::
  "string \<Rightarrow> string list option \<Rightarrow> string \<Rightarrow> project_row \<times> org_row option \<Rightarrow> db \<Rightarrow> db \<Rightarrow> bool" where
  "update_project_eff n sc s po d d' \<longleftrightarrow>
     (\<exists>p u. selects_only n sc d p \<and>
        po = (p\<lparr>proj_description := s, proj_updated_at := u\<rparr>, node_org (with_folder d p)) \<and>
        projects d' = map (\<lambda>q. if proj_id q = proj_id p
                        then q\<lparr>proj_description := s, proj_updated_at := u\<rparr> else q) (projects d) \<and>
        orgs d' = orgs d \<and> folders d' = folders d \<and> events d' = events d \<and> statuses d' = statuses d)"

lemma update_project_effI:
  assumes "projects_named n sc d = [(p, l)]" and "distinct (map proj_id (projects d))"
    and "describe_project (proj_id p) s u d = Inr (p', d')"
  shows "update_project_eff n sc s (p', node_org (p, l)) d d' \<and> events d' = events d"
proof -
  note p = projects_namedD [OF assms(1)]
  then have "find (\<lambda>r. proj_id r = proj_id p) (projects d) = Some p"
    using find_unique [OF assms(2), of p] by (simp add: selected_def selects_only_def)
  with assms(3) p show ?thesis unfolding update_project_eff_def
    by (intro conjI exI [of _ p] exI [of _ u]) (auto simp: describe_project_def node_org_def with_folder_def)
qed

lemma atomic_denied: "tx w = None \<Longrightarrow> atomically w (Inl e, w) eff"
  by (simp add: atomic_Inl)

lemma atomic_if:
  assumes "c \<Longrightarrow> atomically w A eff" and "\<not> c \<Longrightarrow> atomically w B eff"
  shows "atomically w (if c then A else B) eff"
  using assms by simp

lemma atomic_rows:
  assumes "ps = [] \<Longrightarrow> atomically w A eff" and "\<And>n. ps = [n] \<Longrightarrow> atomically w (B n) eff"
    and "atomically w C eff"
  shows "atomically w (case ps of [] \<Rightarrow> A | [n] \<Rightarrow> B n | _ \<Rightarrow> C) eff"
  using assms by (auto split: list.splits)

lemma UpdateProject_atomic:
  assumes "tx w = None" and "distinct (map proj_id (projects (tables w)))"
  shows "atomically w (UpdateProject n sc s w) (update_project_eff n sc s)"
  unfolding UpdateProject_def
  by (rule atomic_if, rule atomic_denied [OF assms(1)],
      rule atomic_begin [OF assms(1)], intro atomic_step atomic_rows)
    (use assms(2) in \<open>auto dest!: session_rules update_project_effI [rotated 2] simp: frame_def
      intro!: atomic_rollback atomic_return_commit fresh_events_eq\<close>)

lemma atomic_now:
  "(\<And>t w1. m = (t, w1) \<Longrightarrow> atomically w (B t w1) eff) \<Longrightarrow>
     atomically w (case m of (t, w1) \<Rightarrow> B t w1) eff"
  by (auto split: prod.splits)

text \<open>Soft deletes of projects: the rows \<open>P\<close> selects get the time of the delete and an
  update time; the rest of the table is unchanged.\<close>

definition soft_deleted :: "instant \<Rightarrow> (project_row \<Rightarrow> bool) \<Rightarrow> project_row \<Rightarrow> project_row \<Rightarrow> bool" where
  "soft_deleted t P p p' \<longleftrightarrow>
     (if P p \<and> proj_active p then \<exists>u. p' = p\<lparr>proj_deleted_at := Some t, proj_updated_at := u\<rparr> else p' = p)"

definition delete_project_eff :: "string \<Rightarrow> string list option \<Rightarrow> unit \<Rightarrow> db \<Rightarrow> db \<Rightarrow> bool" where
  "delete_project_eff n sc _ d d' \<longleftrightarrow>
     (\<exists>p t e. selects_only n sc d p \<and>
        list_all2 (soft_deleted t (\<lambda>q. proj_id q = proj_id p)) (projects d) (projects d') \<and>
        orgs d' = orgs d \<and> folders d' = folders d \<and> statuses d' = statuses d \<and>
        events d' = events d @ [e] \<and> payload e = deleted_event_of (with_folder d p))"

lemma soft_delete_projectsD:
  assumes "soft_delete_projects i t u d = Inr (k, d')"
  shows "list_all2 (soft_deleted t (\<lambda>q. proj_id q = i)) (projects d) (projects d') \<and>
    orgs d' = orgs d \<and> folders d' = folders d \<and> events d' = events d \<and> statuses d' = statuses d \<and>
    k = length (filter (\<lambda>p. proj_id p = i \<and> proj_active p) (projects d))"
  using assms
  by (auto simp: soft_delete_projects_def soft_deleted_def list_all2_conv_all_nth)

lemma payload_deleted_event [simp]: "payload (deleted_event_of x) = deleted_event_of x"
  by (simp add: deleted_event_of_def payload_def new_event_def Let_def split: option.splits prod.splits)

lemma delete_project_effI:
  assumes "soft_delete_projects (proj_id p) t u d = Inr (k, d1)" and "projects_named n sc d = [(p, l)]"
    and "payload e = deleted_event_of (p, l)"
  shows "delete_project_eff n sc () d (d1\<lparr>events := events d @ [e]\<rparr>)"
  using soft_delete_projectsD [OF assms(1)] projects_namedD [OF assms(2)] assms(3)
  unfolding delete_project_eff_def
  by (intro exI [of _ p] exI [of _ t] exI [of _ e]) (auto simp: with_folder_def)

lemma DeleteProject_atomic:
  assumes "tx w = None"
  shows "atomically w (DeleteProject n sc w) (delete_project_eff n sc)"
  unfolding DeleteProject_def commit_tx_unit
  by (rule atomic_if, rule atomic_denied [OF assms(1)],
      rule atomic_begin [OF assms(1)], intro atomic_step atomic_rows atomic_now atomic_if)
    (auto dest!: session_rules delete_project_effI simp: frame_def
      intro!: atomic_rollback atomic_return_commit fresh_events_one)

subsection \<open>DeleteOrg\<close>

lemma payload_project_deleted_event [simp]:
  "payload (project_deleted_event o' x) = project_deleted_event o' x"
  by (simp add: project_deleted_event_def payload_def new_event_def Let_def split: option.splits prod.splits)

text \<open>The loop over the active projects: when it ends without an error, exactly the listed
  projects are soft-deleted and one event was appended for each, in the order of the list.\<close>

lemma soft_deleted_trans:
  assumes "list_all2 (soft_deleted t P) xs ys" and "list_all2 (soft_deleted t Q) ys zs"
    and "\<forall>x \<in> set xs. \<not> (P x \<and> Q x)"
    and "\<And>x y. proj_id x = proj_id y \<Longrightarrow> Q x = Q y"
  shows "list_all2 (soft_deleted t (\<lambda>x. P x \<or> Q x)) xs zs"
proof -
  have "soft_deleted t (\<lambda>x. P x \<or> Q x) x z"
    if "x \<in> set xs" "soft_deleted t P x y" "soft_deleted t Q y z" for x y z
  proof (cases "P x \<and> proj_active x")
    case True
    with that have "\<not> proj_active y" "\<not> Q x" "\<exists>u. y = x\<lparr>proj_deleted_at := Some t, proj_updated_at := u\<rparr>"
      using assms(3) by (auto simp: soft_deleted_def)
    with True that show ?thesis by (auto simp: soft_deleted_def)
  next
    case False
    with that have "y = x" by (simp add: soft_deleted_def)
    with False that show ?thesis by (auto simp: soft_deleted_def)
  qed
  with assms(1,2) show ?thesis by (force simp: list_all2_conv_all_nth)
qed

lemma soft_deleted_ids: "list_all2 (soft_deleted t P) xs ys \<Longrightarrow> map proj_id ys = map proj_id xs"
  by (induction rule: list_all2_induct) (auto simp: soft_deleted_def split: if_splits)

lemma soft_deleted_keeps:
  "list_all2 (soft_deleted t P) xs ys \<Longrightarrow> x \<in> set xs \<Longrightarrow> \<not> P x \<Longrightarrow> x \<in> set ys"
  by (induction rule: list_all2_induct) (auto simp: soft_deleted_def)

definition swept :: "org_row \<Rightarrow> instant \<Rightarrow> project_node list \<Rightarrow> world \<Rightarrow> db \<Rightarrow> world \<Rightarrow> bool" where
  "swept o' t ns w d w' \<longleftrightarrow>
     (\<exists>d' es. frame w w' \<and> tx w' = Some d' \<and>
        list_all2 (soft_deleted t (\<lambda>q. proj_id q \<in> (proj_id \<circ> fst) ` set ns)) (projects d) (projects d') \<and>
        orgs d' = orgs d \<and> folders d' = folders d \<and> statuses d' = statuses d \<and>
        events d' = events d @ es \<and> map payload es = map (project_deleted_event o') ns \<and>
        sorted_wrt (<) (map ev_id es) \<and> (\<forall>e \<in> set es. event_seq w \<le> ev_id e \<and> ev_id e < event_seq w'))"

lemma delete_org_projects_frame:
  "delete_org_projects o' t ns w = (r, w') \<Longrightarrow> tx w \<noteq> None \<longrightarrow> frame w w'"
proof (induction ns arbitrary: w)
  case Nil
  then show ?case by simp
next
  case (Cons x ns)
  from Cons.prems show ?case
    by (auto simp: frame_def split: prod.splits sum.splits if_splits dest!: session_rules Cons.IH)
qed

lemma swept_Cons:
  assumes "soft_delete_projects (proj_id (fst x)) t u d = Inr (k, d1)"
    and "frame w w1" "event_seq w1 = event_seq w + 1"
    and "payload e = project_deleted_event o' x" "ev_id e = event_seq w"
    and "swept o' t ns w1 (d1\<lparr>events := events d1 @ [e]\<rparr>) w'"
    and "proj_id (fst x) \<notin> (proj_id \<circ> fst) ` set ns"
  shows "swept o' t (x # ns) w d w'"
proof -
  note s = soft_delete_projectsD [OF assms(1)]
  from assms(6) obtain d' es where d':
    "frame w1 w'" "tx w' = Some d'"
    "list_all2 (soft_deleted t (\<lambda>q. proj_id q \<in> (proj_id \<circ> fst) ` set ns)) (projects d1) (projects d')"
    "orgs d' = orgs d" "folders d' = folders d" "statuses d' = statuses d"
    "events d' = events d @ e # es" "map payload es = map (project_deleted_event o') ns"
    "sorted_wrt (<) (map ev_id es)" "\<forall>e \<in> set es. event_seq w1 \<le> ev_id e \<and> ev_id e < event_seq w'"
    using s by (auto simp: swept_def)
  have "list_all2 (soft_deleted t (\<lambda>q. proj_id q = proj_id (fst x) \<or> proj_id q \<in> (proj_id \<circ> fst) ` set ns))
      (projects d) (projects d')"
    by (rule soft_deleted_trans [OF conjunct1 [OF s] d'(3)]) (use assms(7) in auto)
  moreover have "event_seq w1 \<le> event_seq w'" using d'(1) by (simp add: frame_def)
  ultimately show ?thesis using d' assms(2-5) unfolding swept_def
    by (intro exI [of _ d'] exI [of _ "e # es"]) (auto elim: frame_trans)
qed

lemma soft_delete_count:
  assumes "distinct (map proj_id (projects d))" and "x \<in> set (projects d)" and "proj_active x"
    and "soft_delete_projects (proj_id x) t u d = Inr (k, d1)"
  shows "k \<noteq> 0"
  using assms(2,3) soft_delete_projectsD [OF assms(4)] by (auto simp: filter_empty_conv)

lemma distinct_map_Cons_ne: "distinct (map f (x # xs)) \<Longrightarrow> y \<in> set xs \<Longrightarrow> f y \<noteq> f x"
  by (metis distinct.simps(2) image_eqI list.set_map list.simps(9))

lemma delete_org_projects_swept:
  assumes "delete_org_projects o' t ns w = (Inr (), w')" and "tx w = Some d"
    and "distinct (map proj_id (projects d))" and "distinct (map (proj_id \<circ> fst) ns)"
    and "\<forall>n \<in> set ns. fst n \<in> set (projects d) \<and> proj_active (fst n)"
  shows "swept o' t ns w d w'"
  using assms
proof (induction ns arbitrary: w d)
  case Nil
  then show ?case by (auto simp: swept_def list_all2_conv_all_nth soft_deleted_def)
next
  case (Cons x ns)
  obtain r1 w1 where s1: "project_set_deleted_at (proj_id (fst x)) t w = (r1, w1)" by fastforce
  with Cons.prems(1) obtain k where r1: "r1 = Inr k" by (cases r1) auto
  with s1 Cons.prems(2) obtain u d1 where sd: "frame w w1" "event_seq w1 = event_seq w"
    "soft_delete_projects (proj_id (fst x)) t u d = Inr (k, d1)" "tx w1 = Some d1"
    by (auto dest!: session_rules)
  have k: "k \<noteq> 0" using soft_delete_count [OF Cons.prems(3) _ _ sd(3)] Cons.prems(5) by auto
  obtain r2 w2 where s2: "event_create (project_deleted_event o' x) w1 = (r2, w2)" by fastforce
  with Cons.prems(1) s1 r1 k obtain e where r2: "r2 = Inr e"
    and rest: "delete_org_projects o' t ns w2 = (Inr (), w')" by (cases r2) auto
  from s2 r2 sd have ev: "frame w w2" "tx w2 = Some (d1\<lparr>events := events d1 @ [e]\<rparr>)"
    "payload e = project_deleted_event o' x" "ev_id e = event_seq w" "event_seq w2 = event_seq w + 1"
    by (auto dest!: session_rules simp: frame_def)
  note s = soft_delete_projectsD [OF sd(3)]
  have "map proj_id (projects d1) = map proj_id (projects d)" using s by (auto dest: soft_deleted_ids)
  moreover have "\<forall>n \<in> set ns. fst n \<in> set (projects d1)"
  proof
    fix n assume "n \<in> set ns"
    moreover from this have "proj_id (fst n) \<noteq> proj_id (fst x)" using distinct_map_Cons_ne [OF Cons.prems(4)] by simp
    ultimately show "fst n \<in> set (projects d1)"
      using Cons.prems(5) s soft_deleted_keeps [of t _ "projects d" "projects d1" "fst n"] by auto
  qed
  ultimately have "swept o' t ns w2 (d1\<lparr>events := events d1 @ [e]\<rparr>) w'"
    using Cons.prems(3-5) by (intro Cons.IH [OF rest ev(2)]) simp_all
  then show ?case using Cons.prems(4) by (intro swept_Cons [OF sd(3) ev(1,5,3,4)]) auto
qed

definition delete_org_eff :: "string \<Rightarrow> unit \<Rightarrow> db \<Rightarrow> db \<Rightarrow> bool" where
  "delete_org_eff n _ d d' \<longleftrightarrow>
     (\<exists>r t u es. r \<in> set (orgs d) \<and> org_name r = n \<and> org_active r \<and>
        orgs d' = map (\<lambda>q. if org_id q = org_id r \<and> org_active q
                        then q\<lparr>org_deleted_at := Some t, org_updated_at := u\<rparr> else q) (orgs d) \<and>
        list_all2 (soft_deleted t (has_org_with d (\<lambda>q. org_id q = org_id r))) (projects d) (projects d') \<and>
        folders d' = folders d \<and> statuses d' = statuses d \<and> events d' = events d @ es \<and>
        map payload es = map (project_deleted_event r) (active_projects_of_org (org_id r) d) @
          [new_event ''deleted'' ''org'' (org_id r) n])"

lemma active_projects_mem:
  "x \<in> set (active_projects_of_org i d) \<longleftrightarrow>
     (\<exists>p \<in> set (projects d). x = with_folder d p \<and> has_org_with d (\<lambda>r. org_id r = i) p \<and> proj_active p)"
  by (auto simp: active_projects_of_org_def)

lemma active_projects_ids:
  assumes "distinct (map proj_id (projects d))"
  shows "distinct (map (proj_id \<circ> fst) (active_projects_of_org i d))"
  using distinct_map_filterI [OF assms, of "\<lambda>p. has_org_with d (\<lambda>r. org_id r = i) p \<and> proj_active p"]
  by (simp add: active_projects_of_org_def with_folder_def comp_def)

lemma soft_deleted_active_ids:
  assumes "distinct (map proj_id (projects d))"
    and "list_all2 (soft_deleted t (\<lambda>q. proj_id q \<in> (proj_id \<circ> fst) ` set (active_projects_of_org i d)))
           (projects d) ps"
  shows "list_all2 (soft_deleted t (has_org_with d (\<lambda>q. org_id q = i))) (projects d) ps"
proof -
  have "proj_id p \<in> (proj_id \<circ> fst) ` set (active_projects_of_org i d)
          \<longleftrightarrow> has_org_with d (\<lambda>q. org_id q = i) p" if "p \<in> set (projects d)" "proj_active p" for p
    using that distinct_map_unique [OF assms(1)]
    by (force simp: active_projects_mem with_folder_def image_iff)
  then have "soft_deleted t (has_org_with d (\<lambda>q. org_id q = i)) p q"
    if "p \<in> set (projects d)"
      "soft_deleted t (\<lambda>q. proj_id q \<in> (proj_id \<circ> fst) ` set (active_projects_of_org i d)) p q" for p q
    using that by (cases "proj_active p") (auto simp: soft_deleted_def)
  with assms(2) show ?thesis by (auto intro: list.rel_mono_strong)
qed

text \<open>What the transaction holds when \<open>DeleteOrg\<close> comes to its commit.\<close>

lemma delete_org_effI:
  assumes "distinct (map proj_id (projects d))" and "org_by_name n d = Inr r"
    and "frame w w1" "event_seq w1 = event_seq w" "tables w = d"
    and "swept r t (active_projects_of_org (org_id r) d) w1 d w2" and "tx w2 = Some d2"
    and "soft_delete_orgs (org_id r) t u d2 = Inr (k, d3)"
    and "payload e = new_event ''deleted'' ''org'' (org_id r) (org_name r)"
    and "ev_id e = event_seq w2"
  shows "delete_org_eff n () d (d3\<lparr>events := events d3 @ [e]\<rparr>) \<and>
    fresh_events w (d3\<lparr>events := events d3 @ [e]\<rparr>) (event_seq w2 + 1)"
proof -
  note r = org_by_nameD [OF assms(2)]
  from assms(6,7) obtain es where s: "frame w1 w2"
    "list_all2 (soft_deleted t (\<lambda>q. proj_id q \<in> (proj_id \<circ> fst) ` set (active_projects_of_org (org_id r) d)))
       (projects d) (projects d2)"
    "orgs d2 = orgs d" "folders d2 = folders d" "statuses d2 = statuses d" "events d2 = events d @ es"
    "map payload es = map (project_deleted_event r) (active_projects_of_org (org_id r) d)"
    "sorted_wrt (<) (map ev_id es)" "\<forall>e \<in> set es. event_seq w1 \<le> ev_id e \<and> ev_id e < event_seq w2"
    by (auto simp: swept_def)
  have d3: "d3 = d2\<lparr>orgs := map (\<lambda>q. if org_id q = org_id r \<and> org_active q
                        then q\<lparr>org_deleted_at := Some t, org_updated_at := u\<rparr> else q) (orgs d)\<rparr>"
    using assms(8) s(3) by (auto simp: soft_delete_orgs_def)
  have "fresh_events w (d3\<lparr>events := events d3 @ [e]\<rparr>) (event_seq w2 + 1)"
    using s(1,6,8,9) assms(3-5,10) d3
    by (intro fresh_events_append [of _ _ "es @ [e]"]) (auto simp: sorted_wrt_append frame_def)
  moreover have "delete_org_eff n () d (d3\<lparr>events := events d3 @ [e]\<rparr>)"
    unfolding delete_org_eff_def
    using r s(3-7) d3 assms(9) soft_deleted_active_ids [OF assms(1) s(2)]
    by (intro exI [of _ r] exI [of _ t] exI [of _ u] exI [of _ "es @ [e]"]) simp
  ultimately show ?thesis by simp
qed

lemma delete_org_loopD:
  assumes "delete_org_projects r t (active_projects_of_org (org_id r) d) w = (Inr a, w')"
    and "tx w = Some d" and "distinct (map proj_id (projects d))"
  shows "\<exists>d'. swept r t (active_projects_of_org (org_id r) d) w d w' \<and> tx w' = Some d' \<and>
    tables w' = tables w \<and> env w' = env w \<and> event_seq w \<le> event_seq w'"
proof -
  have "swept r t (active_projects_of_org (org_id r) d) w d w'"
    using assms active_projects_ids [OF assms(3)]
    by (intro delete_org_projects_swept) (auto simp: active_projects_mem with_folder_def)
  then show ?thesis by (auto simp: swept_def frame_def)
qed

lemma DeleteOrg_atomic:
  assumes "tx w = None" and "distinct (map proj_id (projects (tables w)))"
  shows "atomically w (DeleteOrg n w) (delete_org_eff n)"
  unfolding DeleteOrg_def commit_tx_unit
  apply (rule atomic_begin [OF assms(1)], intro atomic_step atomic_now atomic_if)
  subgoal by (auto dest!: session_rules simp: frame_def intro!: atomic_rollback)
  subgoal by (auto dest!: session_rules simp: frame_def intro!: atomic_rollback)
  subgoal by (auto dest!: session_rules delete_org_projects_frame simp: frame_def intro!: atomic_rollback)
  subgoal using assms(2) by (auto dest!: session_rules delete_org_loopD simp: frame_def intro!: atomic_rollback)
  subgoal using assms(2) by (auto dest!: session_rules delete_org_loopD simp: frame_def intro!: atomic_rollback)
  subgoal using assms(2) by (auto dest!: session_rules delete_org_loopD simp: frame_def intro!: atomic_rollback)
  subgoal for w1 r w2 ns w3 t w4 u w5 k w6 e w7
    using assms(2) delete_org_effI [of "tables w" n r w w4 t w5]
    by (intro atomic_return_commit) (fastforce dest!: session_rules delete_org_loopD simp: frame_def)+
  done

end
