(* ===== verification/Tenancy_Status.thy ===== *)
theory Tenancy_Status
  imports Tenancy_Db
begin

text \<open>
  Controller statuses, tenancy-manager/internal/store/store.go: the upsert with its update-
  create-update sequence, the delete and the query, and the derivation of a resource's overall
  status from its rows and the registered controllers.
\<close>

section \<open>Rows\<close>

definition UpsertControllerStatus ::
  "string \<Rightarrow> string \<Rightarrow> uuid \<Rightarrow> string \<Rightarrow> string \<Rightarrow> world \<Rightarrow> (go_err + unit) \<times> world" where
  "UpsertControllerStatus controllerName resourceType resourceID st message w =
     (case status_update controllerName resourceType resourceID st message w of
        (Inl err, w) \<Rightarrow> (Inl err, w)
      | (Inr n, w) \<Rightarrow>
          if n > 0 then (Inr (), w)
          else
     (case status_create controllerName resourceType resourceID st message w of
        (Inr _, w) \<Rightarrow> (Inr (), w)
      | (Inl err, w) \<Rightarrow>
     (case status_update controllerName resourceType resourceID st message w of
        (Inl err2, w) \<Rightarrow> (Inl err, w)
      | (Inr n, w) \<Rightarrow> if n > 0 then (Inr (), w) else (Inl err, w))))"

definition DeleteControllerStatus ::
  "string \<Rightarrow> string \<Rightarrow> uuid \<Rightarrow> world \<Rightarrow> (go_err + unit) \<times> world" where
  "DeleteControllerStatus controllerName resourceType resourceID w =
     (case in_db (delete_statuses (status_key controllerName resourceType resourceID)) w of
        (Inl err, w) \<Rightarrow> (Inl err, w)
      | (Inr _, w) \<Rightarrow> (Inr (), w))"

definition GetControllerStatuses ::
  "string \<Rightarrow> uuid \<Rightarrow> world \<Rightarrow> (go_err + status_row list) \<times> world" where
  "GetControllerStatuses resourceType resourceID w =
     in_db (select (\<lambda>d. Inr (query_all (query
       (filter (\<lambda>r. cs_resource_type r = resourceType \<and> cs_resource_id r = resourceID) (statuses d)))))) w"

section \<open>Derivation\<close>

definition status_map :: "status_row list \<Rightarrow> (string \<rightharpoonup> status_row)" where
  "status_map rows = foldl (\<lambda>m r. m(cs_controller r \<mapsto> r)) Map.empty rows"

text \<open>The loop over a deleted resource's controllers: \<open>Inl\<close> is the early return with
  the message of a failed controller.\<close>

fun deleting_loop ::
  "(string \<rightharpoonup> status_row) \<Rightarrow> string list \<Rightarrow> string list \<Rightarrow> string + string list" where
  "deleting_loop m [] delInProgress = Inr delInProgress"
| "deleting_loop m (c # cs) delInProgress =
     (case m c of
        None \<Rightarrow> deleting_loop m cs delInProgress
      | Some r \<Rightarrow>
          if cs_status r = ''error'' then Inl (cs_message r)
          else deleting_loop m cs (delInProgress @ [c]))"

fun active_loop ::
  "(string \<rightharpoonup> status_row) \<Rightarrow> string list \<Rightarrow> string list \<Rightarrow> string list
     \<Rightarrow> string + (string list \<times> string list)" where
  "active_loop m [] pending inProgress = Inr (pending, inProgress)"
| "active_loop m (c # cs) pending inProgress =
     (case m c of
        None \<Rightarrow> active_loop m cs (pending @ [c]) inProgress
      | Some r \<Rightarrow>
          if cs_status r = ''error'' then Inl (cs_message r)
          else if cs_status r = ''in_progress'' then active_loop m cs pending (inProgress @ [c])
          else active_loop m cs pending inProgress)"

definition DeriveStatusFromRows ::
  "status_row list \<Rightarrow> bool \<Rightarrow> string list \<Rightarrow> string \<times> string" where
  "DeriveStatusFromRows rows isDeleted registeredControllers =
     (if registeredControllers = [] then
        (if isDeleted then (''STATUS_INDICATION_DELETED'', []) else (''STATUS_INDICATION_IDLE'', []))
      else
        let m = status_map rows in
        if isDeleted then
          (if \<not> list_ex (\<lambda>c. m c \<noteq> None) registeredControllers
           then (''STATUS_INDICATION_DELETED'', [])
           else case deleting_loop m registeredControllers [] of
                  Inl msg \<Rightarrow> (''STATUS_INDICATION_ERROR'', msg)
                | Inr delInProgress \<Rightarrow>
                    (''STATUS_INDICATION_IN_PROGRESS'',
                     if delInProgress \<noteq> []
                     then ''deleting, waiting for: '' @ Join delInProgress '', '' else []))
        else
          (case active_loop m registeredControllers [] [] of
             Inl msg \<Rightarrow> (''STATUS_INDICATION_ERROR'', msg)
           | Inr (pending, inProgress) \<Rightarrow>
               if pending \<noteq> [] \<or> inProgress \<noteq> [] then
                 let parts =
                       (if pending \<noteq> [] then [''waiting for: '' @ Join pending '', ''] else []) @
                       (if inProgress \<noteq> [] then [''in progress: '' @ Join inProgress '', ''] else [])
                 in (''STATUS_INDICATION_IN_PROGRESS'', Join parts ''; '')
               else (''STATUS_INDICATION_IDLE'', [])))"

definition DeriveStatus ::
  "string \<Rightarrow> uuid \<Rightarrow> bool \<Rightarrow> string list \<Rightarrow> world \<Rightarrow> (string \<times> string) \<times> world" where
  "DeriveStatus resourceType resourceID isDeleted registeredControllers w =
     (case GetControllerStatuses resourceType resourceID w of
        (Inl err, w) \<Rightarrow> ((''STATUS_INDICATION_ERROR'', err_text err), w)
      | (Inr rows, w) \<Rightarrow> (DeriveStatusFromRows rows isDeleted registeredControllers, w))"

section \<open>What the derivation means\<close>

definition failing :: "(string \<rightharpoonup> status_row) \<Rightarrow> string \<Rightarrow> bool" where
  "failing m c \<longleftrightarrow> (\<exists>r. m c = Some r \<and> cs_status r = ''error'')"

definition settled :: "(string \<rightharpoonup> status_row) \<Rightarrow> string \<Rightarrow> bool" where
  "settled m c \<longleftrightarrow> (\<exists>r. m c = Some r \<and> cs_status r \<noteq> ''error'' \<and> cs_status r \<noteq> ''in_progress'')"

lemma active_loop_spec:
  "active_loop m cs pending inProgress =
     (case find (failing m) cs of
        Some c \<Rightarrow> Inl (cs_message (the (m c)))
      | None \<Rightarrow> Inr (pending @ filter (\<lambda>c. m c = None) cs,
                  inProgress @ filter (\<lambda>c. m c \<noteq> None \<and> \<not> settled m c) cs))"
  by (induction m cs pending inProgress rule: active_loop.induct)
    (auto simp: failing_def settled_def split: option.splits)

lemma deleting_loop_spec:
  "deleting_loop m cs acc =
     (case find (failing m) cs of
        Some c \<Rightarrow> Inl (cs_message (the (m c)))
      | None \<Rightarrow> Inr (acc @ filter (\<lambda>c. m c \<noteq> None) cs))"
  by (induction m cs acc rule: deleting_loop.induct) (auto simp: failing_def split: option.splits)

lemma settled_row: "settled m c \<Longrightarrow> m c \<noteq> None"
  by (auto simp: settled_def)

lemma active_loop_ok:
  assumes "active_loop m cs [] [] = Inr (p, q)"
  shows "p = [] \<and> q = [] \<longleftrightarrow> (\<forall>c \<in> set cs. settled m c)"
  using assms settled_row [of m]
  by (auto simp: active_loop_spec filter_empty_conv simp del: not_None_eq split: option.splits)

lemma derive_active:
  "DeriveStatusFromRows rows False cs =
     (case find (failing (status_map rows)) cs of
        Some c \<Rightarrow> (''STATUS_INDICATION_ERROR'', cs_message (the (status_map rows c)))
      | None \<Rightarrow>
          if \<forall>c \<in> set cs. settled (status_map rows) c then (''STATUS_INDICATION_IDLE'', [])
          else (''STATUS_INDICATION_IN_PROGRESS'',
                Join ((if filter (\<lambda>c. status_map rows c = None) cs \<noteq> []
                       then [''waiting for: '' @ Join (filter (\<lambda>c. status_map rows c = None) cs) '', ''] else []) @
                      (if filter (\<lambda>c. status_map rows c \<noteq> None \<and> \<not> settled (status_map rows) c) cs \<noteq> []
                       then [''in progress: '' @
                         Join (filter (\<lambda>c. status_map rows c \<noteq> None \<and> \<not> settled (status_map rows) c) cs) '', ''] else [])) ''; ''))"
proof (cases "cs = []")
  case True
  then show ?thesis by (simp add: DeriveStatusFromRows_def)
next
  case False
  show ?thesis
  proof (cases "find (failing (status_map rows)) cs")
    case (Some c)
    with False show ?thesis by (simp add: DeriveStatusFromRows_def active_loop_spec)
  next
    case None
    let ?p = "filter (\<lambda>c. status_map rows c = None) cs"
    let ?q = "filter (\<lambda>c. status_map rows c \<noteq> None \<and> \<not> settled (status_map rows) c) cs"
    from None have a: "active_loop (status_map rows) cs [] [] = Inr (?p, ?q)" by (simp add: active_loop_spec)
    from active_loop_ok [OF a] have "?p = [] \<and> ?q = [] \<longleftrightarrow> (\<forall>c \<in> set cs. settled (status_map rows) c)" .
    with a None False show ?thesis
      by (simp add: DeriveStatusFromRows_def Let_def del: filter_empty_conv) auto
  qed
qed

lemma derive_deleted:
  "DeriveStatusFromRows rows True cs =
     (if \<forall>c \<in> set cs. status_map rows c = None then (''STATUS_INDICATION_DELETED'', [])
      else case find (failing (status_map rows)) cs of
             Some c \<Rightarrow> (''STATUS_INDICATION_ERROR'', cs_message (the (status_map rows c)))
           | None \<Rightarrow> (''STATUS_INDICATION_IN_PROGRESS'',
               ''deleting, waiting for: '' @ Join (filter (\<lambda>c. status_map rows c \<noteq> None) cs) '', ''))"
  by (auto simp: DeriveStatusFromRows_def Let_def deleting_loop_spec list_ex_iff filter_empty_conv split: option.splits)

text \<open>The map the loops read holds, for each controller, its last row; with unique keys its
  only one.\<close>

lemma status_map_snoc: "status_map (rows @ [r]) = (status_map rows)(cs_controller r \<mapsto> r)"
  by (simp add: status_map_def)

lemma status_map_None: "status_map rows c = None \<longleftrightarrow> c \<notin> cs_controller ` set rows"
  by (induction rows rule: rev_induct) (auto simp: status_map_snoc status_map_def [of "[]"])

lemma status_map_Some:
  "distinct (map cs_controller rows) \<Longrightarrow>
     status_map rows c = Some r \<longleftrightarrow> r \<in> set rows \<and> cs_controller r = c"
proof (induction rows arbitrary: r rule: rev_induct)
  case Nil
  then show ?case by (simp add: status_map_def)
next
  case (snoc x rows)
  then show ?case by (auto simp: status_map_snoc rev_image_eqI)
qed

section \<open>What the upsert guarantees\<close>

definition status_rest :: "string \<Rightarrow> string \<Rightarrow> uuid \<Rightarrow> db \<Rightarrow> status_row list" where
  "status_rest c rt i d = filter (\<lambda>r. \<not> status_key c rt i r) (statuses d)"

definition reported :: "string \<Rightarrow> string \<Rightarrow> uuid \<Rightarrow> string \<Rightarrow> string \<Rightarrow> db \<Rightarrow> db \<Rightarrow> bool" where
  "reported c rt i st msg d d' \<longleftrightarrow>
     (\<exists>u. filter (status_key c rt i) (statuses d') =
        [\<lparr>cs_controller = c, cs_resource_type = rt, cs_resource_id = i, cs_status = st,
          cs_message = msg, cs_updated_at = u\<rparr>]) \<and>
     status_rest c rt i d' = status_rest c rt i d \<and>
     orgs d' = orgs d \<and> folders d' = folders d \<and> projects d' = projects d \<and> events d' = events d"

lemma status_update_ok:
  assumes "status_update c rt i st msg w = (Inr n, w')" and "n > 0"
    and "length (filter (status_key c rt i) (statuses (tables w))) \<le> 1"
  shows "reported c rt i st msg (tables w) (tables w')"
proof -
  obtain u where d: "update_statuses c rt i st msg u (tables w) = Inr (n, tables w')"
    using assms(1) by (auto simp: status_update_def Let_def now_def split: option.splits dest!: in_dbD)
  let ?g = "\<lambda>r. r\<lparr>cs_status := st, cs_message := msg, cs_updated_at := u\<rparr>"
  have k: "status_key c rt i (?g r) = status_key c rt i r" for r by (simp add: status_key_def)
  have f: "filter (status_key c rt i) (map (\<lambda>r. if status_key c rt i r then ?g r else r) xs)
      = map ?g (filter (status_key c rt i) xs)"
    "filter (\<lambda>r. \<not> status_key c rt i r) (map (\<lambda>r. if status_key c rt i r then ?g r else r) xs)
      = filter (\<lambda>r. \<not> status_key c rt i r) xs" for xs
    by (induction xs) (auto simp: k)
  from d assms(2,3) obtain r where r: "filter (status_key c rt i) (statuses (tables w)) = [r]"
    by (cases "filter (status_key c rt i) (statuses (tables w))") (auto simp: update_statuses_def)
  then have "r \<in> set (filter (status_key c rt i) (statuses (tables w)))" by simp
  then have "status_key c rt i r" by simp
  then have "?g r = \<lparr>cs_controller = c, cs_resource_type = rt, cs_resource_id = i, cs_status = st,
      cs_message = msg, cs_updated_at = u\<rparr>" by (simp add: status_key_def)
  moreover from d have "tables w' = (tables w)\<lparr>statuses :=
      map (\<lambda>r. if status_key c rt i r then ?g r else r) (statuses (tables w))\<rparr>"
    by (simp add: update_statuses_def)
  ultimately show ?thesis using r f by (simp add: reported_def status_rest_def)
qed

lemma status_update_none:
  assumes "status_update c rt i st msg w = (Inr 0, w')"
  shows "tables w' = tables w"
proof -
  obtain u where d: "update_statuses c rt i st msg u (tables w) = Inr (0, tables w')"
    using assms by (auto simp: status_update_def Let_def now_def split: option.splits dest!: in_dbD)
  then have "\<forall>r \<in> set (statuses (tables w)). \<not> status_key c rt i r"
    by (simp add: update_statuses_def filter_empty_conv)
  then have "map (\<lambda>r. if status_key c rt i r then r\<lparr>cs_status := st, cs_message := msg, cs_updated_at := u\<rparr> else r)
      (statuses (tables w)) = statuses (tables w)" by (simp cong: map_cong)
  with d show ?thesis by (simp add: update_statuses_def)
qed

lemma insert_status_reported:
  assumes "insert_status r d = Inr (x, d')" and "status_key c rt i r"
    and "r = \<lparr>cs_controller = c, cs_resource_type = rt, cs_resource_id = i, cs_status = st,
      cs_message = msg, cs_updated_at = u\<rparr>"
  shows "reported c rt i st msg d d'"
  using assms
  by (auto simp: insert_status_def reported_def status_rest_def filter_empty_conv status_key_def split: if_splits)

text \<open>A create that reports an error either left the table alone or (its acknowledgement
  lost) inserted the row.\<close>

lemma status_create_outcome:
  assumes "status_create c rt i st msg w = (r, w')"
  shows "reported c rt i st msg (tables w) (tables w') \<or> (\<exists>e. r = Inl e) \<and> tables w' = tables w"
proof -
  let ?r = "\<lambda>u. \<lparr>cs_controller = c, cs_resource_type = rt, cs_resource_id = i, cs_status = st,
      cs_message = msg, cs_updated_at = u\<rparr>"
  have k: "insert_status (?r u) d = Inr (x, d') \<Longrightarrow> reported c rt i st msg d d'" for u d x d'
    by (erule insert_status_reported) (simp_all add: status_key_def)
  from assms show ?thesis
    by (cases r) (auto simp: status_create_def Let_def now_def split: option.splits dest!: in_dbD k)
qed

lemma reported_trans:
  "reported c rt i st msg d d1 \<Longrightarrow> reported c rt i st msg d1 d2 \<Longrightarrow> reported c rt i st msg d d2"
  by (auto simp: reported_def)

lemma reported_unique: "reported c rt i st msg d d' \<Longrightarrow> length (filter (status_key c rt i) (statuses d')) \<le> 1"
  by (auto simp: reported_def)

lemma UpsertControllerStatus_reports:
  assumes "UpsertControllerStatus c rt i st msg w = (Inr (), w')"
    and "length (filter (status_key c rt i) (statuses (tables w))) \<le> 1"
  shows "reported c rt i st msg (tables w) (tables w')"
proof -
  obtain r1 w1 where s1: "status_update c rt i st msg w = (r1, w1)" by fastforce
  with assms(1) obtain n where n: "r1 = Inr n" by (cases r1) (auto simp: UpsertControllerStatus_def)
  show ?thesis
  proof (cases "n > 0")
    case True
    with assms n s1 show ?thesis
      using status_update_ok [OF s1 [unfolded n] True assms(2)] by (simp add: UpsertControllerStatus_def)
  next
    case False
    with n s1 have t1: "tables w1 = tables w" using status_update_none [of c rt i st msg w w1] by simp
    obtain r2 w2 where s2: "status_create c rt i st msg w1 = (r2, w2)" by fastforce
    note o2 = status_create_outcome [OF s2]
    show ?thesis
    proof (cases r2)
      case (Inr x)
      with o2 t1 assms(1) s1 s2 n False show ?thesis by (simp add: UpsertControllerStatus_def)
    next
      case (Inl e)
      obtain r3 w3 where s3: "status_update c rt i st msg w2 = (r3, w3)" by fastforce
      with assms(1) s1 s2 n False Inl obtain k where k: "r3 = Inr k" "k > 0" "w3 = w'"
        by (cases r3) (auto simp: UpsertControllerStatus_def split: if_splits)
      have "length (filter (status_key c rt i) (statuses (tables w2))) \<le> 1"
        using o2 t1 assms(2) reported_unique by auto
      from status_update_ok [OF s3 [unfolded k(1)] k(2) this] o2 t1 k(3) show ?thesis
        by (auto intro: reported_trans)
    qed
  qed
qed

end
