(* ===== verification/Tenancy_Events.thy ===== *)
theory Tenancy_Events
  imports Tenancy_Store
begin

text \<open>
  The event feed of tenancy-manager/internal/store/store.go: incremental polling, the maximum
  event id, and the replay that is synthesized from the current rows.
\<close>

definition GetEventsAfter :: "int \<Rightarrow> int \<Rightarrow> world \<Rightarrow> (go_err + event_row list) \<times> world" where
  "GetEventsAfter afterID limit w =
     in_db (select (\<lambda>d.
       if limit < 0 then Inl (Errorf ''LIMIT must not be negative'')
       else Inr (query_all (query_limit (nat limit) (query
              (sort_key ev_id (filter (\<lambda>e. ev_id e > afterID) (events d)))))))) w"

text \<open>\<open>ent.Desc(tenancyevent.FieldID)\<close>.\<close>

definition events_by_id_desc :: "db \<Rightarrow> event_row list" where
  "events_by_id_desc d = rev (sort_key ev_id (events d))"

definition MaxEventID :: "world \<Rightarrow> (go_err + int) \<times> world" where
  "MaxEventID w =
     (case in_db (select (\<lambda>d. query_only ''tenancy_event''
              (query_limit 1 (query (events_by_id_desc d))))) w of
        (Inl err, w) \<Rightarrow> if IsNotFound err then (Inr 0, w) else (Inl err, w)
      | (Inr e, w) \<Rightarrow> (Inr (ev_id e), w))"

record ReplayEvent =
  re_EventType :: string
  re_ResourceType :: string
  re_ResourceID :: uuid
  re_ResourceName :: string
  re_OrgID :: "uuid option"
  re_OrgName :: "string option"
  re_FolderID :: "uuid option"

definition replay_org :: "string \<Rightarrow> org_row \<Rightarrow> ReplayEvent" where
  "replay_org t o' =
     \<lparr>re_EventType = t, re_ResourceType = ''org'', re_ResourceID = org_id o',
      re_ResourceName = org_name o', re_OrgID = None, re_OrgName = None, re_FolderID = None\<rparr>"

definition replay_project :: "string \<Rightarrow> project_node \<Rightarrow> ReplayEvent" where
  "replay_project t n =
     (let p = fst n;
          ev = \<lparr>re_EventType = t, re_ResourceType = ''project'', re_ResourceID = proj_id p,
                re_ResourceName = proj_name p, re_OrgID = None, re_OrgName = None,
                re_FolderID = None\<rparr>
      in case snd n of
           None \<Rightarrow> ev
         | Some (f, None) \<Rightarrow> ev\<lparr>re_FolderID := Some (folder_id f)\<rparr>
         | Some (f, Some o') \<Rightarrow>
             ev\<lparr>re_FolderID := Some (folder_id f), re_OrgID := Some (org_id o'),
                re_OrgName := Some (org_name o')\<rparr>)"

text \<open>The four queries, in the order the source runs them.\<close>

definition replay_active_orgs :: "db \<Rightarrow> org_row list" where
  "replay_active_orgs d = sort_key org_created_at (filter org_active (orgs d))"

definition replay_active_projects :: "db \<Rightarrow> project_node list" where
  "replay_active_projects d =
     map (with_folder d) (sort_key proj_created_at (filter proj_active (projects d)))"

definition replay_deleted_projects :: "db \<Rightarrow> project_node list" where
  "replay_deleted_projects d =
     map (with_folder d)
       (sort_key (\<lambda>p. the (proj_deleted_at p)) (filter (\<lambda>p. proj_deleted_at p \<noteq> None) (projects d)))"

definition replay_deleted_orgs :: "db \<Rightarrow> org_row list" where
  "replay_deleted_orgs d =
     sort_key (\<lambda>r. the (org_deleted_at r)) (filter (\<lambda>r. org_deleted_at r \<noteq> None) (orgs d))"

text \<open>\<open>defer tx.Rollback()\<close>: its error is dropped.\<close>

definition deferred_rollback :: "go_err + 'a \<Rightarrow> world \<Rightarrow> (go_err + 'a) \<times> world" where
  "deferred_rollback r w = (r, snd (rollback_tx w))"

definition SynthesizeReplayEvents :: "world \<Rightarrow> (go_err + ReplayEvent list \<times> int) \<times> world" where
  "SynthesizeReplayEvents w =
     (case begin_tx w of
        (Inl err, w) \<Rightarrow> (Inl (Wrap (''begin replay transaction: '' @ err_text err) err), w)
      | (Inr _, w) \<Rightarrow>
     (case in_tx (select (\<lambda>d. query_first ''tenancy_event'' (query (events_by_id_desc d)))) w of
        (r, w) \<Rightarrow>
     (case (case r of
              Inl err \<Rightarrow> if IsNotFound err then Inr 0 else Inl err
            | Inr e \<Rightarrow> Inr (ev_id e)) of
        Inl err \<Rightarrow> deferred_rollback (Inl err) w
      | Inr maxID \<Rightarrow>
     (case in_tx (select (\<lambda>d. Inr (replay_active_orgs d))) w of
        (Inl err, w) \<Rightarrow> deferred_rollback (Inl err) w
      | (Inr os, w) \<Rightarrow>
     (case in_tx (select (\<lambda>d. Inr (replay_active_projects d))) w of
        (Inl err, w) \<Rightarrow> deferred_rollback (Inl err) w
      | (Inr ps, w) \<Rightarrow>
     (case in_tx (select (\<lambda>d. Inr (replay_deleted_projects d))) w of
        (Inl err, w) \<Rightarrow> deferred_rollback (Inl err) w
      | (Inr dps, w) \<Rightarrow>
     (case in_tx (select (\<lambda>d. Inr (replay_deleted_orgs d))) w of
        (Inl err, w) \<Rightarrow> deferred_rollback (Inl err) w
      | (Inr dos, w) \<Rightarrow>
          deferred_rollback
            (Inr (map (replay_org ''created'') os @ map (replay_project ''created'') ps @
                  map (replay_project ''deleted'') dps @ map (replay_org ''deleted'') dos, maxID)) w)))))))"

end
