(* ===== verification/Tenancy_Config.thy ===== *)
theory Tenancy_Config
  imports Prelude
begin

text \<open>
  The Tenant Manager's configuration, tenancy-manager/internal/config/config.go.  The YAML
  decoder and \<open>net/url\<close>'s rendering are parameters: a decoder takes the defaults and the
  file's bytes and gives the merged configuration or an error, and \<open>render\<close> prints a
  URL from scheme, user, password, host, path and query.  Durations are nanoseconds.
\<close>

record ControllersConfig =
  ctl_org :: "string list"
  ctl_project :: "string list"

record Config =
  DatabaseURL :: string
  ListenAddr :: string
  Controllers :: ControllersConfig
  EventRetention :: int
  CleanupInterval :: int
  DefaultOrgName :: string
  DefaultProjectName :: string
  OIDCServerURL :: string

abbreviation hour :: int where "hour \<equiv> 3600000000000"
abbreviation minute :: int where "minute \<equiv> 60000000000"

definition DefaultConfig :: Config where
  "DefaultConfig =
     \<lparr>DatabaseURL = ''postgres://localhost:5432/tenancy?sslmode=disable'',
      ListenAddr = '':8080'',
      Controllers =
        \<lparr>ctl_org = [''keycloak-tenant-controller''],
         ctl_project = [''keycloak-tenant-controller'', ''tenant-controller'', ''cluster-manager'',
                        ''observability-tenant-controller'', ''metadata-broker'']\<rparr>,
      EventRetention = 7 * 24 * hour,
      CleanupInterval = 1 * minute,
      DefaultOrgName = [],
      DefaultProjectName = [],
      OIDCServerURL = []\<rparr>"

text \<open>\<open>os.Getenv\<close>: the empty string for an unset variable.\<close>

definition Getenv :: "(string \<rightharpoonup> string) \<Rightarrow> string \<Rightarrow> string" where
  "Getenv e k = (case e k of None \<Rightarrow> [] | Some v \<Rightarrow> v)"

definition or_default :: "string \<Rightarrow> string \<Rightarrow> string" where
  "or_default v d = (if v = [] then d else v)"

record db_url =
  u_scheme :: string
  u_user :: string
  u_password :: string
  u_host :: string
  u_path :: string
  u_sslmode :: string

definition databaseURLFromEnv :: "(db_url \<Rightarrow> string) \<Rightarrow> (string \<rightharpoonup> string) \<Rightarrow> string" where
  "databaseURLFromEnv render e =
     (let host = Getenv e ''PGHOST''; user = Getenv e ''PGUSER'' in
      if host = [] \<or> user = [] then []
      else
        let password = Getenv e ''PGPASSWORD'';
            dbName = or_default (Getenv e ''PGDATABASE'') ''tenancy'';
            port = or_default (Getenv e ''PGPORT'') ''5432'';
            sslmode = or_default (Getenv e ''PGSSLMODE'') ''disable''
        in render \<lparr>u_scheme = ''postgres'', u_user = user, u_password = password,
                   u_host = host @ '':'' @ port, u_path = ''/'' @ dbName, u_sslmode = sslmode\<rparr>)"

definition Load ::
  "(Config \<Rightarrow> string \<Rightarrow> go_err + Config) \<Rightarrow> (db_url \<Rightarrow> string) \<Rightarrow> (string \<Rightarrow> go_err + string)
     \<Rightarrow> (string \<rightharpoonup> string) \<Rightarrow> string \<Rightarrow> go_err + Config" where
  "Load unmarshal render readFile e path =
     (let cfg = DefaultConfig in
      if path = [] then Inr cfg
      else case readFile path of
             Inl err \<Rightarrow> Inl err
           | Inr data \<Rightarrow>
               (case unmarshal cfg data of
                  Inl err \<Rightarrow> Inl err
                | Inr cfg \<Rightarrow>
                    let dbURL = databaseURLFromEnv render e in
                    Inr (if dbURL \<noteq> [] then cfg\<lparr>DatabaseURL := dbURL\<rparr> else cfg)))"

definition ControllersForResource :: "Config \<Rightarrow> string \<Rightarrow> string list" where
  "ControllersForResource c resourceType =
     (if resourceType = ''org'' then ctl_org (Controllers c)
      else if resourceType = ''project'' then ctl_project (Controllers c)
      else [])"

text \<open>
  \<open>cmd/main.go\<close> after \<open>config.Load\<close>: a configuration that cannot be loaded is
  replaced by the defaults, then the flags and \<open>DATABASE_URL\<close> override it.
\<close>

definition effective_config ::
  "go_err + Config \<Rightarrow> string \<Rightarrow> (string \<rightharpoonup> string) \<Rightarrow> string \<Rightarrow> Config" where
  "effective_config loaded dbURL e listenAddr =
     (let cfg = (case loaded of Inl _ \<Rightarrow> DefaultConfig | Inr cfg \<Rightarrow> cfg);
          cfg = (if dbURL \<noteq> [] then cfg\<lparr>DatabaseURL := dbURL\<rparr> else cfg);
          cfg = (if Getenv e ''DATABASE_URL'' \<noteq> []
                 then cfg\<lparr>DatabaseURL := Getenv e ''DATABASE_URL''\<rparr> else cfg)
      in if listenAddr \<noteq> [] then cfg\<lparr>ListenAddr := listenAddr\<rparr> else cfg)"

end
