(* ===== verification/Tenancy_Cleanup.thy ===== *)
theory Tenancy_Cleanup
  imports Tenancy_Store Tenancy_Status Tenancy_Config
begin

text \<open>
  Background cleanup and bootstrap of the store, tenancy-manager/internal/store/store.go, and the
  body of the cleanup ticker of tenancy-manager/cmd/main.go.  Logging is not modelled.
\<close>

definition CleanupOldEvents :: "int \<Rightarrow> world \<Rightarrow> (go_err + nat) \<times> world" where
  "CleanupOldEvents retention w =
     (case now w of
        (t, w) \<Rightarrow> in_db (delete_events (\<lambda>e. ev_created_at e < t - retention)) w)"

definition hasNoRegisteredStatuses ::
  "string \<Rightarrow> uuid \<Rightarrow> string list \<Rightarrow> world \<Rightarrow> bool \<times> world" where
  "hasNoRegisteredStatuses resourceType resourceID controllers w =
     (if controllers = [] then (True, w)
      else case in_db (select (\<lambda>d. Inr (length (filter
               (\<lambda>r. cs_resource_type r = resourceType \<and> cs_resource_id r = resourceID \<and>
                    cs_controller r \<in> set controllers) (statuses d))))) w of
             (Inl err, w) \<Rightarrow> (False, w)
           | (Inr count, w) \<Rightarrow> (count = 0, w))"

definition cleanOrphanedStatuses :: "string \<Rightarrow> uuid \<Rightarrow> string list \<Rightarrow> world \<Rightarrow> world" where
  "cleanOrphanedStatuses resourceType resourceID controllers w =
     (if controllers = [] then w
      else snd (in_db (delete_statuses
             (\<lambda>r. cs_resource_type r = resourceType \<and> cs_resource_id r = resourceID \<and>
                  cs_controller r \<notin> set controllers)) w))"

fun hard_delete_projects :: "string list \<Rightarrow> project_row list \<Rightarrow> world \<Rightarrow> world" where
  "hard_delete_projects controllers [] w = w"
| "hard_delete_projects controllers (p # ps) w =
     (case hasNoRegisteredStatuses ''project'' (proj_id p) controllers w of
        (True, w) \<Rightarrow>
          hard_delete_projects controllers ps
            (snd (in_db (delete_one_project (proj_id p))
                    (cleanOrphanedStatuses ''project'' (proj_id p) controllers w)))
      | (False, w) \<Rightarrow> hard_delete_projects controllers ps w)"

fun hard_delete_orgs :: "string list \<Rightarrow> org_row list \<Rightarrow> world \<Rightarrow> world" where
  "hard_delete_orgs controllers [] w = w"
| "hard_delete_orgs controllers (r # rs) w =
     (case in_db (select (\<lambda>d. Inr (length (filter (has_org_with d (\<lambda>q. org_id q = org_id r)) (projects d))))) w of
        (Inl err, w) \<Rightarrow> hard_delete_orgs controllers rs w
      | (Inr projectCount, w) \<Rightarrow>
          if projectCount > 0 then hard_delete_orgs controllers rs w
          else
     (case hasNoRegisteredStatuses ''org'' (org_id r) controllers w of
        (True, w) \<Rightarrow>
          (let w = cleanOrphanedStatuses ''org'' (org_id r) controllers w;
               w = snd (in_db (\<lambda>d. delete_folders
                          (\<lambda>f. \<exists>q \<in> set (orgs d). org_id q = folder_org f \<and> org_id q = org_id r) d) w);
               w = snd (in_db (delete_one_org (org_id r)) w)
           in hard_delete_orgs controllers rs w)
      | (False, w) \<Rightarrow> hard_delete_orgs controllers rs w))"

definition CleanupHardDelete :: "Config \<Rightarrow> world \<Rightarrow> (go_err + unit) \<times> world" where
  "CleanupHardDelete cfg w =
     (case in_db (select (\<lambda>d. Inr (query_all (query
              (filter (\<lambda>p. proj_deleted_at p \<noteq> None) (projects d)))))) w of
        (Inl err, w) \<Rightarrow> (Inl err, w)
      | (Inr deletedProjects, w) \<Rightarrow>
          let w = hard_delete_projects (ControllersForResource cfg ''project'') deletedProjects w in
     (case in_db (select (\<lambda>d. Inr (query_all (query
              (filter (\<lambda>r. org_deleted_at r \<noteq> None) (orgs d)))))) w of
        (Inl err, w) \<Rightarrow> (Inl err, w)
      | (Inr deletedOrgs, w) \<Rightarrow>
          (Inr (), hard_delete_orgs (ControllersForResource cfg ''org'') deletedOrgs w)))"

text \<open>One tick of \<open>runCleanup\<close>: both errors are only logged.\<close>

definition cleanup_tick :: "Config \<Rightarrow> world \<Rightarrow> world" where
  "cleanup_tick cfg w =
     snd (CleanupHardDelete cfg (snd (CleanupOldEvents (EventRetention cfg) w)))"

definition Bootstrap :: "string \<Rightarrow> string \<Rightarrow> world \<Rightarrow> (go_err + unit) \<times> world" where
  "Bootstrap orgName projectName w =
     (if orgName = [] \<or> projectName = [] then (Inr (), w)
      else
     (case GetOrg orgName w of
        (Inr _, w) \<Rightarrow> (Inr (), w)
      | (Inl err, w) \<Rightarrow>
          if \<not> IsNotFound err then (Inl err, w)
          else
     (case CreateOrg orgName ''Default organization'' w of
        (Inl err, w) \<Rightarrow> (Inl (Wrap (''bootstrap org: '' @ err_text err) err), w)
      | (Inr _, w) \<Rightarrow>
     (case CreateProject orgName projectName ''Default project'' w of
        (Inl err, w) \<Rightarrow> (Inl (Wrap (''bootstrap project: '' @ err_text err) err), w)
      | (Inr _, w) \<Rightarrow> (Inr (), w)))))"

end
