(* ===== verification/Tenancy_Invariant.thy ===== *)
theory Tenancy_Invariant
  imports Tenancy_Store Tenancy_Status Tenancy_Events Tenancy_Cleanup
begin

text \<open>
  The invariant of the Tenant Manager's database and its preservation by every operation of the
  store, the background cleanup included, whatever the driver reports and wherever a call is cut
  off: a state machine whose steps are the calls of the store.
\<close>

section \<open>The invariant\<close>

text \<open>The unique indexes and primary keys of ent/migrate/schema.go.\<close>

definition keys_ok :: "db \<Rightarrow> bool" where
  "keys_ok d \<longleftrightarrow>
     distinct (map org_id (orgs d)) \<and> distinct (map org_name (orgs d)) \<and>
     distinct (map folder_id (folders d)) \<and>
     distinct (map (\<lambda>f. (folder_name f, folder_org f)) (folders d)) \<and>
     distinct (map proj_id (projects d)) \<and>
     distinct (map (\<lambda>p. (proj_name p, proj_folder p)) (projects d)) \<and>
     distinct (map (\<lambda>s. (cs_controller s, cs_resource_type s, cs_resource_id s)) (statuses d))"

text \<open>The foreign keys.\<close>

definition refs_ok :: "db \<Rightarrow> bool" where
  "refs_ok d \<longleftrightarrow>
     folder_org ` set (folders d) \<subseteq> org_id ` set (orgs d) \<and>
     proj_folder ` set (projects d) \<subseteq> folder_id ` set (folders d)"

text \<open>What the store adds to the schema: an active project hangs under an active org, an
  active org has its default folder, a name is never empty or too long.\<close>

definition active_ok :: "db \<Rightarrow> bool" where
  "active_ok d \<longleftrightarrow>
     (\<forall>p \<in> set (projects d). proj_active p \<longrightarrow> has_org_with d org_active p) \<and>
     (\<forall>r \<in> set (orgs d). org_active r \<longrightarrow>
        (''default'', org_id r) \<in> (\<lambda>f. (folder_name f, folder_org f)) ` set (folders d)) \<and>
     (\<forall>r \<in> set (orgs d). valid_name (org_name r)) \<and>
     (\<forall>p \<in> set (projects d). valid_name (proj_name p))"

definition wf_db :: "db \<Rightarrow> bool" where
  "wf_db d \<longleftrightarrow> keys_ok d \<and> refs_ok d \<and> active_ok d"

text \<open>Between two calls no transaction is open, and the feed is ordered below the sequence.\<close>

definition wf_world :: "world \<Rightarrow> bool" where
  "wf_world w \<longleftrightarrow>
     tx w = None \<and> wf_db (tables w) \<and> sorted_wrt (<) (map ev_id (events (tables w))) \<and>
     (\<forall>e \<in> set (events (tables w)). ev_id e < event_seq w) \<and> 1 \<le> event_seq w"

section \<open>Transactions keep it\<close>

lemma fresh_events_wf:
  assumes "fresh_events w d k" and "sorted_wrt (<) (map ev_id (events (tables w)))"
    and "\<forall>e \<in> set (events (tables w)). ev_id e < event_seq w" and "event_seq w \<le> k"
  shows "sorted_wrt (<) (map ev_id (events d)) \<and> (\<forall>e \<in> set (events d). ev_id e < k)"
proof -
  from assms(1) obtain es where es: "events d = events (tables w) @ es"
    "sorted_wrt (<) (map ev_id es)" "\<forall>e \<in> set es. event_seq w \<le> ev_id e \<and> ev_id e < k"
    by (auto simp: fresh_events_def)
  with assms(2-4) show ?thesis by (force simp: sorted_wrt_append)
qed

lemma atomically_wf:
  assumes "atomically w res eff" and "wf_world w"
    and "\<And>a d'. eff a (tables w) d' \<Longrightarrow> wf_db d'"
  shows "wf_world (snd res)"
proof (cases res)
  case (Pair r w')
  have "wf_db (tables w')"
    using assms Pair by (cases r) (auto simp: atomically_def wf_world_def)
  moreover have "sorted_wrt (<) (map ev_id (events (tables w'))) \<and>
      (\<forall>e \<in> set (events (tables w')). ev_id e < event_seq w')"
    using assms(1,2) Pair
    by (intro fresh_events_wf [of w]) (auto simp: atomically_def wf_world_def)
  moreover have "tx w' = None \<and> 1 \<le> event_seq w'"
    using assms(1,2) Pair by (simp add: atomically_def wf_world_def)
  ultimately show ?thesis using Pair by (simp add: wf_world_def)
qed

lemma has_org_with_mono:
  "has_org_with d P p \<Longrightarrow> set (folders d) \<subseteq> set (folders d') \<Longrightarrow> set (orgs d) \<subseteq> set (orgs d') \<Longrightarrow>
     has_org_with d' P p"
  by (force simp: has_org_with_def)

lemma has_org_with_map:
  assumes "has_org_with d P p" and "folders d' = folders d" and "orgs d' = map g (orgs d)"
    and "\<And>q. P q \<Longrightarrow> org_id (g q) = org_id q \<and> Q (g q)"
  shows "has_org_with d' Q p"
proof -
  from assms(1) obtain f q where "f \<in> set (folders d)" "folder_id f = proj_folder p"
    "q \<in> set (orgs d)" "org_id q = folder_org f" "P q" by (auto simp: has_org_with_def)
  then show ?thesis using assms(2-4) unfolding has_org_with_def
    by (intro bexI [of _ f] conjI bexI [of _ "g q"]) auto
qed

lemma has_org_with_diff:
  "has_org_with d P p \<Longrightarrow> \<not> has_org_with d Q p \<Longrightarrow> has_org_with d (\<lambda>q. P q \<and> \<not> Q q) p"
  unfolding has_org_with_def by blast

lemma create_org_eff_wf:
  assumes "wf_db d" and "create_org_eff n s r d d'"
  shows "wf_db d'"
proof -
  from assms(2) obtain f e where c: "orgs d' = orgs d @ [r]" "folders d' = folders d @ [f]"
    "projects d' = projects d" "statuses d' = statuses d" "org_name r = n" "org_active r" "valid_name n"
    "org_id r \<notin> org_id ` set (orgs d)" "n \<notin> org_name ` set (orgs d)"
    "folder_name f = ''default''" "folder_org f = org_id r" "folder_id f \<notin> folder_id ` set (folders d)"
    "(''default'', org_id r) \<notin> (\<lambda>f. (folder_name f, folder_org f)) ` set (folders d)"
    by (auto simp: create_org_eff_def)
  have "keys_ok d'" using assms(1) c by (auto simp: wf_db_def keys_ok_def)
  moreover have "refs_ok d'" using assms(1) c by (auto simp: wf_db_def refs_ok_def)
  moreover have "active_ok d'" using assms(1) c
    by (auto simp: wf_db_def active_ok_def elim!: has_org_with_mono)
  ultimately show ?thesis by (simp add: wf_db_def)
qed

lemma create_project_eff_wf:
  assumes "wf_db d" and "create_project_eff orgName n s po d d'"
  shows "wf_db d'"
proof -
  obtain p r where po: "po = (p, r)" by fastforce
  with assms(2) obtain f e where c: "orgs d' = orgs d" "folders d' = folders d"
    "projects d' = projects d @ [p]" "statuses d' = statuses d" "r \<in> set (orgs d)" "org_active r"
    "f \<in> set (folders d)" "folder_org f = org_id r" "proj_name p = n" "valid_name n"
    "proj_folder p = folder_id f" "proj_id p \<notin> proj_id ` set (projects d)"
    "(n, folder_id f) \<notin> (\<lambda>p. (proj_name p, proj_folder p)) ` set (projects d)"
    by (auto simp: create_project_eff_def)
  have "keys_ok d'" using assms(1) c by (auto simp: wf_db_def keys_ok_def)
  moreover have "refs_ok d'" using assms(1) c by (auto simp: wf_db_def refs_ok_def)
  moreover have "has_org_with d' org_active p" using c by (force simp: has_org_with_def)
  then have "active_ok d'" using assms(1) c
    by (auto simp: wf_db_def active_ok_def elim!: has_org_with_mono)
  ultimately show ?thesis by (simp add: wf_db_def)
qed

text \<open>Rewriting rows in place keeps the invariant when the keys stay and nothing becomes
  active or inactive that a project relies on.\<close>

definition same_org :: "org_row \<Rightarrow> org_row \<Rightarrow> bool" where
  "same_org r r' \<longleftrightarrow> org_id r' = org_id r \<and> org_name r' = org_name r"

definition same_project :: "project_row \<Rightarrow> project_row \<Rightarrow> bool" where
  "same_project p p' \<longleftrightarrow>
     proj_id p' = proj_id p \<and> proj_name p' = proj_name p \<and> proj_folder p' = proj_folder p"

lemma same_org_maps:
  "list_all2 same_org rs rs' \<Longrightarrow> map org_id rs' = map org_id rs \<and> map org_name rs' = map org_name rs"
  by (induction rule: list_all2_induct) (auto simp: same_org_def)

lemma same_project_maps:
  "list_all2 same_project ps ps' \<Longrightarrow>
     map proj_id ps' = map proj_id ps \<and>
     map (\<lambda>p. (proj_name p, proj_folder p)) ps' = map (\<lambda>p. (proj_name p, proj_folder p)) ps"
  by (induction rule: list_all2_induct) (auto simp: same_project_def)

lemma list_all2_member:
  "list_all2 R xs ys \<Longrightarrow> y \<in> set ys \<Longrightarrow> \<exists>x \<in> set xs. R x y"
  by (induction rule: list_all2_induct) auto

lemma in_place_wf:
  assumes "wf_db d" and "list_all2 same_org (orgs d) (orgs d')"
    and "list_all2 same_project (projects d) (projects d')"
    and "folders d' = folders d" "statuses d' = statuses d"
    and "\<And>r. r \<in> set (orgs d') \<Longrightarrow> org_active r \<Longrightarrow> \<exists>q \<in> set (orgs d). org_id q = org_id r \<and> org_active q"
    and "\<And>p. p \<in> set (projects d') \<Longrightarrow> proj_active p \<Longrightarrow> has_org_with d' org_active p"
  shows "wf_db d'"
proof -
  note m = same_org_maps [OF assms(2)] same_project_maps [OF assms(3)]
  have "keys_ok d'" using assms(1,4,5) m by (simp add: wf_db_def keys_ok_def)
  moreover have "org_id ` set (orgs d') = org_id ` set (orgs d)"
    using m by (metis list.set_map)
  moreover have "proj_folder ` set (projects d') \<subseteq> proj_folder ` set (projects d)"
    using assms(3) by (auto dest!: list_all2_member simp: same_project_def)
  moreover from this have "proj_folder ` set (projects d') \<subseteq> folder_id ` set (folders d)"
    by (rule subset_trans) (use assms(1) in \<open>simp add: wf_db_def refs_ok_def\<close>)
  ultimately have "keys_ok d'" "refs_ok d'"
    using assms(1,4) by (simp_all add: wf_db_def refs_ok_def)
  moreover have "active_ok d'"
    unfolding active_ok_def
  proof (intro conjI ballI impI)
    fix r assume "r \<in> set (orgs d')" "org_active r"
    then show "(''default'', org_id r) \<in> (\<lambda>f. (folder_name f, folder_org f)) ` set (folders d')"
      using assms(1,4,6) by (force simp: wf_db_def active_ok_def)
  next
    fix r assume "r \<in> set (orgs d')"
    with list_all2_member [OF assms(2)] show "valid_name (org_name r)"
      using assms(1) by (force simp: wf_db_def active_ok_def same_org_def)
  next
    fix p assume "p \<in> set (projects d')"
    with list_all2_member [OF assms(3)] show "valid_name (proj_name p)"
      using assms(1) by (force simp: wf_db_def active_ok_def same_project_def)
  qed (use assms(7) in auto)
  ultimately show ?thesis by (simp add: wf_db_def)
qed

lemma list_all2_refl: "(\<And>x. R x x) \<Longrightarrow> list_all2 R xs xs"
  by (simp add: list_all2_conv_all_nth)

lemma list_all2_map_self: "(\<And>x. R x (f x)) \<Longrightarrow> list_all2 R xs (map f xs)"
  by (simp add: list_all2_conv_all_nth)

lemma soft_deleted_same:
  "list_all2 (soft_deleted t P) ps ps' \<Longrightarrow> list_all2 same_project ps ps'"
  by (erule list.rel_mono_strong) (auto simp: soft_deleted_def same_project_def split: if_splits)

lemma soft_deleted_active:
  "list_all2 (soft_deleted t P) ps ps' \<Longrightarrow> p \<in> set ps' \<Longrightarrow> proj_active p \<Longrightarrow> p \<in> set ps \<and> \<not> P p"
  by (induction rule: list_all2_induct) (auto simp: soft_deleted_def split: if_splits)

lemma update_org_eff_wf:
  assumes "wf_db d" and "update_org_eff n s r d d'"
  shows "wf_db d'"
proof -
  from assms(2) obtain q :: org_row and u where c:
    "orgs d' = map (\<lambda>x. if org_id x = org_id q then x\<lparr>org_description := s, org_updated_at := u\<rparr> else x) (orgs d)"
    "folders d' = folders d" "projects d' = projects d" "statuses d' = statuses d"
    unfolding update_org_eff_def by (elim exE conjE) (rule that; assumption)
  have "has_org_with d' org_active p" if "has_org_with d org_active p" for p
    using that c(2,1) by (rule has_org_with_map) simp
  then show ?thesis using assms(1) c
    by (intro in_place_wf [OF assms(1)] list_all2_map_self list_all2_refl)
      (auto simp: same_org_def same_project_def wf_db_def active_ok_def intro!: list_all2_map_self list_all2_refl)
qed

lemma has_org_with_cong:
  "folders d' = folders d \<Longrightarrow> orgs d' = orgs d \<Longrightarrow> has_org_with d' P p = has_org_with d P p"
  by (simp add: has_org_with_def)

lemma has_org_with_project_upd [simp]:
  "has_org_with d P (p\<lparr>proj_description := s\<rparr>) = has_org_with d P p"
  "has_org_with d P (p\<lparr>proj_updated_at := u\<rparr>) = has_org_with d P p"
  by (simp_all add: has_org_with_def)

lemma update_project_eff_wf:
  assumes "wf_db d" and "update_project_eff n sc s po d d'"
  shows "wf_db d'"
proof -
  from assms(2) obtain q :: project_row and u where c: "orgs d' = orgs d" "folders d' = folders d" "statuses d' = statuses d"
    "projects d' = map (\<lambda>x. if proj_id x = proj_id q then x\<lparr>proj_description := s, proj_updated_at := u\<rparr> else x) (projects d)"
    unfolding update_project_eff_def by (elim exE conjE) (rule that; assumption)
  show ?thesis using assms(1) c has_org_with_cong [OF c(2,1)]
    by (intro in_place_wf [OF assms(1)])
      (auto simp: same_org_def same_project_def wf_db_def active_ok_def intro!: list_all2_map_self list_all2_refl)
qed

lemma delete_project_eff_wf:
  assumes "wf_db d" and "delete_project_eff n sc a d d'"
  shows "wf_db d'"
proof -
  from assms(2) obtain t P where c: "orgs d' = orgs d" "folders d' = folders d" "statuses d' = statuses d"
    "list_all2 (soft_deleted t P) (projects d) (projects d')"
    by (auto simp: delete_project_eff_def)
  show ?thesis using assms(1) c has_org_with_cong [OF c(2,1)] soft_deleted_active [OF c(4)]
    by (intro in_place_wf [OF assms(1)])
      (auto simp: same_org_def wf_db_def active_ok_def soft_deleted_same intro!: list_all2_refl)
qed

text \<open>An active project left over by a delete of an org belongs to another org.\<close>

lemma delete_org_eff_wf:
  assumes "wf_db d" and "delete_org_eff n a d d'"
  shows "wf_db d'"
proof -
  from assms(2) obtain r :: org_row and t u where c: "folders d' = folders d" "statuses d' = statuses d"
    "orgs d' = map (\<lambda>q. if org_id q = org_id r \<and> org_active q
                     then q\<lparr>org_deleted_at := Some t, org_updated_at := u\<rparr> else q) (orgs d)"
    "list_all2 (soft_deleted t (has_org_with d (\<lambda>q. org_id q = org_id r))) (projects d) (projects d')"
    unfolding delete_org_eff_def by (elim exE conjE) (rule that; assumption)
  have "has_org_with d' org_active p" if "p \<in> set (projects d')" "proj_active p" for p
  proof -
    from soft_deleted_active [OF c(4) that] have "p \<in> set (projects d)"
      and o: "\<not> has_org_with d (\<lambda>q. org_id q = org_id r) p" by auto
    with assms(1) that have "has_org_with d org_active p" by (simp add: wf_db_def active_ok_def)
    from has_org_with_diff [OF this o] c(1,3) show ?thesis by (rule has_org_with_map) simp
  qed
  then show ?thesis using assms(1) c
    by (intro in_place_wf [OF assms(1)])
      (auto simp: same_org_def soft_deleted_same split: if_splits intro!: list_all2_map_self)
qed

section \<open>The contract of a mutation\<close>

text \<open>What every mutating method of the store promises its callers: it is atomic with a known
  effect, and the effect keeps the database well formed.  The client facts follow once.\<close>

locale mutation =
  fixes op :: "world \<Rightarrow> (go_err + 'a) \<times> world" and eff :: "'a \<Rightarrow> db \<Rightarrow> db \<Rightarrow> bool"
  assumes atomic: "wf_world w \<Longrightarrow> atomically w (op w) eff"
    and keeps: "wf_db d \<Longrightarrow> eff a d d' \<Longrightarrow> wf_db d'"
begin

lemma preserves: "wf_world w \<Longrightarrow> wf_world (snd (op w))"
  by (rule atomically_wf [OF atomic]) (auto simp: wf_world_def dest: keeps)

lemma on_success: "wf_world w \<Longrightarrow> op w = (Inr a, w') \<Longrightarrow> eff a (tables w) (tables w')"
  using atomic [of w] by (simp add: atomically_def)

lemma on_error:
  "wf_world w \<Longrightarrow> op w = (Inl e, w') \<Longrightarrow>
     tables w' = tables w \<or> loses_ack w \<and> (\<exists>a. eff a (tables w) (tables w'))"
  using atomic [of w] by (simp add: atomically_def)

lemma keeps_env: "wf_world w \<Longrightarrow> env (snd (op w)) = env w"
  using atomic [of w] by (cases "op w") (simp add: atomically_def)

lemma closes: "wf_world w \<Longrightarrow> op w = (r, w') \<Longrightarrow> tx w' = None"
  using atomic [of w] by (simp add: atomically_def)

text \<open>The contract in one statement, as the properties of the methods use it.\<close>

lemma all_or_nothing:
  "wf_world w \<Longrightarrow> op w = (r, w') \<Longrightarrow>
     tx w' = None \<and>
     (case r of
        Inl _ \<Rightarrow> tables w' = tables w \<or> loses_ack w \<and> (\<exists>a. eff a (tables w) (tables w'))
      | Inr a \<Rightarrow> eff a (tables w) (tables w'))"
  using on_success on_error closes by (auto split: sum.split)

lemma feed_grows:
  "wf_world w \<Longrightarrow> op w = (r, w') \<Longrightarrow> fresh_events w (tables w') (event_seq w')"
  using atomic [of w] by (simp add: atomically_def)

end

lemma wf_world_keys:
  assumes "wf_world w"
  shows "tx w = None" "distinct (map org_id (orgs (tables w)))" "distinct (map proj_id (projects (tables w)))"
  using assms by (simp_all add: wf_world_def wf_db_def keys_ok_def)

interpretation create_org: mutation "CreateOrg n s" "create_org_eff n s" for n s
  by unfold_locales (auto intro: CreateOrg_atomic create_org_eff_wf wf_world_keys)

interpretation update_org: mutation "UpdateOrg n s" "update_org_eff n s" for n s
  by unfold_locales (auto intro: UpdateOrg_atomic update_org_eff_wf wf_world_keys)

interpretation delete_org: mutation "DeleteOrg n" "delete_org_eff n" for n
  by unfold_locales (auto intro: DeleteOrg_atomic delete_org_eff_wf wf_world_keys)

interpretation create_project: mutation "CreateProject o' n s" "create_project_eff o' n s" for o' n s
  by unfold_locales (auto intro: CreateProject_atomic create_project_eff_wf wf_world_keys)

interpretation update_project: mutation "UpdateProject n sc s" "update_project_eff n sc s" for n sc s
  by unfold_locales (auto intro: UpdateProject_atomic update_project_eff_wf wf_world_keys)

interpretation delete_project: mutation "DeleteProject n sc" "delete_project_eff n sc" for n sc
  by unfold_locales (auto intro: DeleteProject_atomic delete_project_eff_wf wf_world_keys)

section \<open>Statements outside a transaction\<close>

text \<open>A statement sent through the store's own client either has its whole effect or none, so
  it keeps the invariant as soon as its effect does.\<close>

definition keeps_wf :: "(db \<Rightarrow> go_err + 'a \<times> db) \<Rightarrow> db \<Rightarrow> bool" where
  "keeps_wf f d \<longleftrightarrow>
     (\<forall>a d'. f d = Inr (a, d') \<longrightarrow> wf_db d' \<and> (\<exists>P. events d' = filter P (events d)))"

lemma in_db_wf:
  assumes "wf_world w" and "in_db f w = (r, w')" and "keeps_wf f (tables w)"
  shows "wf_world w'"
proof (cases "tables w' = tables w")
  case True
  with assms(1) in_dbD [OF assms(2)] show ?thesis by (auto simp: wf_world_def)
next
  case False
  with in_dbD [OF assms(2)] assms(3) obtain P where
    "wf_db (tables w')" "events (tables w') = filter P (events (tables w))"
    "tx w' = tx w" "event_seq w' = event_seq w"
    unfolding keeps_wf_def by metis
  with assms(1) show ?thesis by (simp add: wf_world_def sorted_wrt_map sorted_wrt_filter)
qed

lemma select_keeps: "wf_db d \<Longrightarrow> keeps_wf (select q) d"
  by (auto simp: keeps_wf_def select_def split: sum.splits intro!: exI [of _ "\<lambda>_. True"])

text \<open>Controller statuses hang on no other table.\<close>

lemma wf_db_statuses:
  assumes "wf_db d" and "distinct (map (\<lambda>s. (cs_controller s, cs_resource_type s, cs_resource_id s)) ss)"
  shows "wf_db (d\<lparr>statuses := ss\<rparr>)"
proof -
  have "has_org_with (d\<lparr>statuses := ss\<rparr>) P p = has_org_with d P p" for P p by (simp add: has_org_with_def)
  with assms show ?thesis by (simp add: wf_db_def keys_ok_def refs_ok_def active_ok_def)
qed

lemma wf_db_status_keys:
  "wf_db d \<Longrightarrow> distinct (map (\<lambda>s. (cs_controller s, cs_resource_type s, cs_resource_id s)) (statuses d))"
  by (simp add: wf_db_def keys_ok_def)

lemma update_statuses_keeps: "wf_db d \<Longrightarrow> keeps_wf (update_statuses c rt i st m u) d"
  using wf_db_status_keys
  by (auto simp: keeps_wf_def update_statuses_def comp_def if_distrib [of cs_controller]
      if_distrib [of cs_resource_type] if_distrib [of cs_resource_id] cong: if_cong
      intro!: wf_db_statuses exI [of _ "\<lambda>_. True"])

lemma insert_status_keeps: "wf_db d \<Longrightarrow> keeps_wf (insert_status r) d"
  using wf_db_status_keys
  by (fastforce simp: keeps_wf_def insert_status_def status_key_def split: if_splits
      intro!: wf_db_statuses exI [of _ "\<lambda>_. True"])

lemma delete_statuses_keeps: "wf_db d \<Longrightarrow> keeps_wf (delete_statuses P) d"
  using wf_db_status_keys
  by (auto simp: keeps_wf_def delete_statuses_def
      intro!: wf_db_statuses distinct_map_filterI exI [of _ "\<lambda>_. True"])

lemma delete_events_keeps:
  assumes "wf_db d"
  shows "keeps_wf (delete_events P) d"
proof -
  have "has_org_with (d\<lparr>events := es\<rparr>) Q p = has_org_with d Q p" for Q p es by (simp add: has_org_with_def)
  with assms show ?thesis
    by (auto simp: keeps_wf_def delete_events_def wf_db_def keys_ok_def refs_ok_def active_ok_def)
qed

section \<open>Hard deletes\<close>

text \<open>Removing rows keeps the invariant as long as the foreign keys hold and every active org
  keeps its folders.\<close>

lemma shrink_wf:
  assumes "wf_db d" and "refs_ok d'" and "statuses d' = statuses d"
    and "orgs d' = filter P (orgs d)" "projects d' = filter Q (projects d)" "folders d' = filter R (folders d)"
    and "\<And>f r. f \<in> set (folders d) \<Longrightarrow> \<not> R f \<Longrightarrow> r \<in> set (orgs d') \<Longrightarrow> org_id r = folder_org f \<Longrightarrow> \<not> org_active r"
  shows "wf_db d'"
proof -
  have keys: "keys_ok d'" using assms(1,3-6) by (simp add: wf_db_def keys_ok_def distinct_map_filterI)
  have "has_org_with d' org_active p" if p: "p \<in> set (projects d')" "proj_active p" for p
  proof -
    from p assms(1,5) obtain f r where f: "f \<in> set (folders d)" "folder_id f = proj_folder p"
      and r: "r \<in> set (orgs d)" "org_id r = folder_org f" "org_active r"
      by (auto simp: wf_db_def active_ok_def has_org_with_def)
    from assms(2) p obtain f' where f': "f' \<in> set (folders d')" "folder_id f' = proj_folder p"
      by (force simp: refs_ok_def)
    with f assms(1,6) have [simp]: "f' = f"
      using distinct_map_unique [of folder_id "folders d" f' f] by (simp add: wf_db_def keys_ok_def)
    from assms(2) f' obtain r' where r': "r' \<in> set (orgs d')" "org_id r' = folder_org f"
      by (force simp: refs_ok_def)
    with r assms(1,4) have "r' = r"
      using distinct_map_unique [of org_id "orgs d" r' r] by (simp add: wf_db_def keys_ok_def)
    with f' r' r show ?thesis by (auto simp: has_org_with_def)
  qed
  moreover have "(''default'', org_id r) \<in> (\<lambda>f. (folder_name f, folder_org f)) ` set (folders d')"
    if r: "r \<in> set (orgs d')" "org_active r" for r
  proof -
    from r assms(1,4) obtain f where f: "f \<in> set (folders d)" "folder_name f = ''default''" "folder_org f = org_id r"
      by (force simp: wf_db_def active_ok_def)
    with r assms(7) [of f r] have "R f" by auto
    with f assms(6) show ?thesis by force
  qed
  ultimately have "active_ok d'" using assms(1,4,5) by (auto simp: wf_db_def active_ok_def)
  with keys assms(2) show ?thesis by (simp add: wf_db_def)
qed

lemma delete_one_project_keeps:
  assumes "wf_db d"
  shows "keeps_wf (delete_one_project i) d"
  unfolding keeps_wf_def
proof (intro allI impI conjI)
  fix a d' assume "delete_one_project i d = Inr (a, d')"
  then have d': "d' = d\<lparr>projects := filter (\<lambda>p. proj_id p \<noteq> i) (projects d)\<rparr>"
    by (auto simp: delete_one_project_def split: if_splits)
  show "\<exists>P. events d' = filter P (events d)" using d' by (intro exI [of _ "\<lambda>_. True"]) simp
  show "wf_db d'"
    by (rule shrink_wf [OF assms, where P = "\<lambda>_. True" and R = "\<lambda>_. True"])
      (use assms d' in \<open>auto simp: refs_ok_def wf_db_def\<close>)
qed

lemma delete_folders_keeps:
  assumes "wf_db d" and "\<And>f r. P f \<Longrightarrow> r \<in> set (orgs d) \<Longrightarrow> org_id r = folder_org f \<Longrightarrow> \<not> org_active r"
  shows "keeps_wf (delete_folders P) d"
  unfolding keeps_wf_def
proof (intro allI impI conjI)
  fix a d' assume "delete_folders P d = Inr (a, d')"
  then have d': "d' = d\<lparr>folders := filter (\<lambda>f. \<not> P f) (folders d)\<rparr>"
    and free: "\<forall>f \<in> set (folders d). P f \<longrightarrow> folder_id f \<notin> proj_folder ` set (projects d)"
    by (auto simp: delete_folders_def split: if_splits)
  show "\<exists>P. events d' = filter P (events d)" using d' by (intro exI [of _ "\<lambda>_. True"]) simp
  have "proj_folder p \<in> folder_id ` set (folders d')" if "p \<in> set (projects d)" for p
  proof -
    from that assms(1) obtain f where f: "f \<in> set (folders d)" "folder_id f = proj_folder p"
      by (fastforce simp: wf_db_def refs_ok_def)
    with free that have "\<not> P f" by (metis imageI)
    with f d' show ?thesis by force
  qed
  with assms(1) d' have "refs_ok d'" by (auto simp: wf_db_def refs_ok_def)
  then show "wf_db d'"
    by (rule shrink_wf [OF assms(1), where P = "\<lambda>_. True" and Q = "\<lambda>_. True"])
      (use assms(2) d' in auto)
qed

lemma delete_one_org_keeps:
  assumes "wf_db d"
  shows "keeps_wf (delete_one_org i) d"
  unfolding keeps_wf_def
proof (intro allI impI conjI)
  fix a d' assume "delete_one_org i d = Inr (a, d')"
  then have d': "d' = d\<lparr>orgs := filter (\<lambda>r. org_id r \<noteq> i) (orgs d)\<rparr>"
    and free: "i \<notin> folder_org ` set (folders d)"
    by (auto simp: delete_one_org_def split: if_splits)
  show "\<exists>P. events d' = filter P (events d)" using d' by (intro exI [of _ "\<lambda>_. True"]) simp
  have "folder_org f \<in> org_id ` set (orgs d')" if "f \<in> set (folders d)" for f
  proof -
    from that assms(1) obtain r where "r \<in> set (orgs d)" "org_id r = folder_org f"
      by (fastforce simp: wf_db_def refs_ok_def)
    moreover from free that have "folder_org f \<noteq> i" by (metis imageI)
    ultimately show ?thesis using d' by force
  qed
  with assms(1) d' have "refs_ok d'" by (auto simp: wf_db_def refs_ok_def)
  then show "wf_db d'"
    by (rule shrink_wf [OF assms, where Q = "\<lambda>_. True" and R = "\<lambda>_. True"]) (use d' in auto)
qed

section \<open>Controller statuses and cleanup keep the invariant\<close>

lemma in_db_keeps:
  "wf_world w \<Longrightarrow> (wf_db (tables w) \<Longrightarrow> keeps_wf f (tables w)) \<Longrightarrow> wf_world (snd (in_db f w))"
  using in_db_wf [of w f "fst (in_db f w)" "snd (in_db f w)"] by (simp add: wf_world_def)

lemma now_wf: "wf_world w \<Longrightarrow> now w = (t, w') \<Longrightarrow> wf_world w'"
  by (auto simp: now_def wf_world_def)

lemma status_update_wf: "wf_world w \<Longrightarrow> wf_world (snd (status_update c rt i st m w))"
  unfolding status_update_def
  by (auto simp: Let_def now_wf split: prod.split option.split intro!: in_db_keeps update_statuses_keeps)

lemma status_create_wf: "wf_world w \<Longrightarrow> wf_world (snd (status_create c rt i st m w))"
  unfolding status_create_def
  by (auto simp: Let_def now_wf split: prod.split option.split intro!: in_db_keeps insert_status_keeps)

text \<open>One step through \<open>if err != nil\<close>, for a predicate on the final world.\<close>

lemma wf_step:
  assumes "wf_world (snd m)"
    and "\<And>e w1. m = (Inl e, w1) \<Longrightarrow> wf_world w1 \<Longrightarrow> wf_world (snd (A e w1))"
    and "\<And>a w1. m = (Inr a, w1) \<Longrightarrow> wf_world w1 \<Longrightarrow> wf_world (snd (B a w1))"
  shows "wf_world (snd (case m of (Inl e, w1) \<Rightarrow> A e w1 | (Inr a, w1) \<Rightarrow> B a w1))"
  using assms by (cases m) (auto split: sum.split)

lemma wf_step_swap:
  assumes "wf_world (snd m)"
    and "\<And>e w1. m = (Inl e, w1) \<Longrightarrow> wf_world w1 \<Longrightarrow> wf_world (snd (A e w1))"
    and "\<And>a w1. m = (Inr a, w1) \<Longrightarrow> wf_world w1 \<Longrightarrow> wf_world (snd (B a w1))"
  shows "wf_world (snd (case m of (Inr a, w1) \<Rightarrow> B a w1 | (Inl e, w1) \<Rightarrow> A e w1))"
  using assms by (cases m) (auto split: sum.split)

lemma wf_if: "(c \<Longrightarrow> wf_world (snd a)) \<Longrightarrow> (\<not> c \<Longrightarrow> wf_world (snd b)) \<Longrightarrow> wf_world (snd (if c then a else b))"
  by simp

lemma UpsertControllerStatus_wf: "wf_world w \<Longrightarrow> wf_world (snd (UpsertControllerStatus c rt i st m w))"
  unfolding UpsertControllerStatus_def
  by (intro wf_step wf_step_swap wf_if status_update_wf status_create_wf; simp)

lemma DeleteControllerStatus_wf: "wf_world w \<Longrightarrow> wf_world (snd (DeleteControllerStatus c rt i w))"
  unfolding DeleteControllerStatus_def
  by (intro wf_step in_db_keeps delete_statuses_keeps) simp_all

lemma CleanupOldEvents_wf: "wf_world w \<Longrightarrow> wf_world (snd (CleanupOldEvents ret w))"
  unfolding CleanupOldEvents_def
  by (auto simp: now_wf split: prod.split intro!: in_db_keeps delete_events_keeps)

lemma hasNoRegisteredStatusesD:
  "hasNoRegisteredStatuses rt i cs w = (b, w') \<Longrightarrow>
     tables w' = tables w \<and> tx w' = tx w \<and> env w' = env w \<and> event_seq w' = event_seq w"
  by (auto simp: hasNoRegisteredStatuses_def split: if_splits prod.splits sum.splits dest!: in_db_selectD)

lemma same_tables_wf:
  "tables w' = tables w \<Longrightarrow> tx w' = tx w \<Longrightarrow> event_seq w' = event_seq w \<Longrightarrow> wf_world w' = wf_world w"
  by (simp add: wf_world_def)

lemma cleanOrphanedStatuses_wf: "wf_world w \<Longrightarrow> wf_world (cleanOrphanedStatuses rt i cs w)"
  by (simp add: cleanOrphanedStatuses_def in_db_keeps delete_statuses_keeps)

lemma cleanOrphanedStatuses_orgs [simp]:
  "orgs (tables (cleanOrphanedStatuses rt i cs w)) = orgs (tables w)"
  by (auto simp: cleanOrphanedStatuses_def in_db_def delete_statuses_def split: option.split fault.split)

lemma hard_delete_projects_wf: "wf_world w \<Longrightarrow> wf_world (hard_delete_projects cs ps w)"
proof (induction cs ps w rule: hard_delete_projects.induct)
  case (1 cs w)
  then show ?case by simp
next
  case (2 cs p ps w)
  obtain b w' where h: "hasNoRegisteredStatuses ''project'' (proj_id p) cs w = (b, w')" by fastforce
  with 2(3) have "wf_world w'" using same_tables_wf hasNoRegisteredStatusesD by metis
  with 2(1,2) h show ?case
    by (cases b) (simp_all add: in_db_keeps delete_one_project_keeps cleanOrphanedStatuses_wf)
qed

text \<open>The orgs the loop visits were soft-deleted when they were listed and stay so.\<close>

definition stale_orgs :: "org_row list \<Rightarrow> world \<Rightarrow> bool" where
  "stale_orgs rs w \<longleftrightarrow>
     (\<forall>r \<in> set rs. \<forall>q \<in> set (orgs (tables w)). org_id q = org_id r \<longrightarrow> \<not> org_active q)"

lemma in_db_delete_folders_orgs [simp]:
  "orgs (tables (snd (in_db (\<lambda>d. delete_folders (P d) d) w))) = orgs (tables w)"
  by (auto simp: in_db_def delete_folders_def split: option.split fault.split)

lemma in_db_delete_one_org_orgs:
  "set (orgs (tables (snd (in_db (delete_one_org i) w)))) \<subseteq> set (orgs (tables w))"
  by (auto simp: in_db_def delete_one_org_def split: option.split fault.split)

definition hard_delete_org :: "string list \<Rightarrow> org_row \<Rightarrow> world \<Rightarrow> world" where
  "hard_delete_org cs r w =
     snd (in_db (delete_one_org (org_id r))
       (snd (in_db (\<lambda>d. delete_folders
                (\<lambda>f. \<exists>q \<in> set (orgs d). org_id q = folder_org f \<and> org_id q = org_id r) d)
          (cleanOrphanedStatuses ''org'' (org_id r) cs w))))"

lemma hard_delete_org_wf:
  assumes "wf_world w" and "stale_orgs [r] w"
  shows "wf_world (hard_delete_org cs r w)"
proof -
  let ?w1 = "cleanOrphanedStatuses ''org'' (org_id r) cs w"
  let ?f = "\<lambda>d. delete_folders (\<lambda>f. \<exists>q \<in> set (orgs d). org_id q = folder_org f \<and> org_id q = org_id r) d"
  have "keeps_wf ?f (tables ?w1)" if "wf_db (tables ?w1)"
    using delete_folders_keeps [OF that, of "\<lambda>f. \<exists>q \<in> set (orgs (tables ?w1)). org_id q = folder_org f \<and> org_id q = org_id r"]
      assms(2) by (fastforce simp: stale_orgs_def keeps_wf_def)
  then have "wf_world (snd (in_db ?f ?w1))"
    using assms(1) by (intro in_db_keeps cleanOrphanedStatuses_wf)
  then show ?thesis by (simp add: hard_delete_org_def in_db_keeps delete_one_org_keeps)
qed

lemma stale_orgs_mono:
  "stale_orgs rs w \<Longrightarrow> set (orgs (tables w')) \<subseteq> set (orgs (tables w)) \<Longrightarrow> stale_orgs rs w'"
  by (auto simp: stale_orgs_def)

lemma hard_delete_org_orgs: "set (orgs (tables (hard_delete_org cs r w))) \<subseteq> set (orgs (tables w))"
  unfolding hard_delete_org_def by (rule subset_trans [OF in_db_delete_one_org_orgs]) simp

lemma hard_delete_orgs_wf: "wf_world w \<Longrightarrow> stale_orgs rs w \<Longrightarrow> wf_world (hard_delete_orgs cs rs w)"
proof (induction rs arbitrary: w)
  case Nil
  then show ?case by simp
next
  case (Cons r rs)
  let ?q = "select (\<lambda>d. Inr (length (filter (has_org_with d (\<lambda>q. org_id q = org_id r)) (projects d))))"
  obtain c w1 where c: "in_db ?q w = (c, w1)" by fastforce
  obtain b w2 where h: "hasNoRegisteredStatuses ''org'' (org_id r) cs w1 = (b, w2)" by fastforce
  have s: "wf_world w1" "wf_world w2" "stale_orgs rs w1" "stale_orgs rs w2" "stale_orgs [r] w2"
    using Cons.prems in_db_selectD [OF c] hasNoRegisteredStatusesD [OF h]
    by (auto simp: wf_world_def stale_orgs_def)
  have "wf_world (hard_delete_orgs cs rs (hard_delete_org cs r w2))"
    using s by (intro Cons.IH hard_delete_org_wf stale_orgs_mono [OF s(4) hard_delete_org_orgs])
  with s Cons.IH c h show ?case
    by (cases c; cases b) (simp_all add: hard_delete_org_def Let_def)
qed

lemma CleanupHardDelete_wf: "wf_world w \<Longrightarrow> wf_world (snd (CleanupHardDelete cfg w))"
proof -
  assume wf: "wf_world w"
  let ?qp = "select (\<lambda>d. Inr (query_all (query (filter (\<lambda>p. proj_deleted_at p \<noteq> None) (projects d)))))"
  let ?qo = "select (\<lambda>d. Inr (query_all (query (filter (\<lambda>r. org_deleted_at r \<noteq> None) (orgs d)))))"
  obtain r1 w1 where q1: "in_db ?qp w = (r1, w1)" by fastforce
  then have w1: "wf_world w1" using wf in_db_selectD [OF q1] by (auto simp: wf_world_def)
  show ?thesis
  proof (cases r1)
    case (Inl e)
    with q1 w1 show ?thesis by (simp add: CleanupHardDelete_def)
  next
    case (Inr ps)
    let ?w2 = "hard_delete_projects (ControllersForResource cfg ''project'') ps w1"
    have w2: "wf_world ?w2" using w1 by (rule hard_delete_projects_wf)
    obtain r3 w3 where q3: "in_db ?qo ?w2 = (r3, w3)" by fastforce
    then have w3: "wf_world w3" using w2 in_db_selectD [OF q3] by (auto simp: wf_world_def)
    have "stale_orgs rs w3" if "r3 = Inr rs" for rs
      using that in_db_selectD [OF q3] w2 distinct_map_unique [of org_id "orgs (tables ?w2)"]
      by (fastforce simp: stale_orgs_def wf_world_def wf_db_def keys_ok_def)
    with w3 Inr q1 q3 show ?thesis
      by (cases r3) (simp_all add: CleanupHardDelete_def Let_def hard_delete_orgs_wf)
  qed
qed

section \<open>Reads\<close>

text \<open>A read leaves the tables, the feed and the sequence as they are, whatever it returns.\<close>

definition same_state :: "world \<Rightarrow> world \<Rightarrow> bool" where
  "same_state w w' \<longleftrightarrow>
     tables w' = tables w \<and> tx w' = tx w \<and> env w' = env w \<and> event_seq w' = event_seq w"

lemma same_state_refl [simp]: "same_state w w"
  by (simp add: same_state_def)

lemma same_state_wf: "same_state w w' \<Longrightarrow> wf_world w' = wf_world w"
  by (simp add: same_state_def wf_world_def)

lemma in_db_read [simp]: "same_state w (snd (in_db (select q) w))"
  using in_db_selectD [of q w "fst (in_db (select q) w)" "snd (in_db (select q) w)"]
  by (simp add: same_state_def)

lemma read_step:
  assumes "same_state w (snd m)" and "\<And>e w1. m = (Inl e, w1) \<Longrightarrow> same_state w1 (snd (A e w1))"
    and "\<And>a w1. m = (Inr a, w1) \<Longrightarrow> same_state w1 (snd (B a w1))"
  shows "same_state w (snd (case m of (Inl e, w1) \<Rightarrow> A e w1 | (Inr a, w1) \<Rightarrow> B a w1))"
  using assms by (cases m; cases "fst m") (fastforce simp: same_state_def)+

lemma read_only:
  "same_state w (snd (GetOrg n w))" "same_state w (snd (ListOrgs w))"
  "same_state w (snd (GetOrgNamesByUUIDs is w))" "same_state w (snd (GetOrgIncludingDeleted n w))"
  "same_state w (snd (GetProjectByID i w))" "same_state w (snd (GetProject n sc w))"
  "same_state w (snd (ListProjects sc w))" "same_state w (snd (GetProjectIncludingDeleted n sc w))"
  "same_state w (snd (GetEventsAfter a l w))" "same_state w (snd (MaxEventID w))"
  "same_state w (snd (GetControllerStatuses rt i w))" "same_state w (snd (DeriveStatus rt i b cs w))"
  unfolding GetOrg_def ListOrgs_def GetOrgNamesByUUIDs_def GetOrgIncludingDeleted_def
    GetProjectByID_def GetProject_def ListProjects_def GetProjectIncludingDeleted_def
    GetEventsAfter_def MaxEventID_def GetControllerStatuses_def DeriveStatus_def
  by (auto intro!: read_step split: list.split)

text \<open>The replay runs in a transaction of its own, which it always closes.\<close>

lemma deferred_rollbackD:
  "deferred_rollback r w = (r', w') \<Longrightarrow>
     frame w w' \<and> event_seq w' = event_seq w \<and> tx w' = None \<and> r' = r"
  using rollback_txD [of w] by (cases "rollback_tx w") (auto simp: deferred_rollback_def)

lemma SynthesizeReplayEvents_read:
  assumes "tx w = None"
  shows "same_state w (snd (SynthesizeReplayEvents w))"
proof -
  obtain r w' where s: "SynthesizeReplayEvents w = (r, w')" by fastforce
  from s assms have "frame w w' \<and> event_seq w' = event_seq w \<and> tx w' = None"
    unfolding SynthesizeReplayEvents_def
    by (auto split: prod.splits sum.splits dest!: session_rules deferred_rollbackD simp: frame_def)
  with s assms show ?thesis by (simp add: same_state_def frame_def)
qed

section \<open>The store as a state machine\<close>

datatype store_call =
    CallCreateOrg string string | CallUpdateOrg string string | CallDeleteOrg string
  | CallCreateProject string string string
  | CallUpdateProject string "string list option" string
  | CallDeleteProject string "string list option"
  | CallUpsertStatus string string uuid string string
  | CallDeleteStatus string string uuid
  | CallCleanup Config
  | CallBootstrap string string
  | CallReplay
  | CallRead

text \<open>\<open>CallRead\<close> stands for any method of the lemma \<open>read_only\<close>; a read only
  consumes driver calls.\<close>

inductive store_step :: "world \<Rightarrow> store_call \<Rightarrow> world \<Rightarrow> bool" where
  "store_step w (CallCreateOrg n s) (snd (CreateOrg n s w))"
| "store_step w (CallUpdateOrg n s) (snd (UpdateOrg n s w))"
| "store_step w (CallDeleteOrg n) (snd (DeleteOrg n w))"
| "store_step w (CallCreateProject o' n s) (snd (CreateProject o' n s w))"
| "store_step w (CallUpdateProject n sc s) (snd (UpdateProject n sc s w))"
| "store_step w (CallDeleteProject n sc) (snd (DeleteProject n sc w))"
| "store_step w (CallUpsertStatus c rt i st m) (snd (UpsertControllerStatus c rt i st m w))"
| "store_step w (CallDeleteStatus c rt i) (snd (DeleteControllerStatus c rt i w))"
| "store_step w (CallCleanup cfg) (cleanup_tick cfg w)"
| "store_step w (CallBootstrap o' p) (snd (Bootstrap o' p w))"
| "store_step w CallReplay (snd (SynthesizeReplayEvents w))"
| "same_state w w' \<Longrightarrow> store_step w CallRead w'"

inductive_simps store_step_simps [simp]:
  "store_step w (CallCreateOrg n s) w'" "store_step w (CallDeleteOrg n) w'"
  "store_step w (CallCreateProject o' n s) w'" "store_step w (CallDeleteProject n sc) w'"

definition empty_db :: db where
  "empty_db = \<lparr>orgs = [], folders = [], projects = [], events = [], statuses = []\<rparr>"

definition initial :: "world \<Rightarrow> bool" where
  "initial w \<longleftrightarrow> tables w = empty_db \<and> tx w = None \<and> event_seq w = 1"

inductive reachable :: "world \<Rightarrow> bool" where
  reachable_init: "initial w \<Longrightarrow> reachable w"
| reachable_step: "reachable w \<Longrightarrow> store_step w c w' \<Longrightarrow> reachable w'"

lemma Bootstrap_wf: "wf_world w \<Longrightarrow> wf_world (snd (Bootstrap o' p w))"
  unfolding Bootstrap_def
  by (intro wf_if wf_step wf_step_swap create_org.preserves create_project.preserves;
      simp add: same_state_wf [OF read_only(1)])

lemma store_step_wf: "store_step w c w' \<Longrightarrow> wf_world w \<Longrightarrow> wf_world w'"
  by (induction rule: store_step.induct)
    (auto simp: cleanup_tick_def wf_world_keys(1)
       same_state_wf [OF SynthesizeReplayEvents_read [OF wf_world_keys(1)]] same_state_wf
      intro!: create_org.preserves update_org.preserves delete_org.preserves create_project.preserves
        update_project.preserves delete_project.preserves UpsertControllerStatus_wf
        DeleteControllerStatus_wf CleanupOldEvents_wf CleanupHardDelete_wf Bootstrap_wf)

lemma initial_wf: "initial w \<Longrightarrow> wf_world w"
  by (simp add: initial_def empty_db_def wf_world_def wf_db_def keys_ok_def refs_ok_def active_ok_def)

lemma reachable_wf: "reachable w \<Longrightarrow> wf_world w"
  by (induction rule: reachable.induct) (auto dest: initial_wf store_step_wf)

section \<open>Properties\<close>

lemma sample_wf: "wf_world sample_world"
  by (rule initial_wf) (simp add: initial_def sample_world_def empty_db_def)

lemma sample_tenant_wf: "wf_world sample_tenant"
  unfolding sample_tenant_def by (intro create_project.preserves create_org.preserves sample_wf)

lemma sample_tenant_env: "env sample_tenant = sample_env"
  unfolding sample_tenant_def
  using create_project.keeps_env [OF create_org.preserves [OF sample_wf]] create_org.keeps_env [OF sample_wf]
  by (simp add: sample_world_def [THEN arg_cong, of env])

lemma sample_reachable: "reachable sample_world"
  by (rule reachable_init) (simp add: initial_def sample_world_def empty_db_def)

lemma sample_tenant_reachable: "reachable sample_tenant"
  unfolding sample_tenant_def
  by (rule reachable_step [OF reachable_step [OF sample_reachable]]) (rule store_step.intros)+

text \<open>
  C2. Whatever the callers ask for, whatever the driver reports and wherever a call is cut off,
  every state the store can reach from an empty database satisfies the invariant: no transaction
  is left open; ids, org names, folder names per org, project names per folder and status keys are
  unique; no row refers to a missing row; an active project hangs under an active org; an active
  org has its default folder; the event feed is strictly ordered and below the sequence.
\<close>

theorem reachable_states_well_formed: "reachable w \<Longrightarrow> wf_world w"
  by (rule reachable_wf)

theorem reachable_states_well_formed_witness:
  "wf_world (snd (DeleteOrg ''acme'' (snd (CreateProject ''acme'' ''web'' [] (snd (CreateOrg ''acme'' [] sample_world))))))"
  by (rule reachable_states_well_formed)
    (rule reachable_step [OF reachable_step [OF reachable_step [OF sample_reachable]]],
      (rule store_step.intros)+)

text \<open>
  \<open>CreateOrg\<close> is all or nothing: on success the new active org, its default folder and
  the event \<open>created org\<close> are committed together; on an error nothing is, unless the
  environment lost the acknowledgement of the commit, and then all of it is.
\<close>

theorem CreateOrg_all_or_nothing:
  assumes "wf_world w" and "CreateOrg n s w = (r, w')"
  shows "tx w' = None \<and>
    (case r of
       Inl _ \<Rightarrow> tables w' = tables w \<or> loses_ack w \<and> (\<exists>o'. create_org_eff n s o' (tables w) (tables w'))
     | Inr o' \<Rightarrow> create_org_eff n s o' (tables w) (tables w'))"
  using assms by (rule create_org.all_or_nothing)

theorem CreateOrg_all_or_nothing_witness:
  "\<exists>o' w'. CreateOrg ''acme'' [] sample_world = (Inr o', w') \<and>
     create_org_eff ''acme'' [] o' (tables sample_world) (tables w')"
proof -
  obtain r w' where c: "CreateOrg ''acme'' [] sample_world = (r, w')" by fastforce
  have "\<not> isl (fst (CreateOrg ''acme'' [] sample_world))" by code_simp
  with c obtain o' where "r = Inr o'" by (cases r) auto
  with c CreateOrg_all_or_nothing [OF sample_wf c] show ?thesis by auto
qed

text \<open>
  C7. \<open>DeleteOrg\<close> is all or nothing and cascades: on success the org that had the name is
  soft-deleted together with exactly its active projects, one \<open>deleted project\<close> event per
  project and one \<open>deleted org\<close> event are appended in that order, and folders, statuses
  and all other rows stay as they were.
\<close>

theorem DeleteOrg_cascades:
  assumes "wf_world w" and "DeleteOrg n w = (r, w')"
  shows "tx w' = None \<and>
    (case r of
       Inl _ \<Rightarrow> tables w' = tables w \<or> loses_ack w \<and> (\<exists>u. delete_org_eff n u (tables w) (tables w'))
     | Inr u \<Rightarrow> delete_org_eff n u (tables w) (tables w'))"
  using assms by (rule delete_org.all_or_nothing)

theorem DeleteOrg_cascades_witness:
  "\<exists>w'. DeleteOrg ''acme'' sample_tenant = (Inr (), w') \<and> delete_org_eff ''acme'' () (tables sample_tenant) (tables w')"
proof -
  obtain r w' where c: "DeleteOrg ''acme'' sample_tenant = (r, w')" by fastforce
  have "\<not> isl (fst (DeleteOrg ''acme'' sample_tenant))" by code_simp
  with c have "r = Inr ()" by (cases r) auto
  with c DeleteOrg_cascades [OF sample_tenant_wf c] show ?thesis by auto
qed

text \<open>
  \<open>CreateProject\<close> is all or nothing: on success one active project is added to the
  default folder of the active org of that name, under a fresh id and a name the folder did not
  have, with the event \<open>created project\<close> naming project, org and folder.
\<close>

theorem CreateProject_all_or_nothing:
  assumes "wf_world w" and "CreateProject o' n s w = (r, w')"
  shows "tx w' = None \<and>
    (case r of
       Inl _ \<Rightarrow> tables w' = tables w \<or> loses_ack w \<and> (\<exists>po. create_project_eff o' n s po (tables w) (tables w'))
     | Inr po \<Rightarrow> create_project_eff o' n s po (tables w) (tables w'))"
  using assms by (rule create_project.all_or_nothing)

theorem CreateProject_all_or_nothing_witness:
  "\<exists>po w'. CreateProject ''acme'' ''api'' [] sample_tenant = (Inr po, w') \<and>
     create_project_eff ''acme'' ''api'' [] po (tables sample_tenant) (tables w')"
proof -
  obtain r w' where c: "CreateProject ''acme'' ''api'' [] sample_tenant = (r, w')" by fastforce
  have "\<not> isl (fst (CreateProject ''acme'' ''api'' [] sample_tenant))" by code_simp
  with c obtain po where "r = Inr po" by (cases r) auto
  with c CreateProject_all_or_nothing [OF sample_tenant_wf c] show ?thesis by auto
qed

text \<open>
  \<open>DeleteProject\<close> is all or nothing and hits one project: on success the only active
  project that has the name within the scope is soft-deleted, no other row changes, and one
  \<open>deleted project\<close> event is appended.
\<close>

theorem DeleteProject_all_or_nothing:
  assumes "wf_world w" and "DeleteProject n sc w = (r, w')"
  shows "tx w' = None \<and>
    (case r of
       Inl _ \<Rightarrow> tables w' = tables w \<or> loses_ack w \<and> (\<exists>u. delete_project_eff n sc u (tables w) (tables w'))
     | Inr u \<Rightarrow> delete_project_eff n sc u (tables w) (tables w'))"
  using assms by (rule delete_project.all_or_nothing)

theorem DeleteProject_all_or_nothing_witness:
  "\<exists>w'. DeleteProject ''web'' (Some [''acme'']) sample_tenant = (Inr (), w') \<and>
     delete_project_eff ''web'' (Some [''acme'']) () (tables sample_tenant) (tables w')"
proof -
  obtain r w' where c: "DeleteProject ''web'' (Some [''acme'']) sample_tenant = (r, w')" by fastforce
  have "\<not> isl (fst (DeleteProject ''web'' (Some [''acme'']) sample_tenant))" by code_simp
  with c have "r = Inr ()" by (cases r) auto
  with c DeleteProject_all_or_nothing [OF sample_tenant_wf c] show ?thesis by auto
qed

text \<open>
  \<open>UpdateProject\<close> is all or nothing: on success the only active project that has the
  name within the scope gets the new description, the result is that row with its org, and no
  other row and no event changes.
\<close>

theorem UpdateProject_all_or_nothing:
  assumes "wf_world w" and "UpdateProject n sc s w = (r, w')"
  shows "tx w' = None \<and>
    (case r of
       Inl _ \<Rightarrow> tables w' = tables w \<or> loses_ack w \<and> (\<exists>po. update_project_eff n sc s po (tables w) (tables w'))
     | Inr po \<Rightarrow> update_project_eff n sc s po (tables w) (tables w'))"
  using assms by (rule update_project.all_or_nothing)

theorem UpdateProject_all_or_nothing_witness:
  "\<exists>po w'. UpdateProject ''web'' None ''new'' sample_tenant = (Inr po, w') \<and>
     update_project_eff ''web'' None ''new'' po (tables sample_tenant) (tables w')"
proof -
  obtain r w' where c: "UpdateProject ''web'' None ''new'' sample_tenant = (r, w')" by fastforce
  have "\<not> isl (fst (UpdateProject ''web'' None ''new'' sample_tenant))" by code_simp
  with c obtain po where "r = Inr po" by (cases r) auto
  with c UpdateProject_all_or_nothing [OF sample_tenant_wf c] show ?thesis by auto
qed

end
