(* ===== verification/Tenancy_Feed.thy ===== *)
theory Tenancy_Feed
  imports Tenancy_Invariant
begin

text \<open>
  The contract of the event feed towards the controllers that consume it: the active resources
  of the database are what a consumer obtains by applying the events of the feed, and a replay
  followed by polling from its snapshot id brings a new consumer to the same state.
\<close>

section \<open>The view of a consumer\<close>

type_synonym resource = "string \<times> uuid"

definition active_set :: "db \<Rightarrow> resource set" where
  "active_set d =
     Pair ''org'' ` org_id ` set (filter org_active (orgs d)) \<union>
     Pair ''project'' ` proj_id ` set (filter proj_active (projects d))"

definition apply_change :: "string \<Rightarrow> resource \<Rightarrow> resource set \<Rightarrow> resource set" where
  "apply_change t k S =
     (if t = ''created'' then insert k S else if t = ''deleted'' then S - {k} else S)"

definition apply_event :: "event_row \<Rightarrow> resource set \<Rightarrow> resource set" where
  "apply_event e = apply_change (ev_type e) (ev_resource_type e, ev_resource_id e)"

definition apply_replay :: "ReplayEvent \<Rightarrow> resource set \<Rightarrow> resource set" where
  "apply_replay e = apply_change (re_EventType e) (re_ResourceType e, re_ResourceID e)"

lemma fold_created:
  "\<forall>x \<in> set xs. f x = apply_change ''created'' (k x) \<Longrightarrow> fold f xs S = S \<union> k ` set xs"
  by (induction xs arbitrary: S) (auto simp: apply_change_def)

lemma fold_deleted:
  "\<forall>x \<in> set xs. f x = apply_change ''deleted'' (k x) \<Longrightarrow> fold f xs S = S - k ` set xs"
  by (induction xs arbitrary: S) (auto simp: apply_change_def)

lemma apply_event_payload: "apply_event (payload e) = apply_event e"
  by (simp add: apply_event_def)

lemma fold_payload: "fold apply_event es S = fold apply_event (map payload es) S"
  by (induction es arbitrary: S) (simp_all add: apply_event_payload)

section \<open>Every mutation is announced\<close>

text \<open>An effect announces its changes if folding the events it appends over the old active set
  gives the new one.\<close>

definition announced :: "db \<Rightarrow> db \<Rightarrow> bool" where
  "announced d d' \<longleftrightarrow>
     (\<exists>es. events d' = events d @ es \<and> fold apply_event es (active_set d) = active_set d')"

lemma announced_refl [simp]: "announced d d"
  by (simp add: announced_def)

lemma create_org_announced: "create_org_eff n s r d d' \<Longrightarrow> announced d d'"
proof -
  assume "create_org_eff n s r d d'"
  then obtain e where e: "orgs d' = orgs d @ [r]" "projects d' = projects d" "events d' = events d @ [e]"
    "org_active r" "payload e = new_event ''created'' ''org'' (org_id r) n"
    by (auto simp: create_org_eff_def)
  have "fold apply_event [e] (active_set d) = active_set d'"
    using e by (subst fold_payload) (simp add: apply_event_def apply_change_def new_event_def active_set_def)
  with e(3) show ?thesis by (auto simp: announced_def)
qed

lemma create_project_announced: "create_project_eff o' n s po d d' \<Longrightarrow> announced d d'"
proof -
  assume a: "create_project_eff o' n s po d d'"
  obtain p r where "po = (p, r)" by fastforce
  with a obtain e and f :: folder_row where e: "orgs d' = orgs d" "projects d' = projects d @ [p]" "events d' = events d @ [e]"
    "proj_active p" "payload e = (new_event ''created'' ''project'' (proj_id p) n)
      \<lparr>ev_org_id := Some (org_id r), ev_org_name := Some o', ev_folder_id := Some (folder_id f)\<rparr>"
    by (auto simp: create_project_eff_def)
  have "fold apply_event [e] (active_set d) = active_set d'"
    using e by (subst fold_payload) (simp add: apply_event_def apply_change_def new_event_def active_set_def)
  with e(3) show ?thesis by (auto simp: announced_def)
qed

lemma active_set_cong:
  assumes "list_all2 (\<lambda>r r'. org_id r' = org_id r \<and> org_active r' = org_active r) (orgs d) (orgs d')"
    and "list_all2 (\<lambda>p p'. proj_id p' = proj_id p \<and> proj_active p' = proj_active p) (projects d) (projects d')"
  shows "active_set d' = active_set d"
proof -
  have "map k (filter A ys) = map k (filter A xs)"
    if "list_all2 (\<lambda>x y. k y = k x \<and> A y = A x) xs ys" for k :: "'x \<Rightarrow> uuid" and A and xs ys
    using that by (induction rule: list_all2_induct) auto
  from arg_cong [OF this [of org_id org_active "orgs d" "orgs d'"], of set]
    arg_cong [OF this [of proj_id proj_active "projects d" "projects d'"], of set] assms
  have o1: "org_id ` set (filter org_active (orgs d')) = org_id ` set (filter org_active (orgs d))"
    "proj_id ` set (filter proj_active (projects d')) = proj_id ` set (filter proj_active (projects d))"
    by (simp_all only: set_map)
  then show ?thesis
    by (simp add: active_set_def)
qed

lemma update_org_announced: "update_org_eff n s r d d' \<Longrightarrow> announced d d'"
proof -
  assume "update_org_eff n s r d d'"
  then obtain q :: org_row and u where c: "projects d' = projects d" "events d' = events d"
    "orgs d' = map (\<lambda>x. if org_id x = org_id q then x\<lparr>org_description := s, org_updated_at := u\<rparr> else x) (orgs d)"
    unfolding update_org_eff_def by (elim exE conjE) (rule that; assumption)
  then have "active_set d' = active_set d"
    by (intro active_set_cong) (auto intro!: list_all2_map_self list_all2_refl split: if_splits)
  with c(2) show ?thesis by (simp add: announced_def)
qed

lemma update_project_announced: "update_project_eff n sc s po d d' \<Longrightarrow> announced d d'"
proof -
  assume "update_project_eff n sc s po d d'"
  then obtain q :: project_row and u where c: "orgs d' = orgs d" "events d' = events d"
    "projects d' = map (\<lambda>x. if proj_id x = proj_id q then x\<lparr>proj_description := s, proj_updated_at := u\<rparr> else x) (projects d)"
    unfolding update_project_eff_def by (elim exE conjE) (rule that; assumption)
  then have "active_set d' = active_set d"
    by (intro active_set_cong) (auto intro!: list_all2_map_self list_all2_refl split: if_splits)
  with c(2) show ?thesis by (simp add: announced_def)
qed

lemma soft_deleted_filter:
  "list_all2 (soft_deleted t P) ps ps' \<Longrightarrow> filter proj_active ps' = filter (\<lambda>p. proj_active p \<and> \<not> P p) ps"
  by (induction rule: list_all2_induct) (auto simp: soft_deleted_def split: if_splits)

text \<open>Ids tell projects apart, so dropping the projects \<open>P\<close> selects drops their ids.\<close>

lemma ids_without:
  assumes "distinct (map f xs)"
  shows "f ` set (filter (\<lambda>x. A x \<and> \<not> P x) xs) = f ` set (filter A xs) - f ` set (filter (\<lambda>x. P x \<and> A x) xs)"
  by (auto dest: distinct_map_unique [OF assms])

lemma delete_project_announced:
  assumes "wf_db d" and "delete_project_eff n sc a d d'"
  shows "announced d d'"
proof -
  from assms(2) obtain p t e where c: "orgs d' = orgs d" "selects_only n sc d p"
    "list_all2 (soft_deleted t (\<lambda>q. proj_id q = proj_id p)) (projects d) (projects d')"
    "events d' = events d @ [e]" "payload e = deleted_event_of (with_folder d p)"
    unfolding delete_project_eff_def by (elim exE conjE) (rule that; assumption)
  have p: "p \<in> set (projects d)" "proj_active p" using c(2) by (simp_all add: selects_only_def selected_def)
  have ids: "distinct (map proj_id (projects d))" using assms(1) by (simp add: wf_db_def keys_ok_def)
  have "filter (\<lambda>q. proj_id q = proj_id p \<and> proj_active q) (projects d) = [p]"
    using p filter_unique [OF ids p(1)]
      filter_filter [of proj_active "\<lambda>q. proj_id q = proj_id p" "projects d"] by simp
  with soft_deleted_filter [OF c(3)] ids_without [OF ids, of proj_active "\<lambda>q. proj_id q = proj_id p"]
  have "proj_id ` set (filter proj_active (projects d'))
      = proj_id ` set (filter proj_active (projects d)) - {proj_id p}" by simp
  then have "active_set d' = active_set d - {(''project'', proj_id p)}"
    using c(1) by (auto simp: active_set_def)
  moreover have "apply_event e = apply_change ''deleted'' (''project'', proj_id p)"
    using c(5) by (subst apply_event_payload [symmetric])
      (simp add: apply_event_def deleted_event_of_def new_event_def with_folder_def Let_def split: option.splits prod.splits)
  ultimately show ?thesis using c(4) by (auto simp: announced_def apply_change_def)
qed

lemma filter_active_after_delete:
  "filter org_active (map (\<lambda>q. if org_id q = i \<and> org_active q
      then q\<lparr>org_deleted_at := Some t, org_updated_at := u\<rparr> else q) rs)
   = filter (\<lambda>q. org_active q \<and> \<not> org_id q = i) rs"
  by (induction rs) auto

lemma tagged_diff:
  "a \<noteq> b \<Longrightarrow> Pair a ` (A - {x}) \<union> Pair b ` (B - C) = (Pair a ` A \<union> Pair b ` B) - Pair b ` C - {(a, x)}"
  by auto

lemma delete_org_announced:
  assumes "wf_db d" and "delete_org_eff n a d d'"
  shows "announced d d'"
proof -
  from assms(2) obtain r t u es where c: "r \<in> set (orgs d)" "org_active r"
    "orgs d' = map (\<lambda>q. if org_id q = org_id r \<and> org_active q
                     then q\<lparr>org_deleted_at := Some t, org_updated_at := u\<rparr> else q) (orgs d)"
    "list_all2 (soft_deleted t (has_org_with d (\<lambda>q. org_id q = org_id r))) (projects d) (projects d')"
    "events d' = events d @ es"
    "map payload es = map (project_deleted_event r) (active_projects_of_org (org_id r) d) @
          [new_event ''deleted'' ''org'' (org_id r) n]"
    unfolding delete_org_eff_def by (elim exE conjE) (rule that; assumption)
  let ?gone = "filter (\<lambda>p. has_org_with d (\<lambda>q. org_id q = org_id r) p \<and> proj_active p) (projects d)"
  have keys: "distinct (map org_id (orgs d))" "distinct (map proj_id (projects d))"
    using assms(1) by (simp_all add: wf_db_def keys_ok_def)
  have o1: "org_id ` set (filter org_active (orgs d')) = org_id ` set (filter org_active (orgs d)) - {org_id r}"
    using c(1-3) filter_active_after_delete by auto
  have p1: "proj_id ` set (filter proj_active (projects d'))
      = proj_id ` set (filter proj_active (projects d)) - proj_id ` set ?gone"
    unfolding soft_deleted_filter [OF c(4)] by (rule ids_without [OF keys(2)])
  have after: "active_set d' = active_set d - Pair ''project'' ` proj_id ` set ?gone - {(''org'', org_id r)}"
    unfolding active_set_def o1 p1 by (rule tagged_diff) simp
  have "\<forall>e \<in> set (map payload es). apply_event e = apply_change ''deleted'' (ev_resource_type e, ev_resource_id e)"
    unfolding c(6)
    by (auto simp: apply_event_def project_deleted_event_def new_event_def Let_def split: option.splits)
  from fold_deleted [OF this] have "fold apply_event es (active_set d)
      = active_set d - (\<lambda>e. (ev_resource_type e, ev_resource_id e)) ` set (map payload es)"
    by (subst fold_payload)
  also have "(\<lambda>e. (ev_resource_type e, ev_resource_id e)) ` set (map payload es)
      = insert (''org'', org_id r) (Pair ''project'' ` proj_id ` set ?gone)"
    unfolding c(6)
    by (auto simp: active_projects_of_org_def with_folder_def project_deleted_event_def new_event_def
        Let_def image_image split: option.splits)
  also have "active_set d - \<dots> = active_set d'" unfolding after by (rule Diff_insert)
  finally have "fold apply_event es (active_set d) = active_set d'" .
  with c(5) show ?thesis by (auto simp: announced_def)
qed

section \<open>Runs of the store\<close>

text \<open>The feed of \<open>w'\<close> continues the feed of \<open>w\<close> and explains what changed.\<close>

definition extends :: "world \<Rightarrow> world \<Rightarrow> bool" where
  "extends w w' \<longleftrightarrow>
     (\<exists>es. events (tables w') = events (tables w) @ es \<and> event_seq w \<le> event_seq w' \<and>
        (\<forall>e \<in> set es. event_seq w \<le> ev_id e) \<and>
        fold apply_event es (active_set (tables w)) = active_set (tables w'))"

lemma extends_trans: "extends u v \<Longrightarrow> extends v w \<Longrightarrow> extends u w"
  unfolding extends_def by (elim exE conjE) (rule exI, auto dest: order_trans)

lemma extends_same: "same_state w w' \<Longrightarrow> extends w w'"
  by (simp add: same_state_def extends_def)

lemma atomically_extends:
  assumes "atomically w res eff" and "\<And>a d'. eff a (tables w) d' \<Longrightarrow> announced (tables w) d'"
  shows "extends w (snd res)"
proof (cases res)
  case (Pair r w')
  have "announced (tables w) (tables w')"
    using assms Pair by (cases r) (auto simp: atomically_def)
  moreover have "fresh_events w (tables w') (event_seq w')" "event_seq w \<le> event_seq w'"
    using assms(1) Pair by (simp_all add: atomically_def)
  ultimately show ?thesis using Pair by (auto simp: extends_def announced_def fresh_events_def)
qed

lemma mutation_extends:
  assumes "wf_world w"
  shows "extends w (snd (CreateOrg n s w))" "extends w (snd (UpdateOrg n s w))"
    "extends w (snd (DeleteOrg n w))" "extends w (snd (CreateProject o' n s w))"
    "extends w (snd (UpdateProject n sc s w))" "extends w (snd (DeleteProject n sc w))"
proof -
  have "wf_db (tables w)" using assms by (simp add: wf_world_def)
  note rules = create_org_announced update_org_announced delete_org_announced [OF this]
    create_project_announced update_project_announced delete_project_announced [OF this]
  show "extends w (snd (CreateOrg n s w))"
    using create_org.atomic [OF assms] by (rule atomically_extends) (rule rules)
  show "extends w (snd (UpdateOrg n s w))"
    using update_org.atomic [OF assms] by (rule atomically_extends) (rule rules)
  show "extends w (snd (DeleteOrg n w))"
    using delete_org.atomic [OF assms] by (rule atomically_extends) (rule rules)
  show "extends w (snd (CreateProject o' n s w))"
    using create_project.atomic [OF assms] by (rule atomically_extends) (rule rules)
  show "extends w (snd (UpdateProject n sc s w))"
    using update_project.atomic [OF assms] by (rule atomically_extends) (rule rules)
  show "extends w (snd (DeleteProject n sc w))"
    using delete_project.atomic [OF assms] by (rule atomically_extends) (rule rules)
qed

text \<open>Statements on the status table do not touch the feed.\<close>

lemma in_db_extends:
  assumes "\<And>a d d'. f d = Inr (a, d') \<Longrightarrow> events d' = events d \<and> orgs d' = orgs d \<and> projects d' = projects d"
  shows "extends w (snd (in_db f w))"
  using assms by (auto simp: in_db_def extends_def active_set_def split: option.split fault.split sum.split)

lemma extends_step:
  assumes "extends w (snd m)"
    and "\<And>e w1. m = (Inl e, w1) \<Longrightarrow> extends w w1 \<Longrightarrow> extends w (snd (A e w1))"
    and "\<And>a w1. m = (Inr a, w1) \<Longrightarrow> extends w w1 \<Longrightarrow> extends w (snd (B a w1))"
  shows "extends w (snd (case m of (Inl e, w1) \<Rightarrow> A e w1 | (Inr a, w1) \<Rightarrow> B a w1))"
  using assms by (cases m) (auto split: sum.split)

lemma extends_step_swap:
  assumes "extends w (snd m)"
    and "\<And>e w1. m = (Inl e, w1) \<Longrightarrow> extends w w1 \<Longrightarrow> extends w (snd (A e w1))"
    and "\<And>a w1. m = (Inr a, w1) \<Longrightarrow> extends w w1 \<Longrightarrow> extends w (snd (B a w1))"
  shows "extends w (snd (case m of (Inr a, w1) \<Rightarrow> B a w1 | (Inl e, w1) \<Rightarrow> A e w1))"
  using assms by (cases m) (auto split: sum.split)

lemma extends_if:
  "(c \<Longrightarrow> extends w (snd a)) \<Longrightarrow> (\<not> c \<Longrightarrow> extends w (snd b)) \<Longrightarrow> extends w (snd (if c then a else b))"
  by simp

lemma extends_tick [simp]: "extends (tick w) w' \<longleftrightarrow> extends w w'"
  by (simp add: extends_def)

lemma status_statements:
  "update_statuses c rt i st m u d = Inr (k, d') \<Longrightarrow> events d' = events d \<and> orgs d' = orgs d \<and> projects d' = projects d"
  "insert_status r d = Inr (x, d') \<Longrightarrow> events d' = events d \<and> orgs d' = orgs d \<and> projects d' = projects d"
  "delete_statuses P d = Inr (k, d') \<Longrightarrow> events d' = events d \<and> orgs d' = orgs d \<and> projects d' = projects d"
  by (auto simp: update_statuses_def insert_status_def delete_statuses_def split: if_splits)

lemma status_statements_extend:
  "extends w (snd (in_db (update_statuses c rt i st m u) (tick w)))"
  "extends w (snd (in_db (insert_status r) (tick w)))" "extends w (snd (in_db (delete_statuses P) w))"
proof -
  show "extends w (snd (in_db (update_statuses c rt i st m u) (tick w)))"
    by (subst extends_tick [symmetric]) (rule in_db_extends, erule status_statements)
  show "extends w (snd (in_db (insert_status r) (tick w)))"
    by (subst extends_tick [symmetric]) (rule in_db_extends, erule status_statements)
  show "extends w (snd (in_db (delete_statuses P) w))"
    by (rule in_db_extends, erule status_statements)
qed

lemma status_calls_extend:
  "extends w (snd (status_update c rt i st m w))" "extends w (snd (status_create c rt i st m w))"
  by (auto simp: status_update_def status_create_def Let_def now_def status_statements_extend
      extends_same same_state_def split: option.split)

lemma UpsertControllerStatus_extends: "extends w (snd (UpsertControllerStatus c rt i st m w))"
proof -
  have u: "extends w (snd (status_update c rt i st m v))" "extends w (snd (status_create c rt i st m v))"
    if "extends w v" for v using that status_calls_extend by (blast intro: extends_trans)+
  show ?thesis
    unfolding UpsertControllerStatus_def
    by (intro extends_step extends_step_swap extends_if u; simp add: extends_same)
qed

lemma DeleteControllerStatus_extends: "extends w (snd (DeleteControllerStatus c rt i w))"
  unfolding DeleteControllerStatus_def
  by (rule extends_step [OF status_statements_extend(3)]) simp_all

lemma Bootstrap_extends:
  assumes "wf_world w"
  shows "extends w (snd (Bootstrap o' p w))"
proof -
  have c: "extends w (snd (CreateOrg o' s v)) \<and> wf_world (snd (CreateOrg o' s v))"
    and q: "extends w (snd (CreateProject o' p s v))" if "extends w v" "wf_world v" for v s
    using that extends_trans mutation_extends(1,4) create_org.preserves by blast+
  show ?thesis
  proof (cases "GetOrg o' w")
    case (Pair r w1)
    have w1: "extends w w1" "wf_world w1"
      using read_only(1) [of w o'] Pair assms same_state_wf extends_same by (metis snd_conv)+
    obtain r2 w2 where s2: "CreateOrg o' ''Default organization'' w1 = (r2, w2)" by fastforce
    obtain r3 w3 where s3: "CreateProject o' p ''Default project'' w2 = (r3, w3)" by fastforce
    have w2: "extends w w2" "wf_world w2" using c [OF w1, of "''Default organization''"] s2 by simp_all
    have "extends w w3" using q [OF w2, of "''Default project''"] s3 by simp
    with w1 w2 Pair s2 s3 show ?thesis
      by (simp add: Bootstrap_def extends_same split: sum.split)
  qed
qed

section \<open>Background cleanup is silent\<close>

text \<open>Cleanup removes soft-deleted rows, status rows and old events; none of them is part of
  the active set.\<close>

definition silent :: "world \<Rightarrow> world \<Rightarrow> bool" where
  "silent w w' \<longleftrightarrow>
     filter org_active (orgs (tables w')) = filter org_active (orgs (tables w)) \<and>
     filter proj_active (projects (tables w')) = filter proj_active (projects (tables w))"

lemma silent_refl [simp]: "silent w w"
  by (simp add: silent_def)

lemma silent_trans: "silent u v \<Longrightarrow> silent v w \<Longrightarrow> silent u w"
  by (simp add: silent_def)

lemma silent_active_set: "silent w w' \<Longrightarrow> active_set (tables w') = active_set (tables w)"
  by (simp add: silent_def active_set_def)

lemma silent_tables: "tables w' = tables w \<Longrightarrow> silent w w'"
  by (simp add: silent_def)

lemma silent_in_db:
  assumes "\<And>a d'. f (tables w) = Inr (a, d') \<Longrightarrow>
    filter org_active (orgs d') = filter org_active (orgs (tables w)) \<and>
    filter proj_active (projects d') = filter proj_active (projects (tables w))"
  shows "silent w (snd (in_db f w))"
  using assms by (auto simp: silent_def in_db_def split: option.split fault.split sum.split)

lemma filter_minus_stale:
  "\<forall>x \<in> set xs. f x = i \<longrightarrow> \<not> A x \<Longrightarrow> filter A (filter (\<lambda>x. f x \<noteq> i) xs) = filter A xs"
  by (induction xs) auto

lemma silent_delete_project:
  "\<forall>q \<in> set (projects (tables w)). proj_id q = i \<longrightarrow> \<not> proj_active q \<Longrightarrow>
     silent w (snd (in_db (delete_one_project i) w))"
  by (rule silent_in_db) (auto simp: delete_one_project_def filter_minus_stale simp del: filter_filter split: if_splits)

lemma silent_delete_org:
  "\<forall>q \<in> set (orgs (tables w)). org_id q = i \<longrightarrow> \<not> org_active q \<Longrightarrow>
     silent w (snd (in_db (delete_one_org i) w))"
  by (rule silent_in_db) (auto simp: delete_one_org_def filter_minus_stale simp del: filter_filter split: if_splits)

lemma cleanOrphanedStatuses_rows [simp]:
  "projects (tables (cleanOrphanedStatuses rt i cs w)) = projects (tables w)"
  by (auto simp: cleanOrphanedStatuses_def in_db_def delete_statuses_def split: option.split fault.split)

lemma cleanOrphanedStatuses_silent [simp]: "silent w (cleanOrphanedStatuses rt i cs w)"
  by (simp add: silent_def)

lemma in_db_delete_one_project_subset:
  "set (projects (tables (snd (in_db (delete_one_project i) w)))) \<subseteq> set (projects (tables w))"
  by (auto simp: in_db_def delete_one_project_def split: option.split fault.split)

lemma hard_delete_projects_silent:
  "\<forall>p \<in> set ps. \<forall>q \<in> set (projects (tables w)). proj_id q = proj_id p \<longrightarrow> \<not> proj_active q \<Longrightarrow>
     silent w (hard_delete_projects cs ps w)"
proof (induction ps arbitrary: w)
  case Nil
  then show ?case by simp
next
  case (Cons p ps)
  obtain b w1 where h: "hasNoRegisteredStatuses ''project'' (proj_id p) cs w = (b, w1)" by fastforce
  have t1: "tables w1 = tables w" using hasNoRegisteredStatusesD [OF h] by simp
  let ?w2 = "cleanOrphanedStatuses ''project'' (proj_id p) cs w1"
  let ?w3 = "snd (in_db (delete_one_project (proj_id p)) ?w2)"
  have sub: "set (projects (tables ?w3)) \<subseteq> set (projects (tables w))"
    using in_db_delete_one_project_subset [of "proj_id p" ?w2] t1 by simp
  have "silent ?w2 ?w3" using Cons.prems t1 by (intro silent_delete_project) simp
  moreover have "silent w ?w2" using silent_trans [OF silent_tables [OF t1]] by simp
  moreover have "silent ?w3 (hard_delete_projects cs ps ?w3)" "silent w1 (hard_delete_projects cs ps w1)"
    using Cons.prems t1 sub by (auto intro!: Cons.IH)
  ultimately show ?case using h silent_tables [OF t1] by (cases b) (auto intro: silent_trans)
qed

lemma hard_delete_org_silent:
  assumes "stale_orgs [r] w"
  shows "silent w (hard_delete_org cs r w)"
proof -
  let ?w1 = "cleanOrphanedStatuses ''org'' (org_id r) cs w"
  let ?w2 = "snd (in_db (\<lambda>d. delete_folders
      (\<lambda>f. \<exists>q \<in> set (orgs d). org_id q = folder_org f \<and> org_id q = org_id r) d) ?w1)"
  have "silent ?w1 ?w2" by (rule silent_in_db) (auto simp: delete_folders_def split: if_splits)
  moreover have "silent ?w2 (snd (in_db (delete_one_org (org_id r)) ?w2))"
    using assms by (intro silent_delete_org) (simp add: stale_orgs_def)
  moreover have "silent w ?w1" by simp
  ultimately show ?thesis unfolding hard_delete_org_def using silent_trans by blast
qed

lemma hard_delete_orgs_silent: "stale_orgs rs w \<Longrightarrow> silent w (hard_delete_orgs cs rs w)"
proof (induction rs arbitrary: w)
  case Nil
  then show ?case by simp
next
  case (Cons r rs)
  let ?q = "select (\<lambda>d. Inr (length (filter (has_org_with d (\<lambda>q. org_id q = org_id r)) (projects d))))"
  obtain c w1 where c: "in_db ?q w = (c, w1)" by fastforce
  obtain b w2 where h: "hasNoRegisteredStatuses ''org'' (org_id r) cs w1 = (b, w2)" by fastforce
  have t: "tables w1 = tables w" "tables w2 = tables w"
    using in_db_selectD [OF c] hasNoRegisteredStatusesD [OF h] by auto
  have s: "stale_orgs rs w1" "stale_orgs rs w2" "stale_orgs [r] w2"
    using Cons.prems t by (auto simp: stale_orgs_def)
  have "silent w2 (hard_delete_org cs r w2)" using s by (intro hard_delete_org_silent)
  moreover have "silent (hard_delete_org cs r w2) (hard_delete_orgs cs rs (hard_delete_org cs r w2))"
    by (intro Cons.IH stale_orgs_mono [OF s(2) hard_delete_org_orgs])
  ultimately have "silent w (hard_delete_orgs cs rs (hard_delete_org cs r w2))"
    using silent_tables [OF t(2)] silent_trans by blast
  moreover have "silent w (hard_delete_orgs cs rs w1)" "silent w (hard_delete_orgs cs rs w2)"
    using Cons.IH [OF s(1)] Cons.IH [OF s(2)] t silent_tables silent_trans by blast+
  ultimately show ?case using c h
    by (cases c; cases b) (simp_all add: hard_delete_org_def Let_def)
qed

lemma CleanupOldEvents_silent: "silent w (snd (CleanupOldEvents ret w))"
  unfolding CleanupOldEvents_def
  by (auto simp: now_def delete_events_def silent_def in_db_def split: option.split fault.split)

lemma CleanupHardDelete_silent:
  assumes "wf_world w"
  shows "silent w (snd (CleanupHardDelete cfg w))"
proof -
  let ?qp = "select (\<lambda>d. Inr (query_all (query (filter (\<lambda>p. proj_deleted_at p \<noteq> None) (projects d)))))"
  let ?qo = "select (\<lambda>d. Inr (query_all (query (filter (\<lambda>r. org_deleted_at r \<noteq> None) (orgs d)))))"
  obtain r1 w1 where q1: "in_db ?qp w = (r1, w1)" by fastforce
  note d1 = in_db_selectD [OF q1]
  have w1: "wf_world w1" using assms d1 by (auto simp: wf_world_def)
  have s1: "silent w w1" using d1 by (intro silent_tables) simp
  show ?thesis
  proof (cases r1)
    case (Inl e)
    with q1 s1 show ?thesis by (simp add: CleanupHardDelete_def)
  next
    case (Inr ps)
    let ?w2 = "hard_delete_projects (ControllersForResource cfg ''project'') ps w1"
    have "silent w1 ?w2"
      using d1 Inr assms distinct_map_unique [of proj_id "projects (tables w)"]
      by (intro hard_delete_projects_silent) (fastforce simp: wf_world_def wf_db_def keys_ok_def)
    with s1 have s2: "silent w ?w2" by (rule silent_trans)
    have w2: "wf_world ?w2" using w1 by (rule hard_delete_projects_wf)
    obtain r3 w3 where q3: "in_db ?qo ?w2 = (r3, w3)" by fastforce
    note d3 = in_db_selectD [OF q3]
    have s3: "silent w w3" using s2 silent_trans silent_tables d3 by blast
    have "stale_orgs rs w3" if "r3 = Inr rs" for rs
      using that d3 w2 distinct_map_unique [of org_id "orgs (tables ?w2)"]
      by (fastforce simp: stale_orgs_def wf_world_def wf_db_def keys_ok_def)
    then have "silent w (hard_delete_orgs cs rs w3)" if "r3 = Inr rs" for rs cs
      using that s3 hard_delete_orgs_silent silent_trans by blast
    with s3 Inr q1 q3 show ?thesis by (cases r3) (simp_all add: CleanupHardDelete_def Let_def)
  qed
qed

lemma cleanup_tick_silent: "wf_world w \<Longrightarrow> silent w (cleanup_tick cfg w)"
  unfolding cleanup_tick_def
  by (rule silent_trans [OF CleanupOldEvents_silent CleanupHardDelete_silent [OF CleanupOldEvents_wf]])

section \<open>Steps\<close>

definition is_cleanup :: "store_call \<Rightarrow> bool" where
  "is_cleanup c \<longleftrightarrow> (case c of CallCleanup _ \<Rightarrow> True | _ \<Rightarrow> False)"

lemma store_step_extends: "store_step w c w' \<Longrightarrow> wf_world w \<Longrightarrow> \<not> is_cleanup c \<Longrightarrow> extends w w'"
  by (induction rule: store_step.induct)
    (auto simp: is_cleanup_def mutation_extends UpsertControllerStatus_extends
      DeleteControllerStatus_extends Bootstrap_extends extends_same
      extends_same [OF SynthesizeReplayEvents_read] wf_world_keys)

inductive run :: "world \<Rightarrow> world \<Rightarrow> bool" where
  run_refl: "run w w"
| run_step: "run w w1 \<Longrightarrow> store_step w1 c w2 \<Longrightarrow> \<not> is_cleanup c \<Longrightarrow> run w w2"

lemma run_wf: "run w w' \<Longrightarrow> wf_world w \<Longrightarrow> wf_world w'"
  by (induction rule: run.induct) (auto dest: store_step_wf)

lemma run_extends: "run w w' \<Longrightarrow> wf_world w \<Longrightarrow> extends w w'"
proof (induction rule: run.induct)
  case (run_refl w)
  then show ?case by (simp add: extends_same)
next
  case (run_step w w1 c w2)
  then show ?case using store_step_extends run_wf extends_trans by blast
qed

section \<open>Replay\<close>

lemma replay_parts:
  "fold apply_replay (map (replay_org ''created'') os @ map (replay_project ''created'') ps @
     map (replay_project ''deleted'') dps @ map (replay_org ''deleted'') dos) S
   = (((S \<union> Pair ''org'' ` org_id ` set os) \<union> Pair ''project'' ` (proj_id \<circ> fst) ` set ps)
       - Pair ''project'' ` (proj_id \<circ> fst) ` set dps) - Pair ''org'' ` org_id ` set dos"
proof -
  have p: "apply_replay (replay_project t n) = apply_change t (''project'', proj_id (fst n))" for t n
    by (auto simp: apply_replay_def replay_project_def Let_def split: option.split prod.split)
  have o: "apply_replay (replay_org t r) = apply_change t (''org'', org_id r)" for t r
    by (simp add: apply_replay_def replay_org_def)
  show ?thesis
    by (simp add: fold_map comp_def p o image_image
        fold_created [of os _ "\<lambda>r. (''org'', org_id r)"] fold_created [of ps _ "\<lambda>n. (''project'', proj_id (fst n))"]
        fold_deleted [of dos _ "\<lambda>r. (''org'', org_id r)"] fold_deleted [of dps _ "\<lambda>n. (''project'', proj_id (fst n))"])
qed

lemma replay_sets:
  "org_id ` set (replay_active_orgs d) = org_id ` {r \<in> set (orgs d). org_active r}"
  "org_id ` set (replay_deleted_orgs d) = org_id ` {r \<in> set (orgs d). \<not> org_active r}"
  "(proj_id \<circ> fst) ` set (replay_active_projects d) = proj_id ` {p \<in> set (projects d). proj_active p}"
  "(proj_id \<circ> fst) ` set (replay_deleted_projects d) = proj_id ` {p \<in> set (projects d). \<not> proj_active p}"
  by (simp_all add: replay_active_orgs_def replay_deleted_orgs_def replay_active_projects_def
      replay_deleted_projects_def with_folder_def image_image)

lemma replay_active:
  assumes "keys_ok d"
  shows "fold apply_replay (map (replay_org ''created'') (replay_active_orgs d) @
      map (replay_project ''created'') (replay_active_projects d) @
      map (replay_project ''deleted'') (replay_deleted_projects d) @
      map (replay_org ''deleted'') (replay_deleted_orgs d)) {} = active_set d"
proof -
  have d: "f ` {x \<in> set xs. A x} \<inter> f ` {x \<in> set xs. \<not> A x} = {}" if "distinct (map f xs)"
    for f :: "'x \<Rightarrow> uuid" and A xs using distinct_map_unique [OF that] by auto
  have o: "org_id ` {r \<in> set (orgs d). org_active r} \<inter> org_id ` {r \<in> set (orgs d). \<not> org_active r} = {}"
    using assms by (intro d) (simp add: keys_ok_def)
  have p: "proj_id ` {p \<in> set (projects d). proj_active p} \<inter> proj_id ` {p \<in> set (projects d). \<not> proj_active p} = {}"
    using assms by (intro d) (simp add: keys_ok_def)
  have tag: "((({} \<union> Pair a ` A) \<union> Pair b ` B) - Pair b ` B') - Pair a ` A' = Pair a ` A \<union> Pair b ` B"
    if "A \<inter> A' = {}" "B \<inter> B' = {}" "a \<noteq> b" for a b :: string and A A' B B' :: "uuid set"
    using that by auto
  show ?thesis unfolding replay_parts replay_sets active_set_def set_filter
    by (rule tag [OF o p]) simp
qed

text \<open>The snapshot id: the greatest key of the feed, or 0.\<close>

definition max_id :: "db \<Rightarrow> int" where
  "max_id d = (case events_by_id_desc d of [] \<Rightarrow> 0 | e # _ \<Rightarrow> ev_id e)"

lemma sort_key_eq_Nil [simp]: "sort_key f xs = [] \<longleftrightarrow> xs = []"
  by (metis length_0_conv length_sort)

lemma max_id_bound: "e \<in> set (events d) \<Longrightarrow> ev_id e \<le> max_id d"
proof -
  assume e: "e \<in> set (events d)"
  have s: "sorted (map ev_id (sort_key ev_id (events d)))" by simp
  from e obtain x xs where x: "rev (sort_key ev_id (events d)) = x # xs"
    by (cases "rev (sort_key ev_id (events d))") auto
  then have l: "sort_key ev_id (events d) = rev xs @ [x]" by (metis rev.simps(2) rev_rev_ident)
  from e have "e \<in> set (rev xs @ [x])" using l by (metis set_sort)
  with s l have "ev_id e \<le> ev_id x" by (auto simp: sorted_append)
  with x show ?thesis by (simp add: max_id_def events_by_id_desc_def)
qed

lemma max_id_cases: "max_id d = 0 \<and> events d = [] \<or> max_id d \<in> ev_id ` set (events d)"
proof (cases "events_by_id_desc d")
  case Nil
  then show ?thesis by (simp add: max_id_def events_by_id_desc_def)
next
  case (Cons e es)
  then have "e \<in> set (events d)" by (metis events_by_id_desc_def list.set_intros(1) set_rev set_sort)
  with Cons show ?thesis by (simp add: max_id_def)
qed

lemma in_tx_select_err:
  "in_tx (select q) w = (Inl e, w') \<Longrightarrow> IsNotFound e \<Longrightarrow> \<forall>d. tx w = Some d \<longrightarrow> q d = Inl e"
  by (auto simp: in_tx_def select_def split: option.splits sum.splits)

lemma query_first_events:
  "query_first l (query (events_by_id_desc d)) = Inl e \<Longrightarrow> max_id d = 0"
  "query_first l (query (events_by_id_desc d)) = Inr r \<Longrightarrow> max_id d = ev_id r"
  by (auto simp: query_first_def query_all_def query_limit_def query_def max_id_def split: list.splits)

text \<open>The first query of a replay settles the snapshot id.\<close>

lemma replay_snapshotD:
  assumes "in_tx (select (\<lambda>d. query_first l (query (events_by_id_desc d)))) w = (r, w')"
  shows "\<forall>d. tx w = Some d \<longrightarrow> frame w w' \<and> tx w' = Some d \<and>
    (case r of Inl e \<Rightarrow> IsNotFound e \<longrightarrow> max_id d = 0 | Inr e \<Rightarrow> ev_id e = max_id d)"
  using assms in_tx_selectD [OF assms]
  by (cases r) (auto dest: in_tx_select_err query_first_events(1) query_first_events(2) [THEN sym])

lemma in_tx_allD:
  "in_tx (select (\<lambda>d. Inr (f d))) w = (r, w') \<Longrightarrow> \<forall>d. tx w = Some d \<longrightarrow>
     frame w w' \<and> tx w' = Some d \<and> (case r of Inl _ \<Rightarrow> True | Inr a \<Rightarrow> a = f d)"
  by (drule in_tx_selectD) (auto split: sum.splits)

lemma SynthesizeReplayEvents_result:
  assumes "SynthesizeReplayEvents w = (Inr (rs, m), w')"
  shows "m = max_id (tables w) \<and>
    rs = map (replay_org ''created'') (replay_active_orgs (tables w)) @
      map (replay_project ''created'') (replay_active_projects (tables w)) @
      map (replay_project ''deleted'') (replay_deleted_projects (tables w)) @
      map (replay_org ''deleted'') (replay_deleted_orgs (tables w))"
  using assms unfolding SynthesizeReplayEvents_def
  by (auto split: prod.splits sum.splits if_splits dest!: begin_txD replay_snapshotD in_tx_allD deferred_rollbackD)

text \<open>Without a fault the replay returns.\<close>

definition fault_free :: "world \<Rightarrow> bool" where
  "fault_free w \<longleftrightarrow> (\<forall>k. fault_at (env w) k = None)"

lemma in_tx_ok: "fault_free w \<Longrightarrow> tx w = Some d \<Longrightarrow>
    in_tx (select (\<lambda>d. Inr (f d))) w = (Inr (f d), tick w\<lparr>tx := Some d\<rparr>)"
  by (simp add: in_tx_def next_fault_def fault_free_def select_def)

lemma in_tx_ok': "fault_free w \<Longrightarrow> tx w = Some d \<Longrightarrow>
    in_tx (select q) w = (q d, case q d of Inl _ \<Rightarrow> tick w | Inr _ \<Rightarrow> tick w\<lparr>tx := Some d\<rparr>)"
  by (simp add: in_tx_def next_fault_def fault_free_def select_def split: sum.split)

lemma fault_free_upd [simp]: "fault_free (tick w) = fault_free w" "fault_free (w\<lparr>tx := t\<rparr>) = fault_free w"
  by (simp_all add: fault_free_def)

lemma query_first_error: "query_first l q = Inl e \<Longrightarrow> IsNotFound e"
  by (auto simp: query_first_def split: list.splits)

lemma SynthesizeReplayEvents_returns:
  assumes "fault_free w"
  shows "\<exists>rs m w'. SynthesizeReplayEvents w = (Inr (rs, m), w')"
proof -
  have b: "begin_tx w = (Inr (), tick w\<lparr>tx := Some (tables w)\<rparr>)"
    using assms by (simp add: begin_tx_def next_fault_def fault_free_def)
  let ?q = "query_first ''tenancy_event'' (query (events_by_id_desc (tables w)))"
  show ?thesis
    using assms query_first_error [of "''tenancy_event''" "query (events_by_id_desc (tables w))"]
    by (cases ?q) (simp_all add: SynthesizeReplayEvents_def b in_tx_ok in_tx_ok' deferred_rollback_def)
qed

section \<open>Catching up\<close>

text \<open>A consumer that applies a replay and then every event beyond the snapshot id holds the
  current active set, whatever the store did in between.\<close>

lemma max_id_below_seq: "wf_world w \<Longrightarrow> max_id (tables w) < event_seq w"
  using max_id_cases [of "tables w"] by (auto simp: wf_world_def)

lemma catch_up:
  assumes "wf_world w" and "SynthesizeReplayEvents w = (Inr (rs, m), w')" and "run w' v"
  shows "fold apply_event (filter (\<lambda>e. m < ev_id e) (events (tables v))) (fold apply_replay rs {})
    = active_set (tables v)"
proof -
  note r = SynthesizeReplayEvents_result [OF assms(2)]
  have same: "same_state w w'" using SynthesizeReplayEvents_read [of w] assms(1,2) by (simp add: wf_world_def)
  have w': "wf_world w'" using same_state_wf [OF same] assms(1) by simp
  from run_extends [OF assms(3) w'] same obtain es where es: "events (tables v) = events (tables w) @ es"
    "\<forall>e \<in> set es. event_seq w \<le> ev_id e" "fold apply_event es (active_set (tables w)) = active_set (tables v)"
    by (auto simp: extends_def same_state_def)
  have "filter (\<lambda>e. m < ev_id e) (events (tables w)) = []"
    using r max_id_bound by (auto simp: filter_empty_conv not_less)
  moreover have "filter (\<lambda>e. m < ev_id e) es = es"
    using r es(2) max_id_below_seq [OF assms(1)] by (force simp: filter_id_conv)
  moreover have "fold apply_replay rs {} = active_set (tables w)"
    using r replay_active assms(1) by (simp add: wf_world_def wf_db_def)
  ultimately show ?thesis using es by simp
qed

section \<open>Polling\<close>

lemma sort_sorted: "sorted_wrt (<) (map f xs) \<Longrightarrow> sort_key f xs = (xs :: event_row list)"
  by (rule sort_key_id_if_sorted) (simp add: strict_sorted_imp_sorted)

lemma GetEventsAfter_page:
  assumes "wf_world w" and "GetEventsAfter a l w = (Inr es, w')"
  shows "es = take (nat l) (filter (\<lambda>e. a < ev_id e) (events (tables w)))"
proof -
  have "sorted_wrt (<) (map ev_id (filter (\<lambda>e. a < ev_id e) (events (tables w))))"
    using assms(1) by (simp add: wf_world_def sorted_wrt_map sorted_wrt_filter)
  from sort_sorted [OF this] assms(2) show ?thesis
    by (auto simp: GetEventsAfter_def query_all_def query_limit_def query_def split: if_splits dest!: in_db_selectD)
qed

lemma filter_beyond:
  assumes "sorted_wrt (<) (map ev_id xs)" and "take n xs \<noteq> []"
  shows "filter (\<lambda>e. ev_id (last (take n xs)) < ev_id e) xs = drop n xs"
proof -
  let ?t = "take n xs"
  have "sorted_wrt (<) (map ev_id (?t @ drop n xs))" using assms(1) by simp
  then have s: "sorted_wrt (\<lambda>x y. ev_id x < ev_id y) ?t" and d: "\<forall>x \<in> set ?t. \<forall>y \<in> set (drop n xs). ev_id x < ev_id y"
    unfolding sorted_wrt_map sorted_wrt_append by auto
  have "filter (\<lambda>e. ev_id (last ?t) < ev_id e) ?t = []"
  proof -
    have "ev_id x \<le> ev_id (last ?t)" if "x \<in> set ?t" for x
    proof -
      from s assms(2) have "sorted_wrt (\<lambda>x y. ev_id x < ev_id y) (butlast ?t @ [last ?t])" by simp
      with that assms(2) show ?thesis
        by (metis append_butlast_last_id less_imp_le order_refl set_ConsD set_append Un_iff sorted_wrt_append list.set_intros(1) set_empty2 empty_iff empty_set)
    qed
    then show ?thesis by (auto simp: filter_empty_conv not_less)
  qed
  moreover have "filter (\<lambda>e. ev_id (last ?t) < ev_id e) (drop n xs) = drop n xs"
    using d assms(2) by (auto simp: filter_id_conv)
  ultimately show ?thesis by (metis append_Nil append_take_drop_id filter_append)
qed

section \<open>Cleanup and the feed\<close>

text \<open>The hard delete does not touch the feed; the retention removes only events that are older than it
  allows.\<close>

definition same_feed :: "world \<Rightarrow> world \<Rightarrow> bool" where
  "same_feed w w' \<longleftrightarrow> events (tables w') = events (tables w) \<and> event_seq w' = event_seq w"

lemma same_feed_refl [simp]: "same_feed w w"
  by (simp add: same_feed_def)

lemma same_feed_trans: "same_feed u v \<Longrightarrow> same_feed v w \<Longrightarrow> same_feed u w"
  by (simp add: same_feed_def)

lemma in_db_same_feed:
  assumes "\<And>d a d'. f d = Inr (a, d') \<Longrightarrow> events d' = events d"
  shows "same_feed w (snd (in_db f w))"
  using assms by (auto simp: same_feed_def in_db_def split: option.split fault.split sum.split)

lemma cleanup_statements_same_feed:
  "same_feed w (snd (in_db (delete_one_project i) w))" "same_feed w (snd (in_db (delete_one_org i) w))"
  "same_feed w (snd (in_db (\<lambda>d. delete_folders (P d) d) w))" "same_feed w (cleanOrphanedStatuses rt i cs w)"
  unfolding cleanOrphanedStatuses_def
  by (auto intro!: in_db_same_feed simp: delete_one_project_def delete_one_org_def delete_folders_def
      delete_statuses_def split: if_splits)

lemma hasNoRegisteredStatuses_same_feed: "hasNoRegisteredStatuses rt i cs w = (b, w') \<Longrightarrow> same_feed w w'"
  by (drule hasNoRegisteredStatusesD) (simp add: same_feed_def)

lemma in_db_select_same_feed: "in_db (select q) w = (r, w') \<Longrightarrow> same_feed w w'"
  by (drule in_db_selectD) (simp add: same_feed_def)

lemma hard_delete_projects_same_feed: "same_feed w (hard_delete_projects cs ps w)"
proof (induction ps arbitrary: w)
  case (Cons p ps)
  obtain b w1 where h: "hasNoRegisteredStatuses ''project'' (proj_id p) cs w = (b, w1)" by fastforce
  note s1 = hasNoRegisteredStatuses_same_feed [OF h]
  show ?case using h Cons.IH s1 cleanup_statements_same_feed(1,4)
    by (cases b) (simp_all, (meson same_feed_trans)+)
qed simp

lemma hard_delete_orgs_same_feed: "same_feed w (hard_delete_orgs cs rs w)"
proof (induction rs arbitrary: w)
  case (Cons r rs)
  obtain c w1 where c: "in_db (select (\<lambda>d. Inr (length (filter (has_org_with d (\<lambda>q. org_id q = org_id r)) (projects d))))) w = (c, w1)"
    by fastforce
  obtain b w2 where h: "hasNoRegisteredStatuses ''org'' (org_id r) cs w1 = (b, w2)" by fastforce
  note s = in_db_select_same_feed [OF c] hasNoRegisteredStatuses_same_feed [OF h]
  have d: "same_feed v (hard_delete_org cs r v)" for v
    unfolding hard_delete_org_def
    by (rule same_feed_trans [OF same_feed_trans [OF cleanup_statements_same_feed(4) cleanup_statements_same_feed(3)]
          cleanup_statements_same_feed(2)])
  have "same_feed w (hard_delete_orgs cs rs w1)" "same_feed w (hard_delete_orgs cs rs w2)"
    "same_feed w (hard_delete_orgs cs rs (hard_delete_org cs r w2))"
    using s d Cons.IH same_feed_trans by meson+
  with c h show ?case by (cases c; cases b) (simp_all add: hard_delete_org_def Let_def)
qed simp

lemma CleanupHardDelete_same_feed: "same_feed w (snd (CleanupHardDelete cfg w))"
  unfolding CleanupHardDelete_def
  by (auto simp: Let_def split: prod.split sum.split dest!: in_db_select_same_feed)
    (meson hard_delete_projects_same_feed hard_delete_orgs_same_feed same_feed_trans)+

lemma cleanup_tick_feed:
  "event_seq (cleanup_tick cfg w) = event_seq w \<and>
   (events (tables (cleanup_tick cfg w)) = events (tables w) \<or>
    events (tables (cleanup_tick cfg w)) = filter (\<lambda>e. fst (now w) - EventRetention cfg \<le> ev_created_at e) (events (tables w)))"
proof -
  let ?w1 = "snd (CleanupOldEvents (EventRetention cfg) w)"
  have "event_seq ?w1 = event_seq w \<and> (events (tables ?w1) = events (tables w) \<or>
      events (tables ?w1) = filter (\<lambda>e. fst (now w) - EventRetention cfg \<le> ev_created_at e) (events (tables w)))"
    by (auto simp: CleanupOldEvents_def now_def in_db_def delete_events_def not_less split: option.split fault.split)
  with CleanupHardDelete_same_feed [of ?w1 cfg] show ?thesis by (simp add: cleanup_tick_def same_feed_def)
qed

section \<open>A consumer\<close>

text \<open>A consumer holds the resources it knows and a cursor.  It starts with a replay and then polls, each time from
  the last id it saw and with any limit; in between the store is called in any way, other consumers and failed polls
  included, and cleaned up as long as no event beyond the cursor is older than the retention.\<close>

inductive follows :: "world \<Rightarrow> resource set \<Rightarrow> int \<Rightarrow> bool" where
  follow_replay: "reachable w \<Longrightarrow> SynthesizeReplayEvents w = (Inr (rs, m), w') \<Longrightarrow> follows w' (fold apply_replay rs {}) m"
| follow_poll: "follows w S m \<Longrightarrow> GetEventsAfter m limit w = (Inr page, w') \<Longrightarrow>
    follows w' (fold apply_event page S) (if page = [] then m else ev_id (last page))"
| follow_call: "follows w S m \<Longrightarrow> store_step w c w' \<Longrightarrow> \<not> is_cleanup c \<Longrightarrow> follows w' S m"
| follow_cleanup: "follows w S m \<Longrightarrow>
    \<forall>e \<in> set (events (tables w)). m < ev_id e \<longrightarrow> fst (now w) - EventRetention cfg \<le> ev_created_at e \<Longrightarrow>
    follows (cleanup_tick cfg w) S m"

text \<open>What a consumer lacks are the events beyond its cursor.\<close>

definition lacks :: "world \<Rightarrow> resource set \<Rightarrow> int \<Rightarrow> bool" where
  "lacks w S m \<longleftrightarrow> m < event_seq w \<and>
     fold apply_event (filter (\<lambda>e. m < ev_id e) (events (tables w))) S = active_set (tables w)"

lemma lacks_same: "same_state w w' \<Longrightarrow> lacks w S m \<Longrightarrow> lacks w' S m"
  by (auto simp: lacks_def same_state_def)

lemma lacks_extends:
  assumes "lacks w S m" and "extends w w'"
  shows "lacks w' S m"
proof -
  from assms(2) obtain es where es: "events (tables w') = events (tables w) @ es" "event_seq w \<le> event_seq w'"
    "\<forall>e \<in> set es. event_seq w \<le> ev_id e" "fold apply_event es (active_set (tables w)) = active_set (tables w')"
    by (auto simp: extends_def)
  have "filter (\<lambda>e. m < ev_id e) es = es"
    using assms(1) es(3) by (force simp: lacks_def filter_id_conv)
  with assms(1) es show ?thesis by (auto simp: lacks_def)
qed

lemma lacks_poll:
  assumes "wf_world w" and "lacks w S m" and "GetEventsAfter m limit w = (Inr page, w')"
  shows "lacks w (fold apply_event page S) (if page = [] then m else ev_id (last page))"
proof (cases "page = []")
  case False
  let ?F = "filter (\<lambda>e. m < ev_id e) (events (tables w))"
  have p: "page = take (nat limit) ?F" by (rule GetEventsAfter_page [OF assms(1,3)])
  have s: "sorted_wrt (<) (map ev_id ?F)" using assms(1) by (simp add: wf_world_def sorted_wrt_map sorted_wrt_filter)
  have l: "last page \<in> set ?F" using False p by (metis in_set_takeD last_in_set)
  then have "filter (\<lambda>e. ev_id (last page) < ev_id e) (events (tables w)) = filter (\<lambda>e. ev_id (last page) < ev_id e) ?F"
    by (auto intro!: filter_cong)
  also have "\<dots> = drop (nat limit) ?F" using filter_beyond [OF s, of "nat limit"] False p by simp
  finally have rest: "page @ filter (\<lambda>e. ev_id (last page) < ev_id e) (events (tables w)) = ?F" using p by simp
  have "ev_id (last page) < event_seq w" using l assms(1) by (auto simp: wf_world_def)
  moreover from assms(2) have "fold apply_event (filter (\<lambda>e. ev_id (last page) < ev_id e) (events (tables w))) (fold apply_event page S) = active_set (tables w)"
    unfolding lacks_def rest [symmetric] by simp
  ultimately show ?thesis using False by (simp add: lacks_def)
qed (use assms(2) in simp)

lemma follows_lacks: "follows w S m \<Longrightarrow> wf_world w \<and> lacks w S m"
proof (induction rule: follows.induct)
  case (follow_replay w rs m w')
  have wf: "wf_world w" using follow_replay(1) by (rule reachable_wf)
  have same: "same_state w w'" using SynthesizeReplayEvents_read [of w] follow_replay(2) wf by (simp add: wf_world_def)
  note w' = same_state_wf [OF same]
  have "m < event_seq w'"
    using SynthesizeReplayEvents_result [OF follow_replay(2)] max_id_below_seq [OF wf] same by (simp add: same_state_def)
  with catch_up [OF wf follow_replay(2) run_refl] w' wf show ?case by (simp add: lacks_def)
next
  case (follow_poll w S m limit page w')
  have same: "same_state w w'" using follow_poll.hyps(2) by (auto simp: GetEventsAfter_def same_state_def dest!: in_db_selectD)
  with follow_poll.IH lacks_poll [OF _ _ follow_poll.hyps(2)] lacks_same same_state_wf [OF same] show ?case by blast
next
  case (follow_call w S m c w')
  with lacks_extends store_step_extends store_step_wf show ?case by blast
next
  case (follow_cleanup w S m cfg)
  let ?w' = "cleanup_tick cfg w"
  have "filter (\<lambda>e. m < ev_id e) (events (tables ?w')) = filter (\<lambda>e. m < ev_id e) (events (tables w))"
  proof -
    have "filter (\<lambda>e. m < ev_id e) (filter Q es) = filter (\<lambda>e. m < ev_id e) es"
      if "\<forall>e \<in> set es. m < ev_id e \<longrightarrow> Q e" for Q and es :: "event_row list"
      using that by (induction es) auto
    from this [OF follow_cleanup.hyps(2)] cleanup_tick_feed [of cfg w] show ?thesis by metis
  qed
  moreover have "wf_world ?w'" using follow_cleanup.IH store_step_wf store_step.intros(9) by blast
  ultimately show ?case
    using follow_cleanup.IH cleanup_tick_feed [of cfg w] silent_active_set [OF cleanup_tick_silent, of w cfg] by (simp add: lacks_def)
qed

section \<open>Properties\<close>

lemma sample_fault_free: "fault_free sample_world"
  by (simp add: fault_free_def sample_world_def sample_env_def)

lemma sample_tenant_fault_free: "fault_free sample_tenant"
  by (simp add: fault_free_def sample_tenant_env sample_env_def)

text \<open>
  C3. Replay and polling keep a consumer current.  It starts from nothing with a replay of any reachable state and then
  polls the feed page by page from the last id it saw, while the store takes any calls, failed and half-failed
  ones, further replays and cleanup included, as long as the event retention reaches none of the events it has not
  seen.  At every moment the events beyond its cursor are exactly what it lacks of the active orgs and
  projects, and a page that is not full brings it up to date.
\<close>

theorem replay_then_poll_is_current:
  assumes "follows w S m"
  shows "fold apply_event (filter (\<lambda>e. m < ev_id e) (events (tables w))) S = active_set (tables w) \<and>
    (\<forall>limit page w'. GetEventsAfter m limit w = (Inr page, w') \<and> int (length page) < limit \<longrightarrow>
       fold apply_event page S = active_set (tables w'))"
proof (intro conjI allI impI)
  note l = follows_lacks [OF assms]
  then show all: "fold apply_event (filter (\<lambda>e. m < ev_id e) (events (tables w))) S = active_set (tables w)"
    by (simp add: lacks_def)
  fix limit page w' assume g: "GetEventsAfter m limit w = (Inr page, w') \<and> int (length page) < limit"
  then have "page = take (nat limit) (filter (\<lambda>e. m < ev_id e) (events (tables w)))"
    using GetEventsAfter_page l by blast
  with g have "page = filter (\<lambda>e. m < ev_id e) (events (tables w))"
    by (auto simp: min_def split: if_splits)
  moreover have "tables w' = tables w" using g by (auto simp: GetEventsAfter_def dest!: in_db_selectD)
  ultimately show "fold apply_event page S = active_set (tables w')" using all by simp
qed

theorem replay_then_poll_is_current_witness:
  "\<exists>rs m w' page w''. SynthesizeReplayEvents sample_world = (Inr (rs, m), w') \<and>
     GetEventsAfter m 10 (cleanup_tick DefaultConfig (snd (CreateOrg ''acme'' [] w'))) = (Inr page, w'') \<and> page \<noteq> [] \<and>
     fold apply_event page (fold apply_replay rs {}) = active_set (tables w'')"
proof -
  let ?w = "snd (CreateOrg ''acme'' [] (snd (SynthesizeReplayEvents sample_world)))"
  let ?v = "cleanup_tick DefaultConfig ?w"
  obtain rs m w' where s: "SynthesizeReplayEvents sample_world = (Inr (rs, m), w')"
    using SynthesizeReplayEvents_returns [OF sample_fault_free] by blast
  then have w': "snd (SynthesizeReplayEvents sample_world) = w'" by simp
  have m: "m = 0"
  proof -
    have "(case fst (SynthesizeReplayEvents sample_world) of Inl _ \<Rightarrow> False | Inr x \<Rightarrow> snd x = 0)" by code_simp
    with s show ?thesis by simp
  qed
  have "list_all (\<lambda>e. fst (now ?w) - EventRetention DefaultConfig \<le> ev_created_at e) (events (tables ?w))" by code_simp
  then have old: "\<forall>e \<in> set (events (tables ?w)). m < ev_id e \<longrightarrow> fst (now ?w) - EventRetention DefaultConfig \<le> ev_created_at e"
    by (simp add: list_all_iff)
  have f: "follows ?v (fold apply_replay rs {}) m"
    by (rule follow_cleanup [OF follow_call [OF follow_replay [OF sample_reachable s], of "CallCreateOrg ''acme'' []"] old [unfolded w'],
        folded w']) (simp_all add: is_cleanup_def)
  have "(case fst (GetEventsAfter 0 10 ?v) of Inl _ \<Rightarrow> False | Inr es \<Rightarrow> length es = 1)" by code_simp
  then obtain page w'' where g: "GetEventsAfter m 10 ?v = (Inr page, w'')" "length page = 1"
    unfolding m by (cases "GetEventsAfter 0 10 ?v"; cases "fst (GetEventsAfter 0 10 ?v)") auto
  then have "int (length page) < 10" "page \<noteq> []" by auto
  with replay_then_poll_is_current [OF f] g(1) have "fold apply_event page (fold apply_replay rs {}) = active_set (tables w'')" by blast
  with s g(1) \<open>page \<noteq> []\<close> show ?thesis unfolding w' by blast
qed

text \<open>
  C6. The feed explains every change: over any sequence of calls without cleanup the events of the
  earlier state stay in place, the new ones carry fresh ids, and applying them to the earlier set of
  active resources gives the later one.
\<close>

theorem feed_explains_changes:
  assumes "reachable w" and "run w v"
  shows "\<exists>es. events (tables v) = events (tables w) @ es \<and>
    (\<forall>e \<in> set es. event_seq w \<le> ev_id e) \<and>
    fold apply_event es (active_set (tables w)) = active_set (tables v)"
  using run_extends [OF assms(2) reachable_wf [OF assms(1)]] by (auto simp: extends_def)

theorem feed_explains_changes_witness:
  "\<exists>es. events (tables (snd (DeleteOrg ''acme'' sample_tenant))) = events (tables sample_tenant) @ es \<and>
    (\<forall>e \<in> set es. event_seq sample_tenant \<le> ev_id e) \<and>
    fold apply_event es (active_set (tables sample_tenant)) = active_set (tables (snd (DeleteOrg ''acme'' sample_tenant)))"
proof (rule feed_explains_changes)
  show "reachable sample_tenant" by (rule sample_tenant_reachable)
  show "run sample_tenant (snd (DeleteOrg ''acme'' sample_tenant))"
    by (rule run_step [OF run_refl, of _ "CallDeleteOrg ''acme''"]) (simp_all add: is_cleanup_def)
qed

text \<open>
  Background cleanup is invisible to consumers: a tick of it never changes the set of active
  orgs and projects, in whatever state and under whatever faults it runs.
\<close>

theorem cleanup_is_silent:
  assumes "reachable w"
  shows "active_set (tables (cleanup_tick cfg w)) = active_set (tables w)"
  using cleanup_tick_silent [OF reachable_wf [OF assms]] by (rule silent_active_set)

theorem cleanup_is_silent_witness:
  "active_set (tables (cleanup_tick DefaultConfig (snd (DeleteProject ''web'' None sample_tenant))))
     = active_set (tables (snd (DeleteProject ''web'' None sample_tenant)))"
proof (rule cleanup_is_silent)
  show "reachable (snd (DeleteProject ''web'' None sample_tenant))" unfolding sample_tenant_def
    by (rule reachable_step [OF reachable_step [OF reachable_step [OF sample_reachable]]]) (rule store_step.intros)+
qed

text \<open>
  A replay is complete, and it is produced: without a driver fault \<open>SynthesizeReplayEvents\<close>
  returns; its events give the active set when applied to nothing, name every org and project row
  once, and its snapshot id is the greatest event id (0 for an empty feed).
\<close>

theorem replay_complete:
  assumes "reachable w" and "fault_free w"
  shows "\<exists>rs m w'. SynthesizeReplayEvents w = (Inr (rs, m), w') \<and> tables w' = tables w \<and>
    fold apply_replay rs {} = active_set (tables w) \<and>
    length rs = length (orgs (tables w)) + length (projects (tables w)) \<and>
    (\<forall>e \<in> set (events (tables w)). ev_id e \<le> m) \<and> (m = 0 \<or> m \<in> ev_id ` set (events (tables w)))"
proof -
  obtain rs m w' where s: "SynthesizeReplayEvents w = (Inr (rs, m), w')"
    using SynthesizeReplayEvents_returns [OF assms(2)] by blast
  note r = SynthesizeReplayEvents_result [OF s]
  have wf: "wf_world w" using assms(1) by (rule reachable_wf)
  have "length (filter A xs) + length (filter (\<lambda>x. \<not> A x) xs) = length xs" for A and xs :: "'x list"
    by (rule sum_length_filter_compl)
  from this [of org_active "orgs (tables w)"] this [of proj_active "projects (tables w)"] r
  have "length rs = length (orgs (tables w)) + length (projects (tables w))"
    by (simp add: replay_active_orgs_def replay_active_projects_def replay_deleted_orgs_def replay_deleted_projects_def)
  moreover have "fold apply_replay rs {} = active_set (tables w)"
    using r replay_active wf by (simp add: wf_world_def wf_db_def)
  moreover have "tables w' = tables w"
    using SynthesizeReplayEvents_read [of w] wf s by (simp add: wf_world_def same_state_def)
  ultimately show ?thesis using s r max_id_bound max_id_cases [of "tables w"] by blast
qed

theorem replay_complete_witness:
  "\<exists>rs m w'. SynthesizeReplayEvents sample_tenant = (Inr (rs, m), w') \<and>
     length rs = length (orgs (tables sample_tenant)) + length (projects (tables sample_tenant))"
proof -
  show ?thesis using replay_complete [OF sample_tenant_reachable sample_tenant_fault_free] by blast
qed

text \<open>
  C16. Pages continue each other: a page of \<open>GetEventsAfter\<close> is the first \<open>limit\<close> events
  beyond the cursor in id order, and the events beyond its last id are exactly the rest, so a
  consumer that always polls from the last id it saw misses none and sees none twice.
\<close>

theorem pages_partition_the_feed:
  assumes "reachable w" and "GetEventsAfter a l w = (Inr page, w')" and "page \<noteq> []"
  shows "\<exists>rest. filter (\<lambda>e. a < ev_id e) (events (tables w)) = page @ rest \<and> length page \<le> nat l \<and>
    filter (\<lambda>e. ev_id (last page) < ev_id e) (events (tables w)) = rest"
proof -
  let ?F = "filter (\<lambda>e. a < ev_id e) (events (tables w))"
  have wf: "wf_world w" using assms(1) by (rule reachable_wf)
  have p: "page = take (nat l) ?F" using GetEventsAfter_page [OF wf assms(2)] .
  have s: "sorted_wrt (<) (map ev_id ?F)" using wf by (simp add: wf_world_def sorted_wrt_map sorted_wrt_filter)
  have "last page \<in> set ?F" using assms(3) p by (metis in_set_takeD last_in_set)
  then have "filter (\<lambda>e. ev_id (last page) < ev_id e) (events (tables w)) = filter (\<lambda>e. ev_id (last page) < ev_id e) ?F"
    by (auto intro!: filter_cong)
  also have "\<dots> = drop (nat l) ?F" using filter_beyond [OF s, of "nat l"] assms(3) p by simp
  finally show ?thesis using p by (intro exI [of _ "drop (nat l) ?F"]) simp
qed

theorem pages_partition_the_feed_witness:
  "\<exists>page w' rest. GetEventsAfter 0 1 sample_tenant = (Inr page, w') \<and>
     filter (\<lambda>e. 0 < ev_id e) (events (tables sample_tenant)) = page @ rest \<and> length page \<le> 1"
proof -
  note r = sample_tenant_reachable
  obtain p w' where g: "GetEventsAfter 0 1 sample_tenant = (p, w')" by fastforce
  have "(case fst (GetEventsAfter 0 1 sample_tenant) of Inl _ \<Rightarrow> False | Inr es \<Rightarrow> es \<noteq> [])" by code_simp
  with g obtain page where "p = Inr page" "page \<noteq> []" by (cases p) auto
  with g pages_partition_the_feed [OF r, of 0 1 page w'] show ?thesis by auto
qed

text \<open>
  \<open>MaxEventID\<close> does not return the maximum: it asks for one row but reads it with
  \<open>Only\<close>, which fetches two, so with two or more events in the feed it reports a
  \<open>NotSingularError\<close>.
\<close>

theorem MaxEventID_fails_on_two_events:
  assumes "fault_free w" and "2 \<le> length (events (tables w))"
  shows "fst (MaxEventID w) = Inl (NotSingularError ''tenancy_event'')"
proof -
  have "2 \<le> length (events_by_id_desc (tables w))" using assms(2) by (simp add: events_by_id_desc_def)
  then obtain x y xs where "events_by_id_desc (tables w) = x # y # xs"
    by (cases "events_by_id_desc (tables w)"; cases "tl (events_by_id_desc (tables w))") auto
  moreover have "next_fault w = None" using assms(1) by (simp add: next_fault_def fault_free_def)
  ultimately show ?thesis
    by (simp add: MaxEventID_def in_db_select_ok query_only_def query_all_def query_limit_def query_def numeral_2_eq_2)
qed

theorem MaxEventID_fails_on_two_events_witness:
  "fst (MaxEventID sample_tenant) = Inl (NotSingularError ''tenancy_event'')"
proof (rule MaxEventID_fails_on_two_events)
  show "fault_free sample_tenant" by (rule sample_tenant_fault_free)
  show "2 \<le> length (events (tables sample_tenant))" by code_simp
qed

end
