(* ===== verification/Tenancy_Retention.thy ===== *)
theory Tenancy_Retention
  imports Tenancy_Feed
begin

text \<open>
  When the background cleanup removes a row for good: never while the resource is active or a
  registered controller still has a status row for it, and, as long as the driver reports no
  error, always when neither is the case.
\<close>

definition held :: "Config \<Rightarrow> string \<Rightarrow> uuid \<Rightarrow> db \<Rightarrow> bool" where
  "held cfg rt i d \<longleftrightarrow>
     (\<exists>s \<in> set (statuses d). cs_resource_type s = rt \<and> cs_resource_id s = i \<and>
        cs_controller s \<in> set (ControllersForResource cfg rt))"

section \<open>Safety\<close>

definition spares :: "Config \<Rightarrow> world \<Rightarrow> world \<Rightarrow> bool" where
  "spares cfg w w' \<longleftrightarrow>
     (\<forall>rt i. held cfg rt i (tables w') \<longleftrightarrow> held cfg rt i (tables w)) \<and>
     (\<forall>p \<in> set (projects (tables w)). held cfg ''project'' (proj_id p) (tables w) \<longrightarrow>
        p \<in> set (projects (tables w'))) \<and>
     (\<forall>r \<in> set (orgs (tables w)). held cfg ''org'' (org_id r) (tables w) \<longrightarrow>
        r \<in> set (orgs (tables w')))"

lemma spares_refl [simp]: "spares cfg w w"
  by (simp add: spares_def)

lemma spares_tables: "tables w' = tables w \<Longrightarrow> spares cfg w w'"
  by (simp add: spares_def)

lemma spares_trans: "spares cfg u v \<Longrightarrow> spares cfg v w \<Longrightarrow> spares cfg u w"
  by (simp add: spares_def)

lemma cleanOrphanedStatuses_spares:
  "spares cfg w (cleanOrphanedStatuses rt i (ControllersForResource cfg rt) w)"
  by (auto simp: spares_def held_def cleanOrphanedStatuses_def in_db_def delete_statuses_def
      split: option.split fault.split)

lemma in_db_spares:
  assumes "\<And>a d'. f (tables w) = Inr (a, d') \<Longrightarrow> statuses d' = statuses (tables w) \<and>
      (\<forall>p \<in> set (projects (tables w)). held cfg ''project'' (proj_id p) (tables w) \<longrightarrow> p \<in> set (projects d')) \<and>
      (\<forall>r \<in> set (orgs (tables w)). held cfg ''org'' (org_id r) (tables w) \<longrightarrow> r \<in> set (orgs d'))"
  shows "spares cfg w (snd (in_db f w))"
  using assms by (fastforce simp: spares_def held_def in_db_def split: option.split fault.split sum.split)

lemma hasNoRegisteredStatuses_free:
  assumes "hasNoRegisteredStatuses rt i (ControllersForResource cfg rt) w = (True, w')"
  shows "\<not> held cfg rt i (tables w)"
  using assms
  by (auto simp: hasNoRegisteredStatuses_def held_def filter_empty_conv split: if_splits prod.splits sum.splits
      dest!: in_db_selectD)

lemma delete_project_spares:
  assumes "\<not> held cfg ''project'' i (tables w)"
  shows "spares cfg w (snd (in_db (delete_one_project i) w))"
  using assms by (intro in_db_spares) (auto simp: delete_one_project_def split: if_splits)

lemma delete_org_spares:
  assumes "\<not> held cfg ''org'' i (tables w)"
  shows "spares cfg w (snd (in_db (delete_one_org i) w))"
  using assms by (intro in_db_spares) (auto simp: delete_one_org_def split: if_splits)

lemma hard_delete_projects_spares:
  "spares cfg w (hard_delete_projects (ControllersForResource cfg ''project'') ps w)"
proof (induction ps arbitrary: w)
  case Nil
  then show ?case by simp
next
  case (Cons p ps)
  let ?cs = "ControllersForResource cfg ''project''"
  obtain b w1 where h: "hasNoRegisteredStatuses ''project'' (proj_id p) ?cs w = (b, w1)" by fastforce
  have t1: "tables w1 = tables w" using hasNoRegisteredStatusesD [OF h] by simp
  let ?w2 = "cleanOrphanedStatuses ''project'' (proj_id p) ?cs w1"
  have s2: "spares cfg w ?w2"
    using spares_trans [OF spares_tables [OF t1] cleanOrphanedStatuses_spares] .
  show ?case
  proof (cases b)
    case True
    with h have "\<not> held cfg ''project'' (proj_id p) (tables ?w2)"
      using hasNoRegisteredStatuses_free s2 by (auto simp: spares_def)
    from spares_trans [OF s2 spares_trans [OF delete_project_spares [OF this] Cons.IH]] h True
    show ?thesis by simp
  next
    case False
    with spares_trans [OF spares_tables [OF t1] Cons.IH] h show ?thesis by simp
  qed
qed

lemma hard_delete_org_spares:
  assumes "\<not> held cfg ''org'' (org_id r) (tables w)"
  shows "spares cfg w (hard_delete_org (ControllersForResource cfg ''org'') r w)"
proof -
  let ?w1 = "cleanOrphanedStatuses ''org'' (org_id r) (ControllersForResource cfg ''org'') w"
  let ?w2 = "snd (in_db (\<lambda>d. delete_folders
      (\<lambda>f. \<exists>q \<in> set (orgs d). org_id q = folder_org f \<and> org_id q = org_id r) d) ?w1)"
  have s2: "spares cfg w ?w2"
    by (rule spares_trans [OF cleanOrphanedStatuses_spares in_db_spares])
      (auto simp: delete_folders_def split: if_splits)
  then have "\<not> held cfg ''org'' (org_id r) (tables ?w2)" using assms by (simp add: spares_def)
  from spares_trans [OF s2 delete_org_spares [OF this]] show ?thesis by (simp add: hard_delete_org_def)
qed

lemma hard_delete_orgs_spares:
  "spares cfg w (hard_delete_orgs (ControllersForResource cfg ''org'') rs w)"
proof (induction rs arbitrary: w)
  case Nil
  then show ?case by simp
next
  case (Cons r rs)
  let ?cs = "ControllersForResource cfg ''org''"
  let ?q = "select (\<lambda>d. Inr (length (filter (has_org_with d (\<lambda>q. org_id q = org_id r)) (projects d))))"
  obtain c w1 where c: "in_db ?q w = (c, w1)" by fastforce
  obtain b w2 where h: "hasNoRegisteredStatuses ''org'' (org_id r) ?cs w1 = (b, w2)" by fastforce
  have t: "tables w1 = tables w" "tables w2 = tables w"
    using in_db_selectD [OF c] hasNoRegisteredStatusesD [OF h] by auto
  have d: "spares cfg w (hard_delete_orgs ?cs rs (hard_delete_org ?cs r w2))" if b
    using that h t hasNoRegisteredStatuses_free [of "''org''" "org_id r" cfg w1 w2]
      spares_trans [OF spares_tables [OF t(2)] spares_trans [OF hard_delete_org_spares Cons.IH]] by simp
  have "spares cfg w (hard_delete_orgs ?cs rs w1)" "spares cfg w (hard_delete_orgs ?cs rs w2)"
    using Cons.IH t spares_tables spares_trans by blast+
  with d c h show ?case by (cases c; cases b) (simp_all add: hard_delete_org_def Let_def)
qed

lemma CleanupHardDelete_spares: "spares cfg w (snd (CleanupHardDelete cfg w))"
proof -
  let ?qp = "select (\<lambda>d. Inr (query_all (query (filter (\<lambda>p. proj_deleted_at p \<noteq> None) (projects d)))))"
  let ?qo = "select (\<lambda>d. Inr (query_all (query (filter (\<lambda>r. org_deleted_at r \<noteq> None) (orgs d)))))"
  obtain r1 w1 where q1: "in_db ?qp w = (r1, w1)" by fastforce
  have s1: "spares cfg w w1" using in_db_selectD [OF q1] by (intro spares_tables) simp
  show ?thesis
  proof (cases r1)
    case (Inl e)
    with q1 s1 show ?thesis by (simp add: CleanupHardDelete_def)
  next
    case (Inr ps)
    let ?w2 = "hard_delete_projects (ControllersForResource cfg ''project'') ps w1"
    have s2: "spares cfg w ?w2" using spares_trans [OF s1 hard_delete_projects_spares] .
    obtain r3 w3 where q3: "in_db ?qo ?w2 = (r3, w3)" by fastforce
    have s3: "spares cfg w w3" using s2 in_db_selectD [OF q3] spares_tables spares_trans by blast
    with Inr q1 q3 spares_trans [OF s3 hard_delete_orgs_spares] show ?thesis
      by (cases r3) (simp_all add: CleanupHardDelete_def Let_def)
  qed
qed

section \<open>Progress\<close>

definition shrinks :: "world \<Rightarrow> world \<Rightarrow> bool" where
  "shrinks w w' \<longleftrightarrow>
     env w' = env w \<and> set (orgs (tables w')) \<subseteq> set (orgs (tables w)) \<and>
     set (folders (tables w')) \<subseteq> set (folders (tables w)) \<and>
     set (projects (tables w')) \<subseteq> set (projects (tables w))"

lemma shrinks_refl [simp]: "shrinks w w"
  by (simp add: shrinks_def)

lemma shrinks_trans: "shrinks u v \<Longrightarrow> shrinks v w \<Longrightarrow> shrinks u w"
  by (auto simp: shrinks_def)

lemma shrinks_same: "tables w' = tables w \<Longrightarrow> env w' = env w \<Longrightarrow> shrinks w w'"
  by (simp add: shrinks_def)

lemma shrinks_fault_free: "shrinks w w' \<Longrightarrow> fault_free w' = fault_free w"
  by (simp add: shrinks_def fault_free_def)

lemma in_db_shrinks:
  assumes "\<And>a d'. f (tables w) = Inr (a, d') \<Longrightarrow> set (orgs d') \<subseteq> set (orgs (tables w)) \<and>
    set (folders d') \<subseteq> set (folders (tables w)) \<and> set (projects d') \<subseteq> set (projects (tables w))"
  shows "shrinks w (snd (in_db f w))"
  using assms by (auto simp: shrinks_def in_db_def split: option.split fault.split sum.split)

lemma cleanup_statements_shrink:
  "shrinks w (snd (in_db (delete_one_project i) w))" "shrinks w (snd (in_db (delete_one_org i) w))"
  "shrinks w (snd (in_db (\<lambda>d. delete_folders (P d) d) w))"
  "shrinks w (cleanOrphanedStatuses rt i cs w)"
  unfolding cleanOrphanedStatuses_def
  by (auto intro!: in_db_shrinks simp: delete_one_project_def delete_one_org_def delete_folders_def
      delete_statuses_def split: if_splits)

lemma hasNoRegisteredStatuses_shrinks:
  "hasNoRegisteredStatuses rt i cs w = (b, w') \<Longrightarrow> shrinks w w'"
  by (drule hasNoRegisteredStatusesD) (simp add: shrinks_same)

lemma in_db_ok:
  "fault_free w \<Longrightarrow> in_db f w =
     (case f (tables w) of Inl e \<Rightarrow> (Inl e, tick w) | Inr (a, d') \<Rightarrow> (Inr a, (tick w)\<lparr>tables := d'\<rparr>))"
  by (simp add: in_db_def next_fault_def fault_free_def)

lemma hasNoRegisteredStatuses_ok:
  assumes "fault_free w"
  shows "fst (hasNoRegisteredStatuses rt i (ControllersForResource cfg rt) w) = (\<not> held cfg rt i (tables w))"
  using assms by (auto simp: hasNoRegisteredStatuses_def held_def filter_empty_conv in_db_ok select_def)

lemma hard_delete_projects_shrinks: "shrinks w (hard_delete_projects cs ps w)"
proof (induction ps arbitrary: w)
  case (Cons p ps)
  obtain b w1 where h: "hasNoRegisteredStatuses ''project'' (proj_id p) cs w = (b, w1)" by fastforce
  note s1 = hasNoRegisteredStatuses_shrinks [OF h]
  show ?case using h Cons.IH s1 cleanup_statements_shrink(1,4)
    by (cases b) (simp_all, (meson shrinks_trans)+)
qed simp

lemma in_db_delete_project_ok:
  "fault_free w \<Longrightarrow> i \<notin> proj_id ` set (projects (tables (snd (in_db (delete_one_project i) w))))"
  by (auto simp: in_db_def next_fault_def fault_free_def delete_one_project_def)

lemma hard_delete_projects_progress:
  assumes "fault_free w" and "p \<in> set ps" and "\<not> held cfg ''project'' (proj_id p) (tables w)"
  shows "proj_id p \<notin> proj_id ` set (projects (tables
           (hard_delete_projects (ControllersForResource cfg ''project'') ps w)))"
  using assms
proof (induction ps arbitrary: w)
  case Nil
  then show ?case by simp
next
  case (Cons x ps)
  let ?cs = "ControllersForResource cfg ''project''"
  obtain b w1 where h: "hasNoRegisteredStatuses ''project'' (proj_id x) ?cs w = (b, w1)" by fastforce
  let ?w3 = "snd (in_db (delete_one_project (proj_id x)) (cleanOrphanedStatuses ''project'' (proj_id x) ?cs w1))"
  have t1: "tables w1 = tables w" using hasNoRegisteredStatusesD [OF h] by simp
  have sh: "shrinks w w1" "shrinks w1 (cleanOrphanedStatuses ''project'' (proj_id x) ?cs w1)" "shrinks w1 ?w3"
    using hasNoRegisteredStatuses_shrinks [OF h] cleanup_statements_shrink shrinks_trans by blast+
  have b: "b = (\<not> held cfg ''project'' (proj_id x) (tables w))"
    using hasNoRegisteredStatuses_ok [OF Cons.prems(1), of "''project''" "proj_id x" cfg] h by simp
  have ff: "fault_free w1" "fault_free (cleanOrphanedStatuses ''project'' (proj_id x) ?cs w1)" "fault_free ?w3"
    using Cons.prems(1) shrinks_fault_free sh by auto
  show ?case
  proof (cases "proj_id x = proj_id p")
    case True
    with b Cons.prems(3) have "b" by simp
    moreover have "proj_id p \<notin> proj_id ` set (projects (tables ?w3))"
      using in_db_delete_project_ok [OF ff(2), of "proj_id x"] True by simp
    ultimately show ?thesis using h hard_delete_projects_shrinks [of ?w3 ?cs ps] by (auto simp: shrinks_def)
  next
    case False
    with Cons.prems(2) have p: "p \<in> set ps" by auto
    show ?thesis
    proof (cases b)
      case True
      have "spares cfg w1 ?w3"
        using b True t1 cleanOrphanedStatuses_spares [of cfg w1 "''project''" "proj_id x"]
        by (intro spares_trans [OF cleanOrphanedStatuses_spares delete_project_spares]) (simp add: spares_def)
      with t1 Cons.prems(3) have "\<not> held cfg ''project'' (proj_id p) (tables ?w3)" by (simp add: spares_def)
      from Cons.IH [OF ff(3) p this] h True show ?thesis by simp
    next
      case False
      from Cons.IH [OF ff(1) p] t1 Cons.prems(3) h False show ?thesis by simp
    qed
  qed
qed

text \<open>An org whose projects are gone loses its folders, then its row.\<close>

definition no_projects :: "org_row \<Rightarrow> db \<Rightarrow> bool" where
  "no_projects r d \<longleftrightarrow> (\<forall>p \<in> set (projects d). \<not> has_org_with d (\<lambda>q. org_id q = org_id r) p)"

lemma no_projects_mono: "no_projects r (tables w) \<Longrightarrow> shrinks w w' \<Longrightarrow> no_projects r (tables w')"
  unfolding no_projects_def shrinks_def by (meson has_org_with_mono subsetD)

lemma hard_delete_org_progress:
  assumes "fault_free w" and "no_projects r (tables w)"
  shows "org_id r \<notin> org_id ` set (orgs (tables (hard_delete_org cs r w)))"
proof -
  let ?w1 = "cleanOrphanedStatuses ''org'' (org_id r) cs w"
  let ?P = "\<lambda>d f. \<exists>q \<in> set (orgs d). org_id q = folder_org f \<and> org_id q = org_id r"
  let ?w2 = "snd (in_db (\<lambda>d. delete_folders (?P d) d) ?w1)"
  have sh: "shrinks w ?w1" "shrinks ?w1 ?w2" by (rule cleanup_statements_shrink)+
  have ff: "fault_free ?w1" "fault_free ?w2" using assms(1) sh shrinks_fault_free by auto
  have none: "no_projects r (tables ?w1)" using assms(2) sh(1) by (rule no_projects_mono)
  have "folder_id f \<notin> proj_folder ` set (projects (tables ?w1))"
    if "f \<in> set (folders (tables ?w1))" "?P (tables ?w1) f" for f
  proof
    assume "folder_id f \<in> proj_folder ` set (projects (tables ?w1))"
    then obtain p where p: "p \<in> set (projects (tables ?w1))" "folder_id f = proj_folder p" by auto
    with that have "has_org_with (tables ?w1) (\<lambda>q. org_id q = org_id r) p"
      unfolding has_org_with_def by (intro bexI [of _ f]) auto
    with p(1) none show False by (simp add: no_projects_def)
  qed
  then have f2: "tables ?w2 = (tables ?w1)\<lparr>folders := filter (\<lambda>f. \<not> ?P (tables ?w1) f) (folders (tables ?w1))\<rparr>"
    by (subst in_db_ok [OF ff(1)]) (auto simp: delete_folders_def)
  have "org_id r \<notin> folder_org ` set (folders (tables ?w2))" if "org_id r \<in> org_id ` set (orgs (tables ?w2))"
    using that f2 by auto
  then show ?thesis using in_db_ok [OF ff(2), of "delete_one_org (org_id r)"]
    by (auto simp: hard_delete_org_def delete_one_org_def)
qed

lemma hard_delete_org_shrinks: "shrinks w (hard_delete_org cs r w)"
  unfolding hard_delete_org_def
  by (rule shrinks_trans [OF shrinks_trans [OF cleanup_statements_shrink(4) cleanup_statements_shrink(3)]
        cleanup_statements_shrink(2)])

lemma hard_delete_orgs_step:
  assumes "fault_free w"
  shows "\<exists>w2. shrinks w w2 \<and> tables w2 = tables w \<and>
    hard_delete_orgs (ControllersForResource cfg ''org'') (r # rs) w =
      (if no_projects r (tables w) \<and> \<not> held cfg ''org'' (org_id r) (tables w)
       then hard_delete_orgs (ControllersForResource cfg ''org'') rs (hard_delete_org (ControllersForResource cfg ''org'') r w2)
       else hard_delete_orgs (ControllersForResource cfg ''org'') rs w2)"
proof -
  let ?cs = "ControllersForResource cfg ''org''"
  let ?f = "\<lambda>d. length (filter (has_org_with d (\<lambda>q. org_id q = org_id r)) (projects d))"
  let ?q = "select (\<lambda>d. Inr (?f d))"
  obtain w1 where c: "in_db ?q w = (Inr (?f (tables w)), w1)" "tables w1 = tables w" "env w1 = env w"
    using assms by (simp add: in_db_ok select_def)
  obtain b w2 where h: "hasNoRegisteredStatuses ''org'' (org_id r) ?cs w1 = (b, w2)" by fastforce
  have "fault_free w1" using assms c(3) by (simp add: fault_free_def)
  from hasNoRegisteredStatuses_ok [OF this, of "''org''" "org_id r" cfg] h c(2)
  have b: "b = (\<not> held cfg ''org'' (org_id r) (tables w))" by simp
  have n: "?f (tables w) > 0 \<longleftrightarrow> \<not> no_projects r (tables w)"
    by (simp add: no_projects_def filter_empty_conv)
  note t2 = hasNoRegisteredStatusesD [OF h]
  show ?thesis
  proof (cases "no_projects r (tables w)")
    case True
    with n have "?f (tables w) = 0" by simp
    with True b c h t2 show ?thesis
      by (intro exI [of _ w2]) (cases b, simp_all add: shrinks_same hard_delete_org_def Let_def)
  next
    case False
    with n c h t2 show ?thesis by (intro exI [of _ w1]) (simp add: shrinks_same)
  qed
qed

lemma hard_delete_orgs_shrinks:
  assumes "fault_free w"
  shows "shrinks w (hard_delete_orgs (ControllersForResource cfg ''org'') rs w)"
  using assms
proof (induction rs arbitrary: w)
  case (Cons r rs)
  from hard_delete_orgs_step [OF Cons.prems, of cfg r rs] obtain w2 where w2: "shrinks w w2"
    "hard_delete_orgs (ControllersForResource cfg ''org'') (r # rs) w =
      (if no_projects r (tables w) \<and> \<not> held cfg ''org'' (org_id r) (tables w)
       then hard_delete_orgs (ControllersForResource cfg ''org'') rs (hard_delete_org (ControllersForResource cfg ''org'') r w2)
       else hard_delete_orgs (ControllersForResource cfg ''org'') rs w2)" by blast
  have "shrinks w (hard_delete_org (ControllersForResource cfg ''org'') r w2)"
    using w2(1) hard_delete_org_shrinks by (rule shrinks_trans)
  moreover from this w2(1) Cons.prems have "fault_free (hard_delete_org (ControllersForResource cfg ''org'') r w2)"
    "fault_free w2" using shrinks_fault_free by blast+
  ultimately show ?case using w2 Cons.IH shrinks_trans by (auto simp del: hard_delete_orgs.simps)
qed simp

lemma hard_delete_orgs_progress:
  assumes "fault_free w" and "r \<in> set rs" and "no_projects r (tables w)"
    and "\<not> held cfg ''org'' (org_id r) (tables w)"
  shows "org_id r \<notin> org_id ` set (orgs (tables (hard_delete_orgs (ControllersForResource cfg ''org'') rs w)))"
  using assms
proof (induction rs arbitrary: w)
  case Nil
  then show ?case by simp
next
  case (Cons x rs)
  let ?cs = "ControllersForResource cfg ''org''"
  from hard_delete_orgs_step [OF Cons.prems(1), of cfg x rs] obtain w2 where w2: "shrinks w w2" "tables w2 = tables w"
    "hard_delete_orgs ?cs (x # rs) w =
      (if no_projects x (tables w) \<and> \<not> held cfg ''org'' (org_id x) (tables w)
       then hard_delete_orgs ?cs rs (hard_delete_org ?cs x w2) else hard_delete_orgs ?cs rs w2)" by blast
  have ff: "fault_free w2" "fault_free (hard_delete_org ?cs x w2)"
    using Cons.prems(1) w2(1) shrinks_fault_free hard_delete_org_shrinks by blast+
  show ?case
  proof (cases "no_projects x (tables w) \<and> \<not> held cfg ''org'' (org_id x) (tables w)")
    case True
    then have e: "hard_delete_orgs ?cs (x # rs) w = hard_delete_orgs ?cs rs (hard_delete_org ?cs x w2)" using w2(3) by simp
    show ?thesis
    proof (cases "org_id x = org_id r")
      case True
      have "org_id r \<notin> org_id ` set (orgs (tables (hard_delete_org ?cs x w2)))"
        using hard_delete_org_progress [OF ff(1), of x] w2(2) Cons.prems(3) True by (simp add: no_projects_def)
      with e hard_delete_orgs_shrinks [OF ff(2), of cfg rs] show ?thesis by (auto simp: shrinks_def)
    next
      case False
      with Cons.prems(2) have r: "r \<in> set rs" by auto
      have "no_projects r (tables (hard_delete_org ?cs x w2))"
        using Cons.prems(3) w2(2) no_projects_mono [OF _ hard_delete_org_shrinks] by simp
      moreover have "\<not> held cfg ''org'' (org_id r) (tables (hard_delete_org ?cs x w2))"
        using hard_delete_org_spares [of cfg x w2] True w2(2) Cons.prems(4) by (simp add: spares_def)
      ultimately show ?thesis using e Cons.IH [OF ff(2) r] by simp
    qed
  next
    case False
    with Cons.prems(3,4) have "org_id x \<noteq> org_id r" by (auto simp: no_projects_def)
    with Cons.prems(2) have "r \<in> set rs" by auto
    moreover have "hard_delete_orgs ?cs (x # rs) w = hard_delete_orgs ?cs rs w2"
      unfolding w2(3) using False by (rule if_not_P)
    ultimately show ?thesis using w2(2) Cons.IH [OF ff(1)] Cons.prems(3,4)
      by (simp del: hard_delete_orgs.simps)
  qed
qed

text \<open>The phases of one run of \<open>CleanupHardDelete\<close> when the driver reports no error.\<close>

lemma CleanupHardDelete_phases:
  assumes "fault_free w"
  obtains w1 w3 where "tables w1 = tables w" "fault_free w1" "fault_free w3"
    "tables w3 = tables (hard_delete_projects (ControllersForResource cfg ''project'')
        (filter (\<lambda>p. proj_deleted_at p \<noteq> None) (projects (tables w))) w1)"
    "CleanupHardDelete cfg w = (Inr (), hard_delete_orgs (ControllersForResource cfg ''org'')
        (filter (\<lambda>r. org_deleted_at r \<noteq> None) (orgs (tables w3))) w3)"
    "shrinks w3 (snd (CleanupHardDelete cfg w))"
proof -
  let ?w1 = "(tick w)\<lparr>tables := tables w\<rparr>"
  let ?w2 = "hard_delete_projects (ControllersForResource cfg ''project'')
        (filter (\<lambda>p. proj_deleted_at p \<noteq> None) (projects (tables w))) ?w1"
  let ?w3 = "(tick ?w2)\<lparr>tables := tables ?w2\<rparr>"
  have f1: "fault_free ?w1" using assms by (simp add: fault_free_def)
  then have f2: "fault_free ?w2" using shrinks_fault_free [OF hard_delete_projects_shrinks] by blast
  then have f3: "fault_free ?w3" by (simp add: fault_free_def)
  with f1 f2 assms hard_delete_orgs_shrinks [OF f3] show thesis
    by (intro that [of ?w1 ?w3]) (simp_all add: CleanupHardDelete_def in_db_ok select_def Let_def)
qed

lemma CleanupHardDelete_projects:
  assumes "fault_free w" and "p \<in> set (projects (tables w))" and "\<not> proj_active p"
    and "\<not> held cfg ''project'' (proj_id p) (tables w)"
  shows "proj_id p \<notin> proj_id ` set (projects (tables (snd (CleanupHardDelete cfg w))))"
proof -
  from assms(1) obtain w1 w3 where w: "tables w1 = tables w" "fault_free w1" "fault_free w3"
    "tables w3 = tables (hard_delete_projects (ControllersForResource cfg ''project'')
        (filter (\<lambda>p. proj_deleted_at p \<noteq> None) (projects (tables w))) w1)"
    "CleanupHardDelete cfg w = (Inr (), hard_delete_orgs (ControllersForResource cfg ''org'')
        (filter (\<lambda>r. org_deleted_at r \<noteq> None) (orgs (tables w3))) w3)"
    "shrinks w3 (snd (CleanupHardDelete cfg w))"
    by (rule CleanupHardDelete_phases)
  have "proj_id p \<notin> proj_id ` set (projects (tables w3))"
    unfolding w(4) by (rule hard_delete_projects_progress) (use w assms in auto)
  then show ?thesis using w(6) by (auto simp: shrinks_def)
qed

lemma org_gone_projects:
  assumes "wf_world w" and "r \<in> set (orgs (tables w))" and "\<not> org_active r"
    and "p \<in> set (projects (tables w))" and "has_org_with (tables w) (\<lambda>q. org_id q = org_id r) p"
  shows "\<not> proj_active p"
proof
  assume "proj_active p"
  with assms(1,4) have "has_org_with (tables w) org_active p"
    by (simp add: wf_world_def wf_db_def active_ok_def)
  then obtain f q where f: "f \<in> set (folders (tables w))" "folder_id f = proj_folder p"
    and q: "q \<in> set (orgs (tables w))" "org_id q = folder_org f" "org_active q"
    by (auto simp: has_org_with_def)
  from assms(5) obtain f' where f': "f' \<in> set (folders (tables w))" "folder_id f' = proj_folder p" "folder_org f' = org_id r"
    by (auto simp: has_org_with_def)
  have "f' = f" using f f' assms(1) distinct_map_unique [of folder_id "folders (tables w)" f' f]
    by (simp add: wf_world_def wf_db_def keys_ok_def)
  with q f' have "q = r"
    using distinct_map_unique [OF wf_world_keys(2) [OF assms(1)] q(1) assms(2)] by simp
  with q assms(3) show False by simp
qed

lemma CleanupHardDelete_org:
  assumes "fault_free w" and "wf_world w" and "r \<in> set (orgs (tables w))" and "\<not> org_active r"
    and "\<not> held cfg ''org'' (org_id r) (tables w)"
    and "\<forall>p \<in> set (projects (tables w)). has_org_with (tables w) (\<lambda>q. org_id q = org_id r) p \<longrightarrow>
           \<not> held cfg ''project'' (proj_id p) (tables w)"
  shows "org_id r \<notin> org_id ` set (orgs (tables (snd (CleanupHardDelete cfg w))))"
proof -
  from assms(1) obtain w1 w3 where w: "tables w1 = tables w" "fault_free w1" "fault_free w3"
    "tables w3 = tables (hard_delete_projects (ControllersForResource cfg ''project'')
        (filter (\<lambda>p. proj_deleted_at p \<noteq> None) (projects (tables w))) w1)"
    "CleanupHardDelete cfg w = (Inr (), hard_delete_orgs (ControllersForResource cfg ''org'')
        (filter (\<lambda>r. org_deleted_at r \<noteq> None) (orgs (tables w3))) w3)"
    "shrinks w3 (snd (CleanupHardDelete cfg w))"
    by (rule CleanupHardDelete_phases)
  let ?w2 = "hard_delete_projects (ControllersForResource cfg ''project'')
        (filter (\<lambda>p. proj_deleted_at p \<noteq> None) (projects (tables w))) w1"
  have sh: "shrinks w1 ?w2" and sp: "spares cfg w1 ?w2"
    by (rule hard_delete_projects_shrinks hard_delete_projects_spares)+
  have keys: "distinct (map org_id (orgs (tables w)))" using assms(2) by (simp add: wf_world_keys)
  have gone: "p \<notin> set (projects (tables ?w2))"
    if "p \<in> set (projects (tables w))" "has_org_with (tables w) (\<lambda>q. org_id q = org_id r) p" for p
  proof -
    have "\<not> proj_active p" by (rule org_gone_projects [OF assms(2-4) that])
    then have "proj_id p \<notin> proj_id ` set (projects (tables ?w2))"
      using that assms(6) w(1,2) by (intro hard_delete_projects_progress) auto
    then show ?thesis by blast
  qed
  have "no_projects r (tables w3)"
    unfolding no_projects_def w(4)
  proof (intro ballI notI)
    fix p assume p: "p \<in> set (projects (tables ?w2))"
      and "has_org_with (tables ?w2) (\<lambda>q. org_id q = org_id r) p"
    then have "has_org_with (tables w) (\<lambda>q. org_id q = org_id r) p"
      using sh w(1) by (auto simp: shrinks_def elim: has_org_with_mono)
    moreover have "p \<in> set (projects (tables w))" using p sh w(1) by (auto simp: shrinks_def)
    ultimately show False using p gone by blast
  qed
  moreover have "\<not> held cfg ''org'' (org_id r) (tables w3)"
    using sp w(1,4) assms(5) by (simp add: spares_def)
  moreover have "r \<in> set (filter (\<lambda>r. org_deleted_at r \<noteq> None) (orgs (tables w3)))"
    if "r \<in> set (orgs (tables w3))" using that assms(4) by simp
  ultimately have "r \<in> set (orgs (tables w3)) \<Longrightarrow> ?thesis"
    using w(5) hard_delete_orgs_progress [OF w(3)] by simp
  moreover have "?thesis" if "r \<notin> set (orgs (tables w3))"
  proof
    assume "org_id r \<in> org_id ` set (orgs (tables (snd (CleanupHardDelete cfg w))))"
    then obtain q where q: "org_id q = org_id r" "q \<in> set (orgs (tables w3))"
      using w(6) by (auto simp: shrinks_def)
    moreover have "q \<in> set (orgs (tables w))" using q(2) sh w(1,4) by (auto simp: shrinks_def)
    ultimately show False using that distinct_map_unique [OF keys _ assms(3)] by auto
  qed
  ultimately show ?thesis by blast
qed

section \<open>Properties\<close>

lemma filter_eq_mem: "filter P xs = filter P ys \<Longrightarrow> x \<in> set xs \<Longrightarrow> P x \<Longrightarrow> x \<in> set ys"
  using set_filter [of P xs] set_filter [of P ys] by auto

lemma cleanup_test_world:
  "\<not> held DefaultConfig rt i (tables (snd (DeleteOrg ''acme'' sample_tenant)))"
proof -
  have "statuses (tables (snd (DeleteOrg ''acme'' sample_tenant))) = []" by code_simp
  then show ?thesis by (simp add: held_def)
qed

text \<open>
  C10. Nothing is removed for good too early: a hard-delete pass, whatever the driver reports, keeps
  every project and org that is active or for which a registered controller still has a status
  row.
\<close>

theorem hard_delete_spares_held:
  assumes "wf_world w"
  shows "(\<forall>p \<in> set (projects (tables w)).
        proj_active p \<or> held cfg ''project'' (proj_id p) (tables w) \<longrightarrow>
        p \<in> set (projects (tables (snd (CleanupHardDelete cfg w))))) \<and>
    (\<forall>r \<in> set (orgs (tables w)).
        org_active r \<or> held cfg ''org'' (org_id r) (tables w) \<longrightarrow>
        r \<in> set (orgs (tables (snd (CleanupHardDelete cfg w)))))"
  using CleanupHardDelete_spares [of cfg w] CleanupHardDelete_silent [OF assms, of cfg]
  by (auto simp: spares_def silent_def dest: filter_eq_mem [OF sym])

theorem hard_delete_spares_held_witness:
  "projects (tables sample_tenant) \<noteq> [] \<and>
   set (projects (tables sample_tenant)) \<subseteq> set (projects (tables (snd (CleanupHardDelete DefaultConfig sample_tenant))))"
proof -
  have "projects (tables sample_tenant) \<noteq> []" "list_all proj_active (projects (tables sample_tenant))" by code_simp+
  with hard_delete_spares_held [OF sample_tenant_wf, of DefaultConfig] show ?thesis by (auto simp: list_all_iff)
qed

text \<open>
  C11. A deleted tenant is removed in the end: without driver faults one hard-delete pass removes a
  soft-deleted org, together with all its projects, as soon as no registered controller has a status row
  for the org or for one of its projects.
\<close>

theorem hard_delete_removes_released_org:
  assumes "fault_free w" and "wf_world w" and "r \<in> set (orgs (tables w))" and "\<not> org_active r"
    and "\<not> held cfg ''org'' (org_id r) (tables w)"
    and "\<forall>p \<in> set (projects (tables w)). has_org_with (tables w) (\<lambda>q. org_id q = org_id r) p \<longrightarrow>
           \<not> held cfg ''project'' (proj_id p) (tables w)"
    and "w' = snd (CleanupHardDelete cfg w)"
  shows "org_id r \<notin> org_id ` set (orgs (tables w')) \<and>
    (\<forall>p \<in> set (projects (tables w)). has_org_with (tables w) (\<lambda>q. org_id q = org_id r) p \<longrightarrow>
       proj_id p \<notin> proj_id ` set (projects (tables w')))"
proof -
  have "\<not> proj_active p" if "p \<in> set (projects (tables w))" "has_org_with (tables w) (\<lambda>q. org_id q = org_id r) p" for p
    by (rule org_gone_projects [OF assms(2-4) that])
  then show ?thesis unfolding assms(7)
    using CleanupHardDelete_org [OF assms(1-6)] CleanupHardDelete_projects [OF assms(1)] assms(6) by blast
qed

theorem hard_delete_removes_released_org_witness:
  "let w = snd (DeleteOrg ''acme'' sample_tenant); w' = snd (CleanupHardDelete DefaultConfig w)
   in orgs (tables w) \<noteq> [] \<and> org_id (hd (orgs (tables w))) \<notin> org_id ` set (orgs (tables w'))"
proof -
  let ?w = "snd (DeleteOrg ''acme'' sample_tenant)"
  have w: "orgs (tables ?w) \<noteq> []" "\<not> org_active (hd (orgs (tables ?w)))" by code_simp+
  have "fault_free ?w"
    using delete_org.keeps_env [OF sample_tenant_wf, of "''acme''"] sample_tenant_fault_free by (simp add: fault_free_def)
  moreover have "wf_world ?w" by (rule delete_org.preserves [OF sample_tenant_wf])
  ultimately show ?thesis
    using w hard_delete_removes_released_org [of ?w "hd (orgs (tables ?w))" DefaultConfig, OF _ _ _ _ _ _ refl] cleanup_test_world
    by (simp add: Let_def)
qed

end
