(* ===== verification/Tenancy_Auth.thy ===== *)
theory Tenancy_Auth
  imports Prelude
begin

text \<open>
  Requests, JWT validation, role parsing and org scopes of the Tenant Manager's REST API:
  tenancy-manager/internal/api/auth.go and the scope helpers of api.go.

  Code outside the repository is a parameter: \<open>uuid_lib\<close> is google/uuid (parsing and
  printing), \<open>jwt_lib\<close> is golang-jwt (decoding a token without trusting it, checking it
  against a key) and \<open>net\<close> is what the OIDC server answers, with the JSON and PEM codecs
  applied to its answers.
\<close>

section \<open>Requests\<close>

datatype json = JNull | JBool bool | JNum string | JStr string | JArr "json list" | JObj "(string \<times> json) list"

definition json_field :: "string \<Rightarrow> (string \<times> json) list \<Rightarrow> json option" where
  "json_field k fs = map_of (rev fs) k"

record AuthContext =
  Username :: string
  Roles :: "string list"
  OrgUUIDs :: "uuid list"
  OrgNames :: "string list"

text \<open>A request: method, path, the \<open>{name}\<close> or \<open>{id}\<close> parameter of the
  matched route, query values and headers (empty when absent), the body and the value
  \<open>AuthnMiddleware\<close> put into the context.  The path is the one that chi routes by: the raw path when the
  URL keeps one, else the decoded path.  The middlewares look at the decoded path, only for the prefixes /v1/orgs and
  /v1/projects, and only once a route has matched; a matching path starts literally with one of the two, and decoding
  keeps this prefix, so both paths give the same answer.\<close>

record request =
  r_method :: string
  r_path :: string
  r_param :: string
  r_query :: "string \<Rightarrow> string"
  r_header :: "string \<Rightarrow> string"
  r_body :: string
  r_auth :: "AuthContext option"

definition getAuthContext :: "request \<Rightarrow> AuthContext option" where
  "getAuthContext r = r_auth r"

section \<open>Roles\<close>

record uuid_lib =
  uuid_parse :: "string \<Rightarrow> uuid option"
  uuid_string :: "uuid \<Rightarrow> string"

text \<open>The class \<open>[a-f0-9-]\<close>; it does not contain the separator, so the greedy group
  ends at the first byte outside the class.\<close>

definition id_char :: "char \<Rightarrow> bool" where
  "id_char c \<longleftrightarrow> CHR ''a'' \<le> c \<and> c \<le> CHR ''f'' \<or> CHR ''0'' \<le> c \<and> c \<le> CHR ''9'' \<or> c = CHR ''-''"

definition projectRoleRegex :: "string \<Rightarrow> (string \<times> string) option" where
  "projectRoleRegex role =
     (let i = takeWhile id_char role; rest = dropWhile id_char role in
      if i = [] then None
      else if rest = ''_project-read-role'' then Some (i, ''read'')
      else if rest = ''_project-write-role'' then Some (i, ''write'')
      else if rest = ''_project-delete-role'' then Some (i, ''delete'')
      else None)"

definition memberRoleRegex :: "string \<Rightarrow> (string \<times> string \<times> string) option" where
  "memberRoleRegex role =
     (let i = takeWhile id_char role; rest = dropWhile id_char role in
      if i = [] then None
      else case rest of
             [] \<Rightarrow> None
           | c # rest' \<Rightarrow>
               if c \<noteq> CHR ''_'' then None
               else
                 let p = takeWhile id_char rest'; end = dropWhile id_char rest' in
                 if p = [] then None
                 else if end = ''_member-role'' then Some (i, p, ''member-role'')
                 else if end = ''_m'' then Some (i, p, ''m'')
                 else None)"

definition role_org :: "string \<Rightarrow> string option" where
  "role_org role =
     (case projectRoleRegex role of
        Some m \<Rightarrow> Some (fst m)
      | None \<Rightarrow> (case memberRoleRegex role of Some m \<Rightarrow> Some (fst m) | None \<Rightarrow> None))"

text \<open>The loop with its \<open>seen\<close> set and its result.\<close>

fun extract_loop :: "uuid_lib \<Rightarrow> string list \<Rightarrow> uuid set \<Rightarrow> uuid list \<Rightarrow> uuid list" where
  "extract_loop U [] seen result = result"
| "extract_loop U (role # roles) seen result =
     (case role_org role of
        None \<Rightarrow> extract_loop U roles seen result
      | Some idStr \<Rightarrow>
          (case uuid_parse U idStr of
             None \<Rightarrow> extract_loop U roles seen result
           | Some i \<Rightarrow>
               if i \<notin> seen then extract_loop U roles (insert i seen) (result @ [i])
               else extract_loop U roles seen result))"

definition extractOrgUUIDs :: "uuid_lib \<Rightarrow> string list \<Rightarrow> uuid list" where
  "extractOrgUUIDs U roles = extract_loop U roles {} []"

definition hasRole :: "string list \<Rightarrow> string \<Rightarrow> bool" where
  "hasRole roles target \<longleftrightarrow> list_ex (\<lambda>r. r = target) roles"

definition hasOrgScopedRole :: "uuid_lib \<Rightarrow> string list \<Rightarrow> uuid list \<Rightarrow> string \<Rightarrow> bool" where
  "hasOrgScopedRole U roles orgUUIDs roleSuffix \<longleftrightarrow>
     list_ex (\<lambda>orgID. hasRole roles (uuid_string U orgID @ ''_'' @ roleSuffix)) orgUUIDs"

definition hasMemberRole :: "uuid_lib \<Rightarrow> string list \<Rightarrow> uuid list \<Rightarrow> bool" where
  "hasMemberRole U roles orgUUIDs \<longleftrightarrow>
     list_ex (\<lambda>role.
       case memberRoleRegex role of
         None \<Rightarrow> False
       | Some m \<Rightarrow>
           (case uuid_parse U (fst m) of
              None \<Rightarrow> False
            | Some orgID \<Rightarrow> list_ex (\<lambda>allowed. orgID = allowed) orgUUIDs)) roles"

section \<open>Authorization\<close>

definition isOrgEndpoint :: "string \<Rightarrow> bool" where
  "isOrgEndpoint path \<longleftrightarrow> HasPrefix path ''/v1/orgs''"

definition isProjectEndpoint :: "string \<Rightarrow> bool" where
  "isProjectEndpoint path \<longleftrightarrow> HasPrefix path ''/v1/projects''"

definition checkOrgAuthz :: "string list \<Rightarrow> string \<Rightarrow> bool" where
  "checkOrgAuthz roles method =
     (if method = ''GET'' then hasRole roles ''org-read-role''
      else if method = ''PUT'' then hasRole roles ''org-write-role''
      else if method = ''DELETE'' then hasRole roles ''org-delete-role''
      else False)"

definition checkProjectAuthz :: "uuid_lib \<Rightarrow> string list \<Rightarrow> uuid list \<Rightarrow> string \<Rightarrow> bool" where
  "checkProjectAuthz U roles orgUUIDs method =
     (if method = ''GET'' then
        (if hasRole roles ''project-read-role'' then True
         else if hasOrgScopedRole U roles orgUUIDs ''project-read-role'' then True
         else hasMemberRole U roles orgUUIDs)
      else if method = ''PUT'' then
        hasRole roles ''project-write-role'' \<or> hasOrgScopedRole U roles orgUUIDs ''project-write-role''
      else if method = ''DELETE'' then
        hasRole roles ''project-delete-role'' \<or> hasOrgScopedRole U roles orgUUIDs ''project-delete-role''
      else False)"

text \<open>The decision of \<open>AuthzMiddleware\<close> for a caller.\<close>

definition authz_allowed :: "uuid_lib \<Rightarrow> AuthContext \<Rightarrow> string \<Rightarrow> string \<Rightarrow> bool" where
  "authz_allowed U ac path method =
     (if hasRole (Roles ac) ''admin'' then True
      else if isOrgEndpoint path then checkOrgAuthz (Roles ac) method
      else if isProjectEndpoint path then checkProjectAuthz U (Roles ac) (OrgUUIDs ac) method
      else False)"

section \<open>Org scopes\<close>

text \<open>\<open>None\<close> is Go's nil (no scope), \<open>Some []\<close> the empty slice (denied).\<close>

definition resolveOrgNames :: "request \<Rightarrow> string list option" where
  "resolveOrgNames r =
     (let ac = getAuthContext r; orgParam = r_query r ''org'' in
      if orgParam \<noteq> [] then
        (case ac of
           Some c \<Rightarrow>
             if hasRole (Roles c) ''admin'' then Some [orgParam]
             else if list_ex (\<lambda>name. name = orgParam) (OrgNames c) then Some [orgParam]
             else Some []
         | None \<Rightarrow> Some [orgParam])
      else
        (case ac of
           Some c \<Rightarrow> if OrgNames c \<noteq> [] then Some (OrgNames c) else None
         | None \<Rightarrow> None))"

definition resolveOrgNamesWithDefault :: "request \<Rightarrow> string \<Rightarrow> string list option" where
  "resolveOrgNamesWithDefault r defaultOrg =
     (case resolveOrgNames r of
        Some names \<Rightarrow> Some names
      | None \<Rightarrow> if defaultOrg \<noteq> [] then Some [defaultOrg] else None)"

definition isOrgScopeDenied :: "string list option \<Rightarrow> bool" where
  "isOrgScopeDenied orgNames \<longleftrightarrow> orgNames = Some []"

section \<open>Claims\<close>

type_synonym claims = "(string \<times> json) list"

definition json_string :: "json \<Rightarrow> string option" where
  "json_string j = (case j of JStr s \<Rightarrow> Some s | _ \<Rightarrow> None)"

definition extractRolesFromClaims :: "claims \<Rightarrow> string list" where
  "extractRolesFromClaims cl =
     (case json_field ''realm_access'' cl of
        Some (JObj realmAccess) \<Rightarrow>
          (case json_field ''roles'' realmAccess of
             Some (JArr roles) \<Rightarrow> List.map_filter json_string roles
           | _ \<Rightarrow> [])
      | _ \<Rightarrow> [])"

definition claim_username :: "claims \<Rightarrow> string" where
  "claim_username cl =
     (case json_field ''preferred_username'' cl of Some (JStr s) \<Rightarrow> s | _ \<Rightarrow> [])"

section \<open>JWT validation\<close>

record jwt_token =
  tok_alg :: string
  tok_header :: "(string \<times> json) list"

text \<open>golang-jwt: \<open>jwt_decode\<close> splits and decodes a token, \<open>jwt_check\<close> verifies
  its signature with a key and validates its registered claims, \<open>rsa_from_pem\<close> parses a
  public key.\<close>

record jwt_lib =
  jwt_decode :: "string \<Rightarrow> go_err + jwt_token \<times> claims"
  jwt_check :: "string \<Rightarrow> string \<Rightarrow> go_err option"
  rsa_from_pem :: "string \<Rightarrow> go_err + string"

text \<open>The OIDC server and the codecs of its documents: a GET gives an error or a status and
  the body, which can fail to be read.\<close>

record net =
  http_get :: "string \<Rightarrow> go_err + int \<times> (go_err + string)"
  json_provider :: "string \<Rightarrow> go_err + string"
  json_jwks :: "string \<Rightarrow> go_err + (string \<times> json) list"
  marshal_pkix :: "json \<Rightarrow> go_err + string"
  pem_encode :: "string \<Rightarrow> string"

record JWTValidator =
  oidcServerURL :: string
  publicKeys :: "string \<rightharpoonup> string"

definition maxJWKSBodyBytes :: nat where
  "maxJWKSBodyBytes = 1048576"

definition fetch :: "net \<Rightarrow> string \<Rightarrow> string \<Rightarrow> string \<Rightarrow> string \<Rightarrow> go_err + string" where
  "fetch N url getMsg statusMsg readMsg =
     (case http_get N url of
        Inl err \<Rightarrow> Inl (wrapf getMsg err)
      | Inr (code, body) \<Rightarrow>
          if code \<noteq> 200 then Inl (Errorf (statusMsg @ '' returned HTTP '' @ decimal_int code))
          else case body of
                 Inl err \<Rightarrow> Inl (wrapf readMsg err)
               | Inr b \<Rightarrow> Inr (take maxJWKSBodyBytes b))"

fun marshal_keys :: "net \<Rightarrow> (string \<times> json) list \<Rightarrow> (string \<rightharpoonup> string) \<Rightarrow> go_err + (string \<rightharpoonup> string)" where
  "marshal_keys N [] newKeys = Inr newKeys"
| "marshal_keys N ((kid, key) # keys) newKeys =
     (case marshal_pkix N key of
        Inl err \<Rightarrow> Inl (wrapf ''marshaling public key'' err)
      | Inr der \<Rightarrow> marshal_keys N keys (newKeys(kid \<mapsto> pem_encode N der)))"

definition refreshKeys :: "net \<Rightarrow> JWTValidator \<Rightarrow> (go_err + unit) \<times> JWTValidator" where
  "refreshKeys N v =
     (case fetch N (oidcServerURL v @ ''/.well-known/openid-configuration'')
              ''OIDC discovery failed'' ''OIDC discovery'' ''reading OIDC discovery response'' of
        Inl err \<Rightarrow> (Inl err, v)
      | Inr body \<Rightarrow>
     (case json_provider N body of
        Inl err \<Rightarrow> (Inl (wrapf ''parsing OIDC discovery'' err), v)
      | Inr jwksURL \<Rightarrow>
     (case fetch N jwksURL ''fetching JWKS'' ''JWKS endpoint'' ''reading JWKS response'' of
        Inl err \<Rightarrow> (Inl err, v)
      | Inr keysBody \<Rightarrow>
     (case json_jwks N keysBody of
        Inl err \<Rightarrow> (Inl (wrapf ''parsing JWKS'' err), v)
      | Inr keys \<Rightarrow>
     (case marshal_keys N keys Map.empty of
        Inl err \<Rightarrow> (Inl err, v)
      | Inr newKeys \<Rightarrow> (Inr (), v\<lparr>publicKeys := newKeys\<rparr>))))))"

definition NewJWTValidator :: "net \<Rightarrow> string \<Rightarrow> JWTValidator" where
  "NewJWTValidator N url = snd (refreshKeys N \<lparr>oidcServerURL = url, publicKeys = Map.empty\<rparr>)"

definition getKey :: "JWTValidator \<Rightarrow> string \<Rightarrow> string option" where
  "getKey v kid = publicKeys v kid"

text \<open>The key function passed to \<open>jwt.ParseWithClaims\<close>.\<close>

definition jwt_keyfunc :: "jwt_lib \<Rightarrow> net \<Rightarrow> jwt_token \<Rightarrow> JWTValidator \<Rightarrow> (go_err + string) \<times> JWTValidator" where
  "jwt_keyfunc J N tok v =
     (let alg = tok_alg tok in
      if HasPrefix alg ''RS'' \<or> HasPrefix alg ''PS'' then
        (case json_field ''kid'' (tok_header tok) of
           None \<Rightarrow> (Inl (Errorf ''token missing kid header''), v)
         | Some (JStr kid) \<Rightarrow>
             (case getKey v kid of
                Some pem \<Rightarrow> (rsa_from_pem J pem, v)
              | None \<Rightarrow>
                  (case refreshKeys N v of
                     (Inl err, v) \<Rightarrow> (Inl (wrapf ''failed to refresh JWKS'' err), v)
                   | (Inr _, v) \<Rightarrow>
                       (case getKey v kid of
                          None \<Rightarrow> (Inl (Errorf (''unknown key ID: '' @ kid)), v)
                        | Some pem \<Rightarrow> (rsa_from_pem J pem, v))))
         | Some _ \<Rightarrow> (Inl (Errorf ''token kid header is not a string''), v))
      else (Inl (Errorf (''unsupported signing algorithm '' @ quote alg @ '': only RS*/PS* are accepted'')), v))"

definition Validate :: "jwt_lib \<Rightarrow> net \<Rightarrow> string \<Rightarrow> JWTValidator \<Rightarrow> (go_err + claims) \<times> JWTValidator" where
  "Validate J N tokenString v =
     (case jwt_decode J tokenString of
        Inl err \<Rightarrow> (Inl err, v)
      | Inr (tok, cl) \<Rightarrow>
          (case jwt_keyfunc J N tok v of
             (Inl err, v) \<Rightarrow> (Inl err, v)
           | (Inr key, v) \<Rightarrow>
               (case jwt_check J tokenString key of
                  Some err \<Rightarrow> (Inl err, v)
                | None \<Rightarrow> (Inr cl, v))))"

text \<open>The \<open>Authorization\<close> header: the error message of a 401, or the token.\<close>

definition bearer_token :: "string \<Rightarrow> string + string" where
  "bearer_token authHeader =
     (if authHeader = [] then Inl ''missing Authorization header''
      else case SplitN2 authHeader (CHR '' '') of
             [scheme, tok] \<Rightarrow>
               if EqualFold scheme ''Bearer'' then Inr tok else Inl ''invalid Authorization header format''
           | _ \<Rightarrow> Inl ''invalid Authorization header format'')"

section \<open>Roles: the patterns and what the loop collects\<close>

lemma id_split:
  assumes "\<forall>c \<in> set i. id_char c" and "\<not> id_char d"
  shows "takeWhile id_char (i @ d # s) = i" "dropWhile id_char (i @ d # s) = d # s"
  using assms by (simp_all add: takeWhile_append2 dropWhile_append2)

lemma projectRoleRegex_iff:
  "projectRoleRegex role = Some (i, v) \<longleftrightarrow>
     i \<noteq> [] \<and> (\<forall>c \<in> set i. id_char c) \<and> v \<in> {''read'', ''write'', ''delete''} \<and>
     role = i @ ''_project-'' @ v @ ''-role''"
proof
  assume a: "projectRoleRegex role = Some (i, v)"
  then have i: "i = takeWhile id_char role" "i \<noteq> []" and v: "v \<in> {''read'', ''write'', ''delete''}"
    and d: "dropWhile id_char role = ''_project-'' @ v @ ''-role''"
    by (auto simp: projectRoleRegex_def Let_def split: if_splits)
  from i have "\<forall>c \<in> set i. id_char c" by (auto dest: set_takeWhileD)
  moreover have "role = i @ dropWhile id_char role" using i(1) by simp
  ultimately show "i \<noteq> [] \<and> (\<forall>c \<in> set i. id_char c) \<and> v \<in> {''read'', ''write'', ''delete''} \<and>
     role = i @ ''_project-'' @ v @ ''-role''" using i(2) v d by simp
next
  assume a: "i \<noteq> [] \<and> (\<forall>c \<in> set i. id_char c) \<and> v \<in> {''read'', ''write'', ''delete''} \<and>
     role = i @ ''_project-'' @ v @ ''-role''"
  have u: "\<not> id_char (CHR ''_'')" by (simp add: id_char_def less_eq_char_def)
  from a id_split [of i "CHR ''_''" "''project-'' @ v @ ''-role''"] u
  have "takeWhile id_char role = i" "dropWhile id_char role = ''_project-'' @ v @ ''-role''" by simp_all
  with a show "projectRoleRegex role = Some (i, v)"
    by (auto simp: projectRoleRegex_def Let_def)
qed

lemma memberRoleRegex_iff:
  "memberRoleRegex role = Some (i, p, e) \<longleftrightarrow>
     i \<noteq> [] \<and> (\<forall>c \<in> set i. id_char c) \<and> p \<noteq> [] \<and> (\<forall>c \<in> set p. id_char c) \<and>
     e \<in> {''member-role'', ''m''} \<and> role = i @ ''_'' @ p @ ''_'' @ e"
proof
  assume "memberRoleRegex role = Some (i, p, e)"
  then obtain r where i: "i = takeWhile id_char role" "i \<noteq> []" and r: "dropWhile id_char role = CHR ''_'' # r"
    and p: "p = takeWhile id_char r" "p \<noteq> []" and e: "dropWhile id_char r = ''_'' @ e" "e \<in> {''member-role'', ''m''}"
    by (auto simp: memberRoleRegex_def Let_def split: if_splits list.splits)
  have "role = i @ dropWhile id_char role" "r = p @ dropWhile id_char r" using i(1) p(1) by simp_all
  then have "role = i @ ''_'' @ p @ ''_'' @ e" using r e(1) by simp
  moreover have "\<forall>c \<in> set i. id_char c" "\<forall>c \<in> set p. id_char c" using i p by (auto dest: set_takeWhileD)
  ultimately show "i \<noteq> [] \<and> (\<forall>c \<in> set i. id_char c) \<and> p \<noteq> [] \<and> (\<forall>c \<in> set p. id_char c) \<and>
     e \<in> {''member-role'', ''m''} \<and> role = i @ ''_'' @ p @ ''_'' @ e" using i p e by simp
next
  assume a: "i \<noteq> [] \<and> (\<forall>c \<in> set i. id_char c) \<and> p \<noteq> [] \<and> (\<forall>c \<in> set p. id_char c) \<and>
     e \<in> {''member-role'', ''m''} \<and> role = i @ ''_'' @ p @ ''_'' @ e"
  have u: "\<not> id_char (CHR ''_'')" by (simp add: id_char_def less_eq_char_def)
  from a id_split [OF _ u, of i "p @ ''_'' @ e"] id_split [OF _ u, of p e] show "memberRoleRegex role = Some (i, p, e)"
    by (auto simp: memberRoleRegex_def Let_def)
qed

text \<open>The two forms of a role that names the org with the text \<open>i\<close>.\<close>

definition names_org :: "string \<Rightarrow> string \<Rightarrow> bool" where
  "names_org i role \<longleftrightarrow>
     i \<noteq> [] \<and> (\<forall>c \<in> set i. id_char c) \<and>
     ((\<exists>v \<in> {''read'', ''write'', ''delete''}. role = i @ ''_project-'' @ v @ ''-role'') \<or>
      (\<exists>p e. p \<noteq> [] \<and> (\<forall>c \<in> set p. id_char c) \<and> e \<in> {''member-role'', ''m''} \<and> role = i @ ''_'' @ p @ ''_'' @ e))"

lemma role_org_iff: "role_org role = Some i \<longleftrightarrow> names_org i role"
  unfolding names_org_def
proof -
  let ?A = "\<exists>v \<in> {''read'', ''write'', ''delete''}. role = i @ ''_project-'' @ v @ ''-role''"
  let ?B = "\<exists>p e. p \<noteq> [] \<and> (\<forall>c \<in> set p. id_char c) \<and> e \<in> {''member-role'', ''m''} \<and> role = i @ ''_'' @ p @ ''_'' @ e"
  let ?I = "i \<noteq> [] \<and> (\<forall>c \<in> set i. id_char c)"
  have P: "(\<exists>v. projectRoleRegex role = Some (i, v)) \<longleftrightarrow> ?I \<and> ?A"
    unfolding projectRoleRegex_iff Bex_def by (simp only: ex_simps conj_assoc)
  have M: "(\<exists>p e. memberRoleRegex role = Some (i, p, e)) \<longleftrightarrow> ?I \<and> ?B"
    unfolding memberRoleRegex_iff by (simp only: ex_simps conj_assoc)
  have "role_org role = Some i \<longleftrightarrow> (\<exists>v. projectRoleRegex role = Some (i, v)) \<or> (\<exists>p e. memberRoleRegex role = Some (i, p, e))"
  proof (cases "projectRoleRegex role")
    case None
    then show ?thesis by (auto simp: role_org_def split: option.split)
  next
    case (Some m)
    then have "i = fst m" if "memberRoleRegex role = Some (i, p, e)" for p e
      using that by (auto simp: projectRoleRegex_def memberRoleRegex_def Let_def split: if_splits list.splits)
    with Some show ?thesis by (cases m) (auto simp: role_org_def)
  qed
  then show "role_org role = Some i \<longleftrightarrow> i \<noteq> [] \<and> (\<forall>c \<in> set i. id_char c) \<and> (?A \<or> ?B)"
    unfolding P M by argo
qed

text \<open>The ids the loop finds.\<close>

definition role_uuid :: "uuid_lib \<Rightarrow> string \<Rightarrow> uuid option" where
  "role_uuid U role = Option.bind (role_org role) (uuid_parse U)"

lemma extract_loop_Cons:
  "extract_loop U (role # roles) seen result =
     (case role_uuid U role of
        None \<Rightarrow> extract_loop U roles seen result
      | Some u \<Rightarrow> if u \<notin> seen then extract_loop U roles (insert u seen) (result @ [u])
                  else extract_loop U roles seen result)"
  by (auto simp: role_uuid_def split: option.split)

lemma extract_loop_spec:
  assumes "set result = seen" and "distinct result"
  shows "distinct (extract_loop U roles seen result) \<and>
    set (extract_loop U roles seen result) = seen \<union> {u. \<exists>role \<in> set roles. role_uuid U role = Some u}"
  using assms
proof (induction roles arbitrary: seen result)
  case Nil
  then show ?case by simp
next
  case (Cons role roles)
  from Cons.IH [of result seen] Cons.prems Cons.IH [of "result @ [u]" "insert u seen" for u] show ?case
    unfolding extract_loop_Cons by (cases "role_uuid U role") (auto simp del: extract_loop.simps)
qed

lemma extractOrgUUIDs_spec:
  "distinct (extractOrgUUIDs U roles)"
  "u \<in> set (extractOrgUUIDs U roles) \<longleftrightarrow> (\<exists>role \<in> set roles. role_uuid U role = Some u)"
  using extract_loop_spec [of "[]" "{}" U roles] by (auto simp: extractOrgUUIDs_def)

lemma hasRole_iff: "hasRole roles t \<longleftrightarrow> t \<in> set roles"
  by (auto simp: hasRole_def list_ex_iff)

section \<open>Validation\<close>

lemma refreshKeys_error: "refreshKeys N v = (Inl e, v') \<Longrightarrow> v' = v"
  by (auto simp: refreshKeys_def split: sum.splits)

lemma marshal_keys_kids:
  "marshal_keys N keys m = Inr m' \<Longrightarrow> dom m' = dom m \<union> fst ` set keys"
  by (induction N keys m rule: marshal_keys.induct) (auto split: sum.splits)

lemma refreshKeys_url [simp]: "oidcServerURL (snd (refreshKeys N v)) = oidcServerURL v"
  by (auto simp: refreshKeys_def split: sum.split)

text \<open>An accepted token is signed with an asymmetric algorithm and checked against the key the
  validator holds for its key id after the call.\<close>

lemma jwt_keyfunc_Inr:
  assumes "jwt_keyfunc J N tok v = (Inr key, v')"
  shows "(HasPrefix (tok_alg tok) ''RS'' \<or> HasPrefix (tok_alg tok) ''PS'') \<and>
    (\<exists>kid pem. json_field ''kid'' (tok_header tok) = Some (JStr kid) \<and>
       getKey v' kid = Some pem \<and> rsa_from_pem J pem = Inr key)"
  using assms
  by (auto simp: jwt_keyfunc_def Let_def split: if_splits option.splits json.splits sum.splits prod.splits)

lemma Validate_Inr:
  assumes "Validate J N t v = (Inr cl, v')"
  shows "\<exists>tok kid pem key. jwt_decode J t = Inr (tok, cl) \<and>
    (HasPrefix (tok_alg tok) ''RS'' \<or> HasPrefix (tok_alg tok) ''PS'') \<and>
    json_field ''kid'' (tok_header tok) = Some (JStr kid) \<and> getKey v' kid = Some pem \<and>
    rsa_from_pem J pem = Inr key \<and> jwt_check J t key = None"
  using assms
  by (fastforce simp: Validate_def split: sum.splits prod.splits option.splits dest!: jwt_keyfunc_Inr)

section \<open>Properties\<close>

text \<open>
  The orgs of a caller are exactly those its realm roles name: \<open>extractOrgUUIDs\<close> lists,
  without repetition, the ids \<open>u\<close> whose text \<open>i\<close> (bytes of \<open>[a-f0-9-]\<close>)
  some role carries in one of the forms \<open>i_project-(read|write|delete)-role\<close> and
  \<open>i_p_(member-role|m)\<close>; any other role contributes nothing.
\<close>

theorem extractOrgUUIDs_exact:
  "distinct (extractOrgUUIDs U roles) \<and>
   set (extractOrgUUIDs U roles) = {u. \<exists>role \<in> set roles. \<exists>i. names_org i role \<and> uuid_parse U i = Some u}"
  using extractOrgUUIDs_spec [where U = U and roles = roles]
  by (auto simp: role_uuid_def bind_eq_Some_conv role_org_iff)

end
