(* ===== verification/Tenancy_Api.thy ===== *)
theory Tenancy_Api
  imports Tenancy_Auth Tenancy_Store Tenancy_Status Tenancy_Events Tenancy_Config
begin

text \<open>
  The REST API of the Tenant Manager, tenancy-manager/internal/api: the handlers of api.go, the
  response types of types.go, the middlewares of auth.go and the router that composes them.

  As in the source, the handlers know the store only through an interface: \<open>backend\<close> is
  \<open>storeBackend\<close>, over an arbitrary state \<open>'w\<close>; \<open>store_backend\<close> is the store
  of \<open>Tenancy_Store\<close>.  A handler takes the request and the state and gives the response
  and the state.  The JSON decoder is a parameter; the encoding of the response is not modelled.
\<close>

section \<open>The backend\<close>

record 'w backend =
  b_GetOrgNamesByUUIDs :: "uuid list \<Rightarrow> 'w \<Rightarrow> (go_err + (uuid \<rightharpoonup> string)) \<times> 'w"
  b_GetOrgIncludingDeleted :: "string \<Rightarrow> 'w \<Rightarrow> (go_err + org_row) \<times> 'w"
  b_GetProjectIncludingDeleted ::
    "string \<Rightarrow> string list option \<Rightarrow> 'w \<Rightarrow> (go_err + project_row \<times> org_row option) \<times> 'w"
  b_ListOrgs :: "'w \<Rightarrow> (go_err + org_row list) \<times> 'w"
  b_GetOrg :: "string \<Rightarrow> 'w \<Rightarrow> (go_err + org_row) \<times> 'w"
  b_CreateOrg :: "string \<Rightarrow> string \<Rightarrow> 'w \<Rightarrow> (go_err + org_row) \<times> 'w"
  b_UpdateOrg :: "string \<Rightarrow> string \<Rightarrow> 'w \<Rightarrow> (go_err + org_row) \<times> 'w"
  b_DeleteOrg :: "string \<Rightarrow> 'w \<Rightarrow> (go_err + unit) \<times> 'w"
  b_ListProjects :: "string list option \<Rightarrow> 'w \<Rightarrow> (go_err + project_node list) \<times> 'w"
  b_GetProject :: "string \<Rightarrow> string list option \<Rightarrow> 'w \<Rightarrow> (go_err + project_row \<times> org_row option) \<times> 'w"
  b_CreateProject :: "string \<Rightarrow> string \<Rightarrow> string \<Rightarrow> 'w \<Rightarrow> (go_err + project_row \<times> org_row) \<times> 'w"
  b_UpdateProject ::
    "string \<Rightarrow> string list option \<Rightarrow> string \<Rightarrow> 'w \<Rightarrow> (go_err + project_row \<times> org_row option) \<times> 'w"
  b_DeleteProject :: "string \<Rightarrow> string list option \<Rightarrow> 'w \<Rightarrow> (go_err + unit) \<times> 'w"
  b_GetProjectByID :: "uuid \<Rightarrow> 'w \<Rightarrow> (go_err + project_row \<times> org_row option) \<times> 'w"
  b_GetEventsAfter :: "int \<Rightarrow> int \<Rightarrow> 'w \<Rightarrow> (go_err + event_row list) \<times> 'w"
  b_SynthesizeReplayEvents :: "'w \<Rightarrow> (go_err + ReplayEvent list \<times> int) \<times> 'w"
  b_UpsertControllerStatus ::
    "string \<Rightarrow> string \<Rightarrow> uuid \<Rightarrow> string \<Rightarrow> string \<Rightarrow> 'w \<Rightarrow> (go_err + unit) \<times> 'w"
  b_DeleteControllerStatus :: "string \<Rightarrow> string \<Rightarrow> uuid \<Rightarrow> 'w \<Rightarrow> (go_err + unit) \<times> 'w"
  b_DeriveStatus :: "string \<Rightarrow> uuid \<Rightarrow> bool \<Rightarrow> string list \<Rightarrow> 'w \<Rightarrow> (string \<times> string) \<times> 'w"
  b_now :: "'w \<Rightarrow> instant \<times> 'w"

definition store_backend :: "world backend" where
  "store_backend =
     \<lparr>b_GetOrgNamesByUUIDs = GetOrgNamesByUUIDs,
      b_GetOrgIncludingDeleted = GetOrgIncludingDeleted,
      b_GetProjectIncludingDeleted = GetProjectIncludingDeleted,
      b_ListOrgs = ListOrgs, b_GetOrg = GetOrg, b_CreateOrg = CreateOrg, b_UpdateOrg = UpdateOrg,
      b_DeleteOrg = DeleteOrg, b_ListProjects = ListProjects, b_GetProject = GetProject,
      b_CreateProject = CreateProject, b_UpdateProject = UpdateProject,
      b_DeleteProject = DeleteProject, b_GetProjectByID = GetProjectByID,
      b_GetEventsAfter = GetEventsAfter, b_SynthesizeReplayEvents = SynthesizeReplayEvents,
      b_UpsertControllerStatus = UpsertControllerStatus,
      b_DeleteControllerStatus = DeleteControllerStatus, b_DeriveStatus = DeriveStatus,
      b_now = now\<rparr>"

section \<open>Responses\<close>

record StatusDetail =
  StatusIndicator :: string
  Message :: string
  TimeStamp :: int
  UID :: string

record OrgResponse =
  or_Name :: string
  or_Description :: string
  or_OrgStatus :: StatusDetail

record ProjectResponse =
  pr_Name :: string
  pr_OrgName :: string
  pr_Description :: string
  pr_ProjectStatus :: StatusDetail

record EventResponse =
  er_ID :: int
  er_EventType :: string
  er_ResourceType :: string
  er_ResourceID :: uuid
  er_ResourceName :: string
  er_OrgID :: "uuid option"
  er_OrgName :: "string option"
  er_FolderID :: "uuid option"
  er_CreatedAt :: instant

record EventsResponse =
  es_Events :: "EventResponse list"
  es_LastEventID :: int

datatype body =
    NoBody
  | ErrorBody string
  | OrgBody OrgResponse
  | OrgsBody "OrgResponse list"
  | ProjectBody ProjectResponse
  | ProjectsBody "ProjectResponse list"
  | EventsBody EventsResponse

type_synonym response = "int \<times> body"

definition writeError :: "int \<Rightarrow> string \<Rightarrow> response" where
  "writeError status msg = (status, ErrorBody msg)"

definition writeJSON :: "int \<Rightarrow> body \<Rightarrow> response" where
  "writeJSON status v = (status, v)"

text \<open>\<open>Time.Unix()\<close> of an instant in nanoseconds.\<close>

definition unix :: "instant \<Rightarrow> int" where
  "unix t = t div 1000000000"

definition toOrgResponse :: "uuid_lib \<Rightarrow> org_row \<Rightarrow> string \<times> string \<Rightarrow> OrgResponse" where
  "toOrgResponse U o' sm =
     \<lparr>or_Name = org_name o', or_Description = org_description o',
      or_OrgStatus = \<lparr>StatusIndicator = fst sm, Message = snd sm,
                      TimeStamp = unix (org_updated_at o'), UID = uuid_string U (org_id o')\<rparr>\<rparr>"

definition toProjectResponse :: "uuid_lib \<Rightarrow> project_row \<Rightarrow> string \<Rightarrow> string \<times> string \<Rightarrow> ProjectResponse" where
  "toProjectResponse U p orgName sm =
     \<lparr>pr_Name = proj_name p, pr_OrgName = orgName, pr_Description = proj_description p,
      pr_ProjectStatus = \<lparr>StatusIndicator = fst sm, Message = snd sm,
                          TimeStamp = unix (proj_updated_at p), UID = uuid_string U (proj_id p)\<rparr>\<rparr>"

section \<open>Bodies\<close>

record StatusUpdateRequest =
  su_Controller :: string
  su_ResourceType :: string
  su_ResourceID :: uuid
  su_Status :: string
  su_Message :: string

record StatusDeleteRequest =
  sd_Controller :: string
  sd_ResourceType :: string
  sd_ResourceID :: uuid

text \<open>\<open>json.NewDecoder(...).Decode\<close>: given the bytes that can be read and whether the
  size limit cut them off, it reports \<open>io.EOF\<close>, another error, or the value.\<close>

datatype 'a decoded = DecodeEOF | DecodeError | Decoded 'a

definition maxBodyBytes :: nat where
  "maxBodyBytes = 64 * 1024"

definition decodeBody :: "(string \<Rightarrow> bool \<Rightarrow> 'a decoded) \<Rightarrow> 'a \<Rightarrow> request \<Rightarrow> response + 'a" where
  "decodeBody dec zero r =
     (case dec (take maxBodyBytes (r_body r)) (length (r_body r) > maxBodyBytes) of
        DecodeEOF \<Rightarrow> Inr zero
      | DecodeError \<Rightarrow> Inl (writeError 400 ''invalid request body'')
      | Decoded v \<Rightarrow> Inr v)"

record decoders =
  dec_description :: "string \<Rightarrow> bool \<Rightarrow> string decoded"
  dec_update :: "string \<Rightarrow> bool \<Rightarrow> StatusUpdateRequest decoded"
  dec_delete :: "string \<Rightarrow> bool \<Rightarrow> StatusDeleteRequest decoded"

text \<open>The handler's dependencies: libraries, backend, configuration, the token of the internal
  endpoints.\<close>

record 'w Handler =
  h_uuid :: uuid_lib
  h_dec :: decoders
  h_store :: "'w backend"
  h_cfg :: Config
  h_internalToken :: string

abbreviation internal_error :: response where
  "internal_error \<equiv> writeError 500 ''internal server error''"

definition isAmbiguous :: "go_err \<Rightarrow> bool" where
  "isAmbiguous err \<longleftrightarrow> Contains (ToLower (err_text err)) ''ambiguous''"

definition opt_org_name :: "org_row option \<Rightarrow> string" where
  "opt_org_name o' = (case o' of None \<Rightarrow> [] | Some r \<Rightarrow> org_name r)"

section \<open>Org handlers\<close>

definition derive_org :: "'w Handler \<Rightarrow> bool \<Rightarrow> org_row \<Rightarrow> 'w \<Rightarrow> OrgResponse \<times> 'w" where
  "derive_org h isDeleted o' w =
     (case b_DeriveStatus (h_store h) ''org'' (org_id o') isDeleted
              (ControllersForResource (h_cfg h) ''org'') w of
        (sm, w) \<Rightarrow> (toOrgResponse (h_uuid h) o' sm, w))"

definition derive_project :: "'w Handler \<Rightarrow> bool \<Rightarrow> project_row \<Rightarrow> string \<Rightarrow> 'w \<Rightarrow> ProjectResponse \<times> 'w" where
  "derive_project h isDeleted p orgName w =
     (case b_DeriveStatus (h_store h) ''project'' (proj_id p) isDeleted
              (ControllersForResource (h_cfg h) ''project'') w of
        (sm, w) \<Rightarrow> (toProjectResponse (h_uuid h) p orgName sm, w))"

fun map_state :: "('a \<Rightarrow> 'w \<Rightarrow> 'b \<times> 'w) \<Rightarrow> 'a list \<Rightarrow> 'w \<Rightarrow> 'b list \<times> 'w" where
  "map_state f [] w = ([], w)"
| "map_state f (x # xs) w =
     (case f x w of (y, w) \<Rightarrow> (case map_state f xs w of (ys, w) \<Rightarrow> (y # ys, w)))"

definition ListOrgs_h :: "'w Handler \<Rightarrow> request \<Rightarrow> 'w \<Rightarrow> response \<times> 'w" where
  "ListOrgs_h h r w =
     (case b_ListOrgs (h_store h) w of
        (Inl err, w) \<Rightarrow> (internal_error, w)
      | (Inr os, w) \<Rightarrow>
          (case map_state (derive_org h False) os w of
             (result, w) \<Rightarrow> (writeJSON 200 (OrgsBody result), w)))"

definition GetOrg_h :: "'w Handler \<Rightarrow> request \<Rightarrow> 'w \<Rightarrow> response \<times> 'w" where
  "GetOrg_h h r w =
     (case b_GetOrg (h_store h) (r_param r) w of
        (Inl err, w) \<Rightarrow>
          (if IsNotFound err then writeError 404 ''org not found'' else internal_error, w)
      | (Inr o', w) \<Rightarrow>
          (case derive_org h False o' w of (resp, w) \<Rightarrow> (writeJSON 200 (OrgBody resp), w)))"

definition CreateOrUpdateOrg_h :: "'w Handler \<Rightarrow> request \<Rightarrow> 'w \<Rightarrow> response \<times> 'w" where
  "CreateOrUpdateOrg_h h r w =
     (let name = r_param r in
      case decodeBody (dec_description (h_dec h)) [] r of
        Inl resp \<Rightarrow> (resp, w)
      | Inr description \<Rightarrow>
     (let updateIfExists = r_query r ''update_if_exists'' \<noteq> ''false'' in
      case b_GetOrg (h_store h) name w of
        (Inr existing, w) \<Rightarrow>
          if \<not> updateIfExists then (writeError 409 ''org already exists'', w)
          else
            (case b_UpdateOrg (h_store h) name description w of
               (Inl err, w) \<Rightarrow> (internal_error, w)
             | (Inr updated, w) \<Rightarrow>
                 (case derive_org h False updated w of (resp, w) \<Rightarrow> (writeJSON 200 (OrgBody resp), w)))
      | (Inl err, w) \<Rightarrow>
          if \<not> IsNotFound err then (internal_error, w)
          else
            (case b_CreateOrg (h_store h) name description w of
               (Inl err, w) \<Rightarrow>
                 (if IsConstraintError err then writeError 409 ''org already exists'' else internal_error, w)
             | (Inr o', w) \<Rightarrow>
                 (case derive_org h False o' w of (resp, w) \<Rightarrow> (writeJSON 200 (OrgBody resp), w)))))"

definition DeleteOrg_h :: "'w Handler \<Rightarrow> request \<Rightarrow> 'w \<Rightarrow> response \<times> 'w" where
  "DeleteOrg_h h r w =
     (case b_DeleteOrg (h_store h) (r_param r) w of
        (Inl err, w) \<Rightarrow>
          (if IsNotFound err then writeError 404 ''org not found'' else internal_error, w)
      | (Inr _, w) \<Rightarrow> ((200, NoBody), w))"

definition GetOrgStatus_h :: "'w Handler \<Rightarrow> request \<Rightarrow> 'w \<Rightarrow> response \<times> 'w" where
  "GetOrgStatus_h h r w =
     (case b_GetOrgIncludingDeleted (h_store h) (r_param r) w of
        (Inl err, w) \<Rightarrow>
          (if IsNotFound err then writeError 404 ''org not found'' else internal_error, w)
      | (Inr o', w) \<Rightarrow>
          (case derive_org h (org_deleted_at o' \<noteq> None) o' w of
             (resp, w) \<Rightarrow> (writeJSON 200 (OrgBody resp), w)))"

section \<open>Project handlers\<close>

definition ListProjects_h :: "'w Handler \<Rightarrow> request \<Rightarrow> 'w \<Rightarrow> response \<times> 'w" where
  "ListProjects_h h r w =
     (let orgNames = resolveOrgNames r in
      if isOrgScopeDenied orgNames then (writeJSON 200 (ProjectsBody []), w)
      else
        (case b_ListProjects (h_store h) orgNames w of
           (Inl err, w) \<Rightarrow> (internal_error, w)
         | (Inr ps, w) \<Rightarrow>
             (case map_state (\<lambda>n. derive_project h False (fst n) (opt_org_name (node_org n))) ps w of
                (result, w) \<Rightarrow> (writeJSON 200 (ProjectsBody result), w))))"

text \<open>The common error branches of the project reads.\<close>

definition project_error :: "go_err \<Rightarrow> response" where
  "project_error err =
     (if IsNotFound err then writeError 404 ''project not found''
      else if isAmbiguous err then writeError 409 ''ambiguous project: specify ?org=name''
      else internal_error)"

definition GetProject_h :: "'w Handler \<Rightarrow> request \<Rightarrow> 'w \<Rightarrow> response \<times> 'w" where
  "GetProject_h h r w =
     (let orgNames = resolveOrgNames r in
      if isOrgScopeDenied orgNames then (writeError 404 ''project not found'', w)
      else
        (case b_GetProject (h_store h) (r_param r) orgNames w of
           (Inl err, w) \<Rightarrow> (project_error err, w)
         | (Inr (p, o'), w) \<Rightarrow>
             (case derive_project h False p (opt_org_name o') w of
                (resp, w) \<Rightarrow> (writeJSON 200 (ProjectBody resp), w))))"

definition CreateOrUpdateProject_h :: "'w Handler \<Rightarrow> request \<Rightarrow> 'w \<Rightarrow> response \<times> 'w" where
  "CreateOrUpdateProject_h h r w =
     (let name = r_param r; orgNames = resolveOrgNamesWithDefault r (DefaultOrgName (h_cfg h)) in
      if isOrgScopeDenied orgNames then (writeError 404 ''project not found'', w)
      else
      case decodeBody (dec_description (h_dec h)) [] r of
        Inl resp \<Rightarrow> (resp, w)
      | Inr description \<Rightarrow>
     (let updateIfExists = r_query r ''update_if_exists'' \<noteq> ''false'' in
      case b_GetProject (h_store h) name orgNames w of
        (Inr existing, w) \<Rightarrow>
          if \<not> updateIfExists then (writeError 409 ''project already exists'', w)
          else
            (case b_UpdateProject (h_store h) name orgNames description w of
               (Inl err, w) \<Rightarrow> (internal_error, w)
             | (Inr (updated, updatedOrg), w) \<Rightarrow>
                 (case derive_project h False updated (opt_org_name updatedOrg) w of
                    (resp, w) \<Rightarrow> (writeJSON 200 (ProjectBody resp), w)))
      | (Inl err, w) \<Rightarrow>
          if \<not> IsNotFound err then
            (if isAmbiguous err then writeError 409 (err_text err) else internal_error, w)
          else
            (case orgNames of
               None \<Rightarrow> (writeError 400 ''org must be specified for project creation (use ?org=name)'', w)
             | Some [] \<Rightarrow> (writeError 400 ''org must be specified for project creation (use ?org=name)'', w)
             | Some [orgName] \<Rightarrow>
                 (case b_CreateProject (h_store h) orgName name description w of
                    (Inl err, w) \<Rightarrow>
                      (if IsConstraintError err then writeError 409 ''project already exists'' else internal_error, w)
                  | (Inr (p, createdOrg), w) \<Rightarrow>
                      (case derive_project h False p (org_name createdOrg) w of
                         (resp, w) \<Rightarrow> (writeJSON 200 (ProjectBody resp), w)))
             | Some _ \<Rightarrow> (writeError 409 ''ambiguous org context: specify ?org=name'', w))))"

definition DeleteProject_h :: "'w Handler \<Rightarrow> request \<Rightarrow> 'w \<Rightarrow> response \<times> 'w" where
  "DeleteProject_h h r w =
     (let orgNames = resolveOrgNamesWithDefault r (DefaultOrgName (h_cfg h)) in
      if isOrgScopeDenied orgNames then (writeError 404 ''project not found'', w)
      else
        (case b_DeleteProject (h_store h) (r_param r) orgNames w of
           (Inl err, w) \<Rightarrow> (project_error err, w)
         | (Inr _, w) \<Rightarrow> ((200, NoBody), w)))"

definition GetProjectStatus_h :: "'w Handler \<Rightarrow> request \<Rightarrow> 'w \<Rightarrow> response \<times> 'w" where
  "GetProjectStatus_h h r w =
     (let orgNames = resolveOrgNames r in
      if isOrgScopeDenied orgNames then (writeError 404 ''project not found'', w)
      else
        (case b_GetProjectIncludingDeleted (h_store h) (r_param r) orgNames w of
           (Inl err, w) \<Rightarrow> (project_error err, w)
         | (Inr (p, o'), w) \<Rightarrow>
             (case derive_project h (proj_deleted_at p \<noteq> None) p (opt_org_name o') w of
                (resp, w) \<Rightarrow> (writeJSON 200 (ProjectBody resp), w))))"

definition GetProjectByID_h :: "'w Handler \<Rightarrow> request \<Rightarrow> 'w \<Rightarrow> response \<times> 'w" where
  "GetProjectByID_h h r w =
     (case uuid_parse (h_uuid h) (r_param r) of
        None \<Rightarrow> (writeError 400 ''invalid project id'', w)
      | Some i \<Rightarrow>
          (case b_GetProjectByID (h_store h) i w of
             (Inl err, w) \<Rightarrow>
               (if IsNotFound err then writeError 404 ''project not found'' else internal_error, w)
           | (Inr (p, o'), w) \<Rightarrow>
               (case derive_project h False p (opt_org_name o') w of
                  (resp, w) \<Rightarrow> (writeJSON 200 (ProjectBody resp), w))))"

section \<open>Event handlers\<close>

definition replay_response :: "ReplayEvent \<Rightarrow> instant \<Rightarrow> EventResponse" where
  "replay_response e t =
     \<lparr>er_ID = 0, er_EventType = re_EventType e, er_ResourceType = re_ResourceType e,
      er_ResourceID = re_ResourceID e, er_ResourceName = re_ResourceName e, er_OrgID = re_OrgID e,
      er_OrgName = re_OrgName e, er_FolderID = re_FolderID e, er_CreatedAt = t\<rparr>"

definition event_response :: "event_row \<Rightarrow> EventResponse" where
  "event_response e =
     \<lparr>er_ID = ev_id e, er_EventType = ev_type e, er_ResourceType = ev_resource_type e,
      er_ResourceID = ev_resource_id e, er_ResourceName = ev_resource_name e, er_OrgID = ev_org_id e,
      er_OrgName = ev_org_name e, er_FolderID = ev_folder_id e, er_CreatedAt = ev_created_at e\<rparr>"

definition event_page :: "int \<Rightarrow> event_row list \<Rightarrow> EventsResponse" where
  "event_page afterID es =
     foldl (\<lambda>resp e. resp\<lparr>es_Events := es_Events resp @ [event_response e], es_LastEventID := ev_id e\<rparr>)
       \<lparr>es_Events = [], es_LastEventID = afterID\<rparr> es"

text \<open>The two query values of incremental polling: \<open>Inl\<close> is the 400 response.\<close>

definition after_param :: "request \<Rightarrow> response + int" where
  "after_param r =
     (let afterStr = r_query r ''after'' in
      if afterStr = [] then Inr 0
      else case ParseInt afterStr of
             None \<Rightarrow> Inl (writeError 400 ''invalid after parameter: must be a non-negative integer'')
           | Some n \<Rightarrow>
               if n < 0 then Inl (writeError 400 ''invalid after parameter: must be a non-negative integer'')
               else Inr n)"

definition limit_param :: "request \<Rightarrow> response + int" where
  "limit_param r =
     (let limitStr = r_query r ''limit'' in
      if limitStr = [] then Inr 100
      else case ParseInt limitStr of
             None \<Rightarrow> Inl (writeError 400 ''invalid limit parameter: must be between 1 and 1000'')
           | Some n \<Rightarrow>
               if n \<le> 0 \<or> n > 1000
               then Inl (writeError 400 ''invalid limit parameter: must be between 1 and 1000'')
               else Inr n)"

definition GetEvents_h :: "'w Handler \<Rightarrow> request \<Rightarrow> 'w \<Rightarrow> response \<times> 'w" where
  "GetEvents_h h r w =
     (if r_query r ''controller'' = [] then (writeError 400 ''controller query parameter required'', w)
      else if r_query r ''replay'' = ''true'' then
        (case b_SynthesizeReplayEvents (h_store h) w of
           (Inl err, w) \<Rightarrow> (internal_error, w)
         | (Inr (es, maxID), w) \<Rightarrow>
             (case map_state (\<lambda>e w. case b_now (h_store h) w of (t, w) \<Rightarrow> (replay_response e t, w)) es w of
                (rs, w) \<Rightarrow> (writeJSON 200 (EventsBody \<lparr>es_Events = rs, es_LastEventID = maxID\<rparr>), w)))
      else
        (case after_param r of
           Inl resp \<Rightarrow> (resp, w)
         | Inr afterID \<Rightarrow>
        (case limit_param r of
           Inl resp \<Rightarrow> (resp, w)
         | Inr limit \<Rightarrow>
        (case b_GetEventsAfter (h_store h) afterID limit w of
           (Inl err, w) \<Rightarrow> (internal_error, w)
         | (Inr es, w) \<Rightarrow> (writeJSON 200 (EventsBody (event_page afterID es)), w)))))"

section \<open>Controller status handlers\<close>

definition UpdateControllerStatus_h :: "'w Handler \<Rightarrow> request \<Rightarrow> 'w \<Rightarrow> response \<times> 'w" where
  "UpdateControllerStatus_h h r w =
     (case decodeBody (dec_update (h_dec h))
             \<lparr>su_Controller = [], su_ResourceType = [], su_ResourceID = 0, su_Status = [], su_Message = []\<rparr> r of
        Inl resp \<Rightarrow> (resp, w)
      | Inr b \<Rightarrow>
          if su_Controller b = [] \<or> su_ResourceType b = [] \<or> su_ResourceID b = 0 \<or> su_Status b = []
          then (writeError 400 ''controller, resourceType, resourceId, and status are required'', w)
          else
            (case b_UpsertControllerStatus (h_store h) (su_Controller b) (su_ResourceType b)
                    (su_ResourceID b) (su_Status b) (su_Message b) w of
               (Inl err, w) \<Rightarrow> (internal_error, w)
             | (Inr _, w) \<Rightarrow> ((200, NoBody), w)))"

definition DeleteControllerStatus_h :: "'w Handler \<Rightarrow> request \<Rightarrow> 'w \<Rightarrow> response \<times> 'w" where
  "DeleteControllerStatus_h h r w =
     (case decodeBody (dec_delete (h_dec h))
             \<lparr>sd_Controller = [], sd_ResourceType = [], sd_ResourceID = 0\<rparr> r of
        Inl resp \<Rightarrow> (resp, w)
      | Inr b \<Rightarrow>
          if sd_Controller b = [] \<or> sd_ResourceType b = [] \<or> sd_ResourceID b = 0
          then (writeError 400 ''controller, resourceType, and resourceId are required'', w)
          else
            (case b_DeleteControllerStatus (h_store h) (sd_Controller b) (sd_ResourceType b)
                    (sd_ResourceID b) w of
               (Inl err, w) \<Rightarrow> (internal_error, w)
             | (Inr _, w) \<Rightarrow> ((200, NoBody), w)))"

section \<open>Middlewares\<close>

text \<open>The server's state: the backend's and the validator's (absent when authentication is
  disabled).\<close>

record 'w server =
  sv_world :: 'w
  sv_jwt :: "JWTValidator option"

type_synonym 'w endpoint = "request \<Rightarrow> 'w server \<Rightarrow> response \<times> 'w server"

definition on_world :: "(request \<Rightarrow> 'w \<Rightarrow> response \<times> 'w) \<Rightarrow> 'w endpoint" where
  "on_world f r s = (case f r (sv_world s) of (resp, w) \<Rightarrow> (resp, s\<lparr>sv_world := w\<rparr>))"

definition resolve_names ::
  "'w Handler \<Rightarrow> uuid list \<Rightarrow> 'w \<Rightarrow> string list \<times> 'w" where
  "resolve_names h orgUUIDs w =
     (if orgUUIDs = [] then ([], w)
      else case b_GetOrgNamesByUUIDs (h_store h) orgUUIDs w of
             (Inl err, w) \<Rightarrow> ([], w)
           | (Inr nameMap, w) \<Rightarrow> (List.map_filter nameMap orgUUIDs, w))"

definition AuthnMiddleware :: "jwt_lib \<Rightarrow> net \<Rightarrow> 'w Handler \<Rightarrow> JWTValidator \<Rightarrow> 'w endpoint \<Rightarrow> 'w endpoint" where
  "AuthnMiddleware J N h v next r s =
     (case bearer_token (r_header r ''Authorization'') of
        Inl msg \<Rightarrow> (writeError 401 msg, s)
      | Inr tok \<Rightarrow>
          (case Validate J N tok v of
             (Inl err, v) \<Rightarrow> (writeError 401 ''invalid or expired JWT'', s\<lparr>sv_jwt := Some v\<rparr>)
           | (Inr cl, v) \<Rightarrow>
               (let roles = extractRolesFromClaims cl;
                    orgUUIDs = extractOrgUUIDs (h_uuid h) roles
                in case resolve_names h orgUUIDs (sv_world s) of
                     (orgNames, w) \<Rightarrow>
                       next (r\<lparr>r_auth := Some \<lparr>Username = claim_username cl, Roles = roles,
                                             OrgUUIDs = orgUUIDs, OrgNames = orgNames\<rparr>\<rparr>)
                         (s\<lparr>sv_world := w, sv_jwt := Some v\<rparr>))))"

definition AuthzMiddleware :: "uuid_lib \<Rightarrow> 'w endpoint \<Rightarrow> 'w endpoint" where
  "AuthzMiddleware U next r s =
     (case getAuthContext r of
        None \<Rightarrow> (writeError 401 ''no auth context'', s)
      | Some ac \<Rightarrow>
          if \<not> authz_allowed U ac (r_path r) (r_method r)
          then (writeError 403 ''insufficient permissions'', s)
          else next r s)"

definition isOrgDeleted :: "'w Handler \<Rightarrow> string \<Rightarrow> 'w \<Rightarrow> bool \<times> 'w" where
  "isOrgDeleted h name w =
     (case b_GetOrgIncludingDeleted (h_store h) name w of
        (Inl err, w) \<Rightarrow> (False, w)
      | (Inr o', w) \<Rightarrow> (org_deleted_at o' \<noteq> None, w))"

definition isProjectDeleted :: "'w Handler \<Rightarrow> string \<Rightarrow> string list option \<Rightarrow> 'w \<Rightarrow> bool \<times> 'w" where
  "isProjectDeleted h name orgNames w =
     (case b_GetProjectIncludingDeleted (h_store h) name orgNames w of
        (Inl err, w) \<Rightarrow> (False, w)
      | (Inr (p, _), w) \<Rightarrow> (proj_deleted_at p \<noteq> None, w))"

abbreviation marked_for_delete :: response where
  "marked_for_delete \<equiv>
     writeError 400 ''Operation not supported. Requested resource is marked for delete.''"

definition DeletionCheckMiddleware :: "'w Handler \<Rightarrow> 'w endpoint \<Rightarrow> 'w endpoint" where
  "DeletionCheckMiddleware h next r s =
     (if r_method r = ''GET'' then next r s
      else if r_param r = [] then next r s
      else if isOrgEndpoint (r_path r) then
        (case isOrgDeleted h (r_param r) (sv_world s) of
           (True, w) \<Rightarrow> (marked_for_delete, s\<lparr>sv_world := w\<rparr>)
         | (False, w) \<Rightarrow> next r (s\<lparr>sv_world := w\<rparr>))
      else if isProjectEndpoint (r_path r) then
        (let orgNames = resolveOrgNames r in
         if isOrgScopeDenied orgNames then (writeError 404 ''project not found'', s)
         else
           (case isProjectDeleted h (r_param r) orgNames (sv_world s) of
              (True, w) \<Rightarrow> (marked_for_delete, s\<lparr>sv_world := w\<rparr>)
            | (False, w) \<Rightarrow> next r (s\<lparr>sv_world := w\<rparr>)))
      else next r s)"

definition InternalAuthMiddleware :: "string \<Rightarrow> 'w endpoint \<Rightarrow> 'w endpoint" where
  "InternalAuthMiddleware token next r s =
     (if token \<noteq> [] \<and> r_header r ''X-Internal-Token'' \<noteq> token
      then (writeError 401 ''unauthorized'', s)
      else next r s)"

section \<open>The router\<close>

text \<open>The two groups of routes.  A request arrives without a value of the private context key.  A path that no route has gives 404, a path whose routes have
  another method gives 405.\<close>

definition external_route :: "'w Handler \<Rightarrow> string \<Rightarrow> string list \<Rightarrow> (string \<times> (request \<Rightarrow> 'w \<Rightarrow> response \<times> 'w)) option" where
  "external_route h method segs =
     (case segs of
        [a, b] \<Rightarrow>
          if a = ''v1'' \<and> b = ''orgs'' \<and> method = ''GET'' then Some ([], ListOrgs_h h)
          else if a = ''v1'' \<and> b = ''projects'' \<and> method = ''GET'' then Some ([], ListProjects_h h)
          else None
      | [a, b, n] \<Rightarrow>
          if a = ''v1'' \<and> b = ''orgs'' \<and> n \<noteq> [] then
            (if method = ''GET'' then Some (n, GetOrg_h h)
             else if method = ''PUT'' then Some (n, CreateOrUpdateOrg_h h)
             else if method = ''DELETE'' then Some (n, DeleteOrg_h h)
             else None)
          else if a = ''v1'' \<and> b = ''projects'' \<and> n \<noteq> [] then
            (if method = ''GET'' then Some (n, GetProject_h h)
             else if method = ''PUT'' then Some (n, CreateOrUpdateProject_h h)
             else if method = ''DELETE'' then Some (n, DeleteProject_h h)
             else None)
          else None
      | [a, b, n, d] \<Rightarrow>
          if a = ''v1'' \<and> b = ''orgs'' \<and> n \<noteq> [] \<and> d = ''status'' \<and> method = ''GET''
          then Some (n, GetOrgStatus_h h)
          else if a = ''v1'' \<and> b = ''projects'' \<and> n \<noteq> [] \<and> d = ''status'' \<and> method = ''GET''
          then Some (n, GetProjectStatus_h h)
          else None
      | _ \<Rightarrow> None)"

definition internal_route :: "'w Handler \<Rightarrow> string \<Rightarrow> string list \<Rightarrow> (string \<times> (request \<Rightarrow> 'w \<Rightarrow> response \<times> 'w)) option" where
  "internal_route h method segs =
     (case segs of
        [a, b] \<Rightarrow>
          if a = ''v1'' \<and> b = ''events'' \<and> method = ''GET'' then Some ([], GetEvents_h h)
          else if a = ''v1'' \<and> b = ''status'' \<and> method = ''PUT'' then Some ([], UpdateControllerStatus_h h)
          else if a = ''v1'' \<and> b = ''status'' \<and> method = ''DELETE'' then Some ([], DeleteControllerStatus_h h)
          else None
      | [a, b, c, i] \<Rightarrow>
          if a = ''v1'' \<and> b = ''internal'' \<and> c = ''projects'' \<and> i \<noteq> [] \<and> method = ''GET''
          then Some (i, GetProjectByID_h h)
          else None
      | _ \<Rightarrow> None)"

definition known_path :: "'w Handler \<Rightarrow> string list \<Rightarrow> bool" where
  "known_path h segs \<longleftrightarrow>
     segs = [''healthz''] \<or>
     list_ex (\<lambda>m. external_route h m segs \<noteq> None \<or> internal_route h m segs \<noteq> None) [''GET'', ''PUT'', ''DELETE'']"

definition external_chain :: "jwt_lib \<Rightarrow> net \<Rightarrow> 'w Handler \<Rightarrow> 'w endpoint \<Rightarrow> 'w endpoint" where
  "external_chain J N h next r s =
     (case sv_jwt s of
        None \<Rightarrow> DeletionCheckMiddleware h next r s
      | Some v \<Rightarrow>
          AuthnMiddleware J N h v (AuthzMiddleware (h_uuid h) (DeletionCheckMiddleware h next)) r s)"

definition Router :: "jwt_lib \<Rightarrow> net \<Rightarrow> 'w Handler \<Rightarrow> 'w endpoint" where
  "Router J N h r s =
     (let segs = Split (drop 1 (r_path r)) (CHR ''/'') in
      if segs = [''healthz''] \<and> r_method r = ''GET'' then ((200, NoBody), s)
      else case external_route h (r_method r) segs of
             Some (n, f) \<Rightarrow> external_chain J N h (on_world f) (r\<lparr>r_param := n, r_auth := None\<rparr>) s
           | None \<Rightarrow>
               (case internal_route h (r_method r) segs of
                  Some (i, f) \<Rightarrow>
                    InternalAuthMiddleware (h_internalToken h) (on_world f) (r\<lparr>r_param := i, r_auth := None\<rparr>) s
                | None \<Rightarrow> if known_path h segs then ((405, NoBody), s) else ((404, NoBody), s)))"

end
