(* ===== verification/Tenancy_Backend.thy ===== *)
theory Tenancy_Backend
  imports Tenancy_Retention Tenancy_Api
begin

text \<open>
  The interface between the REST handlers and the store, \<open>storeBackend\<close> of
  tenancy-manager/internal/api/api.go, as a locale: what every method promises, what the handlers,
  the middlewares and the router guarantee on top of it, and the proof that the store provides it.
\<close>

section \<open>Contracts of the calls\<close>

text \<open>A read leaves the tables alone and its result satisfies \<open>Q\<close>; a mutation goes through
  its effect when it succeeds, and through all or none of it when it reports an error.\<close>

definition reads :: "('w \<Rightarrow> bool) \<Rightarrow> ('w \<Rightarrow> db) \<Rightarrow> ('w \<Rightarrow> (go_err + 'a) \<times> 'w) \<Rightarrow> ('a \<Rightarrow> db \<Rightarrow> bool) \<Rightarrow> bool" where
  "reads ok view op Q \<longleftrightarrow>
     (\<forall>w r w'. ok w \<longrightarrow> op w = (r, w') \<longrightarrow>
        ok w' \<and> view w' = view w \<and> (\<forall>a. r = Inr a \<longrightarrow> Q a (view w)))"

definition mutates ::
  "('w \<Rightarrow> bool) \<Rightarrow> ('w \<Rightarrow> db) \<Rightarrow> ('w \<Rightarrow> (go_err + 'a) \<times> 'w) \<Rightarrow> ('a \<Rightarrow> db \<Rightarrow> db \<Rightarrow> bool) \<Rightarrow> bool" where
  "mutates ok view op eff \<longleftrightarrow>
     (\<forall>w r w'. ok w \<longrightarrow> op w = (r, w') \<longrightarrow>
        ok w' \<and>
        (case r of
           Inl _ \<Rightarrow> view w' = view w \<or> (\<exists>a. eff a (view w) (view w'))
         | Inr a \<Rightarrow> eff a (view w) (view w')))"

definition observes :: "('w \<Rightarrow> bool) \<Rightarrow> ('w \<Rightarrow> db) \<Rightarrow> ('w \<Rightarrow> 'a \<times> 'w) \<Rightarrow> bool" where
  "observes ok view op \<longleftrightarrow> (\<forall>w a w'. ok w \<longrightarrow> op w = (a, w') \<longrightarrow> ok w' \<and> view w' = view w)"

definition scoped_result :: "string \<Rightarrow> string list option \<Rightarrow> project_row \<times> org_row option \<Rightarrow> db \<Rightarrow> bool" where
  "scoped_result n sc po d \<longleftrightarrow>
     fst po \<in> set (projects d) \<and> proj_name (fst po) = n \<and> sc \<noteq> Some [] \<and>
     snd po = node_org (with_folder d (fst po)) \<and>
     (\<forall>ns. sc = Some ns \<longrightarrow> has_org_with d (\<lambda>r. org_name r \<in> set ns) (fst po))"

definition scoped_list :: "string list option \<Rightarrow> project_node list \<Rightarrow> db \<Rightarrow> bool" where
  "scoped_list sc xs d \<longleftrightarrow>
     (\<forall>x \<in> set xs. \<exists>p \<in> set (projects d). x = with_folder d p \<and> proj_active p \<and>
        (\<forall>ns. sc = Some ns \<longrightarrow> has_org_with d (\<lambda>r. org_name r \<in> set ns) p))"

definition names_of :: "uuid list \<Rightarrow> (uuid \<rightharpoonup> string) \<Rightarrow> db \<Rightarrow> bool" where
  "names_of ids m d \<longleftrightarrow>
     (\<forall>i n. m i = Some n \<longrightarrow> i \<in> set ids \<and>
        (\<exists>r \<in> set (orgs d). org_id r = i \<and> org_name r = n \<and> org_active r))"

section \<open>The interface\<close>

locale tenancy_backend =
  fixes B :: "'w backend" and ok :: "'w \<Rightarrow> bool" and view :: "'w \<Rightarrow> db"
  assumes wf: "ok w \<Longrightarrow> wf_db (view w)"
    and names_law: "reads ok view (b_GetOrgNamesByUUIDs B ids) (names_of ids)"
    and org_any_law: "reads ok view (b_GetOrgIncludingDeleted B n) (\<lambda>r d. r \<in> set (orgs d) \<and> org_name r = n)"
    and project_any_law: "reads ok view (b_GetProjectIncludingDeleted B n sc) (scoped_result n sc)"
    and list_orgs_law: "reads ok view (b_ListOrgs B) (\<lambda>rs d. set rs \<subseteq> set (filter org_active (orgs d)))"
    and get_org_law: "reads ok view (b_GetOrg B n) (\<lambda>r d. r \<in> set (orgs d) \<and> org_name r = n \<and> org_active r)"
    and list_projects_law: "reads ok view (b_ListProjects B sc) (scoped_list sc)"
    and get_project_law: "reads ok view (b_GetProject B n sc) (\<lambda>po d. scoped_result n sc po d \<and> proj_active (fst po))"
    and by_id_law: "reads ok view (b_GetProjectByID B i) (\<lambda>po d. fst po \<in> set (projects d) \<and> proj_id (fst po) = i)"
    and events_law: "reads ok view (b_GetEventsAfter B a l) (\<lambda>es d. es = take (nat l) (filter (\<lambda>e. a < ev_id e) (events d)))"
    and replay_law: "reads ok view (b_SynthesizeReplayEvents B) (\<lambda>_ _. True)"
    and create_org_law: "mutates ok view (b_CreateOrg B n s) (create_org_eff n s)"
    and update_org_law: "mutates ok view (b_UpdateOrg B n s) (update_org_eff n s)"
    and delete_org_law: "mutates ok view (b_DeleteOrg B n) (delete_org_eff n)"
    and create_project_law: "mutates ok view (b_CreateProject B o' n s) (create_project_eff o' n s)"
    and update_project_law: "mutates ok view (b_UpdateProject B n sc s) (update_project_eff n sc s)"
    and delete_project_law: "mutates ok view (b_DeleteProject B n sc) (delete_project_eff n sc)"
    and upsert_inv: "ok w \<Longrightarrow> ok (snd (b_UpsertControllerStatus B c rt i st m w))"
    and delete_status_inv: "ok w \<Longrightarrow> ok (snd (b_DeleteControllerStatus B c rt i w))"
    and derive_law: "observes ok view (b_DeriveStatus B rt i del cs)"
    and now_law: "observes ok view (b_now B)"


section \<open>Isolation between orgs\<close>

definition outside :: "string list \<Rightarrow> db \<Rightarrow> project_row list" where
  "outside ns d = filter (\<lambda>p. \<not> has_org_with d (\<lambda>r. org_name r \<in> set ns) p) (projects d)"

definition isolates :: "string list \<Rightarrow> db \<Rightarrow> db \<Rightarrow> bool" where
  "isolates ns d d' \<longleftrightarrow>
     orgs d' = orgs d \<and> folders d' = folders d \<and> statuses d' = statuses d \<and> outside ns d' = outside ns d"

definition in_names :: "string list \<Rightarrow> response \<Rightarrow> bool" where
  "in_names ns resp \<longleftrightarrow>
     (case snd resp of
        ProjectBody b \<Rightarrow> pr_OrgName b \<in> set ns
      | ProjectsBody bs \<Rightarrow> \<forall>b \<in> set bs. pr_OrgName b \<in> set ns
      | OrgBody _ \<Rightarrow> False
      | OrgsBody _ \<Rightarrow> False
      | EventsBody _ \<Rightarrow> False
      | _ \<Rightarrow> True)"

lemma isolates_refl [simp]: "isolates ns d d"
  by (simp add: isolates_def)

lemma in_names_error [simp]: "in_names ns (writeError c m)"
  by (simp add: in_names_def writeError_def)

lemma in_place_isolates:
  assumes "orgs d' = orgs d" "folders d' = folders d" "statuses d' = statuses d"
    and "list_all2 (\<lambda>p p'. proj_folder p' = proj_folder p \<and>
           (p' = p \<or> has_org_with d (\<lambda>r. org_name r \<in> set ns) p)) (projects d) (projects d')"
  shows "isolates ns d d'"
proof -
  have "filter (\<lambda>p. \<not> has_org_with d' (\<lambda>r. org_name r \<in> set ns) p) ps'
      = filter (\<lambda>p. \<not> has_org_with d (\<lambda>r. org_name r \<in> set ns) p) ps"
    if "list_all2 (\<lambda>p p'. proj_folder p' = proj_folder p \<and>
           (p' = p \<or> has_org_with d (\<lambda>r. org_name r \<in> set ns) p)) ps ps'" for ps ps'
    using that assms(1,2) by (induction rule: list_all2_induct) (auto simp: has_org_with_def)
  with assms show ?thesis by (simp add: isolates_def outside_def)
qed

lemma selected_in_scope:
  "selects_only n (Some ns) d p \<Longrightarrow> ns \<noteq> [] \<Longrightarrow> has_org_with d (\<lambda>r. org_name r \<in> set ns) p"
  by (auto simp: selects_only_def selected_def in_scope_def has_org_with_def)

lemma update_project_isolates:
  assumes "update_project_eff n (Some ns) s po d d'" and "ns \<noteq> []" and "keys_ok d"
  shows "isolates ns d d'"
proof -
  from assms(1) obtain p :: project_row and u where c: "orgs d' = orgs d" "folders d' = folders d" "statuses d' = statuses d"
    "selects_only n (Some ns) d p"
    "projects d' = map (\<lambda>x. if proj_id x = proj_id p then x\<lparr>proj_description := s, proj_updated_at := u\<rparr> else x) (projects d)"
    unfolding update_project_eff_def by (elim exE conjE) (rule that; assumption)
  have "x = p" if "x \<in> set (projects d)" "proj_id x = proj_id p" for x
    using that c(4) assms(3) distinct_map_unique [of proj_id "projects d" x p]
    by (simp add: keys_ok_def selects_only_def selected_def)
  with c selected_in_scope [OF c(4) assms(2)] show ?thesis
    by (intro in_place_isolates) (auto simp: list_all2_map2 list_all2_same)
qed

lemma delete_project_isolates:
  assumes "delete_project_eff n (Some ns) a d d'" and "ns \<noteq> []" and "keys_ok d"
  shows "isolates ns d d'"
proof -
  from assms(1) obtain p :: project_row and t where c: "orgs d' = orgs d" "folders d' = folders d" "statuses d' = statuses d"
    "selects_only n (Some ns) d p" "list_all2 (soft_deleted t (\<lambda>q. proj_id q = proj_id p)) (projects d) (projects d')"
    unfolding delete_project_eff_def by (elim exE conjE) (rule that; assumption)
  have "x = p" if "x \<in> set (projects d)" "proj_id x = proj_id p" for x
    using that c(4) assms(3) distinct_map_unique [of proj_id "projects d" x p]
    by (simp add: keys_ok_def selects_only_def selected_def)
  with selected_in_scope [OF c(4) assms(2)]
  have "proj_folder x' = proj_folder x \<and> (x' = x \<or> has_org_with d (\<lambda>r. org_name r \<in> set ns) x)"
    if "x \<in> set (projects d)" "soft_deleted t (\<lambda>q. proj_id q = proj_id p) x x'" for x x'
    using that by (auto simp: soft_deleted_def split: if_splits)
  from list.rel_mono_strong [OF c(5) this] c(1-3) show ?thesis by (intro in_place_isolates) auto
qed

lemma create_project_isolates:
  assumes "create_project_eff o' n s po d d'" and "o' \<in> set ns"
  shows "isolates ns d d'"
proof -
  obtain p r where po: "po = (p, r)" by fastforce
  with assms(1) obtain f where c: "orgs d' = orgs d" "folders d' = folders d" "statuses d' = statuses d"
    "projects d' = projects d @ [p]" "r \<in> set (orgs d)" "org_name r = o'" "f \<in> set (folders d)"
    "folder_org f = org_id r" "proj_folder p = folder_id f"
    by (auto simp: create_project_eff_def)
  then have "has_org_with d' (\<lambda>r. org_name r \<in> set ns) p"
    using assms(2) unfolding has_org_with_def by (intro bexI [of _ f] conjI bexI [of _ r]) auto
  with c show ?thesis by (simp add: isolates_def outside_def has_org_with_def)
qed

text \<open>The org a project is loaded with is the org its folder hangs on.\<close>

lemma node_org_scope:
  assumes "wf_db d" and "has_org_with d (\<lambda>r. org_name r \<in> set ns) p"
  shows "opt_org_name (node_org (with_folder d p)) \<in> set ns"
proof -
  from assms(2) obtain f r where f: "f \<in> set (folders d)" "folder_id f = proj_folder p"
    and r: "r \<in> set (orgs d)" "org_id r = folder_org f" "org_name r \<in> set ns" by (auto simp: has_org_with_def)
  have "find (\<lambda>x. folder_id x = proj_folder p) (folders d) = Some f"
    using find_unique [of folder_id "folders d" f] f assms(1) by (simp add: wf_db_def keys_ok_def)
  moreover have "find (\<lambda>x. org_id x = folder_org f) (orgs d) = Some r"
    using find_unique [of org_id "orgs d" r] r assms(1) by (simp add: wf_db_def keys_ok_def)
  ultimately show ?thesis using r(3)
    by (simp add: with_folder_def load_folder_def load_org_def node_org_def opt_org_name_def)
qed

section \<open>What clients of the interface can rely on\<close>

context tenancy_backend
begin

lemma readD:
  "reads ok view op Q \<Longrightarrow> op w = (r, w') \<Longrightarrow> ok w \<Longrightarrow>
     ok w' \<and> view w' = view w \<and> (\<forall>a. r = Inr a \<longrightarrow> Q a (view w))"
  by (auto simp: reads_def)

lemma mutateD:
  "mutates ok view op eff \<Longrightarrow> op w = (r, w') \<Longrightarrow> ok w \<Longrightarrow>
     ok w' \<and> (view w' = view w \<or> (\<exists>a. eff a (view w) (view w'))) \<and> (\<forall>a. r = Inr a \<longrightarrow> eff a (view w) (view w'))"
  by (cases r) (auto simp: mutates_def)

lemma observeD: "observes ok view op \<Longrightarrow> op w = (a, w') \<Longrightarrow> ok w \<Longrightarrow> ok w' \<and> view w' = view w"
  by (auto simp: observes_def)

lemma map_state_observes:
  assumes "\<And>x. observes ok view (f x)"
  shows "observes ok view (map_state f xs)"
  unfolding observes_def
proof (intro allI impI)
  fix w ys w' assume "ok w" "map_state f xs w = (ys, w')"
  then show "ok w' \<and> view w' = view w"
  proof (induction xs arbitrary: w ys)
    case (Cons x xs)
    then show ?case using observeD [OF assms] by (auto split: prod.splits) metis+
  qed simp
qed

lemma derive_observes:
  assumes "h_store h = B"
  shows "observes ok view (derive_org h del r)" "observes ok view (derive_project h del p o')"
  using derive_law assms by (auto simp: observes_def derive_org_def derive_project_def split: prod.splits)

lemma derive_project_name: "derive_project h del p o' w = (resp, w') \<Longrightarrow> pr_OrgName resp = o'"
  by (auto simp: derive_project_def toProjectResponse_def split: prod.splits)

lemma derive_projects_names:
  "map_state (\<lambda>n. derive_project h del (fst n) (g n)) ns w = (resps, w') \<Longrightarrow> map pr_OrgName resps = map g ns"
  by (induction ns arbitrary: w resps) (auto split: prod.splits dest!: derive_project_name)

definition confined :: "string list \<Rightarrow> 'w \<Rightarrow> response \<times> 'w \<Rightarrow> bool" where
  "confined ns w res \<longleftrightarrow>
     ok (snd res) \<and> isolates ns (view w) (view (snd res)) \<and> in_names ns (fst res)"

lemma confined_same: "ok w' \<Longrightarrow> view w' = view w \<Longrightarrow> in_names ns resp \<Longrightarrow> confined ns w (resp, w')"
  by (simp add: confined_def)

lemma confined_error: "ok w' \<Longrightarrow> isolates ns (view w) (view w') \<Longrightarrow> confined ns w (writeError c m, w')"
  by (simp add: confined_def)

lemma confined_project:
  assumes "h_store h = B" and "ok w1" and "isolates ns (view w) (view w1)" and "o' \<in> set ns"
  shows "confined ns w (case derive_project h del p o' w1 of (resp, w) \<Rightarrow> (writeJSON 200 (ProjectBody resp), w))"
proof -
  obtain resp w2 where d: "derive_project h del p o' w1 = (resp, w2)" by fastforce
  from observeD [OF derive_observes(2) [OF assms(1)] d assms(2)] derive_project_name [OF d] d assms(3,4)
  show ?thesis by (simp add: confined_def in_names_def writeJSON_def)
qed

lemma ListProjects_confined:
  assumes "h_store h = B" and "ok w" and "resolveOrgNames r = Some ns"
  shows "confined ns w (ListProjects_h h r w)"
proof (cases "ns = []")
  case True
  with assms show ?thesis
    by (simp add: ListProjects_h_def isOrgScopeDenied_def confined_def in_names_def writeJSON_def)
next
  case False
  obtain res w1 where l: "b_ListProjects B (Some ns) w = (res, w1)" by fastforce
  note l' = readD [OF list_projects_law l assms(2)]
  show ?thesis
  proof (cases res)
    case (Inl e)
    with l l' False assms show ?thesis by (simp add: ListProjects_h_def isOrgScopeDenied_def confined_def)
  next
    case (Inr xs)
    let ?f = "\<lambda>n. derive_project h False (fst n) (opt_org_name (node_org n))"
    obtain rs w2 where m: "map_state ?f xs w1 = (rs, w2)" by fastforce
    have "observes ok view (map_state ?f xs)" by (rule map_state_observes) (rule derive_observes [OF assms(1)])
    from observeD [OF this m] l' have w2: "ok w2" "view w2 = view w" by simp_all
    have "\<forall>x \<in> set xs. opt_org_name (node_org x) \<in> set ns"
      using l' Inr node_org_scope [OF wf [OF assms(2)]] by (auto simp: scoped_list_def)
    then have "\<forall>b \<in> set rs. pr_OrgName b \<in> set ns"
      using derive_projects_names [OF m] by (metis (no_types, lifting) in_set_conv_nth length_map nth_map nth_mem)
    with w2 m l Inr False assms show ?thesis
      by (simp add: ListProjects_h_def isOrgScopeDenied_def confined_def in_names_def writeJSON_def)
  qed
qed

lemma GetProject_confined:
  assumes "h_store h = B" and "ok w" and "resolveOrgNames r = Some ns"
  shows "confined ns w (GetProject_h h r w)" "confined ns w (GetProjectStatus_h h r w)"
proof -
  obtain r1 w1 where g: "b_GetProject B (r_param r) (Some ns) w = (r1, w1)" by fastforce
  note g' = readD [OF get_project_law g assms(2)]
  obtain r2 w2 where i: "b_GetProjectIncludingDeleted B (r_param r) (Some ns) w = (r2, w2)" by fastforce
  note i' = readD [OF project_any_law i assms(2)]
  have n: "snd po = node_org (with_folder (view w) (fst po)) \<and> opt_org_name (snd po) \<in> set ns"
    if "scoped_result n (Some ns) po (view w)" for po n
    using that node_org_scope [OF wf [OF assms(2)]] by (simp add: scoped_result_def)
  show "confined ns w (GetProject_h h r w)"
    using assms g g' n
    by (cases r1) (auto simp: GetProject_h_def Let_def isOrgScopeDenied_def project_error_def
        intro!: confined_same confined_project)
  show "confined ns w (GetProjectStatus_h h r w)"
    using assms i i' n
    by (cases r2) (auto simp: GetProjectStatus_h_def Let_def isOrgScopeDenied_def project_error_def
        intro!: confined_same confined_project)
qed

lemma resolve_default: "resolveOrgNames r = Some ns \<Longrightarrow> resolveOrgNamesWithDefault r d = Some ns"
  by (simp add: resolveOrgNamesWithDefault_def)

lemma DeleteProject_confined:
  assumes "h_store h = B" and "ok w" and "resolveOrgNames r = Some ns"
  shows "confined ns w (DeleteProject_h h r w)"
proof (cases "ns = []")
  case True
  with assms show ?thesis
    by (simp add: DeleteProject_h_def resolve_default isOrgScopeDenied_def confined_def)
next
  case False
  obtain r1 w1 where d: "b_DeleteProject B (r_param r) (Some ns) w = (r1, w1)" by fastforce
  note d' = mutateD [OF delete_project_law d assms(2)]
  have "keys_ok (view w)" using wf [OF assms(2)] by (simp add: wf_db_def)
  then have "isolates ns (view w) (view w1)"
    using d' delete_project_isolates False by auto
  with d d' False assms show ?thesis
    by (cases r1) (auto simp: DeleteProject_h_def resolve_default isOrgScopeDenied_def project_error_def confined_def
        in_names_def writeError_def)
qed

lemma CreateOrUpdateProject_confined:
  assumes "h_store h = B" and "ok w" and "resolveOrgNames r = Some ns"
  shows "confined ns w (CreateOrUpdateProject_h h r w)"
proof (cases "ns = []")
  case True
  with assms show ?thesis
    by (simp add: CreateOrUpdateProject_h_def resolve_default isOrgScopeDenied_def confined_def)
next
  case False
  show ?thesis
  proof (cases "decodeBody (dec_description (h_dec h)) [] r")
    case (Inl resp)
    then have "in_names ns resp" by (auto simp: decodeBody_def split: decoded.splits)
    with Inl False assms show ?thesis
      by (simp add: CreateOrUpdateProject_h_def resolve_default isOrgScopeDenied_def confined_def)
  next
    case (Inr s)
    obtain r1 w1 where g: "b_GetProject B (r_param r) (Some ns) w = (r1, w1)" by fastforce
    note g' = readD [OF get_project_law g assms(2)]
    obtain r2 w2 where u: "b_UpdateProject B (r_param r) (Some ns) s w1 = (r2, w2)" by fastforce
    note u' = mutateD [OF update_project_law u conjunct1 [OF g']]
    obtain r3 w3 where c: "b_CreateProject B (hd ns) (r_param r) s w1 = (r3, w3)" by fastforce
    note c' = mutateD [OF create_project_law c conjunct1 [OF g']]
    have k: "keys_ok (view w)" using wf [OF assms(2)] by (simp add: wf_db_def)
    have u1: "isolates ns (view w) (view w2)" using u' g' update_project_isolates [OF _ False k] by auto
    have u2: "opt_org_name (snd po) \<in> set ns" if "r2 = Inr po" for po
    proof -
      from that u' g' have "update_project_eff (r_param r) (Some ns) s po (view w) (view w2)" by simp
      then obtain p where "selects_only (r_param r) (Some ns) (view w) p" "snd po = node_org (with_folder (view w) p)"
        unfolding update_project_eff_def by auto
      with selected_in_scope [OF _ False] node_org_scope [OF wf [OF assms(2)]] show ?thesis by metis
    qed
    have c1: "isolates ns (view w) (view w3)" if "ns = [o']" for o'
      using that c' g' create_project_isolates [of "hd ns" _ _ _ "view w" "view w3" ns] by auto
    have c2: "org_name (snd po) = hd ns" if "r3 = Inr po" for po
      using that c' by (auto simp: create_project_eff_def split: prod.splits)
    have uc: "confined ns w (case (r2, w2) of (Inl err, w) \<Rightarrow> (internal_error, w)
        | (Inr (updated, updatedOrg), w) \<Rightarrow>
            (case derive_project h False updated (opt_org_name updatedOrg) w of
               (resp, w) \<Rightarrow> (writeJSON 200 (ProjectBody resp), w)))"
      using u' u1 u2 by (cases r2) (auto intro!: confined_error confined_project [OF assms(1)])
    have cc: "confined ns w (case (r3, w3) of (Inl err, w) \<Rightarrow>
          (if IsConstraintError err then writeError 409 ''project already exists'' else internal_error, w)
        | (Inr (p, createdOrg), w) \<Rightarrow>
            (case derive_project h False p (org_name createdOrg) w of
               (resp, w) \<Rightarrow> (writeJSON 200 (ProjectBody resp), w)))" if "ns = [o']" for o'
      using c' c1 [OF that] c2 that by (cases r3) (auto intro!: confined_error confined_project [OF assms(1)])
    have e: "confined ns w (writeError code m, w1)" for code m using g' by (simp add: confined_error)
    show ?thesis
    proof (cases r1)
      case (Inr existing)
      with \<open>decodeBody _ _ r = Inr s\<close> False assms(1,3) g u uc e show ?thesis
        by (simp add: CreateOrUpdateProject_h_def resolve_default isOrgScopeDenied_def)
    next
      case (Inl err)
      with \<open>decodeBody _ _ r = Inr s\<close> False assms(1,3) g c cc e show ?thesis
        by (auto simp: CreateOrUpdateProject_h_def resolve_default isOrgScopeDenied_def split: list.split)
    qed
  qed
qed

end

section \<open>Every request keeps the invariant, and a GET changes nothing\<close>

lemma step_pred:
  assumes "P (snd m)" and "\<And>e w1. m = (Inl e, w1) \<Longrightarrow> P w1 \<Longrightarrow> P (snd (A e w1))"
    and "\<And>a w1. m = (Inr a, w1) \<Longrightarrow> P w1 \<Longrightarrow> P (snd (B a w1))"
  shows "P (snd (case m of (Inl e, w1) \<Rightarrow> A e w1 | (Inr a, w1) \<Rightarrow> B a w1))"
    and "P (snd (case m of (Inr a, w1) \<Rightarrow> B a w1 | (Inl e, w1) \<Rightarrow> A e w1))"
  using assms by (cases m; auto split: sum.split)+

lemma step_pair: "P (snd m) \<Longrightarrow> (\<And>a w1. m = (a, w1) \<Longrightarrow> P w1 \<Longrightarrow> P (snd (B a w1))) \<Longrightarrow>
    P (snd (case m of (a, w1) \<Rightarrow> B a w1))"
  by (cases m) auto

lemma step_if: "(c \<Longrightarrow> P (snd a)) \<Longrightarrow> (\<not> c \<Longrightarrow> P (snd b)) \<Longrightarrow> P (snd (if c then a else b))"
  by simp

lemma step_opt: "P (snd a) \<Longrightarrow> (\<And>x. P (snd (b x))) \<Longrightarrow> P (snd (case m of None \<Rightarrow> a | Some x \<Rightarrow> b x))"
  by (cases m) auto

lemma step_sum: "(\<And>x. P (snd (a x))) \<Longrightarrow> (\<And>x. P (snd (b x))) \<Longrightarrow> P (snd (case m of Inl x \<Rightarrow> a x | Inr x \<Rightarrow> b x))"
  by (cases m) auto

lemma step_result:
  fixes po :: "project_row \<times> 'o" and ri :: "ReplayEvent list \<times> int"
  shows "(\<And>x y. P (snd (b x y))) \<Longrightarrow> P (snd (case po of (x, y) \<Rightarrow> b x y))"
    and "(\<And>x y. P (snd (c x y))) \<Longrightarrow> P (snd (case ri of (x, y) \<Rightarrow> c x y))"
  by (cases po; cases ri; simp)+

lemma step_list:
  "P (snd a) \<Longrightarrow> (\<And>x. P (snd (b x))) \<Longrightarrow> P (snd c) \<Longrightarrow> P (snd (case l of [] \<Rightarrow> a | [x] \<Rightarrow> b x | _ \<Rightarrow> c))"
  by (auto split: list.split)

lemma step_scope:
  "P (snd a) \<Longrightarrow> P (snd a) \<Longrightarrow> (\<And>x. P (snd (b x))) \<Longrightarrow> P (snd c) \<Longrightarrow>
     P (snd (case l of None \<Rightarrow> a | Some [] \<Rightarrow> a | Some [x] \<Rightarrow> b x | Some _ \<Rightarrow> c))"
  by (auto split: list.split option.split)

context tenancy_backend
begin

definition stays :: "db \<Rightarrow> 'w \<Rightarrow> bool" where
  "stays v w \<longleftrightarrow> ok w \<and> view w = v"

lemma reads_stays: "reads ok view op Q \<Longrightarrow> stays v w \<Longrightarrow> stays v (snd (op w))"
  by (cases "op w") (auto simp: reads_def stays_def)

lemma observes_stays: "observes ok view op \<Longrightarrow> stays v w \<Longrightarrow> stays v (snd (op w))"
  by (cases "op w") (auto simp: observes_def stays_def)

lemma mutates_ok: "mutates ok view op eff \<Longrightarrow> ok w \<Longrightarrow> ok (snd (op w))"
  by (cases "op w") (auto simp: mutates_def)

lemma reads_ok: "reads ok view op Q \<Longrightarrow> ok w \<Longrightarrow> ok (snd (op w))"
  by (cases "op w") (auto simp: reads_def)

lemma observes_ok: "observes ok view op \<Longrightarrow> ok w \<Longrightarrow> ok (snd (op w))"
  by (cases "op w") (auto simp: observes_def)

lemmas stay_rules = step_pred [where P = "stays v" for v] step_pair [where P = "stays v" for v]
  step_if [where P = "stays v" for v] step_opt [where P = "stays v" for v] step_sum [where P = "stays v" for v]
  step_result [where P = "stays v" for v]
lemmas ok_rules = step_pred [where P = ok] step_pair [where P = ok] step_if [where P = ok]
  step_opt [where P = ok] step_sum [where P = ok] step_scope [where P = ok]
  step_result [where P = ok]

lemma now_observes:
  assumes "h_store h = B"
  shows "observes ok view (\<lambda>w. case b_now (h_store h) w of (t, w) \<Rightarrow> (replay_response e t, w))"
  using now_law assms by (auto simp: observes_def split: prod.splits)

lemma get_handlers_stay:
  assumes "h_store h = B" and "stays v w"
  shows "stays v (snd (ListOrgs_h h r w))" "stays v (snd (GetOrg_h h r w))" "stays v (snd (GetOrgStatus_h h r w))"
    "stays v (snd (ListProjects_h h r w))" "stays v (snd (GetProject_h h r w))"
    "stays v (snd (GetProjectStatus_h h r w))" "stays v (snd (GetProjectByID_h h r w))"
    "stays v (snd (GetEvents_h h r w))"
  unfolding ListOrgs_h_def GetOrg_h_def GetOrgStatus_h_def ListProjects_h_def GetProject_h_def
    GetProjectStatus_h_def GetProjectByID_h_def GetEvents_h_def Let_def assms(1)
  by ((intro stay_rules | intro reads_stays [OF list_orgs_law] reads_stays [OF get_org_law]
        reads_stays [OF org_any_law] reads_stays [OF list_projects_law] reads_stays [OF get_project_law]
        reads_stays [OF project_any_law] reads_stays [OF by_id_law] reads_stays [OF events_law]
        reads_stays [OF replay_law] observes_stays [OF map_state_observes] observes_stays [OF derive_observes(1) [OF assms(1)]]
        observes_stays [OF derive_observes(2) [OF assms(1)]] derive_observes [OF assms(1)]
        now_observes [OF assms(1), unfolded assms(1)]); (simp add: assms)?)+

lemma stays_self: "ok w \<Longrightarrow> stays (view w) w"
  by (simp add: stays_def)

lemma stays_ok: "stays v w \<Longrightarrow> ok w"
  by (simp add: stays_def)

lemma put_handlers_ok:
  assumes "h_store h = B" and "ok w"
  shows "ok (snd (CreateOrUpdateOrg_h h r w))" "ok (snd (DeleteOrg_h h r w))"
    "ok (snd (CreateOrUpdateProject_h h r w))" "ok (snd (DeleteProject_h h r w))"
    "ok (snd (UpdateControllerStatus_h h r w))" "ok (snd (DeleteControllerStatus_h h r w))"
  unfolding CreateOrUpdateOrg_h_def DeleteOrg_h_def CreateOrUpdateProject_h_def DeleteProject_h_def
    UpdateControllerStatus_h_def DeleteControllerStatus_h_def Let_def assms(1)
  by ((intro ok_rules | intro reads_ok [OF get_org_law] reads_ok [OF get_project_law] mutates_ok [OF create_org_law]
        mutates_ok [OF update_org_law] mutates_ok [OF delete_org_law] mutates_ok [OF create_project_law]
        mutates_ok [OF update_project_law] mutates_ok [OF delete_project_law] upsert_inv delete_status_inv
        observes_ok [OF derive_observes(1) [OF assms(1)]] observes_ok [OF derive_observes(2) [OF assms(1)]]);
      (simp add: assms)?)+

end

section \<open>Through the router\<close>

lemma on_world_pred: "P (snd (f r (sv_world s))) \<Longrightarrow> P (sv_world (snd (on_world f r s)))"
  by (cases "f r (sv_world s)") (simp add: on_world_def)

text \<open>A predicate on the backend's state that the handler and the look-ups of the middlewares
  keep is kept by the whole chain.\<close>

lemma external_chain_pred:
  assumes "P (sv_world s)"
    and names: "\<And>ids w. P w \<Longrightarrow> P (snd (resolve_names h ids w))"
    and org: "\<And>n w. P w \<Longrightarrow> P (snd (isOrgDeleted h n w))"
    and proj: "\<And>n sc w. P w \<Longrightarrow> P (snd (isProjectDeleted h n sc w))"
    and f: "\<And>r w. P w \<Longrightarrow> P (snd (f r w))"
  shows "P (sv_world (snd (external_chain J N h (on_world f) r s)))"
proof -
  have del: "P (sv_world (snd (DeletionCheckMiddleware h (on_world f) r s)))" if "P (sv_world s)" for r s
  proof -
    have go: "P (sv_world (snd (on_world f r (s\<lparr>sv_world := w\<rparr>))))" if "P w" for w
      by (rule on_world_pred) (simp add: f that)
    obtain b w1 where o: "isOrgDeleted h (r_param r) (sv_world s) = (b, w1)" by fastforce
    obtain c w2 where p: "isProjectDeleted h (r_param r) (resolveOrgNames r) (sv_world s) = (c, w2)" by fastforce
    have "P w1" "P w2" using org [OF that, of "r_param r"] o proj [OF that, of "r_param r" "resolveOrgNames r"] p by simp_all
    with o p that go [of w1] go [of w2] on_world_pred [of P f r s] f [OF that] show ?thesis
      by (cases b; cases c) (simp_all add: DeletionCheckMiddleware_def Let_def)
  qed
  have az: "P (sv_world (snd (AuthzMiddleware (h_uuid h) (DeletionCheckMiddleware h (on_world f)) r s)))"
    if "P (sv_world s)" for r s
    using that del by (auto simp: AuthzMiddleware_def split: option.split)
  show ?thesis
  proof (cases "sv_jwt s")
    case None
    with assms(1) del show ?thesis by (simp add: external_chain_def)
  next
    case (Some v)
    show ?thesis
    proof (cases "bearer_token (r_header r ''Authorization'')")
      case (Inl m)
      with Some assms(1) show ?thesis by (simp add: external_chain_def AuthnMiddleware_def)
    next
      case (Inr tok)
      obtain r1 v1 where v: "Validate J N tok v = (r1, v1)" by fastforce
      show ?thesis
      proof (cases r1)
        case (Inl e)
        with Some \<open>bearer_token _ = Inr tok\<close> v assms(1) show ?thesis
          by (simp add: external_chain_def AuthnMiddleware_def)
      next
        case (Inr cl)
        let ?ids = "extractOrgUUIDs (h_uuid h) (extractRolesFromClaims cl)"
        obtain ns w1 where n: "resolve_names h ?ids (sv_world s) = (ns, w1)" by fastforce
        with names [OF assms(1), of ?ids] have "P w1" by simp
        with Some \<open>bearer_token _ = Inr tok\<close> v Inr n az show ?thesis
          by (simp add: external_chain_def AuthnMiddleware_def Let_def)
      qed
    qed
  qed
qed

lemma external_routes:
  assumes "external_route h m segs = Some (n, f)"
  shows "m = ''GET'' \<and> f \<in> {ListOrgs_h h, GetOrg_h h, GetOrgStatus_h h, ListProjects_h h, GetProject_h h, GetProjectStatus_h h} \<or>
    m \<noteq> ''GET'' \<and> f \<in> {CreateOrUpdateOrg_h h, DeleteOrg_h h, CreateOrUpdateProject_h h, DeleteProject_h h}"
  using assms by (auto simp: external_route_def split: list.splits if_splits)

lemma internal_routes:
  assumes "internal_route h m segs = Some (n, f)"
  shows "m = ''GET'' \<and> f \<in> {GetEvents_h h, GetProjectByID_h h} \<or>
    m \<noteq> ''GET'' \<and> f \<in> {UpdateControllerStatus_h h, DeleteControllerStatus_h h}"
  using assms by (auto simp: internal_route_def split: list.splits if_splits)

lemma Router_pred:
  assumes "P (sv_world s)"
    and "\<And>ids w. P w \<Longrightarrow> P (snd (resolve_names h ids w))"
    and "\<And>n w. P w \<Longrightarrow> P (snd (isOrgDeleted h n w))"
    and "\<And>n sc w. P w \<Longrightarrow> P (snd (isProjectDeleted h n sc w))"
    and "\<And>m segs n f r w. external_route h m segs = Some (n, f) \<Longrightarrow> m = r_method q \<Longrightarrow> P w \<Longrightarrow> P (snd (f r w))"
    and "\<And>m segs n f r w. internal_route h m segs = Some (n, f) \<Longrightarrow> m = r_method q \<Longrightarrow> P w \<Longrightarrow> P (snd (f r w))"
  shows "P (sv_world (snd (Router J N h q s)))"
proof -
  let ?segs = "Split (drop 1 (r_path q)) (CHR ''/'')"
  have "P (sv_world (snd (external_chain J N h (on_world f) r s)))"
    if "external_route h (r_method q) ?segs = Some (n, f)" for n f r
    by (rule external_chain_pred) (use assms(1-4) assms(5) [OF that refl] in auto)
  moreover have "P (sv_world (snd (InternalAuthMiddleware (h_internalToken h) (on_world f) r s)))"
    if "internal_route h (r_method q) ?segs = Some (n, f)" for n f r
    using assms(1) assms(6) [OF that refl] by (simp add: InternalAuthMiddleware_def on_world_pred)
  ultimately show ?thesis
    using assms(1) by (auto simp: Router_def Let_def split: option.split prod.split)
qed

context tenancy_backend
begin

lemma lookups_stay:
  assumes "h_store h = B" and "stays v w"
  shows "stays v (snd (resolve_names h ids w))" "stays v (snd (isOrgDeleted h n w))"
    "stays v (snd (isProjectDeleted h n sc w))"
  unfolding resolve_names_def isOrgDeleted_def isProjectDeleted_def assms(1)
  by ((intro stay_rules | intro reads_stays [OF names_law] reads_stays [OF org_any_law]
        reads_stays [OF project_any_law]); (simp add: assms)?)+

lemma lookups_ok:
  assumes "h_store h = B" and "ok w"
  shows "ok (snd (resolve_names h ids w))" "ok (snd (isOrgDeleted h n w))" "ok (snd (isProjectDeleted h n sc w))"
  using lookups_stay [OF assms(1) stays_self [OF assms(2)]] stays_ok by blast+

lemma Router_ok:
  assumes "h_store h = B" and "ok (sv_world s)"
  shows "ok (sv_world (snd (Router J N h r s)))"
  using assms(2)
proof (rule Router_pred [where P = ok])
  fix m segs n f q w assume e: "external_route h m segs = Some (n, f)" and w: "ok w"
  show "ok (snd (f q w))"
    using external_routes [OF e] get_handlers_stay [OF assms(1) stays_self [OF w], THEN stays_ok]
      put_handlers_ok [OF assms(1) w] by auto
next
  fix m segs n f q w assume e: "internal_route h m segs = Some (n, f)" and w: "ok w"
  show "ok (snd (f q w))"
    using internal_routes [OF e] get_handlers_stay [OF assms(1) stays_self [OF w], THEN stays_ok]
      put_handlers_ok [OF assms(1) w] by auto
qed (use lookups_ok [OF assms(1)] in auto)

lemma Router_get:
  assumes "h_store h = B" and "ok (sv_world s)" and "r_method r = ''GET''"
  shows "stays (view (sv_world s)) (sv_world (snd (Router J N h r s)))"
  using stays_self [OF assms(2)]
proof (rule Router_pred [where P = "stays (view (sv_world s))"])
  fix m segs n f q w assume "external_route h m segs = Some (n, f)" "m = r_method r" "stays (view (sv_world s)) w"
  then show "stays (view (sv_world s)) (snd (f q w))"
    using external_routes [of h m segs n f] get_handlers_stay [OF assms(1)] assms(3) by auto
next
  fix m segs n f q w assume "internal_route h m segs = Some (n, f)" "m = r_method r" "stays (view (sv_world s)) w"
  then show "stays (view (sv_world s)) (snd (f q w))"
    using internal_routes [of h m segs n f] get_handlers_stay [OF assms(1)] assms(3) by auto
qed (use lookups_stay [OF assms(1)] in auto)

end

section \<open>Isolation and mediation through the router\<close>

lemma isolates_mono:
  assumes "isolates ns d d'" and "set ns \<subseteq> set ms"
  shows "isolates ms d d'"
proof -
  have f: "filter (\<lambda>p. \<not> has_org_with x (\<lambda>r. org_name r \<in> set ms) p) ps
      = filter (\<lambda>p. \<not> has_org_with x (\<lambda>r. org_name r \<in> set ms) p)
          (filter (\<lambda>p. \<not> has_org_with x (\<lambda>r. org_name r \<in> set ns) p) ps)" for x ps
    using assms(2) by (induction ps) (auto simp: has_org_with_def)
  have same: "has_org_with d' Q p = has_org_with d Q p" for Q p
    using assms(1) by (simp add: isolates_def has_org_with_def)
  have "filter (\<lambda>p. \<not> has_org_with d (\<lambda>r. org_name r \<in> set ns) p) (projects d')
      = filter (\<lambda>p. \<not> has_org_with d (\<lambda>r. org_name r \<in> set ns) p) (projects d)"
    using assms(1) unfolding isolates_def outside_def same by simp
  with f [of d "projects d"] f [of d "projects d'"] assms(1) show ?thesis
    unfolding isolates_def outside_def same by simp
qed

lemma in_names_mono: "in_names ns resp \<Longrightarrow> set ns \<subseteq> set ms \<Longrightarrow> in_names ms resp"
  by (auto simp: in_names_def split: body.splits)

lemma resolveOrgNames_member:
  assumes "r_auth r = Some ac" and "\<not> hasRole (Roles ac) ''admin''" and "OrgNames ac \<noteq> []"
  shows "\<exists>ns. resolveOrgNames r = Some ns \<and> set ns \<subseteq> set (OrgNames ac)"
  using assms by (auto simp: resolveOrgNames_def getAuthContext_def Let_def list_ex_iff)

definition project_handlers :: "'w Handler \<Rightarrow> (request \<Rightarrow> 'w \<Rightarrow> response \<times> 'w) set" where
  "project_handlers h =
     {ListProjects_h h, GetProject_h h, GetProjectStatus_h h, CreateOrUpdateProject_h h, DeleteProject_h h}"

lemma project_path_segments:
  assumes "isProjectEndpoint p"
  shows "\<exists>x rest. Split (drop 1 p) (CHR ''/'') = ''v1'' # (''projects'' @ x) # rest"
proof -
  from assms obtain s where s: "p = ''/v1/projects'' @ s" by (auto simp: isProjectEndpoint_def HasPrefix_def prefix_def)
  obtain x rest where "Split s (CHR ''/'') = x # rest" by (cases "Split s (CHR ''/'')") auto
  with s show ?thesis by simp
qed

lemma project_routes:
  assumes "isProjectEndpoint p"
  shows "external_route h m (Split (drop 1 p) (CHR ''/'')) = Some (n, f) \<Longrightarrow> f \<in> project_handlers h"
    and "internal_route h m (Split (drop 1 p) (CHR ''/'')) = None"
    and "Split (drop 1 p) (CHR ''/'') \<noteq> [''healthz'']"
proof -
  from project_path_segments [OF assms] obtain x rest
    where s: "Split (drop 1 p) (CHR ''/'') = ''v1'' # (''projects'' @ x) # rest" by auto
  show "external_route h m (Split (drop 1 p) (CHR ''/'')) = Some (n, f) \<Longrightarrow> f \<in> project_handlers h"
    unfolding s by (auto simp: external_route_def project_handlers_def split: list.splits if_splits)
  show "internal_route h m (Split (drop 1 p) (CHR ''/'')) = None"
    unfolding s by (auto simp: internal_route_def split: list.splits)
  show "Split (drop 1 p) (CHR ''/'') \<noteq> [''healthz'']" unfolding s by simp
qed

text \<open>The caller a token stands for: the context \<open>AuthnMiddleware\<close> builds.\<close>

definition caller :: "'w Handler \<Rightarrow> claims \<Rightarrow> 'w \<Rightarrow> AuthContext" where
  "caller h cl w =
     (let roles = extractRolesFromClaims cl; ids = extractOrgUUIDs (h_uuid h) roles in
      \<lparr>Username = claim_username cl, Roles = roles, OrgUUIDs = ids,
       OrgNames = fst (resolve_names h ids w)\<rparr>)"

lemma AuthnMiddleware_ok:
  assumes "bearer_token (r_header r ''Authorization'') = Inr tok" and "Validate J N tok v = (Inr cl, v1)"
  shows "AuthnMiddleware J N h v next r s =
    next (r\<lparr>r_auth := Some (caller h cl (sv_world s))\<rparr>)
      (s\<lparr>sv_world := snd (resolve_names h (extractOrgUUIDs (h_uuid h) (extractRolesFromClaims cl)) (sv_world s)),
         sv_jwt := Some v1\<rparr>)"
  using assms by (simp add: AuthnMiddleware_def caller_def Let_def split: prod.split)

context tenancy_backend
begin

lemma project_handlers_confined:
  assumes "h_store h = B" and "ok w" and "resolveOrgNames r = Some ns" and "f \<in> project_handlers h"
  shows "confined ns w (f r w)"
  using assms ListProjects_confined GetProject_confined DeleteProject_confined CreateOrUpdateProject_confined
  by (auto simp: project_handlers_def)

lemma confined_mono: "confined ns w res \<Longrightarrow> set ns \<subseteq> set ms \<Longrightarrow> view w = view w0 \<Longrightarrow> confined ms w0 res"
  by (auto simp: confined_def intro: isolates_mono in_names_mono)

definition confined_server :: "string list \<Rightarrow> 'w server \<Rightarrow> response \<times> 'w server \<Rightarrow> bool" where
  "confined_server ns s res \<longleftrightarrow> confined ns (sv_world s) (fst res, sv_world (snd res))"

lemma deletion_check_confined:
  assumes "h_store h = B" and "ok (sv_world s)" and "resolveOrgNames r = Some ns" and "f \<in> project_handlers h"
    and "isProjectEndpoint (r_path r)"
  shows "confined_server ns s (DeletionCheckMiddleware h (on_world f) r s)"
proof -
  have go: "confined_server ns s (on_world f r (s\<lparr>sv_world := w\<rparr>))" if "stays (view (sv_world s)) w" for w
  proof -
    have "confined ns w (f r w)" using that by (intro project_handlers_confined [OF assms(1) _ assms(3,4)]) (simp add: stays_def)
    then have "confined ns (sv_world s) (f r w)" using that by (auto simp: stays_def intro: confined_mono)
    then show ?thesis by (cases "f r w") (simp add: confined_server_def on_world_def)
  qed
  have self: "stays (view (sv_world s)) (sv_world s)" by (rule stays_self [OF assms(2)])
  obtain c w2 where p: "isProjectDeleted h (r_param r) (Some ns) (sv_world s) = (c, w2)" by fastforce
  then have w2: "stays (view (sv_world s)) w2" using lookups_stay(3) [OF assms(1) self, of "r_param r" "Some ns"] by simp
  have "\<not> isOrgEndpoint (r_path r)"
    using assms(5) by (auto simp: isOrgEndpoint_def isProjectEndpoint_def HasPrefix_def prefix_def)
  moreover have "confined_server ns s (writeError c m, s)" for c m
    using assms(2) by (simp add: confined_server_def confined_def)
  moreover have "confined_server ns s (writeError c m, s\<lparr>sv_world := w2\<rparr>)" for c m
    using w2 by (simp add: confined_server_def confined_def stays_def)
  ultimately show ?thesis using go [OF self] go [OF w2] p assms(3,5)
    by (cases c) (simp_all add: DeletionCheckMiddleware_def Let_def)
qed

lemma Router_confined:
  assumes "h_store h = B" and "ok (sv_world s)" and "isProjectEndpoint (r_path r)" and "sv_jwt s = Some v"
    and "bearer_token (r_header r ''Authorization'') = Inr tok" and "Validate J N tok v = (Inr cl, v1)"
    and "\<not> hasRole (Roles (caller h cl (sv_world s))) ''admin''"
    and "OrgNames (caller h cl (sv_world s)) \<noteq> []"
  shows "confined_server (OrgNames (caller h cl (sv_world s))) s (Router J N h r s)"
proof -
  let ?ac = "caller h cl (sv_world s)"
  let ?segs = "Split (drop 1 (r_path r)) (CHR ''/'')"
  have same: "confined_server (OrgNames ?ac) s ((c, NoBody), s)" for c
    using assms(2) by (simp add: confined_server_def confined_def in_names_def)
  have "confined_server (OrgNames ?ac) s (external_chain J N h (on_world f) (r\<lparr>r_param := n, r_auth := None\<rparr>) s)"
    if "external_route h (r_method r) ?segs = Some (n, f)" for n f
  proof -
    let ?w = "snd (resolve_names h (extractOrgUUIDs (h_uuid h) (extractRolesFromClaims cl)) (sv_world s))"
    let ?r = "r\<lparr>r_param := n, r_auth := Some ?ac\<rparr>"
    let ?s = "s\<lparr>sv_world := ?w, sv_jwt := Some v1\<rparr>"
    have w: "ok ?w" "view ?w = view (sv_world s)"
      using lookups_stay(1) [OF assms(1) stays_self [OF assms(2)]] by (simp_all add: stays_def)
    obtain ns where ns: "resolveOrgNames ?r = Some ns" "set ns \<subseteq> set (OrgNames ?ac)"
      using resolveOrgNames_member [of ?r ?ac] assms(7,8) by auto
    have "confined_server ns ?s (DeletionCheckMiddleware h (on_world f) ?r ?s)"
      using w ns project_routes(1) [OF assms(3) that] assms(1,3) by (intro deletion_check_confined) auto
    then have d: "confined_server (OrgNames ?ac) s (DeletionCheckMiddleware h (on_world f) ?r ?s)"
      using w ns by (auto simp: confined_server_def intro: confined_mono)
    have e: "confined_server (OrgNames ?ac) s (writeError c m, ?s)" for c m
      using w by (simp add: confined_server_def confined_def)
    show ?thesis
      using d e assms(4) AuthnMiddleware_ok [of "r\<lparr>r_param := n, r_auth := None\<rparr>" tok J N v cl v1 h] assms(5,6)
      by (simp add: external_chain_def AuthzMiddleware_def getAuthContext_def)
  qed
  with same project_routes(2) [OF assms(3), of h] project_routes(3) [OF assms(3)] show ?thesis
    by (auto simp: Router_def Let_def split: option.split)
qed

text \<open>A request of an external route that is not authenticated, or not authorized, changes
  no table.\<close>

lemma external_mediation:
  assumes "h_store h = B" and "ok (sv_world s)" and "sv_jwt s = Some v"
    and "view (sv_world (snd (external_chain J N h next r s))) \<noteq> view (sv_world s)"
  shows "\<exists>tok cl v1. bearer_token (r_header r ''Authorization'') = Inr tok \<and> Validate J N tok v = (Inr cl, v1) \<and>
    authz_allowed (h_uuid h) (caller h cl (sv_world s)) (r_path r) (r_method r)"
proof (cases "bearer_token (r_header r ''Authorization'')")
  case (Inl m)
  with assms(3,4) show ?thesis by (simp add: external_chain_def AuthnMiddleware_def)
next
  case (Inr tok)
  obtain r1 v1 where v: "Validate J N tok v = (r1, v1)" by fastforce
  show ?thesis
  proof (cases r1)
    case (Inl e)
    with assms(3,4) Inr v show ?thesis by (simp add: external_chain_def AuthnMiddleware_def)
  next
    case r1: (Inr cl)
    let ?w = "snd (resolve_names h (extractOrgUUIDs (h_uuid h) (extractRolesFromClaims cl)) (sv_world s))"
    have "view ?w = view (sv_world s)"
      using lookups_stay(1) [OF assms(1) stays_self [OF assms(2)]] by (simp add: stays_def)
    with assms(3,4) Inr v r1 have "authz_allowed (h_uuid h) (caller h cl (sv_world s)) (r_path r) (r_method r)"
      by (auto simp: external_chain_def AuthnMiddleware_ok AuthzMiddleware_def getAuthContext_def split: if_splits)
    with Inr v r1 show ?thesis by blast
  qed
qed

lemma Router_mediation:
  assumes "h_store h = B" and "ok (sv_world s)"
    and "view (sv_world (snd (Router J N h r s))) \<noteq> view (sv_world s)"
  shows "external_route h (r_method r) (Split (drop 1 (r_path r)) (CHR ''/'')) \<noteq> None \<and>
      (case sv_jwt s of
         None \<Rightarrow> True
       | Some v \<Rightarrow> \<exists>tok cl v1. bearer_token (r_header r ''Authorization'') = Inr tok \<and>
           Validate J N tok v = (Inr cl, v1) \<and>
           authz_allowed (h_uuid h) (caller h cl (sv_world s)) (r_path r) (r_method r)) \<or>
    internal_route h (r_method r) (Split (drop 1 (r_path r)) (CHR ''/'')) \<noteq> None \<and>
      (h_internalToken h = [] \<or> r_header r ''X-Internal-Token'' = h_internalToken h)"
proof -
  let ?segs = "Split (drop 1 (r_path r)) (CHR ''/'')"
  show ?thesis
  proof (cases "external_route h (r_method r) ?segs")
    case (Some nf)
    obtain n f where nf: "nf = (n, f)" by fastforce
    have "?segs \<noteq> [''healthz'']" using Some by (auto simp: external_route_def)
    with assms(3) Some nf have "view (sv_world (snd (external_chain J N h (on_world f)
        (r\<lparr>r_param := n, r_auth := None\<rparr>) s))) \<noteq> view (sv_world s)" by (simp add: Router_def Let_def)
    from external_mediation [OF assms(1,2) _ this] Some show ?thesis by (simp split: option.split)
  next
    case None
    with assms(3) show ?thesis
      by (auto simp: Router_def Let_def InternalAuthMiddleware_def split: if_splits option.splits)
  qed
qed

end

section \<open>The store provides it\<close>

lemma readsI:
  assumes "\<And>w. same_state w (snd (op w))"
    and "\<And>w a w'. wf_world w \<Longrightarrow> op w = (Inr a, w') \<Longrightarrow> Q a (tables w)"
  shows "reads wf_world tables op Q"
  unfolding reads_def using assms same_state_wf by (metis same_state_def snd_conv)

lemma in_scope_scope:
  "in_scope d sc p \<Longrightarrow> sc \<noteq> Some [] \<Longrightarrow> sc = Some ns \<Longrightarrow> has_org_with d (\<lambda>r. org_name r \<in> set ns) p"
  by (auto simp: in_scope_def has_org_with_def)

lemma GetProject_scoped:
  "GetProject n sc w = (Inr po, w') \<Longrightarrow> scoped_result n sc po (tables w) \<and> proj_active (fst po)"
proof -
  assume a: "GetProject n sc w = (Inr po, w')"
  then have nd: "sc \<noteq> Some []" by (auto simp: GetProject_def denied_def)
  from a nd obtain p l where p: "projects_named n sc (tables w) = [(p, l)]" and po: "po = (p, node_org (p, l))"
    by (auto simp: GetProject_def denied_def split: prod.splits sum.splits list.splits dest!: in_db_selectD)
  from projects_namedD [OF p] have "l = snd (with_folder (tables w) p)" "selected n sc (tables w) p"
    by (auto simp: selects_only_def)
  with nd po in_scope_scope show ?thesis by (auto simp: scoped_result_def selected_def with_folder_def)
qed

lemma GetProjectIncludingDeleted_scoped:
  assumes "GetProjectIncludingDeleted n sc w = (Inr po, w')"
  shows "scoped_result n sc po (tables w)"
proof -
  let ?l = "filter (\<lambda>p. proj_name p = n \<and> (case sc of None \<Rightarrow> True
      | Some ns \<Rightarrow> ns = [] \<or> has_org_with (tables w) (\<lambda>r. org_name r \<in> set ns) p)) (projects (tables w))"
  from assms have nd: "sc \<noteq> Some []" by (auto simp: GetProjectIncludingDeleted_def denied_def)
  from assms nd obtain x where x: "map (with_folder (tables w)) ?l = [x]" and po: "po = (fst x, node_org x)"
    by (auto simp: GetProjectIncludingDeleted_def denied_def split: prod.splits sum.splits list.splits dest!: in_db_selectD)
  from x have l: "?l = [fst x]" and x: "with_folder (tables w) (fst x) = x" by (auto simp: with_folder_def)
  from l have "fst x \<in> set ?l" by (metis list.set_intros(1))
  with nd po x show ?thesis by (auto simp: scoped_result_def)
qed

lemma ListProjects_scoped:
  assumes "ListProjects sc w = (Inr xs, w')"
  shows "scoped_list sc xs (tables w)"
proof (cases "sc = Some []")
  case True
  with assms show ?thesis by (simp add: ListProjects_def denied_def scoped_list_def)
next
  case False
  with assms have "set xs = with_folder (tables w) ` {p \<in> set (projects (tables w)). proj_active p \<and> in_scope (tables w) sc p}"
    by (auto simp: ListProjects_def denied_def dest!: in_db_selectD)
  with False show ?thesis by (auto simp: scoped_list_def dest: in_scope_scope)
qed

lemma foldl_map_upd:
  "foldl (\<lambda>m r. m(k r \<mapsto> v r)) m rs i = Some n \<Longrightarrow> m i = Some n \<or> (\<exists>r \<in> set rs. k r = i \<and> v r = n)"
  by (induction rs arbitrary: m) (fastforce split: if_splits)+

lemma GetOrgNamesByUUIDs_names:
  assumes "GetOrgNamesByUUIDs ids w = (Inr m, w')"
  shows "names_of ids m (tables w)"
proof (cases "ids = []")
  case True
  with assms show ?thesis by (auto simp: GetOrgNamesByUUIDs_def names_of_def)
next
  case False
  with assms have "m = foldl (\<lambda>m r. m(org_id r \<mapsto> org_name r)) Map.empty
      (filter (\<lambda>r. org_id r \<in> set ids \<and> org_active r) (orgs (tables w)))"
    by (auto simp: GetOrgNamesByUUIDs_def split: prod.splits sum.splits dest!: in_db_selectD)
  then show ?thesis by (auto simp: names_of_def dest!: foldl_map_upd)
qed

lemma ListOrgs_result:
  "ListOrgs w = (Inr rs, w') \<Longrightarrow> set rs \<subseteq> set (filter org_active (orgs (tables w)))"
  unfolding ListOrgs_def by (auto dest!: in_db_selectD)

lemma GetOrg_result:
  "GetOrg n w = (Inr r, w') \<Longrightarrow> r \<in> set (orgs (tables w)) \<and> org_name r = n \<and> org_active r"
  unfolding GetOrg_def by (auto dest!: in_db_selectD org_by_nameD)

lemma GetOrgIncludingDeleted_result:
  "GetOrgIncludingDeleted n w = (Inr r, w') \<Longrightarrow> r \<in> set (orgs (tables w)) \<and> org_name r = n"
  unfolding GetOrgIncludingDeleted_def
  by (drule in_db_selectD) (auto simp: query_only_Inr filter_eq_Cons_iff)

lemma GetProjectByID_result:
  assumes "GetProjectByID i w = (Inr po, w')"
  shows "fst po \<in> set (projects (tables w)) \<and> proj_id (fst po) = i"
proof -
  from assms obtain x where x: "map (with_folder (tables w)) (filter (\<lambda>p. proj_id p = i \<and> proj_active p) (projects (tables w))) = [x]"
    and po: "po = (fst x, node_org x)"
    by (auto simp: GetProjectByID_def query_only_Inr split: prod.splits sum.splits dest!: in_db_selectD)
  from x have "filter (\<lambda>p. proj_id p = i \<and> proj_active p) (projects (tables w)) = [fst x]"
    by (auto simp: with_folder_def)
  then have "fst x \<in> set (filter (\<lambda>p. proj_id p = i \<and> proj_active p) (projects (tables w)))" by simp
  with po show ?thesis by simp
qed

lemma mutatesI:
  assumes "\<And>w. wf_world w \<Longrightarrow> atomically w (op w) eff"
    and "\<And>w. wf_world w \<Longrightarrow> wf_world (snd (op w))"
  shows "mutates wf_world tables op eff"
  unfolding mutates_def
proof (intro allI impI)
  fix w r w' assume "wf_world w" "op w = (r, w')"
  with assms(1,2) [of w] show "wf_world w' \<and> (case r of
      Inl _ \<Rightarrow> tables w' = tables w \<or> (\<exists>a. eff a (tables w) (tables w'))
    | Inr a \<Rightarrow> eff a (tables w) (tables w'))"
    by (auto simp: atomically_def split: sum.splits)
qed

interpretation tm: tenancy_backend store_backend wf_world tables
proof unfold_locales
  show "wf_db (tables w)" if "wf_world w" for w using that by (simp add: wf_world_def)
  show "wf_world (snd (b_UpsertControllerStatus store_backend c rt i st m w))" if "wf_world w" for c rt i st m w
    using UpsertControllerStatus_wf [OF that] by (simp add: store_backend_def)
  show "wf_world (snd (b_DeleteControllerStatus store_backend c rt i w))" if "wf_world w" for c rt i w
    using DeleteControllerStatus_wf [OF that] by (simp add: store_backend_def)
  show "observes wf_world tables (b_DeriveStatus store_backend rt i del cs)" for rt i del cs
    using read_only(12) same_state_wf unfolding observes_def store_backend_def
    by (simp, metis same_state_def snd_conv)
  show "observes wf_world tables (b_now store_backend)"
    by (auto simp: observes_def store_backend_def now_def wf_world_def)
  show "reads wf_world tables (b_SynthesizeReplayEvents store_backend) (\<lambda>_ _. True)"
    using SynthesizeReplayEvents_read same_state_wf wf_world_keys(1) unfolding reads_def store_backend_def
    by (simp, metis same_state_def snd_conv)
  show "reads wf_world tables (b_GetProject store_backend n sc) (\<lambda>po d. scoped_result n sc po d \<and> proj_active (fst po))" for n sc
    by (simp add: store_backend_def) (intro readsI read_only, erule GetProject_scoped)
  show "reads wf_world tables (b_ListOrgs store_backend) (\<lambda>rs d. set rs \<subseteq> set (filter org_active (orgs d)))"
    by (simp only: store_backend_def backend.simps) (intro readsI read_only, erule ListOrgs_result)
qed (auto simp: store_backend_def
    intro!: readsI mutatesI read_only GetOrg_result GetOrgIncludingDeleted_result GetProjectByID_result
      GetProjectIncludingDeleted_scoped ListProjects_scoped GetOrgNamesByUUIDs_names GetEventsAfter_page
      create_org.atomic create_org.preserves update_org.atomic update_org.preserves delete_org.atomic
      delete_org.preserves create_project.atomic create_project.preserves update_project.atomic
      update_project.preserves delete_project.atomic delete_project.preserves)

end
