(* ===== verification/Tenancy_Lifecycle.thy ===== *)
theory Tenancy_Lifecycle
  imports Tenancy_Backend
begin

text \<open>
  The life cycle of a tenant as its users and controllers see it: the status derived from the
  controllers' rows, what reports and their withdrawal do to it, how it relates to the hard
  delete, and the bootstrap of the default tenant.
\<close>

section \<open>Derived status\<close>

abbreviation row_of :: "status_row list \<Rightarrow> string \<Rightarrow> status_row \<Rightarrow> bool" where
  "row_of rows c r \<equiv> r \<in> set rows \<and> cs_controller r = c"

text \<open>The reference: what the status of a resource is, said without maps and loops.\<close>

definition indication :: "status_row list \<Rightarrow> bool \<Rightarrow> string list \<Rightarrow> string" where
  "indication rows isDeleted cs =
     (if isDeleted \<and> (\<forall>c \<in> set cs. \<forall>r \<in> set rows. cs_controller r \<noteq> c) then ''STATUS_INDICATION_DELETED''
      else if \<exists>c \<in> set cs. \<exists>r \<in> set rows. cs_controller r = c \<and> cs_status r = ''error''
      then ''STATUS_INDICATION_ERROR''
      else if \<not> isDeleted \<and>
        (\<forall>c \<in> set cs. \<exists>r \<in> set rows. cs_controller r = c \<and> cs_status r \<noteq> ''in_progress'')
      then ''STATUS_INDICATION_IDLE''
      else ''STATUS_INDICATION_IN_PROGRESS'')"

lemma failing_row:
  "distinct (map cs_controller rows) \<Longrightarrow>
     failing (status_map rows) c \<longleftrightarrow> (\<exists>r. row_of rows c r \<and> cs_status r = ''error'')"
  by (auto simp: failing_def status_map_Some)

lemma settled_row_iff:
  "distinct (map cs_controller rows) \<Longrightarrow>
     settled (status_map rows) c \<longleftrightarrow>
       (\<exists>r. row_of rows c r \<and> cs_status r \<noteq> ''error'' \<and> cs_status r \<noteq> ''in_progress'')"
  by (auto simp: settled_def status_map_Some)

lemma find_failing_None:
  "distinct (map cs_controller rows) \<Longrightarrow>
     find (failing (status_map rows)) cs = None \<longleftrightarrow>
       \<not> (\<exists>c \<in> set cs. \<exists>r \<in> set rows. cs_controller r = c \<and> cs_status r = ''error'')"
  by (auto simp: find_None_iff failing_row)

lemma DeriveStatusFromRows_indication:
  assumes "distinct (map cs_controller rows)"
  shows "fst (DeriveStatusFromRows rows isDeleted cs) = indication rows isDeleted cs"
proof (cases isDeleted)
  case True
  have none: "(\<forall>c \<in> set cs. status_map rows c = None) \<longleftrightarrow> (\<forall>c \<in> set cs. \<forall>r \<in> set rows. cs_controller r \<noteq> c)"
    by (auto simp: status_map_None)
  show ?thesis
    using True none find_failing_None [OF assms, of cs]
    by (cases "find (failing (status_map rows)) cs") (auto simp: derive_deleted indication_def)
next
  case False
  show ?thesis
  proof (cases "find (failing (status_map rows)) cs")
    case (Some c)
    then have "\<exists>c \<in> set cs. \<exists>r \<in> set rows. cs_controller r = c \<and> cs_status r = ''error''"
      using find_failing_None [OF assms, of cs] by auto
    with False Some show ?thesis by (simp add: derive_active indication_def)
  next
    case None
    then have e: "\<not> (\<exists>c \<in> set cs. \<exists>r \<in> set rows. cs_controller r = c \<and> cs_status r = ''error'')"
      using find_failing_None [OF assms, of cs] by simp
    then have "(\<forall>c \<in> set cs. settled (status_map rows) c) \<longleftrightarrow>
        (\<forall>c \<in> set cs. \<exists>r \<in> set rows. cs_controller r = c \<and> cs_status r \<noteq> ''in_progress'')"
      by (auto simp: settled_row_iff [OF assms]) blast+
    with False None e show ?thesis by (simp add: derive_active indication_def)
  qed
qed

lemma resource_rows_distinct:
  assumes "wf_world w"
  shows "distinct (map cs_controller (filter (\<lambda>r. cs_resource_type r = rt \<and> cs_resource_id r = i) (statuses (tables w))))"
proof -
  have "distinct (map (\<lambda>s. (cs_controller s, cs_resource_type s, cs_resource_id s)) (statuses (tables w)))"
    using assms by (simp add: wf_world_def wf_db_def keys_ok_def)
  then show ?thesis by (auto simp: distinct_map inj_on_def distinct_filter)
qed

lemma DeriveStatus_indication:
  assumes "wf_world w" and "fault_free w"
  shows "fst (fst (DeriveStatus rt i del cs w)) =
    indication (filter (\<lambda>r. cs_resource_type r = rt \<and> cs_resource_id r = i) (statuses (tables w))) del cs"
  using assms DeriveStatusFromRows_indication [OF resource_rows_distinct [OF assms(1)], of rt i del cs]
  by (simp add: DeriveStatus_def GetControllerStatuses_def in_db_ok select_def query_all_def query_def)

lemma status_unique:
  assumes "wf_world w"
  shows "length (filter (status_key c rt i) (statuses (tables w))) \<le> 1"
proof -
  let ?k = "\<lambda>s. (cs_controller s, cs_resource_type s, cs_resource_id s)"
  have "distinct (map ?k (statuses (tables w)))" using assms by (simp add: wf_world_def wf_db_def keys_ok_def)
  from length_filter_key_le1 [OF this, of "(c, rt, i)"] show ?thesis by (simp add: status_key_def [abs_def])
qed

section \<open>Reports\<close>

text \<open>The status a controller has on record for a resource.\<close>

definition on_record :: "string \<Rightarrow> string \<Rightarrow> uuid \<Rightarrow> db \<Rightarrow> string option" where
  "on_record c rt i d = map_option cs_status (find (status_key c rt i) (statuses d))"

lemma on_record_filter:
  "on_record c rt i d = (case filter (status_key c rt i) (statuses d) of [] \<Rightarrow> None | r # _ \<Rightarrow> Some (cs_status r))"
proof -
  have "map_option cs_status (find P xs) = (case filter P xs of [] \<Rightarrow> None | r # _ \<Rightarrow> Some (cs_status r))" for P xs
    by (induction xs) auto
  then show ?thesis by (simp add: on_record_def)
qed

lemma reported_on_record: "reported c rt i st msg d d' \<Longrightarrow> on_record c rt i d' = Some st"
  by (auto simp: reported_def on_record_filter)

lemma rest_on_record:
  assumes "status_rest c rt i d' = status_rest c rt i d" and "(c', rt', i') \<noteq> (c, rt, i)"
  shows "on_record c' rt' i' d' = on_record c' rt' i' d"
proof -
  have "filter (status_key c' rt' i') (statuses x) = filter (status_key c' rt' i') (status_rest c rt i x)" for x
    using assms(2) by (auto simp: status_rest_def status_key_def intro!: filter_cong)
  then show ?thesis by (simp only: on_record_filter assms(1))
qed

lemma status_update_ff:
  assumes "fault_free w" and "status_validator st = None"
  shows "\<exists>n. status_update c rt i st msg w = (Inr n, snd (status_update c rt i st msg w)) \<and>
    (n = 0 \<longleftrightarrow> filter (status_key c rt i) (statuses (tables w)) = []) \<and>
    fault_free (snd (status_update c rt i st msg w))"
  using assms by (simp add: status_update_def now_def in_db_ok update_statuses_def fault_free_def tick_def)

lemma UpsertControllerStatus_ok:
  assumes "fault_free w" and "wf_world w" and "c \<noteq> []" and "rt \<noteq> []" and "status_validator st = None"
  shows "fst (UpsertControllerStatus c rt i st msg w) = Inr () \<and>
    fault_free (snd (UpsertControllerStatus c rt i st msg w))"
proof -
  obtain n w1 where u: "status_update c rt i st msg w = (Inr n, w1)"
    and n: "n = 0 \<longleftrightarrow> filter (status_key c rt i) (statuses (tables w)) = []" and w1: "fault_free w1"
    using status_update_ff [OF assms(1,5), of c rt i msg] by auto
  show ?thesis
  proof (cases "n = 0")
    case False
    with u w1 show ?thesis by (simp add: UpsertControllerStatus_def)
  next
    case True
    with u have "tables w1 = tables w" using status_update_none by simp
    with n True have "\<not> (\<exists>s \<in> set (statuses (tables w1)). status_key c rt i s)" by (auto simp: filter_empty_conv)
    then have "\<exists>w2. status_create c rt i st msg w1 = (Inr (), w2) \<and> fault_free w2"
      using w1 assms(3-5)
      by (simp add: status_create_def now_def status_check_def not_empty_def in_db_ok insert_status_def
          fault_free_def tick_def Let_def)
    with True u show ?thesis by (auto simp: UpsertControllerStatus_def)
  qed
qed

lemma rows_on_record:
  assumes "wf_world w" and "on_record c rt i (tables w) = Some st"
  shows "\<exists>r \<in> set (filter (\<lambda>r. cs_resource_type r = rt \<and> cs_resource_id r = i) (statuses (tables w))).
    cs_controller r = c \<and> cs_status r = st"
  using assms(2) by (auto simp: on_record_def status_key_def dest!: find_Some_mem)

lemma row_status_unique:
  assumes "wf_world w" and "on_record c rt i (tables w) = Some st"
    and "r \<in> set (filter (\<lambda>r. cs_resource_type r = rt \<and> cs_resource_id r = i) (statuses (tables w)))"
    and "cs_controller r = c"
  shows "cs_status r = st"
proof -
  from rows_on_record [OF assms(1,2)] obtain q where
    q: "q \<in> set (filter (\<lambda>r. cs_resource_type r = rt \<and> cs_resource_id r = i) (statuses (tables w)))"
    "cs_controller q = c" "cs_status q = st" by blast
  from distinct_map_unique [OF resource_rows_distinct [OF assms(1)] q(1) assms(3)] q assms(4) show ?thesis by simp
qed

lemma all_on_record_idle:
  assumes "wf_world w" and "fault_free w" and "\<forall>c \<in> set cs. on_record c rt i (tables w) = Some ''completed''"
  shows "fst (fst (DeriveStatus rt i False cs w)) = ''STATUS_INDICATION_IDLE''"
proof -
  let ?rows = "filter (\<lambda>r. cs_resource_type r = rt \<and> cs_resource_id r = i) (statuses (tables w))"
  have "\<not> (\<exists>c \<in> set cs. \<exists>r \<in> set ?rows. cs_controller r = c \<and> cs_status r = ''error'')"
  proof
    assume "\<exists>c \<in> set cs. \<exists>r \<in> set ?rows. cs_controller r = c \<and> cs_status r = ''error''"
    then obtain c r where "c \<in> set cs" "r \<in> set ?rows" "cs_controller r = c" "cs_status r = ''error''" by blast
    with row_status_unique [OF assms(1), of c rt i "''completed''" r] assms(3) show False by simp
  qed
  moreover have "\<forall>c \<in> set cs. \<exists>r \<in> set ?rows. cs_controller r = c \<and> cs_status r \<noteq> ''in_progress''"
  proof
    fix c assume "c \<in> set cs"
    with assms(3) have "on_record c rt i (tables w) = Some ''completed''" by blast
    from rows_on_record [OF assms(1) this] obtain r where
      "r \<in> set ?rows" "cs_controller r = c" "cs_status r = ''completed''" by blast
    then show "\<exists>r \<in> set ?rows. cs_controller r = c \<and> cs_status r \<noteq> ''in_progress''" by (intro bexI [of _ r]) auto
  qed
  ultimately show ?thesis unfolding DeriveStatus_indication [OF assms(1,2)] indication_def by simp
qed

definition report_all :: "string \<Rightarrow> uuid \<Rightarrow> string \<Rightarrow> string \<Rightarrow> string list \<Rightarrow> world \<Rightarrow> world" where
  "report_all rt i st msg cs w = fold (\<lambda>c w. snd (UpsertControllerStatus c rt i st msg w)) cs w"

lemma report_all_on_record:
  assumes "wf_world w" and "fault_free w" and "rt \<noteq> []" and "status_validator st = None" and "[] \<notin> set cs"
  shows "wf_world (report_all rt i st msg cs w) \<and> fault_free (report_all rt i st msg cs w) \<and>
    (\<forall>c. on_record c rt i (tables (report_all rt i st msg cs w)) =
       (if c \<in> set cs then Some st else on_record c rt i (tables w)))"
  using assms
proof (induction cs rule: rev_induct)
  case Nil
  then show ?case by (simp add: report_all_def)
next
  case (snoc x cs)
  let ?w = "report_all rt i st msg cs w"
  from snoc have w: "wf_world ?w" "fault_free ?w"
    and r: "on_record c rt i (tables ?w) = (if c \<in> set cs then Some st else on_record c rt i (tables w))" for c by simp_all
  obtain w' where u: "UpsertControllerStatus x rt i st msg ?w = (Inr (), w')" and w': "fault_free w'"
    using UpsertControllerStatus_ok [OF w(2,1) _ snoc.prems(3,4), of x i msg] snoc.prems(5) by (metis in_set_conv_decomp prod.collapse)
  have rep: "reported x rt i st msg (tables ?w) (tables w')"
    by (rule UpsertControllerStatus_reports [OF u status_unique [OF w(1)]])
  have "on_record c rt i (tables w') = (if c = x then Some st else on_record c rt i (tables ?w))" for c
    using reported_on_record [OF rep] rest_on_record [of x rt i "tables w'" "tables ?w" c rt i] rep by (auto simp: reported_def)
  moreover have "report_all rt i st msg (cs @ [x]) w = w'" using u by (simp add: report_all_def)
  moreover have "wf_world w'" using UpsertControllerStatus_wf [OF w(1), of x rt i st msg] u by simp
  ultimately show ?case using w' r by simp
qed

section \<open>Bootstrap\<close>

lemma GetOrg_same:
  assumes "wf_world w" and "GetOrg n w = (g, w1)"
  shows "wf_world w1" "tables w1 = tables w"
  using read_only(1) [of w n] same_state_wf [of w w1] assms by (simp_all add: same_state_def)

lemma Bootstrap_deleted_org:
  assumes "wf_world w" and "r \<in> set (orgs (tables w))" and "\<not> org_active r" and "org_name r \<noteq> []" and "p \<noteq> []"
  shows "\<exists>e. fst (Bootstrap (org_name r) p w) = Inl e"
proof -
  have keys: "distinct (map org_name (orgs (tables w)))" using assms(1) by (simp add: wf_world_def wf_db_def keys_ok_def)
  obtain g w1 where g: "GetOrg (org_name r) w = (g, w1)" by fastforce
  note s = GetOrg_same [OF assms(1) g]
  obtain e where e: "g = Inl e"
  proof (cases g)
    case (Inr q)
    with GetOrg_result g have q: "q \<in> set (orgs (tables w))" "org_name q = org_name r" "org_active q" by auto
    have "q = r" by (rule distinct_map_unique [OF keys q(1) assms(2) q(2)])
    with q(3) assms(3) show ?thesis by simp
  qed blast
  obtain c w2 where c: "CreateOrg (org_name r) ''Default organization'' w1 = (c, w2)" by fastforce
  have "\<exists>e. c = Inl e"
    using create_org.on_success [OF s(1), of "org_name r" "''Default organization''"] c s(2) assms(2)
    by (cases c) (auto simp: create_org_eff_def)
  with g e c assms(4,5) show ?thesis by (auto simp: Bootstrap_def)
qed

lemma Bootstrap_outcome:
  assumes "wf_world w" and "o' \<noteq> []" and "p \<noteq> []" and "Bootstrap o' p w = (Inr (), w')"
  shows "(\<exists>r \<in> set (orgs (tables w)). org_name r = o' \<and> org_active r) \<and> tables w' = tables w \<or>
    (\<exists>r a d. create_org_eff o' ''Default organization'' r (tables w) d \<and>
       create_project_eff o' p ''Default project'' a d (tables w'))"
proof -
  obtain g w1 where g: "GetOrg o' w = (g, w1)" by fastforce
  note s = GetOrg_same [OF assms(1) g]
  show ?thesis
  proof (cases g)
    case (Inr q)
    with assms(2-4) g s(2) GetOrg_result [of o' w q w1] show ?thesis by (auto simp: Bootstrap_def)
  next
    case (Inl e)
    obtain c w2 where c: "CreateOrg o' ''Default organization'' w1 = (c, w2)" by fastforce
    with assms(2-4) g Inl obtain r where r: "c = Inr r" by (cases c) (auto simp: Bootstrap_def split: if_splits)
    obtain k w3 where k: "CreateProject o' p ''Default project'' w2 = (k, w3)" by fastforce
    with assms(2-4) g Inl c r obtain a where a: "k = Inr a" "w3 = w'"
      by (cases k) (auto simp: Bootstrap_def split: if_splits)
    have "create_org_eff o' ''Default organization'' r (tables w) (tables w2)"
      using create_org.on_success [OF s(1)] c r s(2) by simp
    moreover have "wf_world w2" using create_org.preserves [OF s(1), of o' "''Default organization''"] c by simp
    then have "create_project_eff o' p ''Default project'' a (tables w2) (tables w')"
      using create_project.on_success k a by blast
    ultimately show ?thesis by blast
  qed
qed

section \<open>Properties\<close>

text \<open>
  C14. The status derived from a resource's rows is the reference \<open>indication\<close>, in every
  well-formed database and for every list of registered controllers: DELETED for a deleted resource without
  a row of a registered controller, else ERROR if a registered controller reports an error, else
  IDLE if the resource is live and every registered controller has a row that is not in progress,
  else IN_PROGRESS.
\<close>

theorem derived_status_is_indication:
  assumes "wf_world w" and "fault_free w"
  shows "fst (fst (DeriveStatus rt i isDeleted cs w)) =
    indication (filter (\<lambda>r. cs_resource_type r = rt \<and> cs_resource_id r = i) (statuses (tables w))) isDeleted cs"
  using assms by (rule DeriveStatus_indication)

theorem derived_status_is_indication_witness:
  "fst (fst (DeriveStatus ''org'' 4 False [''ktc''] sample_tenant)) = ''STATUS_INDICATION_IN_PROGRESS'' \<and>
   fst (fst (DeriveStatus ''org'' 4 True [''ktc''] sample_tenant)) = ''STATUS_INDICATION_DELETED''"
proof -
  have "statuses (tables sample_tenant) = []" by code_simp
  then show ?thesis
    unfolding derived_status_is_indication [OF sample_tenant_wf sample_tenant_fault_free] by (simp add: indication_def)
qed

text \<open>
  C12. A resource settles: once every registered controller has reported completion (in whatever
  order, first reports and repeated ones alike) and the driver reports no fault, the status
  derived for the live resource is IDLE.
\<close>

theorem completed_reports_give_idle:
  assumes "wf_world w" and "fault_free w" and "rt \<noteq> []" and "[] \<notin> set cs"
    and "w' = fold (\<lambda>c w. snd (UpsertControllerStatus c rt i ''completed'' msg w)) cs w"
  shows "fst (fst (DeriveStatus rt i False cs w')) = ''STATUS_INDICATION_IDLE''"
proof -
  have "status_validator ''completed'' = None" by (simp add: status_validator_def)
  from report_all_on_record [OF assms(1-3) this assms(4), of i msg] show ?thesis
    unfolding assms(5) report_all_def by (intro all_on_record_idle) auto
qed

theorem completed_reports_give_idle_witness:
  "fst (fst (DeriveStatus ''project'' 18 False [''a'', ''b'']
     (snd (UpsertControllerStatus ''b'' ''project'' 18 ''completed'' []
       (snd (UpsertControllerStatus ''a'' ''project'' 18 ''completed'' [] sample_tenant)))))) = ''STATUS_INDICATION_IDLE''"
  by (rule completed_reports_give_idle [OF sample_tenant_wf sample_tenant_fault_free, where i = 18 and msg = "[]"]) simp_all



text \<open>
  \<open>Bootstrap\<close> with both names set either finds the default org active and changes
  nothing, or creates the org and then its project.
\<close>

theorem Bootstrap_finds_or_creates:
  assumes "wf_world w" and "o' \<noteq> []" and "p \<noteq> []" and "Bootstrap o' p w = (Inr (), w')"
  shows "(\<exists>r \<in> set (orgs (tables w)). org_name r = o' \<and> org_active r) \<and> tables w' = tables w \<or>
    (\<exists>r a d. create_org_eff o' ''Default organization'' r (tables w) d \<and>
       create_project_eff o' p ''Default project'' a d (tables w'))"
  using assms by (rule Bootstrap_outcome)

theorem Bootstrap_finds_or_creates_witness:
  "tables (snd (Bootstrap ''acme'' ''other'' sample_tenant)) = tables sample_tenant"
proof -
  have "fst (Bootstrap ''acme'' ''other'' sample_tenant) = Inr ()" by code_simp
  then obtain w' where b: "Bootstrap ''acme'' ''other'' sample_tenant = (Inr (), w')" by (metis prod.collapse)
  have "\<not> create_org_eff ''acme'' ''Default organization'' r (tables sample_tenant) d" for r d
  proof -
    have "map org_name (orgs (tables sample_tenant)) = [''acme'']" by code_simp
    then have "''acme'' \<in> org_name ` set (orgs (tables sample_tenant))" by (metis list.set_intros(1) list.set_map)
    then show ?thesis by (simp add: create_org_eff_def)
  qed
  with Bootstrap_finds_or_creates [OF sample_tenant_wf _ _ b] b show ?thesis by auto
qed

text \<open>
  C19. Once the default org has been soft-deleted, and as long as its row exists, \<open>Bootstrap\<close>
  reports an error whatever the driver does: the name is taken, but no lookup sees it.  The
  service then stops at startup, before the cleanup that would remove the row is started.
\<close>

theorem Bootstrap_fails_on_deleted_org:
  assumes "wf_world w" and "r \<in> set (orgs (tables w))" and "\<not> org_active r" and "org_name r \<noteq> []" and "p \<noteq> []"
  shows "\<exists>e. fst (Bootstrap (org_name r) p w) = Inl e"
  using assms by (rule Bootstrap_deleted_org)

theorem Bootstrap_fails_on_deleted_org_witness:
  "\<exists>e. fst (Bootstrap ''acme'' ''web'' (snd (DeleteOrg ''acme'' sample_tenant))) = Inl e"
proof -
  let ?w = "snd (DeleteOrg ''acme'' sample_tenant)"
  let ?r = "hd (orgs (tables ?w))"
  have "orgs (tables ?w) \<noteq> []" "\<not> org_active ?r" "org_name ?r = ''acme''" by code_simp+
  with Bootstrap_fails_on_deleted_org [OF delete_org.preserves [OF sample_tenant_wf], of ?r "''acme''" "''web''"]
  show ?thesis by simp
qed

end
