(* ===== verification/Tenancy_Service.thy ===== *)
theory Tenancy_Service
  imports Tenancy_Backend
begin

text \<open>
  The Tenant Manager's REST service as a whole: the router of \<open>Tenancy_Api\<close> on the store of
  \<open>Tenancy_Store\<close>.  Isolation between tenants, mediation of every change, the invariant under
  arbitrary requests, the event cursors, and two requests that reach beyond the caller's orgs.
\<close>

section \<open>A concrete server\<close>

text \<open>Instances of the parameters, to evaluate the router on: the ids of the two orgs below are printed in decimal, every
  token decodes to the same claims and passes the check, bodies are plain descriptions.\<close>

definition sample_uuid :: uuid_lib where
  "sample_uuid = \<lparr>uuid_parse = (\<lambda>s. map_option word_of_int (ParseInt s)), uuid_string = (\<lambda>u. if u = 4 then ''4'' else if u = 26 then ''26'' else ''0'')\<rparr>"

definition sample_dec :: decoders where
  "sample_dec = \<lparr>dec_description = (\<lambda>b _. Decoded b), dec_update = (\<lambda>_ _. DecodeError),
     dec_delete = (\<lambda>_ _. DecodeError)\<rparr>"

definition sample_handler :: "world Handler" where
  "sample_handler = \<lparr>h_uuid = sample_uuid, h_dec = sample_dec, h_store = store_backend, h_cfg = DefaultConfig,
     h_internalToken = ''secret''\<rparr>"

definition sample_claims :: "string list \<Rightarrow> claims" where
  "sample_claims roles = [(''realm_access'', JObj [(''roles'', JArr (map JStr roles))])]"

definition sample_jwt :: "string list \<Rightarrow> jwt_lib" where
  "sample_jwt roles =
     \<lparr>jwt_decode = (\<lambda>_. Inr (\<lparr>tok_alg = ''RS256'', tok_header = [(''kid'', JStr ''k'')]\<rparr>, sample_claims roles)),
      jwt_check = (\<lambda>_ _. None), rsa_from_pem = Inr\<rparr>"

definition sample_net :: net where
  "sample_net = \<lparr>http_get = (\<lambda>_. Inl (Errorf ''refused'')), json_provider = Inr, json_jwks = (\<lambda>_. Inr []),
     marshal_pkix = (\<lambda>_. Inr []), pem_encode = (\<lambda>s. s)\<rparr>"

definition sample_validator :: JWTValidator where
  "sample_validator = \<lparr>oidcServerURL = ''http://kc'', publicKeys = [''k'' \<mapsto> ''pem'']\<rparr>"

definition sample_request :: "string \<Rightarrow> string \<Rightarrow> string \<Rightarrow> request" where
  "sample_request method path org =
     \<lparr>r_method = method, r_path = path, r_param = [], r_query = (\<lambda>k. if k = ''org'' then org else []),
      r_header = (\<lambda>k. if k = ''Authorization'' then ''Bearer t'' else []), r_body = ''d'', r_auth = None\<rparr>"

text \<open>Two orgs with a project each.\<close>

definition sample_tenants :: world where
  "sample_tenants = snd (CreateProject ''beta'' ''shop'' [] (snd (CreateOrg ''beta'' [] sample_tenant)))"

definition sample_server :: "world \<Rightarrow> world server" where
  "sample_server w = \<lparr>sv_world = w, sv_jwt = Some sample_validator\<rparr>"

lemma sample_tenants_wf: "wf_world sample_tenants"
  unfolding sample_tenants_def by (intro create_project.preserves create_org.preserves sample_tenant_wf)

lemma sample_tenants_env: "env sample_tenants = sample_env"
  using create_org.preserves [OF sample_tenant_wf]
  by (simp add: sample_tenants_def create_project.keeps_env create_org.keeps_env sample_tenant_wf sample_tenant_env)


lemma sample_handler_store [simp]: "h_store sample_handler = store_backend"
  by (simp add: sample_handler_def)

lemma sample_server_sel [simp]: "sv_world (sample_server w) = w" "sv_jwt (sample_server w) = Some sample_validator"
  by (simp_all add: sample_server_def)

lemma sample_validate [simp]:
  "Validate (sample_jwt roles) N t sample_validator = (Inr (sample_claims roles), sample_validator)"
  by (simp add: Validate_def jwt_keyfunc_def sample_jwt_def sample_validator_def json_field_def getKey_def HasPrefix_def)

lemma sample_bearer [simp]: "bearer_token (r_header (sample_request m p q) ''Authorization'') = Inr ''t''"
proof -
  have "bearer_token ''Bearer t'' = Inr ''t''" by code_simp
  then show ?thesis by (simp add: sample_request_def)
qed

lemma sample_request_sel [simp]:
  "r_method (sample_request m p q) = m" "r_path (sample_request m p q) = p"
  by (simp_all add: sample_request_def)

lemma sample_uuid_handler [simp]: "h_uuid sample_handler = sample_uuid"
  by (simp add: sample_handler_def)

section \<open>Cursors of the event feed\<close>

lemma parse_digits_append:
  "parse_digits (xs @ ys) acc = Option.bind (parse_digits xs acc) (parse_digits ys)"
  by (induction xs acc rule: parse_digits.induct) (auto split: option.split)

lemma digit_char:
  assumes "n < 10"
  shows "digit_value (char_of (48 + n :: nat)) = Some (int n)"
proof -
  have "n \<in> set [0, 1, 2, 3, 4, 5, 6, 7, 8, 9]" using assms by (simp, presburger)
  moreover have "\<forall>n \<in> set [0, 1, 2, 3, 4, 5, 6, 7, 8, 9]. digit_value (char_of (48 + n :: nat)) = Some (int n)"
    by code_simp
  ultimately show ?thesis by blast
qed

lemma parse_digits_decimal: "\<exists>k. \<forall>acc. parse_digits (decimal n) acc = Some (acc * 10 ^ k + int n)"
proof (induction n rule: decimal.induct)
  case (1 n)
  show ?case
  proof (cases "n < 10")
    case True
    then have "parse_digits (decimal n) acc = Some (acc * 10 ^ 1 + int n)" for acc
      by (simp add: decimal.simps [of n] digit_char)
    then show ?thesis by blast
  next
    case False
    with 1 obtain k where k: "parse_digits (decimal (n div 10)) acc = Some (acc * 10 ^ k + int (n div 10))" for acc by blast
    have "int n = int (n div 10) * 10 + int (n mod 10)"
      by (metis div_mult_mod_eq of_nat_add of_nat_mult of_nat_numeral)
    then have "parse_digits (decimal n) acc = Some (acc * 10 ^ Suc k + int n)" for acc
      using False by (simp add: decimal.simps [of n] parse_digits_append k digit_char algebra_simps)
    then show ?thesis by blast
  qed
qed

lemma digit_char_range:
  "n < 10 \<Longrightarrow> CHR ''0'' \<le> char_of (48 + n :: nat) \<and> char_of (48 + n :: nat) \<le> CHR ''9''"
  using digit_char [of n] by (simp add: digit_value_def split: if_splits)

lemma decimal_digits: "\<forall>c \<in> set (decimal n). CHR ''0'' \<le> c \<and> c \<le> CHR ''9''"
proof (induction n rule: decimal.induct)
  case (1 n)
  show ?case
  proof (cases "n < 10")
    case True
    then show ?thesis by (simp add: decimal.simps [of n] digit_char_range)
  next
    case False
    with 1 show ?thesis by (simp add: decimal.simps [of n] digit_char_range)
  qed
qed

lemma decimal_nonempty [simp]: "decimal n \<noteq> []"
  by (subst decimal.simps) simp

lemma ParseInt_decimal:
  assumes "0 \<le> i" and "i \<le> max_int64"
  shows "ParseInt (decimal_int i) = Some i"
proof -
  obtain c cs where c: "decimal (nat i) = c # cs" by (cases "decimal (nat i)") auto
  then have "CHR ''0'' \<le> c" using decimal_digits [of "nat i"] by simp
  then have "c \<noteq> CHR ''-''" "c \<noteq> CHR ''+''" by (auto simp: less_eq_char_def)
  moreover obtain k where "parse_digits (decimal (nat i)) 0 = Some (0 * 10 ^ k + int (nat i))"
    using parse_digits_decimal by blast
  ultimately show ?thesis using assms c by (simp add: ParseInt_def decimal_int_def max_int64_def)
qed

lemma event_page_fold:
  "foldl (\<lambda>resp e. resp\<lparr>es_Events := es_Events resp @ [event_response e], es_LastEventID := ev_id e\<rparr>) p es =
     \<lparr>es_Events = es_Events p @ map event_response es,
      es_LastEventID = (if es = [] then es_LastEventID p else ev_id (last es))\<rparr>"
  by (induction es arbitrary: p) auto

lemma GetEventsAfter_ok:
  assumes "fault_free w" and "wf_world w" and "0 \<le> l"
  shows "fst (GetEventsAfter a l w) = Inr (take (nat l) (filter (\<lambda>e. a < ev_id e) (events (tables w))))"
proof -
  have "\<exists>es. fst (GetEventsAfter a l w) = Inr es"
    using assms by (simp add: GetEventsAfter_def in_db_ok select_def)
  then obtain es w' where e: "GetEventsAfter a l w = (Inr es, w')" by (metis prod.collapse)
  with GetEventsAfter_page [OF assms(2) e] show ?thesis by simp
qed

lemma after_param_decimal:
  "r_query r ''after'' = decimal_int a \<Longrightarrow> 0 \<le> a \<Longrightarrow> a \<le> max_int64 \<Longrightarrow> after_param r = Inr a"
  by (simp add: after_param_def Let_def ParseInt_decimal) (simp add: decimal_int_def)

lemma limit_param_decimal:
  "r_query r ''limit'' = decimal_int l \<Longrightarrow> 1 \<le> l \<Longrightarrow> l \<le> 1000 \<Longrightarrow> limit_param r = Inr l"
  by (simp add: limit_param_def Let_def ParseInt_decimal max_int64_def) (simp add: decimal_int_def)

lemma map_filter_set: "y \<in> set (List.map_filter f xs) \<longleftrightarrow> (\<exists>x \<in> set xs. f x = Some y)"
  by (induction xs) (auto simp: List.map_filter_simps split: option.splits)

lemma store_backend_names: "b_GetOrgNamesByUUIDs store_backend = GetOrgNamesByUUIDs"
  by (simp add: store_backend_def)

lemma caller_orgs:
  assumes "wf_world w" and "n \<in> set (OrgNames (caller h cl w))" and "h_store h = store_backend"
  shows "\<exists>r \<in> set (orgs (tables w)). org_name r = n \<and> org_active r \<and>
    (\<exists>role \<in> set (Roles (caller h cl w)). role_uuid (h_uuid h) role = Some (org_id r))"
proof -
  let ?ids = "extractOrgUUIDs (h_uuid h) (extractRolesFromClaims cl)"
  from assms(2,3) obtain m w' where m: "GetOrgNamesByUUIDs ?ids w = (Inr m, w')"
    and n: "n \<in> set (List.map_filter m ?ids)"
    by (auto simp: caller_def resolve_names_def Let_def store_backend_names split: if_splits prod.splits sum.splits)
  from n obtain i where i: "i \<in> set ?ids" "m i = Some n" by (auto simp: map_filter_set)
  from GetOrgNamesByUUIDs_names [OF m] i(2) obtain r where r: "r \<in> set (orgs (tables w))" "org_id r = i"
    "org_name r = n" "org_active r" by (auto simp: names_of_def)
  from i(1) obtain role where "role \<in> set (extractRolesFromClaims cl)" "role_uuid (h_uuid h) role = Some i"
    using extractOrgUUIDs_spec(2) by blast
  with r show ?thesis by (auto simp: caller_def Let_def)
qed

section \<open>Properties\<close>

text \<open>
  C1. Tenant isolation.  A caller with a valid token and without the realm role \<open>admin\<close>, some
  of whose orgs could be resolved, is confined to these orgs on every project endpoint: orgs,
  folders and statuses do not change, no project outside these orgs changes, is created or
  deleted, and no project of another org appears in the response.  The orgs are active orgs whose id one of the
  caller's roles carries.
\<close>

theorem Router_isolates_orgs:
  assumes "h_store h = store_backend" and "wf_world (sv_world s)" and "sv_jwt s = Some v"
    and "isProjectEndpoint (r_path r)"
    and "bearer_token (r_header r ''Authorization'') = Inr tok" and "Validate J N tok v = (Inr cl, v1)"
    and "ac = caller h cl (sv_world s)" and "\<not> hasRole (Roles ac) ''admin''" and "OrgNames ac \<noteq> []"
    and "Router J N h r s = (resp, s')"
  shows "isolates (OrgNames ac) (tables (sv_world s)) (tables (sv_world s')) \<and> in_names (OrgNames ac) resp \<and>
    (\<forall>n \<in> set (OrgNames ac). \<exists>o' \<in> set (orgs (tables (sv_world s))). org_name o' = n \<and> org_active o' \<and>
       (\<exists>role \<in> set (Roles ac). role_uuid (h_uuid h) role = Some (org_id o')))"
proof -
  have "tm.confined_server (OrgNames ac) s (Router J N h r s)"
    using assms(8,9) unfolding assms(7) by (intro tm.Router_confined [OF assms(1,2,4,3,5,6)])
  with assms(10) caller_orgs [OF assms(2) _ assms(1), of _ cl] assms(7) show ?thesis
    by (simp add: tm.confined_server_def tm.confined_def)
qed

theorem Router_isolates_orgs_witness:
  "let J = sample_jwt [''4_project-delete-role'']; s = sample_server sample_tenants;
       (resp, s') = Router J sample_net sample_handler (sample_request ''DELETE'' ''/v1/projects/web'' []) s
   in fst resp = 200 \<and> tables (sv_world s') \<noteq> tables (sv_world s) \<and>
      isolates [''acme''] (tables (sv_world s)) (tables (sv_world s')) \<and> in_names [''acme''] resp"
proof -
  let ?J = "sample_jwt [''4_project-delete-role'']"
  let ?s = "sample_server sample_tenants"
  let ?r = "sample_request ''DELETE'' ''/v1/projects/web'' []"
  let ?ac = "caller sample_handler (sample_claims [''4_project-delete-role'']) (sv_world ?s)"
  have o: "OrgNames ?ac = [''acme'']" by code_simp
  have st: "fst (fst (Router ?J sample_net sample_handler ?r ?s)) = 200" by code_simp
  have ch: "map proj_deleted_at (projects (tables (sv_world (snd (Router ?J sample_net sample_handler ?r ?s)))))
      \<noteq> map proj_deleted_at (projects (tables (sv_world ?s)))" by code_simp
  obtain resp s' where R: "Router ?J sample_net sample_handler ?r ?s = (resp, s')" by fastforce
  have p: "isProjectEndpoint (r_path ?r)" by code_simp
  have a: "\<not> hasRole (Roles ?ac) ''admin''" by code_simp
  have "isolates (OrgNames ?ac) (tables (sv_world ?s)) (tables (sv_world s')) \<and> in_names (OrgNames ?ac) resp"
    using Router_isolates_orgs [OF _ _ _ p sample_bearer sample_validate refl a _ R] sample_tenants_wf o by simp
  with st ch R o show ?thesis by (auto simp: Let_def)
qed

text \<open>
  C5. Mediation.  A request changes the tables only through a route of the external group, with a
  token that the validator accepts and roles that allow the method on the path (when
  authentication is configured), or through a route of the internal group, with the internal token
  (when one is configured).
\<close>

theorem Router_mediates:
  assumes "h_store h = store_backend" and "wf_world (sv_world s)"
    and "tables (sv_world (snd (Router J N h r s))) \<noteq> tables (sv_world s)"
  shows "external_route h (r_method r) (Split (drop 1 (r_path r)) (CHR ''/'')) \<noteq> None \<and>
      (case sv_jwt s of
         None \<Rightarrow> True
       | Some v \<Rightarrow> \<exists>tok cl v1. bearer_token (r_header r ''Authorization'') = Inr tok \<and>
           Validate J N tok v = (Inr cl, v1) \<and>
           authz_allowed (h_uuid h) (caller h cl (sv_world s)) (r_path r) (r_method r)) \<or>
    internal_route h (r_method r) (Split (drop 1 (r_path r)) (CHR ''/'')) \<noteq> None \<and>
      (h_internalToken h = [] \<or> r_header r ''X-Internal-Token'' = h_internalToken h)"
  using assms by (rule tm.Router_mediation)

theorem Router_mediates_witness:
  "authz_allowed sample_uuid (caller sample_handler (sample_claims [''4_project-delete-role'']) sample_tenants)
     ''/v1/projects/web'' ''DELETE''"
proof -
  let ?J = "sample_jwt [''4_project-delete-role'']"
  let ?s = "sample_server sample_tenants"
  let ?r = "sample_request ''DELETE'' ''/v1/projects/web'' []"
  have "map proj_deleted_at (projects (tables (sv_world (snd (Router ?J sample_net sample_handler ?r ?s)))))
      \<noteq> map proj_deleted_at (projects (tables (sv_world ?s)))" by code_simp
  then have "tables (sv_world (snd (Router ?J sample_net sample_handler ?r ?s))) \<noteq> tables (sv_world ?s)" by auto
  from Router_mediates [OF _ _ this] sample_tenants_wf show ?thesis
    by (simp add: internal_route_def sample_uuid_handler)
qed

text \<open>
  C8. No request, whatever its method, path, headers and body, and whatever the driver reports, takes the database out of its
  invariant, and no GET request changes a table.
\<close>

theorem Router_keeps_invariant:
  assumes "h_store h = store_backend" and "wf_world (sv_world s)"
  shows "wf_world (sv_world (snd (Router J N h r s))) \<and>
    (r_method r = ''GET'' \<longrightarrow> tables (sv_world (snd (Router J N h r s))) = tables (sv_world s))"
  using tm.Router_ok [OF assms] tm.Router_get [OF assms] by (auto simp: tm.stays_def)

theorem Router_keeps_invariant_witness:
  "wf_world (sv_world (snd (Router (sample_jwt []) sample_net sample_handler
      (sample_request ''GET'' ''/v1/orgs'' []) (sample_server sample_tenants)))) \<and>
   tables (sv_world (snd (Router (sample_jwt []) sample_net sample_handler
      (sample_request ''GET'' ''/v1/orgs'' []) (sample_server sample_tenants)))) = tables sample_tenants"
  using Router_keeps_invariant [of sample_handler "sample_server sample_tenants" "sample_jwt []" sample_net
      "sample_request ''GET'' ''/v1/orgs'' []"] sample_tenants_wf by simp

text \<open>
  C17. Polling.  With the cursor and the limit printed in decimal (a cursor in the range of a BIGINT,
  a limit from 1 to 1000), the handler of \<open>GET /v1/events\<close> reads both back as they were sent and
  answers 200 with the first \<open>limit\<close> events beyond the cursor and the id of the last of
  them (or the cursor again) as the next cursor.
\<close>

theorem GetEvents_answers_page:
  assumes "h_store h = store_backend" and "wf_world w" and "fault_free w"
    and "r_query r ''controller'' \<noteq> []" and "r_query r ''replay'' \<noteq> ''true''"
    and "r_query r ''after'' = decimal_int a" and "0 \<le> a" and "a \<le> max_int64"
    and "r_query r ''limit'' = decimal_int l" and "1 \<le> l" and "l \<le> 1000"
    and "page = take (nat l) (filter (\<lambda>e. a < ev_id e) (events (tables w)))"
  shows "fst (GetEvents_h h r w) =
    (200, EventsBody \<lparr>es_Events = map event_response page,
       es_LastEventID = (if page = [] then a else ev_id (last page))\<rparr>)"
proof -
  have "fst (b_GetEventsAfter (h_store h) a l w) = Inr page"
    using GetEventsAfter_ok [OF assms(3,2), of l a] assms(1,10,12) by (simp add: store_backend_def)
  then obtain w' where g: "b_GetEventsAfter (h_store h) a l w = (Inr page, w')" by (metis prod.collapse)
  show ?thesis
    using assms(4,5) g after_param_decimal [OF assms(6-8)] limit_param_decimal [OF assms(9-11)]
    by (simp add: GetEvents_h_def writeJSON_def event_page_def event_page_fold)
qed

definition sample_poll :: request where
  "sample_poll = (sample_request ''GET'' ''/v1/events'' [])
     \<lparr>r_query := (\<lambda>k. if k = ''controller'' then ''ktc'' else if k = ''after'' then decimal_int 1
                    else if k = ''limit'' then decimal_int 1 else [])\<rparr>"

theorem GetEvents_answers_page_witness:
  "let page = take 1 (filter (\<lambda>e. 1 < ev_id e) (events (tables sample_tenant)))
   in map ev_resource_name page = [''web''] \<and>
      fst (GetEvents_h sample_handler sample_poll sample_tenant) =
        (200, EventsBody \<lparr>es_Events = map event_response page, es_LastEventID = ev_id (last page)\<rparr>)"
proof -
  let ?page = "take 1 (filter (\<lambda>e. 1 < ev_id e) (events (tables sample_tenant)))"
  have p: "map ev_resource_name ?page = [''web'']" by code_simp
  have "fst (GetEvents_h sample_handler sample_poll sample_tenant) =
    (200, EventsBody \<lparr>es_Events = map event_response ?page,
       es_LastEventID = (if ?page = [] then 1 else ev_id (last ?page))\<rparr>)"
    by (rule GetEvents_answers_page [OF sample_handler_store sample_tenant_wf sample_tenant_fault_free,
          where a = 1 and l = 1]) (simp_all add: sample_poll_def max_int64_def)
  moreover have "?page \<noteq> []" using p by auto
  ultimately show ?thesis using p by (simp add: Let_def)
qed

text \<open>What the OIDC server behind \<open>url\<close> publishes: its discovery document names a key set,
  and this set gives the key under the id.\<close>

definition published :: "net \<Rightarrow> string \<Rightarrow> string \<Rightarrow> string \<Rightarrow> bool" where
  "published N url kid pem \<longleftrightarrow>
     (\<exists>doc jwksURL body keys key der.
        http_get N (url @ ''/.well-known/openid-configuration'') = Inr (200, Inr doc) \<and>
        json_provider N (take maxJWKSBodyBytes doc) = Inr jwksURL \<and>
        http_get N jwksURL = Inr (200, Inr body) \<and> json_jwks N (take maxJWKSBodyBytes body) = Inr keys \<and>
        map_of (rev keys) kid = Some key \<and> marshal_pkix N key = Inr der \<and> pem = pem_encode N der)"

text \<open>The life of a validator: it is made at the start of the process, with the network as it is then, and
  checks tokens, each with the network as it is at that moment.\<close>

inductive validator_life :: "jwt_lib \<Rightarrow> string \<Rightarrow> net list \<Rightarrow> JWTValidator \<Rightarrow> bool" for J url where
  life_start: "validator_life J url [N] (NewJWTValidator N url)"
| life_check: "validator_life J url Ns v \<Longrightarrow> validator_life J url (Ns @ [N]) (snd (Validate J N t v))"

lemma marshal_keys_published:
  assumes "marshal_keys N keys m = Inr m'" and "m' kid = Some pem"
  shows "(map_of (rev keys) kid = None \<and> m kid = Some pem) \<or>
    (\<exists>key der. map_of (rev keys) kid = Some key \<and> marshal_pkix N key = Inr der \<and> pem = pem_encode N der)"
  using assms
proof (induction N keys m rule: marshal_keys.induct)
  case (2 N k key keys m)
  then obtain der where der: "marshal_pkix N key = Inr der" "marshal_keys N keys (m(k \<mapsto> pem_encode N der)) = Inr m'"
    by (auto split: sum.splits)
  from "2.IH" [OF der 2(3)] der(1) show ?case
    by (auto simp: map_add_def split: option.splits if_splits)
qed simp

lemma refreshKeys_published:
  assumes "refreshKeys N v = (Inr (), v')" and "getKey v' kid = Some pem"
  shows "published N (oidcServerURL v) kid pem"
proof -
  have f: "\<exists>b. http_get N u = Inr (200, Inr b) \<and> x = take maxJWKSBodyBytes b" if "fetch N u g st rd = Inr x" for u g st rd x
    using that by (auto simp: fetch_def split: sum.splits prod.splits if_splits)
  from assms(1) obtain doc jwks body keys m where
    "fetch N (oidcServerURL v @ ''/.well-known/openid-configuration'') ''OIDC discovery failed'' ''OIDC discovery'' ''reading OIDC discovery response'' = Inr doc"
    "json_provider N doc = Inr jwks" "fetch N jwks ''fetching JWKS'' ''JWKS endpoint'' ''reading JWKS response'' = Inr body"
    "json_jwks N body = Inr keys" and m: "marshal_keys N keys Map.empty = Inr m" "v' = v\<lparr>publicKeys := m\<rparr>"
    by (auto simp: refreshKeys_def split: sum.splits)
  moreover from m assms(2) have "\<exists>key der. map_of (rev keys) kid = Some key \<and> marshal_pkix N key = Inr der \<and> pem = pem_encode N der"
    using marshal_keys_published [OF m(1), of kid pem] by (auto simp: getKey_def)
  ultimately show ?thesis unfolding published_def by (metis f)
qed

lemma refreshKeys_cases: "refreshKeys N v = (r, v') \<Longrightarrow> v' = v \<or> r = Inr ()"
  by (auto simp: refreshKeys_def split: sum.splits)

lemma Validate_validator: "v' = snd (Validate J N t v) \<Longrightarrow> v' = v \<or> refreshKeys N v = (Inr (), v')"
  using refreshKeys_cases [of N v]
  by (auto simp: Validate_def jwt_keyfunc_def Let_def
      split: sum.splits prod.splits if_splits option.splits json.splits)

lemma validator_life_keys:
  assumes "validator_life J url Ns v"
  shows "oidcServerURL v = url \<and> (\<forall>kid pem. getKey v kid = Some pem \<longrightarrow> (\<exists>N \<in> set Ns. published N url kid pem))"
  using assms
proof induction
  case (life_start N)
  let ?v = "\<lparr>oidcServerURL = url, publicKeys = Map.empty\<rparr>"
  have "oidcServerURL (NewJWTValidator N url) = url"
    using refreshKeys_url [of N ?v] by (simp add: NewJWTValidator_def)
  moreover have "NewJWTValidator N url = ?v \<or> refreshKeys N ?v = (Inr (), NewJWTValidator N url)"
    using refreshKeys_cases [of N ?v] by (cases "refreshKeys N ?v") (auto simp: NewJWTValidator_def)
  ultimately show ?case
    using refreshKeys_published [of N ?v] by (auto simp: getKey_def)
next
  case (life_check Ns v N t)
  obtain v' where v': "v' = snd (Validate J N t v)" by simp
  from Validate_validator [OF this] have "v' = v \<or> refreshKeys N v = (Inr (), v') \<and> oidcServerURL v' = oidcServerURL v"
    using refreshKeys_url [of N v] by (auto simp del: refreshKeys_url)
  then show ?case
    using life_check.IH refreshKeys_published [of N v v'] unfolding v' [symmetric] by auto
qed

text \<open>
  C18. Throughout the life of a validator a token is accepted only if it names an RS* or PS* algorithm and a key id, and
  passes the check with the RSA key that the OIDC server published under this id in a key set it served, with
  status 200, at the start or at one of the checks so far; the claims are those of the token.
\<close>

theorem Validate_accepts_only_served_keys:
  assumes "validator_life J url Ns v" and "Validate J N t v = (Inr cl, v')"
  shows "\<exists>tok kid pem key. jwt_decode J t = Inr (tok, cl) \<and>
      (HasPrefix (tok_alg tok) ''RS'' \<or> HasPrefix (tok_alg tok) ''PS'') \<and>
      json_field ''kid'' (tok_header tok) = Some (JStr kid) \<and>
      (\<exists>M \<in> set (Ns @ [N]). published M url kid pem) \<and>
      rsa_from_pem J pem = Inr key \<and> jwt_check J t key = None"
proof -
  from life_check [OF assms(1), of N t] assms(2) have "validator_life J url (Ns @ [N]) v'" by simp
  from validator_life_keys [OF this] Validate_Inr [OF assms(2)] show ?thesis by meson
qed

text \<open>A server that publishes one key from the second request on.\<close>

definition serving_net :: net where
  "serving_net = \<lparr>http_get = (\<lambda>url. Inr (200, Inr (if url = ''http://kc/certs'' then ''keys'' else ''doc''))),
     json_provider = (\<lambda>_. Inr ''http://kc/certs''), json_jwks = (\<lambda>_. Inr [(''k'', JStr ''n'')]),
     marshal_pkix = (\<lambda>_. Inr ''der''), pem_encode = (\<lambda>s. s)\<rparr>"

theorem Validate_accepts_only_served_keys_witness:
  "\<exists>pem. published sample_net ''http://kc'' ''k'' pem \<or> published serving_net ''http://kc'' ''k'' pem"
proof -
  have life: "validator_life (sample_jwt [''admin'']) ''http://kc'' [sample_net] (NewJWTValidator sample_net ''http://kc'')"
    by (rule life_start)
  have "Validate (sample_jwt [''admin'']) serving_net ''t'' (NewJWTValidator sample_net ''http://kc'') =
      (Inr (sample_claims [''admin'']), \<lparr>oidcServerURL = ''http://kc'', publicKeys = [''k'' \<mapsto> ''der'']\<rparr>)"
    by (simp add: Validate_def jwt_keyfunc_def sample_jwt_def NewJWTValidator_def sample_net_def serving_net_def refreshKeys_def
        fetch_def json_field_def getKey_def HasPrefix_def maxJWKSBodyBytes_def Let_def)
  from Validate_accepts_only_served_keys [OF life this] show ?thesis
    by (auto simp: sample_jwt_def json_field_def)
qed

section \<open>Two requests that leave the caller's orgs\<close>

lemma valid_nameD: "valid_name n \<Longrightarrow> n \<noteq> [] \<and> length n \<le> 253"
  by (auto simp: name_validator_def split: if_splits)

lemma DeleteProject_succeeds:
  assumes "fault_free w" and "wf_world w" and "event_seq w \<le> max_int64"
    and "filter (\<lambda>q. proj_name q = n \<and> proj_active q) (projects (tables w)) = [p]"
  shows "fst (DeleteProject n None w) = Inr ()"
proof -
  let ?d = "tables w"
  have tx: "tx w = None" and wf: "wf_db ?d" and fresh: "event_seq w \<notin> ev_id ` set (events ?d)"
    using assms(2) by (auto simp: wf_world_def)
  have p: "p \<in> set (projects ?d)" "proj_name p = n" "proj_active p"
    using assms(4) by (auto simp: filter_eq_Cons_iff)
  have named: "projects_named n None ?d = [with_folder ?d p]"
    using assms(4) by (simp add: projects_named_def query_all_def query_def in_scope_def)
  have chk: "event_check ((deleted_event_of (with_folder ?d p))\<lparr>ev_id := i, ev_created_at := c\<rparr>) = None" for i c
  proof -
    have "proj_name p \<noteq> [] \<and> length (proj_name p) \<le> 253"
      using wf p(1) by (auto simp: wf_db_def active_ok_def intro!: valid_nameD)
    moreover have "org_name o' \<noteq> [] \<and> length (org_name o') \<le> 253" if "node_org (with_folder ?d p) = Some o'" for o'
    proof -
      have "o' \<in> set (orgs ?d)"
        using that by (auto simp: node_org_def with_folder_def load_folder_def load_org_def split: option.splits dest!: find_Some_mem)
      then show ?thesis using wf by (auto simp: wf_db_def active_ok_def intro!: valid_nameD)
    qed
    moreover have "fst (with_folder ?d p) = p" by (simp add: with_folder_def)
    ultimately show ?thesis
      by (cases "node_org (with_folder ?d p)"; cases "snd (with_folder ?d p)")
        (auto simp: event_check_def deleted_event_of_def new_event_def Let_def not_empty_def max_len_def
          name_validator_def not_less)
  qed
  have pos: "length (filter (\<lambda>r. proj_id r = proj_id p \<and> proj_active r) (projects ?d)) \<noteq> 0"
    using p by (auto simp: filter_empty_conv)
  have b: "begin_tx w = (Inr (), tick w\<lparr>tx := Some ?d\<rparr>)"
    using assms(1) by (simp add: begin_tx_def next_fault_def fault_free_def)
  have nf: "next_fault u = None" if "env u = env w" for u
    using assms(1) that by (simp add: next_fault_def fault_free_def)
  obtain na where na: "with_folder ?d p = na" "fst na = p" by (simp add: with_folder_def)
  show ?thesis
    using assms(3) fresh pos
    by (simp add: DeleteProject_def na denied_def b select_def in_tx_ok assms(1) named now_def project_set_deleted_at_def
        soft_delete_projects_def in_tx_def nf tick_def Let_def event_create_def
        chk [unfolded na] insert_event_def commit_tx_def)
qed

lemma resolve_names_none:
  assumes "h_store h = store_backend" and "fault_free w"
    and "\<forall>x \<in> set (orgs (tables w)). org_id x \<in> set ids \<longrightarrow> \<not> org_active x"
  shows "fst (resolve_names h ids w) = []" "same_state w (snd (resolve_names h ids w))"
proof -
  have nf: "next_fault w = None" using assms(2) by (simp add: next_fault_def fault_free_def)
  have none: "filter (\<lambda>r. org_id r \<in> set ids \<and> org_active r) (orgs (tables w)) = []"
    using assms(3) by (auto simp: filter_empty_conv)
  have "List.map_filter Map.empty ids = ([] :: string list)"
    by (induction ids) (simp_all add: List.map_filter_simps)
  then show "fst (resolve_names h ids w) = []" "same_state w (snd (resolve_names h ids w))"
    by (simp_all add: resolve_names_def assms(1) store_backend_names GetOrgNamesByUUIDs_def in_db_select_ok [OF nf]
        query_all_def query_def none same_state_def tick_def)
qed

lemma isProjectDeleted_active:
  assumes "h_store h = store_backend" and "fault_free w" and "proj_active p"
    and "filter (\<lambda>q. proj_name q = n) (projects (tables w)) = [p]"
  shows "fst (isProjectDeleted h n None w) = False" "same_state w (snd (isProjectDeleted h n None w))"
proof -
  have nf: "next_fault w = None" using assms(2) by (simp add: next_fault_def fault_free_def)
  show "fst (isProjectDeleted h n None w) = False" "same_state w (snd (isProjectDeleted h n None w))"
    by (simp_all add: isProjectDeleted_def assms(1,3) store_backend_def GetProjectIncludingDeleted_def denied_def
        in_db_select_ok [OF nf] query_all_def query_def assms(4) with_folder_def same_state_def tick_def)
qed

lemma soft_deleted_all:
  assumes "list_all2 (soft_deleted t P) xs ys" and "\<forall>x \<in> set xs. Q (proj_name x) \<longrightarrow> P x"
  shows "filter (\<lambda>y. Q (proj_name y) \<and> proj_active y) ys = []"
  using assms by (induction rule: list_all2_induct) (auto simp: soft_deleted_def split: if_splits)

text \<open>
  C31. A caller all of whose orgs were deleted is not confined at all: its org names no longer resolve,
  \<open>resolveOrgNames\<close> gives nil, and nil means unscoped.  If it may delete projects (the delete role of a
  deleted org is enough), its request to delete the project with a name is answered 200, and the project with this
  name is soft-deleted although it belongs to an active org, which is none of the caller's.
\<close>

theorem deleted_org_lifts_scope:
  assumes "h_store h = store_backend" and "DefaultOrgName (h_cfg h) = []"
    and "wf_world (sv_world s)" and "fault_free (sv_world s)" and "event_seq (sv_world s) \<le> max_int64"
    and "sv_jwt s = Some v" and "bearer_token (r_header r ''Authorization'') = Inr tok" and "Validate J N tok v = (Inr cl, v1)"
    and "ac = caller h cl (sv_world s)" and "\<forall>x \<in> set (orgs (tables (sv_world s))). org_id x \<in> set (OrgUUIDs ac) \<longrightarrow> \<not> org_active x"
    and "r_method r = ''DELETE''" and "r_path r = ''/v1/projects/'' @ n" and "n \<noteq> []" and "CHR ''/'' \<notin> set n"
    and "r_query r ''org'' = []" and "authz_allowed (h_uuid h) ac (r_path r) ''DELETE''"
    and "filter (\<lambda>q. proj_name q = n) (projects (tables (sv_world s))) = [p]" and "proj_active p"
    and "Router J N h r s = (resp, s')"
  shows "fst resp = 200 \<and> filter (\<lambda>q. proj_name q = n \<and> proj_active q) (projects (tables (sv_world s'))) = [] \<and>
    has_org_with (tables (sv_world s)) (\<lambda>x. org_active x \<and> org_id x \<notin> set (OrgUUIDs ac)) p"
proof -
  let ?d = "tables (sv_world s)" and ?r = "r\<lparr>r_param := n, r_auth := Some ac\<rparr>"
  obtain w1 where w1: "w1 = snd (resolve_names h (OrgUUIDs ac) (sv_world s))" by simp
  have ids: "OrgUUIDs ac = extractOrgUUIDs (h_uuid h) (extractRolesFromClaims cl)"
    by (simp add: assms(9) caller_def Let_def)
  have st1: "same_state (sv_world s) w1" and names: "OrgNames ac = []"
    using resolve_names_none [OF assms(1,4,10)] by (simp_all add: w1 assms(9) caller_def Let_def)
  obtain w2 where w2: "isProjectDeleted h n None w1 = (False, w2)" "same_state w1 w2"
    using isProjectDeleted_active [OF assms(1) _ assms(18), of w1 n] st1 assms(4,17)
    by (cases "isProjectDeleted h n None w1") (auto simp: same_state_def fault_free_def)
  have st2: "same_state (sv_world s) w2" using st1 w2(2) by (simp add: same_state_def)
  then have ok: "wf_world w2" "fault_free w2" "event_seq w2 \<le> max_int64" "tables w2 = ?d" "tx w2 = None"
    using assms(3-5) same_state_wf [of "sv_world s" w2] by (auto simp: same_state_def fault_free_def wf_world_def)
  have only: "filter (\<lambda>q. proj_name q = n \<and> proj_active q) (projects ?d) = [p]"
  proof -
    have "filter (\<lambda>q. proj_name q = n \<and> proj_active q) xs = filter proj_active (filter (\<lambda>q. proj_name q = n) xs)" for xs
      by (induction xs) auto
    from this [of "projects ?d"] assms(17,18) show ?thesis by simp
  qed
  have p: "p \<in> set (projects ?d)" "proj_name p = n" using only by (auto simp: filter_eq_Cons_iff)
  obtain w3 where w3: "DeleteProject n None w2 = (Inr (), w3)"
    using DeleteProject_succeeds [OF ok(2,1,3) only [folded ok(4)]] by (cases "DeleteProject n None w2") auto
  have seg: "Split (drop (Suc 0) (r_path r)) (CHR ''/'') = [''v1'', ''projects'', n]"
    using assms(14) by (simp add: assms(12) Split_no_sep_id)
  have route: "external_route h ''DELETE'' [''v1'', ''projects'', n] = Some (n, DeleteProject_h h)"
    using assms(13) by (simp add: external_route_def)
  have ends: "isProjectEndpoint (r_path r)" "\<not> isOrgEndpoint (r_path r)"
    by (simp_all add: assms(12) isProjectEndpoint_def isOrgEndpoint_def HasPrefix_def)
  have scope: "resolveOrgNames ?r = None" by (simp add: resolveOrgNames_def getAuthContext_def assms(15) names)
  have "Router J N h r s = on_world (DeleteProject_h h) ?r (s\<lparr>sv_jwt := Some v1, sv_world := w2\<rparr>)"
    using AuthnMiddleware_ok [of "r\<lparr>r_param := n, r_auth := None\<rparr>" tok J N v cl v1 h _ s] assms(7,8,16)
    by (simp add: Router_def seg assms(11) route external_chain_def assms(6) AuthzMiddleware_def getAuthContext_def
        assms(9) [symmetric] DeletionCheckMiddleware_def assms(13) ends scope isOrgScopeDenied_def
        w1 [symmetric] ids [symmetric] w2(1))
  also have "\<dots> = ((200, NoBody), s\<lparr>sv_jwt := Some v1, sv_world := w3\<rparr>)"
    using w3 by (simp add: on_world_def DeleteProject_h_def resolveOrgNamesWithDefault_def scope assms(1,2) isOrgScopeDenied_def
        store_backend_def)
  finally have R: "resp = (200, NoBody)" "sv_world s' = w3" using assms(19) by auto
  from DeleteProject_atomic [OF ok(5), of n None] w3 have "delete_project_eff n None () ?d (tables w3)"
    by (simp add: atomically_def ok(4))
  then obtain q t where q: "selects_only n None ?d q"
    "list_all2 (soft_deleted t (\<lambda>x. proj_id x = proj_id q)) (projects ?d) (projects (tables w3))"
    by (auto simp: delete_project_eff_def)
  have "q = p" using q(1) p assms(18) by (auto simp: selects_only_def selected_def in_scope_def)
  moreover have "\<forall>x \<in> set (projects ?d). proj_name x = n \<longrightarrow> x = p"
    using assms(17) by (metis (mono_tags, lifting) filter_set empty_iff list.set(1,2) mem_Collect_eq set_filter singletonD)
  ultimately have "filter (\<lambda>x. proj_name x = n \<and> proj_active x) (projects (tables w3)) = []"
    by (intro soft_deleted_all [OF q(2)]) auto
  moreover have "has_org_with ?d org_active p"
    using assms(3) p(1) assms(18) by (auto simp: wf_world_def wf_db_def active_ok_def)
  then have "has_org_with ?d (\<lambda>x. org_active x \<and> org_id x \<notin> set (OrgUUIDs ac)) p"
    unfolding has_org_with_def using assms(10) by blast
  ultimately show ?thesis using R by simp
qed

theorem deleted_org_lifts_scope_witness:
  "let w = snd (DeleteOrg ''acme'' sample_tenants);
       J = sample_jwt [''4_project-delete-role''];
       (resp, s') = Router J sample_net sample_handler (sample_request ''DELETE'' ''/v1/projects/shop'' []) (sample_server w)
   in fst resp = 200 \<and> filter (\<lambda>q. proj_name q = ''shop'' \<and> proj_active q) (projects (tables (sv_world s'))) = [] \<and>
      map (\<lambda>q. (proj_name q, proj_active q)) (projects (tables w)) = [(''web'', False), (''shop'', True)]"
proof -
  define w where "w = snd (DeleteOrg ''acme'' sample_tenants)"
  let ?J = "sample_jwt [''4_project-delete-role'']" and ?r = "sample_request ''DELETE'' ''/v1/projects/shop'' []"
  let ?ac = "caller sample_handler (sample_claims [''4_project-delete-role'']) w"
  have wf: "wf_world w" unfolding w_def by (intro delete_org.preserves sample_tenants_wf)
  have before: "map (\<lambda>q. (proj_name q, proj_active q)) (projects (tables w)) = [(''web'', False), (''shop'', True)]"
    unfolding w_def by code_simp
  then obtain q p where p: "projects (tables w) = [q, p]" "proj_name q = ''web''" "proj_name p = ''shop''" "proj_active p" by auto
  have ac: "OrgUUIDs ?ac = [4]" unfolding w_def by code_simp
  have orgs: "list_all (\<lambda>x. org_id x \<in> set [4] \<longrightarrow> \<not> org_active x) (orgs (tables w))" unfolding w_def by code_simp
  have "env w = sample_env"
    by (simp add: w_def delete_org.keeps_env [OF sample_tenants_wf] sample_tenants_env)
  then have ff: "fault_free w" by (simp add: fault_free_def sample_env_def)
  have seq: "event_seq w \<le> max_int64" unfolding w_def by code_simp
  have authz: "authz_allowed sample_uuid ?ac ''/v1/projects/shop'' ''DELETE''" unfolding w_def by code_simp
  obtain resp s' where R: "Router ?J sample_net sample_handler ?r (sample_server w) = (resp, s')" by fastforce
  have "fst resp = 200 \<and> filter (\<lambda>q. proj_name q = ''shop'' \<and> proj_active q) (projects (tables (sv_world s'))) = [] \<and>
      has_org_with (tables (sv_world (sample_server w))) (\<lambda>x. org_active x \<and> org_id x \<notin> set (OrgUUIDs ?ac)) p"
    by (rule deleted_org_lifts_scope [OF sample_handler_store _ _ _ _ sample_server_sel(2) sample_bearer sample_validate _ _ _ _ _ _ _ _ _ _ R])
      (use wf ff seq ac orgs authz p in \<open>simp_all add: sample_handler_def DefaultConfig_def sample_request_def list_all_iff\<close>)
  with before R show ?thesis by (simp add: Let_def w_def [symmetric])
qed

text \<open>
  The write and delete roles are not tied to the org of the project: \<open>checkProjectAuthz\<close>
  accepts a delete role of any org of the caller.  Here a caller with the delete role of acme and a mere
  membership in beta deletes a project of beta.
\<close>

theorem delete_role_of_another_org:
  "let roles = [''4_project-delete-role'', ''26_40_m''];
       res = Router (sample_jwt roles) sample_net sample_handler
               (sample_request ''DELETE'' ''/v1/projects/shop'' ''beta'') (sample_server sample_tenants)
   in \<not> checkProjectAuthz sample_uuid roles [26] ''DELETE'' \<and> fst (fst res) = 200 \<and>
      map (\<lambda>p. (proj_name p, proj_active p)) (projects (tables (sv_world (snd res)))) = [(''web'', True), (''shop'', False)]"
  unfolding Let_def by (intro conjI) code_simp+

end
