(* ===== verification/Go_Net.thy ===== *)
theory Go_Net
  imports Prelude
begin

text \<open>
  What the services share of Go's network and encoding packages: requests and responses of
  \<open>net/http\<close>, \<open>url.QueryEscape\<close>, \<open>encoding/base64\<close>, \<open>crypto/rand\<close>.

  A server outside the repository is an arbitrary function of the requests it has received so far:
  it gives a transport error or a response to the last of them.  A client keeps the log of what it
  has sent, so that a property can speak about the requests themselves.
\<close>

section \<open>net/http\<close>

record http_request =
  q_method :: string
  q_url :: string
  q_headers :: "(string \<times> string) list"
  q_body :: "string option"

record http_response =
  p_code :: int
  p_status :: string
  p_body :: string

type_synonym http_log = "http_request list"
type_synonym http_server = "http_log \<Rightarrow> go_err + http_response"

definition send :: "http_server \<Rightarrow> http_request \<Rightarrow> http_log \<Rightarrow> (go_err + http_response) \<times> http_log" where
  "send S q l = (S (l @ [q]), l @ [q])"

lemma send_log [simp]: "snd (send S q l) = l @ [q]"
  by (simp add: send_def)

section \<open>url.QueryEscape\<close>

text \<open>Letters, digits and four marks, by their codes.\<close>

definition unreserved :: "char \<Rightarrow> bool" where
  "unreserved c \<longleftrightarrow>
     (let n = of_char c :: nat in
      48 \<le> n \<and> n \<le> 57 \<or> 65 \<le> n \<and> n \<le> 90 \<or> 97 \<le> n \<and> n \<le> 122 \<or> c \<in> set ''-_.~'')"

definition hex_digit :: "nat \<Rightarrow> char" where
  "hex_digit n = ''0123456789ABCDEF'' ! n"

definition escape_char :: "char \<Rightarrow> string" where
  "escape_char c =
     (if unreserved c then [c]
      else if c = CHR '' '' then ''+''
      else [CHR ''%'', hex_digit (of_char c div 16), hex_digit (of_char c mod 16)])"

definition QueryEscape :: "string \<Rightarrow> string" where
  "QueryEscape s = concat (map escape_char s)"

text \<open>Nothing that could end the value of a query parameter is left in it.\<close>

lemma hex_digit_mem: "n < 16 \<Longrightarrow> hex_digit n \<in> set ''0123456789ABCDEF''"
  unfolding hex_digit_def by (rule nth_mem) simp

lemma hex_digit_unreserved:
  assumes "n < 16"
  shows "unreserved (hex_digit n)"
proof -
  have "list_all unreserved ''0123456789ABCDEF''" by code_simp
  with hex_digit_mem [OF assms] show ?thesis by (simp only: list_all_iff)
qed

lemma escape_char_set:
  assumes "d \<in> set (escape_char c)"
  shows "unreserved d \<or> d = CHR ''+'' \<or> d = CHR ''%''"
proof -
  have n: "of_char c div 16 < (16 :: nat)" "of_char c mod 16 < (16 :: nat)"
    using nat_of_char_less_256 [of c] by (auto simp del: nat_of_char_less_256)
  have "unreserved d \<or> d \<in> {CHR ''+'', CHR ''%'', hex_digit (of_char c div 16), hex_digit (of_char c mod 16)}"
    using assms by (auto simp: escape_char_def split: if_splits)
  with hex_digit_unreserved [OF n(1)] hex_digit_unreserved [OF n(2)] show ?thesis by auto
qed

lemma QueryEscape_safe: "CHR ''&'' \<notin> set (QueryEscape s)" "CHR ''#'' \<notin> set (QueryEscape s)" "CHR ''='' \<notin> set (QueryEscape s)"
  by (auto simp: QueryEscape_def unreserved_def Let_def dest!: escape_char_set)

section \<open>encoding/base64\<close>

definition b64_alphabet :: string where
  "b64_alphabet = ''ABCDEFGHIJKLMNOPQRSTUVWXYZabcdefghijklmnopqrstuvwxyz0123456789+/''"

definition b64_char :: "nat \<Rightarrow> char" where
  "b64_char n = b64_alphabet ! n"

text \<open>Three bytes give four sextets; the last group is padded.\<close>

fun b64_encode :: "nat list \<Rightarrow> string" where
  "b64_encode [] = []"
| "b64_encode [a] = [b64_char (a div 4), b64_char (a mod 4 * 16), CHR ''='', CHR ''='']"
| "b64_encode [a, b] =
     [b64_char (a div 4), b64_char (a mod 4 * 16 + b div 16), b64_char (b mod 16 * 4), CHR ''='']"
| "b64_encode (a # b # c # rest) =
     b64_char (a div 4) # b64_char (a mod 4 * 16 + b div 16) # b64_char (b mod 16 * 4 + c div 64) #
     b64_char (c mod 64) # b64_encode rest"

definition EncodeToString :: "string \<Rightarrow> string" where
  "EncodeToString s = b64_encode (map of_char s)"

definition b64_value :: "char \<Rightarrow> nat option" where
  "b64_value c = map_option fst (find (\<lambda>(i, d). d = c) (enumerate 0 b64_alphabet))"

text \<open>\<open>DecodeString\<close> skips line breaks and is otherwise strict about length and padding; as
  \<open>StdEncoding\<close> it ignores the trailing padding bits.  The offset in the text of its error is not modelled.\<close>

fun b64_decode :: "string \<Rightarrow> nat list option" where
  "b64_decode [] = Some []"
| "b64_decode (w # x # y # z # rest) =
     (case (b64_value w, b64_value x) of
        (Some a, Some b) \<Rightarrow>
          (if y = CHR ''='' then
             (if z = CHR ''='' \<and> rest = [] then Some [a * 4 + b div 16] else None)
           else case b64_value y of
                  None \<Rightarrow> None
                | Some c \<Rightarrow>
                    (if z = CHR ''='' then
                       (if rest = [] then Some [a * 4 + b div 16, b mod 16 * 16 + c div 4] else None)
                     else case (b64_value z, b64_decode rest) of
                            (Some d, Some ns) \<Rightarrow>
                              Some ((a * 4 + b div 16) # (b mod 16 * 16 + c div 4) # (c mod 4 * 64 + d) # ns)
                          | _ \<Rightarrow> None))
      | _ \<Rightarrow> None)"
| "b64_decode _ = None"

definition DecodeString :: "string \<Rightarrow> go_err + string" where
  "DecodeString s =
     (case b64_decode (filter (\<lambda>c. c \<noteq> CHR 0x0A \<and> c \<noteq> CHR 0x0D) s) of
        None \<Rightarrow> Inl (Errorf ''illegal base64 data'')
      | Some ns \<Rightarrow> Inr (map char_of ns))"

lemma b64_char_props:
  assumes "n < 64"
  shows "b64_value (b64_char n) = Some n" "b64_char n \<noteq> CHR ''=''" "b64_char n \<noteq> CHR 0x0A" "b64_char n \<noteq> CHR 0x0D"
proof -
  have "\<forall>n \<in> set [0..<64]. b64_value (b64_char n) = Some n \<and> b64_char n \<noteq> CHR ''='' \<and>
      b64_char n \<noteq> CHR 0x0A \<and> b64_char n \<noteq> CHR 0x0D" by code_simp
  with assms show "b64_value (b64_char n) = Some n" "b64_char n \<noteq> CHR ''=''" "b64_char n \<noteq> CHR 0x0A" "b64_char n \<noteq> CHR 0x0D"
    by auto
qed

lemma b64_sextets:
  fixes a b c :: nat
  assumes "a < 256" "b < 256" "c < 256"
  shows "a div 4 < 64" "a mod 4 * 16 + b div 16 < 64" "b mod 16 * 4 + c div 64 < 64" "c mod 64 < 64"
    "a mod 4 * 16 < 64" "b mod 16 * 4 < 64"
  using assms by (auto simp: less_mult_imp_div_less)

lemma b64_bytes:
  fixes a b :: nat
  assumes "a < 256" "b < 256"
  shows "a div 16 < 16" "b div 64 < 4"
  using assms by (auto simp: less_mult_imp_div_less)

lemma b64_decode_encode:
  "\<forall>n \<in> set ns. n < 256 \<Longrightarrow> b64_decode (b64_encode ns) = Some ns"
proof (induction ns rule: b64_encode.induct)
  case (4 a b c rest)
  then show ?case
    using b64_sextets [of a b c] b64_bytes [of b c] by (simp add: b64_char_props)
next
  case (3 a b)
  then show ?case using b64_sextets [of a b 0] b64_bytes [of b 0] by (simp add: b64_char_props)
next
  case (2 a)
  then show ?case using b64_sextets [of a 0 0] b64_bytes [of 0 0] by (simp add: b64_char_props)
qed simp

lemma b64_encode_breaks:
  "\<forall>n \<in> set ns. n < 256 \<Longrightarrow> c \<in> set (b64_encode ns) \<Longrightarrow> c \<noteq> CHR 0x0A \<and> c \<noteq> CHR 0x0D"
proof (induction ns rule: b64_encode.induct)
  case (4 a b d rest)
  then show ?case using b64_sextets [of a b d] b64_char_props(3,4) by auto
next
  case (3 a b)
  then show ?case using b64_sextets [of a b 0] b64_char_props(3,4) by auto
next
  case (2 a)
  then show ?case using b64_sextets [of a 0 0] b64_char_props(3,4) by auto
qed simp

lemma DecodeString_EncodeToString: "DecodeString (EncodeToString s) = Inr s"
proof -
  have b: "\<forall>n \<in> set (map of_char s). n < (256 :: nat)" by auto
  have "filter (\<lambda>c. c \<noteq> CHR 0x0A \<and> c \<noteq> CHR 0x0D) (b64_encode (map of_char s)) = b64_encode (map of_char s)"
    using b64_encode_breaks [OF b] by (simp add: filter_id_conv)
  then show ?thesis by (simp add: DecodeString_def EncodeToString_def b64_decode_encode [OF b] comp_def)
qed

section \<open>crypto/rand\<close>

text \<open>\<open>rand.Int(rand.Reader, max)\<close>: the \<open>n\<close>-th draw of the process, a number below
  \<open>max\<close> or an error of the entropy source.\<close>

type_synonym rand = "nat \<Rightarrow> nat \<Rightarrow> go_err + nat"

definition rand_ok :: "rand \<Rightarrow> bool" where
  "rand_ok R \<longleftrightarrow> (\<forall>n m k. R n m = Inr k \<longrightarrow> k < m)"

end
