(* ===== verification/Tenancy_Admin.thy ===== *)
theory Tenancy_Admin
  imports Tenancy_Lifecycle Tenancy_Service Go_Net "HOL-Library.Multiset" "HOL-Library.Sublist"
begin

text \<open>
  The tenant-admin bootstrap of the Tenant Manager, tenancy-manager/internal/bootstrap: its
  environment (config.go), the password generator (password.go), the two REST clients (keycloak.go,
  k8s.go) and the flow that waits for the default org and project and then creates the user, its
  password and its group memberships (bootstrap.go).

  Keycloak and the Kubernetes API are one arbitrary \<open>http_server\<close>; \<open>encoding/json\<close>
  and the URL parser are the fields of \<open>codec\<close>.  Logging is not modelled.
\<close>

section \<open>Configuration\<close>

record BootstrapConfig =
  Enabled :: bool
  KeycloakService :: string
  KeycloakNamespace :: string
  KeycloakPort :: string
  KeycloakRealm :: string
  KeycloakAdminUser :: string
  TenantAdminUser :: string
  ProjectAdminGroups :: "string list"
  ProjectEdgeGroups :: "string list"
  SecretNamespace :: string
  SecretName :: string

definition getenv :: "(string \<rightharpoonup> string) \<Rightarrow> string \<Rightarrow> string \<Rightarrow> string" where
  "getenv e key d = (case e key of Some v \<Rightarrow> if v \<noteq> [] then v else d | None \<Rightarrow> d)"

definition getenvBool :: "(string \<rightharpoonup> string) \<Rightarrow> string \<Rightarrow> bool \<Rightarrow> bool" where
  "getenvBool e key d =
     (case e key of
        None \<Rightarrow> d
      | Some v \<Rightarrow>
          let t = ToLower (TrimSpace v) in
          if t \<in> set [''1'', ''true'', ''yes'', ''on''] then True
          else if t \<in> set [''0'', ''false'', ''no'', ''off'', []] then False
          else d)"

definition splitCSV :: "string \<Rightarrow> string list" where
  "splitCSV v = filter (\<lambda>p. p \<noteq> []) (map TrimSpace (Split v (CHR '','')))"

definition LoadConfig :: "(string \<rightharpoonup> string) \<Rightarrow> BootstrapConfig" where
  "LoadConfig e =
     \<lparr>Enabled = getenvBool e ''BOOTSTRAP_TENANT_ADMIN_ENABLED'' False,
      KeycloakService = getenv e ''KEYCLOAK_SERVICE'' ''platform-keycloak'',
      KeycloakNamespace = getenv e ''KEYCLOAK_NAMESPACE'' ''orch-platform'',
      KeycloakPort = getenv e ''KEYCLOAK_PORT'' ''8080'',
      KeycloakRealm = getenv e ''KEYCLOAK_REALM'' ''master'',
      KeycloakAdminUser = getenv e ''KEYCLOAK_ADMIN_USER'' ''admin'',
      TenantAdminUser = ToLower (getenv e ''TENANT_ADMIN_USER'' ''tenant-admin''),
      ProjectAdminGroups = splitCSV (getenv e ''PROJECT_ADMIN_GROUPS'' ''Project-Manager-Group''),
      ProjectEdgeGroups = splitCSV (getenv e ''PROJECT_EDGE_GROUPS''
        ''Edge-Manager-Group,Edge-Onboarding-Group,Edge-Operator-Group,Host-Manager-Group''),
      SecretNamespace = Getenv e ''TENANT_ADMIN_SECRET_NAMESPACE'',
      SecretName = getenv e ''TENANT_ADMIN_SECRET_NAME'' ''tenant-admin-password''\<rparr>"

definition KeycloakBaseURL :: "BootstrapConfig \<Rightarrow> string" where
  "KeycloakBaseURL c =
     ''http://'' @ KeycloakService c @ ''.'' @ KeycloakNamespace c @ ''.svc.cluster.local:'' @ KeycloakPort c"

section \<open>Passwords\<close>

definition uppercaseChars :: string where "uppercaseChars = ''ABCDEFGHIJKLMNOPQRSTUVWXYZ''"
definition lowercaseChars :: string where "lowercaseChars = ''abcdefghijklmnopqrstuvwxyz''"
definition digitChars :: string where "digitChars = ''0123456789''"
definition specialChars :: string where "specialChars = ''!@#$%^&*()_+|:<>?=''"
definition passwordLength :: nat where "passwordLength = 16"

text \<open>The draws of the process are numbered; \<open>n\<close> is the next one.\<close>

definition randChar :: "rand \<Rightarrow> string \<Rightarrow> nat \<Rightarrow> (go_err + char) \<times> nat" where
  "randChar R charset n =
     (case R n (length charset) of Inl err \<Rightarrow> (Inl err, Suc n) | Inr k \<Rightarrow> (Inr (charset ! k), Suc n))"

fun fill :: "rand \<Rightarrow> string list \<Rightarrow> nat \<Rightarrow> (go_err + string) \<times> nat" where
  "fill R [] n = (Inr [], n)"
| "fill R (charset # charsets) n =
     (case randChar R charset n of
        (Inl err, n) \<Rightarrow> (Inl err, n)
      | (Inr c, n) \<Rightarrow>
          (case fill R charsets n of (Inl err, n) \<Rightarrow> (Inl err, n) | (Inr cs, n) \<Rightarrow> (Inr (c # cs), n)))"

text \<open>The loop of \<open>shuffle\<close>, from its index \<open>i\<close> down to 1.\<close>

fun shuffle_from :: "rand \<Rightarrow> nat \<Rightarrow> string \<Rightarrow> nat \<Rightarrow> (go_err + string) \<times> nat" where
  "shuffle_from R 0 data n = (Inr data, n)"
| "shuffle_from R (Suc i) data n =
     (case R n (Suc (Suc i)) of
        Inl err \<Rightarrow> (Inl err, Suc n)
      | Inr j \<Rightarrow> shuffle_from R i (data[Suc i := data ! j, j := data ! Suc i]) (Suc n))"

definition shuffle :: "rand \<Rightarrow> string \<Rightarrow> nat \<Rightarrow> (go_err + string) \<times> nat" where
  "shuffle R data n = shuffle_from R (length data - 1) data n"

definition GeneratePassword :: "rand \<Rightarrow> nat \<Rightarrow> (go_err + string) \<times> nat" where
  "GeneratePassword R n =
     (if passwordLength < 4 then (Inl (Errorf ''password length must be at least 4''), n)
      else
        let allChars = uppercaseChars @ lowercaseChars @ digitChars @ specialChars in
        case fill R ([uppercaseChars, lowercaseChars, digitChars, specialChars] @
                     replicate (passwordLength - 4) allChars) n of
          (Inl err, n) \<Rightarrow> (Inl err, n)
        | (Inr pw, n) \<Rightarrow> shuffle R pw n)"

section \<open>The Keycloak client\<close>

record KCUser =
  ku_ID :: string
  ku_Username :: string
  ku_Email :: string
  ku_FirstName :: string
  ku_LastName :: string
  ku_Enabled :: bool
  ku_EmailVerified :: bool

record KCGroup =
  kg_ID :: string
  kg_Name :: string
  kg_Path :: string

record secretManifest =
  sm_Name :: string
  sm_Namespace :: string
  sm_Labels :: "(string \<times> string) list"
  sm_Data :: "(string \<times> string) list"

text \<open>The URL parser of \<open>http.NewRequest\<close> and the JSON codecs.  A decoder gives
  \<open>None\<close> for \<open>io.EOF\<close>.\<close>

record codec =
  cd_parse_url :: "string \<Rightarrow> go_err option"
  cd_token :: "string \<Rightarrow> go_err + string"
  cd_user :: "KCUser \<Rightarrow> string"
  cd_password :: "string \<Rightarrow> string"
  cd_users :: "string \<Rightarrow> go_err + KCUser list option"
  cd_group :: "string \<Rightarrow> go_err + KCGroup option"
  cd_manifest :: "secretManifest \<Rightarrow> string"
  cd_secret :: "string \<Rightarrow> go_err + (string \<times> string) list"

record KeycloakClient =
  kc_baseURL :: string
  kc_realm :: string
  kc_token :: string

text \<open>\<open>url.Values.Encode\<close>: the pairs by key.\<close>

definition form_encode :: "(string \<times> string) list \<Rightarrow> string" where
  "form_encode kvs = Join (map (\<lambda>(k, v). QueryEscape k @ ''='' @ QueryEscape v) (sort_key fst kvs)) ''&''"

definition login_request :: "string \<Rightarrow> string \<Rightarrow> string \<Rightarrow> string \<Rightarrow> http_request" where
  "login_request baseURL realm adminUser adminPass =
     \<lparr>q_method = ''POST'', q_url = baseURL @ ''/realms/'' @ realm @ ''/protocol/openid-connect/token'',
      q_headers = [(''Content-Type'', ''application/x-www-form-urlencoded'')],
      q_body = Some (form_encode [(''grant_type'', ''password''), (''client_id'', ''admin-cli''),
                 (''username'', adminUser), (''password'', adminPass)])\<rparr>"

definition NewKeycloakClient ::
  "codec \<Rightarrow> http_server \<Rightarrow> string \<Rightarrow> string \<Rightarrow> string \<Rightarrow> string \<Rightarrow> http_log \<Rightarrow> (go_err + KeycloakClient) \<times> http_log" where
  "NewKeycloakClient C S baseURL realm adminUser adminPass l =
     (let q = login_request baseURL realm adminUser adminPass in
      case cd_parse_url C (q_url q) of
        Some err \<Rightarrow> (Inl err, l)
      | None \<Rightarrow>
          (case send S q l of
             (Inl err, l) \<Rightarrow> (Inl (wrapf ''keycloak login'' err), l)
           | (Inr resp, l) \<Rightarrow>
               if p_code resp \<noteq> 200
               then (Inl (Errorf (''keycloak login: '' @ p_status resp @ '': '' @ p_body resp)), l)
               else case cd_token C (p_body resp) of
                      Inl err \<Rightarrow> (Inl (wrapf ''decode token'' err), l)
                    | Inr tok \<Rightarrow>
                        if tok = [] then (Inl (Errorf ''keycloak login: empty access token''), l)
                        else (Inr \<lparr>kc_baseURL = baseURL, kc_realm = realm, kc_token = tok\<rparr>, l)))"

definition adminURL :: "KeycloakClient \<Rightarrow> string \<Rightarrow> string" where
  "adminURL k path = kc_baseURL k @ ''/admin/realms/'' @ kc_realm k @ path"

definition kc_request :: "KeycloakClient \<Rightarrow> string \<Rightarrow> string \<Rightarrow> string option \<Rightarrow> http_request" where
  "kc_request k method url body =
     \<lparr>q_method = method, q_url = url,
      q_headers = [(''Authorization'', ''Bearer '' @ kc_token k)] @
                  (if body \<noteq> None then [(''Content-Type'', ''application/json'')] else []) @
                  [(''Accept'', ''application/json'')],
      q_body = body\<rparr>"

text \<open>\<open>do\<close>: the status code, and an error or what was decoded into \<open>out\<close>.  Without
  a decoder, with status 204 or an empty body \<open>out\<close> keeps its zero value.\<close>

definition kc_do ::
  "codec \<Rightarrow> http_server \<Rightarrow> KeycloakClient \<Rightarrow> string \<Rightarrow> string \<Rightarrow> string option
     \<Rightarrow> (string \<Rightarrow> go_err + 'a option) option \<Rightarrow> 'a \<Rightarrow> http_log \<Rightarrow> (int \<times> (go_err + 'a)) \<times> http_log" where
  "kc_do C S k method url body out zero l =
     (case cd_parse_url C url of
        Some err \<Rightarrow> ((0, Inl err), l)
      | None \<Rightarrow>
          (case send S (kc_request k method url body) l of
             (Inl err, l) \<Rightarrow> ((0, Inl err), l)
           | (Inr resp, l) \<Rightarrow>
               if p_code resp \<ge> 300
               then ((p_code resp, Inl (Errorf (''keycloak '' @ method @ '' '' @ url @ '': '' @ p_status resp @
                        '': '' @ p_body resp))), l)
               else case out of
                      None \<Rightarrow> ((p_code resp, Inr zero), l)
                    | Some dec \<Rightarrow>
                        if p_code resp = 204 \<or> p_body resp = [] then ((p_code resp, Inr zero), l)
                        else case dec (p_body resp) of
                               Inl err \<Rightarrow> ((p_code resp, Inl (wrapf ''decode response'' err)), l)
                             | Inr None \<Rightarrow> ((p_code resp, Inr zero), l)
                             | Inr (Some v) \<Rightarrow> ((p_code resp, Inr v), l)))"

definition FindUserByUsername ::
  "codec \<Rightarrow> http_server \<Rightarrow> KeycloakClient \<Rightarrow> string \<Rightarrow> http_log \<Rightarrow> (go_err + KCUser option) \<times> http_log" where
  "FindUserByUsername C S k username l =
     (case kc_do C S k ''GET'' (adminURL k (''/users?username='' @ QueryEscape username @ ''&exact=true''))
             None (Some (cd_users C)) [] l of
        ((_, Inl err), l) \<Rightarrow> (Inl err, l)
      | ((_, Inr users), l) \<Rightarrow> (Inr (find (\<lambda>u. EqualFold (ku_Username u) username) users), l))"

definition CreateUser ::
  "codec \<Rightarrow> http_server \<Rightarrow> KeycloakClient \<Rightarrow> KCUser \<Rightarrow> http_log \<Rightarrow> (go_err + string) \<times> http_log" where
  "CreateUser C S k user l =
     (case kc_do C S k ''POST'' (adminURL k ''/users'') (Some (cd_user C user)) None () l of
        ((code, res), l) \<Rightarrow>
          (case res of
             Inl err \<Rightarrow>
               if code \<noteq> 409 then (Inl err, l)
               else (case FindUserByUsername C S k (ku_Username user) l of
                       (Inl err, l) \<Rightarrow> (Inl err, l)
                     | (Inr None, l) \<Rightarrow> (Inl (Errorf (''user '' @ ku_Username user @ '' not found after create'')), l)
                     | (Inr (Some u), l) \<Rightarrow> (Inr (ku_ID u), l))
           | Inr _ \<Rightarrow>
               (case FindUserByUsername C S k (ku_Username user) l of
                  (Inl err, l) \<Rightarrow> (Inl err, l)
                | (Inr None, l) \<Rightarrow> (Inl (Errorf (''user '' @ ku_Username user @ '' not found after create'')), l)
                | (Inr (Some u), l) \<Rightarrow> (Inr (ku_ID u), l))))"

definition SetPassword ::
  "codec \<Rightarrow> http_server \<Rightarrow> KeycloakClient \<Rightarrow> string \<Rightarrow> string \<Rightarrow> http_log \<Rightarrow> (go_err + unit) \<times> http_log" where
  "SetPassword C S k userID password l =
     (case kc_do C S k ''PUT'' (adminURL k (''/users/'' @ userID @ ''/reset-password''))
             (Some (cd_password C password)) None () l of
        ((_, res), l) \<Rightarrow> (res, l))"

definition GetGroupByPath ::
  "codec \<Rightarrow> http_server \<Rightarrow> KeycloakClient \<Rightarrow> string \<Rightarrow> http_log \<Rightarrow> (go_err + KCGroup) \<times> http_log" where
  "GetGroupByPath C S k path l =
     (let path = (if \<not> HasPrefix path ''/'' then ''/'' @ path else path) in
      case kc_do C S k ''GET'' (adminURL k (''/group-by-path'' @ path)) None (Some (cd_group C))
             \<lparr>kg_ID = [], kg_Name = [], kg_Path = []\<rparr> l of
        ((_, Inl err), l) \<Rightarrow> (Inl err, l)
      | ((_, Inr g), l) \<Rightarrow>
          if kg_ID g = [] then (Inl (Errorf (''group '' @ quote path @ '' not found'')), l)
          else (Inr g, l))"

definition AddUserToGroup ::
  "codec \<Rightarrow> http_server \<Rightarrow> KeycloakClient \<Rightarrow> string \<Rightarrow> string \<Rightarrow> http_log \<Rightarrow> (go_err + unit) \<times> http_log" where
  "AddUserToGroup C S k userID groupID l =
     (case kc_do C S k ''PUT'' (adminURL k (''/users/'' @ userID @ ''/groups/'' @ groupID)) None None () l of
        ((_, res), l) \<Rightarrow> (res, l))"

section \<open>The Kubernetes client\<close>

record KubeClient =
  kube_host :: string
  kube_token :: string
  kube_defaultNS :: string

definition sa_dir :: string where "sa_dir = ''/var/run/secrets/kubernetes.io/serviceaccount/''"

text \<open>\<open>files\<close> reads the mounted files, \<open>pem_ok\<close> is \<open>AppendCertsFromPEM\<close>.\<close>

definition NewInClusterKubeClient ::
  "(string \<rightharpoonup> string) \<Rightarrow> (string \<Rightarrow> go_err + string) \<Rightarrow> (string \<Rightarrow> bool) \<Rightarrow> go_err + KubeClient" where
  "NewInClusterKubeClient e files pem_ok =
     (let host = Getenv e ''KUBERNETES_SERVICE_HOST''; port = Getenv e ''KUBERNETES_SERVICE_PORT'' in
      if host = [] \<or> port = []
      then Inl (Errorf ''not running in-cluster (KUBERNETES_SERVICE_HOST/PORT not set)'')
      else case files (sa_dir @ ''token'') of
             Inl err \<Rightarrow> Inl (wrapf ''read SA token'' err)
           | Inr tokenBytes \<Rightarrow>
               (case files (sa_dir @ ''ca.crt'') of
                  Inl err \<Rightarrow> Inl (wrapf ''read SA CA'' err)
                | Inr caBytes \<Rightarrow>
                    if \<not> pem_ok caBytes then Inl (Errorf ''parse SA CA bundle'')
                    else Inr \<lparr>kube_host = ''https://'' @ host @ '':'' @ port, kube_token = TrimSpace tokenBytes,
                              kube_defaultNS = (case files (sa_dir @ ''namespace'') of
                                 Inl _ \<Rightarrow> [] | Inr ns \<Rightarrow> TrimSpace ns)\<rparr>))"

definition DefaultNamespace :: "KubeClient \<Rightarrow> string" where
  "DefaultNamespace k = (if kube_defaultNS k \<noteq> [] then kube_defaultNS k else ''default'')"

definition get_secret_request :: "KubeClient \<Rightarrow> string \<Rightarrow> string \<Rightarrow> http_request" where
  "get_secret_request k ns name =
     \<lparr>q_method = ''GET'', q_url = kube_host k @ ''/api/v1/namespaces/'' @ ns @ ''/secrets/'' @ name,
      q_headers = [(''Authorization'', ''Bearer '' @ kube_token k), (''Accept'', ''application/json'')], q_body = None\<rparr>"

text \<open>\<open>Inr None\<close> is the result \<open>("", false, nil)\<close>.\<close>

definition GetSecretValue ::
  "codec \<Rightarrow> http_server \<Rightarrow> KubeClient \<Rightarrow> string \<Rightarrow> string \<Rightarrow> string \<Rightarrow> http_log \<Rightarrow> (go_err + string option) \<times> http_log" where
  "GetSecretValue C S k ns name key l =
     (let q = get_secret_request k ns name in
      case cd_parse_url C (q_url q) of
        Some err \<Rightarrow> (Inl err, l)
      | None \<Rightarrow>
          (case send S q l of
             (Inl err, l) \<Rightarrow> (Inl err, l)
           | (Inr resp, l) \<Rightarrow>
               if p_code resp = 404 then (Inr None, l)
               else if p_code resp \<ge> 300
               then (Inl (Errorf (''get secret '' @ ns @ ''/'' @ name @ '': '' @ p_status resp @ '': '' @ p_body resp)), l)
               else case cd_secret C (p_body resp) of
                      Inl err \<Rightarrow> (Inl (wrapf ''decode secret'' err), l)
                    | Inr data \<Rightarrow>
                        (case map_of data key of
                           None \<Rightarrow> (Inr None, l)
                         | Some enc \<Rightarrow>
                             (case DecodeString enc of
                                Inl err \<Rightarrow> (Inl (wrapf ''decode secret data'' err), l)
                              | Inr v \<Rightarrow> (Inr (Some v), l)))))"

definition create_secret_request ::
  "codec \<Rightarrow> KubeClient \<Rightarrow> string \<Rightarrow> string \<Rightarrow> (string \<times> string) list \<Rightarrow> (string \<times> string) list \<Rightarrow> http_request" where
  "create_secret_request C k ns name labels data =
     \<lparr>q_method = ''POST'', q_url = kube_host k @ ''/api/v1/namespaces/'' @ ns @ ''/secrets'',
      q_headers = [(''Authorization'', ''Bearer '' @ kube_token k), (''Content-Type'', ''application/json''),
                   (''Accept'', ''application/json'')],
      q_body = Some (cd_manifest C \<lparr>sm_Name = name, sm_Namespace = ns, sm_Labels = labels,
                 sm_Data = map (\<lambda>(k, v). (k, EncodeToString v)) data\<rparr>)\<rparr>"

definition CreateOpaqueSecret ::
  "codec \<Rightarrow> http_server \<Rightarrow> KubeClient \<Rightarrow> string \<Rightarrow> string \<Rightarrow> (string \<times> string) list \<Rightarrow> (string \<times> string) list
     \<Rightarrow> http_log \<Rightarrow> (go_err + unit) \<times> http_log" where
  "CreateOpaqueSecret C S k ns name labels data l =
     (let q = create_secret_request C k ns name labels data in
      case cd_parse_url C (q_url q) of
        Some err \<Rightarrow> (Inl err, l)
      | None \<Rightarrow>
          (case send S q l of
             (Inl err, l) \<Rightarrow> (Inl err, l)
           | (Inr resp, l) \<Rightarrow>
               if p_code resp = 409 then (Inr (), l)
               else if p_code resp \<ge> 300
               then (Inl (Errorf (''create secret '' @ ns @ ''/'' @ name @ '': '' @ p_status resp @ '': '' @ p_body resp)), l)
               else (Inr (), l)))"

section \<open>The bootstrap flow\<close>

text \<open>The slice of the store that the flow uses, and its provider.\<close>

record 's StoreAPI =
  sa_GetOrg :: "string \<Rightarrow> 's \<Rightarrow> (go_err + org_row) \<times> 's"
  sa_GetProject :: "string \<Rightarrow> string list option \<Rightarrow> 's \<Rightarrow> (go_err + project_row \<times> org_row option) \<times> 's"
  sa_DeriveStatus :: "string \<Rightarrow> uuid \<Rightarrow> bool \<Rightarrow> string list \<Rightarrow> 's \<Rightarrow> (string \<times> string) \<times> 's"

definition store_api :: "world StoreAPI" where
  "store_api = \<lparr>sa_GetOrg = GetOrg, sa_GetProject = GetProject, sa_DeriveStatus = DeriveStatus\<rparr>"

text \<open>The process around the flow: server, codecs, entropy, environment variables, mounted files,
  and, per reading, the clock and whether the context is cancelled when the poll waits for its ticker.\<close>

record boot_env =
  be_server :: http_server
  be_codec :: codec
  be_rand :: rand
  be_getenv :: "string \<rightharpoonup> string"
  be_files :: "string \<Rightarrow> go_err + string"
  be_pem_ok :: "string \<Rightarrow> bool"
  be_clock :: "nat \<Rightarrow> instant"
  be_cancel :: "nat \<Rightarrow> go_err option"
  be_uuid :: uuid_lib

record 's boot =
  bt_store :: 's
  bt_log :: http_log
  bt_draws :: nat
  bt_reads :: nat

definition defaultStatusTimeout :: int where "defaultStatusTimeout = 5 * minute"

definition read_clock :: "boot_env \<Rightarrow> 's boot \<Rightarrow> instant \<times> 's boot" where
  "read_clock E s = (be_clock E (bt_reads s), s\<lparr>bt_reads := Suc (bt_reads s)\<rparr>)"

text \<open>The polling loop; it has no bound of its own.\<close>

partial_function (option) wait_loop ::
  "boot_env \<Rightarrow> 's StoreAPI \<Rightarrow> string \<Rightarrow> uuid \<Rightarrow> string list \<Rightarrow> instant \<Rightarrow> 's boot \<Rightarrow> ((go_err + unit) \<times> 's boot) option" where
  [code]: "wait_loop E A resourceType i controllers deadline s =
     (let r = sa_DeriveStatus A resourceType i False controllers (bt_store s);
          status = fst (fst r); msg = snd (fst r); s1 = s\<lparr>bt_store := snd r\<rparr>
      in if status = ''STATUS_INDICATION_IDLE'' then Some (Inr (), s1)
         else
           let c = read_clock E s1 in
           if fst c > deadline
           then Some (Inl (Errorf (resourceType @ '' '' @ uuid_string (be_uuid E) i @ '' not IDLE after 5m0s (status='' @
                        status @ '', msg='' @ quote msg @ '')'')), snd c)
           else case be_cancel E (bt_reads (snd c)) of
                  Some err \<Rightarrow> Some (Inl err, snd c)
                | None \<Rightarrow> wait_loop E A resourceType i controllers deadline (snd c))"

definition waitForIdle ::
  "boot_env \<Rightarrow> 's StoreAPI \<Rightarrow> string \<Rightarrow> uuid \<Rightarrow> string list \<Rightarrow> 's boot \<Rightarrow> ((go_err + unit) \<times> 's boot) option" where
  "waitForIdle E A resourceType i controllers s =
     (let c = read_clock E s in
      wait_loop E A resourceType i controllers (fst c + defaultStatusTimeout) (snd c))"

text \<open>A client call on the state of the flow.\<close>

definition call :: "(http_log \<Rightarrow> 'a \<times> http_log) \<Rightarrow> 's boot \<Rightarrow> 'a \<times> 's boot" where
  "call f s = (case f (bt_log s) of (a, l) \<Rightarrow> (a, s\<lparr>bt_log := l\<rparr>))"

definition tenant_admin :: "BootstrapConfig \<Rightarrow> string \<Rightarrow> KCUser" where
  "tenant_admin b orgName =
     \<lparr>ku_ID = [], ku_Username = TenantAdminUser b, ku_Email = TenantAdminUser b @ ''@'' @ orgName @ ''.com'',
      ku_FirstName = TenantAdminUser b, ku_LastName = TenantAdminUser b, ku_Enabled = True, ku_EmailVerified = True\<rparr>"

definition secret_labels :: "BootstrapConfig \<Rightarrow> string \<Rightarrow> (string \<times> string) list" where
  "secret_labels b orgName = [(''app'', ''tenant-init''), (''org'', orgName), (''username'', TenantAdminUser b)]"

text \<open>The part of \<open>ensureUserAndPassword\<close> after the user's id is known.\<close>

definition set_and_store ::
  "boot_env \<Rightarrow> KeycloakClient \<Rightarrow> KubeClient \<Rightarrow> BootstrapConfig \<Rightarrow> string \<Rightarrow> string \<Rightarrow> string \<Rightarrow> string option
     \<Rightarrow> 's boot \<Rightarrow> (go_err + string \<times> string) \<times> 's boot" where
  "set_and_store E kc kube b orgName secretNS userID stored s =
     (case (case stored of
              Some v \<Rightarrow> (Inr v, s)
            | None \<Rightarrow> (case GeneratePassword (be_rand E) (bt_draws s) of (res, n) \<Rightarrow> (res, s\<lparr>bt_draws := n\<rparr>))) of
        (Inl err, s) \<Rightarrow> (Inl (wrapf ''generate password'' err), s)
      | (Inr password, s) \<Rightarrow>
          (case call (SetPassword (be_codec E) (be_server E) kc userID password) s of
             (Inl err, s) \<Rightarrow> (Inl (wrapf ''set password'' err), s)
           | (Inr _, s) \<Rightarrow>
               if stored \<noteq> None then (Inr (userID, password), s)
               else (case call (CreateOpaqueSecret (be_codec E) (be_server E) kube secretNS (SecretName b)
                            (secret_labels b orgName) [(''admin-password'', password)]) s of
                       (Inl err, s) \<Rightarrow> (Inl (wrapf ''create password secret'' err), s)
                     | (Inr _, s) \<Rightarrow> (Inr (userID, password), s))))"

definition ensureUserAndPassword ::
  "boot_env \<Rightarrow> KeycloakClient \<Rightarrow> KubeClient \<Rightarrow> BootstrapConfig \<Rightarrow> string \<Rightarrow> string
     \<Rightarrow> 's boot \<Rightarrow> (go_err + string \<times> string) \<times> 's boot" where
  "ensureUserAndPassword E kc kube b orgName secretNS s =
     (case call (FindUserByUsername (be_codec E) (be_server E) kc (TenantAdminUser b)) s of
        (Inl err, s) \<Rightarrow> (Inl (wrapf ''lookup user'' err), s)
      | (Inr existing, s) \<Rightarrow>
          (case call (GetSecretValue (be_codec E) (be_server E) kube secretNS (SecretName b) ''admin-password'') s of
             (Inl err, s) \<Rightarrow> (Inl (wrapf ''read existing password secret'' err), s)
           | (Inr stored, s) \<Rightarrow>
               (case existing of
                  Some u \<Rightarrow>
                    (case stored of
                       Some v \<Rightarrow> (Inr (ku_ID u, v), s)
                     | None \<Rightarrow> set_and_store E kc kube b orgName secretNS (ku_ID u) None s)
                | None \<Rightarrow>
                    (case call (CreateUser (be_codec E) (be_server E) kc (tenant_admin b orgName)) s of
                       (Inl err, s) \<Rightarrow> (Inl (wrapf ''create user'' err), s)
                     | (Inr i, s) \<Rightarrow> set_and_store E kc kube b orgName secretNS i stored s))))"

fun addUserToGroups ::
  "boot_env \<Rightarrow> KeycloakClient \<Rightarrow> string \<Rightarrow> string \<Rightarrow> string list \<Rightarrow> 's boot \<Rightarrow> (go_err + unit) \<times> 's boot" where
  "addUserToGroups E kc userID uuidPrefix [] s = (Inr (), s)"
| "addUserToGroups E kc userID uuidPrefix (name # names) s =
     (let fullName = uuidPrefix @ ''_'' @ name in
      case call (GetGroupByPath (be_codec E) (be_server E) kc fullName) s of
        (Inl err, s) \<Rightarrow> (Inl (wrapf (''get group '' @ quote fullName) err), s)
      | (Inr g, s) \<Rightarrow>
          (case call (AddUserToGroup (be_codec E) (be_server E) kc userID (kg_ID g)) s of
             (Inl err, s) \<Rightarrow> (Inl (wrapf (''add user to group '' @ quote fullName) err), s)
           | (Inr _, s) \<Rightarrow> addUserToGroups E kc userID uuidPrefix names s))"

text \<open>\<open>Run\<close> from step 3 on: the clients, the user and the groups.\<close>

definition provision_admin ::
  "boot_env \<Rightarrow> BootstrapConfig \<Rightarrow> string \<Rightarrow> org_row \<Rightarrow> project_row \<Rightarrow> 's boot \<Rightarrow> (go_err + unit) \<times> 's boot" where
  "provision_admin E b orgName o' p s =
     (case NewInClusterKubeClient (be_getenv E) (be_files E) (be_pem_ok E) of
        Inl err \<Rightarrow> (Inl (wrapf ''k8s client'' err), s)
      | Inr kube \<Rightarrow>
     (case call (GetSecretValue (be_codec E) (be_server E) kube (KeycloakNamespace b) (KeycloakService b) ''admin-password'') s of
        (Inl err, s) \<Rightarrow> (Inl (wrapf ''read keycloak admin secret'' err), s)
      | (Inr pass, s) \<Rightarrow>
          if pass = None \<or> pass = Some []
          then (Inl (Errorf (''keycloak admin-password not found in '' @ KeycloakNamespace b @ ''/'' @ KeycloakService b)), s)
          else
     (case call (NewKeycloakClient (be_codec E) (be_server E) (KeycloakBaseURL b) (KeycloakRealm b) (KeycloakAdminUser b) (the pass)) s of
        (Inl err, s) \<Rightarrow> (Inl (wrapf ''keycloak login'' err), s)
      | (Inr kc, s) \<Rightarrow>
          let secretNS = (if SecretNamespace b = [] then DefaultNamespace kube else SecretNamespace b) in
     (case ensureUserAndPassword E kc kube b orgName secretNS s of
        (Inl err, s) \<Rightarrow> (Inl err, s)
      | (Inr (userID, password), s) \<Rightarrow>
     (case addUserToGroups E kc userID (uuid_string (be_uuid E) (org_id o')) (ProjectAdminGroups b) s of
        (Inl err, s) \<Rightarrow> (Inl (wrapf ''add org admin groups'' err), s)
      | (Inr _, s) \<Rightarrow>
     (case addUserToGroups E kc userID (uuid_string (be_uuid E) (proj_id p)) (ProjectEdgeGroups b) s of
        (Inl err, s) \<Rightarrow> (Inl (wrapf ''add project edge groups'' err), s)
      | (Inr _, s) \<Rightarrow> (Inr (), s)))))))"

definition Run ::
  "boot_env \<Rightarrow> 's StoreAPI \<Rightarrow> Config \<Rightarrow> BootstrapConfig \<Rightarrow> string \<Rightarrow> string \<Rightarrow> 's boot
     \<Rightarrow> ((go_err + unit) \<times> 's boot) option" where
  "Run E A cfg b orgName projectName s =
     (if \<not> Enabled b then Some (Inr (), s)
      else if orgName = [] \<or> projectName = [] then Some (Inr (), s)
      else
     (case sa_GetOrg A orgName (bt_store s) of
        (Inl err, w) \<Rightarrow> Some (Inl (wrapf (''get org '' @ quote orgName) err), s\<lparr>bt_store := w\<rparr>)
      | (Inr o', w) \<Rightarrow>
     (case sa_GetProject A projectName (Some [orgName]) w of
        (Inl err, w) \<Rightarrow> Some (Inl (wrapf (''get project '' @ quote projectName) err), s\<lparr>bt_store := w\<rparr>)
      | (Inr (p, _), w) \<Rightarrow>
     (case waitForIdle E A ''org'' (org_id o') (ControllersForResource cfg ''org'') (s\<lparr>bt_store := w\<rparr>) of
        None \<Rightarrow> None
      | Some (Inl err, s) \<Rightarrow> Some (Inl (wrapf ''wait for org IDLE'' err), s)
      | Some (Inr _, s) \<Rightarrow>
     (case waitForIdle E A ''project'' (proj_id p) (ControllersForResource cfg ''project'') s of
        None \<Rightarrow> None
      | Some (Inl err, s) \<Rightarrow> Some (Inl (wrapf ''wait for project IDLE'' err), s)
      | Some (Inr _, s) \<Rightarrow> Some (provision_admin E b orgName o' p s))))))"

section \<open>The password generator\<close>

lemma fill_ok:
  assumes "rand_ok R" and "fill R css n = (Inr pw, n')"
  shows "list_all2 (\<lambda>c cs. c \<in> set cs) pw css"
  using assms(2)
proof (induction css arbitrary: n pw)
  case Nil
  then show ?case by simp
next
  case (Cons cs css)
  then obtain c n1 pw' where c: "randChar R cs n = (Inr c, n1)" "fill R css n1 = (Inr pw', n')" "pw = c # pw'"
    by (auto split: prod.splits sum.splits)
  from c(1) assms(1) have "c \<in> set cs" by (auto simp: randChar_def rand_ok_def split: sum.splits)
  with Cons.IH [OF c(2)] c(3) show ?case by simp
qed

lemma list_all2_mem:
  assumes "list_all2 P xs ys"
  shows "x \<in> set xs \<Longrightarrow> \<exists>y \<in> set ys. P x y" and "y \<in> set ys \<Longrightarrow> \<exists>x \<in> set xs. P x y"
  using assms by (induction xs ys rule: list_all2_induct) auto

lemma shuffle_from_perm:
  assumes "rand_ok R" and "i < length data" and "shuffle_from R i data n = (Inr data', n')"
  shows "mset data' = mset data"
  using assms(2,3)
proof (induction i arbitrary: data n)
  case 0
  then show ?case by simp
next
  case (Suc i)
  then obtain j where j: "R n (Suc (Suc i)) = Inr j"
    and s: "shuffle_from R i (data[Suc i := data ! j, j := data ! Suc i]) (Suc n) = (Inr data', n')"
    by (auto split: sum.splits)
  from j assms(1) have "j < Suc (Suc i)" by (auto simp: rand_ok_def)
  with Suc.IH [OF _ s] Suc.prems(1) show ?case by (simp add: mset_swap)
qed

lemma shuffle_perm:
  "rand_ok R \<Longrightarrow> shuffle R data n = (Inr data', n') \<Longrightarrow> mset data' = mset data"
  unfolding shuffle_def by (cases data) (auto dest: shuffle_from_perm [rotated 2])

definition alphabet :: string where
  "alphabet = uppercaseChars @ lowercaseChars @ digitChars @ specialChars"

lemma GeneratePassword_shape:
  assumes "rand_ok R" and "GeneratePassword R n = (Inr pw, n')"
  shows "length pw = 16 \<and> set pw \<subseteq> set alphabet \<and>
    (\<forall>cs \<in> set [uppercaseChars, lowercaseChars, digitChars, specialChars]. \<exists>c \<in> set pw. c \<in> set cs)"
proof -
  let ?css = "[uppercaseChars, lowercaseChars, digitChars, specialChars] @ replicate 12 alphabet"
  from assms(2) obtain d n1 where d: "fill R ?css n = (Inr d, n1)" and s: "shuffle R d n1 = (Inr pw, n')"
    by (auto simp: GeneratePassword_def passwordLength_def alphabet_def Let_def split: prod.splits sum.splits)
  have m: "mset pw = mset d" by (rule shuffle_perm [OF assms(1) s])
  then have set: "set pw = set d" "length pw = length d" by (auto dest: mset_eq_setD mset_eq_length)
  note l = fill_ok [OF assms(1) d]
  then have "length d = 16" by (simp add: list_all2_lengthD)
  moreover have "set cs \<subseteq> set alphabet" if "cs \<in> set ?css" for cs
    using that by (auto simp: alphabet_def)
  with list_all2_mem(1) [OF l] have "set d \<subseteq> set alphabet" by fastforce
  moreover have "\<exists>c \<in> set d. c \<in> set cs" if "cs \<in> set [uppercaseChars, lowercaseChars, digitChars, specialChars]" for cs
  proof -
    from that have "cs \<in> set ?css" by auto
    from list_all2_mem(2) [OF l this] show ?thesis .
  qed
  ultimately show ?thesis using set by simp
qed

lemma fill_total: "\<forall>n m. m > 0 \<longrightarrow> \<not> isl (R n m) \<Longrightarrow> [] \<notin> set css \<Longrightarrow> \<exists>pw n'. fill R css n = (Inr pw, n') \<and> length pw = length css"
proof (induction css arbitrary: n)
  case (Cons cs css)
  have "\<not> isl (R n (length cs))" using Cons.prems by (cases cs) auto
  then obtain k where "R n (length cs) = Inr k" by (cases "R n (length cs)") auto
  moreover obtain pw n' where "fill R css (Suc n) = (Inr pw, n')" "length pw = length css"
    using Cons.IH [of "Suc n"] Cons.prems by auto
  ultimately show ?case by (simp add: randChar_def)
qed simp

lemma shuffle_from_total: "\<forall>n m. m > 0 \<longrightarrow> \<not> isl (R n m) \<Longrightarrow> \<exists>d n'. shuffle_from R i data n = (Inr d, n')"
proof (induction i arbitrary: data n)
  case (Suc i)
  have "\<not> isl (R n (Suc (Suc i)))" using Suc.prems by simp
  then obtain j where "R n (Suc (Suc i)) = Inr j" by (cases "R n (Suc (Suc i))") auto
  with Suc show ?case by simp
qed simp

section \<open>The polling loop\<close>

lemma wait_loop_returns:
  assumes "\<forall>m \<ge> n. deadline < be_clock E m"
  shows "\<exists>res. wait_loop E A rt i cs deadline s = Some res"
proof (induction "n - bt_reads s" arbitrary: s rule: less_induct)
  case less
  let ?s1 = "snd (read_clock E (s\<lparr>bt_store := snd (sa_DeriveStatus A rt i False cs (bt_store s))\<rparr>))"
  have r: "bt_reads ?s1 = Suc (bt_reads s)" by (simp add: read_clock_def)
  show ?case
  proof (cases "bt_reads s < n")
    case True
    then have "n - bt_reads ?s1 < n - bt_reads s" using r by simp
    from less.hyps [OF this] show ?thesis
      by (subst wait_loop.simps) (auto simp: Let_def split: option.split)
  next
    case False
    with assms show ?thesis
      by (subst wait_loop.simps) (auto simp: Let_def read_clock_def split: option.split)
  qed
qed


text \<open>What a wait that returned has done: nothing to the servers, and it reports success only
  after an IDLE status.\<close>

definition waited :: "'s StoreAPI \<Rightarrow> string \<Rightarrow> uuid \<Rightarrow> string list \<Rightarrow> 's boot \<Rightarrow> (go_err + unit) \<times> 's boot \<Rightarrow> bool" where
  "waited A rt i cs s res \<longleftrightarrow>
     bt_log (snd res) = bt_log s \<and> bt_draws (snd res) = bt_draws s \<and>
     (fst res = Inr () \<longrightarrow> (\<exists>w. fst (fst (sa_DeriveStatus A rt i False cs w)) = ''STATUS_INDICATION_IDLE'' \<and>
        bt_store (snd res) = snd (sa_DeriveStatus A rt i False cs w)))"

lemma waited_step:
  "bt_log s1 = bt_log s \<Longrightarrow> bt_draws s1 = bt_draws s \<Longrightarrow> waited A rt i cs s1 res \<Longrightarrow> waited A rt i cs s res"
  by (simp add: waited_def)

lemma wait_loop_result:
  assumes "wait_loop E A rt i cs deadline s = Some res"
  shows "waited A rt i cs s res"
proof (rule wait_loop.raw_induct [OF _ assms, where P = "\<lambda>E A rt i cs deadline s res. waited A rt i cs s res"], goal_cases)
  case (1 f E A rt i cs deadline s res)
  let ?r = "sa_DeriveStatus A rt i False cs (bt_store s)"
  let ?c = "read_clock E (s\<lparr>bt_store := snd ?r\<rparr>)"
  have c: "bt_log (snd ?c) = bt_log s" "bt_draws (snd ?c) = bt_draws s" by (simp_all add: read_clock_def)
  show ?case
  proof (cases "fst (fst ?r) = ''STATUS_INDICATION_IDLE''")
    case True
    with 1(2) have "res = (Inr (), s\<lparr>bt_store := snd ?r\<rparr>)" by (simp add: Let_def)
    with True show ?thesis by (auto simp: waited_def)
  next
    case False
    show ?thesis
    proof (cases "deadline < fst ?c \<or> be_cancel E (bt_reads (snd ?c)) \<noteq> None")
      case True
      with 1(2) False have "(\<exists>e. fst res = Inl e) \<and> snd res = snd ?c"
        by (auto simp: Let_def split: if_splits option.splits)
      with c show ?thesis by (auto simp: waited_def)
    next
      case recurse: False
      with 1(2) False have "f E A rt i cs deadline (snd ?c) = Some res" by (simp add: Let_def)
      from 1(1) [OF this] show ?thesis by (rule waited_step [OF c])
    qed
  qed
qed

lemma waitForIdle_result:
  assumes "waitForIdle E A rt i cs s = Some res"
  shows "waited A rt i cs s res"
  using wait_loop_result [OF assms [unfolded waitForIdle_def Let_def]]
  by (rule waited_step [rotated 2]) (simp_all add: read_clock_def)

lemma waitForIdle_returns:
  "\<forall>t. \<exists>n. \<forall>m \<ge> n. t < be_clock E m \<Longrightarrow> \<exists>res. waitForIdle E A rt i cs s = Some res"
  unfolding waitForIdle_def Let_def by (meson wait_loop_returns)

section \<open>The requests that write\<close>

definition sends :: "http_log \<Rightarrow> http_log \<Rightarrow> http_log \<Rightarrow> bool" where
  "sends l l' ws \<longleftrightarrow> (\<exists>qs. l' = l @ qs \<and> filter (\<lambda>q. q_method q \<noteq> ''GET'') qs = ws)"

lemma sends_refl [simp]: "sends l l ws \<longleftrightarrow> ws = []"
  by (auto simp: sends_def)

lemma sends_one: "sends l (l @ [q]) (if q_method q \<noteq> ''GET'' then [q] else [])"
  by (simp add: sends_def)

lemma sends_trans: "sends l l1 a \<Longrightarrow> sends l1 l2 b \<Longrightarrow> sends l l2 (a @ b)"
  by (auto simp: sends_def)

lemma sends_prefix: "sends l l' ws \<Longrightarrow> prefix l l'"
  by (auto simp: sends_def)

lemma kc_do_sends:
  assumes "kc_do C S k m url body out zero l = ((code, res), l')" and "\<not> isl res \<or> code \<noteq> 0"
  shows "sends l l' (if m \<noteq> ''GET'' then [kc_request k m url body] else [])"
proof -
  from assms have "l' = l @ [kc_request k m url body]"
    by (auto simp: kc_do_def send_def split: option.splits sum.splits if_splits)
  then show ?thesis using sends_one [of l "kc_request k m url body"] by (simp add: kc_request_def)
qed

definition create_user_request :: "codec \<Rightarrow> KeycloakClient \<Rightarrow> KCUser \<Rightarrow> http_request" where
  "create_user_request C k u = kc_request k ''POST'' (adminURL k ''/users'') (Some (cd_user C u))"

definition set_password_request :: "codec \<Rightarrow> KeycloakClient \<Rightarrow> string \<Rightarrow> string \<Rightarrow> http_request" where
  "set_password_request C k uid pw =
     kc_request k ''PUT'' (adminURL k (''/users/'' @ uid @ ''/reset-password'')) (Some (cd_password C pw))"

definition membership_request :: "KeycloakClient \<Rightarrow> string \<Rightarrow> string \<Rightarrow> http_request" where
  "membership_request k uid gid = kc_request k ''PUT'' (adminURL k (''/users/'' @ uid @ ''/groups/'' @ gid)) None"

lemma FindUserByUsername_sends:
  "FindUserByUsername C S k n l = (Inr u, l') \<Longrightarrow> sends l l' []"
  by (auto simp: FindUserByUsername_def split: prod.splits sum.splits dest!: kc_do_sends)

lemma CreateUser_sends:
  assumes "CreateUser C S k u l = (Inr i, l')"
  shows "\<exists>l1 v. sends l l1 [create_user_request C k u] \<and> FindUserByUsername C S k (ku_Username u) l1 = (Inr (Some v), l') \<and> i = ku_ID v"
proof -
  obtain code res l1 where d: "kc_do C S k ''POST'' (adminURL k ''/users'') (Some (cd_user C u)) None () l = ((code, res), l1)"
    by (metis prod.collapse)
  from assms d have "\<not> isl res \<or> code \<noteq> 0" by (auto simp: CreateUser_def split: sum.splits if_splits)
  from kc_do_sends [OF d this] have "sends l l1 [create_user_request C k u]" by (simp add: create_user_request_def)
  moreover from assms d obtain v where "FindUserByUsername C S k (ku_Username u) l1 = (Inr (Some v), l')" "i = ku_ID v"
    by (auto simp: CreateUser_def split: prod.splits sum.splits if_splits option.splits)
  ultimately show ?thesis by blast
qed

lemma SetPassword_sends:
  "SetPassword C S k uid pw l = (Inr x, l') \<Longrightarrow> sends l l' [set_password_request C k uid pw]"
  unfolding SetPassword_def set_password_request_def by (auto split: prod.splits dest!: kc_do_sends)

lemma GetGroupByPath_sends: "GetGroupByPath C S k p l = (Inr g, l') \<Longrightarrow> sends l l' []"
  by (auto simp: GetGroupByPath_def Let_def split: prod.splits sum.splits if_splits dest!: kc_do_sends)

lemma AddUserToGroup_sends:
  "AddUserToGroup C S k uid gid l = (Inr x, l') \<Longrightarrow> sends l l' [membership_request k uid gid]"
  unfolding AddUserToGroup_def membership_request_def by (auto split: prod.splits dest!: kc_do_sends)

lemma GetSecretValue_sends: "GetSecretValue C S k ns n key l = (Inr v, l') \<Longrightarrow> sends l l' []"
  unfolding GetSecretValue_def Let_def
  using sends_one [of l "get_secret_request k ns n"]
  by (auto simp: send_def get_secret_request_def split: option.splits sum.splits if_splits)

lemma CreateOpaqueSecret_sends:
  "CreateOpaqueSecret C S k ns n labels data l = (Inr x, l') \<Longrightarrow>
     sends l l' [create_secret_request C k ns n labels data]"
  unfolding CreateOpaqueSecret_def Let_def
  using sends_one [of l "create_secret_request C k ns n labels data"]
  by (auto simp: send_def create_secret_request_def split: option.splits sum.splits if_splits)

lemma NewKeycloakClient_sends:
  "NewKeycloakClient C S url realm u p l = (Inr k, l') \<Longrightarrow>
     sends l l' [login_request url realm u p] \<and> kc_baseURL k = url \<and> kc_realm k = realm"
  unfolding NewKeycloakClient_def Let_def
  using sends_one [of l "login_request url realm u p"]
  by (auto simp: send_def login_request_def split: option.splits sum.splits if_splits)

lemma callD:
  assumes "call f s = (a, s')"
  shows "f (bt_log s) = (a, bt_log s') \<and> bt_draws s' = bt_draws s \<and> bt_store s' = bt_store s"
  using assms by (auto simp: call_def split: prod.splits)

text \<open>What the user step writes, given what it found: the user if there is none, then, unless
  user and password are both there, the password and (if it was generated) the Secret.\<close>

definition user_writes ::
  "codec \<Rightarrow> KeycloakClient \<Rightarrow> KubeClient \<Rightarrow> BootstrapConfig \<Rightarrow> string \<Rightarrow> string \<Rightarrow> KCUser option
     \<Rightarrow> string option \<Rightarrow> string \<Rightarrow> string \<Rightarrow> http_log" where
  "user_writes C kc kube b orgName ns existing stored uid pw =
     (if existing = None then [create_user_request C kc (tenant_admin b orgName)] else []) @
     (if existing \<noteq> None \<and> stored \<noteq> None then []
      else set_password_request C kc uid pw #
        (if stored = None
         then [create_secret_request C kube ns (SecretName b) (secret_labels b orgName) [(''admin-password'', pw)]]
         else []))"

text \<open>The password is the stored one, or the next one that is drawn when none is stored.\<close>

definition password_source :: "rand \<Rightarrow> nat \<Rightarrow> string option \<Rightarrow> string \<Rightarrow> bool" where
  "password_source R n stored pw \<longleftrightarrow>
     (case stored of Some v \<Rightarrow> pw = v | None \<Rightarrow> fst (GeneratePassword R n) = Inr pw)"

text \<open>The user is the one that was found, or else the one that is found right after its creation.\<close>

definition user_source ::
  "codec \<Rightarrow> http_server \<Rightarrow> KeycloakClient \<Rightarrow> BootstrapConfig \<Rightarrow> string \<Rightarrow> http_log \<Rightarrow> KCUser option \<Rightarrow> string \<Rightarrow> bool" where
  "user_source C S kc b orgName l existing uid \<longleftrightarrow>
     (case existing of
        Some u \<Rightarrow> uid = ku_ID u
      | None \<Rightarrow> \<exists>k u. sends l k [create_user_request C kc (tenant_admin b orgName)] \<and>
          fst (FindUserByUsername C S kc (TenantAdminUser b) k) = Inr (Some u) \<and> uid = ku_ID u)"

text \<open>Each group id is the answer to a lookup of the path, made after the first log and before the second.\<close>

definition group_source ::
  "codec \<Rightarrow> http_server \<Rightarrow> KeycloakClient \<Rightarrow> http_log \<Rightarrow> http_log \<Rightarrow> string \<Rightarrow> string \<Rightarrow> bool" where
  "group_source C S kc l l' path gid \<longleftrightarrow>
     (\<exists>k g k'. prefix l k \<and> GetGroupByPath C S kc path k = (Inr g, k') \<and> prefix k' l' \<and> gid = kg_ID g \<and> gid \<noteq> [])"

lemma group_source_mono:
  "group_source C S kc l l' path gid \<Longrightarrow> prefix l0 l \<Longrightarrow> prefix l' l1 \<Longrightarrow> group_source C S kc l0 l1 path gid"
  unfolding group_source_def by (blast intro: prefix_order.trans)

definition group_paths :: "string \<Rightarrow> string list \<Rightarrow> string list" where
  "group_paths pre names = map (\<lambda>name. pre @ ''_'' @ name) names"

lemma set_and_store_sends:
  assumes "set_and_store E kc kube b orgName ns uid stored s = (Inr (uid', pw), s')"
  shows "uid' = uid \<and> password_source (be_rand E) (bt_draws s) stored pw \<and>
    sends (bt_log s) (bt_log s') (set_password_request (be_codec E) kc uid pw #
      (if stored = None
       then [create_secret_request (be_codec E) kube ns (SecretName b) (secret_labels b orgName) [(''admin-password'', pw)]]
       else []))"
proof -
  from assms obtain p s1 where p: "(case stored of Some v \<Rightarrow> (Inr v, s)
      | None \<Rightarrow> (case GeneratePassword (be_rand E) (bt_draws s) of (res, n) \<Rightarrow> (res, s\<lparr>bt_draws := n\<rparr>))) = (Inr p, s1)"
    by (auto simp: set_and_store_def split: prod.splits sum.splits)
  then have l1: "bt_log s1 = bt_log s" and src: "password_source (be_rand E) (bt_draws s) stored p"
    by (auto simp: password_source_def split: option.splits prod.splits)
  from assms p obtain s2 where s2: "call (SetPassword (be_codec E) (be_server E) kc uid p) s1 = (Inr (), s2)"
    by (auto simp: set_and_store_def split: prod.splits sum.splits)
  have sp: "sends (bt_log s) (bt_log s2) [set_password_request (be_codec E) kc uid p]"
    using callD [OF s2] l1 SetPassword_sends by metis
  show ?thesis
  proof (cases "stored = None")
    case False
    with assms p s2 sp src show ?thesis by (auto simp: set_and_store_def)
  next
    case True
    with assms p s2 obtain s3 where s3: "call (CreateOpaqueSecret (be_codec E) (be_server E) kube ns (SecretName b)
        (secret_labels b orgName) [(''admin-password'', p)]) s2 = (Inr (), s3)" and eq: "uid' = uid" "pw = p" "s' = s3"
      by (auto simp: set_and_store_def split: prod.splits sum.splits)
    from callD [OF s3] CreateOpaqueSecret_sends have "sends (bt_log s2) (bt_log s3)
      [create_secret_request (be_codec E) kube ns (SecretName b) (secret_labels b orgName) [(''admin-password'', p)]]" by metis
    from sends_trans [OF sp this] True src eq show ?thesis by simp
  qed
qed

lemma ensureUserAndPassword_sends:
  assumes "ensureUserAndPassword E kc kube b orgName ns s = (Inr (uid, pw), s')"
  shows "\<exists>existing stored l1 l2.
    FindUserByUsername (be_codec E) (be_server E) kc (TenantAdminUser b) (bt_log s) = (Inr existing, l1) \<and>
    GetSecretValue (be_codec E) (be_server E) kube ns (SecretName b) ''admin-password'' l1 = (Inr stored, l2) \<and>
    user_source (be_codec E) (be_server E) kc b orgName l2 existing uid \<and>
    password_source (be_rand E) (bt_draws s) stored pw \<and>
    sends (bt_log s) (bt_log s') (user_writes (be_codec E) kc kube b orgName ns existing stored uid pw)"
proof -
  from assms obtain existing s1 where f: "call (FindUserByUsername (be_codec E) (be_server E) kc (TenantAdminUser b)) s = (Inr existing, s1)"
    by (auto simp: ensureUserAndPassword_def split: prod.splits sum.splits)
  with assms obtain stored s2 where g: "call (GetSecretValue (be_codec E) (be_server E) kube ns (SecretName b) ''admin-password'') s1 = (Inr stored, s2)"
    by (auto simp: ensureUserAndPassword_def split: prod.splits sum.splits)
  have r: "sends (bt_log s) (bt_log s2) []"
    using sends_trans [of "bt_log s" "bt_log s1" "[]" "bt_log s2" "[]"] callD [OF f] callD [OF g]
      FindUserByUsername_sends GetSecretValue_sends by (metis append_Nil)
  note reads = conjunct1 [OF callD [OF f]] conjunct1 [OF callD [OF g]]
  have draws: "bt_draws s2 = bt_draws s" using callD [OF f] callD [OF g] by simp
  have "user_source (be_codec E) (be_server E) kc b orgName (bt_log s2) existing uid \<and>
    password_source (be_rand E) (bt_draws s) stored pw \<and>
    sends (bt_log s) (bt_log s') (user_writes (be_codec E) kc kube b orgName ns existing stored uid pw)"
  proof (cases existing)
    case (Some u)
    show ?thesis
    proof (cases stored)
      case st: (Some v)
      with assms f g Some have "uid = ku_ID u" "pw = v" "s' = s2" by (simp_all add: ensureUserAndPassword_def)
      with r Some st show ?thesis by (simp add: user_writes_def password_source_def user_source_def)
    next
      case None
      with assms f g Some have "set_and_store E kc kube b orgName ns (ku_ID u) None s2 = (Inr (uid, pw), s')"
        by (simp add: ensureUserAndPassword_def)
      from set_and_store_sends [OF this] have k: "uid = ku_ID u" "password_source (be_rand E) (bt_draws s) None pw"
        "sends (bt_log s2) (bt_log s') (user_writes (be_codec E) kc kube b orgName ns existing None uid pw)"
        using Some draws by (simp_all add: user_writes_def)
      from sends_trans [OF r k(3)] k Some None show ?thesis by (simp add: user_source_def)
    qed
  next
    case None
    with assms f g obtain i s3 where c: "call (CreateUser (be_codec E) (be_server E) kc (tenant_admin b orgName)) s2 = (Inr i, s3)"
      and t: "set_and_store E kc kube b orgName ns i stored s3 = (Inr (uid, pw), s')"
      by (auto simp: ensureUserAndPassword_def split: prod.splits sum.splits)
    from CreateUser_sends [OF conjunct1 [OF callD [OF c]]] obtain k v where
      k: "sends (bt_log s2) k [create_user_request (be_codec E) kc (tenant_admin b orgName)]"
      "FindUserByUsername (be_codec E) (be_server E) kc (TenantAdminUser b) k = (Inr (Some v), bt_log s3)" "i = ku_ID v"
      by (auto simp: tenant_admin_def)
    from sends_trans [OF k(1) FindUserByUsername_sends [OF k(2)]]
    have "sends (bt_log s2) (bt_log s3) [create_user_request (be_codec E) kc (tenant_admin b orgName)]" by simp
    from sends_trans [OF sends_trans [OF r this]] set_and_store_sends [OF t] None
    have "sends (bt_log s) (bt_log s') (user_writes (be_codec E) kc kube b orgName ns existing stored uid pw)"
      "uid = i" "password_source (be_rand E) (bt_draws s) stored pw"
      using callD [OF c] draws by (simp_all add: user_writes_def)
    with k None show ?thesis by (auto simp: user_source_def)
  qed
  with reads show ?thesis by blast
qed

lemma addUserToGroups_sends:
  "addUserToGroups E kc uid pre names s = (Inr (), s') \<Longrightarrow>
     \<exists>gids. list_all2 (group_source (be_codec E) (be_server E) kc (bt_log s) (bt_log s')) (group_paths pre names) gids \<and>
       sends (bt_log s) (bt_log s') (map (membership_request kc uid) gids)"
proof (induction names arbitrary: s)
  case Nil
  then show ?case by (simp add: group_paths_def)
next
  case (Cons name names)
  then obtain g s1 where g: "call (GetGroupByPath (be_codec E) (be_server E) kc (pre @ ''_'' @ name)) s = (Inr g, s1)"
    by (auto simp: Let_def split: prod.splits sum.splits)
  with Cons.prems obtain s2 where a: "call (AddUserToGroup (be_codec E) (be_server E) kc uid (kg_ID g)) s1 = (Inr (), s2)"
    and rest: "addUserToGroups E kc uid pre names s2 = (Inr (), s')"
    by (auto simp: Let_def split: prod.splits sum.splits)
  from Cons.IH [OF rest] obtain gids where
    gids: "list_all2 (group_source (be_codec E) (be_server E) kc (bt_log s2) (bt_log s')) (group_paths pre names) gids"
    "sends (bt_log s2) (bt_log s') (map (membership_request kc uid) gids)" by blast
  have one: "sends (bt_log s) (bt_log s1) []" "sends (bt_log s1) (bt_log s2) [membership_request kc uid (kg_ID g)]"
    using callD [OF g] callD [OF a] GetGroupByPath_sends AddUserToGroup_sends by metis+
  have p: "prefix (bt_log s) (bt_log s2)" "prefix (bt_log s1) (bt_log s')"
    using sends_prefix [OF one(1)] sends_prefix [OF one(2)] sends_prefix [OF gids(2)] by (meson prefix_order.trans)+
  from callD [OF g] have "kg_ID g \<noteq> []"
    by (auto simp: GetGroupByPath_def Let_def split: prod.splits sum.splits if_splits)
  with callD [OF g] p(2) have "group_source (be_codec E) (be_server E) kc (bt_log s) (bt_log s') (pre @ ''_'' @ name) (kg_ID g)"
    unfolding group_source_def by blast
  moreover have "list_all2 (group_source (be_codec E) (be_server E) kc (bt_log s) (bt_log s')) (group_paths pre names) gids"
    by (rule list_all2_mono [OF gids(1)]) (auto intro: group_source_mono p)
  moreover from sends_trans [OF sends_trans [OF one] gids(2)]
  have "sends (bt_log s) (bt_log s') (map (membership_request kc uid) (kg_ID g # gids))" by simp
  ultimately show ?case by (intro exI [of _ "kg_ID g # gids"]) (simp add: group_paths_def)
qed

text \<open>What the flow does once the two resources are ready: where each value comes from, and the requests that write.\<close>

definition provisioned ::
  "boot_env \<Rightarrow> BootstrapConfig \<Rightarrow> string \<Rightarrow> uuid \<Rightarrow> uuid \<Rightarrow> nat \<Rightarrow> http_log \<Rightarrow> http_log \<Rightarrow> bool" where
  "provisioned E b orgName oid pid n l l' \<longleftrightarrow>
     (\<exists>kube pass kc ns existing stored uid pw gids l1 l2 l3 l4.
        NewInClusterKubeClient (be_getenv E) (be_files E) (be_pem_ok E) = Inr kube \<and>
        ns = (if SecretNamespace b = [] then DefaultNamespace kube else SecretNamespace b) \<and>
        GetSecretValue (be_codec E) (be_server E) kube (KeycloakNamespace b) (KeycloakService b) ''admin-password'' l = (Inr (Some pass), l1) \<and>
        pass \<noteq> [] \<and>
        NewKeycloakClient (be_codec E) (be_server E) (KeycloakBaseURL b) (KeycloakRealm b) (KeycloakAdminUser b) pass l1 = (Inr kc, l2) \<and>
        FindUserByUsername (be_codec E) (be_server E) kc (TenantAdminUser b) l2 = (Inr existing, l3) \<and>
        GetSecretValue (be_codec E) (be_server E) kube ns (SecretName b) ''admin-password'' l3 = (Inr stored, l4) \<and>
        user_source (be_codec E) (be_server E) kc b orgName l4 existing uid \<and>
        password_source (be_rand E) n stored pw \<and>
        list_all2 (group_source (be_codec E) (be_server E) kc l2 l')
          (group_paths (uuid_string (be_uuid E) oid) (ProjectAdminGroups b) @
           group_paths (uuid_string (be_uuid E) pid) (ProjectEdgeGroups b)) gids \<and>
        sends l l' (login_request (KeycloakBaseURL b) (KeycloakRealm b) (KeycloakAdminUser b) pass #
          user_writes (be_codec E) kc kube b orgName ns existing stored uid pw @ map (membership_request kc uid) gids))"

lemma provision_admin_sends:
  assumes "provision_admin E b orgName o' p s = (Inr (), s')"
  shows "provisioned E b orgName (org_id o') (proj_id p) (bt_draws s) (bt_log s) (bt_log s')"
proof -
  from assms obtain kube pass s1 where kube: "NewInClusterKubeClient (be_getenv E) (be_files E) (be_pem_ok E) = Inr kube"
    and pass: "call (GetSecretValue (be_codec E) (be_server E) kube (KeycloakNamespace b) (KeycloakService b) ''admin-password'') s = (Inr (Some pass), s1)"
    "pass \<noteq> []"
    by (auto simp: provision_admin_def split: prod.splits sum.splits if_splits)
  obtain ns where ns: "ns = (if SecretNamespace b = [] then DefaultNamespace kube else SecretNamespace b)" by simp
  from assms kube pass obtain kc s2 where kc: "call (NewKeycloakClient (be_codec E) (be_server E) (KeycloakBaseURL b)
      (KeycloakRealm b) (KeycloakAdminUser b) pass) s1 = (Inr kc, s2)"
    by (auto simp: provision_admin_def split: prod.splits sum.splits)
  with assms kube pass obtain uid pw s3 where u: "ensureUserAndPassword E kc kube b orgName ns s2 = (Inr (uid, pw), s3)"
    by (auto simp: provision_admin_def Let_def ns split: prod.splits sum.splits)
  with assms kube pass kc obtain s4 where
    g: "addUserToGroups E kc uid (uuid_string (be_uuid E) (org_id o')) (ProjectAdminGroups b) s3 = (Inr (), s4)"
    "addUserToGroups E kc uid (uuid_string (be_uuid E) (proj_id p)) (ProjectEdgeGroups b) s4 = (Inr (), s')"
    by (auto simp: provision_admin_def Let_def ns split: prod.splits sum.splits)
  have l1: "sends (bt_log s) (bt_log s1) []" using GetSecretValue_sends [OF conjunct1 [OF callD [OF pass(1)]]] .
  have l2: "sends (bt_log s1) (bt_log s2) [login_request (KeycloakBaseURL b) (KeycloakRealm b) (KeycloakAdminUser b) pass]"
    using NewKeycloakClient_sends [OF conjunct1 [OF callD [OF kc]]] by simp
  note l = sends_trans [OF l1 l2, unfolded append_Nil]
  have draws: "bt_draws s2 = bt_draws s" using callD [OF pass(1)] callD [OF kc] by simp
  from ensureUserAndPassword_sends [OF u] obtain existing stored k1 k2 where e:
    "FindUserByUsername (be_codec E) (be_server E) kc (TenantAdminUser b) (bt_log s2) = (Inr existing, k1)"
    "GetSecretValue (be_codec E) (be_server E) kube ns (SecretName b) ''admin-password'' k1 = (Inr stored, k2)"
    "user_source (be_codec E) (be_server E) kc b orgName k2 existing uid"
    "password_source (be_rand E) (bt_draws s) stored pw"
    "sends (bt_log s2) (bt_log s3) (user_writes (be_codec E) kc kube b orgName ns existing stored uid pw)"
    unfolding draws by blast
  from addUserToGroups_sends [OF g(1)] obtain g1 where
    g1: "list_all2 (group_source (be_codec E) (be_server E) kc (bt_log s3) (bt_log s4)) (group_paths (uuid_string (be_uuid E) (org_id o')) (ProjectAdminGroups b)) g1"
    "sends (bt_log s3) (bt_log s4) (map (membership_request kc uid) g1)" by blast
  from addUserToGroups_sends [OF g(2)] obtain g2 where
    g2: "list_all2 (group_source (be_codec E) (be_server E) kc (bt_log s4) (bt_log s')) (group_paths (uuid_string (be_uuid E) (proj_id p)) (ProjectEdgeGroups b)) g2"
    "sends (bt_log s4) (bt_log s') (map (membership_request kc uid) g2)" by blast
  from sends_trans [OF sends_trans [OF sends_trans [OF l e(5)] g1(2)] g2(2)]
  have w: "sends (bt_log s) (bt_log s') (login_request (KeycloakBaseURL b) (KeycloakRealm b) (KeycloakAdminUser b) pass #
       user_writes (be_codec E) kc kube b orgName ns existing stored uid pw @ map (membership_request kc uid) (g1 @ g2))" by simp
  have pre: "prefix (bt_log s2) (bt_log s3)" "prefix (bt_log s2) (bt_log s4)" "prefix (bt_log s4) (bt_log s')"
    using sends_prefix [OF e(5)] sends_prefix [OF g1(2)] sends_prefix [OF g2(2)] by (auto intro: prefix_order.trans)
  have "list_all2 (group_source (be_codec E) (be_server E) kc (bt_log s2) (bt_log s'))
      (group_paths (uuid_string (be_uuid E) (org_id o')) (ProjectAdminGroups b) @
       group_paths (uuid_string (be_uuid E) (proj_id p)) (ProjectEdgeGroups b)) (g1 @ g2)"
    by (intro list_all2_appendI list_all2_mono [OF g1(1)] list_all2_mono [OF g2(1)])
      (auto intro: group_source_mono pre)
  then show ?thesis
    unfolding provisioned_def
    using kube ns pass callD [OF pass(1)] callD [OF kc] e w by blast
qed

section \<open>A concrete environment\<close>

text \<open>A server that accepts every write, knows one group and one Secret with the Keycloak password,
  and knows the user once it has been created.\<close>

definition sample_users :: "http_log \<Rightarrow> string" where
  "sample_users l = (if list_ex (\<lambda>q. q_method q = ''POST'' \<and> HasSuffix (q_url q) ''/users'') l then ''u'' else [])"

definition sample_http :: http_server where
  "sample_http l =
     (let q = last l; answer = (\<lambda>c b. Inr \<lparr>p_code = c, p_status = [], p_body = b\<rparr>) in
      if q_method q = ''GET'' then
        (if HasSuffix (q_url q) ''/secrets/platform-keycloak'' then answer 200 ''s''
         else if HasSuffix (q_url q) ''&exact=true'' then answer 200 (sample_users l)
         else if Contains (q_url q) ''/group-by-path/'' then answer 200 ''g''
         else answer 404 [])
      else if HasSuffix (q_url q) ''/token'' then answer 200 ''t''
      else answer 201 [])"

definition sample_codec :: codec where
  "sample_codec =
     \<lparr>cd_parse_url = (\<lambda>_. None), cd_token = Inr, cd_user = ku_Username, cd_password = (\<lambda>p. p),
      cd_users = (\<lambda>_. Inr (Some [\<lparr>ku_ID = ''7'', ku_Username = ''tenant-admin'', ku_Email = [], ku_FirstName = [],
        ku_LastName = [], ku_Enabled = True, ku_EmailVerified = True\<rparr>])),
      cd_group = (\<lambda>_. Inr (Some \<lparr>kg_ID = ''9'', kg_Name = [], kg_Path = []\<rparr>)),
      cd_manifest = (\<lambda>m. concat (map snd (sm_Data m))), cd_secret = (\<lambda>b. Inr [(''admin-password'', EncodeToString b)])\<rparr>"

definition sample_rand :: rand where
  "sample_rand n m = (if m = 0 then Inl (Errorf ''max'') else Inr 0)"

definition sample_boot_env :: boot_env where
  "sample_boot_env =
     \<lparr>be_server = sample_http, be_codec = sample_codec, be_rand = sample_rand,
      be_getenv = [''KUBERNETES_SERVICE_HOST'' \<mapsto> ''10.0.0.1'', ''KUBERNETES_SERVICE_PORT'' \<mapsto> ''443''],
      be_files = (\<lambda>_. Inr ''f''), be_pem_ok = (\<lambda>_. True), be_clock = int, be_cancel = (\<lambda>_. None),
      be_uuid = sample_uuid\<rparr>"

definition sample_boot :: "world boot" where
  "sample_boot = \<lparr>bt_store = sample_tenant, bt_log = [], bt_draws = 0, bt_reads = 0\<rparr>"

definition no_controllers :: Config where
  "no_controllers = DefaultConfig\<lparr>Controllers := \<lparr>ctl_org = [], ctl_project = []\<rparr>\<rparr>"

definition sample_bootstrap :: BootstrapConfig where
  "sample_bootstrap = LoadConfig [''BOOTSTRAP_TENANT_ADMIN_ENABLED'' \<mapsto> '' On'', ''PROJECT_EDGE_GROUPS'' \<mapsto> ''a, ,b'']"

section \<open>Properties\<close>

text \<open>
  C29. A generated password has 16 characters of the four classes and at least one of each, for every
  entropy source that stays in range; and one is generated if the source reports no error.
\<close>

theorem GeneratePassword_is_strong:
  assumes "rand_ok R"
  shows "(\<forall>pw n'. GeneratePassword R n = (Inr pw, n') \<longrightarrow>
      length pw = 16 \<and> set pw \<subseteq> set alphabet \<and>
      (\<forall>cs \<in> set [uppercaseChars, lowercaseChars, digitChars, specialChars]. \<exists>c \<in> set pw. c \<in> set cs)) \<and>
    ((\<forall>n m. m > 0 \<longrightarrow> \<not> isl (R n m)) \<longrightarrow> (\<exists>pw n'. GeneratePassword R n = (Inr pw, n')))"
proof (intro conjI allI impI)
  fix pw n' assume "GeneratePassword R n = (Inr pw, n')"
  from GeneratePassword_shape [OF assms this]
  show "length pw = 16" "set pw \<subseteq> set alphabet"
    "\<forall>cs \<in> set [uppercaseChars, lowercaseChars, digitChars, specialChars]. \<exists>c \<in> set pw. c \<in> set cs" by simp_all
next
  assume ok: "\<forall>n m. m > 0 \<longrightarrow> \<not> isl (R n m)"
  have "[] \<notin> set ([uppercaseChars, lowercaseChars, digitChars, specialChars] @
      replicate (passwordLength - 4) (uppercaseChars @ lowercaseChars @ digitChars @ specialChars))"
    by (auto simp: uppercaseChars_def lowercaseChars_def digitChars_def specialChars_def)
  from fill_total [OF ok this] obtain d n1 where "fill R ([uppercaseChars, lowercaseChars, digitChars, specialChars] @
      replicate (passwordLength - 4) (uppercaseChars @ lowercaseChars @ digitChars @ specialChars)) n = (Inr d, n1)" by blast
  moreover obtain pw n' where "shuffle R d n1 = (Inr pw, n')" using shuffle_from_total [OF ok] unfolding shuffle_def by blast
  ultimately show "\<exists>pw n'. GeneratePassword R n = (Inr pw, n')"
    by (simp add: GeneratePassword_def Let_def passwordLength_def)
qed

lemma sample_rand_ok: "rand_ok sample_rand" "m > 0 \<Longrightarrow> \<not> isl (sample_rand n m)"
  by (auto simp: rand_ok_def sample_rand_def)

theorem GeneratePassword_is_strong_witness:
  "\<exists>pw n'. GeneratePassword sample_rand 0 = (Inr pw, n') \<and> length pw = 16"
proof -
  note strong = GeneratePassword_is_strong [OF sample_rand_ok(1), of 0]
  have "\<forall>n m. m > 0 \<longrightarrow> \<not> isl (sample_rand n m)" using sample_rand_ok(2) by blast
  with strong show ?thesis by blast
qed

text \<open>
  C20. What the bootstrap writes.  A run that reports success for an enabled configuration has sent,
  besides reads, exactly: the login with the password that the Keycloak Secret holds; the user if the lookup found none;
  unless the lookups found both user and password Secret, the password, which is the stored one or else the next one
  drawn, and with a drawn one the Secret that holds it; and one membership for each configured group, all for the
  same user, which is the one found before or after the creation.  The groups are those that the lookup answers for the
  org's id with an admin group and for the project's id with an edge group, in the order of the configuration.
\<close>

theorem Run_writes_exactly:
  assumes "Run E A cfg b orgName projectName s = Some (Inr (), s')"
    and "Enabled b" and "orgName \<noteq> []" and "projectName \<noteq> []"
  shows "\<exists>o' w p x w'. sa_GetOrg A orgName (bt_store s) = (Inr o', w) \<and>
    sa_GetProject A projectName (Some [orgName]) w = (Inr (p, x), w') \<and>
    provisioned E b orgName (org_id o') (proj_id p) (bt_draws s) (bt_log s) (bt_log s')"
proof -
  from assms obtain o' w where o: "sa_GetOrg A orgName (bt_store s) = (Inr o', w)"
    by (auto simp: Run_def split: prod.splits sum.splits)
  with assms obtain p x w1 where p: "sa_GetProject A projectName (Some [orgName]) w = (Inr (p, x), w1)"
    by (auto simp: Run_def split: prod.splits sum.splits)
  with assms o obtain s1 where s1: "waitForIdle E A ''org'' (org_id o') (ControllersForResource cfg ''org'') (s\<lparr>bt_store := w1\<rparr>) = Some (Inr (), s1)"
    by (auto simp: Run_def split: option.splits sum.splits)
  with assms o p obtain s2 where s2: "waitForIdle E A ''project'' (proj_id p) (ControllersForResource cfg ''project'') s1 = Some (Inr (), s2)"
    by (auto simp: Run_def split: option.splits sum.splits)
  with assms o p s1 have "provision_admin E b orgName o' p s2 = (Inr (), s')" by (simp add: Run_def)
  moreover have "bt_log s2 = bt_log s" "bt_draws s2 = bt_draws s"
    using waitForIdle_result [OF s1] waitForIdle_result [OF s2] by (simp_all add: waited_def)
  ultimately show ?thesis using provision_admin_sends [of E b orgName o' p s2 s'] o p by auto
qed

theorem Run_writes_exactly_witness:
  "\<exists>s' ws. Run sample_boot_env store_api no_controllers sample_bootstrap ''acme'' ''web'' sample_boot = Some (Inr (), s') \<and>
     sends [] (bt_log s') ws \<and> length ws = 7"
proof -
  have r: "map_option fst (Run sample_boot_env store_api no_controllers sample_bootstrap ''acme'' ''web'' sample_boot) = Some (Inr ())"
    by code_simp
  then obtain s' where s': "Run sample_boot_env store_api no_controllers sample_bootstrap ''acme'' ''web'' sample_boot = Some (Inr (), s')"
    by auto
  have c: "Enabled sample_bootstrap" by code_simp
  from Run_writes_exactly [OF s' c] obtain ws where ws: "sends (bt_log sample_boot) (bt_log s') ws" by (auto simp: provisioned_def)
  have "map_option (\<lambda>x. length (filter (\<lambda>q. q_method q \<noteq> ''GET'') (bt_log (snd x))))
      (Run sample_boot_env store_api no_controllers sample_bootstrap ''acme'' ''web'' sample_boot) = Some 7" by code_simp
  with ws s' show ?thesis by (auto simp: sends_def sample_boot_def)
qed

text \<open>
  C28. The wait for IDLE returns: it has no bound of its own, but with a clock that passes every instant it ends
  after finitely many polls; it has sent nothing to the servers, and it reports success only when the
  status derived last was IDLE.
\<close>

theorem waitForIdle_terminates:
  assumes "\<forall>t. \<exists>n. \<forall>m \<ge> n. t < be_clock E m"
  shows "\<exists>r s'. waitForIdle E A rt i cs s = Some (r, s') \<and> bt_log s' = bt_log s \<and>
    (r = Inr () \<longrightarrow> (\<exists>w. sa_DeriveStatus A rt i False cs w =
       ((''STATUS_INDICATION_IDLE'', snd (fst (sa_DeriveStatus A rt i False cs w))), bt_store s')))"
proof -
  from waitForIdle_returns [OF assms] obtain r s' where r: "waitForIdle E A rt i cs s = Some (r, s')"
    by (metis prod.collapse)
  with waitForIdle_result [OF r] show ?thesis by (auto simp: waited_def) (metis prod.collapse)
qed

theorem waitForIdle_terminates_witness:
  "\<exists>r s'. waitForIdle sample_boot_env store_api ''org'' 4 [''ktc''] sample_boot = Some (r, s') \<and> bt_log s' = []"
proof -
  have "\<forall>t. \<exists>n. \<forall>m \<ge> n. t < be_clock sample_boot_env m"
  proof
    fix t :: int
    have "\<forall>m \<ge> nat (t + 1). t < int m" by auto
    then show "\<exists>n. \<forall>m \<ge> n. t < be_clock sample_boot_env m" by (auto simp: sample_boot_env_def)
  qed
  from waitForIdle_terminates [OF this, of store_api "''org''" 4 "[''ktc'']" sample_boot] show ?thesis
    by (auto simp: sample_boot_def)
qed

text \<open>
  A stored password can be read back: if the API server answers the read of a Secret with the
  manifest that \<open>CreateOpaqueSecret\<close> posts for it, and the JSON codec gives back the data of
  this manifest, then \<open>GetSecretValue\<close> gives the value that was stored under the key.
\<close>

theorem secret_round_trip:
  assumes "m = \<lparr>sm_Name = name, sm_Namespace = ns, sm_Labels = labels, sm_Data = map (\<lambda>(k, v). (k, EncodeToString v)) data\<rparr>"
    and "cd_secret C (cd_manifest C m) = Inr (sm_Data m)"
    and "cd_parse_url C (q_url (get_secret_request k ns name)) = None"
    and "S (l @ [get_secret_request k ns name]) = Inr \<lparr>p_code = 200, p_status = st,
      p_body = the (q_body (create_secret_request C k ns name labels data))\<rparr>"
  shows "fst (GetSecretValue C S k ns name key l) = Inr (map_of data key)"
proof -
  have "map_of (map (\<lambda>(k, v). (k, EncodeToString v)) data) key = map_option EncodeToString (map_of data key)"
    by (simp add: map_of_map)
  with assms show ?thesis
    by (auto simp: GetSecretValue_def send_def create_secret_request_def DecodeString_EncodeToString Let_def
        split: option.splits)
qed

definition entry_codec :: codec where
  "entry_codec = sample_codec\<lparr>cd_secret := (\<lambda>b. Inr [(''admin-password'', b)])\<rparr>"

theorem secret_round_trip_witness:
  "let k = \<lparr>kube_host = ''h'', kube_token = ''t'', kube_defaultNS = ''n''\<rparr>; data = [(''admin-password'', ''pw'')];
       S = (\<lambda>_. Inr \<lparr>p_code = 200, p_status = [], p_body = the (q_body (create_secret_request entry_codec k ''n'' ''s'' [] data))\<rparr>)
   in fst (GetSecretValue entry_codec S k ''n'' ''s'' ''admin-password'' []) = Inr (Some ''pw'')"
  unfolding Let_def
  by (subst secret_round_trip [OF refl, where data = "[(''admin-password'', ''pw'')]" and labels = "[]" and st = "[]"])
    (simp_all add: entry_codec_def sample_codec_def)

text \<open>Keycloak keeps a user, and the API server the value of a Secret, unless somebody else removes or changes them: a
  lookup at a later point of the log, in whatever session, fails or finds them again.\<close>

definition user_persists :: "codec \<Rightarrow> http_server \<Rightarrow> KeycloakClient \<Rightarrow> string \<Rightarrow> bool" where
  "user_persists C S kc name \<longleftrightarrow>
     (\<forall>tok tok' l l' u. fst (FindUserByUsername C S (kc\<lparr>kc_token := tok\<rparr>) name l) = Inr (Some u) \<and> prefix l l' \<longrightarrow>
        fst (FindUserByUsername C S (kc\<lparr>kc_token := tok'\<rparr>) name l') \<noteq> Inr None)"

definition secret_persists :: "codec \<Rightarrow> http_server \<Rightarrow> KubeClient \<Rightarrow> string \<Rightarrow> string \<Rightarrow> string \<Rightarrow> bool" where
  "secret_persists C S kube ns name key \<longleftrightarrow>
     (\<forall>tok tok' l l' v. fst (GetSecretValue C S (kube\<lparr>kube_token := tok\<rparr>) ns name key l) = Inr (Some v) \<and> prefix l l' \<longrightarrow>
        isl (fst (GetSecretValue C S (kube\<lparr>kube_token := tok'\<rparr>) ns name key l')) \<or>
        fst (GetSecretValue C S (kube\<lparr>kube_token := tok'\<rparr>) ns name key l') = Inr (Some v))"

lemma FindUserByUsername_reads: "sends l (snd (FindUserByUsername C S k n l)) []"
  by (auto simp: FindUserByUsername_def kc_do_def send_def sends_def kc_request_def split: prod.splits sum.splits option.splits if_splits)

lemma GetSecretValue_reads: "sends l (snd (GetSecretValue C S k ns n key l)) []"
  by (auto simp: GetSecretValue_def Let_def send_def sends_def get_secret_request_def split: prod.splits sum.splits option.splits if_splits)

lemma kc_do_prefix: "kc_do C S k m url body out zero l = (x, l') \<Longrightarrow> prefix l l'"
  by (auto simp: kc_do_def send_def split: option.splits sum.splits if_splits)

text \<open>A run that fails at the password with a stored one has created the user.\<close>

lemma refused_password:
  assumes "ensureUserAndPassword E kc kube b orgName ns s = (Inl (wrapf ''set password'' err), s')"
    and "FindUserByUsername (be_codec E) (be_server E) kc (TenantAdminUser b) (bt_log s) = (Inr existing, l1)"
    and "GetSecretValue (be_codec E) (be_server E) kube ns (SecretName b) ''admin-password'' l1 = (Inr (Some v), l2)"
  shows "prefix l1 (bt_log s') \<and>
    (\<exists>k u. fst (FindUserByUsername (be_codec E) (be_server E) kc (TenantAdminUser b) k) = Inr (Some u) \<and> prefix k (bt_log s'))"
proof -
  let ?C = "be_codec E" and ?S = "be_server E"
  obtain s1 where s1: "call (FindUserByUsername ?C ?S kc (TenantAdminUser b)) s = (Inr existing, s1)" "bt_log s1 = l1"
    using assms(2) by (simp add: call_def)
  obtain s2 where s2: "call (GetSecretValue ?C ?S kube ns (SecretName b) ''admin-password'') s1 = (Inr (Some v), s2)" "bt_log s2 = l2"
    using assms(3) s1(2) by (simp add: call_def)
  have none: "existing = None" using assms(1) s1 s2 by (cases existing) (auto simp: ensureUserAndPassword_def)
  obtain x s3 where s3: "call (CreateUser ?C ?S kc (tenant_admin b orgName)) s2 = (x, s3)" by fastforce
  have "wrapf ''create user'' e \<noteq> wrapf ''set password'' err" for e by (simp add: wrapf_def)
  with assms(1) s1 s2 s3 none obtain i where i: "x = Inr i" and p: "set_and_store E kc kube b orgName ns i (Some v) s3 = (Inl (wrapf ''set password'' err), s')"
    by (cases x) (auto simp: ensureUserAndPassword_def)
  from callD [OF s3(1)] i have "CreateUser ?C ?S kc (tenant_admin b orgName) l2 = (Inr i, bt_log s3)" using s2(2) by simp
  from CreateUser_sends [OF this] obtain k u where k: "sends l2 k [create_user_request ?C kc (tenant_admin b orgName)]"
    "FindUserByUsername ?C ?S kc (TenantAdminUser b) k = (Inr (Some u), bt_log s3)" by (auto simp: tenant_admin_def)
  from p have "prefix (bt_log s3) (bt_log s')"
    by (auto simp: set_and_store_def call_def SetPassword_def intro: kc_do_prefix split: prod.splits sum.splits)
  with sends_prefix [OF FindUserByUsername_sends [OF k(2)]] have "prefix k (bt_log s')" by (rule prefix_order.trans)
  moreover have "prefix l1 k"
    using sends_prefix [OF GetSecretValue_sends [OF assms(3)]] sends_prefix [OF k(1)] by (rule prefix_order.trans)
  ultimately show ?thesis using k(2) by (metis fst_conv prefix_order.trans)
qed

lemma ensure_present:
  assumes "ensureUserAndPassword E kc kube b orgName ns t = (r, t')"
    and "fst (FindUserByUsername (be_codec E) (be_server E) kc (TenantAdminUser b) (bt_log t)) \<noteq> Inr None"
    and "\<And>l. prefix (bt_log t) l \<Longrightarrow>
      isl (fst (GetSecretValue (be_codec E) (be_server E) kube ns (SecretName b) ''admin-password'' l)) \<or>
      fst (GetSecretValue (be_codec E) (be_server E) kube ns (SecretName b) ''admin-password'' l) = Inr (Some v)"
  shows "sends (bt_log t) (bt_log t') [] \<and>
    (case r of
       Inl e \<Rightarrow> \<exists>e'. e = wrapf ''lookup user'' e' \<or> e = wrapf ''read existing password secret'' e'
     | Inr (uid, pw) \<Rightarrow> pw = v)"
proof -
  obtain x t1 where f: "call (FindUserByUsername (be_codec E) (be_server E) kc (TenantAdminUser b)) t = (x, t1)" by fastforce
  have s1: "sends (bt_log t) (bt_log t1) []"
    using FindUserByUsername_reads [of "bt_log t"] callD [OF f] by (metis snd_conv)
  show ?thesis
  proof (cases x)
    case (Inl e)
    with assms(1) f s1 show ?thesis by (auto simp: ensureUserAndPassword_def)
  next
    case (Inr y)
    with callD [OF f] assms(2) obtain u where u: "y = Some u" by (cases y) auto
    obtain z t2 where g: "call (GetSecretValue (be_codec E) (be_server E) kube ns (SecretName b) ''admin-password'') t1 = (z, t2)" by fastforce
    have s2: "sends (bt_log t1) (bt_log t2) []"
      using GetSecretValue_reads [of "bt_log t1"] callD [OF g] by (metis snd_conv)
    from assms(3) [OF sends_prefix [OF s1]] callD [OF g] have z: "isl z \<or> z = Inr (Some v)" by simp
    then show ?thesis
      using assms(1) f Inr u g sends_trans [OF s1 s2] by (cases z) (auto simp: ensureUserAndPassword_def)
  qed
qed

text \<open>
  C30. The bootstrap is not idempotent across restarts.  If setting the password fails although the Secret holds
  one, the user has been created by this very run; from then on every run, in whatever session, finds user
  and Secret as long as nobody removes them: it sends nothing that writes, fails at most at one of the two lookups,
  and otherwise reports success with the stored password, which Keycloak has refused.
\<close>

theorem restart_skips_refused_password:
  assumes "user_persists (be_codec E) (be_server E) kc (TenantAdminUser b)"
    and "secret_persists (be_codec E) (be_server E) kube ns (SecretName b) ''admin-password''"
    and "ensureUserAndPassword E kc kube b orgName ns s = (Inl (wrapf ''set password'' err), s')"
    and "FindUserByUsername (be_codec E) (be_server E) kc (TenantAdminUser b) (bt_log s) = (Inr existing, l1)"
    and "GetSecretValue (be_codec E) (be_server E) kube ns (SecretName b) ''admin-password'' l1 = (Inr (Some v), l2)"
    and "prefix (bt_log s') (bt_log t)"
    and "ensureUserAndPassword E (kc\<lparr>kc_token := tok\<rparr>) (kube\<lparr>kube_token := tok'\<rparr>) b orgName ns t = (r, t')"
  shows "sends (bt_log t) (bt_log t') [] \<and>
    (case r of
       Inl e \<Rightarrow> \<exists>e'. e = wrapf ''lookup user'' e' \<or> e = wrapf ''read existing password secret'' e'
     | Inr (uid, pw) \<Rightarrow> pw = v)"
proof -
  from refused_password [OF assms(3-5)] obtain k u where k: "prefix l1 (bt_log s')"
    "fst (FindUserByUsername (be_codec E) (be_server E) kc (TenantAdminUser b) k) = Inr (Some u)" "prefix k (bt_log s')" by blast
  have same: "kc = kc\<lparr>kc_token := kc_token kc\<rparr>" "kube = kube\<lparr>kube_token := kube_token kube\<rparr>" by simp_all
  have later: "prefix k (bt_log t)" "prefix (bt_log t) l \<Longrightarrow> prefix l1 l" for l
    using k(1,3) assms(6) by (auto intro: prefix_order.trans)
  have "fst (FindUserByUsername (be_codec E) (be_server E) (kc\<lparr>kc_token := tok\<rparr>) (TenantAdminUser b) (bt_log t)) \<noteq> Inr None"
    using assms(1) k(2) later(1) unfolding user_persists_def by (metis same(1))
  moreover have "fst (GetSecretValue (be_codec E) (be_server E) kube ns (SecretName b) ''admin-password'' l1) = Inr (Some v)"
    using assms(5) by simp
  then have "isl (fst (GetSecretValue (be_codec E) (be_server E) (kube\<lparr>kube_token := tok'\<rparr>) ns (SecretName b) ''admin-password'' l)) \<or>
      fst (GetSecretValue (be_codec E) (be_server E) (kube\<lparr>kube_token := tok'\<rparr>) ns (SecretName b) ''admin-password'' l) = Inr (Some v)"
    if "prefix (bt_log t) l" for l
    using assms(2) later(2) [OF that] unfolding secret_persists_def by (metis same(2))
  ultimately show ?thesis by (rule ensure_present [OF assms(7)])
qed

text \<open>A Keycloak that refuses every new password, next to a Secret that is already there.\<close>

definition refusing_http :: http_server where
  "refusing_http l =
     (if HasSuffix (q_url (last l)) ''/reset-password''
      then Inr \<lparr>p_code = 500, p_status = ''500'', p_body = []\<rparr>
      else if Contains (q_url (last l)) ''/secrets/'' then Inr \<lparr>p_code = 200, p_status = [], p_body = ''pw''\<rparr>
      else sample_http l)"

definition refusing_env :: boot_env where
  "refusing_env = sample_boot_env\<lparr>be_server := refusing_http\<rparr>"

definition sample_kc :: KeycloakClient where
  "sample_kc = \<lparr>kc_baseURL = ''http://kc'', kc_realm = ''master'', kc_token = ''t''\<rparr>"

definition sample_kube :: KubeClient where
  "sample_kube = \<lparr>kube_host = ''https://k'', kube_token = ''t'', kube_defaultNS = ''n''\<rparr>"

lemma refusing_user_persists: "user_persists sample_codec refusing_http sample_kc ''tenant-admin''"
proof -
  let ?url = "''http://kc/admin/realms/master/users?username=tenant-admin&exact=true''"
  have url: "adminURL (sample_kc\<lparr>kc_token := tok\<rparr>) (''/users?username='' @ QueryEscape ''tenant-admin'' @ ''&exact=true'') = ?url" for tok
  proof -
    have "QueryEscape ''tenant-admin'' = ''tenant-admin''" by code_simp
    then show ?thesis by (simp add: adminURL_def sample_kc_def)
  qed
  have tests: "\<not> HasSuffix ?url ''/reset-password''" "\<not> Contains ?url ''/secrets/''" "\<not> HasSuffix ?url ''/secrets/platform-keycloak''"
    "HasSuffix ?url ''&exact=true''" by code_simp+
  have fold: "EqualFold ''tenant-admin'' ''tenant-admin''" by (simp add: EqualFold_def)
  have found: "fst (FindUserByUsername sample_codec refusing_http (sample_kc\<lparr>kc_token := tok\<rparr>) ''tenant-admin'' l) \<noteq> Inr None \<longleftrightarrow>
      list_ex (\<lambda>q. q_method q = ''POST'' \<and> HasSuffix (q_url q) ''/users'') l" for tok l
    unfolding FindUserByUsername_def url
    by (simp add: kc_do_def send_def kc_request_def refusing_http_def sample_http_def Let_def tests sample_users_def fold sample_codec_def)
  have "fst (FindUserByUsername sample_codec refusing_http (sample_kc\<lparr>kc_token := tok'\<rparr>) ''tenant-admin'' l') \<noteq> Inr None"
    if "fst (FindUserByUsername sample_codec refusing_http (sample_kc\<lparr>kc_token := tok\<rparr>) ''tenant-admin'' l) = Inr (Some u)" and "prefix l l'"
    for tok tok' l l' u
  proof -
    have "list_ex (\<lambda>q. q_method q = ''POST'' \<and> HasSuffix (q_url q) ''/users'') l" using found [of tok l] that(1) by simp
    with that(2) have "list_ex (\<lambda>q. q_method q = ''POST'' \<and> HasSuffix (q_url q) ''/users'') l'" by (auto simp: prefix_def)
    then show ?thesis using found [of tok' l'] by simp
  qed
  then show ?thesis unfolding user_persists_def by blast
qed

lemma refusing_secret_persists: "secret_persists sample_codec refusing_http sample_kube ''n'' ''tenant-admin-password'' ''admin-password''"
proof -
  let ?url = "''https://k/api/v1/namespaces/n/secrets/tenant-admin-password''"
  have url: "q_url (get_secret_request (sample_kube\<lparr>kube_token := tok\<rparr>) ''n'' ''tenant-admin-password'') = ?url" for tok
    by (simp add: get_secret_request_def sample_kube_def)
  have tests: "\<not> HasSuffix ?url ''/reset-password''" "Contains ?url ''/secrets/''" by code_simp+
  have "fst (GetSecretValue sample_codec refusing_http (sample_kube\<lparr>kube_token := tok\<rparr>) ''n'' ''tenant-admin-password'' ''admin-password'' l) = Inr (Some ''pw'')"
    for tok l
    by (simp add: GetSecretValue_def Let_def send_def refusing_http_def url tests sample_codec_def DecodeString_EncodeToString)
  then show ?thesis unfolding secret_persists_def by simp
qed

theorem restart_skips_refused_password_witness:
  "let ensure = ensureUserAndPassword refusing_env sample_kc sample_kube sample_bootstrap ''acme'' ''n'';
       first = ensure sample_boot; second = ensure (snd first)
   in isl (fst first) \<and> sends (bt_log (snd first)) (bt_log (snd second)) [] \<and> map_sum id snd (fst second) = Inr ''pw''"
proof -
  let ?ensure = "ensureUserAndPassword refusing_env sample_kc sample_kube sample_bootstrap ''acme'' ''n''"
  have env: "be_codec refusing_env = sample_codec" "be_server refusing_env = refusing_http"
    by (simp_all add: refusing_env_def sample_boot_env_def)
  have cfg: "TenantAdminUser sample_bootstrap = ''tenant-admin''" "SecretName sample_bootstrap = ''tenant-admin-password''" by code_simp+
  have first: "fst (?ensure sample_boot) = Inl (wrapf ''set password'' (Errorf
      ''keycloak PUT http://kc/admin/realms/master/users/7/reset-password: 500: ''))" by code_simp
  then obtain err s' where f: "?ensure sample_boot = (Inl (wrapf ''set password'' err), s')" by (metis prod.collapse)
  have none: "fst (FindUserByUsername sample_codec refusing_http sample_kc ''tenant-admin'' (bt_log sample_boot)) = Inr None" by code_simp
  obtain l1 where l1: "FindUserByUsername sample_codec refusing_http sample_kc ''tenant-admin'' (bt_log sample_boot) = (Inr None, l1)"
    using none by (metis prod.collapse)
  have "fst (GetSecretValue sample_codec refusing_http sample_kube ''n'' ''tenant-admin-password'' ''admin-password''
      (snd (FindUserByUsername sample_codec refusing_http sample_kc ''tenant-admin'' (bt_log sample_boot)))) = Inr (Some ''pw'')" by code_simp
  then obtain l2 where l2: "GetSecretValue sample_codec refusing_http sample_kube ''n'' ''tenant-admin-password'' ''admin-password'' l1 = (Inr (Some ''pw''), l2)"
    unfolding l1 by (metis prod.collapse snd_conv)
  obtain r t' where second: "?ensure s' = (r, t')" by fastforce
  have tok: "sample_kc\<lparr>kc_token := ''t''\<rparr> = sample_kc" "sample_kube\<lparr>kube_token := ''t''\<rparr> = sample_kube"
    by (simp_all add: sample_kc_def sample_kube_def)
  have "\<not> isl (fst (?ensure (snd (?ensure sample_boot))))" by code_simp
  then have ok: "\<not> isl r" using f second by simp
  have "sends (bt_log s') (bt_log t') [] \<and>
    (case r of
       Inl e \<Rightarrow> \<exists>e'. e = wrapf ''lookup user'' e' \<or> e = wrapf ''read existing password secret'' e'
     | Inr (uid, pw) \<Rightarrow> pw = ''pw'')"
    by (rule restart_skips_refused_password [where E = refusing_env and b = sample_bootstrap and kc = sample_kc and kube = sample_kube
          and tok = "''t''" and tok' = "''t''", unfolded env cfg tok,
          OF refusing_user_persists refusing_secret_persists f l1 l2 _ second]) simp
  with f second ok show ?thesis by (auto simp: split: sum.splits)
qed

end
