(* ===== verification/Tenancy_Types.thy ===== *)
theory Tenancy_Types
  imports Tenancy_Service
begin

text \<open>
  The types of the REST API, over the values the code leaves as strings: what the feed holds, what the
  derived status can be, and which body each route answers with.
\<close>

section \<open>Events\<close>

text \<open>An event of an org names no parent, one of a project its org and its folder.\<close>

definition event_shape :: "string \<Rightarrow> string \<Rightarrow> uuid option \<Rightarrow> string option \<Rightarrow> uuid option \<Rightarrow> bool" where
  "event_shape t rt oi on fi \<longleftrightarrow> t \<in> {''created'', ''deleted''} \<and>
     (rt = ''org'' \<and> oi = None \<and> on = None \<and> fi = None \<or> rt = ''project'' \<and> oi \<noteq> None \<and> on \<noteq> None \<and> fi \<noteq> None)"

definition row_typed :: "event_row \<Rightarrow> bool" where
  "row_typed e \<longleftrightarrow> event_shape (ev_type e) (ev_resource_type e) (ev_org_id e) (ev_org_name e) (ev_folder_id e)"

definition replay_typed :: "ReplayEvent \<Rightarrow> bool" where
  "replay_typed e \<longleftrightarrow> event_shape (re_EventType e) (re_ResourceType e) (re_OrgID e) (re_OrgName e) (re_FolderID e)"

definition event_typed :: "EventResponse \<Rightarrow> bool" where
  "event_typed e \<longleftrightarrow> event_shape (er_EventType e) (er_ResourceType e) (er_OrgID e) (er_OrgName e) (er_FolderID e)"

lemmas typed_defs = row_typed_def replay_typed_def event_typed_def event_shape_def

lemma row_typed_payload: "row_typed (payload e) = row_typed e"
  by (simp add: row_typed_def payload_def)

text \<open>Every project hangs under a folder of an org.\<close>

lemma find_mem: "x \<in> set xs \<Longrightarrow> P x \<Longrightarrow> \<exists>y. find P xs = Some y \<and> y \<in> set xs \<and> P y"
  by (cases "find P xs") (auto simp: find_None_iff dest: find_Some_mem)

lemma with_folder_full:
  assumes "wf_db d" and "p \<in> set (projects d)"
  obtains f r where "with_folder d p = (p, Some (f, Some r))"
proof -
  from assms obtain f0 where "f0 \<in> set (folders d)" "folder_id f0 = proj_folder p"
    by (fastforce simp: wf_db_def refs_ok_def)
  then obtain f where f: "find (\<lambda>f. folder_id f = proj_folder p) (folders d) = Some f" "f \<in> set (folders d)"
    using find_mem [of f0 "folders d" "\<lambda>f. folder_id f = proj_folder p"] by auto
  with assms(1) obtain r0 where "r0 \<in> set (orgs d)" "org_id r0 = folder_org f"
    by (fastforce simp: wf_db_def refs_ok_def)
  then obtain r where "find (\<lambda>r. org_id r = folder_org f) (orgs d) = Some r"
    using find_mem [of r0 "orgs d" "\<lambda>r. org_id r = folder_org f"] by auto
  with f that show thesis
    by (simp add: with_folder_def load_folder_def load_org_def)
qed

section \<open>The feed\<close>

definition feed_typed :: "db \<Rightarrow> bool" where
  "feed_typed d \<longleftrightarrow> (\<forall>e \<in> set (events d). row_typed e)"

lemma feed_typed_append:
  "events d' = events d @ es \<Longrightarrow> \<forall>e \<in> set (map payload es). row_typed e \<Longrightarrow> feed_typed d \<Longrightarrow> feed_typed d'"
  by (auto simp: feed_typed_def row_typed_payload)

lemma feed_typed_sub: "set (events d') \<subseteq> set (events d) \<Longrightarrow> feed_typed d \<Longrightarrow> feed_typed d'"
  by (auto simp: feed_typed_def)

text \<open>Every effect of a mutation appends typed events only.\<close>

lemma org_effects_typed:
  "create_org_eff n s r d d' \<Longrightarrow> feed_typed d \<Longrightarrow> feed_typed d'"
  "update_org_eff n s r d d' \<Longrightarrow> feed_typed d \<Longrightarrow> feed_typed d'"
proof -
  assume "create_org_eff n s r d d'" and d: "feed_typed d"
  then obtain e where e: "events d' = events d @ [e]" "payload e = new_event ''created'' ''org'' (org_id r) n"
    by (auto simp: create_org_eff_def)
  show "feed_typed d'"
    by (rule feed_typed_append [OF e(1) _ d]) (simp add: e(2) new_event_def typed_defs)
next
  assume "update_org_eff n s r d d'" and "feed_typed d"
  then show "feed_typed d'"
    by (auto simp: update_org_eff_def feed_typed_def)
qed

lemma project_effects_typed:
  "create_project_eff o' n s pr d d' \<Longrightarrow> feed_typed d \<Longrightarrow> feed_typed d'"
  "update_project_eff n sc s po d d' \<Longrightarrow> feed_typed d \<Longrightarrow> feed_typed d'"
proof -
  assume "create_project_eff o' n s pr d d'" and d: "feed_typed d"
  then obtain e and f :: folder_row where e: "events d' = events d @ [e]"
    "payload e = (new_event ''created'' ''project'' (proj_id (fst pr)) n)
       \<lparr>ev_org_id := Some (org_id (snd pr)), ev_org_name := Some o', ev_folder_id := Some (folder_id f)\<rparr>"
    by (cases pr) (auto simp: create_project_eff_def)
  show "feed_typed d'"
    by (rule feed_typed_append [OF e(1) _ d]) (simp add: e(2) new_event_def typed_defs)
next
  assume "update_project_eff n sc s po d d'" and "feed_typed d"
  then show "feed_typed d'"
    by (auto simp: update_project_eff_def feed_typed_def)
qed

lemma delete_effects_typed:
  assumes wf: "wf_db d" and d: "feed_typed d"
  shows "delete_org_eff n a d d' \<Longrightarrow> feed_typed d'" "delete_project_eff n sc a d d' \<Longrightarrow> feed_typed d'"
proof -
  assume "delete_org_eff n a d d'"
  then obtain es r where e: "events d' = events d @ es"
    "map payload es = map (project_deleted_event r) (active_projects_of_org (org_id r) d) @
          [new_event ''deleted'' ''org'' (org_id r) n]"
    unfolding delete_org_eff_def by (elim exE conjE) (rule that; assumption)
  have "row_typed (project_deleted_event r x)" if "x \<in> set (active_projects_of_org (org_id r) d)" for x
  proof -
    from that obtain p where "p \<in> set (projects d)" "x = with_folder d p"
      by (auto simp: active_projects_of_org_def)
    then obtain f q where "x = (p, Some (f, Some q))"
      using with_folder_full [OF wf] by metis
    then show ?thesis
      by (simp add: project_deleted_event_def new_event_def typed_defs)
  qed
  moreover have "row_typed (new_event ''deleted'' ''org'' (org_id r) n)"
    by (simp add: new_event_def typed_defs)
  ultimately have "\<forall>e \<in> set (map payload es). row_typed e"
    unfolding e(2) by auto
  then show "feed_typed d'"
    by (rule feed_typed_append [OF e(1) _ d])
next
  assume "delete_project_eff n sc a d d'"
  then obtain p e where e: "selects_only n sc d p" "events d' = events d @ [e]" "payload e = deleted_event_of (with_folder d p)"
    unfolding delete_project_eff_def by (elim exE conjE) (rule that; assumption)
  from e(1) have "p \<in> set (projects d)"
    by (simp add: selects_only_def selected_def)
  then obtain f r where "with_folder d p = (p, Some (f, Some r))"
    using with_folder_full [OF wf] by blast
  with e(3) show "feed_typed d'"
    by (intro feed_typed_append [OF e(2) _ d])
      (simp add: deleted_event_of_def node_org_def new_event_def Let_def typed_defs)
qed

lemma atomically_typed:
  assumes "atomically w res eff" and "\<And>a d'. eff a (tables w) d' \<Longrightarrow> feed_typed d'" and "feed_typed (tables w)"
  shows "feed_typed (tables (snd res))"
  using assms by (cases res; cases "fst res") (auto simp: atomically_def)

lemma mutations_typed:
  assumes wf: "wf_world w" and w: "feed_typed (tables w)"
  shows "feed_typed (tables (snd (CreateOrg n s w)))" "feed_typed (tables (snd (UpdateOrg n s w)))"
    "feed_typed (tables (snd (DeleteOrg n w)))" "feed_typed (tables (snd (CreateProject o' n s w)))"
    "feed_typed (tables (snd (UpdateProject n sc s w)))" "feed_typed (tables (snd (DeleteProject n sc w)))"
proof -
  have "wf_db (tables w)" using wf by (simp add: wf_world_def)
  note effects = org_effects_typed [OF _ w] project_effects_typed [OF _ w] delete_effects_typed [OF this w]
  show "feed_typed (tables (snd (CreateOrg n s w)))"
    by (rule atomically_typed [OF create_org.atomic [OF wf] _ w]) (rule effects)
  show "feed_typed (tables (snd (UpdateOrg n s w)))"
    by (rule atomically_typed [OF update_org.atomic [OF wf] _ w]) (rule effects)
  show "feed_typed (tables (snd (DeleteOrg n w)))"
    by (rule atomically_typed [OF delete_org.atomic [OF wf] _ w]) (rule effects)
  show "feed_typed (tables (snd (CreateProject o' n s w)))"
    by (rule atomically_typed [OF create_project.atomic [OF wf] _ w]) (rule effects)
  show "feed_typed (tables (snd (UpdateProject n sc s w)))"
    by (rule atomically_typed [OF update_project.atomic [OF wf] _ w]) (rule effects)
  show "feed_typed (tables (snd (DeleteProject n sc w)))"
    by (rule atomically_typed [OF delete_project.atomic [OF wf] _ w]) (rule effects)
qed

text \<open>No other statement adds an event.\<close>

lemma in_db_events:
  assumes "\<And>a d'. f (tables w) = Inr (a, d') \<Longrightarrow> set (events d') \<subseteq> set (events (tables w))"
  shows "set (events (tables (snd (in_db f w)))) \<subseteq> set (events (tables w))"
  using in_dbD [of f w "fst (in_db f w)" "snd (in_db f w)"] assms by auto

lemma statement_events:
  "set (events (tables (snd (in_db (update_statuses c rt i st m u) w)))) \<subseteq> set (events (tables w))"
  "set (events (tables (snd (in_db (insert_status r) w)))) \<subseteq> set (events (tables w))"
  "set (events (tables (snd (in_db (delete_statuses P) w)))) \<subseteq> set (events (tables w))"
  "set (events (tables (snd (in_db (delete_events Q) w)))) \<subseteq> set (events (tables w))"
  "set (events (tables (snd (in_db (delete_one_project i) w)))) \<subseteq> set (events (tables w))"
  "set (events (tables (snd (in_db (\<lambda>d. delete_folders (F d) d) w)))) \<subseteq> set (events (tables w))"
  "set (events (tables (snd (in_db (delete_one_org i) w)))) \<subseteq> set (events (tables w))"
  "set (events (tables (snd (in_db (select q) w)))) \<subseteq> set (events (tables w))"
  by (rule in_db_events; auto simp: update_statuses_def insert_status_def delete_statuses_def delete_events_def
      delete_one_project_def delete_folders_def delete_one_org_def select_def Let_def split: if_splits sum.splits)+

lemmas statement_typed = statement_events [THEN feed_typed_sub]

lemma typed_step:
  assumes "feed_typed (tables (snd m))"
    and "\<And>e w1. m = (Inl e, w1) \<Longrightarrow> feed_typed (tables w1) \<Longrightarrow> feed_typed (tables (snd (A e w1)))"
    and "\<And>a w1. m = (Inr a, w1) \<Longrightarrow> feed_typed (tables w1) \<Longrightarrow> feed_typed (tables (snd (B a w1)))"
  shows "feed_typed (tables (snd (case m of (Inl e, w1) \<Rightarrow> A e w1 | (Inr a, w1) \<Rightarrow> B a w1)))"
    "feed_typed (tables (snd (case m of (Inr a, w1) \<Rightarrow> B a w1 | (Inl e, w1) \<Rightarrow> A e w1)))"
  using assms by (cases m; auto split: sum.split)+

lemma typed_if:
  "(c \<Longrightarrow> feed_typed (tables (snd a))) \<Longrightarrow> (\<not> c \<Longrightarrow> feed_typed (tables (snd b))) \<Longrightarrow>
     feed_typed (tables (snd (if c then a else b)))"
  by simp

lemma status_calls_typed:
  assumes "feed_typed (tables w)"
  shows "feed_typed (tables (snd (UpsertControllerStatus c rt i st m w)))"
    "feed_typed (tables (snd (DeleteControllerStatus c rt i w)))" "feed_typed (tables (snd (CleanupOldEvents ret w)))"
proof -
  have calls: "feed_typed (tables (snd (status_update c rt i st m v)))" "feed_typed (tables (snd (status_create c rt i st m v)))"
    if "feed_typed (tables v)" for v
    using that by (auto simp: status_update_def status_create_def Let_def now_def split: option.split intro!: statement_typed)
  show "feed_typed (tables (snd (UpsertControllerStatus c rt i st m w)))"
    unfolding UpsertControllerStatus_def
    by (intro typed_step typed_if calls assms; simp)
  show "feed_typed (tables (snd (DeleteControllerStatus c rt i w)))"
    unfolding DeleteControllerStatus_def by (intro typed_step statement_typed assms) simp_all
  show "feed_typed (tables (snd (CleanupOldEvents ret w)))"
    using assms by (auto simp: CleanupOldEvents_def now_def intro!: statement_typed)
qed

lemma hard_delete_typed:
  "feed_typed (tables w) \<Longrightarrow> feed_typed (tables (hard_delete_projects cs ps w))"
  "feed_typed (tables w) \<Longrightarrow> feed_typed (tables (hard_delete_orgs cs rs w))"
proof -
  have sub: "set (events (tables (snd (hasNoRegisteredStatuses rt i cs w)))) \<subseteq> set (events (tables w))" for rt i cs w
    using hasNoRegisteredStatusesD [of rt i cs w] by (cases "hasNoRegisteredStatuses rt i cs w") simp
  have clean: "feed_typed (tables w) \<Longrightarrow> feed_typed (tables (cleanOrphanedStatuses rt i cs w))" for rt i cs w
    by (simp add: cleanOrphanedStatuses_def statement_typed)
  show "feed_typed (tables w) \<Longrightarrow> feed_typed (tables (hard_delete_projects cs ps w))"
  proof (induction cs ps w rule: hard_delete_projects.induct)
    case (2 cs p ps w)
    then show ?case
      using feed_typed_sub [OF sub [of "''project''" "proj_id p" cs w]]
      by (cases "hasNoRegisteredStatuses ''project'' (proj_id p) cs w"; cases "fst (hasNoRegisteredStatuses ''project'' (proj_id p) cs w)")
         (auto intro!: statement_typed clean)
  qed simp
  show "feed_typed (tables w) \<Longrightarrow> feed_typed (tables (hard_delete_orgs cs rs w))"
  proof (induction rs arbitrary: w)
    case (Cons r rs)
    let ?q = "select (\<lambda>d. Inr (length (filter (has_org_with d (\<lambda>q. org_id q = org_id r)) (projects d))))"
    obtain c w1 where c: "in_db ?q w = (c, w1)" by fastforce
    obtain b w2 where h: "hasNoRegisteredStatuses ''org'' (org_id r) cs w1 = (b, w2)" by fastforce
    have "feed_typed (tables w1)" "feed_typed (tables w2)"
      using Cons.prems in_db_selectD [OF c] hasNoRegisteredStatusesD [OF h] by simp_all
    then show ?case
      using c h by (cases c; cases b) (simp_all add: Let_def Cons.IH statement_typed clean)
  qed simp
qed

lemma cleanup_typed:
  assumes "feed_typed (tables w)"
  shows "feed_typed (tables (cleanup_tick cfg w))"
proof -
  have "feed_typed (tables (snd (CleanupHardDelete cfg v)))" if "feed_typed (tables v)" for v
    unfolding CleanupHardDelete_def Let_def
    by (intro typed_step statement_typed that; simp add: hard_delete_typed statement_typed typed_step)
  then show ?thesis
    using status_calls_typed(3) [OF assms] by (simp add: cleanup_tick_def)
qed

lemma same_state_typed: "same_state w w' \<Longrightarrow> feed_typed (tables w') = feed_typed (tables w)"
  by (simp add: same_state_def)

lemma Bootstrap_typed:
  assumes wf: "wf_world w" and w: "feed_typed (tables w)"
  shows "feed_typed (tables (snd (Bootstrap o' p w)))"
proof -
  obtain r w1 where g: "GetOrg o' w = (r, w1)" by fastforce
  have s1: "wf_world w1" "feed_typed (tables w1)"
    using read_only(1) [of w o'] g wf w same_state_wf same_state_typed by (metis snd_conv)+
  obtain r2 w2 where c: "CreateOrg o' ''Default organization'' w1 = (r2, w2)" by fastforce
  have s2: "wf_world w2" "feed_typed (tables w2)"
    using create_org.preserves [OF s1(1), of o' "''Default organization''"] mutations_typed(1) [OF s1, of o' "''Default organization''"] c by simp_all
  obtain r3 w3 where q: "CreateProject o' p ''Default project'' w2 = (r3, w3)" by fastforce
  have "feed_typed (tables w3)"
    using mutations_typed(4) [OF s2, of o' p "''Default project''"] q by simp
  with g c q w s1 s2 show ?thesis
    by (simp add: Bootstrap_def split: sum.split)
qed

lemma store_step_typed: "store_step w c w' \<Longrightarrow> wf_world w \<Longrightarrow> feed_typed (tables w) \<Longrightarrow> feed_typed (tables w')"
  by (induction rule: store_step.induct)
    (auto simp: mutations_typed status_calls_typed cleanup_typed Bootstrap_typed
      same_state_typed [OF SynthesizeReplayEvents_read [OF wf_world_keys(1)]] same_state_typed)

lemma reachable_typed: "reachable w \<Longrightarrow> feed_typed (tables w)"
  by (induction rule: reachable.induct)
    (auto simp: initial_def empty_db_def feed_typed_def [of empty_db] dest: store_step_typed reachable_wf, simp add: feed_typed_def)

section \<open>Answers\<close>

text \<open>The derived status of an existing and of a deleted resource.\<close>

definition indications :: "bool \<Rightarrow> string set" where
  "indications isDeleted = {''STATUS_INDICATION_IN_PROGRESS'', ''STATUS_INDICATION_ERROR'',
     if isDeleted then ''STATUS_INDICATION_DELETED'' else ''STATUS_INDICATION_IDLE''}"

lemma DeriveStatus_typed: "fst (fst (DeriveStatus rt i b cs w)) \<in> indications b"
  by (auto simp: DeriveStatus_def DeriveStatusFromRows_def Let_def indications_def split: prod.split sum.split)

lemma derive_typed:
  assumes "h_store h = store_backend"
  shows "derive_org h b o' w = (x, w') \<Longrightarrow> StatusIndicator (or_OrgStatus x) \<in> indications b"
    "derive_project h b p n w = (y, w') \<Longrightarrow> StatusIndicator (pr_ProjectStatus y) \<in> indications b"
  using DeriveStatus_typed [of "''org''" "org_id o'" b "ControllersForResource (h_cfg h) ''org''" w]
    DeriveStatus_typed [of "''project''" "proj_id p" b "ControllersForResource (h_cfg h) ''project''" w]
  by (auto simp: derive_org_def derive_project_def toOrgResponse_def toProjectResponse_def assms store_backend_def split: prod.splits)

lemma map_state_typed:
  "(\<And>x w y w'. f x w = (y, w') \<Longrightarrow> Q y) \<Longrightarrow> map_state f xs w = (ys, w') \<Longrightarrow> list_all Q ys"
  by (induction xs arbitrary: w ys w') (fastforce split: prod.splits)+

text \<open>The statuses that a body shows.\<close>

definition live_org :: "OrgResponse \<Rightarrow> bool" where
  "live_org x \<longleftrightarrow> StatusIndicator (or_OrgStatus x) \<in> indications False"

definition live_project :: "ProjectResponse \<Rightarrow> bool" where
  "live_project x \<longleftrightarrow> StatusIndicator (pr_ProjectStatus x) \<in> indications False"

definition any_org :: "OrgResponse \<Rightarrow> bool" where
  "any_org x \<longleftrightarrow> StatusIndicator (or_OrgStatus x) \<in> indications False \<union> indications True"

definition any_project :: "ProjectResponse \<Rightarrow> bool" where
  "any_project x \<longleftrightarrow> StatusIndicator (pr_ProjectStatus x) \<in> indications False \<union> indications True"

text \<open>A path template; \<open>*\<close> stands for a parameter.\<close>

fun path_at :: "string list \<Rightarrow> string list \<Rightarrow> bool" where
  "path_at [] [] = True"
| "path_at (t # ts) (s # ss) = ((t = ''*'' \<or> t = s) \<and> path_at ts ss)"
| "path_at ts ss = False"

text \<open>The body of a successful answer, by method and path.\<close>

fun ok_body :: "string \<Rightarrow> string list \<Rightarrow> body \<Rightarrow> bool" where
  "ok_body m segs NoBody =
     (m = ''GET'' \<and> path_at [''healthz''] segs \<or>
      m = ''DELETE'' \<and> (path_at [''v1'', ''orgs'', ''*''] segs \<or> path_at [''v1'', ''projects'', ''*''] segs) \<or>
      m \<in> {''PUT'', ''DELETE''} \<and> path_at [''v1'', ''status''] segs)"
| "ok_body m segs (ErrorBody msg) = False"
| "ok_body m segs (OrgBody x) =
     (m \<in> {''GET'', ''PUT''} \<and> path_at [''v1'', ''orgs'', ''*''] segs \<and> live_org x \<or>
      m = ''GET'' \<and> path_at [''v1'', ''orgs'', ''*'', ''status''] segs \<and> any_org x)"
| "ok_body m segs (OrgsBody xs) = (m = ''GET'' \<and> path_at [''v1'', ''orgs''] segs \<and> list_all live_org xs)"
| "ok_body m segs (ProjectBody x) =
     (m \<in> {''GET'', ''PUT''} \<and> path_at [''v1'', ''projects'', ''*''] segs \<and> live_project x \<or>
      m = ''GET'' \<and> path_at [''v1'', ''projects'', ''*'', ''status''] segs \<and> any_project x \<or>
      m = ''GET'' \<and> path_at [''v1'', ''internal'', ''projects'', ''*''] segs \<and> live_project x)"
| "ok_body m segs (ProjectsBody xs) = (m = ''GET'' \<and> path_at [''v1'', ''projects''] segs \<and> list_all live_project xs)"
| "ok_body m segs (EventsBody x) = (m = ''GET'' \<and> path_at [''v1'', ''events''] segs \<and> list_all event_typed (es_Events x))"

definition answers :: "(body \<Rightarrow> bool) \<Rightarrow> response \<Rightarrow> bool" where
  "answers P resp \<longleftrightarrow>
     (case resp of
        (status, ErrorBody msg) \<Rightarrow> status \<in> {400, 401, 403, 404, 409, 500}
      | (status, b) \<Rightarrow> status = 200 \<and> P b)"

definition answer_typed :: "string \<Rightarrow> string list \<Rightarrow> response \<Rightarrow> bool" where
  "answer_typed m segs resp \<longleftrightarrow> resp = (404, NoBody) \<or> resp = (405, NoBody) \<or> answers (ok_body m segs) resp"

lemma answers_error [simp]: "answers P (writeError status msg) \<longleftrightarrow> status \<in> {400, 401, 403, 404, 409, 500}"
  by (simp add: answers_def writeError_def)

lemma answers_ok [simp]:
  "answers P (writeJSON 200 (OrgBody x)) = P (OrgBody x)" "answers P (writeJSON 200 (OrgsBody xs)) = P (OrgsBody xs)"
  "answers P (writeJSON 200 (ProjectBody y)) = P (ProjectBody y)" "answers P (writeJSON 200 (ProjectsBody ys)) = P (ProjectsBody ys)"
  "answers P (writeJSON 200 (EventsBody e)) = P (EventsBody e)" "answers P (200, NoBody) = P NoBody"
  by (simp_all add: answers_def writeJSON_def)

lemma decodeBody_error: "decodeBody dec z r = Inl resp \<Longrightarrow> resp = writeError 400 ''invalid request body''"
  by (auto simp: decodeBody_def split: decoded.splits)

lemma project_error_answers [simp]: "answers P (project_error err)"
  by (simp add: project_error_def)

lemma indications_any: "x \<in> indications b \<Longrightarrow> x \<in> indications False \<union> indications True"
  by (cases b) simp_all

lemma derive_shown:
  assumes "h_store h = store_backend"
  shows "derive_org h False o' w = (x, w') \<Longrightarrow> live_org x" "derive_org h b o' w = (x, w') \<Longrightarrow> any_org x"
    "derive_project h False p n w = (y, w') \<Longrightarrow> live_project y" "derive_project h b p n w = (y, w') \<Longrightarrow> any_project y"
  unfolding live_org_def any_org_def live_project_def any_project_def
  by (erule derive_typed [OF assms] | rule indications_any, erule derive_typed [OF assms])+

text \<open>The handlers of the external group.\<close>

lemma org_handlers_typed:
  assumes st: "h_store h = store_backend"
  shows "answers (\<lambda>b. \<exists>xs. b = OrgsBody xs \<and> list_all live_org xs) (fst (ListOrgs_h h r w))"
    "answers (\<lambda>b. \<exists>x. b = OrgBody x \<and> live_org x) (fst (GetOrg_h h r w))"
    "answers (\<lambda>b. \<exists>x. b = OrgBody x \<and> live_org x) (fst (CreateOrUpdateOrg_h h r w))"
    "answers (\<lambda>b. b = NoBody) (fst (DeleteOrg_h h r w))"
    "answers (\<lambda>b. \<exists>x. b = OrgBody x \<and> any_org x) (fst (GetOrgStatus_h h r w))"
  using map_state_typed [of "derive_org h False" live_org, OF derive_shown(1) [OF st]]
  by (auto simp: ListOrgs_h_def GetOrg_h_def CreateOrUpdateOrg_h_def DeleteOrg_h_def GetOrgStatus_h_def Let_def
      dest: derive_shown [OF st] decodeBody_error split: prod.split sum.split)

lemma project_handlers_typed:
  assumes st: "h_store h = store_backend"
  shows "answers (\<lambda>b. \<exists>xs. b = ProjectsBody xs \<and> list_all live_project xs) (fst (ListProjects_h h r w))"
    "answers (\<lambda>b. \<exists>x. b = ProjectBody x \<and> live_project x) (fst (GetProject_h h r w))"
    "answers (\<lambda>b. \<exists>x. b = ProjectBody x \<and> live_project x) (fst (CreateOrUpdateProject_h h r w))"
    "answers (\<lambda>b. b = NoBody) (fst (DeleteProject_h h r w))"
    "answers (\<lambda>b. \<exists>x. b = ProjectBody x \<and> any_project x) (fst (GetProjectStatus_h h r w))"
    "answers (\<lambda>b. \<exists>x. b = ProjectBody x \<and> live_project x) (fst (GetProjectByID_h h r w))"
proof -
  have ps: "map_state (\<lambda>n. derive_project h False (fst n) (opt_org_name (node_org n))) xs w = (ys, w') \<Longrightarrow> list_all live_project ys"
    for xs w ys w'
    by (rule map_state_typed) (rule derive_shown(3) [OF st])
  show "answers (\<lambda>b. \<exists>xs. b = ProjectsBody xs \<and> list_all live_project xs) (fst (ListProjects_h h r w))"
    by (auto simp: ListProjects_h_def Let_def dest: ps split: prod.split sum.split)
  show "answers (\<lambda>b. \<exists>x. b = ProjectBody x \<and> live_project x) (fst (CreateOrUpdateProject_h h r w))"
    by (auto simp: CreateOrUpdateProject_h_def Let_def dest: derive_shown [OF st] decodeBody_error
        split: prod.split sum.split option.split list.split)
qed (auto simp: GetProject_h_def DeleteProject_h_def GetProjectStatus_h_def GetProjectByID_h_def Let_def
      dest: derive_shown [OF st] split: prod.split sum.split option.split)

text \<open>The handlers of the internal group, on a typed feed.\<close>

lemma replay_rows_typed:
  assumes "wf_db d"
  shows "list_all replay_typed (map (replay_org ''created'') (replay_active_orgs d) @
     map (replay_project ''created'') (replay_active_projects d) @
     map (replay_project ''deleted'') (replay_deleted_projects d) @ map (replay_org ''deleted'') (replay_deleted_orgs d))"
proof -
  have "replay_typed (replay_project t (with_folder d p))" if "p \<in> set (projects d)" "t \<in> {''created'', ''deleted''}" for p t
    by (rule with_folder_full [OF assms that(1)]) (use that(2) in \<open>auto simp: replay_project_def Let_def typed_defs\<close>)
  moreover have "replay_typed (replay_org t q)" if "t \<in> {''created'', ''deleted''}" for t q
    using that by (auto simp: replay_org_def typed_defs)
  ultimately show ?thesis
    by (auto simp: list_all_iff replay_active_projects_def replay_deleted_projects_def)
qed

lemma event_handlers_typed:
  assumes st: "h_store h = store_backend" and wf: "wf_world w" and w: "feed_typed (tables w)"
  shows "answers (\<lambda>b. \<exists>x. b = EventsBody x \<and> list_all event_typed (es_Events x)) (fst (GetEvents_h h r w))"
    "answers (\<lambda>b. b = NoBody) (fst (UpdateControllerStatus_h h r w))"
    "answers (\<lambda>b. b = NoBody) (fst (DeleteControllerStatus_h h r w))"
proof -
  have params: "after_param r = Inl resp \<Longrightarrow> answers P resp" "limit_param r = Inl resp \<Longrightarrow> answers P resp" for resp P
    by (auto simp: after_param_def limit_param_def Let_def split: if_splits option.splits)
  have page: "list_all event_typed (es_Events (event_page a es))" if "GetEventsAfter a l w = (Inr es, w')" for a l es w'
  proof -
    have "set es \<subseteq> set (events (tables w))"
      using GetEventsAfter_page [OF wf that] by (auto dest: in_set_takeD)
    with w have "\<forall>e \<in> set es. event_typed (event_response e)"
      by (auto simp: feed_typed_def row_typed_def event_typed_def event_response_def)
    then show ?thesis
      by (simp add: event_page_def event_page_fold list_all_iff)
  qed
  have stamp: "list_all event_typed rs"
    if "list_all replay_typed es" "map_state (\<lambda>e w. case f w of (t, w) \<Rightarrow> (replay_response e t, w)) es v = (rs, v')" for f es rs v v'
    using that by (induction es arbitrary: rs v v')
      (auto simp: replay_typed_def event_typed_def replay_response_def split: prod.splits)
  have "list_all replay_typed es" if "SynthesizeReplayEvents w = (Inr (es, m), w')" for es m w'
    using SynthesizeReplayEvents_result [OF that] replay_rows_typed wf by (simp add: wf_world_def)
  with page stamp params show "answers (\<lambda>b. \<exists>x. b = EventsBody x \<and> list_all event_typed (es_Events x)) (fst (GetEvents_h h r w))"
    by (auto simp: GetEvents_h_def st store_backend_def split: prod.split sum.split)
qed (auto simp: UpdateControllerStatus_h_def DeleteControllerStatus_h_def dest: decodeBody_error split: prod.split sum.split)

section \<open>Through the router\<close>

lemma answers_mono: "answers P resp \<Longrightarrow> (\<And>b. P b \<Longrightarrow> Q b) \<Longrightarrow> answers Q resp"
  by (cases resp; cases "snd resp") (auto simp: answers_def)

text \<open>The middlewares answer with errors only.\<close>

lemma external_chain_answers:
  assumes f: "\<And>r w. answers P (fst (f r w))"
  shows "answers P (fst (external_chain J N h (on_world f) r s))"
proof -
  have go: "answers P (fst (on_world f r s))" for r s
    using f [of r "sv_world s"] by (auto simp: on_world_def split: prod.split)
  have del: "answers P (fst (DeletionCheckMiddleware h (on_world f) r s))" for r s
    by (auto simp: DeletionCheckMiddleware_def Let_def go split: prod.split bool.split)
  then have "answers P (fst (AuthzMiddleware U (DeletionCheckMiddleware h (on_world f)) r s))" for U r s
    by (auto simp: AuthzMiddleware_def split: option.split)
  with del show ?thesis
    by (auto simp: external_chain_def AuthnMiddleware_def Let_def split: option.split sum.split prod.split)
qed

text \<open>The routes of the external group answer in the type of their method and path.\<close>

lemma external_route_typed:
  assumes st: "h_store h = store_backend" and route: "external_route h m segs = Some (n, f)"
  shows "answers (ok_body m segs) (fst (f r w))"
proof -
  from route consider (orgs) "m = ''GET''" "segs = [''v1'', ''orgs'']" "f = ListOrgs_h h"
    | (projects) "m = ''GET''" "segs = [''v1'', ''projects'']" "f = ListProjects_h h"
    | (org) "segs = [''v1'', ''orgs'', n]" "(m, f) \<in> {(''GET'', GetOrg_h h), (''PUT'', CreateOrUpdateOrg_h h), (''DELETE'', DeleteOrg_h h)}"
    | (project) "segs = [''v1'', ''projects'', n]"
        "(m, f) \<in> {(''GET'', GetProject_h h), (''PUT'', CreateOrUpdateProject_h h), (''DELETE'', DeleteProject_h h)}"
    | (org_status) "m = ''GET''" "segs = [''v1'', ''orgs'', n, ''status'']" "f = GetOrgStatus_h h"
    | (project_status) "m = ''GET''" "segs = [''v1'', ''projects'', n, ''status'']" "f = GetProjectStatus_h h"
    by (auto simp: external_route_def split: list.splits if_splits)
  then show ?thesis
    by cases (auto intro: org_handlers_typed [OF st, THEN answers_mono] project_handlers_typed [OF st, THEN answers_mono])
qed

lemma internal_route_typed:
  assumes st: "h_store h = store_backend" and route: "internal_route h m segs = Some (n, f)"
    and wf: "wf_world w" and w: "feed_typed (tables w)"
  shows "answers (ok_body m segs) (fst (f r w))"
proof -
  note typed = event_handlers_typed [OF st wf w, THEN answers_mono]
  from route consider (events) "m = ''GET''" "segs = [''v1'', ''events'']" "f = GetEvents_h h"
    | (status) "segs = [''v1'', ''status'']" "(m, f) \<in> {(''PUT'', UpdateControllerStatus_h h), (''DELETE'', DeleteControllerStatus_h h)}"
    | (project) "m = ''GET''" "segs = [''v1'', ''internal'', ''projects'', n]" "f = GetProjectByID_h h"
    by (auto simp: internal_route_def split: list.splits if_splits)
  then show ?thesis
    by cases (auto intro: typed project_handlers_typed(6) [OF st, THEN answers_mono])
qed

text \<open>
  C9. The API keeps its types.  In every state the store can reach, and whatever the request and the
  driver do, an answer is an error with a message and one of six codes, an unknown path or method, or
  200 with the body that belongs to the method and the path: the status of an org or project is one
  of the four indications, DELETED never being shown outside of the two status routes; an event is a creation or a
  deletion of an org, without parents, or of a project, with its org and its folder.
\<close>

theorem Router_answers_are_typed:
  assumes "h_store h = store_backend" and "reachable (sv_world s)"
  shows "answer_typed (r_method r) (Split (drop 1 (r_path r)) (CHR ''/'')) (fst (Router J N h r s))"
proof -
  define segs where "segs = Split (drop 1 (r_path r)) (CHR ''/'')"
  have ext: "answers (ok_body (r_method r) segs) (fst (external_chain J N h (on_world f) q s))"
    if "external_route h (r_method r) segs = Some (n, f)" for n f q
    by (rule external_chain_answers) (rule external_route_typed [OF assms(1) that])
  have int: "answers (ok_body (r_method r) segs) (fst (InternalAuthMiddleware (h_internalToken h) (on_world f) q s))"
    if "internal_route h (r_method r) segs = Some (n, f)" for n f q
    using internal_route_typed [OF assms(1) that reachable_wf [OF assms(2)] reachable_typed [OF assms(2)], of q]
    by (cases "f q (sv_world s)") (simp add: InternalAuthMiddleware_def on_world_def)
  have "answer_typed (r_method r) segs (fst (Router J N h r s))"
    unfolding Router_def segs_def [symmetric] Let_def answer_typed_def
    by (auto simp: ext int split: option.split)
  then show ?thesis
    by (simp only: segs_def)
qed

lemma sample_tenants_reachable: "reachable sample_tenants"
  unfolding sample_tenants_def
  by (rule reachable_step [OF reachable_step [OF sample_tenant_reachable]]) (rule store_step.intros)+

theorem Router_answers_are_typed_witness:
  "answer_typed ''GET'' [''v1'', ''projects''] (fst (Router (sample_jwt []) sample_net sample_handler
     (sample_request ''GET'' ''/v1/projects'' []) (sample_server sample_tenants)))"
proof -
  have "Split (drop 1 ''/v1/projects'') (CHR ''/'') = [''v1'', ''projects'']"
    by code_simp
  then show ?thesis
    using Router_answers_are_typed [of sample_handler "sample_server sample_tenants" "sample_request ''GET'' ''/v1/projects'' []"
        "sample_jwt []" sample_net] sample_tenants_reachable by simp
qed

end
