(* ===== verification/Ktc_Keycloak.thy ===== *)
theory Ktc_Keycloak
  imports Prelude
begin

text \<open>
  The Keycloak client of the keycloak-tenant-controller: pkg/keycloak/gocloak.go (one admin call
  with its token and its error message per function) and pkg/keycloak/client.go (the roles and
  groups of orgs and projects).

  The gocloak library and the Keycloak server behind it are a parameter: \<open>'k gocloak\<close> has one
  field per call, on the server's state \<open>'k\<close>.  A role stands for its name.  Contexts with
  timeouts, the pause between two attempts and logging are not modelled: any call may fail at any
  time.  \<open>rng n\<close> is the order in which the \<open>n\<close>-th \<open>range\<close> over a map visits it.
\<close>

section \<open>gocloak.go\<close>

record GroupRepresentation =
  gr_ID :: string
  gr_Name :: string

record 'k gocloak =
  gk_Token :: "'k \<Rightarrow> (go_err + string) \<times> 'k"
  gk_GetRealm :: "string \<Rightarrow> string \<Rightarrow> 'k \<Rightarrow> (go_err + bool option option) \<times> 'k"
  gk_CreateRealmRole :: "string \<Rightarrow> string \<Rightarrow> string \<Rightarrow> 'k \<Rightarrow> (go_err + unit) \<times> 'k"
  gk_GetRealmRoles :: "string \<Rightarrow> string \<Rightarrow> 'k \<Rightarrow> (go_err + string list) \<times> 'k"
  gk_DeleteRealmRole :: "string \<Rightarrow> string \<Rightarrow> string \<Rightarrow> 'k \<Rightarrow> (go_err + unit) \<times> 'k"
  gk_CreateGroup :: "string \<Rightarrow> string \<Rightarrow> string \<Rightarrow> 'k \<Rightarrow> (go_err + unit) \<times> 'k"
  gk_GetGroups :: "string \<Rightarrow> string \<Rightarrow> string option \<Rightarrow> 'k \<Rightarrow> (go_err + GroupRepresentation list) \<times> 'k"
  gk_DeleteGroup :: "string \<Rightarrow> string \<Rightarrow> string \<Rightarrow> 'k \<Rightarrow> (go_err + unit) \<times> 'k"
  gk_AddRealmRoleToGroup :: "string \<Rightarrow> string \<Rightarrow> string \<Rightarrow> string list \<Rightarrow> 'k \<Rightarrow> (go_err + unit) \<times> 'k"

text \<open>Every function fetches a token first; errors are flattened with \<open>%v\<close>.\<close>

definition failed :: "string \<Rightarrow> go_err \<Rightarrow> go_err" where
  "failed m err = Errorf (m @ '': '' @ err_text err)"

definition authed :: "'k gocloak \<Rightarrow> (string \<Rightarrow> 'k \<Rightarrow> (go_err + 'a) \<times> 'k) \<Rightarrow> 'k \<Rightarrow> (go_err + 'a) \<times> 'k" where
  "authed G f k =
     (case gk_Token G k of
        (Inl err, k) \<Rightarrow> (Inl (failed ''failed to get json web token'' err), k)
      | (Inr jwt, k) \<Rightarrow> f jwt k)"

definition or_failed :: "string \<Rightarrow> (go_err + 'a) \<times> 'k \<Rightarrow> (go_err + 'a) \<times> 'k" where
  "or_failed m res = (case res of (Inl err, k) \<Rightarrow> (Inl (failed m err), k) | (Inr a, k) \<Rightarrow> (Inr a, k))"

definition ensureRealmExists :: "'k gocloak \<Rightarrow> string \<Rightarrow> 'k \<Rightarrow> (go_err + bool) \<times> 'k" where
  "ensureRealmExists G realmName = authed G (\<lambda>jwt k.
     case gk_GetRealm G jwt realmName k of
       (Inl err, k) \<Rightarrow> (Inl (failed (''failed to get realm representation for realm '' @ realmName) err), k)
     | (Inr None, k) \<Rightarrow> (Inl (Errorf (''realm representation for realm '' @ realmName @ '' is nil'')), k)
     | (Inr (Some enabled), k) \<Rightarrow>
         if enabled = None \<or> enabled = Some False
         then (Inl (Errorf (''realm representation for realm '' @ realmName @ '' is nil or not enabled'')), k)
         else (Inr True, k))"

definition createRole :: "'k gocloak \<Rightarrow> string \<Rightarrow> string \<Rightarrow> 'k \<Rightarrow> (go_err + unit) \<times> 'k" where
  "createRole G realm role = authed G (\<lambda>jwt k.
     or_failed (''failed to create role '' @ role @ '' in realm '' @ realm) (gk_CreateRealmRole G jwt realm role k))"

definition getRoles :: "'k gocloak \<Rightarrow> string \<Rightarrow> 'k \<Rightarrow> (go_err + string list) \<times> 'k" where
  "getRoles G realm = authed G (\<lambda>jwt k.
     or_failed (''failed to get roles in realm '' @ realm) (gk_GetRealmRoles G jwt realm k))"

definition deleteRole :: "'k gocloak \<Rightarrow> string \<Rightarrow> string \<Rightarrow> 'k \<Rightarrow> (go_err + unit) \<times> 'k" where
  "deleteRole G realm role = authed G (\<lambda>jwt k.
     or_failed (''failed to delete role '' @ role @ '' in realm '' @ realm) (gk_DeleteRealmRole G jwt realm role k))"

definition createGroup :: "'k gocloak \<Rightarrow> string \<Rightarrow> string \<Rightarrow> 'k \<Rightarrow> (go_err + unit) \<times> 'k" where
  "createGroup G realm groupName = authed G (\<lambda>jwt k.
     or_failed (''failed to create group '' @ groupName @ '' in realm '' @ realm) (gk_CreateGroup G jwt realm groupName k))"

definition getGroups :: "'k gocloak \<Rightarrow> string \<Rightarrow> 'k \<Rightarrow> (go_err + GroupRepresentation list) \<times> 'k" where
  "getGroups G realm = authed G (\<lambda>jwt k.
     or_failed (''failed to get groups in realm '' @ realm) (gk_GetGroups G jwt realm None k))"

definition deleteGroup :: "'k gocloak \<Rightarrow> string \<Rightarrow> string \<Rightarrow> 'k \<Rightarrow> (go_err + unit) \<times> 'k" where
  "deleteGroup G realm groupName = authed G (\<lambda>jwt k.
     or_failed (''failed to delete group '' @ groupName @ '' in realm '' @ realm) (gk_DeleteGroup G jwt realm groupName k))"

text \<open>The loop of \<open>getRolesByNames\<close>: the first name without a role ends it.\<close>

fun pick_roles :: "string \<Rightarrow> string list \<Rightarrow> string list \<Rightarrow> go_err + string list" where
  "pick_roles realm roles [] = Inr []"
| "pick_roles realm roles (roleName # roleNames) =
     (case find (\<lambda>role. role = roleName) roles of
        None \<Rightarrow> Inl (Errorf (''role '' @ roleName @ '' not found in realm '' @ realm))
      | Some role \<Rightarrow>
          (case pick_roles realm roles roleNames of Inl err \<Rightarrow> Inl err | Inr rs \<Rightarrow> Inr (role # rs)))"

definition getRolesByNames :: "'k gocloak \<Rightarrow> string \<Rightarrow> string list \<Rightarrow> 'k \<Rightarrow> (go_err + string list) \<times> 'k" where
  "getRolesByNames G realm roleNames = authed G (\<lambda>jwt k.
     case gk_GetRealmRoles G jwt realm k of
       (Inl err, k) \<Rightarrow> (Inl (failed (''failed to get roles in realm '' @ realm) err), k)
     | (Inr roles, k) \<Rightarrow> (pick_roles realm roles roleNames, k))"

definition getGroupByName :: "'k gocloak \<Rightarrow> string \<Rightarrow> string \<Rightarrow> 'k \<Rightarrow> (go_err + GroupRepresentation) \<times> 'k" where
  "getGroupByName G realm groupName = authed G (\<lambda>jwt k.
     case gk_GetGroups G jwt realm (Some groupName) k of
       (Inl err, k) \<Rightarrow> (Inl (failed (''failed to get groups in realm '' @ realm) err), k)
     | (Inr groups, k) \<Rightarrow>
         (case find (\<lambda>g. gr_Name g = groupName) groups of
            None \<Rightarrow> (Inl (Errorf (''group '' @ groupName @ '' not found in realm '' @ realm)), k)
          | Some g \<Rightarrow> (Inr g, k)))"

text \<open>The verb \<open>%v\<close> of a slice of strings.\<close>

definition show_strings :: "string list \<Rightarrow> string" where
  "show_strings ss = ''['' @ Join ss '' '' @ '']''"

definition addRolesToGroup :: "'k gocloak \<Rightarrow> string \<Rightarrow> string \<Rightarrow> string list \<Rightarrow> 'k \<Rightarrow> (go_err + unit) \<times> 'k" where
  "addRolesToGroup G realm groupName roleNames = authed G (\<lambda>jwt k.
     case getGroupByName G realm groupName k of
       (Inl err, k) \<Rightarrow> (Inl (failed (''failed to get group by name '' @ groupName @ '' in realm '' @ realm) err), k)
     | (Inr g, k) \<Rightarrow>
         (case getRolesByNames G realm roleNames k of
            (Inl err, k) \<Rightarrow> (Inl (failed (''failed to get roles by names '' @ show_strings roleNames @ '' in realm '' @ realm) err), k)
          | (Inr roles, k) \<Rightarrow>
              or_failed (''failed to add roles to group '' @ groupName @ '' in realm '' @ realm)
                (gk_AddRealmRoleToGroup G jwt realm (gr_ID g) roles k)))"

section \<open>client.go\<close>

definition orgPrefix :: string where "orgPrefix = ''<org-id>''"
definition projPrefix :: string where "projPrefix = ''<project-id>''"
definition retryAttempts :: nat where "retryAttempts = 10"

type_synonym templates = "(string \<times> string list) list"

record 'k client =
  session :: "'k gocloak"
  orgGroups :: templates
  projGroups :: templates
  siGroups :: templates
  keycloakurl :: string
  keycloakRealm :: string
  rng :: "nat \<Rightarrow> templates \<Rightarrow> templates"

definition isErrorForAlreadyExists :: "go_err \<Rightarrow> bool" where
  "isErrorForAlreadyExists err \<longleftrightarrow> Contains (err_text err) ''409''"

definition named :: "string \<Rightarrow> string \<Rightarrow> string \<Rightarrow> string" where
  "named orgID projID template = ReplaceAll (ReplaceAll template orgPrefix orgID) projPrefix projID"

text \<open>The role loop of one group; \<open>Inr\<close> is \<open>updatedRoleNames\<close>.\<close>

fun create_roles :: "'k client \<Rightarrow> string \<Rightarrow> string \<Rightarrow> string list \<Rightarrow> 'k \<Rightarrow> (go_err + string list) \<times> 'k" where
  "create_roles c orgID projID [] k = (Inr [], k)"
| "create_roles c orgID projID (roleName # roleNames) k =
     (let roleName = named orgID projID roleName in
      case createRole (session c) (keycloakRealm c) roleName k of
        (res, k) \<Rightarrow>
          if (case res of Inl err \<Rightarrow> \<not> isErrorForAlreadyExists err | Inr _ \<Rightarrow> False)
          then (Inl (projl res), k)
          else (case create_roles c orgID projID roleNames k of
                  (Inl err, k) \<Rightarrow> (Inl err, k)
                | (Inr updated, k) \<Rightarrow> (Inr (roleName # updated), k)))"

fun create_groups :: "'k client \<Rightarrow> string \<Rightarrow> string \<Rightarrow> templates \<Rightarrow> 'k \<Rightarrow> (go_err + unit) \<times> 'k" where
  "create_groups c orgID projID [] k = (Inr (), k)"
| "create_groups c orgID projID ((groupName, roleNames) # groups) k =
     (let groupName = named orgID projID groupName in
      case createGroup (session c) (keycloakRealm c) groupName k of
        (res, k) \<Rightarrow>
          if (case res of Inl err \<Rightarrow> \<not> isErrorForAlreadyExists err | Inr _ \<Rightarrow> False)
          then (Inl (projl res), k)
          else (case create_roles c orgID projID roleNames k of
                  (Inl err, k) \<Rightarrow> (Inl err, k)
                | (Inr updatedRoleNames, k) \<Rightarrow>
                    (case addRolesToGroup (session c) (keycloakRealm c) groupName updatedRoleNames k of
                       (Inl err, k) \<Rightarrow> (Inl err, k)
                     | (Inr _, k) \<Rightarrow> create_groups c orgID projID groups k)))"

text \<open>The loops of \<open>checkRolesAndGroupsCreated\<close> over what it has read.\<close>

definition missing_role :: "'k client \<Rightarrow> string list \<Rightarrow> string \<Rightarrow> string \<Rightarrow> string list \<Rightarrow> go_err option" where
  "missing_role c existingRoles orgID projID roleNames =
     map_option (\<lambda>r. Errorf (''keycloak realm '' @ keycloakRealm c @ '' does not contain role '' @ named orgID projID r))
       (find (\<lambda>r. named orgID projID r \<notin> set existingRoles) roleNames)"

fun missing :: "'k client \<Rightarrow> GroupRepresentation list \<Rightarrow> string list \<Rightarrow> string \<Rightarrow> string \<Rightarrow> templates \<Rightarrow> go_err option" where
  "missing c existingGroups existingRoles orgID projID [] = None"
| "missing c existingGroups existingRoles orgID projID ((groupName, roleNames) # groups) =
     (if \<not> list_ex (\<lambda>g. gr_Name g = named orgID projID groupName) existingGroups
      then Some (Errorf (''keycloak realm '' @ keycloakRealm c @ '' does not contain group '' @ named orgID projID groupName))
      else case missing_role c existingRoles orgID projID roleNames of
             Some err \<Rightarrow> Some err
           | None \<Rightarrow> missing c existingGroups existingRoles orgID projID groups)"

definition checkRolesAndGroupsCreated ::
  "'k client \<Rightarrow> string \<Rightarrow> string \<Rightarrow> templates \<Rightarrow> 'k \<Rightarrow> (go_err + unit) \<times> 'k" where
  "checkRolesAndGroupsCreated c orgID projID groups k =
     (case getGroups (session c) (keycloakRealm c) k of
        (Inl err, k) \<Rightarrow> (Inl err, k)
      | (Inr existingGroups, k) \<Rightarrow>
          (case getRoles (session c) (keycloakRealm c) k of
             (Inl err, k) \<Rightarrow> (Inl err, k)
           | (Inr existingRoles, k) \<Rightarrow>
               (case missing c existingGroups existingRoles orgID projID groups of
                  Some err \<Rightarrow> (Inl err, k)
                | None \<Rightarrow> (Inr (), k))))"

text \<open>The attempts; \<open>n\<close> is \<open>retryAttempts - count\<close>, the retries that are left.\<close>

fun attempts :: "'k client \<Rightarrow> string \<Rightarrow> string \<Rightarrow> templates \<Rightarrow> nat \<Rightarrow> 'k \<Rightarrow> (go_err + unit) \<times> 'k" where
  "attempts c orgID projID groups n k =
     (case create_groups c orgID projID (rng c (2 * n + 1) groups) k of
        (Inl err, k) \<Rightarrow> (Inl err, k)
      | (Inr _, k) \<Rightarrow>
          (case checkRolesAndGroupsCreated c orgID projID (rng c (2 * n) groups) k of
             (Inr _, k) \<Rightarrow> (Inr (), k)
           | (Inl err, k) \<Rightarrow>
               (case n of
                  0 \<Rightarrow> (Inl (Errorf ''role or group does not exist in Keycloak after 11 attempts to create''), k)
                | Suc m \<Rightarrow> attempts c orgID projID groups m k)))"

declare attempts.simps [simp del]

definition createRolesAndGroups ::
  "'k client \<Rightarrow> string \<Rightarrow> string \<Rightarrow> templates \<Rightarrow> 'k \<Rightarrow> (go_err + unit) \<times> 'k" where
  "createRolesAndGroups c orgID projID groups k =
     (case ensureRealmExists (session c) (keycloakRealm c) k of
        (Inl err, k) \<Rightarrow> (Inl err, k)
      | (Inr _, k) \<Rightarrow> attempts c orgID projID groups retryAttempts k)"

fun delete_roles :: "'k client \<Rightarrow> string \<Rightarrow> string list \<Rightarrow> 'k \<Rightarrow> (go_err + unit) \<times> 'k" where
  "delete_roles c i [] k = (Inr (), k)"
| "delete_roles c i (role # roles) k =
     (if Contains role i then
        (case deleteRole (session c) (keycloakRealm c) role k of
           (Inl err, k) \<Rightarrow> (Inl err, k)
         | (Inr _, k) \<Rightarrow> delete_roles c i roles k)
      else delete_roles c i roles k)"

fun delete_groups :: "'k client \<Rightarrow> string \<Rightarrow> GroupRepresentation list \<Rightarrow> 'k \<Rightarrow> (go_err + unit) \<times> 'k" where
  "delete_groups c i [] k = (Inr (), k)"
| "delete_groups c i (g # groups) k =
     (if Contains (gr_Name g) i then
        (case deleteGroup (session c) (keycloakRealm c) (gr_ID g) k of
           (Inl err, k) \<Rightarrow> (Inl err, k)
         | (Inr _, k) \<Rightarrow> delete_groups c i groups k)
      else delete_groups c i groups k)"

definition deleteRolesAndGroups :: "'k client \<Rightarrow> string \<Rightarrow> 'k \<Rightarrow> (go_err + unit) \<times> 'k" where
  "deleteRolesAndGroups c i k =
     (case ensureRealmExists (session c) (keycloakRealm c) k of
        (Inl err, k) \<Rightarrow> (Inl err, k)
      | (Inr _, k) \<Rightarrow>
     (case getRoles (session c) (keycloakRealm c) k of
        (Inl err, k) \<Rightarrow> (Inl err, k)
      | (Inr roles, k) \<Rightarrow>
     (case delete_roles c i roles k of
        (Inl err, k) \<Rightarrow> (Inl err, k)
      | (Inr _, k) \<Rightarrow>
     (case getGroups (session c) (keycloakRealm c) k of
        (Inl err, k) \<Rightarrow> (Inl err, k)
      | (Inr groups, k) \<Rightarrow> delete_groups c i groups k))))"

text \<open>The methods of the interface.\<close>

definition ktc_CreateOrg :: "'k client \<Rightarrow> string \<Rightarrow> 'k \<Rightarrow> (go_err + unit) \<times> 'k" where
  "ktc_CreateOrg c orgID = createRolesAndGroups c orgID [] (orgGroups c)"

definition ktc_DeleteOrg :: "'k client \<Rightarrow> string \<Rightarrow> 'k \<Rightarrow> (go_err + unit) \<times> 'k" where
  "ktc_DeleteOrg c orgID = deleteRolesAndGroups c orgID"

definition ktc_CreateProject :: "'k client \<Rightarrow> string \<Rightarrow> string \<Rightarrow> 'k \<Rightarrow> (go_err + unit) \<times> 'k" where
  "ktc_CreateProject c orgID projID = createRolesAndGroups c orgID projID (projGroups c)"

definition ktc_DeleteProject :: "'k client \<Rightarrow> string \<Rightarrow> 'k \<Rightarrow> (go_err + unit) \<times> 'k" where
  "ktc_DeleteProject c projID = deleteRolesAndGroups c projID"

text \<open>\<open>init\<close>: a JSON document that cannot be decoded leaves the field as it was and is only
  logged, and so is a failure to create the cross-tenant groups.\<close>

definition ktc_Init ::
  "(string \<rightharpoonup> string) \<Rightarrow> (string \<Rightarrow> templates option) \<Rightarrow> (string \<Rightarrow> string \<Rightarrow> go_err + 'k gocloak) \<Rightarrow> 'k client \<Rightarrow> 'k
     \<Rightarrow> (go_err + 'k client) \<times> 'k" where
  "ktc_Init e unmarshal newSession c k =
     (let env = (\<lambda>key. case e key of None \<Rightarrow> [] | Some v \<Rightarrow> v);
          c = (if env ''KEYCLOAK_URL'' \<noteq> [] then c\<lparr>keycloakurl := env ''KEYCLOAK_URL''\<rparr> else c);
          c = (if env ''KEYCLOAK_REALM'' \<noteq> [] then c\<lparr>keycloakRealm := env ''KEYCLOAK_REALM''\<rparr> else c);
          c = (case unmarshal (env ''KEYCLOAK_ORG_GROUPS'') of None \<Rightarrow> c | Some gs \<Rightarrow> c\<lparr>orgGroups := gs\<rparr>);
          c = (case unmarshal (env ''KEYCLOAK_PROJ_GROUPS'') of None \<Rightarrow> c | Some gs \<Rightarrow> c\<lparr>projGroups := gs\<rparr>)
      in case newSession (keycloakRealm c) (keycloakurl c) of
           Inl err \<Rightarrow> (Inl (Errorf (''failed to create Keycloak session: '' @ err_text err)), k)
         | Inr s \<Rightarrow> (Inr (c\<lparr>session := s\<rparr>), snd (createRolesAndGroups (c\<lparr>session := s\<rparr>) [] [] (siGroups c) k)))"

end
