(* ===== verification/Ktc_Provision.thy ===== *)
theory Ktc_Provision
  imports Ktc_Keycloak "HOL-Library.Multiset"
begin

text \<open>
  What the Keycloak client of the keycloak-tenant-controller does to a realm.

  Keycloak is a parameter, so its documented behaviour is the hypothesis \<open>gocloak_ok\<close>: a read
  changes nothing and answers truthfully, a creation adds at most the resource it names (it may
  answer success and create nothing), a deletion removes at most the resource it names and removes
  it when it succeeds, and an assignment that succeeds grants the roles.  Every call may fail.
\<close>

section \<open>A realm and how a call changes it\<close>

record 'k realm =
  rv_roles :: "'k \<Rightarrow> string set"
  rv_groups :: "'k \<Rightarrow> GroupRepresentation set"
  rv_grants :: "'k \<Rightarrow> (string \<times> string) set"

definition same :: "'k realm \<Rightarrow> 'k \<Rightarrow> 'k \<Rightarrow> bool" where
  "same V k k' \<longleftrightarrow> rv_roles V k' = rv_roles V k \<and> rv_groups V k' = rv_groups V k \<and> rv_grants V k' = rv_grants V k"

definition adds :: "'k realm \<Rightarrow> string set \<Rightarrow> string set \<Rightarrow> 'k \<Rightarrow> 'k \<Rightarrow> bool" where
  "adds V rs gs k k' \<longleftrightarrow>
     rv_roles V k \<subseteq> rv_roles V k' \<and> rv_roles V k' \<subseteq> rv_roles V k \<union> rs \<and>
     rv_groups V k \<subseteq> rv_groups V k' \<and> (\<forall>g\<in>rv_groups V k' - rv_groups V k. gr_Name g \<in> gs) \<and>
     rv_grants V k \<subseteq> rv_grants V k' \<and>
     (\<forall>(i, r)\<in>rv_grants V k' - rv_grants V k. r \<in> rs \<and> (\<exists>g\<in>rv_groups V k'. gr_ID g = i \<and> gr_Name g \<in> gs))"

definition drops :: "'k realm \<Rightarrow> string set \<Rightarrow> string set \<Rightarrow> 'k \<Rightarrow> 'k \<Rightarrow> bool" where
  "drops V rs gids k k' \<longleftrightarrow>
     rv_roles V k' \<subseteq> rv_roles V k \<and> rv_roles V k \<subseteq> rv_roles V k' \<union> rs \<and>
     rv_groups V k' \<subseteq> rv_groups V k \<and> (\<forall>g\<in>rv_groups V k - rv_groups V k'. gr_ID g \<in> gids) \<and>
     (\<forall>(i, r)\<in>rv_grants V k - rv_grants V k'. i \<in> gids \<or> r \<in> rs)"

definition assigns :: "'k realm \<Rightarrow> string \<Rightarrow> string set \<Rightarrow> 'k \<Rightarrow> 'k \<Rightarrow> bool" where
  "assigns V i rs k k' \<longleftrightarrow>
     rv_roles V k' = rv_roles V k \<and> rv_groups V k' = rv_groups V k \<and>
     rv_grants V k \<subseteq> rv_grants V k' \<and> rv_grants V k' \<subseteq> rv_grants V k \<union> {i} \<times> rs"

definition gocloak_ok :: "'k realm \<Rightarrow> string \<Rightarrow> 'k gocloak \<Rightarrow> bool" where
  "gocloak_ok V realm G \<longleftrightarrow>
     (\<forall>k. inj_on gr_ID (rv_groups V k)) \<and>
     (\<forall>k. same V k (snd (gk_Token G k))) \<and>
     (\<forall>j k. same V k (snd (gk_GetRealm G j realm k))) \<and>
     (\<forall>j k. same V k (snd (gk_GetRealmRoles G j realm k)) \<and>
        (\<forall>rs. fst (gk_GetRealmRoles G j realm k) = Inr rs \<longrightarrow> set rs = rv_roles V k)) \<and>
     (\<forall>j q k. same V k (snd (gk_GetGroups G j realm q k)) \<and>
        (\<forall>gs. fst (gk_GetGroups G j realm q k) = Inr gs \<longrightarrow>
           set gs \<subseteq> rv_groups V k \<and> (q = None \<longrightarrow> set gs = rv_groups V k))) \<and>
     (\<forall>j r k. adds V {r} {} k (snd (gk_CreateRealmRole G j realm r k))) \<and>
     (\<forall>j g k. adds V {} {g} k (snd (gk_CreateGroup G j realm g k))) \<and>
     (\<forall>j i rs k. assigns V i (set rs) k (snd (gk_AddRealmRoleToGroup G j realm i rs k)) \<and>
        (fst (gk_AddRealmRoleToGroup G j realm i rs k) = Inr () \<longrightarrow>
           {i} \<times> set rs \<subseteq> rv_grants V (snd (gk_AddRealmRoleToGroup G j realm i rs k)))) \<and>
     (\<forall>j r k. drops V {r} {} k (snd (gk_DeleteRealmRole G j realm r k)) \<and>
        (fst (gk_DeleteRealmRole G j realm r k) = Inr () \<longrightarrow>
           r \<notin> rv_roles V (snd (gk_DeleteRealmRole G j realm r k)))) \<and>
     (\<forall>j i k. drops V {} {i} k (snd (gk_DeleteGroup G j realm i k)) \<and>
        (fst (gk_DeleteGroup G j realm i k) = Inr () \<longrightarrow>
           i \<notin> gr_ID ` rv_groups V (snd (gk_DeleteGroup G j realm i k))))"

lemma same_refl [simp]: "same V k k"
  by (simp add: same_def)

lemma same_trans: "same V k k' \<Longrightarrow> same V k' k'' \<Longrightarrow> same V k k''"
  by (simp add: same_def)

lemma same_adds: "same V k k' \<Longrightarrow> adds V rs gs k k'"
  by (simp add: same_def adds_def)

lemma same_drops: "same V k k' \<Longrightarrow> drops V rs gs k k'"
  by (simp add: same_def drops_def)

lemma adds_refl [simp]: "adds V rs gs k k"
  by (simp add: adds_def)

lemma drops_refl [simp]: "drops V rs gs k k"
  by (simp add: drops_def)

lemma addsD:
  assumes "adds V rs gs k k'"
  shows "rv_roles V k \<subseteq> rv_roles V k'" and "rv_roles V k' \<subseteq> rv_roles V k \<union> rs"
    and "rv_groups V k \<subseteq> rv_groups V k'" and "rv_grants V k \<subseteq> rv_grants V k'"
    and "g \<in> rv_groups V k' \<Longrightarrow> g \<in> rv_groups V k \<or> gr_Name g \<in> gs"
    and "(i, r) \<in> rv_grants V k' \<Longrightarrow>
           (i, r) \<in> rv_grants V k \<or> r \<in> rs \<and> (\<exists>g\<in>rv_groups V k'. gr_ID g = i \<and> gr_Name g \<in> gs)"
  using assms unfolding adds_def by blast+

lemma adds_trans:
  assumes 1: "adds V rs gs k k'" and 2: "adds V rs' gs' k' k''" and sub: "rs \<union> rs' \<subseteq> RS" "gs \<union> gs' \<subseteq> GS"
  shows "adds V RS GS k k''"
proof -
  have "g \<in> rv_groups V k \<or> gr_Name g \<in> GS" if "g \<in> rv_groups V k''" for g
    using addsD(5) [OF 1, of g] addsD(5) [OF 2 that] sub by blast
  moreover have "(i, r) \<in> rv_grants V k \<or> r \<in> RS \<and> (\<exists>g\<in>rv_groups V k''. gr_ID g = i \<and> gr_Name g \<in> GS)"
    if "(i, r) \<in> rv_grants V k''" for i r
    using addsD(6) [OF 1, of i r] addsD(6) [OF 2 that] addsD(3) [OF 2] sub by blast
  moreover have "rv_roles V k'' \<subseteq> rv_roles V k \<union> RS"
    using addsD(2) [OF 1] addsD(2) [OF 2] sub by blast
  moreover have "rv_roles V k \<subseteq> rv_roles V k''" and "rv_groups V k \<subseteq> rv_groups V k''"
    and "rv_grants V k \<subseteq> rv_grants V k''"
    using addsD(1,3,4) [OF 1] addsD(1,3,4) [OF 2] by blast+
  ultimately show ?thesis
    unfolding adds_def by auto
qed

lemma dropsD:
  assumes "drops V rs gids k k'"
  shows "rv_roles V k' \<subseteq> rv_roles V k" and "rv_roles V k \<subseteq> rv_roles V k' \<union> rs"
    and "rv_groups V k' \<subseteq> rv_groups V k"
    and "g \<in> rv_groups V k \<Longrightarrow> g \<in> rv_groups V k' \<or> gr_ID g \<in> gids"
    and "(i, r) \<in> rv_grants V k \<Longrightarrow> (i, r) \<in> rv_grants V k' \<or> i \<in> gids \<or> r \<in> rs"
  using assms unfolding drops_def by blast+

lemma drops_trans:
  assumes 1: "drops V rs gs k k'" and 2: "drops V rs' gs' k' k''" and sub: "rs \<union> rs' \<subseteq> RS" "gs \<union> gs' \<subseteq> GS"
  shows "drops V RS GS k k''"
proof -
  have "g \<in> rv_groups V k'' \<or> gr_ID g \<in> GS" if "g \<in> rv_groups V k" for g
    using dropsD(4) [OF 1 that] dropsD(4) [OF 2, of g] sub by blast
  moreover have "(i, r) \<in> rv_grants V k'' \<or> i \<in> GS \<or> r \<in> RS" if "(i, r) \<in> rv_grants V k" for i r
    using dropsD(5) [OF 1 that] dropsD(5) [OF 2, of i r] sub by blast
  moreover have "rv_roles V k \<subseteq> rv_roles V k'' \<union> RS"
    using dropsD(2) [OF 1] dropsD(2) [OF 2] sub by blast
  moreover have "rv_roles V k'' \<subseteq> rv_roles V k" and "rv_groups V k'' \<subseteq> rv_groups V k"
    using dropsD(1,3) [OF 1] dropsD(1,3) [OF 2] by blast+
  ultimately show ?thesis
    unfolding drops_def by auto
qed

lemma adds_mono: "adds V rs gs k k' \<Longrightarrow> rs \<subseteq> RS \<Longrightarrow> gs \<subseteq> GS \<Longrightarrow> adds V RS GS k k'"
  using adds_trans [of V rs gs k k' "{}" "{}" k' RS GS] by simp

lemma assigns_adds:
  "assigns V i rs k k' \<Longrightarrow> g \<in> rv_groups V k \<Longrightarrow> gr_ID g = i \<Longrightarrow> gr_Name g = n \<Longrightarrow> adds V rs {n} k k'"
  by (auto simp: assigns_def adds_def)

section \<open>The calls of gocloak.go\<close>

lemma gocloak_okD:
  assumes "gocloak_ok V realm G"
  shows "inj_on gr_ID (rv_groups V k)"
    and "gk_Token G k = (ts, k') \<Longrightarrow> same V k k'"
    and "gk_GetRealm G j realm k = (er, k') \<Longrightarrow> same V k k'"
    and "gk_GetRealmRoles G j realm k = (rs, k') \<Longrightarrow> same V k k'"
    and "gk_GetRealmRoles G j realm k = (Inr rl, k') \<Longrightarrow> set rl = rv_roles V k"
    and "gk_GetGroups G j realm q k = (gs, k') \<Longrightarrow> same V k k'"
    and "gk_GetGroups G j realm q k = (Inr gl, k') \<Longrightarrow> set gl \<subseteq> rv_groups V k"
    and "gk_GetGroups G j realm None k = (Inr gl, k') \<Longrightarrow> set gl = rv_groups V k"
    and "gk_CreateRealmRole G j realm r k = (u, k') \<Longrightarrow> adds V {r} {} k k'"
    and "gk_CreateGroup G j realm n k = (u, k') \<Longrightarrow> adds V {} {n} k k'"
    and "gk_AddRealmRoleToGroup G j realm i rl k = (u, k') \<Longrightarrow> assigns V i (set rl) k k'"
    and "gk_AddRealmRoleToGroup G j realm i rl k = (Inr (), k') \<Longrightarrow> {i} \<times> set rl \<subseteq> rv_grants V k'"
    and "gk_DeleteRealmRole G j realm r k = (u, k') \<Longrightarrow> drops V {r} {} k k'"
    and "gk_DeleteRealmRole G j realm r k = (Inr (), k') \<Longrightarrow> r \<notin> rv_roles V k'"
    and "gk_DeleteGroup G j realm i k = (u, k') \<Longrightarrow> drops V {} {i} k k'"
    and "gk_DeleteGroup G j realm i k = (Inr (), k') \<Longrightarrow> i \<notin> gr_ID ` rv_groups V k'"
  using assms unfolding gocloak_ok_def by (metis fst_conv snd_conv)+


lemma read_truthful:
  assumes ok: "gocloak_ok V realm G"
  shows "gk_GetRealmRoles G j realm k = (Inr rl, k') \<Longrightarrow> set rl = rv_roles V k'"
    and "gk_GetGroups G j realm q k = (Inr gl, k') \<Longrightarrow> set gl \<subseteq> rv_groups V k'"
    and "gk_GetGroups G j realm None k = (Inr gl, k') \<Longrightarrow> set gl = rv_groups V k'"
  using gocloak_okD(4-8) [OF ok] by (metis same_def)+

lemma authed_elim:
  assumes ok: "gocloak_ok V realm G" and "authed G f k = (res, k')"
  obtains (token) e where "res = Inl e" and "same V k k'"
    | (call) jwt k1 where "same V k k1" and "f jwt k1 = (res, k')"
  using assms by (auto simp: authed_def split: prod.splits sum.splits dest: gocloak_okD(2) [OF ok])

lemma or_failed_Inr [simp]: "or_failed m res = (Inr a, k) \<longleftrightarrow> res = (Inr a, k)"
  by (auto simp: or_failed_def split: prod.splits sum.splits)

lemma or_failed_state: "or_failed m res = (x, k) \<Longrightarrow> \<exists>y. res = (y, k)"
  by (auto simp: or_failed_def split: prod.splits sum.splits)

lemma pick_roles_Inr: "pick_roles realm roles names = Inr rs \<longleftrightarrow> rs = names \<and> set names \<subseteq> set roles"
proof (induction names arbitrary: rs)
  case (Cons n names)
  show ?case
  proof (cases "n \<in> set roles")
    case True
    then have "find (\<lambda>role. role = n) roles = Some n"
      by (induction roles) auto
    with Cons.IH [of names] Cons.IH [of "tl rs"] True show ?thesis
      by (auto split: sum.splits)
  next
    case False
    then have "find (\<lambda>role. role = n) roles = None"
      by (auto simp: find_None_iff)
    with False show ?thesis
      by simp
  qed
qed auto

lemma reads_same:
  assumes ok: "gocloak_ok V realm G"
  shows ensureRealmExists_same: "ensureRealmExists G realm k = (x, k') \<Longrightarrow> same V k k'"
    and getRoles_same: "getRoles G realm k = (rs, k') \<Longrightarrow> same V k k'"
    and getGroups_same: "getGroups G realm k = (gs, k') \<Longrightarrow> same V k k'"
    and getRolesByNames_same: "getRolesByNames G realm ns k = (rs, k') \<Longrightarrow> same V k k'"
    and getGroupByName_same: "getGroupByName G realm n k = (g, k') \<Longrightarrow> same V k k'"
  unfolding ensureRealmExists_def getRoles_def getGroups_def getRolesByNames_def getGroupByName_def
  by (erule authed_elim [OF ok],
      auto split: prod.splits sum.splits option.splits if_splits
        dest: gocloak_okD(2-4,6) [OF ok] or_failed_state intro: same_trans)+

lemma read_answers:
  assumes ok: "gocloak_ok V realm G"
  shows getRoles_Inr: "getRoles G realm k = (Inr rs, k') \<Longrightarrow> set rs = rv_roles V k'"
    and getGroups_Inr: "getGroups G realm k = (Inr gs, k') \<Longrightarrow> set gs = rv_groups V k'"
    and getRolesByNames_Inr: "getRolesByNames G realm ns k = (Inr rs', k') \<Longrightarrow> rs' = ns \<and> set ns \<subseteq> rv_roles V k'"
  unfolding getRoles_def getGroups_def getRolesByNames_def
  by (erule authed_elim [OF ok],
      auto split: prod.splits sum.splits
        simp: pick_roles_Inr read_truthful [OF ok] dest: read_truthful(1) [OF ok])+

lemma getGroupByName_Inr:
  assumes ok: "gocloak_ok V realm G" and "getGroupByName G realm n k = (Inr g, k')"
  shows "g \<in> rv_groups V k' \<and> gr_Name g = n"
  using assms(2) unfolding getGroupByName_def
  by (elim authed_elim [OF ok])
     (auto split: prod.splits sum.splits option.splits dest!: find_Some_mem dest: read_truthful(2) [OF ok])

lemma createRole_adds:
  assumes ok: "gocloak_ok V realm G" and "createRole G realm r k = (x, k')"
  shows "adds V {r} {} k k'"
  using assms(2) unfolding createRole_def
  by (elim authed_elim [OF ok])
     (auto dest!: or_failed_state gocloak_okD(9) [OF ok] intro: same_adds adds_trans [OF same_adds [of _ _ _ "{}" "{}"]])

lemma createGroup_adds:
  assumes ok: "gocloak_ok V realm G" and "createGroup G realm n k = (x, k')"
  shows "adds V {} {n} k k'"
  using assms(2) unfolding createGroup_def
  by (elim authed_elim [OF ok])
     (auto dest!: or_failed_state gocloak_okD(10) [OF ok] intro: same_adds adds_trans [OF same_adds [of _ _ _ "{}" "{}"]])

lemma same_drops_trans: "same V k k' \<Longrightarrow> drops V rs gs k' k'' \<Longrightarrow> drops V rs gs k k''"
  by (simp add: same_def drops_def)

lemma deleteRole_drops:
  assumes ok: "gocloak_ok V realm G" and del: "deleteRole G realm r k = (x, k')"
  shows "drops V {r} {} k k'" and "x = Inr () \<Longrightarrow> r \<notin> rv_roles V k'"
proof -
  from del show "drops V {r} {} k k'" unfolding deleteRole_def
    by (elim authed_elim [OF ok]) (auto dest!: or_failed_state gocloak_okD(13) [OF ok] intro: same_drops same_drops_trans)
  assume "x = Inr ()"
  with del show "r \<notin> rv_roles V k'" unfolding deleteRole_def
    by (elim authed_elim [OF ok]) (auto dest: gocloak_okD(14) [OF ok])
qed

lemma deleteGroup_drops:
  assumes ok: "gocloak_ok V realm G" and del: "deleteGroup G realm i k = (x, k')"
  shows "drops V {} {i} k k'" and "x = Inr () \<Longrightarrow> i \<notin> gr_ID ` rv_groups V k'"
proof -
  from del show "drops V {} {i} k k'" unfolding deleteGroup_def
    by (elim authed_elim [OF ok]) (auto dest!: or_failed_state gocloak_okD(15) [OF ok] intro: same_drops same_drops_trans)
  assume "x = Inr ()"
  with del show "i \<notin> gr_ID ` rv_groups V k'" unfolding deleteGroup_def
    by (elim authed_elim [OF ok]) (auto dest: gocloak_okD(16) [OF ok])
qed

lemma addRolesToGroup_adds:
  assumes ok: "gocloak_ok V realm G" and add: "addRolesToGroup G realm n rs k = (x, k')"
  shows "adds V (set rs) {n} k k'"
    and "x = Inr () \<Longrightarrow> set rs \<subseteq> rv_roles V k' \<and>
           (\<exists>g\<in>rv_groups V k'. gr_Name g = n \<and> {gr_ID g} \<times> set rs \<subseteq> rv_grants V k')"
proof -
  have steps: "same V k k' \<and> x \<noteq> Inr () \<or>
    (\<exists>g jwt k2 m. same V k k2 \<and> g \<in> rv_groups V k2 \<and> gr_Name g = n \<and> set rs \<subseteq> rv_roles V k2 \<and>
       or_failed m (gk_AddRealmRoleToGroup G jwt realm (gr_ID g) rs k2) = (x, k'))" (is "?no \<or> ?yes")
    using add unfolding addRolesToGroup_def
  proof (elim authed_elim [OF ok] bind_elim, goal_cases)
    case (2 jwt k1 e)
    then have ?no
      using getGroupByName_same [OF ok 2(2)] by (simp add: same_def)
    then show ?case ..
  next
    case (3 jwt k1 g k2 e)
    then have ?no
      using getGroupByName_same [OF ok 3(2)] getRolesByNames_same [OF ok 3(3)] by (simp add: same_def)
    then show ?case ..
  next
    case (4 jwt k1 g k2 roles k3)
    have "roles = rs" "set rs \<subseteq> rv_roles V k3"
      using getRolesByNames_Inr [OF ok 4(3)] by blast+
    moreover have "same V k k3" "g \<in> rv_groups V k3" "gr_Name g = n"
      using getGroupByName_Inr [OF ok 4(2)] getRolesByNames_same [OF ok 4(3)] getGroupByName_same [OF ok 4(2)] 4(1)
      by (simp_all add: same_def)
    ultimately have ?yes
      using 4(4) by metis
    then show ?case ..
  qed simp
  have "adds V (set rs) {n} k k' \<and> (x = Inr () \<longrightarrow> set rs \<subseteq> rv_roles V k' \<and>
      (\<exists>g\<in>rv_groups V k'. gr_Name g = n \<and> {gr_ID g} \<times> set rs \<subseteq> rv_grants V k'))"
    using steps
  proof (elim disjE exE conjE)
    fix g jwt k2 m
    assume k2: "same V k k2" "g \<in> rv_groups V k2" "gr_Name g = n" "set rs \<subseteq> rv_roles V k2"
      and call: "or_failed m (gk_AddRealmRoleToGroup G jwt realm (gr_ID g) rs k2) = (x, k')"
    have as: "assigns V (gr_ID g) (set rs) k2 k'"
      using or_failed_state [OF call] gocloak_okD(11) [OF ok] by auto
    have "adds V (set rs) {n} k k'"
      using adds_trans [OF same_adds [OF k2(1), of "{}" "{}"] assigns_adds [OF as k2(2) refl k2(3)]] by simp
    moreover have "{gr_ID g} \<times> set rs \<subseteq> rv_grants V k'" if "x = Inr ()"
      using call that gocloak_okD(12) [OF ok] by simp
    ultimately show ?thesis
      using as k2 by (auto simp: assigns_def)
  qed (auto intro: same_adds)
  then show "adds V (set rs) {n} k k'" and "x = Inr () \<Longrightarrow> set rs \<subseteq> rv_roles V k' \<and>
      (\<exists>g\<in>rv_groups V k'. gr_Name g = n \<and> {gr_ID g} \<times> set rs \<subseteq> rv_grants V k')"
    by blast+
qed

section \<open>The operations of client.go\<close>

definition client_ok :: "'k realm \<Rightarrow> 'k client \<Rightarrow> bool" where
  "client_ok V c \<longleftrightarrow>
     gocloak_ok V (keycloakRealm c) (session c) \<and> (\<forall>n gs. mset (rng c n gs) = mset gs)"

definition template_roles :: "string \<Rightarrow> string \<Rightarrow> templates \<Rightarrow> string set" where
  "template_roles o' p gs = named o' p ` (\<Union>t\<in>set gs. set (snd t))"

definition template_groups :: "string \<Rightarrow> string \<Rightarrow> templates \<Rightarrow> string set" where
  "template_groups o' p gs = named o' p ` fst ` set gs"

text \<open>The group of a template exists and has the roles of the template, which exist too.\<close>

definition provisioned :: "'k realm \<Rightarrow> string \<Rightarrow> string \<Rightarrow> string \<times> string list \<Rightarrow> 'k \<Rightarrow> bool" where
  "provisioned V o' p t k \<longleftrightarrow>
     named o' p ` set (snd t) \<subseteq> rv_roles V k \<and>
     (\<exists>g\<in>rv_groups V k. gr_Name g = named o' p (fst t) \<and>
        {gr_ID g} \<times> named o' p ` set (snd t) \<subseteq> rv_grants V k)"

lemma provisioned_adds: "provisioned V o' p t k \<Longrightarrow> adds V rs gs k k' \<Longrightarrow> provisioned V o' p t k'"
  unfolding provisioned_def using addsD(1,3,4) by (smt (verit) subset_iff)

lemma client_okD:
  assumes "client_ok V c"
  shows "gocloak_ok V (keycloakRealm c) (session c)" and "set (rng c n gs) = set gs"
  using assms by (auto simp: client_ok_def dest: mset_eq_setD)

text \<open>A creation whose error is "already exists" counts as done.\<close>

lemma create_step_elim:
  assumes "(case m of (res, k) \<Rightarrow>
      if (case res of Inl err \<Rightarrow> \<not> isErrorForAlreadyExists err | Inr _ \<Rightarrow> False)
      then (Inl (projl res), k) else f k) = (x, k')"
  obtains (fails) r e where "m = (r, k')" and "x = Inl e"
    | (goes) r k1 where "m = (r, k1)" and "f k1 = (x, k')"
  using assms by (auto split: prod.splits if_splits)

lemma create_roles_adds:
  assumes ok: "client_ok V c" and "create_roles c o' p rs k = (x, k')"
  shows "adds V (named o' p ` set rs) {} k k' \<and> (\<forall>us. x = Inr us \<longrightarrow> us = map (named o' p) rs)"
  using assms(2)
proof (induction rs arbitrary: k x)
  case (Cons r rs)
  note cr = createRole_adds [OF client_okD(1) [OF ok]]
  from Cons.prems show ?case
    unfolding create_roles.simps Let_def
  proof (elim create_step_elim bind_elim)
    fix res e
    assume 1: "createRole (session c) (keycloakRealm c) (named o' p r) k = (res, k')" and "x = Inl e"
    then show ?thesis
      using adds_mono [OF cr [OF 1]] by auto
  next
    fix res k1 e
    assume 1: "createRole (session c) (keycloakRealm c) (named o' p r) k = (res, k1)"
      and 2: "create_roles c o' p rs k1 = (Inl e, k')" and "x = Inl e"
    have "adds V (named o' p ` set (r # rs)) {} k k'"
      by (rule adds_trans [OF cr [OF 1] conjunct1 [OF Cons.IH [OF 2]]]) auto
    with \<open>x = Inl e\<close> show ?thesis
      by simp
  next
    fix res k1 us k2
    assume 1: "createRole (session c) (keycloakRealm c) (named o' p r) k = (res, k1)"
      and 2: "create_roles c o' p rs k1 = (Inr us, k2)" and x: "(Inr (named o' p r # us), k2) = (x, k')"
    then have 2: "create_roles c o' p rs k1 = (Inr us, k')"
      by simp
    have "adds V (named o' p ` set (r # rs)) {} k k'"
      by (rule adds_trans [OF cr [OF 1] conjunct1 [OF Cons.IH [OF 2]]]) auto
    with x Cons.IH [OF 2] show ?thesis
      by auto
  qed
qed auto

lemma create_groups_adds:
  assumes ok: "client_ok V c" and "create_groups c o' p gs k = (x, k')"
  shows "adds V (template_roles o' p gs) (template_groups o' p gs) k k' \<and>
    (x = Inr () \<longrightarrow> (\<forall>t\<in>set gs. provisioned V o' p t k'))"
  using assms(2)
proof (induction gs arbitrary: k)
  case (Cons t gs)
  obtain g rs where t: "t = (g, rs)"
    by fastforce
  note gk = client_okD(1) [OF ok]
  let ?R = "template_roles o' p (t # gs)" and ?G = "template_groups o' p (t # gs)"
  have sub: "named o' p ` set rs \<subseteq> ?R" "named o' p g \<in> ?G" "template_roles o' p gs \<subseteq> ?R" "template_groups o' p gs \<subseteq> ?G"
    by (auto simp: template_roles_def template_groups_def t)
  have step2: "adds V ?R ?G k k2" if "createGroup (session c) (keycloakRealm c) (named o' p g) k = (r, k1)"
    and "create_roles c o' p rs k1 = (y, k2)" for r k1 y k2
    by (rule adds_trans [OF createGroup_adds [OF gk that(1)] conjunct1 [OF create_roles_adds [OF ok that(2)]]])
       (use sub in auto)
  have step3: "adds V ?R ?G k k3" if "createGroup (session c) (keycloakRealm c) (named o' p g) k = (r, k1)"
    and "create_roles c o' p rs k1 = (Inr us, k2)"
    and "addRolesToGroup (session c) (keycloakRealm c) (named o' p g) us k2 = (y, k3)" for r k1 us k2 y k3
    by (rule adds_trans [OF step2 [OF that(1,2)] addRolesToGroup_adds(1) [OF gk that(3)]])
       (use sub create_roles_adds [OF ok that(2)] in auto)
  show ?case
    using Cons.prems [unfolded t create_groups.simps Let_def]
  proof (elim create_step_elim bind_elim)
    fix r e
    assume 1: "createGroup (session c) (keycloakRealm c) (named o' p g) k = (r, k')" and "x = Inl e"
    then show ?thesis
      using adds_mono [OF createGroup_adds [OF gk 1]] sub by simp
  next
    fix r k1 e
    assume "createGroup (session c) (keycloakRealm c) (named o' p g) k = (r, k1)"
      and "create_roles c o' p rs k1 = (Inl e, k')" and "x = Inl e"
    then show ?thesis
      using step2 by simp
  next
    fix r k1 us k2 e
    assume "createGroup (session c) (keycloakRealm c) (named o' p g) k = (r, k1)"
      and "create_roles c o' p rs k1 = (Inr us, k2)"
      and "addRolesToGroup (session c) (keycloakRealm c) (named o' p g) us k2 = (Inl e, k')" and "x = Inl e"
    then show ?thesis
      using step3 by simp
  next
    fix r k1 us k2 u k3
    assume 1: "createGroup (session c) (keycloakRealm c) (named o' p g) k = (r, k1)"
      and 2: "create_roles c o' p rs k1 = (Inr us, k2)"
      and 3: "addRolesToGroup (session c) (keycloakRealm c) (named o' p g) us k2 = (Inr u, k3)"
      and 4: "create_groups c o' p gs k3 = (x, k')"
    have us: "us = map (named o' p) rs"
      using create_roles_adds [OF ok 2] by simp
    have "adds V ?R ?G k k'"
      by (rule adds_trans [OF step3 [OF 1 2 3] conjunct1 [OF Cons.IH [OF 4]]]) (use sub in auto)
    moreover have "provisioned V o' p t k3"
      using addRolesToGroup_adds(2) [OF gk 3] by (auto simp: provisioned_def t us)
    then have "provisioned V o' p t k'"
      by (rule provisioned_adds [OF _ conjunct1 [OF Cons.IH [OF 4]]])
    ultimately show ?thesis
      using Cons.IH [OF 4] by simp
  qed
qed auto

lemma template_sets [simp]:
  "template_groups o' p [] = {}" "template_roles o' p [] = {}"
  "template_groups o' p (t # gs) = insert (named o' p (fst t)) (template_groups o' p gs)"
  "template_roles o' p (t # gs) = named o' p ` set (snd t) \<union> template_roles o' p gs"
  by (auto simp: template_groups_def template_roles_def)

lemma missing_None_iff:
  "missing c egs ers o' p gs = None \<longleftrightarrow>
     template_groups o' p gs \<subseteq> gr_Name ` set egs \<and> template_roles o' p gs \<subseteq> set ers"
proof (induction gs)
  case (Cons t gs)
  have "list_ex (\<lambda>g. gr_Name g = n) egs \<longleftrightarrow> n \<in> gr_Name ` set egs" for n
    by (auto simp: list_ex_iff)
  moreover have "missing_role c ers o' p rs = None \<longleftrightarrow> named o' p ` set rs \<subseteq> set ers" for rs
    by (auto simp: missing_role_def find_None_iff)
  moreover have "missing c egs ers o' p (t # gs) = None \<longleftrightarrow>
      list_ex (\<lambda>g. gr_Name g = named o' p (fst t)) egs \<and> missing_role c ers o' p (snd t) = None \<and>
      missing c egs ers o' p gs = None"
    by (cases t) (simp split: option.split)
  ultimately show ?case
    using Cons.IH by (simp add: conj_ac)
qed simp

lemma template_set_cong:
  "set gs = set gs' \<Longrightarrow> template_groups o' p gs = template_groups o' p gs'"
  "set gs = set gs' \<Longrightarrow> template_roles o' p gs = template_roles o' p gs'"
  by (simp_all add: template_groups_def template_roles_def)

lemma check_same:
  assumes ok: "client_ok V c" and "checkRolesAndGroupsCreated c o' p gs k = (x, k')"
  shows "same V k k'"
  using assms(2) unfolding checkRolesAndGroupsCreated_def
  by (elim bind_elim)
     (auto split: option.splits
        dest!: getGroups_same [OF client_okD(1) [OF ok]] getRoles_same [OF client_okD(1) [OF ok]] intro: same_trans)

lemma provisioned_same: "provisioned V o' p t k \<Longrightarrow> same V k k' \<Longrightarrow> provisioned V o' p t k'"
  by (simp add: provisioned_def same_def)

lemma provisioned_templates:
  "\<forall>t\<in>set gs. provisioned V o' p t k \<Longrightarrow>
     template_groups o' p gs \<subseteq> gr_Name ` rv_groups V k \<and> template_roles o' p gs \<subseteq> rv_roles V k"
proof (induction gs)
  case (Cons t gs)
  then have "provisioned V o' p t k"
    by simp
  then obtain g where "g \<in> rv_groups V k" "gr_Name g = named o' p (fst t)" "named o' p ` set (snd t) \<subseteq> rv_roles V k"
    unfolding provisioned_def by blast
  then have "named o' p (fst t) \<in> gr_Name ` rv_groups V k" and "named o' p ` set (snd t) \<subseteq> rv_roles V k"
    by (metis imageI, simp)
  with Cons show ?case
    by simp
qed simp

text \<open>Once every template is provisioned, only a read that fails can fail the check.\<close>

lemma check_of_provisioned:
  assumes ok: "client_ok V c" and prov: "\<forall>t\<in>set gs. provisioned V o' p t k"
    and chk: "checkRolesAndGroupsCreated c o' p gs k = (Inl err, k')"
  shows "fst (getGroups (session c) (keycloakRealm c) k) = Inl err \<or>
    fst (getRoles (session c) (keycloakRealm c) (snd (getGroups (session c) (keycloakRealm c) k))) = Inl err"
  using chk unfolding checkRolesAndGroupsCreated_def
proof (elim bind_elim, goal_cases)
  case (1 e)
  then show ?case
    by simp
next
  case (2 egs k1 e)
  then show ?case
    by simp
next
  case (3 egs k1 ers k2)
  note gk = client_okD(1) [OF ok]
  have "set egs = rv_groups V k" and "set ers = rv_roles V k"
    using getGroups_Inr [OF gk 3(1)] getGroups_same [OF gk 3(1)]
      getRoles_Inr [OF gk 3(2)] getRoles_same [OF gk 3(2)]
    by (simp_all add: same_def)
  with provisioned_templates [OF prov] have "missing c egs ers o' p gs = None"
    by (simp add: missing_None_iff)
  with 3(3) show ?case
    by simp
qed

lemma attempt_adds:
  assumes ok: "client_ok V c" and create: "create_groups c o' p (rng c i gs) k = (x, k1)"
  shows "adds V (template_roles o' p gs) (template_groups o' p gs) k k1"
    and "x = Inr () \<Longrightarrow> \<forall>t\<in>set gs. provisioned V o' p t k1"
    and "checkRolesAndGroupsCreated c o' p (rng c j gs) k1 = (y, k2) \<Longrightarrow>
      adds V (template_roles o' p gs) (template_groups o' p gs) k k2"
    and "x = Inr () \<Longrightarrow> checkRolesAndGroupsCreated c o' p (rng c j gs) k1 = (y, k2) \<Longrightarrow>
      \<forall>t\<in>set gs. provisioned V o' p t k2"
proof -
  note gs = client_okD(2) [OF ok]
  note created = create_groups_adds [OF ok create, unfolded gs template_set_cong [OF gs]]
  show 1: "adds V (template_roles o' p gs) (template_groups o' p gs) k k1"
    and 2: "x = Inr () \<Longrightarrow> \<forall>t\<in>set gs. provisioned V o' p t k1"
    using created by blast+
  assume chk: "checkRolesAndGroupsCreated c o' p (rng c j gs) k1 = (y, k2)"
  show "adds V (template_roles o' p gs) (template_groups o' p gs) k k2"
    by (rule adds_trans [OF 1 same_adds [OF check_same [OF ok chk], of "{}" "{}"]]) auto
  show "\<forall>t\<in>set gs. provisioned V o' p t k2" if "x = Inr ()"
    using 2 [OF that] provisioned_same [OF _ check_same [OF ok chk]] by blast
qed

text \<open>One attempt: the creations, the check, and what is left to do.\<close>

lemma attempts_elim:
  assumes "attempts c o' p gs n k = (x, k')"
  obtains (fails) e where "create_groups c o' p (rng c (2 * n + 1) gs) k = (Inl e, k')" and "x = Inl e"
    | (returns) k1 where "create_groups c o' p (rng c (2 * n + 1) gs) k = (Inr (), k1)"
        and "checkRolesAndGroupsCreated c o' p (rng c (2 * n) gs) k1 = (Inr (), k')" and "x = Inr ()"
    | (repeats) k1 e k2 where "create_groups c o' p (rng c (2 * n + 1) gs) k = (Inr (), k1)"
        and "checkRolesAndGroupsCreated c o' p (rng c (2 * n) gs) k1 = (Inl e, k2)"
        and "n = 0 \<and> x = Inl (Errorf ''role or group does not exist in Keycloak after 11 attempts to create'') \<and> k' = k2 \<or>
             (\<exists>m. n = Suc m \<and> attempts c o' p gs m k2 = (x, k'))"
proof -
  obtain y k1 where 1: "create_groups c o' p (rng c (2 * n + 1) gs) k = (y, k1)"
    by fastforce
  obtain z k2 where 2: "checkRolesAndGroupsCreated c o' p (rng c (2 * n) gs) k1 = (z, k2)"
    by fastforce
  note def = assms [unfolded attempts.simps [of c o' p gs n] 1 2]
  show thesis
  proof (cases y)
    case (Inl e)
    with def 1 show ?thesis
      by (intro fails) auto
  next
    case y: (Inr u)
    show ?thesis
    proof (cases z)
      case (Inl e)
      with def y 1 2 show ?thesis
        by (intro repeats [of k1 e k2]) (auto split: nat.splits)
    next
      case (Inr v)
      with def y 1 2 show ?thesis
        by (intro returns [of k1]) auto
    qed
  qed
qed

lemma attempts_adds:
  assumes ok: "client_ok V c" and "attempts c o' p gs n k = (x, k')"
  shows "adds V (template_roles o' p gs) (template_groups o' p gs) k k' \<and>
    (x = Inr () \<longrightarrow> (\<forall>t\<in>set gs. provisioned V o' p t k'))"
  using assms(2)
proof (induction n arbitrary: k)
  case 0
  then show ?case
    by (rule attempts_elim) (auto dest: attempt_adds [OF ok])
next
  case (Suc n)
  from Suc.prems show ?case
  proof (rule attempts_elim)
    fix k1 e k2
    assume 1: "create_groups c o' p (rng c (2 * Suc n + 1) gs) k = (Inr (), k1)"
      and 2: "checkRolesAndGroupsCreated c o' p (rng c (2 * Suc n) gs) k1 = (Inl e, k2)"
      and "Suc n = 0 \<and> x = Inl (Errorf ''role or group does not exist in Keycloak after 11 attempts to create'') \<and> k' = k2 \<or>
        (\<exists>m. Suc n = Suc m \<and> attempts c o' p gs m k2 = (x, k'))"
    then have 3: "attempts c o' p gs n k2 = (x, k')"
      by simp
    have "adds V (template_roles o' p gs) (template_groups o' p gs) k k'"
      by (rule adds_trans [OF attempt_adds(3) [OF ok 1 2] conjunct1 [OF Suc.IH [OF 3]]]) auto
    with Suc.IH [OF 3] show ?thesis
      by simp
  qed (auto dest: attempt_adds [OF ok])
qed

text \<open>What a creation and a deletion promise, for the state before and the result.\<close>

definition creates :: "'k realm \<Rightarrow> string \<Rightarrow> string \<Rightarrow> templates \<Rightarrow> 'k \<Rightarrow> (go_err + unit) \<times> 'k \<Rightarrow> bool" where
  "creates V o' p gs k res \<longleftrightarrow>
     adds V (template_roles o' p gs) (template_groups o' p gs) k (snd res) \<and>
     (fst res = Inr () \<longrightarrow> (\<forall>t\<in>set gs. provisioned V o' p t (snd res)))"

definition deletes :: "'k realm \<Rightarrow> string \<Rightarrow> 'k \<Rightarrow> (go_err + unit) \<times> 'k \<Rightarrow> bool" where
  "deletes V i k res \<longleftrightarrow>
     rv_roles V (snd res) \<subseteq> rv_roles V k \<and> rv_groups V (snd res) \<subseteq> rv_groups V k \<and>
     {r \<in> rv_roles V k. \<not> Contains r i} \<subseteq> rv_roles V (snd res) \<and>
     {g \<in> rv_groups V k. \<not> Contains (gr_Name g) i} \<subseteq> rv_groups V (snd res) \<and>
     (\<forall>(gid, r)\<in>rv_grants V k. \<not> Contains r i \<and> (\<exists>g\<in>rv_groups V k. gr_ID g = gid \<and> \<not> Contains (gr_Name g) i) \<longrightarrow>
        (gid, r) \<in> rv_grants V (snd res)) \<and>
     (fst res = Inr () \<longrightarrow>
        (\<forall>r\<in>rv_roles V (snd res). \<not> Contains r i) \<and> (\<forall>g\<in>rv_groups V (snd res). \<not> Contains (gr_Name g) i))"

lemma deletesD:
  assumes "deletes V i k (x, k')"
  shows "rv_roles V k' \<subseteq> rv_roles V k" and "rv_groups V k' \<subseteq> rv_groups V k"
    and "r \<in> rv_roles V k \<Longrightarrow> \<not> Contains r i \<Longrightarrow> r \<in> rv_roles V k'"
    and "g \<in> rv_groups V k \<Longrightarrow> \<not> Contains (gr_Name g) i \<Longrightarrow> g \<in> rv_groups V k'"
    and "(gr_ID g, r) \<in> rv_grants V k \<Longrightarrow> \<not> Contains r i \<Longrightarrow> g \<in> rv_groups V k \<Longrightarrow>
           \<not> Contains (gr_Name g) i \<Longrightarrow> (gr_ID g, r) \<in> rv_grants V k'"
    and "x = Inr () \<Longrightarrow> r \<in> rv_roles V k' \<Longrightarrow> \<not> Contains r i"
    and "x = Inr () \<Longrightarrow> g \<in> rv_groups V k' \<Longrightarrow> \<not> Contains (gr_Name g) i"
proof -
  note d = assms [unfolded deletes_def fst_conv snd_conv]
  from d show "rv_roles V k' \<subseteq> rv_roles V k" and "rv_groups V k' \<subseteq> rv_groups V k"
    by blast+
  from d show "r \<in> rv_roles V k \<Longrightarrow> \<not> Contains r i \<Longrightarrow> r \<in> rv_roles V k'"
    and "g \<in> rv_groups V k \<Longrightarrow> \<not> Contains (gr_Name g) i \<Longrightarrow> g \<in> rv_groups V k'"
    by blast+
  from d have "\<forall>(gid, r)\<in>rv_grants V k. \<not> Contains r i \<and>
      (\<exists>g\<in>rv_groups V k. gr_ID g = gid \<and> \<not> Contains (gr_Name g) i) \<longrightarrow> (gid, r) \<in> rv_grants V k'"
    by blast
  from bspec [OF this, of "(gr_ID g, r)"] show "(gr_ID g, r) \<in> rv_grants V k \<Longrightarrow> \<not> Contains r i \<Longrightarrow>
      g \<in> rv_groups V k \<Longrightarrow> \<not> Contains (gr_Name g) i \<Longrightarrow> (gr_ID g, r) \<in> rv_grants V k'"
    by auto
  from d show "x = Inr () \<Longrightarrow> r \<in> rv_roles V k' \<Longrightarrow> \<not> Contains r i"
    and "x = Inr () \<Longrightarrow> g \<in> rv_groups V k' \<Longrightarrow> \<not> Contains (gr_Name g) i"
    by blast+
qed

lemma createRolesAndGroups_creates:
  assumes ok: "client_ok V c"
  shows "creates V o' p gs k (createRolesAndGroups c o' p gs k)"
proof (cases "ensureRealmExists (session c) (keycloakRealm c) k")
  case (Pair y k1)
  then have same: "same V k k1"
    by (rule ensureRealmExists_same [OF client_okD(1) [OF ok]])
  show ?thesis
  proof (cases y)
    case (Inl e)
    with Pair same show ?thesis
      by (simp add: createRolesAndGroups_def creates_def same_adds)
  next
    case (Inr b)
    obtain x k' where a: "attempts c o' p gs retryAttempts k1 = (x, k')"
      by fastforce
    have "adds V (template_roles o' p gs) (template_groups o' p gs) k k'"
      by (rule adds_trans [OF same_adds [OF same, of "{}" "{}"] conjunct1 [OF attempts_adds [OF ok a]]]) auto
    with Pair Inr a attempts_adds [OF ok a] show ?thesis
      by (simp add: createRolesAndGroups_def creates_def)
  qed
qed

lemma delete_roles_drops:
  assumes ok: "client_ok V c" and "delete_roles c i rs k = (x, k')"
  shows "drops V {r \<in> set rs. Contains r i} {} k k' \<and>
    (x = Inr () \<longrightarrow> (\<forall>r\<in>set rs. Contains r i \<longrightarrow> r \<notin> rv_roles V k'))"
  using assms(2)
proof (induction rs arbitrary: k)
  case (Cons r rs)
  note gk = client_okD(1) [OF ok]
  show ?case
  proof (cases "Contains r i")
    case True
    obtain y k1 where 1: "deleteRole (session c) (keycloakRealm c) r k = (y, k1)"
      by fastforce
    note d = deleteRole_drops [OF gk 1]
    show ?thesis
    proof (cases y)
      case (Inl e)
      with Cons.prems True 1 have "k' = k1" "x = Inl e"
        by auto
      moreover have "drops V {q \<in> set (r # rs). Contains q i} {} k k1"
        by (rule drops_trans [OF d(1) drops_refl [of V "{}" "{}"]]) (use True in auto)
      ultimately show ?thesis
        by simp
    next
      case (Inr u)
      with Cons.prems True 1 have 2: "delete_roles c i rs k1 = (x, k')"
        by simp
      have "drops V {q \<in> set (r # rs). Contains q i} {} k k'"
        by (rule drops_trans [OF d(1) conjunct1 [OF Cons.IH [OF 2]]]) (use True in auto)
      moreover have "r \<notin> rv_roles V k'"
        using d(2) Inr conjunct1 [OF Cons.IH [OF 2]] by (auto simp: drops_def)
      ultimately show ?thesis
        using Cons.IH [OF 2] by simp
    qed
  next
    case False
    with Cons.prems have "delete_roles c i rs k = (x, k')"
      by simp
    moreover have "{q \<in> set (r # rs). Contains q i} = {q \<in> set rs. Contains q i}"
      using False by auto
    ultimately show ?thesis
      using Cons.IH [of k] False by (simp only: list.set ball_simps) simp
  qed
qed auto

lemma delete_groups_drops:
  assumes ok: "client_ok V c" and "delete_groups c i gs k = (x, k')"
  shows "drops V {} (gr_ID ` {g \<in> set gs. Contains (gr_Name g) i}) k k' \<and>
    (x = Inr () \<longrightarrow> (\<forall>g\<in>set gs. Contains (gr_Name g) i \<longrightarrow> g \<notin> rv_groups V k'))"
  using assms(2)
proof (induction gs arbitrary: k)
  case (Cons g gs)
  note gk = client_okD(1) [OF ok]
  let ?D = "\<lambda>gs. gr_ID ` {q \<in> set gs. Contains (gr_Name q) i}"
  show ?case
  proof (cases "Contains (gr_Name g) i")
    case True
    obtain y k1 where 1: "deleteGroup (session c) (keycloakRealm c) (gr_ID g) k = (y, k1)"
      by fastforce
    note d = deleteGroup_drops [OF gk 1]
    show ?thesis
    proof (cases y)
      case (Inl e)
      with Cons.prems True 1 have "k' = k1" "x = Inl e"
        by auto
      moreover have "drops V {} (?D (g # gs)) k k1"
        by (rule drops_trans [OF d(1) drops_refl [of V "{}" "{}"]]) (use True in auto)
      ultimately show ?thesis
        by simp
    next
      case (Inr u)
      with Cons.prems True 1 have 2: "delete_groups c i gs k1 = (x, k')"
        by simp
      have "drops V {} (?D (g # gs)) k k'"
        by (rule drops_trans [OF d(1) conjunct1 [OF Cons.IH [OF 2]]]) (use True in auto)
      moreover have "g \<notin> rv_groups V k'"
        using d(2) Inr conjunct1 [OF Cons.IH [OF 2]] by (auto simp: drops_def)
      ultimately show ?thesis
        using Cons.IH [OF 2] by simp
    qed
  next
    case False
    with Cons.prems have "delete_groups c i gs k = (x, k')"
      by simp
    moreover have "?D (g # gs) = ?D gs"
      using False by auto
    ultimately show ?thesis
      using Cons.IH [of k] False by (simp only: list.set ball_simps) simp
  qed
qed auto

lemma deleteRolesAndGroups_deletes:
  assumes ok: "client_ok V c"
  shows "deletes V i k (deleteRolesAndGroups c i k)"
proof -
  note gk = client_okD(1) [OF ok]
  let ?s = "session c" and ?realm = "keycloakRealm c"
  have stop: "deletes V i k (x, k')" if "same V k k'" and "x \<noteq> Inr ()" for x k'
    using that by (auto simp: deletes_def same_def)
  have part: "deletes V i k (x, k')" if "drops V {r. Contains r i} {} k k'" and "x \<noteq> Inr ()" for x k'
    using that by (auto simp: deletes_def drops_def)
  obtain x k' where res: "deleteRolesAndGroups c i k = (x, k')"
    by fastforce
  then have "deletes V i k (x, k')"
    unfolding deleteRolesAndGroups_def
  proof (elim bind_elim, goal_cases)
    case (1 e)
    then show ?case
      by (intro stop ensureRealmExists_same [OF gk 1(1)]) simp
  next
    case (2 b k1 e)
    then show ?case
      by (intro stop same_trans [OF ensureRealmExists_same [OF gk 2(1)] getRoles_same [OF gk 2(2)]]) simp
  next
    case (3 b k1 rs k2 e)
    have "drops V {r. Contains r i} {} k k'"
      by (rule drops_trans [OF same_drops [OF same_trans [OF ensureRealmExists_same [OF gk 3(1)] getRoles_same [OF gk 3(2)]],
              of "{}" "{}"] conjunct1 [OF delete_roles_drops [OF ok 3(3)]]]) auto
    with 3 show ?case
      by (intro part) simp_all
  next
    case (4 b k1 rs k2 u k3 e)
    have "drops V {r. Contains r i} {} k k3"
      by (rule drops_trans [OF same_drops [OF same_trans [OF ensureRealmExists_same [OF gk 4(1)] getRoles_same [OF gk 4(2)]],
              of "{}" "{}"] conjunct1 [OF delete_roles_drops [OF ok 4(3)]]]) auto
    then have "drops V {r. Contains r i} {} k k'"
      by (rule drops_trans [OF _ same_drops [OF getGroups_same [OF gk 4(4)], of "{}" "{}"]]) auto
    with 4 show ?case
      by (intro part) simp_all
  next
    case (5 b k1 rs k2 u k3 gs k4)
    have s2: "same V k k2"
      by (rule same_trans [OF ensureRealmExists_same [OF gk 5(1)] getRoles_same [OF gk 5(2)]])
    note r = delete_roles_drops [OF ok 5(3)] and s4 = getGroups_same [OF gk 5(4)]
      and g = delete_groups_drops [OF ok 5(5)]
    have rs: "set rs = rv_roles V k" and gs: "set gs = rv_groups V k"
      using getRoles_Inr [OF gk 5(2)] getGroups_Inr [OF gk 5(4)] s2 s4 conjunct1 [OF r]
      by (auto simp: same_def drops_def)
    have inj: "inj_on gr_ID (rv_groups V k)"
      by (rule gocloak_okD(1) [OF gk])
    have R: "rv_roles V k' \<subseteq> {q \<in> rv_roles V k. \<not> Contains q i}" "{q \<in> rv_roles V k. \<not> Contains q i} \<subseteq> rv_roles V k'"
      using r s2 s4 conjunct1 [OF g] rs by (auto simp: same_def drops_def)
    have G: "rv_groups V k' \<subseteq> rv_groups V k" and k3: "rv_groups V k3 = rv_groups V k" "rv_groups V k4 = rv_groups V k"
      and gone: "\<forall>q\<in>rv_groups V k4 - rv_groups V k'. gr_ID q \<in> gr_ID ` {q \<in> rv_groups V k. Contains (gr_Name q) i}"
      using conjunct1 [OF g] s2 s4 conjunct1 [OF r] gs by (auto simp: same_def drops_def)
    have "q \<in> rv_groups V k'" if "q \<in> rv_groups V k" "\<not> Contains (gr_Name q) i" for q
      using gone that inj k3 by (force simp: inj_on_def)
    then have "{q \<in> rv_groups V k. \<not> Contains (gr_Name q) i} \<subseteq> rv_groups V k'"
      by blast
    moreover have "(gid, r) \<in> rv_grants V k'"
      if "(gid, r) \<in> rv_grants V k" "\<not> Contains r i" "q \<in> rv_groups V k" "gr_ID q = gid" "\<not> Contains (gr_Name q) i" for gid r q
    proof -
      have "(gid, r) \<in> rv_grants V k4"
        using dropsD(5) [OF conjunct1 [OF r], of gid r] that s2 s4 by (auto simp: same_def)
      moreover have "gid \<notin> gr_ID ` {q \<in> set gs. Contains (gr_Name q) i}"
        using that inj gs by (auto simp: inj_on_def)
      ultimately show ?thesis
        using dropsD(5) [OF conjunct1 [OF g]] by blast
    qed
    ultimately show ?case
      using R G g gs unfolding deletes_def by auto
  qed
  with res show ?thesis
    by simp
qed

section \<open>An in-memory Keycloak\<close>

text \<open>A server that meets \<open>gocloak_ok\<close>, to evaluate the operations on.  \<open>m_loses\<close> says that the
  next creation of a group answers success and creates nothing; \<open>m_lists\<close> that the list of all
  groups can be read.\<close>

record mem =
  m_roles :: "string list"
  m_groups :: "string list"
  m_grants :: "(string \<times> string) list"
  m_loses :: bool
  m_lists :: bool

definition mem_group :: "string \<Rightarrow> GroupRepresentation" where
  "mem_group n = \<lparr>gr_ID = ''id-'' @ n, gr_Name = n\<rparr>"

definition mem_realm :: "mem realm" where
  "mem_realm = \<lparr>rv_roles = \<lambda>k. set (m_roles k), rv_groups = \<lambda>k. mem_group ` set (m_groups k),
     rv_grants = \<lambda>k. set (m_grants k)\<rparr>"

definition mem_gocloak :: "mem gocloak" where
  "mem_gocloak = \<lparr>
     gk_Token = \<lambda>k. (Inr ''jwt'', k),
     gk_GetRealm = \<lambda>j r k. (Inr (Some (Some True)), k),
     gk_CreateRealmRole = \<lambda>j r n k.
       if n \<in> set (m_roles k) then (Inl (Errorf ''409 Conflict''), k) else (Inr (), k\<lparr>m_roles := n # m_roles k\<rparr>),
     gk_GetRealmRoles = \<lambda>j r k. (Inr (m_roles k), k),
     gk_DeleteRealmRole = \<lambda>j r n k. (Inr (), k\<lparr>m_roles := filter (\<lambda>x. x \<noteq> n) (m_roles k)\<rparr>),
     gk_CreateGroup = \<lambda>j r n k.
       if m_loses k then (Inr (), k\<lparr>m_loses := False\<rparr>)
       else if n \<in> set (m_groups k) then (Inl (Errorf ''409 Conflict''), k) else (Inr (), k\<lparr>m_groups := n # m_groups k\<rparr>),
     gk_GetGroups = \<lambda>j r q k.
       if q = None \<and> \<not> m_lists k then (Inl (Errorf ''503 Service Unavailable''), k)
       else (Inr (map mem_group (filter (\<lambda>n. q = None \<or> q = Some n) (m_groups k))), k),
     gk_DeleteGroup = \<lambda>j r i k. (Inr (), k\<lparr>m_groups := filter (\<lambda>n. gr_ID (mem_group n) \<noteq> i) (m_groups k)\<rparr>),
     gk_AddRealmRoleToGroup = \<lambda>j r i rs k. (Inr (), k\<lparr>m_grants := map (Pair i) rs @ m_grants k\<rparr>)\<rparr>"

lemma mem_gocloak_sel:
  "gk_Token mem_gocloak k = (Inr ''jwt'', k)" "gk_GetRealm mem_gocloak j r k = (Inr (Some (Some True)), k)"
  "gk_CreateRealmRole mem_gocloak j r n k =
     (if n \<in> set (m_roles k) then (Inl (Errorf ''409 Conflict''), k) else (Inr (), k\<lparr>m_roles := n # m_roles k\<rparr>))"
  "gk_GetRealmRoles mem_gocloak j r k = (Inr (m_roles k), k)"
  "gk_DeleteRealmRole mem_gocloak j r n k = (Inr (), k\<lparr>m_roles := filter (\<lambda>x. x \<noteq> n) (m_roles k)\<rparr>)"
  "gk_CreateGroup mem_gocloak j r n k =
     (if m_loses k then (Inr (), k\<lparr>m_loses := False\<rparr>)
      else if n \<in> set (m_groups k) then (Inl (Errorf ''409 Conflict''), k) else (Inr (), k\<lparr>m_groups := n # m_groups k\<rparr>))"
  "gk_GetGroups mem_gocloak j r q k =
     (if q = None \<and> \<not> m_lists k then (Inl (Errorf ''503 Service Unavailable''), k)
      else (Inr (map mem_group (filter (\<lambda>n. q = None \<or> q = Some n) (m_groups k))), k))"
  "gk_DeleteGroup mem_gocloak j r i k = (Inr (), k\<lparr>m_groups := filter (\<lambda>n. gr_ID (mem_group n) \<noteq> i) (m_groups k)\<rparr>)"
  "gk_AddRealmRoleToGroup mem_gocloak j r i rs k = (Inr (), k\<lparr>m_grants := map (Pair i) rs @ m_grants k\<rparr>)"
  by (simp_all add: mem_gocloak_def)

lemma mem_group_sel [simp]: "gr_Name (mem_group n) = n" "gr_ID (mem_group n) = gr_ID (mem_group m) \<longleftrightarrow> n = m"
  "mem_group n = mem_group m \<longleftrightarrow> n = m"
  by (simp_all add: mem_group_def)

lemma mem_realm_sel [simp]: "rv_roles mem_realm k = set (m_roles k)"
  "rv_groups mem_realm k = mem_group ` set (m_groups k)" "rv_grants mem_realm k = set (m_grants k)"
  by (simp_all add: mem_realm_def)

lemma mem_gocloak_ok: "gocloak_ok mem_realm realm mem_gocloak"
  unfolding gocloak_ok_def
  by (intro conjI allI)
     (auto simp: mem_gocloak_sel same_def adds_def drops_def assigns_def inj_on_def split: if_splits)

definition demo_client :: "mem client" where
  "demo_client = \<lparr>session = mem_gocloak,
     orgGroups = [(''<org-id>_Admins'', [''<org-id>_read''])],
     projGroups = [(''<project-id>_Users'', [''<org-id>_<project-id>_m''])],
     siGroups = [], keycloakurl = [], keycloakRealm = ''master'', rng = \<lambda>n gs. gs\<rparr>"

definition empty_realm :: mem where
  "empty_realm = \<lparr>m_roles = [''admin''], m_groups = [''admins''], m_grants = [], m_loses = False, m_lists = True\<rparr>"

lemma demo_client_ok: "client_ok mem_realm demo_client"
  by (simp add: client_ok_def demo_client_def mem_gocloak_ok)

lemma mem_calls:
  "ensureRealmExists mem_gocloak realm k = (Inr True, k)"
  "createRole mem_gocloak realm n k =
     (if n \<in> set (m_roles k) then (Inl (failed (''failed to create role '' @ n @ '' in realm '' @ realm) (Errorf ''409 Conflict'')), k)
      else (Inr (), k\<lparr>m_roles := n # m_roles k\<rparr>))"
  "createGroup mem_gocloak realm n k =
     (if m_loses k then (Inr (), k\<lparr>m_loses := False\<rparr>)
      else if n \<in> set (m_groups k) then (Inl (failed (''failed to create group '' @ n @ '' in realm '' @ realm) (Errorf ''409 Conflict'')), k)
      else (Inr (), k\<lparr>m_groups := n # m_groups k\<rparr>))"
  "getRoles mem_gocloak realm k = (Inr (m_roles k), k)"
  "getGroups mem_gocloak realm k =
     (if m_lists k then (Inr (map mem_group (m_groups k)), k)
      else (Inl (failed (''failed to get groups in realm '' @ realm) (Errorf ''503 Service Unavailable'')), k))"
  "deleteRole mem_gocloak realm n k = (Inr (), k\<lparr>m_roles := filter (\<lambda>x. x \<noteq> n) (m_roles k)\<rparr>)"
  "deleteGroup mem_gocloak realm i k = (Inr (), k\<lparr>m_groups := filter (\<lambda>n. gr_ID (mem_group n) \<noteq> i) (m_groups k)\<rparr>)"
  "getRolesByNames mem_gocloak realm ns k = (pick_roles realm (m_roles k) ns, k)"
  "getGroupByName mem_gocloak realm n k =
     (case find (\<lambda>g. gr_Name g = n) (map mem_group (filter (\<lambda>m. n = m) (m_groups k))) of
        None \<Rightarrow> (Inl (Errorf (''group '' @ n @ '' not found in realm '' @ realm)), k)
      | Some g \<Rightarrow> (Inr g, k))"
  by (simp_all add: ensureRealmExists_def createRole_def createGroup_def getRoles_def getGroups_def deleteRole_def
        deleteGroup_def getRolesByNames_def getGroupByName_def authed_def or_failed_def mem_gocloak_sel)

lemma demo_simps [simp]:
  "session demo_client = mem_gocloak" "keycloakRealm demo_client = ''master''"
  "orgGroups demo_client = [(''<org-id>_Admins'', [''<org-id>_read''])]"
  "projGroups demo_client = [(''<project-id>_Users'', [''<org-id>_<project-id>_m''])]"
  "rng demo_client n gs = gs"
  by (simp_all add: demo_client_def)

lemma demo_names [simp]:
  "named ''o1'' [] ''<org-id>_Admins'' = ''o1_Admins''" "named ''o1'' [] ''<org-id>_read'' = ''o1_read''"
  "named ''o1'' ''p1'' ''<project-id>_Users'' = ''p1_Users''"
  "named ''o1'' ''p1'' ''<org-id>_<project-id>_m'' = ''o1_p1_m''"
  by code_simp+

lemma first_attempt:
  assumes "ensureRealmExists (session c) (keycloakRealm c) k = (Inr b, k1)"
    and "create_groups c o' p (rng c 21 gs) k1 = (Inr (), k2)"
    and "checkRolesAndGroupsCreated c o' p (rng c 20 gs) k2 = (Inr (), k3)"
  shows "createRolesAndGroups c o' p gs k = (Inr (), k3)"
  using assms by (simp add: createRolesAndGroups_def retryAttempts_def attempts.simps [of c o' p gs 10])

lemma first_attempt_fails:
  assumes "ensureRealmExists (session c) (keycloakRealm c) k = (Inr b, k1)"
    and "create_groups c o' p (rng c 21 gs) k1 = (Inl e, k2)"
  shows "createRolesAndGroups c o' p gs k = (Inl e, k2)"
  using assms by (simp add: createRolesAndGroups_def retryAttempts_def attempts.simps [of c o' p gs 10])

definition org_realm :: mem where
  "org_realm = \<lparr>m_roles = [''o1_read'', ''admin''], m_groups = [''o1_Admins'', ''admins''],
     m_grants = [(''id-o1_Admins'', ''o1_read'')], m_loses = False, m_lists = True\<rparr>"

lemma demo_CreateOrg: "ktc_CreateOrg demo_client ''o1'' empty_realm = (Inr (), org_realm)"
  unfolding ktc_CreateOrg_def
  by (rule first_attempt [where k = empty_realm and ?k1.0 = empty_realm and ?k2.0 = org_realm])
     (simp_all add: mem_calls empty_realm_def org_realm_def Let_def addRolesToGroup_def authed_def or_failed_def
        mem_gocloak_sel mem_group_def checkRolesAndGroupsCreated_def missing_role_def)

lemma demo_contains [simp]:
  "Contains ''o1_read'' ''o1''" "\<not> Contains ''admin'' ''o1''"
  "Contains ''o1_Admins'' ''o1''" "\<not> Contains ''admins'' ''o1''"
  by code_simp+

lemma demo_DeleteOrg:
  "ktc_DeleteOrg demo_client ''o1'' org_realm =
     (Inr (), empty_realm\<lparr>m_grants := [(''id-o1_Admins'', ''o1_read'')]\<rparr>)"
  by (simp add: ktc_DeleteOrg_def deleteRolesAndGroups_def mem_calls org_realm_def empty_realm_def)

section \<open>Properties\<close>

text \<open>
  C32. CreateOrg and CreateProject add only the roles and groups the templates name for the ids and
  grant those groups only those roles; nothing is removed.  When they report success every group
  of the templates exists, its roles exist, and it has them.
\<close>

theorem ktc_create_provisions_templates:
  assumes "client_ok V c"
  shows "creates V orgID [] (orgGroups c) k (ktc_CreateOrg c orgID k) \<and>
    creates V orgID projID (projGroups c) k (ktc_CreateProject c orgID projID k)"
  unfolding ktc_CreateOrg_def ktc_CreateProject_def by (intro conjI createRolesAndGroups_creates assms)

theorem ktc_create_provisions_templates_witness:
  "client_ok mem_realm demo_client \<and> fst (ktc_CreateOrg demo_client ''o1'' empty_realm) = Inr () \<and>
     provisioned mem_realm ''o1'' [] (''<org-id>_Admins'', [''<org-id>_read'']) (snd (ktc_CreateOrg demo_client ''o1'' empty_realm))"
  using ktc_create_provisions_templates [OF demo_client_ok, of "''o1''" empty_realm "''p1''"]
  by (simp add: demo_client_ok demo_CreateOrg creates_def)

text \<open>
  C33. DeleteOrg and DeleteProject remove only roles and groups whose name contains the id, and
  when they report success none is left.
\<close>

theorem ktc_delete_removes_exactly:
  assumes "client_ok V c"
  shows "deletes V orgID k (ktc_DeleteOrg c orgID k) \<and> deletes V projID k (ktc_DeleteProject c projID k)"
  unfolding ktc_DeleteOrg_def ktc_DeleteProject_def by (intro conjI deleteRolesAndGroups_deletes assms)

theorem ktc_delete_removes_exactly_witness:
  "client_ok mem_realm demo_client \<and> fst (ktc_DeleteOrg demo_client ''o1'' org_realm) = Inr () \<and>
     {r \<in> rv_roles mem_realm (snd (ktc_DeleteOrg demo_client ''o1'' org_realm)). Contains r ''o1''} = {}"
  using deletesD(6) [OF conjunct1 [OF ktc_delete_removes_exactly [OF demo_client_ok, of "''o1''" org_realm "''p1''"],
      unfolded demo_DeleteOrg]]
  by (auto simp: demo_client_ok demo_DeleteOrg)

text \<open>
  An org created and then deleted, both with success, leaves the roles and the groups of the
  realm as they were, when every name made from the templates carries the id and no earlier name
  does.
\<close>

theorem ktc_create_delete_restores:
  assumes ok: "client_ok V c"
    and templates: "\<forall>n\<in>template_roles orgID [] (orgGroups c) \<union> template_groups orgID [] (orgGroups c). Contains n orgID"
    and fresh: "\<forall>r\<in>rv_roles V k. \<not> Contains r orgID" "\<forall>g\<in>rv_groups V k. \<not> Contains (gr_Name g) orgID"
    and created: "ktc_CreateOrg c orgID k = (Inr (), k1)" and deleted: "ktc_DeleteOrg c orgID k1 = (Inr (), k2)"
  shows "rv_roles V k2 = rv_roles V k \<and> rv_groups V k2 = rv_groups V k"
proof -
  have c: "adds V (template_roles orgID [] (orgGroups c)) (template_groups orgID [] (orgGroups c)) k k1"
    using createRolesAndGroups_creates [OF ok, of orgID "[]" "orgGroups c" k] created
    by (simp add: ktc_CreateOrg_def creates_def)
  have d: "deletes V orgID k1 (Inr (), k2)"
    using deleteRolesAndGroups_deletes [OF ok, of orgID k1] deleted by (simp add: ktc_DeleteOrg_def)
  have T: "n \<in> template_roles orgID [] (orgGroups c) \<Longrightarrow> Contains n orgID"
    "n \<in> template_groups orgID [] (orgGroups c) \<Longrightarrow> Contains n orgID" for n
    using templates by blast+
  have "rv_roles V k2 \<subseteq> rv_roles V k" and "rv_groups V k2 \<subseteq> rv_groups V k"
    using addsD(2,5) [OF c] deletesD(1,2,6,7) [OF d] T by blast+
  moreover have "rv_roles V k \<subseteq> rv_roles V k2" and "rv_groups V k \<subseteq> rv_groups V k2"
    using addsD(1,3) [OF c] deletesD(3,4) [OF d] fresh by blast+
  ultimately show ?thesis
    by blast
qed

theorem ktc_create_delete_restores_witness:
  "ktc_DeleteOrg demo_client ''o1'' (snd (ktc_CreateOrg demo_client ''o1'' empty_realm)) =
     (Inr (), empty_realm\<lparr>m_grants := [(''id-o1_Admins'', ''o1_read'')]\<rparr>) \<and>
   rv_roles mem_realm (empty_realm\<lparr>m_grants := [(''id-o1_Admins'', ''o1_read'')]\<rparr>) = {''admin''}"
  using ktc_create_delete_restores [OF demo_client_ok, of "''o1''" empty_realm org_realm, OF _ _ _ demo_CreateOrg demo_DeleteOrg]
  by (simp add: demo_CreateOrg demo_DeleteOrg) (simp add: empty_realm_def)

text \<open>
  The check that follows the creations is meant for a Keycloak that answers success without
  creating; but a creation that was lost already makes \<open>addRolesToGroup\<close> fail, which ends the call.
  After a round of creations without error the check fails only because one of its own reads does.
\<close>

theorem ktc_retries_only_failed_reads:
  assumes ok: "client_ok V c" and created: "create_groups c orgID projID (rng c i gs) k = (Inr (), k1)"
    and failed: "checkRolesAndGroupsCreated c orgID projID (rng c j gs) k1 = (Inl err, k2)"
  shows "fst (getGroups (session c) (keycloakRealm c) k1) = Inl err \<or>
    fst (getRoles (session c) (keycloakRealm c) (snd (getGroups (session c) (keycloakRealm c) k1))) = Inl err"
  using check_of_provisioned [OF ok _ failed] attempt_adds(2) [OF ok created refl] client_okD(2) [OF ok] by simp

lemma demo_create_groups:
  "create_groups demo_client ''o1'' [] (orgGroups demo_client) (empty_realm\<lparr>m_lists := False\<rparr>) =
     (Inr (), org_realm\<lparr>m_lists := False\<rparr>)"
  by (simp add: mem_calls empty_realm_def org_realm_def Let_def addRolesToGroup_def authed_def or_failed_def
        mem_gocloak_sel mem_group_def)

theorem ktc_retries_only_failed_reads_witness:
  "\<exists>err. checkRolesAndGroupsCreated demo_client ''o1'' [] (rng demo_client 20 (orgGroups demo_client)) (org_realm\<lparr>m_lists := False\<rparr>) =
       (Inl err, org_realm\<lparr>m_lists := False\<rparr>) \<and>
     fst (getGroups mem_gocloak ''master'' (org_realm\<lparr>m_lists := False\<rparr>)) = Inl err"
proof -
  define err where
    "err = failed (''failed to get groups in realm '' @ ''master'') (Errorf ''503 Service Unavailable'')"
  have "checkRolesAndGroupsCreated demo_client ''o1'' [] (rng demo_client 20 (orgGroups demo_client)) (org_realm\<lparr>m_lists := False\<rparr>) =
      (Inl err, org_realm\<lparr>m_lists := False\<rparr>)"
    by (simp add: checkRolesAndGroupsCreated_def mem_calls err_def)
  moreover have "create_groups demo_client ''o1'' [] (rng demo_client 21 (orgGroups demo_client)) (empty_realm\<lparr>m_lists := False\<rparr>) =
      (Inr (), org_realm\<lparr>m_lists := False\<rparr>)"
    using demo_create_groups by (simp only: demo_simps(5))
  ultimately show ?thesis
    using ktc_retries_only_failed_reads [OF demo_client_ok] mem_calls(4) by (metis Inl_Inr_False demo_simps(1,2) fst_conv)
qed

text \<open>An id that contains 409 makes every failure of its creation an "already exists".\<close>

lemma Contains_inner: "Contains s t \<Longrightarrow> Contains ((a @ s @ b) @ c) t"
  unfolding Contains_def by (rule sublist_order.order_trans [of t s]) (auto intro: sublist_append_rightI sublist_append_leftI)

lemma id_with_409_hides_failures:
  assumes "Contains role ''409''"
  shows "isErrorForAlreadyExists (failed (''failed to create role '' @ role @ '' in realm '' @ realm) err)"
  unfolding isErrorForAlreadyExists_def failed_def err_text.simps by (rule Contains_inner [OF assms])

text \<open>A lost creation: the call fails in its first round, and would succeed if it were repeated.\<close>

lemma conflict_already_exists: "isErrorForAlreadyExists (failed m (Errorf ''409 Conflict''))"
proof -
  have "Contains ((m @ '': '') @ ''409 Conflict'') ''409''"
    unfolding Contains_def by (rule sublist_order.order_trans [of _ "''409 Conflict''"]) (code_simp, rule sublist_append_leftI)
  then show ?thesis
    by (simp add: isErrorForAlreadyExists_def failed_def)
qed

lemma lost_group_fails_first_attempt:
  "(\<exists>err. ktc_CreateOrg demo_client ''o1'' (empty_realm\<lparr>m_loses := True\<rparr>) =
     (Inl err, empty_realm\<lparr>m_roles := [''o1_read'', ''admin'']\<rparr>)) \<and>
   ktc_CreateOrg demo_client ''o1'' (empty_realm\<lparr>m_roles := [''o1_read'', ''admin'']\<rparr>) = (Inr (), org_realm)"
proof
  have "\<exists>err. create_groups demo_client ''o1'' [] (orgGroups demo_client) (empty_realm\<lparr>m_loses := True\<rparr>) =
      (Inl err, empty_realm\<lparr>m_roles := [''o1_read'', ''admin'']\<rparr>)"
    by (simp add: mem_calls empty_realm_def Let_def addRolesToGroup_def authed_def or_failed_def mem_gocloak_sel)
  then obtain err where "create_groups demo_client ''o1'' [] (orgGroups demo_client) (empty_realm\<lparr>m_loses := True\<rparr>) =
      (Inl err, empty_realm\<lparr>m_roles := [''o1_read'', ''admin'']\<rparr>)" ..
  then have "createRolesAndGroups demo_client ''o1'' [] (orgGroups demo_client) (empty_realm\<lparr>m_loses := True\<rparr>) =
      (Inl err, empty_realm\<lparr>m_roles := [''o1_read'', ''admin'']\<rparr>)"
    by (intro first_attempt_fails) (simp only: demo_simps mem_calls)+
  then show "\<exists>err. ktc_CreateOrg demo_client ''o1'' (empty_realm\<lparr>m_loses := True\<rparr>) =
     (Inl err, empty_realm\<lparr>m_roles := [''o1_read'', ''admin'']\<rparr>)"
    unfolding ktc_CreateOrg_def by blast
  show "ktc_CreateOrg demo_client ''o1'' (empty_realm\<lparr>m_roles := [''o1_read'', ''admin'']\<rparr>) = (Inr (), org_realm)"
    unfolding ktc_CreateOrg_def
    by (rule first_attempt [where ?k1.0 = "empty_realm\<lparr>m_roles := [''o1_read'', ''admin'']\<rparr>" and ?k2.0 = org_realm])
       (simp_all add: mem_calls empty_realm_def org_realm_def Let_def addRolesToGroup_def authed_def or_failed_def
          mem_gocloak_sel mem_group_def checkRolesAndGroupsCreated_def missing_role_def conflict_already_exists)
qed

end
