(* ===== verification/Ktc_Tdm.thy ===== *)
theory Ktc_Tdm
  imports Ktc_Provision
begin

text \<open>
  The event client of the keycloak-tenant-controller, pkg/tdmclient/tdmclient.go: events of the
  Tenant Manager's feed become calls of the Keycloak client, and at most one poller runs.

  The handler knows the Keycloak client through the interface \<open>keycloak.Client\<close>; the locale
  \<open>keycloak_client\<close> is its contract, interpreted on the client of client.go.  The poller and the
  names of resource and event types come from the orch-library and are parameters, and so are the
  printed form of an id and \<open>url.ParseRequestURI\<close>.
\<close>

section \<open>The handler\<close>

record tenancy_names =
  ResourceTypeOrg :: string
  ResourceTypeProject :: string
  EventTypeCreated :: string
  EventTypeDeleted :: string

definition names_distinct :: "tenancy_names \<Rightarrow> bool" where
  "names_distinct N \<longleftrightarrow> ResourceTypeOrg N \<noteq> ResourceTypeProject N \<and> EventTypeCreated N \<noteq> EventTypeDeleted N"

record Event =
  ev_ResourceType :: string
  ev_EventType :: string
  ev_ResourceID :: uuid
  ev_ResourceName :: string
  ev_OrgID :: "uuid option"

record 's Client =
  kc_CreateOrg :: "string \<Rightarrow> 's \<Rightarrow> (go_err + unit) \<times> 's"
  kc_DeleteOrg :: "string \<Rightarrow> 's \<Rightarrow> (go_err + unit) \<times> 's"
  kc_CreateProject :: "string \<Rightarrow> string \<Rightarrow> 's \<Rightarrow> (go_err + unit) \<times> 's"
  kc_DeleteProject :: "string \<Rightarrow> 's \<Rightarrow> (go_err + unit) \<times> 's"

text \<open>\<open>fmt.Errorf("... %w", err)\<close> around the result of a call.\<close>

definition wrapped :: "string \<Rightarrow> (go_err + unit) \<times> 's \<Rightarrow> (go_err + unit) \<times> 's" where
  "wrapped m res = (case res of
     (Inl err, s) \<Rightarrow> (Inl (Wrap (m @ '': '' @ err_text err) err), s)
   | (Inr u, s) \<Rightarrow> (Inr u, s))"

definition handleOrgCreated :: "(uuid \<Rightarrow> string) \<Rightarrow> 's Client \<Rightarrow> Event \<Rightarrow> 's \<Rightarrow> (go_err + unit) \<times> 's" where
  "handleOrgCreated str C e s =
     wrapped (''create org '' @ ev_ResourceName e @ '' in Keycloak'') (kc_CreateOrg C (str (ev_ResourceID e)) s)"

definition handleOrgDeleted :: "(uuid \<Rightarrow> string) \<Rightarrow> 's Client \<Rightarrow> Event \<Rightarrow> 's \<Rightarrow> (go_err + unit) \<times> 's" where
  "handleOrgDeleted str C e s =
     wrapped (''delete org '' @ ev_ResourceName e @ '' from Keycloak'') (kc_DeleteOrg C (str (ev_ResourceID e)) s)"

definition handleProjectCreated :: "(uuid \<Rightarrow> string) \<Rightarrow> 's Client \<Rightarrow> Event \<Rightarrow> 's \<Rightarrow> (go_err + unit) \<times> 's" where
  "handleProjectCreated str C e s =
     (let orgID = (case ev_OrgID e of None \<Rightarrow> [] | Some i \<Rightarrow> str i) in
      wrapped (''create project '' @ ev_ResourceName e @ '' in Keycloak'')
        (kc_CreateProject C orgID (str (ev_ResourceID e)) s))"

definition handleProjectDeleted :: "(uuid \<Rightarrow> string) \<Rightarrow> 's Client \<Rightarrow> Event \<Rightarrow> 's \<Rightarrow> (go_err + unit) \<times> 's" where
  "handleProjectDeleted str C e s =
     wrapped (''delete project '' @ ev_ResourceName e @ '' from Keycloak'') (kc_DeleteProject C (str (ev_ResourceID e)) s)"

definition HandleEvent ::
  "tenancy_names \<Rightarrow> (uuid \<Rightarrow> string) \<Rightarrow> 's Client \<Rightarrow> Event \<Rightarrow> 's \<Rightarrow> (go_err + unit) \<times> 's" where
  "HandleEvent N str C e s =
     (if ev_ResourceType e = ResourceTypeOrg N \<and> ev_EventType e = EventTypeCreated N then handleOrgCreated str C e s
      else if ev_ResourceType e = ResourceTypeOrg N \<and> ev_EventType e = EventTypeDeleted N then handleOrgDeleted str C e s
      else if ev_ResourceType e = ResourceTypeProject N \<and> ev_EventType e = EventTypeCreated N then handleProjectCreated str C e s
      else if ev_ResourceType e = ResourceTypeProject N \<and> ev_EventType e = EventTypeDeleted N then handleProjectDeleted str C e s
      else (Inr (), s))"

text \<open>Any sequence of deliveries; what the poller does after an error is up to it.\<close>

fun deliver :: "tenancy_names \<Rightarrow> (uuid \<Rightarrow> string) \<Rightarrow> 's Client \<Rightarrow> Event list \<Rightarrow> 's \<Rightarrow> 's" where
  "deliver N str C [] s = s"
| "deliver N str C (e # es) s = deliver N str C es (snd (HandleEvent N str C e s))"

fun all_handled :: "tenancy_names \<Rightarrow> (uuid \<Rightarrow> string) \<Rightarrow> 's Client \<Rightarrow> Event list \<Rightarrow> 's \<Rightarrow> bool" where
  "all_handled N str C [] s = True"
| "all_handled N str C (e # es) s =
     (fst (HandleEvent N str C e s) = Inr () \<and> all_handled N str C es (snd (HandleEvent N str C e s)))"

lemma deliver_append: "deliver N str C (xs @ ys) s = deliver N str C ys (deliver N str C xs s)"
  by (induction xs arbitrary: s) simp_all

lemma all_handled_append:
  "all_handled N str C (xs @ ys) s \<longleftrightarrow> all_handled N str C xs s \<and> all_handled N str C ys (deliver N str C xs s)"
  by (induction xs arbitrary: s) simp_all

section \<open>The contract of \<open>keycloak.Client\<close>\<close>

datatype tenant = Org string | Project string string

text \<open>The abstract state of an identity provider: \<open>names\<close> are the roles and groups that exist,
  \<open>ready t\<close> says that everything of tenant \<open>t\<close> is set up, \<open>made t\<close> are the names it consists of.\<close>

definition sets_up ::
  "('s \<Rightarrow> bool) \<Rightarrow> ('s \<Rightarrow> string set) \<Rightarrow> (tenant \<Rightarrow> 's \<Rightarrow> bool) \<Rightarrow> (tenant \<Rightarrow> string set) \<Rightarrow> tenant
     \<Rightarrow> 's \<Rightarrow> (go_err + unit) \<times> 's \<Rightarrow> bool" where
  "sets_up ok names ready made t s res \<longleftrightarrow>
     ok (snd res) \<and> names (snd res) \<subseteq> names s \<union> made t \<and> (\<forall>u. ready u s \<longrightarrow> ready u (snd res)) \<and>
     (fst res = Inr () \<longrightarrow> ready t (snd res))"

definition tears_down ::
  "('s \<Rightarrow> bool) \<Rightarrow> ('s \<Rightarrow> string set) \<Rightarrow> (tenant \<Rightarrow> 's \<Rightarrow> bool) \<Rightarrow> (tenant \<Rightarrow> string set) \<Rightarrow> string
     \<Rightarrow> 's \<Rightarrow> (go_err + unit) \<times> 's \<Rightarrow> bool" where
  "tears_down ok names ready made i s res \<longleftrightarrow>
     ok (snd res) \<and> names (snd res) \<subseteq> names s \<and>
     (\<forall>u. ready u s \<and> (\<forall>n\<in>made u. \<not> Contains n i) \<longrightarrow> ready u (snd res)) \<and>
     (fst res = Inr () \<longrightarrow> (\<forall>n\<in>names (snd res). \<not> Contains n i))"

locale keycloak_client =
  fixes C :: "'s Client"
    and ok :: "'s \<Rightarrow> bool"
    and names :: "'s \<Rightarrow> string set"
    and ready :: "tenant \<Rightarrow> 's \<Rightarrow> bool"
    and made :: "tenant \<Rightarrow> string set"
  assumes create_org: "ok s \<Longrightarrow> sets_up ok names ready made (Org i) s (kc_CreateOrg C i s)"
    and create_project: "ok s \<Longrightarrow> sets_up ok names ready made (Project j i) s (kc_CreateProject C j i s)"
    and delete_org: "ok s \<Longrightarrow> tears_down ok names ready made i s (kc_DeleteOrg C i s)"
    and delete_project: "ok s \<Longrightarrow> tears_down ok names ready made i s (kc_DeleteProject C i s)"

text \<open>What an event asks for.\<close>

datatype request_kind = SetUp tenant | TearDown string | Ignore

definition asks :: "tenancy_names \<Rightarrow> (uuid \<Rightarrow> string) \<Rightarrow> Event \<Rightarrow> request_kind" where
  "asks N str e =
     (let i = str (ev_ResourceID e) in
      if ev_EventType e = EventTypeCreated N \<and> ev_ResourceType e = ResourceTypeOrg N then SetUp (Org i)
      else if ev_EventType e = EventTypeCreated N \<and> ev_ResourceType e = ResourceTypeProject N
      then SetUp (Project (case ev_OrgID e of None \<Rightarrow> [] | Some j \<Rightarrow> str j) i)
      else if ev_EventType e = EventTypeDeleted N \<and> ev_ResourceType e \<in> {ResourceTypeOrg N, ResourceTypeProject N}
      then TearDown i
      else Ignore)"

lemma wrapped_sel [simp]: "snd (wrapped m res) = snd res" "fst (wrapped m res) = Inr u \<longleftrightarrow> fst res = Inr u"
  by (auto simp: wrapped_def split: prod.splits sum.splits)

lemma wrapped_contract [simp]:
  "sets_up ok names ready made t s (wrapped m res) \<longleftrightarrow> sets_up ok names ready made t s res"
  "tears_down ok names ready made i s (wrapped m res) \<longleftrightarrow> tears_down ok names ready made i s res"
  by (simp_all add: sets_up_def tears_down_def)

text \<open>No event of the list makes a name of \<open>ns\<close> disappear, or brings back a name with \<open>i\<close>.\<close>

definition never_torn_down :: "tenancy_names \<Rightarrow> (uuid \<Rightarrow> string) \<Rightarrow> string set \<Rightarrow> Event list \<Rightarrow> bool" where
  "never_torn_down N str ns es \<longleftrightarrow> (\<forall>e\<in>set es. \<forall>i. asks N str e = TearDown i \<longrightarrow> (\<forall>n\<in>ns. \<not> Contains n i))"

definition never_set_up :: "tenancy_names \<Rightarrow> (uuid \<Rightarrow> string) \<Rightarrow> (tenant \<Rightarrow> string set) \<Rightarrow> string \<Rightarrow> Event list \<Rightarrow> bool" where
  "never_set_up N str made i es \<longleftrightarrow> (\<forall>e\<in>set es. \<forall>t. asks N str e = SetUp t \<longrightarrow> (\<forall>n\<in>made t. \<not> Contains n i))"

context keycloak_client
begin

lemma handles:
  assumes "names_distinct N" and "ok s"
  shows "case asks N str e of
      SetUp t \<Rightarrow> sets_up ok names ready made t s (HandleEvent N str C e s)
    | TearDown i \<Rightarrow> tears_down ok names ready made i s (HandleEvent N str C e s)
    | Ignore \<Rightarrow> HandleEvent N str C e s = (Inr (), s)"
proof -
  have N: "ResourceTypeOrg N \<noteq> ResourceTypeProject N" "ResourceTypeProject N \<noteq> ResourceTypeOrg N"
    "EventTypeCreated N \<noteq> EventTypeDeleted N" "EventTypeDeleted N \<noteq> EventTypeCreated N"
    using assms(1) by (auto simp: names_distinct_def)
  note laws = create_org [OF assms(2)] create_project [OF assms(2)] delete_org [OF assms(2)] delete_project [OF assms(2)]
  consider (oc) "ev_ResourceType e = ResourceTypeOrg N" "ev_EventType e = EventTypeCreated N"
    | (od) "ev_ResourceType e = ResourceTypeOrg N" "ev_EventType e = EventTypeDeleted N"
    | (pc) "ev_ResourceType e = ResourceTypeProject N" "ev_EventType e = EventTypeCreated N"
    | (pd) "ev_ResourceType e = ResourceTypeProject N" "ev_EventType e = EventTypeDeleted N"
    | (resource) "ev_ResourceType e \<noteq> ResourceTypeOrg N" "ev_ResourceType e \<noteq> ResourceTypeProject N"
    | (event) "ev_EventType e \<noteq> EventTypeCreated N" "ev_EventType e \<noteq> EventTypeDeleted N"
    by blast
  then show ?thesis
  proof cases
    case oc
    with N show ?thesis
      by (simp add: asks_def Let_def HandleEvent_def handleOrgCreated_def laws)
  next
    case od
    with N show ?thesis
      by (simp add: asks_def Let_def HandleEvent_def handleOrgDeleted_def laws)
  next
    case pc
    with N show ?thesis
      by (simp add: asks_def Let_def HandleEvent_def handleProjectCreated_def laws)
  next
    case pd
    with N show ?thesis
      by (simp add: asks_def Let_def HandleEvent_def handleProjectDeleted_def laws)
  next
    case resource
    then show ?thesis
      by (simp add: asks_def Let_def HandleEvent_def)
  next
    case event
    then show ?thesis
      by (simp add: asks_def Let_def HandleEvent_def)
  qed
qed

lemma handle_ok: "names_distinct N \<Longrightarrow> ok s \<Longrightarrow> ok (snd (HandleEvent N str C e s))"
  using handles [of N s str e] by (simp add: sets_up_def tears_down_def split: request_kind.splits)

lemma handle_ready:
  assumes "names_distinct N" and "ok s" and "ready t s" and "never_torn_down N str (made t) [e]"
  shows "ready t (snd (HandleEvent N str C e s))"
  using handles [OF assms(1,2), of str e] assms(3,4)
  by (cases "asks N str e") (simp_all add: sets_up_def tears_down_def never_torn_down_def)

lemma handle_gone:
  assumes "names_distinct N" and "ok s" and "\<forall>n\<in>names s. \<not> Contains n i" and "never_set_up N str made i [e]"
  shows "\<forall>n\<in>names (snd (HandleEvent N str C e s)). \<not> Contains n i"
proof (cases "asks N str e")
  case (SetUp t)
  with handles [OF assms(1,2), of str e] have "names (snd (HandleEvent N str C e s)) \<subseteq> names s \<union> made t"
    by (simp add: sets_up_def)
  with SetUp assms(3,4) show ?thesis
    by (auto simp: never_set_up_def)
next
  case (TearDown j)
  with handles [OF assms(1,2), of str e] have "names (snd (HandleEvent N str C e s)) \<subseteq> names s"
    by (simp add: tears_down_def)
  with assms(3) show ?thesis
    by blast
qed (use handles [OF assms(1,2), of str e] assms(3) in simp)

lemma deliver_ready:
  assumes "names_distinct N"
  shows "ok s \<Longrightarrow> ready t s \<Longrightarrow> never_torn_down N str (made t) es \<Longrightarrow> ready t (deliver N str C es s)"
proof (induction es arbitrary: s)
  case (Cons e es)
  then have "never_torn_down N str (made t) [e]" and "never_torn_down N str (made t) es"
    by (simp_all add: never_torn_down_def)
  then show ?case
    using Cons.IH [OF handle_ok [OF assms Cons.prems(1)] handle_ready [OF assms Cons.prems(1,2)]] by simp
qed simp

lemma deliver_gone:
  assumes "names_distinct N"
  shows "ok s \<Longrightarrow> \<forall>n\<in>names s. \<not> Contains n i \<Longrightarrow> never_set_up N str made i es \<Longrightarrow>
    \<forall>n\<in>names (deliver N str C es s). \<not> Contains n i"
proof (induction es arbitrary: s)
  case (Cons e es)
  then have "never_set_up N str made i [e]" and "never_set_up N str made i es"
    by (simp_all add: never_set_up_def)
  then show ?case
    using Cons.IH [OF handle_ok [OF assms Cons.prems(1)] handle_gone [OF assms Cons.prems(1,2)]] by simp
qed simp

text \<open>A tenant whose last event was handled is set up, or gone, however the others fared.\<close>

lemma created_is_ready:
  assumes "names_distinct N" and "ok s" and "asks N str e = SetUp t" and "fst (HandleEvent N str C e s) = Inr ()"
    and "never_torn_down N str (made t) es"
  shows "ready t (deliver N str C (e # es) s)"
  using deliver_ready [OF assms(1) handle_ok [OF assms(1,2)]] assms(5) handles [OF assms(1,2), of str e] assms(3,4)
  by (simp add: sets_up_def)

lemma deleted_is_gone:
  assumes "names_distinct N" and "ok s" and "asks N str e = TearDown i" and "fst (HandleEvent N str C e s) = Inr ()"
    and "never_set_up N str made i es"
  shows "\<forall>n\<in>names (deliver N str C (e # es) s). \<not> Contains n i"
  using deliver_gone [OF assms(1) handle_ok [OF assms(1,2), of str e], of i str es] assms(5) handles [OF assms(1,2), of str e] assms(3,4)
  by (simp add: tears_down_def)

lemma deliver_ok: "names_distinct N \<Longrightarrow> ok s \<Longrightarrow> ok (deliver N str C es s)"
  by (induction es arbitrary: s) (simp_all add: handle_ok)

text \<open>The same for every event of a list that was handled without an error.\<close>

lemma handled_list:
  assumes "names_distinct N" and "ok s" and "all_handled N str C es s" and "e \<in> set es"
  shows "asks N str e = SetUp t \<Longrightarrow> never_torn_down N str (made t) es \<Longrightarrow> ready t (deliver N str C es s)"
    and "asks N str e = TearDown i \<Longrightarrow> never_set_up N str made i es \<Longrightarrow> \<forall>n\<in>names (deliver N str C es s). \<not> Contains n i"
proof -
  obtain xs ys where es: "es = xs @ e # ys"
    using assms(4) by (meson split_list)
  let ?s = "deliver N str C xs s"
  have s: "ok ?s" "fst (HandleEvent N str C e ?s) = Inr ()"
    using assms(3) deliver_ok [OF assms(1,2)] by (simp_all add: es all_handled_append)
  have "never_torn_down N str (made t) es \<Longrightarrow> never_torn_down N str (made t) ys"
    and "never_set_up N str made i es \<Longrightarrow> never_set_up N str made i ys"
    by (simp_all add: es never_torn_down_def never_set_up_def ball_Un)
  with created_is_ready [OF assms(1) s(1) _ s(2), of t ys] deleted_is_gone [OF assms(1) s(1) _ s(2), of i ys]
  show "asks N str e = SetUp t \<Longrightarrow> never_torn_down N str (made t) es \<Longrightarrow> ready t (deliver N str C es s)"
    and "asks N str e = TearDown i \<Longrightarrow> never_set_up N str made i es \<Longrightarrow> \<forall>n\<in>names (deliver N str C es s). \<not> Contains n i"
    unfolding es deliver_append by blast+
qed

end

section \<open>The contract holds of client.go\<close>

definition keycloak_api :: "'k client \<Rightarrow> 'k Client" where
  "keycloak_api c = \<lparr>kc_CreateOrg = ktc_CreateOrg c, kc_DeleteOrg = ktc_DeleteOrg c,
     kc_CreateProject = ktc_CreateProject c, kc_DeleteProject = ktc_DeleteProject c\<rparr>"

definition realm_names :: "'k realm \<Rightarrow> 'k \<Rightarrow> string set" where
  "realm_names V k = rv_roles V k \<union> gr_Name ` rv_groups V k"

fun tenant_ready :: "'k realm \<Rightarrow> 'k client \<Rightarrow> tenant \<Rightarrow> 'k \<Rightarrow> bool" where
  "tenant_ready V c (Org i) k \<longleftrightarrow> (\<forall>t\<in>set (orgGroups c). provisioned V i [] t k)"
| "tenant_ready V c (Project j i) k \<longleftrightarrow> (\<forall>t\<in>set (projGroups c). provisioned V j i t k)"

fun tenant_names :: "'k client \<Rightarrow> tenant \<Rightarrow> string set" where
  "tenant_names c (Org i) = template_roles i [] (orgGroups c) \<union> template_groups i [] (orgGroups c)"
| "tenant_names c (Project j i) = template_roles j i (projGroups c) \<union> template_groups j i (projGroups c)"

lemma creates_sets_up:
  assumes "creates V o' p gs k res" and "t = Org o' \<and> p = [] \<and> gs = orgGroups c \<or> t = Project o' p \<and> gs = projGroups c"
  shows "sets_up (\<lambda>k. client_ok V c) (realm_names V) (tenant_ready V c) (tenant_names c) t k res \<longleftrightarrow> client_ok V c"
proof -
  have adds: "adds V (template_roles o' p gs) (template_groups o' p gs) k (snd res)"
    using assms(1) by (simp add: creates_def)
  have "realm_names V (snd res) \<subseteq> realm_names V k \<union> tenant_names c t"
    using addsD(2,5) [OF adds] assms(2) by (fastforce simp: realm_names_def)
  moreover have "tenant_ready V c u (snd res)" if "tenant_ready V c u k" for u
    using that provisioned_adds [OF _ adds] by (cases u) auto
  moreover have "tenant_ready V c t (snd res)" if "fst res = Inr ()"
    using assms that by (auto simp: creates_def)
  ultimately show ?thesis
    by (auto simp: sets_up_def)
qed

lemma template_members:
  "t \<in> set gs \<Longrightarrow> named j p (fst t) \<in> template_groups j p gs"
  "t \<in> set gs \<Longrightarrow> r \<in> set (snd t) \<Longrightarrow> named j p r \<in> template_roles j p gs"
  by (auto simp: template_groups_def template_roles_def)

lemma deletes_tears_down:
  assumes d: "deletes V i k res"
  shows "tears_down (\<lambda>k. client_ok V c) (realm_names V) (tenant_ready V c) (tenant_names c) i k res \<longleftrightarrow> client_ok V c"
proof -
  obtain x k' where res: "res = (x, k')"
    by fastforce
  note D = deletesD [OF d [unfolded res]]
  have prov: "provisioned V j p t k'"
    if prov: "provisioned V j p t k" and "\<And>r. r \<in> set (snd t) \<Longrightarrow> \<not> Contains (named j p r) i"
      and "\<not> Contains (named j p (fst t)) i" for j p t
  proof -
    obtain g where g: "g \<in> rv_groups V k" "gr_Name g = named j p (fst t)"
      "{gr_ID g} \<times> named j p ` set (snd t) \<subseteq> rv_grants V k" and r: "named j p ` set (snd t) \<subseteq> rv_roles V k"
      using prov unfolding provisioned_def by blast
    have "g \<in> rv_groups V k'"
      using D(4) g that(3) by simp
    moreover have "(gr_ID g, n) \<in> rv_grants V k'" if "n \<in> named j p ` set (snd t)" for n
      using D(5) [of g n] g that \<open>\<not> Contains (named j p (fst t)) i\<close> \<open>\<And>r. r \<in> set (snd t) \<Longrightarrow> \<not> Contains (named j p r) i\<close>
      by auto
    then have "{gr_ID g} \<times> named j p ` set (snd t) \<subseteq> rv_grants V k'"
      by blast
    moreover have "named j p ` set (snd t) \<subseteq> rv_roles V k'"
      using D(3) r that(2) by auto
    ultimately show ?thesis
      unfolding provisioned_def using g(2) by blast
  qed
  have "tenant_ready V c u k'" if "tenant_ready V c u k" and "\<And>n. n \<in> tenant_names c u \<Longrightarrow> \<not> Contains n i" for u
    using that by (cases u) (simp_all add: prov template_members)
  then have "\<forall>u. tenant_ready V c u k \<and> (\<forall>n\<in>tenant_names c u. \<not> Contains n i) \<longrightarrow> tenant_ready V c u k'"
    by blast
  moreover have "realm_names V k' \<subseteq> realm_names V k"
    using D(1,2) by (auto simp: realm_names_def)
  moreover have "\<forall>n\<in>realm_names V k'. \<not> Contains n i" if "x = Inr ()"
    using D(6,7) that by (auto simp: realm_names_def)
  ultimately show ?thesis
    by (auto simp: tears_down_def res)
qed

interpretation kc: keycloak_client "keycloak_api c" "\<lambda>k. client_ok V c" "realm_names V" "tenant_ready V c" "tenant_names c"
  for V :: "'k realm" and c :: "'k client"
proof
  fix s :: 'k and i j :: string
  assume ok: "client_ok V c"
  show "sets_up (\<lambda>k. client_ok V c) (realm_names V) (tenant_ready V c) (tenant_names c) (Org i) s (kc_CreateOrg (keycloak_api c) i s)"
    using creates_sets_up [of V i "[]" "orgGroups c" s "ktc_CreateOrg c i s" "Org i" c] createRolesAndGroups_creates [OF ok] ok
    by (simp add: keycloak_api_def ktc_CreateOrg_def)
  show "sets_up (\<lambda>k. client_ok V c) (realm_names V) (tenant_ready V c) (tenant_names c) (Project j i) s (kc_CreateProject (keycloak_api c) j i s)"
    using creates_sets_up [of V j i "projGroups c" s "ktc_CreateProject c j i s" "Project j i" c] createRolesAndGroups_creates [OF ok] ok
    by (simp add: keycloak_api_def ktc_CreateProject_def)
  show "tears_down (\<lambda>k. client_ok V c) (realm_names V) (tenant_ready V c) (tenant_names c) i s (kc_DeleteOrg (keycloak_api c) i s)"
    using deletes_tears_down [of V i s "ktc_DeleteOrg c i s" c] deleteRolesAndGroups_deletes [OF ok] ok
    by (simp add: keycloak_api_def ktc_DeleteOrg_def)
  show "tears_down (\<lambda>k. client_ok V c) (realm_names V) (tenant_ready V c) (tenant_names c) i s (kc_DeleteProject (keycloak_api c) i s)"
    using deletes_tears_down [of V i s "ktc_DeleteProject c i s" c] deleteRolesAndGroups_deletes [OF ok] ok
    by (simp add: keycloak_api_def ktc_DeleteProject_def)
qed

section \<open>The poller\<close>

text \<open>\<open>live\<close> are the pollers whose context is not cancelled and whose \<open>Run\<close> has not returned, by the
  number of their start; the cancel function of a client is the number of its poller.\<close>

record 's tdmclient =
  appName :: string
  kcClient :: "'s Client"
  cancel :: "nat option"
  started :: nat
  live :: "nat list"

definition defaultTenantManagerURL :: string where
  "defaultTenantManagerURL = ''http://tenancy-manager.orch-iam:8080''"

definition NewMTClient :: "string \<Rightarrow> 's Client option \<Rightarrow> go_err + 's tdmclient" where
  "NewMTClient app kc =
     (if app = [] then Inl (Errorf ''appName must not be empty'')
      else case kc of
             None \<Rightarrow> Inl (Errorf ''kcClient must not be nil'')
           | Some C \<Rightarrow> Inr \<lparr>appName = app, kcClient = C, cancel = None, started = 0, live = []\<rparr>)"

text \<open>\<open>ParseRequestURI\<close> answers with the scheme and the host.\<close>

definition validateURL :: "(string \<Rightarrow> go_err + string \<times> string) \<Rightarrow> string \<Rightarrow> go_err option" where
  "validateURL ParseRequestURI rawURL =
     (case ParseRequestURI rawURL of
        Inl err \<Rightarrow> Some (Wrap (''parse URL: '' @ err_text err) err)
      | Inr (Scheme, Host) \<Rightarrow>
          if Scheme \<noteq> ''http'' \<and> Scheme \<noteq> ''https''
          then Some (Errorf (''scheme must be http or https, got '' @ quote Scheme))
          else if Host = [] then Some (Errorf ''URL must have a host'')
          else None)"

definition tdm_Stop :: "'s tdmclient \<Rightarrow> 's tdmclient" where
  "tdm_Stop tc =
     (case cancel tc of
        None \<Rightarrow> tc
      | Some i \<Rightarrow> tc\<lparr>live := removeAll i (live tc), cancel := None\<rparr>)"

definition tdm_Init ::
  "(string \<rightharpoonup> string) \<Rightarrow> (string \<Rightarrow> go_err + string \<times> string) \<Rightarrow> (string \<Rightarrow> string \<Rightarrow> go_err option)
     \<Rightarrow> 's tdmclient \<Rightarrow> (go_err + unit) \<times> 's tdmclient" where
  "tdm_Init env ParseRequestURI NewPoller tc =
     (let url = (case env ''TENANT_MANAGER_URL'' of None \<Rightarrow> [] | Some v \<Rightarrow> v);
          url = (if url = [] then defaultTenantManagerURL else url)
      in case validateURL ParseRequestURI url of
           Some err \<Rightarrow> (Inl (Wrap (''invalid TENANT_MANAGER_URL '' @ quote url @ '': '' @ err_text err) err), tc)
         | None \<Rightarrow>
             (let tc = tdm_Stop tc in
              case NewPoller url (appName tc) of
                Some err \<Rightarrow> (Inl (Wrap (''create tenancy poller: '' @ err_text err) err), tc)
              | None \<Rightarrow> (Inr (), tc\<lparr>cancel := Some (started tc), started := Suc (started tc), live := started tc # live tc\<rparr>)))"

text \<open>The life of a client: calls of its two methods, under any environment, and pollers that
  return on their own.\<close>

inductive tdm_reachable :: "'s tdmclient \<Rightarrow> bool" where
  new: "NewMTClient app kc = Inr tc \<Longrightarrow> tdm_reachable tc"
| init: "tdm_reachable tc \<Longrightarrow> tdm_reachable (snd (tdm_Init env P NP tc))"
| stop: "tdm_reachable tc \<Longrightarrow> tdm_reachable (tdm_Stop tc)"
| exits: "tdm_reachable tc \<Longrightarrow> tdm_reachable (tc\<lparr>live := removeAll i (live tc)\<rparr>)"

definition pollers_ok :: "'s tdmclient \<Rightarrow> bool" where
  "pollers_ok tc \<longleftrightarrow> distinct (live tc) \<and> set (live tc) \<subseteq> set_option (cancel tc) \<and> (\<forall>i\<in>set_option (cancel tc). i < started tc)"

lemma pollers_ok_Stop: "pollers_ok tc \<Longrightarrow> pollers_ok (tdm_Stop tc) \<and> live (tdm_Stop tc) = [] \<and> cancel (tdm_Stop tc) = None"
proof (cases "cancel tc")
  case (Some i)
  assume ok: "pollers_ok tc"
  with Some have "removeAll i (live tc) = []"
    by (auto simp: pollers_ok_def filter_empty_conv removeAll_filter_not_eq)
  with Some show ?thesis
    by (simp add: tdm_Stop_def pollers_ok_def)
qed (auto simp: tdm_Stop_def pollers_ok_def)

lemma tdm_Init_cases:
  assumes "tdm_Init env P NP tc = (x, tc')"
  obtains (invalid) e where "x = Inl e" and "tc' = tc"
    | (no_poller) e where "x = Inl e" and "tc' = tdm_Stop tc"
    | (starts) "x = Inr ()" and "tc' = (tdm_Stop tc)\<lparr>cancel := Some (started (tdm_Stop tc)),
        started := Suc (started (tdm_Stop tc)), live := started (tdm_Stop tc) # live (tdm_Stop tc)\<rparr>"
  using assms unfolding tdm_Init_def Let_def by (auto split: option.splits)

lemma pollers_ok_reachable: "tdm_reachable tc \<Longrightarrow> pollers_ok tc"
proof (induction rule: tdm_reachable.induct)
  case (new app kc tc)
  then show ?case
    by (auto simp: NewMTClient_def pollers_ok_def split: if_splits option.splits)
next
  case (init tc env P NP)
  obtain x tc' where I: "tdm_Init env P NP tc = (x, tc')"
    by fastforce
  from I have "pollers_ok tc'"
    by (cases rule: tdm_Init_cases) (use init.IH pollers_ok_Stop [OF init.IH] in \<open>auto simp: pollers_ok_def\<close>)
  with I show ?case
    by simp
next
  case (exits tc i)
  then show ?case
    by (auto simp: pollers_ok_def distinct_removeAll)
qed (simp add: pollers_ok_Stop)

section \<open>Properties\<close>

text \<open>
  C34. An event that was handled with success has a lasting effect, whatever else is delivered before
  and after, failures included: a tenant that was created is set up in Keycloak until an event deletes
  an id its names contain, and a deleted id occurs in no role and no group until an event creates a
  tenant with such a name.
\<close>

theorem handled_events_take_effect:
  assumes "client_ok V c" and "names_distinct N" and "fst (HandleEvent N str (keycloak_api c) e k) = Inr ()"
  shows "case asks N str e of
      SetUp t \<Rightarrow> never_torn_down N str (tenant_names c t) es \<longrightarrow> tenant_ready V c t (deliver N str (keycloak_api c) (e # es) k)
    | TearDown i \<Rightarrow> never_set_up N str (tenant_names c) i es \<longrightarrow>
        (\<forall>n\<in>realm_names V (deliver N str (keycloak_api c) (e # es) k). \<not> Contains n i)
    | Ignore \<Rightarrow> deliver N str (keycloak_api c) (e # es) k = deliver N str (keycloak_api c) es k"
proof (cases "asks N str e")
  case (SetUp t)
  then show ?thesis
    using kc.created_is_ready [OF assms(2,1) SetUp assms(3)] by simp
next
  case (TearDown i)
  then show ?thesis
    using kc.deleted_is_gone [OF assms(2,1) TearDown assms(3)] by simp
next
  case Ignore
  then show ?thesis
    using kc.handles [where str = str and e = e and s = k, OF assms(2,1)] by simp
qed

definition demo_tenancy :: tenancy_names where
  "demo_tenancy = \<lparr>ResourceTypeOrg = ''org'', ResourceTypeProject = ''project'',
     EventTypeCreated = ''created'', EventTypeDeleted = ''deleted''\<rparr>"

definition demo_event :: Event where
  "demo_event = \<lparr>ev_ResourceType = ''org'', ev_EventType = ''created'', ev_ResourceID = 1, ev_ResourceName = ''acme'', ev_OrgID = None\<rparr>"

theorem handled_events_take_effect_witness:
  "fst (HandleEvent demo_tenancy (\<lambda>i. ''o1'') (keycloak_api demo_client) demo_event empty_realm) = Inr () \<and>
   tenant_ready mem_realm demo_client (Org ''o1'') (deliver demo_tenancy (\<lambda>i. ''o1'') (keycloak_api demo_client) [demo_event] empty_realm)"
proof -
  have handled: "fst (HandleEvent demo_tenancy (\<lambda>i. ''o1'') (keycloak_api demo_client) demo_event empty_realm) = Inr ()"
    by (simp add: HandleEvent_def demo_tenancy_def demo_event_def handleOrgCreated_def keycloak_api_def demo_CreateOrg)
  moreover have "names_distinct demo_tenancy"
    by (simp add: names_distinct_def demo_tenancy_def)
  moreover have "asks demo_tenancy (\<lambda>i. ''o1'') demo_event = SetUp (Org ''o1'')"
    by (simp add: asks_def demo_tenancy_def demo_event_def)
  ultimately show ?thesis
    using handled_events_take_effect [OF demo_client_ok _ handled, of "[]"] by (simp add: never_torn_down_def)
qed

text \<open>
  A client never has two pollers: in every state a client can reach at most one is running, it is
  the one \<open>Stop\<close> cancels, and after \<open>Stop\<close> none runs.
\<close>

theorem at_most_one_poller:
  assumes "tdm_reachable tc"
  shows "length (live tc) \<le> 1 \<and> set (live tc) \<subseteq> set_option (cancel tc) \<and> live (tdm_Stop tc) = []"
proof -
  have ok: "pollers_ok tc"
    by (rule pollers_ok_reachable [OF assms])
  then have "card (set (live tc)) \<le> card (set_option (cancel tc))" and "distinct (live tc)"
    by (auto simp: pollers_ok_def intro!: card_mono)
  moreover have "card (set_option (cancel tc)) \<le> 1"
    by (cases "cancel tc") simp_all
  ultimately show ?thesis
    using ok pollers_ok_Stop [OF ok] by (simp add: pollers_ok_def distinct_card)
qed

definition demo_tdm :: "mem tdmclient" where
  "demo_tdm = \<lparr>appName = ''ktc'', kcClient = keycloak_api demo_client, cancel = None, started = 0, live = []\<rparr>"

theorem at_most_one_poller_witness:
  "live (snd (tdm_Init Map.empty (\<lambda>u. Inr (''http'', ''host'')) (\<lambda>u a. None)
      (snd (tdm_Init Map.empty (\<lambda>u. Inr (''http'', ''host'')) (\<lambda>u a. None) demo_tdm)))) = [1] \<and>
   length (live (snd (tdm_Init Map.empty (\<lambda>u. Inr (''http'', ''host'')) (\<lambda>u a. None)
      (snd (tdm_Init Map.empty (\<lambda>u. Inr (''http'', ''host'')) (\<lambda>u a. None) demo_tdm))))) \<le> 1"
proof -
  have "tdm_reachable demo_tdm"
    by (rule tdm_reachable.new [of "''ktc''" "Some (keycloak_api demo_client)"]) (simp add: NewMTClient_def demo_tdm_def)
  then show ?thesis
    using at_most_one_poller [OF tdm_reachable.init [OF tdm_reachable.init]]
    by (simp add: tdm_Init_def validateURL_def tdm_Stop_def demo_tdm_def)
qed

end
