(* ===== verification/Tenancy_Ktc.thy ===== *)
theory Tenancy_Ktc
  imports Tenancy_Types Ktc_Tdm
begin

text \<open>
  The Tenant Manager and the keycloak-tenant-controller together: a controller that starts afresh, asks
  for a replay and handles its events without an error leaves Keycloak as the database says.

  The poller between them is library code: it asks for the replay and hands each event of the answer to
  the handler, field by field.
\<close>

section \<open>From the answer to the handler\<close>

definition event_of :: "EventResponse \<Rightarrow> Event" where
  "event_of e = \<lparr>ev_ResourceType = er_ResourceType e, ev_EventType = er_EventType e, ev_ResourceID = er_ResourceID e,
     ev_ResourceName = er_ResourceName e, ev_OrgID = er_OrgID e\<rparr>"

text \<open>The names of the library are the strings the store writes.\<close>

definition feed_names :: tenancy_names where
  "feed_names = \<lparr>ResourceTypeOrg = ''org'', ResourceTypeProject = ''project'', EventTypeCreated = ''created'', EventTypeDeleted = ''deleted''\<rparr>"

lemma feed_names_distinct: "names_distinct feed_names"
  by (simp add: names_distinct_def feed_names_def)

text \<open>The tenants the database says exist, and the ids it says are gone.\<close>

definition live_tenants :: "(uuid \<Rightarrow> string) \<Rightarrow> db \<Rightarrow> tenant set" where
  "live_tenants str d =
     {Org (str (org_id r)) | r. r \<in> set (orgs d) \<and> org_active r} \<union>
     {Project (str (org_id r)) (str (proj_id p)) | p f r.
        p \<in> set (projects d) \<and> proj_active p \<and> with_folder d p = (p, Some (f, Some r))}"

definition dead_ids :: "(uuid \<Rightarrow> string) \<Rightarrow> db \<Rightarrow> string set" where
  "dead_ids str d =
     {str (org_id r) | r. r \<in> set (orgs d) \<and> org_deleted_at r \<noteq> None} \<union>
     {str (proj_id p) | p. p \<in> set (projects d) \<and> proj_deleted_at p \<noteq> None}"

text \<open>No name of a live tenant contains a dead id.\<close>

definition ids_apart :: "(tenant \<Rightarrow> string set) \<Rightarrow> (uuid \<Rightarrow> string) \<Rightarrow> db \<Rightarrow> bool" where
  "ids_apart made str d \<longleftrightarrow> (\<forall>t \<in> live_tenants str d. \<forall>n \<in> made t. \<forall>i \<in> dead_ids str d. \<not> Contains n i)"

section \<open>What a replay asks for\<close>

definition replay_event :: "ReplayEvent \<Rightarrow> Event" where
  "replay_event e = \<lparr>ev_ResourceType = re_ResourceType e, ev_EventType = re_EventType e, ev_ResourceID = re_ResourceID e,
     ev_ResourceName = re_ResourceName e, ev_OrgID = re_OrgID e\<rparr>"

lemma event_of_replay: "event_of (replay_response e t) = replay_event e"
  by (simp add: event_of_def replay_event_def replay_response_def)

lemma asks_org:
  "asks feed_names str (replay_event (replay_org ''created'' r)) = SetUp (Org (str (org_id r)))"
  "asks feed_names str (replay_event (replay_org ''deleted'' r)) = TearDown (str (org_id r))"
  by (simp_all add: asks_def feed_names_def replay_event_def replay_org_def)

lemma asks_project:
  "asks feed_names str (replay_event (replay_project ''created'' (p, Some (f, Some r)))) = SetUp (Project (str (org_id r)) (str (proj_id p)))"
  "asks feed_names str (replay_event (replay_project ''deleted'' (p, Some (f, Some r)))) = TearDown (str (proj_id p))"
  by (simp_all add: asks_def feed_names_def replay_event_def replay_project_def)

definition created_part :: "db \<Rightarrow> Event list" where
  "created_part d = map replay_event (map (replay_org ''created'') (replay_active_orgs d) @
     map (replay_project ''created'') (replay_active_projects d))"

definition deleted_part :: "db \<Rightarrow> Event list" where
  "deleted_part d = map replay_event (map (replay_project ''deleted'') (replay_deleted_projects d) @
     map (replay_org ''deleted'') (replay_deleted_orgs d))"

lemma part_sets:
  "set (created_part d) = (\<lambda>r. replay_event (replay_org ''created'' r)) ` {r \<in> set (orgs d). org_active r} \<union>
     (\<lambda>p. replay_event (replay_project ''created'' (with_folder d p))) ` {p \<in> set (projects d). proj_active p}"
  "set (deleted_part d) = (\<lambda>p. replay_event (replay_project ''deleted'' (with_folder d p))) ` {p \<in> set (projects d). proj_deleted_at p \<noteq> None} \<union>
     (\<lambda>r. replay_event (replay_org ''deleted'' r)) ` {r \<in> set (orgs d). org_deleted_at r \<noteq> None}"
  by (simp_all add: created_part_def deleted_part_def replay_active_orgs_def replay_active_projects_def
      replay_deleted_orgs_def replay_deleted_projects_def image_Un image_image)

text \<open>The created part asks for the live tenants, the deleted part for the removal of the dead ids.\<close>

lemma created_asked: "t \<in> live_tenants str d \<Longrightarrow> \<exists>e \<in> set (created_part d). asks feed_names str e = SetUp t"
proof -
  assume "t \<in> live_tenants str d"
  then consider (org) r where "r \<in> set (orgs d)" "org_active r" "t = Org (str (org_id r))"
    | (project) p f r where "p \<in> set (projects d)" "proj_active p" "with_folder d p = (p, Some (f, Some r))"
        "t = Project (str (org_id r)) (str (proj_id p))"
    unfolding live_tenants_def by blast
  then show ?thesis
  proof cases
    case org
    then show ?thesis
      using asks_org(1) [of str r] unfolding part_sets by blast
  next
    case project
    then have "asks feed_names str (replay_event (replay_project ''created'' (with_folder d p))) = SetUp t"
      by (simp add: asks_project)
    with project(1,2) show ?thesis
      unfolding part_sets by blast
  qed
qed

lemma deleted_asks:
  assumes "wf_db d"
  shows "e \<in> set (deleted_part d) \<Longrightarrow> \<exists>i \<in> dead_ids str d. asks feed_names str e = TearDown i"
    and "i \<in> dead_ids str d \<Longrightarrow> \<exists>e \<in> set (deleted_part d). asks feed_names str e = TearDown i"
proof -
  have project: "asks feed_names str (replay_event (replay_project ''deleted'' (with_folder d p))) = TearDown (str (proj_id p))"
    if "p \<in> set (projects d)" for p
    by (rule with_folder_full [OF assms that]) (simp add: asks_project)
  show "e \<in> set (deleted_part d) \<Longrightarrow> \<exists>i \<in> dead_ids str d. asks feed_names str e = TearDown i"
    using project asks_org(2) [of str] unfolding part_sets dead_ids_def by blast
  show "i \<in> dead_ids str d \<Longrightarrow> \<exists>e \<in> set (deleted_part d). asks feed_names str e = TearDown i"
    using project asks_org(2) [of str] unfolding part_sets dead_ids_def by blast
qed

lemma created_asks:
  assumes "wf_db d" and "e \<in> set (created_part d)"
  shows "\<exists>t. asks feed_names str e = SetUp t"
proof -
  have "\<exists>t. asks feed_names str (replay_event (replay_project ''created'' (with_folder d p))) = SetUp t"
    if "p \<in> set (projects d)" for p
    by (rule with_folder_full [OF assms(1) that]) (simp add: asks_project)
  with assms(2) asks_org(1) [of str] show ?thesis
    unfolding part_sets by blast
qed

text \<open>The handler of \<open>GET /v1/events?replay=true\<close> answers with the two parts.\<close>

lemma replay_answer:
  assumes "h_store h = store_backend" and "r_query r ''replay'' = ''true''"
    and "GetEvents_h h r w = ((200, EventsBody x), w')"
  shows "map event_of (es_Events x) = created_part (tables w) @ deleted_part (tables w)"
proof -
  have stamp: "map event_of rs = map replay_event es"
    if "map_state (\<lambda>e w. case f w of (t, w) \<Rightarrow> (replay_response e t, w)) es v = (rs, v')" for f es rs v v'
    using that by (induction es arbitrary: rs v v') (auto simp: event_of_replay split: prod.splits)
  from assms obtain es m w1 where s: "SynthesizeReplayEvents w = (Inr (es, m), w1)"
    and rs: "map event_of (es_Events x) = map replay_event es"
    by (auto simp: GetEvents_h_def store_backend_def writeError_def writeJSON_def split: prod.splits sum.splits if_splits dest!: stamp)
  from SynthesizeReplayEvents_result [OF s] show ?thesis
    unfolding rs by (simp add: created_part_def deleted_part_def)
qed

section \<open>A fresh controller\<close>

text \<open>
  C4. A controller that handles every event of a replay without an error leaves Keycloak as the database says, from
  whatever realm it started: every active org and project is set up with all its roles, groups and
  grants, and no role and no group contains the id of a deleted one.
\<close>

theorem replay_provisions_tenants:
  assumes st: "h_store h = store_backend" and wf: "wf_world w"
    and replay: "r_query r ''replay'' = ''true''" "GetEvents_h h r w = ((200, EventsBody x), w')"
    and c: "client_ok V c" and apart: "ids_apart (tenant_names c) str (tables w)"
    and handled: "all_handled feed_names str (keycloak_api c) (map event_of (es_Events x)) k"
  shows "(\<forall>t \<in> live_tenants str (tables w). tenant_ready V c t (deliver feed_names str (keycloak_api c) (map event_of (es_Events x)) k)) \<and>
    (\<forall>i \<in> dead_ids str (tables w). \<forall>n \<in> realm_names V (deliver feed_names str (keycloak_api c) (map event_of (es_Events x)) k). \<not> Contains n i)"
proof -
  let ?cs = "created_part (tables w)" and ?ds = "deleted_part (tables w)"
  note answer = replay_answer [OF st replay]
  have db: "wf_db (tables w)"
    using wf by (simp add: wf_world_def)
  note created = created_asks [OF db, of _ str] and deleted = deleted_asks(1) [OF db, of _ str]
  have ready: "tenant_ready V c t (deliver feed_names str (keycloak_api c) (?cs @ ?ds) k)" if t: "t \<in> live_tenants str (tables w)" for t
  proof -
    from created_asked [OF t] obtain e where e: "e \<in> set (?cs @ ?ds)" "asks feed_names str e = SetUp t"
      by auto
    have "never_torn_down feed_names str (tenant_names c t) (?cs @ ?ds)"
      using apart t created deleted unfolding never_torn_down_def ids_apart_def by fastforce
    then show ?thesis
      by (rule kc.handled_list(1) [OF feed_names_distinct c handled [unfolded answer] e])
  qed
  have gone: "\<forall>n \<in> realm_names V (deliver feed_names str (keycloak_api c) (?cs @ ?ds) k). \<not> Contains n i" if i: "i \<in> dead_ids str (tables w)" for i
  proof -
    from deleted_asks(2) [OF db i] obtain e where e: "e \<in> set ?ds" "asks feed_names str e = TearDown i"
      by auto
    have "never_set_up feed_names str (tenant_names c) i ?ds"
      using deleted unfolding never_set_up_def by fastforce
    with handled [unfolded answer] e show ?thesis
      unfolding deliver_append by (intro kc.handled_list(2) [OF feed_names_distinct c]) (simp_all add: all_handled_append)
  qed
  from ready gone show ?thesis
    unfolding answer by blast
qed

text \<open>A database with one org, and a request for a replay.\<close>

definition one_org :: world where
  "one_org = snd (CreateOrg ''acme'' [] sample_world)"

definition replay_request :: request where
  "replay_request = \<lparr>r_method = ''GET'', r_path = ''/v1/events'', r_param = [],
     r_query = (\<lambda>k. if k = ''controller'' then ''ktc'' else if k = ''replay'' then ''true'' else []),
     r_header = (\<lambda>_. []), r_body = [], r_auth = None\<rparr>"

lemma one_org_parts:
  "created_part (tables one_org) = [\<lparr>ev_ResourceType = ''org'', ev_EventType = ''created'', ev_ResourceID = org_id (hd (orgs (tables one_org))),
     ev_ResourceName = ''acme'', ev_OrgID = None\<rparr>]"
  "deleted_part (tables one_org) = []" "projects (tables one_org) = []"
  "map (\<lambda>r. (org_active r, org_deleted_at r)) (orgs (tables one_org)) = [(True, None)]"
  by code_simp+

theorem replay_provisions_tenants_witness:
  "\<exists>x. fst (GetEvents_h sample_handler replay_request one_org) = (200, EventsBody x) \<and>
     tenant_ready mem_realm demo_client (Org ''o1'')
       (deliver feed_names (\<lambda>_. ''o1'') (keycloak_api demo_client) (map event_of (es_Events x)) empty_realm)"
proof -
  have "(case snd (fst (GetEvents_h sample_handler replay_request one_org)) of EventsBody x \<Rightarrow> True | _ \<Rightarrow> False) \<and>
      fst (fst (GetEvents_h sample_handler replay_request one_org)) = 200"
    by code_simp
  then obtain x w' where x: "GetEvents_h sample_handler replay_request one_org = ((200, EventsBody x), w')"
    by (auto split: body.splits) (metis prod.collapse)
  have wf: "wf_world one_org"
    unfolding one_org_def by (rule create_org.preserves [OF sample_wf])
  obtain r where r: "orgs (tables one_org) = [r]" "org_active r" "org_deleted_at r = None"
    using one_org_parts(4) by auto
  have dead: "dead_ids (\<lambda>_. ''o1'') (tables one_org) = {}" and live: "Org ''o1'' \<in> live_tenants (\<lambda>_. ''o1'') (tables one_org)"
    using r one_org_parts(3) by (auto simp: dead_ids_def live_tenants_def)
  have answer: "map event_of (es_Events x) = created_part (tables one_org)"
    using replay_answer [OF sample_handler_store _ x] one_org_parts(2) by (simp add: replay_request_def)
  have "all_handled feed_names (\<lambda>_. ''o1'') (keycloak_api demo_client) (map event_of (es_Events x)) empty_realm"
    unfolding answer one_org_parts(1)
    by (simp add: HandleEvent_def feed_names_def handleOrgCreated_def keycloak_api_def demo_CreateOrg)
  then show ?thesis
    using replay_provisions_tenants [OF sample_handler_store wf _ x demo_client_ok, of "\<lambda>_. ''o1''" empty_realm] live dead x
    by (auto simp: replay_request_def ids_apart_def simp del: tenant_ready.simps)
qed

end
