(* ===== verification/Ktc_Secrets.thy ===== *)
theory Ktc_Secrets
  imports Prelude
begin

text \<open>
  The credentials of the keycloak-tenant-controller: pkg/auth/vaults/vaults.go, a session at Vault, and
  pkg/auth/secrets/secrets.go, which reads the client id and secret into two package variables.

  The Vault client library is a parameter, on the state \<open>'w\<close> of the outside world.  A value of a
  secret is a Go \<open>interface{}\<close>: a string, a map or anything else, with the name of its type.
\<close>

section \<open>The Vault session\<close>

datatype go_value = GString string | GMap "(string \<times> go_value) list" | GOther string

fun type_name :: "go_value \<Rightarrow> string" where
  "type_name (GString s) = ''string''"
| "type_name (GMap m) = ''map[string]interface {}''"
| "type_name (GOther t) = t"

type_synonym secret_data = "(string \<times> go_value) list"

record 'w vault_client =
  vl_NewClient :: "string \<Rightarrow> go_err option"
  vl_NewKubernetesAuth :: "string \<Rightarrow> 'w \<Rightarrow> go_err option \<times> 'w"
  vl_Login :: "string \<Rightarrow> string \<Rightarrow> 'w \<Rightarrow> (go_err + bool) \<times> 'w"
  vl_Read :: "string \<Rightarrow> string \<Rightarrow> 'w \<Rightarrow> (go_err + secret_data option) \<times> 'w"
  vl_RevokeSelf :: "string \<Rightarrow> 'w \<Rightarrow> go_err option \<times> 'w"

definition DefaultVaultRole :: string where "DefaultVaultRole = ''orch-svc''"
definition DefaultVaultURL :: string where "DefaultVaultURL = ''http://vault.orch-platform.svc.cluster.local:8200''"
definition vaultSecretBaseURL :: string where "vaultSecretBaseURL = ''/secret/data/''"

definition getVaultClient :: "'w vault_client \<Rightarrow> string \<Rightarrow> go_err option" where
  "getVaultClient V vaultURL =
     (case vl_NewClient V vaultURL of None \<Rightarrow> None | Some err \<Rightarrow> Some (Errorf ''failed to create Vault client''))"

text \<open>The answer of \<open>Login\<close> says whether there is auth info.\<close>

definition loginToVault :: "'w vault_client \<Rightarrow> string \<Rightarrow> string \<Rightarrow> 'w \<Rightarrow> go_err option \<times> 'w" where
  "loginToVault V vaultURL vaultRole w =
     (case vl_NewKubernetesAuth V vaultRole w of
        (Some err, w) \<Rightarrow> (Some (Errorf ''failed to create K8s auth credentials''), w)
      | (None, w) \<Rightarrow>
     (case vl_Login V vaultURL vaultRole w of
        (Inl err, w) \<Rightarrow> (Some (Errorf ''failed to login to Vault''), w)
      | (Inr False, w) \<Rightarrow> (Some (Errorf ''no auth info was returned after login to Vault''), w)
      | (Inr True, w) \<Rightarrow> (None, w)))"

text \<open>\<open>login\<close>; a service is its URL.\<close>

definition vault_login :: "'w vault_client \<Rightarrow> string \<Rightarrow> string \<Rightarrow> 'w \<Rightarrow> go_err option \<times> 'w" where
  "vault_login V vaultURL vaultRole w =
     (case getVaultClient V vaultURL of
        Some err \<Rightarrow> (Some err, w)
      | None \<Rightarrow> loginToVault V vaultURL vaultRole w)"

definition vault_env :: "(string \<rightharpoonup> string) \<Rightarrow> string \<Rightarrow> string \<Rightarrow> string" where
  "vault_env e key d = (case e key of None \<Rightarrow> d | Some v \<Rightarrow> if v = [] then d else v)"

definition newVaultService :: "'w vault_client \<Rightarrow> (string \<rightharpoonup> string) \<Rightarrow> 'w \<Rightarrow> (go_err + string) \<times> 'w" where
  "newVaultService V e w =
     (let vaultURL = vault_env e ''VAULT_URL'' DefaultVaultURL; vaultRole = vault_env e ''VAULT_PKI_ROLE'' DefaultVaultRole in
      case vault_login V vaultURL vaultRole w of
        (Some err, w) \<Rightarrow> (Inl err, w)
      | (None, w) \<Rightarrow> (Inr vaultURL, w))"

definition ReadSecret :: "'w vault_client \<Rightarrow> string \<Rightarrow> string \<Rightarrow> 'w \<Rightarrow> (go_err + secret_data) \<times> 'w" where
  "ReadSecret V svc secretName w =
     (case vl_Read V svc (vaultSecretBaseURL @ secretName) w of
        (Inl err, w) \<Rightarrow> (Inl (Errorf ''failed to read secret from Vault''), w)
      | (Inr None, w) \<Rightarrow> (Inl (Errorf (''secret '' @ secretName @ '' not found'')), w)
      | (Inr (Some data), w) \<Rightarrow> (Inr data, w))"

definition Logout :: "'w vault_client \<Rightarrow> string \<Rightarrow> 'w \<Rightarrow> 'w" where
  "Logout V svc w = snd (vl_RevokeSelf V svc w)"

section \<open>The credentials\<close>

definition ktcCredentialsSecretName :: string where
  "ktcCredentialsSecretName = ''ktc-m2m-client-secret''"

record credentials =
  secretClientID :: string
  secretClientSecret :: string

definition GetClientID :: "credentials \<Rightarrow> string" where "GetClientID c = secretClientID c"
definition GetClientSecret :: "credentials \<Rightarrow> string" where "GetClientSecret c = secretClientSecret c"

text \<open>The two fields of the data, one after the other: the first is stored before the second is looked
  at.  The message of a missing secret names the id.\<close>

definition take_field :: "string \<Rightarrow> secret_data \<Rightarrow> go_err + string" where
  "take_field key dataMap =
     (case map_of dataMap key of
        None \<Rightarrow> Inl (Errorf ''failed to get client_id from secrets service'')
      | Some (GString s) \<Rightarrow> Inr s
      | Some v \<Rightarrow> Inl (Errorf (''wrong format of '' @ key @ '' read from Vault, expected string, got '' @ type_name v)))"

definition store_credentials :: "secret_data \<Rightarrow> credentials \<Rightarrow> go_err option \<times> credentials" where
  "store_credentials data c =
     (case map_of data ''data'' of
        Some (GMap dataMap) \<Rightarrow>
          (case take_field ''client_id'' dataMap of
             Inl err \<Rightarrow> (Some err, c)
           | Inr i \<Rightarrow>
          (case take_field ''client_secret'' dataMap of
             Inl err \<Rightarrow> (Some err, c\<lparr>secretClientID := i\<rparr>)
           | Inr s \<Rightarrow> (None, c\<lparr>secretClientID := i, secretClientSecret := s\<rparr>)))
      | _ \<Rightarrow> (Some (Errorf ''cannot read credentials data from Vault secret''), c))"

definition secrets_Init :: "'w vault_client \<Rightarrow> (string \<rightharpoonup> string) \<Rightarrow> credentials \<Rightarrow> 'w \<Rightarrow> (go_err option \<times> credentials) \<times> 'w" where
  "secrets_Init V e c w =
     (case newVaultService V e w of
        (Inl err, w) \<Rightarrow> ((Some err, c), w)
      | (Inr svc, w) \<Rightarrow>
     (case ReadSecret V svc ktcCredentialsSecretName w of
        (Inl err, w) \<Rightarrow> ((Some err, c), Logout V svc w)
      | (Inr data, w) \<Rightarrow> (store_credentials data c, Logout V svc w)))"

section \<open>Sessions do not leak\<close>

text \<open>
  Whatever the secret holds, initialisation ends the session it opened: when \<open>sessions\<close> counts the
  sessions at Vault (a login with auth info opens one, a revocation that works closes one, nothing else
  changes them), there are as many after it as before.
\<close>

theorem secrets_Init_closes_its_session:
  assumes auth: "\<And>r w. sessions (snd (vl_NewKubernetesAuth V r w)) = sessions w"
    and login: "\<And>u r w. sessions (snd (vl_Login V u r w)) = (if fst (vl_Login V u r w) = Inr True then Suc (sessions w) else sessions w)"
    and read: "\<And>u p w. sessions (snd (vl_Read V u p w)) = sessions w"
    and revoke: "\<And>u w. sessions (snd (vl_RevokeSelf V u w)) = sessions w - 1"
  shows "sessions (snd (secrets_Init V e c w)) = sessions w"
proof -
  let ?svc = "newVaultService V e w"
  have read': "sessions (snd (ReadSecret V u n w)) = sessions w" for u n w
    using read [of u "vaultSecretBaseURL @ n" w] by (auto simp: ReadSecret_def split: prod.splits sum.splits option.splits)
  have login': "sessions (snd (loginToVault V u r w)) = (if fst (loginToVault V u r w) = None then Suc (sessions w) else sessions w)" for u r w
    using auth [of r w] login [of u r "snd (vl_NewKubernetesAuth V r w)"]
    by (auto simp: loginToVault_def split: prod.splits sum.splits option.splits bool.splits)
  have open_session: "sessions (snd ?svc) = (case fst ?svc of Inl _ \<Rightarrow> sessions w | Inr _ \<Rightarrow> Suc (sessions w))"
    using login' [of "vault_env e ''VAULT_URL'' DefaultVaultURL" "vault_env e ''VAULT_PKI_ROLE'' DefaultVaultRole" w]
    by (auto simp: newVaultService_def vault_login_def Let_def split: prod.splits option.splits)
  show ?thesis
  proof (cases "fst ?svc")
    case (Inl err)
    with open_session show ?thesis
      by (cases ?svc) (simp add: secrets_Init_def)
  next
    case (Inr svc)
    with open_session read' [of svc ktcCredentialsSecretName "snd ?svc"] show ?thesis
      by (cases ?svc; cases "ReadSecret V svc ktcCredentialsSecretName (snd ?svc)")
         (auto simp: secrets_Init_def Logout_def revoke split: sum.splits)
  qed
qed

definition demo_vault :: "nat vault_client" where
  "demo_vault = \<lparr>vl_NewClient = \<lambda>u. None, vl_NewKubernetesAuth = \<lambda>r w. (None, w), vl_Login = \<lambda>u r w. (Inr True, Suc w),
     vl_Read = \<lambda>u p w. (Inr (Some [(''data'', GMap [(''client_id'', GString ''ktc'')])]), w), vl_RevokeSelf = \<lambda>u w. (None, w - 1)\<rparr>"

theorem secrets_Init_closes_its_session_witness:
  "snd (secrets_Init demo_vault Map.empty \<lparr>secretClientID = [], secretClientSecret = []\<rparr> 3) = 3"
  using secrets_Init_closes_its_session [where sessions = "\<lambda>n. n" and V = demo_vault and e = Map.empty and w = 3]
  by (simp add: demo_vault_def)

text \<open>A secret without \<open>client_secret\<close> leaves the new id with the old secret.\<close>

lemma half_credentials:
  "store_credentials [(''data'', GMap [(''client_id'', GString ''new'')])] \<lparr>secretClientID = ''old'', secretClientSecret = ''s''\<rparr> =
     (Some (Errorf ''failed to get client_id from secrets service''), \<lparr>secretClientID = ''new'', secretClientSecret = ''s''\<rparr>)"
  by (simp add: store_credentials_def take_field_def)

end
