(* ===== verification/Cert_Server.thy ===== *)
theory Cert_Server
  imports Go_Net
begin

text \<open>
  The environment of the cert-synchronizer's server, cert-synchronizer/pkg/apiserver/server.go: what
  it reaches outside (files, clock, web, Kubernetes, AWS) as one parameter, its configuration from
  environment variables, its HTTP responses and the string helpers.

  \<open>'w sys\<close> has one field per call that leaves the program, on the state \<open>'w\<close> of the outside world;
  each call may fail.  The calls to Kubernetes are about TLS secrets: the namespace, the name, the
  certificate chain and the key; a secret that is read is its resource version, or \<open>None\<close> when there
  is none.  The two paginated AWS listings answer with all their pages at once, a list
  that may end in an error; a page after an error is never read.  Logging is not modelled.
\<close>

section \<open>The outside world\<close>

datatype stat = NotExist | StatFailed | ModTime instant

record CertificateDetail =
  cd_NotAfter :: instant
  cd_DomainName :: string
  cd_CertificateArn :: string

record HostedZone =
  hz_Id :: string
  hz_Name :: string
  hz_PrivateZone :: bool

record ResourceRecordSet =
  rr_Name :: string
  rr_Type :: string
  rr_TTL :: int
  rr_Values :: "string list"

datatype ChangeAction = ActionCreate | ActionUpsert | ActionDelete

text \<open>A configured AWS client: its region and, when set, its static credentials.\<close>

type_synonym aws_config = "string \<times> (string \<times> string) option"

record 'w sys =
  os_Stat :: "string \<Rightarrow> 'w \<Rightarrow> stat \<times> 'w"
  os_ReadFile :: "string \<Rightarrow> 'w \<Rightarrow> (go_err + string) \<times> 'w"
  time_Now :: "'w \<Rightarrow> instant \<times> 'w"
  time_Sleep :: "int \<Rightarrow> 'w \<Rightarrow> 'w"
  http_Get :: "string \<Rightarrow> 'w \<Rightarrow> (go_err + string) \<times> 'w"
  k8s_Apply :: "string \<Rightarrow> string \<Rightarrow> string \<Rightarrow> string \<Rightarrow> 'w \<Rightarrow> go_err option \<times> 'w"
  k8s_Get :: "string \<Rightarrow> string \<Rightarrow> 'w \<Rightarrow> (go_err + string option) \<times> 'w"
  k8s_Create :: "string \<Rightarrow> string \<Rightarrow> string \<Rightarrow> string \<Rightarrow> 'w \<Rightarrow> go_err option \<times> 'w"
  k8s_Update :: "string \<Rightarrow> string \<Rightarrow> string \<Rightarrow> string \<Rightarrow> string \<Rightarrow> 'w \<Rightarrow> go_err option \<times> 'w"
  aws_LoadConfig :: "string \<Rightarrow> 'w \<Rightarrow> go_err option \<times> 'w"
  acm_List :: "aws_config \<Rightarrow> 'w \<Rightarrow> (go_err + string list) list \<times> 'w"
  acm_Describe :: "aws_config \<Rightarrow> string \<Rightarrow> 'w \<Rightarrow> (go_err + CertificateDetail) \<times> 'w"
  acm_ListTags :: "aws_config \<Rightarrow> string \<Rightarrow> 'w \<Rightarrow> (go_err + (string \<times> string) list) \<times> 'w"
  acm_Import :: "aws_config \<Rightarrow> string option \<Rightarrow> string \<Rightarrow> string \<Rightarrow> string \<Rightarrow> 'w \<Rightarrow> (go_err + string) \<times> 'w"
  acm_AddTags :: "aws_config \<Rightarrow> string \<Rightarrow> (string \<times> string) list \<Rightarrow> 'w \<Rightarrow> go_err option \<times> 'w"
  acm_Delete :: "aws_config \<Rightarrow> string \<Rightarrow> 'w \<Rightarrow> go_err option \<times> 'w"
  r53_ListZones :: "aws_config \<Rightarrow> string \<Rightarrow> 'w \<Rightarrow> (go_err + HostedZone list) \<times> 'w"
  r53_CreateZone :: "aws_config \<Rightarrow> string \<Rightarrow> (string \<times> string) option \<Rightarrow> 'w \<Rightarrow> (go_err + string) \<times> 'w"
  r53_ListRecords :: "aws_config \<Rightarrow> string \<Rightarrow> string \<Rightarrow> string \<Rightarrow> 'w \<Rightarrow> (go_err + ResourceRecordSet list) \<times> 'w"
  r53_Change :: "aws_config \<Rightarrow> string \<Rightarrow> ChangeAction \<Rightarrow> ResourceRecordSet \<Rightarrow> 'w \<Rightarrow> go_err option \<times> 'w"

section \<open>Strings\<close>

definition to_upper_char :: "char \<Rightarrow> char" where
  "to_upper_char c = (let n = of_char c :: nat in if 97 \<le> n \<and> n \<le> 122 then char_of (n - 32) else c)"

definition ToUpper :: "string \<Rightarrow> string" where
  "ToUpper s = map to_upper_char s"

text \<open>\<open>strings.TrimLeft\<close> and \<open>strings.Trim\<close> with a cutset of one byte, \<open>strings.TrimSuffix\<close>.\<close>

definition TrimLeft :: "char \<Rightarrow> string \<Rightarrow> string" where
  "TrimLeft c s = dropWhile (\<lambda>x. x = c) s"

definition Trim :: "char \<Rightarrow> string \<Rightarrow> string" where
  "Trim c s = rev (TrimLeft c (rev (TrimLeft c s)))"

definition TrimSuffix :: "string \<Rightarrow> string \<Rightarrow> string" where
  "TrimSuffix s t = (if HasSuffix s t then take (length s - length t) s else s)"

definition escapeString :: "string \<Rightarrow> string" where
  "escapeString s = (if HasPrefix s [CHR 0x22] \<and> HasSuffix s [CHR 0x22] then s else [CHR 0x22] @ s @ [CHR 0x22])"

definition boolToString :: "bool \<Rightarrow> string" where
  "boolToString b = (if b then ''true'' else ''false'')"

text \<open>\<open>html.EscapeString\<close>.\<close>

definition html_escape_char :: "char \<Rightarrow> string" where
  "html_escape_char c =
     (if c = CHR ''<'' then ''&lt;'' else if c = CHR ''>'' then ''&gt;'' else if c = CHR ''&'' then ''&amp;''
      else if c = CHR 0x27 then ''&#39;'' else if c = CHR 0x22 then ''&#34;'' else [c])"

definition html_EscapeString :: "string \<Rightarrow> string" where
  "html_EscapeString s = concat (map html_escape_char s)"

text \<open>\<open>sanitizeString\<close>: every run of characters other than letters, digits and blanks becomes one blank.\<close>

definition plain_char :: "char \<Rightarrow> bool" where
  "plain_char c \<longleftrightarrow>
     (let n = of_char c :: nat in 97 \<le> n \<and> n \<le> 122 \<or> 65 \<le> n \<and> n \<le> 90 \<or> 48 \<le> n \<and> n \<le> 57 \<or> n = 32)"

fun sanitize :: "bool \<Rightarrow> string \<Rightarrow> string" where
  "sanitize inRun [] = []"
| "sanitize inRun (c # cs) =
     (if plain_char c then c # sanitize False cs
      else if inRun then sanitize True cs
      else CHR '' '' # sanitize True cs)"

definition sanitizeString :: "string \<Rightarrow> string" where
  "sanitizeString s = sanitize False s"

section \<open>Responses\<close>

text \<open>A \<open>http.ResponseWriter\<close>: the content type set so far, the status with the content type as
  sent, and the body.  Informational statuses are not final, a second final status is ignored.\<close>

record response_writer =
  wr_type :: string
  wr_sent :: "(int \<times> string) option"
  wr_body :: string

definition no_response :: response_writer where
  "no_response = \<lparr>wr_type = [], wr_sent = None, wr_body = []\<rparr>"

definition WriteHeader :: "int \<Rightarrow> response_writer \<Rightarrow> response_writer" where
  "WriteHeader code r =
     (if 100 \<le> code \<and> code < 200 then r
      else case wr_sent r of None \<Rightarrow> r\<lparr>wr_sent := Some (code, wr_type r)\<rparr> | Some _ \<Rightarrow> r)"

definition Write :: "string \<Rightarrow> response_writer \<Rightarrow> response_writer" where
  "Write b r = (let r = WriteHeader 200 r in r\<lparr>wr_body := wr_body r @ b\<rparr>)"

definition PLAIN_CONTENT :: string where "PLAIN_CONTENT = ''text/plain; charset=utf-8''"
definition JSON_CONTENT :: string where "JSON_CONTENT = ''application/json''"
definition HTML_CONTENT :: string where "HTML_CONTENT = ''text/html''"

text \<open>\<open>http.Error\<close>.\<close>

definition http_Error :: "string \<Rightarrow> int \<Rightarrow> response_writer \<Rightarrow> response_writer" where
  "http_Error msg code r = Write (msg @ [CHR 0x0A]) (WriteHeader code (r\<lparr>wr_type := PLAIN_CONTENT\<rparr>))"

record httpResponse =
  status :: int
  acceptedContent :: string
  errWebpagePath :: string
  errWebpageCmt :: string
  errorUuid :: string
  message :: string

definition reply :: "int \<Rightarrow> string \<Rightarrow> string \<Rightarrow> httpResponse" where
  "reply st acc msg = \<lparr>status = st, acceptedContent = acc, errWebpagePath = [], errWebpageCmt = [], errorUuid = [], message = msg\<rparr>"

text \<open>\<open>bytes.Replace\<close> with one replacement.\<close>

fun replace_first :: "string \<Rightarrow> string \<Rightarrow> string \<Rightarrow> string" where
  "replace_first old new [] = (if old = [] then new else [])"
| "replace_first old new (c # cs) =
     (if prefix old (c # cs) then new @ drop (length old) (c # cs) else c # replace_first old new cs)"

text \<open>\<open>marshal\<close> is \<open>json.Marshal\<close> of a \<open>JsonResponse\<close> with the message.\<close>

definition write_response ::
  "'w sys \<Rightarrow> (string \<Rightarrow> go_err + string) \<Rightarrow> httpResponse \<Rightarrow> response_writer \<Rightarrow> 'w \<Rightarrow> response_writer \<times> 'w" where
  "write_response Y marshal r out w =
     (let plain = (html_EscapeString (message r), PLAIN_CONTENT);
          acc = Trim (CHR 0x22) (TrimSpace (acceptedContent r));
          ((body, contentType), w) =
            (if acc = ToLower JSON_CONTENT then
               (let msg = (if errorUuid r \<noteq> [] then message r @ '' ID:'' @ errorUuid r else message r) in
                case marshal msg of
                  Inl err \<Rightarrow> ((html_EscapeString msg, PLAIN_CONTENT), w)
                | Inr b \<Rightarrow> ((b, ToLower JSON_CONTENT), w))
             else if errWebpagePath r \<noteq> [] then
               (case os_ReadFile Y (errWebpagePath r) w of
                  (Inl err, w) \<Rightarrow> (plain, w)
                | (Inr b, w) \<Rightarrow>
                    (let b = (if errorUuid r \<noteq> [] then replace_first ''UUIDSTR'' (errorUuid r) b else b);
                         b = (if errWebpageCmt r \<noteq> []
                              then b @ ''<!--'' @ [CHR 0x0A] @ sanitizeString (errWebpageCmt r) @ [CHR 0x0A] @ ''-->''
                              else b)
                     in ((b, HTML_CONTENT), w)))
             else (plain, w))
      in (Write body (WriteHeader (status r) (out\<lparr>wr_type := contentType\<rparr>)), w))"

section \<open>Configuration\<close>

record envVars =
  debugMode :: bool
  version :: string
  namespace :: string
  autoCertName :: string
  tlsCrtPath :: string
  tlsKeyPath :: string
  caCrtPath :: string
  awsAccessKey :: string
  awsSecretKey :: string
  region :: string
  vpc :: string
  domain :: string
  acmCertificateName :: string
  certificateNameSpace :: string
  inter1Cert :: string
  inter2Cert :: string
  rootCert :: string
  disableCertMatchChecks :: bool
  importIntoACMIfNotExists :: bool
  createK8sCertSecret :: bool
  podFileUpdateSleepTimeout :: int
  k8sCertSecretName :: string
  inter1CertUrl :: string
  inter2CertUrl :: string
  rootCertUrl :: string

text \<open>The certificates that are compiled in, in base64.\<close>

record builtin_pems =
  DEFAULT_INTER1_PEM :: string
  DEFAULT_INTER2_PEM :: string
  DEFAULT_ROOT_PEM :: string

definition DEFAULT_SLEEP_TIMEOUT :: int where "DEFAULT_SLEEP_TIMEOUT = 1000 * 120"

definition env_or :: "(string \<rightharpoonup> string) \<Rightarrow> string \<Rightarrow> string \<Rightarrow> string" where
  "env_or e key d = (case e key of None \<Rightarrow> d | Some v \<Rightarrow> if v = [] then d else v)"

text \<open>\<open>httpGetCertPEM\<close> looks at the body only, not at the status of the response.\<close>

definition httpGetCertPEM :: "'w sys \<Rightarrow> string \<Rightarrow> 'w \<Rightarrow> (go_err + string) \<times> 'w" where
  "httpGetCertPEM Y url w = http_Get Y url w"

text \<open>One certificate of \<open>getEnvVars\<close>: the downloaded one, or a built-in one.  When the built-in one
  cannot be decoded the variable holds what \<open>DecodeString\<close> returned with its error, which is
  taken to be empty.\<close>

definition builtin_cert :: "string \<Rightarrow> string" where
  "builtin_cert b = (case DecodeString b of Inl _ \<Rightarrow> [] | Inr s \<Rightarrow> CHR 0x0A # s)"

definition get_cert :: "'w sys \<Rightarrow> string \<Rightarrow> string \<Rightarrow> string \<Rightarrow> 'w \<Rightarrow> string \<times> 'w" where
  "get_cert Y url onError onEmpty w =
     (case httpGetCertPEM Y url w of
        (Inl err, w) \<Rightarrow> (builtin_cert onError, w)
      | (Inr pem, w) \<Rightarrow> (if length pem > 0 then CHR 0x0A # pem else builtin_cert onEmpty, w))"

definition yes :: "string list \<Rightarrow> string \<Rightarrow> bool" where
  "yes words s \<longleftrightarrow> ToLower s \<in> set words"

text \<open>\<open>getEnvVars\<close>; \<open>e\<close> is the process environment.  The version is set later, by \<open>Init\<close>.\<close>

definition getEnvVars ::
  "'w sys \<Rightarrow> builtin_pems \<Rightarrow> (string \<rightharpoonup> string) \<Rightarrow> 'w \<Rightarrow> envVars \<times> 'w" where
  "getEnvVars Y B e w =
     (let debug = yes [''y'', ''yes'', ''t'', ''true''] (env_or e ''DEBUG'' []);
          url1 = env_or e ''INTERMEDIATE1_CERT_URL'' ''https://letsencrypt.org/certs/2024/r10.pem'';
          url2 = env_or e ''INTERMEDIATE2_CERT_URL'' ''https://letsencrypt.org/certs/2024/r11.pem'';
          url3 = env_or e ''ROOT_CERT_URL'' ''https://letsencrypt.org/certs/isrgrootx1.pem'';
          sleepStr = env_or e ''POD_FILE_UPDATE_TIMEOUT_SECS'' []
      in case get_cert Y url1 (DEFAULT_INTER1_PEM B) (DEFAULT_INTER1_PEM B) w of
           (inter1, w) \<Rightarrow>
         (case get_cert Y url2 (DEFAULT_INTER2_PEM B) (DEFAULT_INTER1_PEM B) w of
           (inter2, w) \<Rightarrow>
         (case get_cert Y url3 (DEFAULT_ROOT_PEM B) (DEFAULT_ROOT_PEM B) w of
           (root, w) \<Rightarrow>
         (\<lparr>debugMode = debug,
            version = [],
            namespace = env_or e ''SECRET_NAMESPACE'' ''orch-gateway'',
            autoCertName = env_or e ''AUTOCERT_CERTSECRET_NAME'' ''kubernetes-docker-internal'',
            tlsCrtPath = env_or e ''CERTIFICATE_FILE'' (if debug then ''./certs/tls.crt'' else ''/etc/ssl/cert/cert-man/tls.crt''),
            tlsKeyPath = env_or e ''PRIVATE_KEY_FILE'' (if debug then ''./certs/tls.key'' else ''/etc/ssl/cert/cert-man/tls.key''),
            caCrtPath = env_or e ''CA_CERTIFICATE_FILE'' (if debug then ''./certs/ca.crt'' else ''/etc/ssl/cert/cert-man/ca.crt''),
            awsAccessKey = env_or e ''AWS_ACCESS_KEY_ID'' [],
            awsSecretKey = env_or e ''AWS_SECRET_ACCESS_KEY'' [],
            region = env_or e ''AWS_REGION'' ''us-west-2'',
            vpc = env_or e ''AWS_VPC'' [],
            domain = (let d = ToLower (env_or e ''AWS_R53_DOMAIN'' []) in if d = [] then ''espdqa.infra-host.com'' else d),
            acmCertificateName = env_or e ''CSP_CERTIFICATE_NAME_TAG'' ''ACM_Certificate_Importer'',
            certificateNameSpace = env_or e ''K8S_CERTIFICATE_NAMESPACE'' ''orch-gateway'',
            inter1Cert = inter1,
            inter2Cert = inter2,
            rootCert = root,
            disableCertMatchChecks = yes [''1'', ''true'', ''t'', ''y'', ''yes''] (env_or e ''DISABLE_CERT_MATCH_CHECKS'' []),
            importIntoACMIfNotExists = (\<not> yes [''0'', ''false'', ''f'', ''n'', ''no''] (env_or e ''ACM_IMPORT_IF_NOT_EXISTS'' [])),
            createK8sCertSecret = yes [''y'', ''yes'', ''t'', ''true'', ''1''] (env_or e ''CREATE_K8S_CERT_SECRET'' []),
            podFileUpdateSleepTimeout =
              (if sleepStr = [] then DEFAULT_SLEEP_TIMEOUT
               else case ParseInt sleepStr of None \<Rightarrow> DEFAULT_SLEEP_TIMEOUT | Some n \<Rightarrow> sint (word_of_int (n * 1000) :: 64 word)),
            k8sCertSecretName = env_or e ''K8S_CERT_SECRET_NAME'' ''tls-orch'',
            inter1CertUrl = url1,
            inter2CertUrl = url2,
            rootCertUrl = url3\<rparr>, w))))"

section \<open>The AWS client\<close>

text \<open>\<open>config.LoadDefaultConfig\<close> and the static credentials.\<close>

definition aws_client :: "'w sys \<Rightarrow> envVars \<Rightarrow> 'w \<Rightarrow> (go_err + aws_config) \<times> 'w" where
  "aws_client Y v w =
     (case aws_LoadConfig Y (region v) w of
        (Some err, w) \<Rightarrow> (Inl err, w)
      | (None, w) \<Rightarrow>
          (Inr (region v, if awsAccessKey v \<noteq> [] \<and> awsSecretKey v \<noteq> [] then Some (awsAccessKey v, awsSecretKey v) else None), w))"

section \<open>Properties of the helpers\<close>

lemma escapeString_idem: "escapeString (escapeString s) = escapeString s"
  by (simp add: escapeString_def HasPrefix_def HasSuffix_def suffix_def)

text \<open>What reaches a browser as plain text has no markup.\<close>

lemma html_escape_safe: "CHR ''<'' \<notin> set (html_EscapeString s)" "CHR ''>'' \<notin> set (html_EscapeString s)"
  by (auto simp: html_EscapeString_def html_escape_char_def split: if_splits)

lemma sanitize_plain: "c \<in> set (sanitize b s) \<Longrightarrow> plain_char c"
  by (induction b s rule: sanitize.induct) (auto split: if_splits simp: plain_char_def)

text \<open>Only the first final status counts.\<close>

lemma WriteHeader_sent: "wr_sent r \<noteq> None \<Longrightarrow> wr_sent (WriteHeader code r) = wr_sent r"
  by (auto simp: WriteHeader_def)

lemma Write_sent: "wr_sent r \<noteq> None \<Longrightarrow> wr_sent (Write b r) = wr_sent r"
  by (simp add: Write_def Let_def WriteHeader_sent)

lemma write_response_status:
  "wr_sent out = None \<Longrightarrow> \<not> (100 \<le> status r \<and> status r < 200) \<Longrightarrow>
     map_option fst (wr_sent (fst (write_response Y marshal r out w))) = Some (status r)"
  by (auto simp: write_response_def Let_def Write_def WriteHeader_def split: prod.splits)

lemma write_response_sent:
  "wr_sent out \<noteq> None \<Longrightarrow> wr_sent (fst (write_response Y marshal r out w)) = wr_sent out"
  by (auto simp: write_response_def Let_def Write_def WriteHeader_def split: prod.splits)

end
