(* ===== verification/Cert_Files.thy ===== *)
theory Cert_Files
  imports Cert_Server
begin

text \<open>
  The certificate files of the pod, cert-synchronizer/pkg/apiserver/server.go: whether they exist,
  whether they have been renewed since they were last looked at, the wait for a renewal and the
  reading of the chain.

  A result \<open>None\<close> is a panic: \<open>os.Stat\<close> fails with an error other than "not exist", which
  \<open>doesFileExist\<close> takes for an existing file, and the nil \<open>FileInfo\<close> is dereferenced.  The server
  of net/http survives it, with the times that were stored before.
\<close>

section \<open>Modification times\<close>

record fileTimes =
  tlsCrtModTime :: instant
  tlsKeyModTime :: instant
  caCrtModTime :: instant

definition doesFileExist :: "'w sys \<Rightarrow> string \<Rightarrow> 'w \<Rightarrow> bool \<times> 'w" where
  "doesFileExist Y path w = (case os_Stat Y path w of (st, w) \<Rightarrow> (st \<noteq> NotExist, w))"

text \<open>The block that is repeated for each file: \<open>Some None\<close> when there is no file, else its time.\<close>

definition file_time :: "'w sys \<Rightarrow> string \<Rightarrow> 'w \<Rightarrow> instant option option \<times> 'w" where
  "file_time Y path w =
     (case doesFileExist Y path w of
        (False, w) \<Rightarrow> (Some None, w)
      | (True, w) \<Rightarrow> (case os_Stat Y path w of (ModTime t, w) \<Rightarrow> (Some (Some t), w) | (_, w) \<Rightarrow> (None, w)))"

text \<open>\<open>checkCertFiles\<close>: each block answers whether the file exists and the time to remember.\<close>

definition check_file :: "'w sys \<Rightarrow> string \<Rightarrow> bool \<Rightarrow> instant \<Rightarrow> 'w \<Rightarrow> (bool \<times> instant) option \<times> 'w" where
  "check_file Y path getModTime t w =
     (if path = [] then (Some (False, t), w)
      else if getModTime then
        (case file_time Y path w of
           (None, w) \<Rightarrow> (None, w)
         | (Some None, w) \<Rightarrow> (Some (False, t), w)
         | (Some (Some t'), w) \<Rightarrow> (Some (True, t'), w))
      else (case doesFileExist Y path w of (b, w) \<Rightarrow> (Some (b, t), w)))"

definition checkCertFiles ::
  "'w sys \<Rightarrow> envVars \<Rightarrow> bool \<Rightarrow> bool \<Rightarrow> fileTimes \<Rightarrow> 'w \<Rightarrow> (bool option \<times> fileTimes) \<times> 'w" where
  "checkCertFiles Y v checkCA getModTime ft w =
     (case check_file Y (tlsCrtPath v) getModTime (tlsCrtModTime ft) w of
        (None, w) \<Rightarrow> ((None, ft), w)
      | (Some (crt, t1), w) \<Rightarrow>
     (case check_file Y (tlsKeyPath v) getModTime (tlsKeyModTime ft) w of
        (None, w) \<Rightarrow> ((None, ft\<lparr>tlsCrtModTime := t1\<rparr>), w)
      | (Some (key, t2), w) \<Rightarrow>
     (case (if checkCA then check_file Y (caCrtPath v) getModTime (caCrtModTime ft) w
            else if getModTime then (case time_Now Y w of (t, w) \<Rightarrow> (Some (True, t), w))
            else (Some (True, caCrtModTime ft), w)) of
        (None, w) \<Rightarrow> ((None, ft\<lparr>tlsCrtModTime := t1, tlsKeyModTime := t2\<rparr>), w)
      | (Some (ca, t3), w) \<Rightarrow>
          ((Some (crt \<and> key \<and> ca), \<lparr>tlsCrtModTime = t1, tlsKeyModTime = t2, caCrtModTime = t3\<rparr>), w))))"

text \<open>\<open>haveCertFilesUpdated\<close>: a block answers whether the file is newer than remembered, and then
  remembers its time.  A missing CA file counts as updated (\<open>missing\<close>).\<close>

definition file_updated :: "'w sys \<Rightarrow> string \<Rightarrow> bool \<Rightarrow> instant \<Rightarrow> 'w \<Rightarrow> (bool \<times> instant) option \<times> 'w" where
  "file_updated Y path missing t w =
     (if path = [] then (Some (False, t), w)
      else case file_time Y path w of
             (None, w) \<Rightarrow> (None, w)
           | (Some None, w) \<Rightarrow> (Some (missing, t), w)
           | (Some (Some t'), w) \<Rightarrow> (Some (t < t', if t < t' then t' else t), w))"

definition haveCertFilesUpdated ::
  "'w sys \<Rightarrow> envVars \<Rightarrow> bool \<Rightarrow> fileTimes \<Rightarrow> 'w \<Rightarrow> (bool option \<times> fileTimes) \<times> 'w" where
  "haveCertFilesUpdated Y v checkCA ft w =
     (case file_updated Y (tlsCrtPath v) False (tlsCrtModTime ft) w of
        (None, w) \<Rightarrow> ((None, ft), w)
      | (Some (crt, t1), w) \<Rightarrow>
     (case file_updated Y (tlsKeyPath v) False (tlsKeyModTime ft) w of
        (None, w) \<Rightarrow> ((None, ft\<lparr>tlsCrtModTime := t1\<rparr>), w)
      | (Some (key, t2), w) \<Rightarrow>
     (case (if checkCA then file_updated Y (caCrtPath v) True (caCrtModTime ft) w
            else (case time_Now Y w of (t, w) \<Rightarrow> (Some (True, t), w))) of
        (None, w) \<Rightarrow> ((None, ft\<lparr>tlsCrtModTime := t1, tlsKeyModTime := t2\<rparr>), w)
      | (Some (ca, t3), w) \<Rightarrow>
          ((Some (crt \<and> key \<and> ca), \<lparr>tlsCrtModTime = t1, tlsKeyModTime = t2, caCrtModTime = t3\<rparr>), w))))"

section \<open>The wait for a renewal\<close>

text \<open>The loop of \<open>UpdateCert\<close> and \<open>UpdateCertWithoutChecks\<close>, in milliseconds: it looks, and unless the
  files were updated or the timeout was exceeded it sleeps and sends an informational status, which
  leaves the response as it is.  It ends because \<open>sleepTime\<close> grows up to the timeout.\<close>

definition sleepInterval :: int where "sleepInterval = 200"

function wait_for_files ::
  "'w sys \<Rightarrow> envVars \<Rightarrow> int \<Rightarrow> bool \<Rightarrow> fileTimes \<Rightarrow> 'w \<Rightarrow> (unit option \<times> fileTimes) \<times> 'w" where
  "wait_for_files Y v sleepTime timeOutExceeded ft w =
     (case haveCertFilesUpdated Y v True ft w of
        ((None, ft), w) \<Rightarrow> ((None, ft), w)
      | ((Some updated, ft), w) \<Rightarrow>
          if updated \<or> timeOutExceeded then ((Some (), ft), w)
          else (let w = time_Sleep Y sleepInterval w; sleepTime = sleepTime + sleepInterval in
                wait_for_files Y v sleepTime (sleepTime > podFileUpdateSleepTimeout v) ft w))"
  by pat_completeness auto
termination
  by (relation "measure (\<lambda>(Y, v, sleepTime, timeOutExceeded, ft, w).
        if timeOutExceeded then 0 else Suc (nat (podFileUpdateSleepTimeout v + 1 - sleepTime)))")
     (auto simp: sleepInterval_def)

declare wait_for_files.simps [simp del]

section \<open>The chain\<close>

record certChain =
  tlsCrt :: string
  tlsKey :: string
  caCrt :: string
  tlsCrtChain :: string
  caCrtChain :: string

definition END_CERTIFICATE :: string where
  "END_CERTIFICATE = ''-----END CERTIFICATE-----''"

text \<open>\<open>bytes.SplitAfter\<close> with a separator that is not empty; \<open>part\<close> is the current part.\<close>

function split_after :: "string \<Rightarrow> string \<Rightarrow> string \<Rightarrow> string list" where
  "split_after sep part [] = [part]"
| "split_after sep part (c # cs) =
     (if sep \<noteq> [] \<and> prefix sep (c # cs)
      then (part @ sep) # split_after sep [] (drop (length sep) (c # cs))
      else split_after sep (part @ [c]) cs)"
  by pat_completeness auto
termination
  by (relation "measure (\<lambda>(sep, part, s). length s)") (auto simp: length_greater_0_conv)

definition SplitAfter :: "string \<Rightarrow> string \<Rightarrow> string list" where
  "SplitAfter s sep = split_after sep [] s"

text \<open>A file that cannot be read is empty; the errors of the certificate and of the key are only
  logged.\<close>

definition read_or_empty :: "'w sys \<Rightarrow> string \<Rightarrow> 'w \<Rightarrow> string \<times> 'w" where
  "read_or_empty Y path w = (case os_ReadFile Y path w of (Inl err, w) \<Rightarrow> ([], w) | (Inr s, w) \<Rightarrow> (s, w))"

definition readCertFiles :: "'w sys \<Rightarrow> envVars \<Rightarrow> 'w \<Rightarrow> (go_err + certChain) \<times> 'w" where
  "readCertFiles Y v w =
     (case read_or_empty Y (tlsCrtPath v) w of
        (crt, w) \<Rightarrow>
     (case read_or_empty Y (tlsKeyPath v) w of
        (key, w) \<Rightarrow>
     (case read_or_empty Y (caCrtPath v) w of
        (ca, w) \<Rightarrow>
          (let certParts = SplitAfter crt END_CERTIFICATE;
               chain = (\<lambda>crt ca. \<lparr>tlsCrt = crt, tlsKey = key, caCrt = ca,
                 tlsCrtChain = crt @ ca @ rootCert v, caCrtChain = ca @ rootCert v\<rparr>)
           in if ca = [] then
                (if length certParts > 2 then (Inr (chain (certParts ! 0) (certParts ! 1)), w)
                 else (Inl (Errorf ''tlsCrt file does not contain certificate chain to populate caCrt''), w))
              else (Inr (chain crt ca), w)))))"

end
