(* ===== verification/Cert_Acm.thy ===== *)
theory Cert_Acm
  imports Cert_Files
begin

text \<open>
  The certificates in AWS ACM, cert-synchronizer/pkg/apiserver/server.go: the search by name, the
  import, and the handlers that update and delete the certificate, with or without a check of the
  event that was posted, the update on start and the health check.

  The decoder of events and the encoder of responses are parameters (\<open>cert_codec\<close>).  The state of the
  server is the outside world and the file times; a handler also gets the response written so far.
\<close>

section \<open>Search\<close>

text \<open>The certificates of one page: those that cannot be described or listed are skipped.\<close>

fun find_in_page :: "'w sys \<Rightarrow> aws_config \<Rightarrow> string \<Rightarrow> string list \<Rightarrow> 'w \<Rightarrow> string option \<times> 'w" where
  "find_in_page Y svc name [] w = (None, w)"
| "find_in_page Y svc name (arn # arns) w =
     (case acm_Describe Y svc arn w of
        (Inl err, w) \<Rightarrow> find_in_page Y svc name arns w
      | (Inr _, w) \<Rightarrow>
     (case acm_ListTags Y svc arn w of
        (Inl err, w) \<Rightarrow> find_in_page Y svc name arns w
      | (Inr tags, w) \<Rightarrow>
          if (''Name'', name) \<in> set tags then (Some arn, w) else find_in_page Y svc name arns w))"

fun find_in_pages ::
  "'w sys \<Rightarrow> aws_config \<Rightarrow> string \<Rightarrow> (go_err + string list) list \<Rightarrow> 'w \<Rightarrow> (go_err + string) \<times> 'w" where
  "find_in_pages Y svc name [] w = (Inr [], w)"
| "find_in_pages Y svc name (Inl err # pages) w = (Inl err, w)"
| "find_in_pages Y svc name (Inr arns # pages) w =
     (case find_in_page Y svc name arns w of
        (Some arn, w) \<Rightarrow> (Inr arn, w)
      | (None, w) \<Rightarrow> find_in_pages Y svc name pages w)"

definition findCertificateByName :: "'w sys \<Rightarrow> aws_config \<Rightarrow> string \<Rightarrow> 'w \<Rightarrow> (go_err + string) \<times> 'w" where
  "findCertificateByName Y svc name w = (case acm_List Y svc w of (pages, w) \<Rightarrow> find_in_pages Y svc name pages w)"

definition findCertificateByArn :: "'w sys \<Rightarrow> aws_config \<Rightarrow> string \<Rightarrow> 'w \<Rightarrow> (go_err + CertificateDetail) \<times> 'w" where
  "findCertificateByArn Y svc arn w = acm_Describe Y svc arn w"

definition deleteCertificateByName :: "'w sys \<Rightarrow> aws_config \<Rightarrow> string \<Rightarrow> 'w \<Rightarrow> go_err option \<times> 'w" where
  "deleteCertificateByName Y svc name w =
     (case findCertificateByName Y svc name w of
        (Inl err, w) \<Rightarrow> (Some err, w)
      | (Inr arn, w) \<Rightarrow> if arn = [] then (None, w) else acm_Delete Y svc arn w)"

section \<open>Expiry\<close>

text \<open>\<open>int(d.Hours() / 24)\<close> truncates towards zero.  What is found is only logged.\<close>

definition expiryDays :: "instant \<Rightarrow> instant \<Rightarrow> int" where
  "expiryDays notAfter t = (let d = notAfter - t; day = 86400 * 10 ^ 9 in if d < 0 then - (- d div day) else d div day)"

fun check_page :: "'w sys \<Rightarrow> aws_config \<Rightarrow> int \<Rightarrow> string list \<Rightarrow> 'w \<Rightarrow> go_err option \<times> 'w" where
  "check_page Y svc threshold [] w = (None, w)"
| "check_page Y svc threshold (arn # arns) w =
     (case acm_Describe Y svc arn w of
        (Inl err, w) \<Rightarrow> (Some err, w)
      | (Inr d, w) \<Rightarrow>
     (case time_Now Y w of
        (t, w) \<Rightarrow>
          let w = (if expiryDays (cd_NotAfter d) t < threshold then snd (time_Now Y w) else w)
          in check_page Y svc threshold arns w))"

fun check_pages :: "'w sys \<Rightarrow> aws_config \<Rightarrow> int \<Rightarrow> (go_err + string list) list \<Rightarrow> 'w \<Rightarrow> go_err option \<times> 'w" where
  "check_pages Y svc threshold [] w = (None, w)"
| "check_pages Y svc threshold (Inl err # pages) w = (Some err, w)"
| "check_pages Y svc threshold (Inr arns # pages) w =
     (case check_page Y svc threshold arns w of
        (Some err, w) \<Rightarrow> (Some err, w)
      | (None, w) \<Rightarrow> check_pages Y svc threshold pages w)"

definition checkExpiringCertificates :: "'w sys \<Rightarrow> aws_config \<Rightarrow> int \<Rightarrow> 'w \<Rightarrow> go_err option \<times> 'w" where
  "checkExpiringCertificates Y svc threshold w =
     (case acm_List Y svc w of (pages, w) \<Rightarrow> check_pages Y svc threshold pages w)"

section \<open>Import\<close>

definition IMPORT_COMMENT :: string where
  "IMPORT_COMMENT = ''Imported by Intel Open Edge Platform CertSynchronizer''"

text \<open>The certificate of the chain goes into the ACM certificate with the configured name, or into a
  new one that is tagged.  This block is repeated in the three updates; \<open>create\<close> says whether a new
  certificate may be made, \<open>tags\<close> are its tags besides the name.  The result is the status and the
  message of the response.\<close>

definition import_chain ::
  "'w sys \<Rightarrow> aws_config \<Rightarrow> envVars \<Rightarrow> bool \<Rightarrow> (string \<times> string) list \<Rightarrow> certChain \<Rightarrow> 'w \<Rightarrow> (int \<times> string) \<times> 'w" where
  "import_chain Y svc v create tags certs w =
     (case findCertificateByName Y svc (acmCertificateName v) w of
        (Inl err, w) \<Rightarrow> ((500, ''Failed to find certificate by name  '' @ acmCertificateName v), w)
      | (Inr certArn, w) \<Rightarrow>
          if certArn \<noteq> [] then
            (case acm_Import Y svc (Some certArn) (tlsCrt certs) (tlsKey certs) (caCrtChain certs) w of
               (Inl err, w) \<Rightarrow> ((500, ''Failed to import certificate''), w)
             | (Inr _, w) \<Rightarrow> ((200, ''Successfully updated existing certificate in ACM, cert ARN = '' @ certArn), w))
          else if create then
            (case acm_Import Y svc None (tlsCrt certs) (tlsKey certs) (caCrtChain certs) w of
               (Inl err, w) \<Rightarrow> ((500, ''Failed to import certificate''), w)
             | (Inr arn, w) \<Rightarrow>
            (case acm_AddTags Y svc arn ((''Name'', acmCertificateName v) # tags) w of
               (Some err, w) \<Rightarrow> ((500, ''Failed to add tags to certificate''), w)
             | (None, w) \<Rightarrow> ((200, ''Successfully imported certificate into ACM, cert ARN = '' @ arn), w)))
          else ((200, ''Skipped import of certificate due to ACM_IMPORT_IF_NOT_EXISTS set to : '' @
                   boolToString (importIntoACMIfNotExists v)), w))"

definition version_tags :: "envVars \<Rightarrow> (string \<times> string) list" where
  "version_tags v = [(''Comment'', IMPORT_COMMENT), (''Version'', version v)]"

text \<open>\<open>createK8sCertificateSecret\<close>: its error is ignored by both callers.\<close>

definition createK8sCertificateSecret :: "'w sys \<Rightarrow> envVars \<Rightarrow> certChain \<Rightarrow> 'w \<Rightarrow> go_err option \<times> 'w" where
  "createK8sCertificateSecret Y v cert w =
     k8s_Apply Y (namespace v) (k8sCertSecretName v) (tlsCrtChain cert) (tlsKey cert) w"

text \<open>\<open>createOrUpdateK8sCertificateSecret\<close>, the alternative the program does not call.\<close>

definition createOrUpdateK8sCertificateSecret :: "'w sys \<Rightarrow> envVars \<Rightarrow> certChain \<Rightarrow> 'w \<Rightarrow> go_err option \<times> 'w" where
  "createOrUpdateK8sCertificateSecret Y v cert w =
     (case k8s_Get Y (namespace v) (k8sCertSecretName v) w of
        (Inl err, w) \<Rightarrow> (Some (Errorf (''failed to get secret '' @ k8sCertSecretName v @ '' : '' @ err_text err)), w)
      | (Inr None, w) \<Rightarrow>
          (case k8s_Create Y (namespace v) (k8sCertSecretName v) (tlsCrtChain cert) (tlsKey cert) w of
             (Some err, w) \<Rightarrow> (Some (Errorf (''failed to create secret '' @ k8sCertSecretName v @ '' : '' @ err_text err)), w)
           | (None, w) \<Rightarrow> (None, w))
      | (Inr (Some resourceVersion), w) \<Rightarrow>
          (case k8s_Update Y (namespace v) (k8sCertSecretName v) resourceVersion (tlsCrtChain cert) (tlsKey cert) w of
             (Some err, w) \<Rightarrow> (Some (Errorf (''failed to update secret '' @ k8sCertSecretName v @ '' : '' @ err_text err)), w)
           | (None, w) \<Rightarrow> (None, w)))"

definition maybe_secret :: "'w sys \<Rightarrow> envVars \<Rightarrow> certChain \<Rightarrow> 'w \<Rightarrow> 'w" where
  "maybe_secret Y v cert w = (if createK8sCertSecret v then snd (createK8sCertificateSecret Y v cert w) else w)"

definition doInititalCertUpdate :: "'w sys \<Rightarrow> envVars \<Rightarrow> 'w \<Rightarrow> 'w" where
  "doInititalCertUpdate Y v w =
     (case readCertFiles Y v w of
        (Inl err, w) \<Rightarrow> w
      | (Inr certs, w) \<Rightarrow>
     (case aws_client Y v (maybe_secret Y v certs w) of
        (Inl err, w) \<Rightarrow> w
      | (Inr svc, w) \<Rightarrow> snd (import_chain Y svc v True [(''Comment'', ''Imported by Golang SDK'')] certs w)))"

section \<open>Handlers\<close>

record CertEvent =
  ce_Namespace :: string
  ce_Name :: string
  ce_Type :: string

record http_call =
  hc_method :: string
  hc_accept :: string
  hc_body :: "go_err + string"

text \<open>\<open>json.Marshal\<close> of a response; \<open>json.Unmarshal\<close> of one event, and what it leaves in a list of
  events, whether or not it reports an error.\<close>

record cert_codec =
  c_marshal :: "string \<Rightarrow> go_err + string"
  c_event :: "string \<Rightarrow> CertEvent option"
  c_events :: "string \<Rightarrow> CertEvent list"

text \<open>A handler ends with the state and the response, or in a panic (\<open>None\<close>).\<close>

record 'w cert_server =
  cs_world :: 'w
  cs_times :: fileTimes

type_synonym 'w outcome = "response_writer option \<times> 'w cert_server"

definition respond :: "'w sys \<Rightarrow> cert_codec \<Rightarrow> int \<times> string \<Rightarrow> string \<Rightarrow> response_writer \<Rightarrow> 'w cert_server \<Rightarrow> 'w outcome" where
  "respond Y J m acc out s =
     (case write_response Y (c_marshal J) (reply (fst m) acc (snd m)) out (cs_world s) of
        (out, w) \<Rightarrow> (Some out, s\<lparr>cs_world := w\<rparr>))"

definition MSG_405_METHOD :: string where "MSG_405_METHOD = ''405 - Method not allowed.''"

definition decode_events :: "cert_codec \<Rightarrow> string \<Rightarrow> CertEvent list" where
  "decode_events J body = (case c_event J body of Some e \<Rightarrow> [e] | None \<Rightarrow> c_events J body)"

text \<open>The frame of \<open>UpdateCert\<close> and \<open>DeleteCert\<close>.  The switch has cases for POST, GET and the
  method "DEFAULT"; any other method gets an empty response.\<close>

definition post_events ::
  "'w sys \<Rightarrow> cert_codec \<Rightarrow> string \<Rightarrow> (CertEvent list \<Rightarrow> response_writer \<Rightarrow> 'w cert_server \<Rightarrow> 'w outcome)
     \<Rightarrow> http_call \<Rightarrow> 'w cert_server \<Rightarrow> 'w outcome" where
  "post_events Y J acc f r s =
     (if hc_method r = ''POST'' then
        (case hc_body r of
           Inl err \<Rightarrow> (Some (http_Error ''Error reading body'' 500 no_response), s)
         | Inr body \<Rightarrow>
             if body = [] then (Some (http_Error ''Body does not contain'' 500 no_response), s)
             else f (decode_events J body) no_response s)
      else if hc_method r = ''GET'' \<or> hc_method r = ''DEFAULT'' then respond Y J (405, MSG_405_METHOD) acc no_response s
      else (Some no_response, s))"

definition update_matches :: "envVars \<Rightarrow> CertEvent \<Rightarrow> bool" where
  "update_matches v e \<longleftrightarrow>
     disableCertMatchChecks v \<or>
     Trim (CHR '' '') (ce_Namespace e) = certificateNameSpace v \<and> Trim (CHR '' '') (ce_Name e) = autoCertName v \<and>
     ToLower (ce_Type e) \<in> {''create'', ''update''}"

text \<open>One event: \<open>Inr\<close> when the loop goes on, \<open>Inl\<close> when the handler has returned.\<close>

definition update_event ::
  "'w sys \<Rightarrow> cert_codec \<Rightarrow> envVars \<Rightarrow> string \<Rightarrow> CertEvent \<Rightarrow> response_writer \<Rightarrow> 'w cert_server \<Rightarrow> bool \<times> 'w outcome" where
  "update_event Y J v acc e out s =
     (if \<not> update_matches v e then
        (False, respond Y J (500, ''Ignoring Certificate update event due to parameters mismatch'') acc out s)
      else case wait_for_files Y v 0 False (cs_times s) (cs_world s) of
        ((None, ft), w) \<Rightarrow> (False, (None, \<lparr>cs_world = w, cs_times = ft\<rparr>))
      | ((Some _, ft), w) \<Rightarrow>
     (case readCertFiles Y v w of
        (Inl err, w) \<Rightarrow>
          (False, respond Y J (500, ''Failed to read certificate  files.'') acc out \<lparr>cs_world = w, cs_times = ft\<rparr>)
      | (Inr certs, w) \<Rightarrow>
     (case aws_client Y v (maybe_secret Y v certs w) of
        (Inl err, w) \<Rightarrow> (False, respond Y J (500, ''Unable to load AWS SDK'') acc out \<lparr>cs_world = w, cs_times = ft\<rparr>)
      | (Inr svc, w) \<Rightarrow>
     (case import_chain Y svc v (importIntoACMIfNotExists v) (version_tags v) certs w of
        (m, w) \<Rightarrow> (fst m = 200, respond Y J m acc out \<lparr>cs_world = w, cs_times = ft\<rparr>)))))"

fun for_events ::
  "(CertEvent \<Rightarrow> response_writer \<Rightarrow> 'w cert_server \<Rightarrow> bool \<times> 'w outcome) \<Rightarrow> CertEvent list \<Rightarrow> response_writer \<Rightarrow> 'w cert_server \<Rightarrow> 'w outcome" where
  "for_events f [] out s = (Some out, s)"
| "for_events f (e # es) out s =
     (case f e out s of
        (True, (Some out, s)) \<Rightarrow> for_events f es out s
      | (_, res) \<Rightarrow> res)"

definition UpdateCert :: "'w sys \<Rightarrow> cert_codec \<Rightarrow> envVars \<Rightarrow> http_call \<Rightarrow> 'w cert_server \<Rightarrow> 'w outcome" where
  "UpdateCert Y J v r s =
     (let acc = ToLower (hc_accept r) in post_events Y J acc (for_events (update_event Y J v acc)) r s)"

definition UpdateCertWithoutChecks :: "'w sys \<Rightarrow> cert_codec \<Rightarrow> envVars \<Rightarrow> http_call \<Rightarrow> 'w cert_server \<Rightarrow> 'w outcome" where
  "UpdateCertWithoutChecks Y J v r s =
     (let acc = ToLower (hc_accept r); out = no_response in
      case wait_for_files Y v 0 False (cs_times s) (cs_world s) of
        ((None, ft), w) \<Rightarrow> (None, \<lparr>cs_world = w, cs_times = ft\<rparr>)
      | ((Some _, ft), w) \<Rightarrow>
     (case readCertFiles Y v w of
        (Inl err, w) \<Rightarrow> respond Y J (500, ''Failed to read certificate  files.'') acc out \<lparr>cs_world = w, cs_times = ft\<rparr>
      | (Inr certs, w) \<Rightarrow>
     (case aws_client Y v w of
        (Inl err, w) \<Rightarrow> respond Y J (500, ''Unable to load AWS SDK'') acc out \<lparr>cs_world = w, cs_times = ft\<rparr>
      | (Inr svc, w) \<Rightarrow>
     (case import_chain Y svc v (importIntoACMIfNotExists v) (version_tags v) certs w of
        (m, w) \<Rightarrow> respond Y J m acc out \<lparr>cs_world = w, cs_times = ft\<rparr>))))"

text \<open>The deletion, shared by both handlers.\<close>

definition delete_certificate :: "'w sys \<Rightarrow> envVars \<Rightarrow> 'w \<Rightarrow> (int \<times> string) \<times> 'w" where
  "delete_certificate Y v w =
     (case aws_client Y v w of
        (Inl err, w) \<Rightarrow> ((500, ''Unable to load AWS SDK''), w)
      | (Inr svc, w) \<Rightarrow>
          if acmCertificateName v = [] then ((503, ''Required Certificate name parameter missing.''), w)
          else
     (case findCertificateByName Y svc (acmCertificateName v) w of
        (Inl err, w) \<Rightarrow> ((503, ''An error occurred trying to find existing certificate''), w)
      | (Inr certArn, w) \<Rightarrow>
          if certArn = [] then ((503, ''Certificate with name '' @ [CHR 0x27] @ acmCertificateName v @ [CHR 0x27] @ '' not found.''), w)
          else
     (case acm_Delete Y svc certArn w of
        (Some err, w) \<Rightarrow> ((503, ''An error occurred trying to delete existing certificate''), w)
      | (None, w) \<Rightarrow> ((200, ''Successfully deleted certificate, ARN='' @ certArn), w))))"

definition delete_matches :: "envVars \<Rightarrow> CertEvent \<Rightarrow> bool" where
  "delete_matches v e \<longleftrightarrow>
     disableCertMatchChecks v \<or>
     ce_Namespace e = certificateNameSpace v \<and> ce_Name e = autoCertName v \<and> ToLower (ce_Type e) = ''delete''"

definition delete_event ::
  "'w sys \<Rightarrow> cert_codec \<Rightarrow> envVars \<Rightarrow> string \<Rightarrow> CertEvent \<Rightarrow> response_writer \<Rightarrow> 'w cert_server \<Rightarrow> bool \<times> 'w outcome" where
  "delete_event Y J v acc e out s =
     (if \<not> delete_matches v e then (False, respond Y J (500, ''Certificate event must be delete'') acc out s)
      else case delete_certificate Y v (cs_world s) of
             (m, w) \<Rightarrow> (fst m = 200, respond Y J m acc out (s\<lparr>cs_world := w\<rparr>)))"

definition DeleteCert :: "'w sys \<Rightarrow> cert_codec \<Rightarrow> envVars \<Rightarrow> http_call \<Rightarrow> 'w cert_server \<Rightarrow> 'w outcome" where
  "DeleteCert Y J v r s =
     (let acc = hc_accept r in post_events Y J acc (for_events (delete_event Y J v acc)) r s)"

definition DeleteCertWithoutChecks :: "'w sys \<Rightarrow> cert_codec \<Rightarrow> envVars \<Rightarrow> http_call \<Rightarrow> 'w cert_server \<Rightarrow> 'w outcome" where
  "DeleteCertWithoutChecks Y J v r s =
     (case delete_certificate Y v (cs_world s) of
        (m, w) \<Rightarrow> respond Y J m (hc_accept r) no_response (s\<lparr>cs_world := w\<rparr>))"

definition MSG_200_OK :: string where "MSG_200_OK = ''200 - OK.''"
definition MSG_418_TEAPOT :: string where
  "MSG_418_TEAPOT = ''418 - The server refuses the attempt to brew coffee with a teapot.!'' @ [CHR 0x0A]"

definition HealthCheckServer :: "'w sys \<Rightarrow> cert_codec \<Rightarrow> envVars \<Rightarrow> http_call \<Rightarrow> 'w cert_server \<Rightarrow> 'w outcome" where
  "HealthCheckServer Y J v r s =
     (case checkCertFiles Y v True False (cs_times s) (cs_world s) of
        ((None, ft), w) \<Rightarrow> (None, \<lparr>cs_world = w, cs_times = ft\<rparr>)
      | ((Some False, ft), w) \<Rightarrow>
          respond Y J (500, ''Required certificate files are missing from pod'') (hc_accept r) no_response \<lparr>cs_world = w, cs_times = ft\<rparr>
      | ((Some True, ft), w) \<Rightarrow>
     (case aws_client Y v w of
        (Inl err, w) \<Rightarrow> respond Y J (500, ''Unable to load AWS SDK'') (hc_accept r) no_response \<lparr>cs_world = w, cs_times = ft\<rparr>
      | (Inr svc, w) \<Rightarrow>
     (case checkExpiringCertificates Y svc 30 w of
        (None, w) \<Rightarrow> respond Y J (200, MSG_200_OK) (hc_accept r) no_response \<lparr>cs_world = w, cs_times = ft\<rparr>
      | (Some err, w) \<Rightarrow> respond Y J (418, MSG_418_TEAPOT) (hc_accept r) no_response \<lparr>cs_world = w, cs_times = ft\<rparr>)))"

end
