(* ===== verification/Cert_Dns.thy ===== *)
theory Cert_Dns
  imports Cert_Acm
begin

text \<open>
  The DNS records in AWS Route 53, cert-synchronizer/pkg/apiserver/server.go: their parameters, the
  hosted zones, the creation, update and deletion of records, and the two handlers.

  The rules of the ozzo-validation library are a parameter: \<open>valid\<close> answers the error of
  \<open>DNSRecordParams.validate\<close>; what the handlers rely on is that a missing name is an error.
\<close>

section \<open>Parameters of a record\<close>

record DNSRecordParams =
  dp_Region :: string
  dp_Domain :: string
  dp_VPC :: string
  dp_IsPrivate :: bool
  dp_Recordtype :: string
  dp_Recordname :: string
  dp_Recordvalue :: string
  dp_fqdn :: string

definition no_params :: DNSRecordParams where
  "no_params = \<lparr>dp_Region = [], dp_Domain = [], dp_VPC = [], dp_IsPrivate = False, dp_Recordtype = [],
     dp_Recordname = [], dp_Recordvalue = [], dp_fqdn = []\<rparr>"

definition sanitizeDNSRecord :: "envVars \<Rightarrow> DNSRecordParams \<Rightarrow> DNSRecordParams" where
  "sanitizeDNSRecord v p =
     (let p = (if dp_Region p = [] then p\<lparr>dp_Region := region v\<rparr> else p);
          p = (if dp_Domain p = [] then p\<lparr>dp_Domain := ToLower (domain v)\<rparr> else p);
          p = (if \<not> HasSuffix (dp_Recordname p) ''.'' then p\<lparr>dp_Recordname := ToLower (dp_Recordname p @ ''.'')\<rparr> else p);
          p = (if HasPrefix (dp_Domain p) ''.'' then p\<lparr>dp_Domain := ToLower (TrimLeft (CHR ''.'') (dp_Domain p))\<rparr> else p);
          p = (if dp_Recordtype p = ''TXT'' then p\<lparr>dp_Recordvalue := escapeString (dp_Recordvalue p)\<rparr> else p)
      in p\<lparr>dp_fqdn := ToLower (dp_Recordname p @ dp_Domain p)\<rparr>)"

section \<open>Route 53\<close>

definition getOrCreateHostedZone ::
  "'w sys \<Rightarrow> aws_config \<Rightarrow> string \<Rightarrow> string \<Rightarrow> string \<Rightarrow> bool \<Rightarrow> bool \<Rightarrow> 'w \<Rightarrow> (go_err + string) \<times> 'w" where
  "getOrCreateHostedZone Y svc dn vp reg isPrivate createZone w =
     (case r53_ListZones Y svc dn w of
        (Inl err, w) \<Rightarrow> (Inl err, w)
      | (Inr zones, w) \<Rightarrow>
     (case find (\<lambda>z. TrimSuffix (hz_Name z) ''.'' = dn \<and> hz_PrivateZone z = isPrivate) zones of
        Some z \<Rightarrow> (Inr (hz_Id z), w)
      | None \<Rightarrow>
          if createZone \<and> (\<not> isPrivate \<or> reg \<noteq> [] \<and> vp \<noteq> [])
          then r53_CreateZone Y svc dn (if isPrivate then Some (vp, reg) else None) (snd (time_Now Y w))
          else (Inl (Errorf ''Unable to find or create hosted zone''), w)))"

definition getRoute53Record ::
  "'w sys \<Rightarrow> aws_config \<Rightarrow> string \<Rightarrow> string \<Rightarrow> string \<Rightarrow> 'w \<Rightarrow> (go_err + ResourceRecordSet option) \<times> 'w" where
  "getRoute53Record Y svc zone fqdn ty w =
     (if zone = [] \<or> fqdn = [] then (Inl (Errorf ''Required parameters missing.''), w)
      else case r53_ListRecords Y svc zone (ToLower fqdn) ty w of
             (Inl err, w) \<Rightarrow> (Inl err, w)
           | (Inr rs, w) \<Rightarrow>
               (Inr (find (\<lambda>r. TrimSuffix (rr_Name r) ''.'' = ToLower fqdn \<and> rr_Type r = ty) rs), w))"

definition record_set :: "string \<Rightarrow> string \<Rightarrow> string \<Rightarrow> ResourceRecordSet" where
  "record_set name ty value = \<lparr>rr_Name = name, rr_Type = ty, rr_TTL = 300, rr_Values = [value]\<rparr>"

definition createRoute53Record ::
  "'w sys \<Rightarrow> aws_config \<Rightarrow> string \<Rightarrow> string \<Rightarrow> string \<Rightarrow> string \<Rightarrow> 'w \<Rightarrow> go_err option \<times> 'w" where
  "createRoute53Record Y svc zone name ty value w =
     r53_Change Y svc zone ActionCreate (record_set name (ToUpper ty) value) w"

definition updateRoute53Record ::
  "'w sys \<Rightarrow> aws_config \<Rightarrow> string \<Rightarrow> string \<Rightarrow> string \<Rightarrow> string \<Rightarrow> 'w \<Rightarrow> go_err option \<times> 'w" where
  "updateRoute53Record Y svc zone name ty value w =
     r53_Change Y svc zone ActionUpsert (record_set name (ToUpper ty) value) w"

text \<open>\<open>existingRecord.ResourceRecords[0]\<close> of an alias record without values is a panic (\<open>None\<close>).\<close>

definition deleteRoute53Record ::
  "'w sys \<Rightarrow> aws_config \<Rightarrow> string \<Rightarrow> string \<Rightarrow> string \<Rightarrow> 'w \<Rightarrow> go_err option option \<times> 'w" where
  "deleteRoute53Record Y svc zone name ty w =
     (case getRoute53Record Y svc zone name ty w of
        (Inl err, w) \<Rightarrow> (Some (Some err), w)
      | (Inr None, w) \<Rightarrow> (Some None, w)
      | (Inr (Some r), w) \<Rightarrow>
          (case rr_Values r of
             [] \<Rightarrow> (None, w)
           | value # _ \<Rightarrow>
               (case r53_Change Y svc zone ActionDelete (record_set name ty value) w of (e, w) \<Rightarrow> (Some e, w))))"

section \<open>One record\<close>

text \<open>\<open>createDNSRecord\<close> and \<open>createSingleDNSRecord\<close> do the same; the first answers with a message and an
  error, the second writes the message.  The error is \<open>Inl\<close>.\<close>

definition create_record ::
  "'w sys \<Rightarrow> aws_config \<Rightarrow> envVars \<Rightarrow> (string \<Rightarrow> string) \<Rightarrow> DNSRecordParams \<Rightarrow> 'w \<Rightarrow> (string + string) \<times> 'w" where
  "create_record Y svc v safe p w =
     (let vp = (if dp_VPC p = [] then vpc v else dp_VPC p);
          reg = (if dp_Region p = [] then region v else dp_Region p);
          ty = dp_Recordtype p; fqdn = dp_fqdn p
      in case getOrCreateHostedZone Y svc (dp_Domain p) vp reg (dp_IsPrivate p) True w of
           (Inl err, w) \<Rightarrow> (Inl (''Failed to get or create Route53 hosted zone for domain : '' @ safe (dp_Domain p)), w)
         | (Inr zone, w) \<Rightarrow>
         (case getRoute53Record Y svc zone fqdn ty w of
            (Inl err, w) \<Rightarrow> (Inl (''Failed to get Route53 DNS record '' @ fqdn @ '' for hosted zone : '' @ zone), w)
          | (Inr (Some _), w) \<Rightarrow>
              (case updateRoute53Record Y svc zone fqdn ty (dp_Recordvalue p) w of
                 (Some err, w) \<Rightarrow>
                   (Inl (''Failed to update Route53 DNS '' @ ty @ '' type record '' @ fqdn @ '' for hosted zone : '' @ zone), w)
               | (None, w) \<Rightarrow>
                   (Inr (''Updated Route53 DNS '' @ ty @ '' type record '' @ fqdn @ '' for hosted zone : '' @ zone), w))
          | (Inr None, w) \<Rightarrow>
              (case createRoute53Record Y svc zone (dp_Recordname p @ dp_Domain p) ty (dp_Recordvalue p) w of
                 (Some err, w) \<Rightarrow>
                   (Inl (''Failed to insert Route53 DNS record '' @ ty @ '' type record '' @ fqdn @ '' for hosted zone : '' @ zone), w)
               | (None, w) \<Rightarrow>
                   (Inr (''Created Route53 DNS '' @ ty @ '' type record '' @ fqdn @ '' for hosted zone : '' @ zone), w))))"

definition createDNSRecord ::
  "'w sys \<Rightarrow> aws_config \<Rightarrow> envVars \<Rightarrow> DNSRecordParams \<Rightarrow> 'w \<Rightarrow> (string + string) \<times> 'w" where
  "createDNSRecord Y svc v p w =
     (case create_record Y svc v (\<lambda>d. d) p w of
        (Inl m, w) \<Rightarrow> (Inl (m @ [CHR 0x0A]), w)
      | (Inr m, w) \<Rightarrow> (Inr (m @ [CHR 0x0A]), w))"

definition createSingleDNSRecord ::
  "'w sys \<Rightarrow> cert_codec \<Rightarrow> aws_config \<Rightarrow> envVars \<Rightarrow> string \<Rightarrow> DNSRecordParams \<Rightarrow> response_writer \<Rightarrow> 'w cert_server \<Rightarrow> 'w outcome" where
  "createSingleDNSRecord Y J svc v acc p out s =
     (case create_record Y svc v html_EscapeString p (cs_world s) of
        (Inl m, w) \<Rightarrow> respond Y J (500, m) acc out (s\<lparr>cs_world := w\<rparr>)
      | (Inr m, w) \<Rightarrow> respond Y J (200, m) acc out (s\<lparr>cs_world := w\<rparr>))"

definition delete_record ::
  "'w sys \<Rightarrow> aws_config \<Rightarrow> DNSRecordParams \<Rightarrow> 'w \<Rightarrow> (string + string) option \<times> 'w" where
  "delete_record Y svc p w =
     (let ty = dp_Recordtype p; fqdn = dp_fqdn p in
      case getOrCreateHostedZone Y svc (dp_Domain p) [] [] (dp_IsPrivate p) False w of
        (Inl err, w) \<Rightarrow> (Some (Inl (''Failed to get or create Route53 hosted zone for domain : '' @ dp_Domain p)), w)
      | (Inr zone, w) \<Rightarrow>
      (case getRoute53Record Y svc zone fqdn ty w of
         (Inl err, w) \<Rightarrow> (Some (Inl (''Failed to get Route53 DNS record '' @ fqdn @ '' for hosted zone : '' @ zone)), w)
       | (Inr (Some _), w) \<Rightarrow>
           (case deleteRoute53Record Y svc zone fqdn ty w of
              (None, w) \<Rightarrow> (None, w)
            | (Some (Some err), w) \<Rightarrow>
                (Some (Inl (''Failed to delete Route53 DNS '' @ ty @ '' type record '' @ fqdn @ '' for hosted zone : '' @ zone)), w)
            | (Some None, w) \<Rightarrow>
                (Some (Inr (''Deleted Route53 DNS '' @ ty @ '' type record '' @ fqdn @ '' for hosted zone : '' @ zone)), w))
       | (Inr None, w) \<Rightarrow>
           (Some (Inr (''No Route53 DNS record of type '' @ ty @ '' called '' @ fqdn @ '' for hosted zone : '' @ zone @
              '' found to delete. Done.'')), w)))"

definition deleteDNSRecord :: "'w sys \<Rightarrow> aws_config \<Rightarrow> DNSRecordParams \<Rightarrow> 'w \<Rightarrow> (string + string) option \<times> 'w" where
  "deleteDNSRecord Y svc p w =
     (case delete_record Y svc p w of
        (None, w) \<Rightarrow> (None, w)
      | (Some (Inl m), w) \<Rightarrow> (Some (Inl (m @ [CHR 0x0A])), w)
      | (Some (Inr m), w) \<Rightarrow> (Some (Inr (m @ [CHR 0x0A])), w))"

definition deleteSingleDNSRecord ::
  "'w sys \<Rightarrow> cert_codec \<Rightarrow> aws_config \<Rightarrow> string \<Rightarrow> DNSRecordParams \<Rightarrow> response_writer \<Rightarrow> 'w cert_server \<Rightarrow> 'w outcome" where
  "deleteSingleDNSRecord Y J svc acc p out s =
     (case delete_record Y svc p (cs_world s) of
        (None, w) \<Rightarrow> (None, s\<lparr>cs_world := w\<rparr>)
      | (Some (Inl m), w) \<Rightarrow> respond Y J (500, m) acc out (s\<lparr>cs_world := w\<rparr>)
      | (Some (Inr m), w) \<Rightarrow> respond Y J (200, m) acc out (s\<lparr>cs_world := w\<rparr>))"

section \<open>The handlers\<close>

text \<open>The query of a GET request; keys are compared without case.  \<open>createDNSRecord\<close> has no case for
  the value, it takes the value from the name.\<close>

record dns_call =
  dc_method :: string
  dc_accept :: string
  dc_query :: "(string \<times> string) list"
  dc_body :: "go_err + string"

fun query_create :: "(string \<times> string) list \<Rightarrow> DNSRecordParams \<Rightarrow> DNSRecordParams" where
  "query_create [] p = p"
| "query_create ((key, x) # kvs) p =
     query_create kvs
       (let k = ToLower key in
        if k = ''region'' then p\<lparr>dp_Region := x\<rparr>
        else if k = ''domain'' then p\<lparr>dp_Domain := ToLower x\<rparr>
        else if k = ''recordtype'' then p\<lparr>dp_Recordtype := ToUpper x\<rparr>
        else if k = ''recordname'' then p\<lparr>dp_Recordname := ToLower x, dp_Recordvalue := x\<rparr>
        else p)"

fun query_delete :: "(string \<times> string) list \<Rightarrow> DNSRecordParams \<Rightarrow> DNSRecordParams" where
  "query_delete [] p = p"
| "query_delete ((key, x) # kvs) p =
     query_delete kvs
       (let k = ToLower key in
        if k = ''region'' then p\<lparr>dp_Region := x\<rparr>
        else if k = ''domain'' then p\<lparr>dp_Domain := x\<rparr>
        else if k = ''recordtype'' then p\<lparr>dp_Recordtype := ToUpper x\<rparr>
        else if k = ''recordname'' then p\<lparr>dp_Recordname := x\<rparr>
        else if k = ''recordvalue'' then p\<lparr>dp_Recordvalue := x\<rparr>
        else p)"

definition MSG_400_BAD_RQ :: string where
  "MSG_400_BAD_RQ = ''400 - The validation request is malformed or missing required parameters.''"

text \<open>\<open>json.Unmarshal\<close> of one record, and of a list: its error and what it leaves in the slice.\<close>

record dns_codec =
  dc_one :: "string \<Rightarrow> DNSRecordParams option"
  dc_many :: "string \<Rightarrow> bool \<times> DNSRecordParams list"

text \<open>The first part of both handlers: \<open>Inr\<close> are the params of the query, the records and the
  response so far, \<open>Inl\<close> the response of an early return.  A body that cannot be decoded, an empty one
  and a method other than GET and POST get a response but do not end the handler.\<close>

definition collect ::
  "'w sys \<Rightarrow> cert_codec \<Rightarrow> dns_codec \<Rightarrow> (DNSRecordParams \<Rightarrow> go_err option) \<Rightarrow> envVars \<Rightarrow> DNSRecordParams \<Rightarrow> string \<Rightarrow> dns_call \<Rightarrow> 'w cert_server
     \<Rightarrow> 'w outcome + (DNSRecordParams list \<times> response_writer \<times> 'w cert_server)" where
  "collect Y J K valid v params acc r s =
     (if dc_method r = ''GET'' then
        (let records = (if dp_Recordtype params \<noteq> [] \<and> dp_Recordvalue params \<noteq> [] then [sanitizeDNSRecord v params] else [])
         in if valid params \<noteq> None then Inl (respond Y J (400, MSG_400_BAD_RQ) acc no_response s)
            else Inr (records, no_response, s))
      else if dc_method r = ''POST'' then
        (case dc_body r of
           Inl err \<Rightarrow> Inl (Some (http_Error ''Error reading body'' 500 no_response), s)
         | Inr body \<Rightarrow>
             if body = [] then Inr ([], http_Error ''Body is empty'' 500 no_response, s)
             else case dc_one K body of
                    Some p \<Rightarrow> Inr ([sanitizeDNSRecord v p], no_response, s)
                  | None \<Rightarrow>
                      (case dc_many K body of
                         (True, ps) \<Rightarrow> Inr (ps, no_response, s)
                       | (False, ps) \<Rightarrow>
                           (case respond Y J (400, MSG_400_BAD_RQ) acc no_response s of
                              (Some out, s) \<Rightarrow> Inr (ps, out, s)
                            | (None, s) \<Rightarrow> Inl (None, s))))
      else
        (case respond Y J (405, MSG_405_METHOD) acc no_response s of
           (Some out, s) \<Rightarrow> Inr ([], out, s)
         | (None, s) \<Rightarrow> Inl (None, s)))"

text \<open>The loop over several records; \<open>tally\<close> holds the texts and the number of invalid, failed and
  successful records.  Its result is \<open>Inl\<close> when the AWS configuration cannot be loaded.\<close>

record tally =
  t_count :: nat
  t_invalid :: "nat \<times> string"
  t_errors :: "nat \<times> string"
  t_done :: "nat \<times> string"

definition no_tally :: tally where
  "no_tally = \<lparr>t_count = 0, t_invalid = (0, []), t_errors = (0, []), t_done = (0, [])\<rparr>"

definition bump :: "nat \<times> string \<Rightarrow> string \<Rightarrow> nat \<times> string" where
  "bump c m = (Suc (fst c), snd c @ m)"

definition invalid_text :: "go_err \<Rightarrow> DNSRecordParams \<Rightarrow> string" where
  "invalid_text err p =
     ''Error '' @ err_text err @ '', Domain: '' @ dp_Domain p @ '', RecordName: '' @ dp_Recordname p @
     '', RecordType: '' @ dp_Recordtype p @ '', Value: '' @ dp_Recordvalue p @ [CHR 0x0A]"

fun each_record ::
  "'w sys \<Rightarrow> (DNSRecordParams \<Rightarrow> go_err option) \<Rightarrow> envVars \<Rightarrow> (DNSRecordParams \<Rightarrow> string)
     \<Rightarrow> (aws_config \<Rightarrow> DNSRecordParams \<Rightarrow> 'w \<Rightarrow> (string + string) option \<times> 'w)
     \<Rightarrow> DNSRecordParams list \<Rightarrow> tally \<Rightarrow> 'w \<Rightarrow> (unit + tally) option \<times> 'w" where
  "each_record Y valid v reg f [] t w = (Some (Inr t), w)"
| "each_record Y valid v reg f (p # ps) t w =
     (let t = t\<lparr>t_count := Suc (t_count t)\<rparr>; p = sanitizeDNSRecord v p in
      case aws_LoadConfig Y (reg p) w of
        (Some err, w) \<Rightarrow> (Some (Inl ()), w)
      | (None, w) \<Rightarrow>
     (case valid p of
        Some err \<Rightarrow> each_record Y valid v reg f ps (t\<lparr>t_invalid := bump (t_invalid t) (invalid_text err p)\<rparr>) w
      | None \<Rightarrow>
     (case f (reg p, None) p w of
        (None, w) \<Rightarrow> (None, w)
      | (Some (Inl m), w) \<Rightarrow> each_record Y valid v reg f ps (t\<lparr>t_errors := bump (t_errors t) m\<rparr>) w
      | (Some (Inr m), w) \<Rightarrow> each_record Y valid v reg f ps (t\<lparr>t_done := bump (t_done t) m\<rparr>) w)))"

definition tally_text :: "tally \<Rightarrow> string" where
  "tally_text t =
     ''Completed '' @ decimal (t_count t) @ '' records, with '' @ decimal (fst (t_invalid t)) @ '' invalid records, '' @
     decimal (fst (t_errors t)) @ '' errors, '' @ decimal (fst (t_done t)) @ '' successfully inserted/updated.'' @ [CHR 0x0A, CHR 0x0A] @
     ''Invalid transactions'' @ [CHR 0x0A] @ snd (t_invalid t) @ [CHR 0x0A] @
     ''Error transactions'' @ [CHR 0x0A] @ snd (t_errors t) @ [CHR 0x0A] @
     ''Sucessful transactions'' @ [CHR 0x0A] @ snd (t_done t) @ [CHR 0x0A]"

text \<open>The second part: exactly one record, or any other number of them.  The client for a single
  record is configured with the region of the query, not with that of the record.\<close>

definition run_records ::
  "'w sys \<Rightarrow> cert_codec \<Rightarrow> (DNSRecordParams \<Rightarrow> go_err option) \<Rightarrow> envVars \<Rightarrow> DNSRecordParams \<Rightarrow> (DNSRecordParams \<Rightarrow> string)
     \<Rightarrow> (aws_config \<Rightarrow> DNSRecordParams \<Rightarrow> response_writer \<Rightarrow> 'w cert_server \<Rightarrow> 'w outcome)
     \<Rightarrow> (aws_config \<Rightarrow> DNSRecordParams \<Rightarrow> 'w \<Rightarrow> (string + string) option \<times> 'w)
     \<Rightarrow> string \<Rightarrow> DNSRecordParams list \<Rightarrow> response_writer \<Rightarrow> 'w cert_server \<Rightarrow> 'w outcome" where
  "run_records Y J valid v params reg single f acc ps out s =
     (case ps of
        [p] \<Rightarrow>
          (if valid p \<noteq> None then respond Y J (400, MSG_400_BAD_RQ) acc out s
           else case aws_LoadConfig Y (dp_Region params) (cs_world s) of
                  (Some err, w) \<Rightarrow> respond Y J (500, ''Unable to load AWS SDK'') acc out (s\<lparr>cs_world := w\<rparr>)
                | (None, w) \<Rightarrow> single (dp_Region params, None) p out (s\<lparr>cs_world := w\<rparr>))
      | _ \<Rightarrow>
          (case each_record Y valid v reg f ps no_tally (cs_world s) of
             (None, w) \<Rightarrow> (None, s\<lparr>cs_world := w\<rparr>)
           | (Some (Inl _), w) \<Rightarrow> respond Y J (500, ''Unable to load AWS SDK'') acc out (s\<lparr>cs_world := w\<rparr>)
           | (Some (Inr t), w) \<Rightarrow> respond Y J (200, tally_text t) acc out (s\<lparr>cs_world := w\<rparr>)))"

definition HTTPCreateDNSRecord ::
  "'w sys \<Rightarrow> cert_codec \<Rightarrow> dns_codec \<Rightarrow> (DNSRecordParams \<Rightarrow> go_err option) \<Rightarrow> envVars \<Rightarrow> dns_call \<Rightarrow> 'w cert_server \<Rightarrow> 'w outcome" where
  "HTTPCreateDNSRecord Y J K valid v r s =
     (let acc = ToLower (dc_accept r);
          params = (if dc_method r = ''GET'' then query_create (dc_query r) no_params else no_params)
      in case collect Y J K valid v params acc r s of
           Inl res \<Rightarrow> res
         | Inr (ps, out, s) \<Rightarrow>
             run_records Y J valid v params dp_Region (\<lambda>svc. createSingleDNSRecord Y J svc v acc)
               (\<lambda>svc p w. case createDNSRecord Y svc v p w of (m, w) \<Rightarrow> (Some m, w)) acc ps out s)"

definition HTTPDeleteDNSRecord ::
  "'w sys \<Rightarrow> cert_codec \<Rightarrow> dns_codec \<Rightarrow> (DNSRecordParams \<Rightarrow> go_err option) \<Rightarrow> envVars \<Rightarrow> dns_call \<Rightarrow> 'w cert_server \<Rightarrow> 'w outcome" where
  "HTTPDeleteDNSRecord Y J K valid v r s =
     (let acc = ToLower (dc_accept r);
          params = (if dc_method r = ''GET'' then query_delete (dc_query r) no_params else no_params)
      in case collect Y J K valid v params acc r s of
           Inl res \<Rightarrow> res
         | Inr (ps, out, s) \<Rightarrow>
             run_records Y J valid v params (\<lambda>p. region v) (\<lambda>svc. deleteSingleDNSRecord Y J svc acc)
               (\<lambda>svc. deleteDNSRecord Y svc) acc ps out s)"

end
