(* ===== verification/Cert_Main.thy ===== *)
theory Cert_Main
  imports Cert_Dns
begin

text \<open>
  The server of the cert-synchronizer as a whole: cmd/main.go, and \<open>Init\<close>, \<open>Run\<close> and the debug
  handlers of pkg/apiserver/server.go.

  Left to the parameters: the port and the debug parameters are checked by the ozzo-validation
  library, delays are read by \<open>time.ParseDuration\<close>.  The paths are clean ones; the multiplexer redirects others.
\<close>

section \<open>Debug handlers\<close>

definition MSG_401_UNAUTH :: string where
  "MSG_401_UNAUTH = ''There was an error validating your license for this product. Check that your license has not expired. '' @
     ''Please open a support ticket including the following identifier at https://supporttickets.intel.com/supportrequest?lang=en-US&productId=236861:15711''"

definition MSG_403_FORBID :: string where
  "MSG_403_FORBID = ''403 - This resource is forbidden with your current license.''"

definition MSG_503_UNAVAL :: string where
  "MSG_503_UNAVAL = ''503 - A backend error has occurred.''"

definition ERROR_WEBPAGE :: string where "ERROR_WEBPAGE = ''./html/error.html''"

record debugParams =
  replyWith :: string
  delay :: string

fun debug_query :: "(string \<times> string) list \<Rightarrow> debugParams \<Rightarrow> debugParams" where
  "debug_query [] p = p"
| "debug_query ((key, x) # kvs) p =
     debug_query kvs
       (if ToLower key = ''reply'' then p\<lparr>replyWith := x\<rparr>
        else if ToLower key = ''delay'' then p\<lparr>delay := x\<rparr>
        else p)"

text \<open>What a debug request can ask for; \<open>uuid\<close> is the identifier of the 401.\<close>

definition debug_reply :: "string \<Rightarrow> string \<Rightarrow> string \<Rightarrow> httpResponse" where
  "debug_reply code acc uuid =
     (if code = ''200'' then reply 200 acc MSG_200_OK
      else if code = ''400'' then reply 400 acc MSG_400_BAD_RQ
      else if code = ''401'' then
        (reply 401 acc MSG_401_UNAUTH)\<lparr>errWebpagePath := ERROR_WEBPAGE, errWebpageCmt := ''example debug error'', errorUuid := uuid\<rparr>
      else if code = ''403'' then reply 403 acc MSG_403_FORBID
      else if code = ''405'' then reply 405 acc MSG_405_METHOD
      else if code = ''503'' then reply 503 acc MSG_503_UNAVAL
      else reply 400 acc MSG_400_BAD_RQ)"

record debug_env =
  de_valid :: "debugParams \<Rightarrow> bool"
  de_delay :: "string \<Rightarrow> int option"
  de_uuid :: string

definition answer :: "'w sys \<Rightarrow> cert_codec \<Rightarrow> httpResponse \<Rightarrow> 'w cert_server \<Rightarrow> 'w outcome" where
  "answer Y J r s =
     (case write_response Y (c_marshal J) r no_response (cs_world s) of (out, w) \<Rightarrow> (Some out, s\<lparr>cs_world := w\<rparr>))"

definition GetDebug :: "'w sys \<Rightarrow> cert_codec \<Rightarrow> debug_env \<Rightarrow> dns_call \<Rightarrow> 'w cert_server \<Rightarrow> 'w outcome" where
  "GetDebug Y J D r s =
     (let acc = dc_accept r; bad = answer Y J (reply 400 acc MSG_400_BAD_RQ) s in
      if dc_method r \<noteq> ''GET'' then answer Y J (reply 405 acc MSG_405_METHOD) s
      else
        (let p = debug_query (dc_query r) \<lparr>replyWith = [], delay = []\<rparr>;
             d = (if delay p = [] then Some 0 else de_delay D (delay p @ ''s''))
         in if \<not> de_valid D p then bad
            else case d of
                   None \<Rightarrow> bad
                 | Some d \<Rightarrow>
                     if replyWith p = [] then bad
                     else answer Y J (debug_reply (replyWith p) acc (de_uuid D)) (s\<lparr>cs_world := time_Sleep Y d (cs_world s)\<rparr>)))"

text \<open>\<open>POSTDebug\<close> sends the body back under the accepted type.\<close>

definition POSTDebug :: "dns_call \<Rightarrow> 'w cert_server \<Rightarrow> 'w outcome" where
  "POSTDebug r s =
     (if dc_method r = ''POST'' then
        (case dc_body r of
           Inl err \<Rightarrow> (Some (http_Error ''Error reading body'' 500 no_response), s)
         | Inr body \<Rightarrow>
             (Some (Write body (WriteHeader 200 (no_response\<lparr>wr_type := Trim (CHR 0x22) (TrimSpace (dc_accept r))\<rparr>))), s))
      else (Some no_response, s))"

section \<open>Routes\<close>

datatype cert_route = RUpdate | RForceUpdate | RDelete | RForceDelete | RCreateDns | RDeleteDns | RHealth | RPostDebug | RGetDebug

text \<open>A pattern of \<open>Init\<close> is registered with and without a final slash: the path itself and what is below it.\<close>

definition under :: "string \<Rightarrow> string \<Rightarrow> bool" where
  "under name path \<longleftrightarrow> path = name \<or> HasPrefix path (name @ ''/'')"

definition routes :: "bool \<Rightarrow> (string \<times> cert_route) list" where
  "routes dbg =
     [(''/updatecert'', RUpdate), (''/forceupdatecert'', RForceUpdate), (''/deletecert'', RDelete),
      (''/forcedeletecert'', RForceDelete), (''/creatednsrecord'', RCreateDns), (''/deletednsrecord'', RDeleteDns),
      (''/healthcheck'', RHealth), (''/debug'', RPostDebug)] @ (if dbg then [(''/debugv1'', RGetDebug)] else [])"

definition cert_dispatch :: "bool \<Rightarrow> string \<Rightarrow> cert_route option" where
  "cert_dispatch dbg path = map_option snd (find (\<lambda>(name, h). under name path) (routes dbg))"

record cert_lib =
  cl_codec :: cert_codec
  cl_dns :: dns_codec
  cl_valid :: "DNSRecordParams \<Rightarrow> go_err option"
  cl_debug :: debug_env

definition plain_call :: "dns_call \<Rightarrow> http_call" where
  "plain_call r = \<lparr>hc_method = dc_method r, hc_accept = dc_accept r, hc_body = dc_body r\<rparr>"

definition serve :: "'w sys \<Rightarrow> cert_lib \<Rightarrow> bool \<Rightarrow> envVars \<Rightarrow> string \<Rightarrow> dns_call \<Rightarrow> 'w cert_server \<Rightarrow> 'w outcome" where
  "serve Y L dbg v path r s =
     (case cert_dispatch dbg path of
        None \<Rightarrow> (Some (http_Error ''404 page not found'' 404 no_response), s)
      | Some RUpdate \<Rightarrow> UpdateCert Y (cl_codec L) v (plain_call r) s
      | Some RForceUpdate \<Rightarrow> UpdateCertWithoutChecks Y (cl_codec L) v (plain_call r) s
      | Some RDelete \<Rightarrow> DeleteCert Y (cl_codec L) v (plain_call r) s
      | Some RForceDelete \<Rightarrow> DeleteCertWithoutChecks Y (cl_codec L) v (plain_call r) s
      | Some RCreateDns \<Rightarrow> HTTPCreateDNSRecord Y (cl_codec L) (cl_dns L) (cl_valid L) v r s
      | Some RDeleteDns \<Rightarrow> HTTPDeleteDNSRecord Y (cl_codec L) (cl_dns L) (cl_valid L) v r s
      | Some RHealth \<Rightarrow> HealthCheckServer Y (cl_codec L) v (plain_call r) s
      | Some RPostDebug \<Rightarrow> POSTDebug r s
      | Some RGetDebug \<Rightarrow> GetDebug Y (cl_codec L) (cl_debug L) r s)"

section \<open>Start\<close>

text \<open>\<open>Init\<close>: the configuration, the times of the files, the check of the port and the version.  \<open>None\<close>
  is a panic of \<open>checkCertFiles\<close>.\<close>

definition cert_Init ::
  "'w sys \<Rightarrow> builtin_pems \<Rightarrow> (string \<Rightarrow> go_err option) \<Rightarrow> (string \<rightharpoonup> string) \<Rightarrow> string \<Rightarrow> string \<Rightarrow> 'w
     \<Rightarrow> (go_err + envVars \<times> fileTimes) option \<times> 'w" where
  "cert_Init Y B valid_port e versionInfo port w =
     (case getEnvVars Y B e w of
        (v, w) \<Rightarrow>
     (case checkCertFiles Y v True True \<lparr>tlsCrtModTime = 0, tlsKeyModTime = 0, caCrtModTime = 0\<rparr> w of
        ((None, ft), w) \<Rightarrow> (None, w)
      | ((Some _, ft), w) \<Rightarrow>
          (case valid_port port of
             Some err \<Rightarrow> (Some (Inl err), w)
           | None \<Rightarrow> (Some (Inr (v\<lparr>version := versionInfo\<rparr>, ft)), w))))"

text \<open>\<open>Run\<close> up to the start of the listener, after which the server handles requests one by one.\<close>

definition cert_Run :: "'w sys \<Rightarrow> envVars \<Rightarrow> fileTimes \<Rightarrow> 'w \<Rightarrow> 'w cert_server" where
  "cert_Run Y v ft w = \<lparr>cs_world = doInititalCertUpdate Y v w, cs_times = ft\<rparr>"

fun handle_all :: "'w sys \<Rightarrow> cert_lib \<Rightarrow> bool \<Rightarrow> envVars \<Rightarrow> (string \<times> dns_call) list \<Rightarrow> 'w cert_server \<Rightarrow> response_writer option list \<times> 'w cert_server" where
  "handle_all Y L dbg v [] s = ([], s)"
| "handle_all Y L dbg v ((path, r) # rs) s =
     (case serve Y L dbg v path r s of
        (out, s) \<Rightarrow> (case handle_all Y L dbg v rs s of (outs, s) \<Rightarrow> (out # outs, s)))"

definition OEP_VER :: string where "OEP_VER = ''24.08''"

text \<open>\<open>main\<close>; a configuration that is refused ends the program.\<close>

definition cert_main ::
  "'w sys \<Rightarrow> builtin_pems \<Rightarrow> (string \<Rightarrow> go_err option) \<Rightarrow> (string \<rightharpoonup> string) \<Rightarrow> cert_lib \<Rightarrow> bool \<Rightarrow> string \<Rightarrow> string
     \<Rightarrow> (string \<times> dns_call) list \<Rightarrow> 'w \<Rightarrow> response_writer option list option \<times> 'w" where
  "cert_main Y B valid_port e L dbg commit port rs w =
     (case cert_Init Y B valid_port e (''Version '' @ OEP_VER @ ''_'' @ commit) port w of
        (Some (Inr (v, ft)), w) \<Rightarrow>
          (case handle_all Y L dbg v rs (cert_Run Y v ft w) of (outs, s) \<Rightarrow> (Some outs, cs_world s))
      | (_, w) \<Rightarrow> (None, w))"

end
