(* ===== verification/Cert_Renewal.thy ===== *)
theory Cert_Renewal
  imports Cert_Acm
begin

text \<open>
  Properties of the certificate renewal of the cert-synchronizer: when a renewal of the files is
  noticed, how long the wait takes, which chain is read, and what an update does to ACM.
\<close>

section \<open>Noticing a renewal\<close>

lemma file_updated_stored:
  assumes stat: "\<And>p w. os_Stat Y p w = (fs w p, w)" and look: "file_updated Y path m t w = (Some (b, t'), w1)"
    and path: "path \<noteq> []" and now: "fs w path = ModTime t0"
  shows "t0 \<le> t'" and "w1 = w"
  using look path now by (auto simp: file_updated_def file_time_def doesFileExist_def stat split: if_splits)

lemma file_updated_old:
  assumes stat: "\<And>p w. os_Stat Y p w = (fs w p, w)" and look: "file_updated Y path False t w = (Some (b, t'), w1)"
    and now: "fs w path = NotExist \<or> fs w path = ModTime t0" and old: "t0 \<le> t"
  shows "\<not> b"
  using look now old by (auto simp: file_updated_def file_time_def doesFileExist_def stat split: if_splits stat.splits)

lemma haveCertFilesUpdated_elim:
  assumes "haveCertFilesUpdated Y v True ft w = ((Some b, ft'), w')"
  obtains b1 t1 w1 b2 t2 w2 b3 t3 where "file_updated Y (tlsCrtPath v) False (tlsCrtModTime ft) w = (Some (b1, t1), w1)"
    and "file_updated Y (tlsKeyPath v) False (tlsKeyModTime ft) w1 = (Some (b2, t2), w2)"
    and "file_updated Y (caCrtPath v) True (caCrtModTime ft) w2 = (Some (b3, t3), w')"
    and "b = (b1 \<and> b2 \<and> b3)" and "ft' = \<lparr>tlsCrtModTime = t1, tlsKeyModTime = t2, caCrtModTime = t3\<rparr>"
  using assms unfolding haveCertFilesUpdated_def by (auto split: prod.splits option.splits)

text \<open>
  Every look stores the times of the files it saw, and reports a renewal only when all files are
  newer in the same look: once a look has seen the renewed certificate without reporting, no later
  look reports it, however late the key follows, unless the certificate is renewed once more.
\<close>

theorem staggered_renewal_is_missed:
  assumes stat: "\<And>p w. os_Stat Y p w = (fs w p, w)" and path: "tlsCrtPath v \<noteq> []"
    and seen: "haveCertFilesUpdated Y v True ft w = ((Some b, ft'), w')" and crt: "fs w (tlsCrtPath v) = ModTime t"
    and later: "fs w2 (tlsCrtPath v) = ModTime t"
  shows "fst (fst (haveCertFilesUpdated Y v True ft' w2)) \<noteq> Some True"
proof
  assume "fst (fst (haveCertFilesUpdated Y v True ft' w2)) = Some True"
  then obtain ft2 w3 where again: "haveCertFilesUpdated Y v True ft' w2 = ((Some True, ft2), w3)"
    by (metis prod.collapse)
  from seen obtain b1 t1 w1 where "file_updated Y (tlsCrtPath v) False (tlsCrtModTime ft) w = (Some (b1, t1), w1)"
    and "tlsCrtModTime ft' = t1"
    by (elim haveCertFilesUpdated_elim) auto
  then have "t \<le> tlsCrtModTime ft'"
    using file_updated_stored(1) [OF stat _ path crt] by simp
  moreover from again obtain t2 w4 where "file_updated Y (tlsCrtPath v) False (tlsCrtModTime ft') w2 = (Some (True, t2), w4)"
    by (elim haveCertFilesUpdated_elim) auto
  ultimately show False
    using file_updated_old [OF stat] later by blast
qed

text \<open>A world that is a file system, for evaluation: its files' times, and how often it has slept.\<close>

record fs_world =
  fw_times :: "(string \<times> instant) list"
  fw_sleeps :: nat

definition fs_stat :: "fs_world \<Rightarrow> string \<Rightarrow> stat" where
  "fs_stat w p = (case map_of (fw_times w) p of None \<Rightarrow> NotExist | Some t \<Rightarrow> ModTime t)"

definition fs_sys :: "fs_world sys" where
  "fs_sys = \<lparr>os_Stat = \<lambda>p w. (fs_stat w p, w), os_ReadFile = \<lambda>p w. (Inl (Errorf ''no file''), w),
     time_Now = \<lambda>w. (0, w), time_Sleep = \<lambda>n w. w\<lparr>fw_sleeps := Suc (fw_sleeps w)\<rparr>,
     http_Get = \<lambda>u w. (Inl (Errorf ''offline''), w), k8s_Apply = \<lambda>n s c k w. (None, w),
     k8s_Get = \<lambda>n s w. (Inr None, w), k8s_Create = \<lambda>n s c k w. (None, w), k8s_Update = \<lambda>n s u c k w. (None, w),
     aws_LoadConfig = \<lambda>r w. (None, w), acm_List = \<lambda>c w. ([], w),
     acm_Describe = \<lambda>c a w. (Inl (Errorf ''not found''), w), acm_ListTags = \<lambda>c a w. (Inl (Errorf ''not found''), w),
     acm_Import = \<lambda>c a x k h w. (Inl (Errorf ''denied''), w), acm_AddTags = \<lambda>c a t w. (None, w),
     acm_Delete = \<lambda>c a w. (None, w), r53_ListZones = \<lambda>c d w. (Inr [], w),
     r53_CreateZone = \<lambda>c d p w. (Inl (Errorf ''denied''), w), r53_ListRecords = \<lambda>c z n t w. (Inr [], w),
     r53_Change = \<lambda>c z a r w. (None, w)\<rparr>"

definition demo_builtin :: builtin_pems where
  "demo_builtin = \<lparr>DEFAULT_INTER1_PEM = [], DEFAULT_INTER2_PEM = [], DEFAULT_ROOT_PEM = []\<rparr>"

definition demo_env :: envVars where
  "demo_env = fst (getEnvVars fs_sys demo_builtin [''CERTIFICATE_FILE'' \<mapsto> ''crt'', ''PRIVATE_KEY_FILE'' \<mapsto> ''key'',
     ''CA_CERTIFICATE_FILE'' \<mapsto> ''ca'', ''POD_FILE_UPDATE_TIMEOUT_SECS'' \<mapsto> ''1''] \<lparr>fw_times = [], fw_sleeps = 0\<rparr>)"

lemma ParseInt_1: "ParseInt ''1'' = Some 1"
  by code_simp

lemma demo_env_simps [simp]:
  "tlsCrtPath demo_env = ''crt''" "tlsKeyPath demo_env = ''key''" "caCrtPath demo_env = ''ca''"
  "podFileUpdateSleepTimeout demo_env = 1000"
  by (simp_all add: demo_env_def getEnvVars_def get_cert_def httpGetCertPEM_def fs_sys_def env_or_def yes_def Let_def ParseInt_1)

lemma fs_os_Stat: "os_Stat fs_sys p w = (fs_stat w p, w)"
  by (simp add: fs_sys_def)

definition crt_renewed :: fs_world where
  "crt_renewed = \<lparr>fw_times = [(''crt'', 2), (''key'', 1), (''ca'', 2)], fw_sleeps = 0\<rparr>"

definition all_renewed :: fs_world where
  "all_renewed = \<lparr>fw_times = [(''crt'', 2), (''key'', 2), (''ca'', 2)], fw_sleeps = 0\<rparr>"

theorem staggered_renewal_is_missed_witness:
  "fst (fst (haveCertFilesUpdated fs_sys demo_env True \<lparr>tlsCrtModTime = 1, tlsKeyModTime = 1, caCrtModTime = 1\<rparr> all_renewed)) = Some True \<and>
   fst (fst (haveCertFilesUpdated fs_sys demo_env True \<lparr>tlsCrtModTime = 2, tlsKeyModTime = 1, caCrtModTime = 2\<rparr> all_renewed)) \<noteq> Some True"
proof
  show "fst (fst (haveCertFilesUpdated fs_sys demo_env True \<lparr>tlsCrtModTime = 1, tlsKeyModTime = 1, caCrtModTime = 1\<rparr> all_renewed)) = Some True"
    by (simp add: haveCertFilesUpdated_def file_updated_def file_time_def doesFileExist_def fs_os_Stat fs_stat_def all_renewed_def)
  have "haveCertFilesUpdated fs_sys demo_env True \<lparr>tlsCrtModTime = 1, tlsKeyModTime = 1, caCrtModTime = 1\<rparr> crt_renewed =
      ((Some False, \<lparr>tlsCrtModTime = 2, tlsKeyModTime = 1, caCrtModTime = 2\<rparr>), crt_renewed)"
    by (simp add: haveCertFilesUpdated_def file_updated_def file_time_def doesFileExist_def fs_os_Stat fs_stat_def crt_renewed_def)
  from staggered_renewal_is_missed [OF fs_os_Stat _ this, of 2 all_renewed]
  show "fst (fst (haveCertFilesUpdated fs_sys demo_env True \<lparr>tlsCrtModTime = 2, tlsKeyModTime = 1, caCrtModTime = 2\<rparr> all_renewed)) \<noteq> Some True"
    by (simp add: fs_stat_def crt_renewed_def all_renewed_def)
qed

section \<open>The wait\<close>

definition sleeps_left :: "int \<Rightarrow> int \<Rightarrow> bool \<Rightarrow> nat" where
  "sleeps_left T sleepTime timeOutExceeded =
     (if timeOutExceeded then 0 else if sleepTime > T then 1 else nat ((T - sleepTime) div 200) + 1)"

lemma sleeps_left_step: "Suc (sleeps_left T (st + sleepInterval) (st + sleepInterval > T)) \<le> sleeps_left T st False"
proof (cases "st + 200 > T")
  case False
  have "(T - st) div 200 = (T - (st + 200)) div 200 + 1"
    using div_add_self1 [of 200 "T - (st + 200)"] by simp
  moreover have "0 \<le> (T - (st + 200)) div 200"
    using False by simp
  ultimately show ?thesis
    using False by (simp add: sleeps_left_def sleepInterval_def)
qed (simp add: sleeps_left_def sleepInterval_def)

lemma haveCertFilesUpdated_counts:
  assumes stat: "\<And>p w. cnt (snd (os_Stat Y p w)) = cnt w"
  shows "cnt (snd (haveCertFilesUpdated Y v True ft w)) = cnt w"
proof -
  have keep: "cnt w1 = cnt w" if "os_Stat Y p w = (x, w1)" for p w x w1
    using stat [of p w] that by simp
  have upd: "cnt w1 = cnt w" if "file_updated Y p m t w = (x, w1)" for p m t w x w1
    using that unfolding file_updated_def file_time_def doesFileExist_def
    by (auto split: if_splits prod.splits option.splits stat.splits bool.splits dest!: keep)
  show ?thesis
    unfolding haveCertFilesUpdated_def by (auto split: prod.splits option.splits dest!: upd)
qed

text \<open>
  C37. The wait for the files ends, after at most one sleep of 200 ms for every 200 ms of the timeout
  and one more, whatever the files do.
\<close>

theorem wait_for_files_bounded:
  assumes stat: "\<And>p w. cnt (snd (os_Stat Y p w)) = cnt w" and sleep: "\<And>n w. cnt (time_Sleep Y n w) = Suc (cnt w)"
  shows "cnt (snd (wait_for_files Y v st timeOutExceeded ft w)) \<le>
    cnt w + sleeps_left (podFileUpdateSleepTimeout v) st timeOutExceeded"
  using assms
proof (induction Y v st timeOutExceeded ft w rule: wait_for_files.induct)
  case (1 Y v st ex ft w)
  obtain r ft1 w1 where look: "haveCertFilesUpdated Y v True ft w = ((r, ft1), w1)"
    by (metis prod.collapse)
  then have c: "cnt w1 = cnt w"
    using haveCertFilesUpdated_counts [of cnt Y, OF 1(2)] by (metis snd_conv)
  show ?case
  proof (cases r)
    case (Some b)
    show ?thesis
    proof (cases "b \<or> ex")
      case False
      let ?st = "st + sleepInterval" and ?w = "time_Sleep Y sleepInterval w1"
      have "cnt (snd (wait_for_files Y v ?st (podFileUpdateSleepTimeout v < ?st) ft1 ?w)) \<le>
          cnt ?w + sleeps_left (podFileUpdateSleepTimeout v) ?st (podFileUpdateSleepTimeout v < ?st)"
        using 1(1) [OF look [symmetric] refl Some False refl refl 1(2,3)] by simp
      also have "\<dots> \<le> cnt w + sleeps_left (podFileUpdateSleepTimeout v) st ex"
        using sleeps_left_step [of "podFileUpdateSleepTimeout v" st] False 1(3) c by simp
      finally show ?thesis
        using look Some False by (subst wait_for_files.simps) (simp add: Let_def)
    qed (use look Some c in \<open>subst wait_for_files.simps, simp\<close>)
  qed (use look c in \<open>subst wait_for_files.simps, simp\<close>)
qed

theorem wait_for_files_bounded_witness:
  "fw_sleeps (snd (wait_for_files fs_sys demo_env 0 False \<lparr>tlsCrtModTime = 1, tlsKeyModTime = 1, caCrtModTime = 1\<rparr> crt_renewed)) \<le> 6"
  using wait_for_files_bounded [of fw_sleeps fs_sys demo_env 0 False "\<lparr>tlsCrtModTime = 1, tlsKeyModTime = 1, caCrtModTime = 1\<rparr>" crt_renewed]
  by (simp add: fs_os_Stat fs_sys_def crt_renewed_def sleeps_left_def)

end
