(* ===== verification/Cert_Chain.thy ===== *)
theory Cert_Chain
  imports Cert_Acm
begin

text \<open>
  Properties of the chain that is read from the pod's files, and of what an import does to the
  certificates of an ACM account.
\<close>

section \<open>The chain\<close>

lemma concat_split_after: "concat (split_after sep part s) = part @ s"
proof (induction sep part s rule: split_after.induct)
  case (2 sep part c cs)
  show ?case
  proof (cases "sep \<noteq> [] \<and> prefix sep (c # cs)")
    case True
    then have "sep @ drop (length sep) (c # cs) = c # cs"
      by (auto elim!: prefixE)
    moreover from True have "split_after sep part (c # cs) = (part @ sep) # split_after sep [] (drop (length sep) (c # cs))"
      by (subst split_after.simps) (rule if_P)
    ultimately show ?thesis
      using 2(1) [OF True] by (simp del: drop_append)
  next
    case False
    then have "split_after sep part (c # cs) = split_after sep (part @ [c]) cs"
      by (subst split_after.simps) (rule if_not_P)
    then show ?thesis
      using 2(2) [OF False] by simp
  qed
qed simp

text \<open>Nothing of the input is lost, and every part but the last ends with the separator.\<close>

lemma concat_SplitAfter: "concat (SplitAfter s sep) = s"
  by (simp add: SplitAfter_def concat_split_after)

lemma split_after_not_Nil [simp]: "split_after sep part s \<noteq> []"
  by (induction sep part s rule: split_after.induct) auto

lemma split_after_suffix: "x \<in> set (butlast (split_after sep part s)) \<Longrightarrow> suffix sep x"
  by (induction sep part s rule: split_after.induct) (auto split: if_splits simp: suffix_def)

lemma SplitAfter_suffix: "Suc i < length (SplitAfter s sep) \<Longrightarrow> suffix sep (SplitAfter s sep ! i)"
  unfolding SplitAfter_def
  by (rule split_after_suffix [of _ sep "[]" s]) (metis in_set_conv_nth length_butlast less_diff_conv nth_butlast Suc_eq_plus1)

lemma readCertFiles_elim:
  assumes "readCertFiles Y v w = (Inr c, w')"
  obtains crt w1 key w2 ca where "read_or_empty Y (tlsCrtPath v) w = (crt, w1)" and "read_or_empty Y (tlsKeyPath v) w1 = (key, w2)"
    and "read_or_empty Y (caCrtPath v) w2 = (ca, w')" and "tlsKey c = key"
    and "tlsCrtChain c = tlsCrt c @ caCrt c @ rootCert v" and "caCrtChain c = caCrt c @ rootCert v"
    and "if ca = [] then length (SplitAfter crt END_CERTIFICATE) > 2 \<and> tlsCrt c = SplitAfter crt END_CERTIFICATE ! 0 \<and>
           caCrt c = SplitAfter crt END_CERTIFICATE ! 1
         else tlsCrt c = crt \<and> caCrt c = ca"
  using assms unfolding readCertFiles_def by (auto simp: Let_def split: prod.splits if_splits)

lemma long_list_split: "2 < length xs \<Longrightarrow> xs = xs ! 0 # xs ! 1 # drop 2 xs"
  by (metis Cons_nth_drop_Suc One_nat_def Suc_1 drop_0 less_imp_le_nat not_less_eq numeral_2_eq_2 order_less_trans zero_less_Suc lessI)

text \<open>
  A chain that is read ends in the root certificate, with the CA certificate before it.  When
  there is no CA file, both certificates are the first two of the certificate file, cut after their
  end markers: put together they are a prefix of the file.
\<close>

theorem readCertFiles_chain:
  assumes read: "readCertFiles Y v w = (Inr c, w')"
  shows "tlsCrtChain c = tlsCrt c @ caCrtChain c \<and> caCrtChain c = caCrt c @ rootCert v \<and> caCrt c \<noteq> [] \<and>
    (fst (read_or_empty Y (tlsCrtPath v) w) = tlsCrt c \<or>
     suffix END_CERTIFICATE (tlsCrt c) \<and> suffix END_CERTIFICATE (caCrt c) \<and>
     prefix (tlsCrt c @ caCrt c) (fst (read_or_empty Y (tlsCrtPath v) w)))"
  using read
proof (rule readCertFiles_elim, goal_cases)
  case (1 crt w1 key w2 ca)
  show ?case
  proof (cases "ca = []")
    case True
    let ?parts = "SplitAfter crt END_CERTIFICATE"
    from 1 True have parts: "2 < length ?parts" "tlsCrt c = ?parts ! 0" "caCrt c = ?parts ! 1"
      by simp_all
    then have "suffix END_CERTIFICATE (tlsCrt c)" "suffix END_CERTIFICATE (caCrt c)"
      by (simp_all add: SplitAfter_suffix)
    moreover have "crt = (tlsCrt c @ caCrt c) @ concat (drop 2 ?parts)"
      using arg_cong [OF long_list_split [OF parts(1)], of concat] parts by (simp add: concat_SplitAfter)
    moreover have "caCrt c \<noteq> []"
      using \<open>suffix END_CERTIFICATE (caCrt c)\<close> by (auto simp: suffix_def END_CERTIFICATE_def)
    ultimately show ?thesis
      using 1 by (auto intro: prefixI)
  qed (use 1 in simp)
qed

section \<open>An ACM account\<close>

text \<open>
  What the code relies on of ACM, for the certificates that a listing covers: a listing that is not cut
  off by an error names each of them, in any order; reads change nothing and answer truthfully, an import replaces the content of the certificate it names or makes a new
  one without tags, and a call that fails changes nothing.  Every call may fail.
\<close>

record acm_cert =
  ac_arn :: string
  ac_body :: "string \<times> string \<times> string"
  ac_tags :: "(string \<times> string) list"

text \<open>What the pages of a listing hold before the first error, and whether they are complete.\<close>

fun listed :: "(go_err + 'a list) list \<Rightarrow> 'a list \<times> bool" where
  "listed [] = ([], True)"
| "listed (Inl err # pages) = ([], False)"
| "listed (Inr xs # pages) = (case listed pages of (ys, b) \<Rightarrow> (xs @ ys, b))"

definition acm_ok :: "'w sys \<Rightarrow> aws_config \<Rightarrow> ('w \<Rightarrow> acm_cert list) \<Rightarrow> bool" where
  "acm_ok Y svc V \<longleftrightarrow>
     (\<forall>w. distinct (map ac_arn (V w)) \<and> [] \<notin> ac_arn ` set (V w)) \<and>
     (\<forall>w. V (snd (acm_List Y svc w)) = V w \<and>
        set (fst (listed (fst (acm_List Y svc w)))) \<subseteq> ac_arn ` set (V w) \<and>
        (snd (listed (fst (acm_List Y svc w))) \<longrightarrow> ac_arn ` set (V w) \<subseteq> set (fst (listed (fst (acm_List Y svc w)))))) \<and>
     (\<forall>a w. V (snd (acm_Describe Y svc a w)) = V w) \<and>
     (\<forall>a w. V (snd (acm_ListTags Y svc a w)) = V w) \<and>
     (\<forall>w. \<forall>c\<in>set (V w). \<forall>tags. fst (acm_ListTags Y svc (ac_arn c) w) = Inr tags \<longrightarrow> tags = ac_tags c) \<and>
     (\<forall>a x k h w. V (snd (acm_Import Y svc (Some a) x k h w)) =
        (case fst (acm_Import Y svc (Some a) x k h w) of Inl _ \<Rightarrow> V w
         | Inr _ \<Rightarrow> map (\<lambda>c. if ac_arn c = a then c\<lparr>ac_body := (x, k, h)\<rparr> else c) (V w))) \<and>
     (\<forall>x k h w. V (snd (acm_Import Y svc None x k h w)) =
        (case fst (acm_Import Y svc None x k h w) of Inl _ \<Rightarrow> V w
         | Inr a \<Rightarrow> V w @ [\<lparr>ac_arn = a, ac_body = (x, k, h), ac_tags = []\<rparr>])) \<and>
     (\<forall>a ts w. V (snd (acm_AddTags Y svc a ts w)) =
        (case fst (acm_AddTags Y svc a ts w) of Some _ \<Rightarrow> V w
         | None \<Rightarrow> map (\<lambda>c. if ac_arn c = a then c\<lparr>ac_tags := ac_tags c @ ts\<rparr> else c) (V w))) \<and>
     (\<forall>a w. V (snd (acm_Delete Y svc a w)) =
        (case fst (acm_Delete Y svc a w) of Some _ \<Rightarrow> V w | None \<Rightarrow> filter (\<lambda>c. ac_arn c \<noteq> a) (V w)))"

text \<open>What is reached from a world by reading the account.\<close>

inductive reads :: "'w sys \<Rightarrow> aws_config \<Rightarrow> 'w \<Rightarrow> 'w \<Rightarrow> bool" for Y svc w where
  reads_refl: "reads Y svc w w"
| reads_list: "reads Y svc w u \<Longrightarrow> reads Y svc w (snd (acm_List Y svc u))"
| reads_describe: "reads Y svc w u \<Longrightarrow> reads Y svc w (snd (acm_Describe Y svc a u))"
| reads_tags: "reads Y svc w u \<Longrightarrow> reads Y svc w (snd (acm_ListTags Y svc a u))"

text \<open>A certificate that could not be described, or whose tags could not be listed, at some point of a
  search that started in \<open>w\<close>.\<close>

definition unread :: "'w sys \<Rightarrow> aws_config \<Rightarrow> 'w \<Rightarrow> acm_cert \<Rightarrow> bool" where
  "unread Y svc w c \<longleftrightarrow>
     (\<exists>u. reads Y svc w u \<and> (isl (fst (acm_Describe Y svc (ac_arn c) u)) \<or> isl (fst (acm_ListTags Y svc (ac_arn c) u))))"

definition has_name :: "string \<Rightarrow> acm_cert \<Rightarrow> bool" where
  "has_name n c \<longleftrightarrow> (''Name'', n) \<in> set (ac_tags c)"

lemma acm_okD:
  assumes "acm_ok Y svc V"
  shows acm_distinct: "distinct (map ac_arn (V w))" "[] \<notin> ac_arn ` set (V w)"
    and acm_List_ok: "acm_List Y svc w = (pages, w1) \<Longrightarrow> V w1 = V w" "acm_List Y svc w = (pages, w1) \<Longrightarrow> set (fst (listed pages)) \<subseteq> ac_arn ` set (V w)"
      "acm_List Y svc w = (pages, w1) \<Longrightarrow> snd (listed pages) \<Longrightarrow> ac_arn ` set (V w) \<subseteq> set (fst (listed pages))"
    and acm_Describe_ok: "acm_Describe Y svc a w = (r, w1) \<Longrightarrow> V w1 = V w"
    and acm_ListTags_ok: "acm_ListTags Y svc a w = (t, w1) \<Longrightarrow> V w1 = V w"
      "acm_ListTags Y svc (ac_arn c) w = (Inr tags, w1) \<Longrightarrow> c \<in> set (V w) \<Longrightarrow> tags = ac_tags c"
    and acm_Import_ok: "acm_Import Y svc a0 x k h w = (Inl e, w1) \<Longrightarrow> V w1 = V w"
      "acm_Import Y svc (Some a) x k h w = (Inr a', w1) \<Longrightarrow>
         V w1 = map (\<lambda>c. if ac_arn c = a then c\<lparr>ac_body := (x, k, h)\<rparr> else c) (V w)"
      "acm_Import Y svc None x k h w = (Inr a, w1) \<Longrightarrow> V w1 = V w @ [\<lparr>ac_arn = a, ac_body = (x, k, h), ac_tags = []\<rparr>]"
    and acm_AddTags_ok: "acm_AddTags Y svc a ts w = (Some e, w1) \<Longrightarrow> V w1 = V w"
      "acm_AddTags Y svc a ts w = (None, w1) \<Longrightarrow> V w1 = map (\<lambda>c. if ac_arn c = a then c\<lparr>ac_tags := ac_tags c @ ts\<rparr> else c) (V w)"
    and acm_Delete_ok: "acm_Delete Y svc a w = (Some e, w1) \<Longrightarrow> V w1 = V w"
      "acm_Delete Y svc a w = (None, w1) \<Longrightarrow> V w1 = filter (\<lambda>c. ac_arn c \<noteq> a) (V w)"
proof -
  note ok = assms [unfolded acm_ok_def]
  note r1 = ok [THEN conjunct2] and l1 = ok [THEN conjunct1, rule_format]
  note r2 = r1 [THEN conjunct2] and l2 = r1 [THEN conjunct1, THEN spec]
  note r3 = r2 [THEN conjunct2] and l3 = r2 [THEN conjunct1, rule_format]
  note r4 = r3 [THEN conjunct2] and l4 = r3 [THEN conjunct1, rule_format]
  note r5 = r4 [THEN conjunct2] and l5 = r4 [THEN conjunct1, rule_format]
  note r6 = r5 [THEN conjunct2] and imp1 = r5 [THEN conjunct1, rule_format]
  note r7 = r6 [THEN conjunct2] and imp2 = r6 [THEN conjunct1, rule_format]
  note tag = r7 [THEN conjunct1, rule_format] and del = r7 [THEN conjunct2, rule_format]
  show "distinct (map ac_arn (V w))" "[] \<notin> ac_arn ` set (V w)"
    using l1 by simp_all
  show "V w1 = V w" "set (fst (listed pages)) \<subseteq> ac_arn ` set (V w)" if "acm_List Y svc w = (pages, w1)"
    using l2 [of w] that by simp_all
  show "ac_arn ` set (V w) \<subseteq> set (fst (listed pages))" if "acm_List Y svc w = (pages, w1)" "snd (listed pages)"
    using l2 [of w] that by simp
  show "V w1 = V w" if "acm_Describe Y svc a w = (r, w1)"
    using l3 [of a w] that by simp
  show "V w1 = V w" if "acm_ListTags Y svc a w = (t, w1)"
    using l4 [of a w] that by simp
  show "tags = ac_tags c" if "acm_ListTags Y svc (ac_arn c) w = (Inr tags, w1)" "c \<in> set (V w)"
    using l5 [of c w tags] that by simp
  show "V w1 = V w" if "acm_Import Y svc a0 x k h w = (Inl e, w1)"
    using imp1 [of "the a0" x k h w] imp2 [of x k h w] that by (cases a0) simp_all
  show "V w1 = map (\<lambda>c. if ac_arn c = a then c\<lparr>ac_body := (x, k, h)\<rparr> else c) (V w)"
    if "acm_Import Y svc (Some a) x k h w = (Inr a', w1)"
    using imp1 [of a x k h w] that by simp
  show "V w1 = V w @ [\<lparr>ac_arn = a, ac_body = (x, k, h), ac_tags = []\<rparr>]"
    if "acm_Import Y svc None x k h w = (Inr a, w1)"
    using imp2 [of x k h w] that by simp
  show "V w1 = V w" if "acm_AddTags Y svc a ts w = (Some e, w1)"
    using tag [of a ts w] that by simp
  show "V w1 = map (\<lambda>c. if ac_arn c = a then c\<lparr>ac_tags := ac_tags c @ ts\<rparr> else c) (V w)" if "acm_AddTags Y svc a ts w = (None, w1)"
    using tag [of a ts w] that by simp
  show "V w1 = V w" if "acm_Delete Y svc a w = (Some e, w1)"
    using del [of a w] that by simp
  show "V w1 = filter (\<lambda>c. ac_arn c \<noteq> a) (V w)" if "acm_Delete Y svc a w = (None, w1)"
    using del [of a w] that by simp
qed

section \<open>The search\<close>

text \<open>What a search may answer: the ARN of a certificate with the name, or none, and then every
  certificate with the name, among those it looked at, was one it could not read.\<close>

definition searched :: "'w sys \<Rightarrow> aws_config \<Rightarrow> 'w \<Rightarrow> string \<Rightarrow> acm_cert set \<Rightarrow> string option \<Rightarrow> bool" where
  "searched Y svc w n cs r \<longleftrightarrow>
     (case r of
        Some a \<Rightarrow> \<exists>c\<in>cs. has_name n c \<and> a = ac_arn c
      | None \<Rightarrow> \<forall>c\<in>cs. has_name n c \<longrightarrow> unread Y svc w c)"

lemma searched_Some: "searched Y svc w n cs (Some a) \<Longrightarrow> cs \<subseteq> ds \<Longrightarrow> searched Y svc w n ds (Some a)"
  by (auto simp: searched_def)

lemma searched_None: "searched Y svc w n cs None \<Longrightarrow> searched Y svc w n ds None \<Longrightarrow> searched Y svc w n (cs \<union> ds) None"
  by (auto simp: searched_def)

definition certs_at :: "string list \<Rightarrow> acm_cert list \<Rightarrow> acm_cert set" where
  "certs_at arns cs = {c \<in> set cs. ac_arn c \<in> set arns}"

lemma certs_at_append: "certs_at (as @ bs) cs = certs_at as cs \<union> certs_at bs cs"
  by (auto simp: certs_at_def)

lemma certs_at_Cons:
  assumes "acm_ok Y svc V" and "c \<in> set (V w)"
  shows "certs_at (ac_arn c # arns) (V w) = insert c (certs_at arns (V w))"
  using acm_distinct(1) [OF assms(1), of w] assms(2) by (auto simp: certs_at_def distinct_map dest: inj_onD)

lemma find_in_page_finds:
  assumes ok: "acm_ok Y svc V" and "set arns \<subseteq> ac_arn ` set (V w)" and "reads Y svc w u" and "V u = V w"
    and "find_in_page Y svc n arns u = (r, u')"
  shows "V u' = V w \<and> reads Y svc w u' \<and> searched Y svc w n (certs_at arns (V w)) r"
  using assms(2-)
proof (induction arns arbitrary: u)
  case Nil
  then show ?case by (simp add: searched_def certs_at_def)
next
  case (Cons arn arns)
  from Cons.prems(1) obtain c where c: "c \<in> set (V w)" "arn = ac_arn c" by auto
  obtain d u1 where d: "acm_Describe Y svc arn u = (d, u1)" by fastforce
  obtain t u2 where t: "acm_ListTags Y svc arn u1 = (t, u2)" by fastforce
  have V: "V u1 = V w" "V u2 = V w"
    using acm_Describe_ok [OF ok d] acm_ListTags_ok(1) [OF ok t] Cons.prems(3) by simp_all
  have r1: "reads Y svc w u1" using reads_describe [OF Cons.prems(2), of arn] d by simp
  then have r2: "reads Y svc w u2" using reads_tags [OF r1, of arn] t by simp
  have bad: "unread Y svc w c" if "isl d \<or> isl t"
    unfolding unread_def using that d t c(2) Cons.prems(2) r1 by (metis fst_conv)
  show ?case
  proof (cases "isl d \<or> isl t")
    case True
    then have "\<exists>u3. V u3 = V w \<and> reads Y svc w u3 \<and> find_in_page Y svc n arns u3 = (r, u')"
      using Cons.prems(4) d t V r1 r2 by (cases d; cases t) auto
    then have "V u' = V w \<and> reads Y svc w u' \<and> searched Y svc w n (certs_at arns (V w)) r"
      using Cons.IH Cons.prems(1) by auto
    then show ?thesis
      using bad [OF True] certs_at_Cons [OF ok c(1), of arns] c(2) by (cases r) (auto simp: searched_def)
  next
    case False
    then obtain tags where tags: "t = Inr tags" by (cases t) auto
    with acm_ListTags_ok(2) [OF ok] t c V(1) have "tags = ac_tags c" by simp
    with False tags Cons.prems(4) d t have
      "(if has_name n c then (Some arn, u2) else find_in_page Y svc n arns u2) = (r, u')"
      by (cases d) (auto simp: has_name_def)
    then show ?thesis
      using Cons.IH [of u2] Cons.prems(1) V r2 certs_at_Cons [OF ok c(1), of arns] c(2)
      by (cases r) (auto simp: searched_def split: if_splits)
  qed
qed

lemma find_in_pages_finds:
  assumes ok: "acm_ok Y svc V" and "set (fst (listed pages)) \<subseteq> ac_arn ` set (V w)" and "reads Y svc w u" and "V u = V w"
    and "find_in_pages Y svc n pages u = (r, u')"
  shows "V u' = V w \<and>
    (case r of Inl _ \<Rightarrow> True
     | Inr a \<Rightarrow> if a = [] then snd (listed pages) \<and> searched Y svc w n (certs_at (fst (listed pages)) (V w)) None
               else searched Y svc w n (set (V w)) (Some a))"
  using assms(2-)
proof (induction pages arbitrary: u rule: listed.induct)
  case 1
  then show ?case by (auto simp: searched_def certs_at_def)
next
  case (2 err pages)
  then show ?case by auto
next
  case (3 arns pages)
  obtain ys b where rest: "listed pages = (ys, b)" by fastforce
  obtain x u1 where x: "find_in_page Y svc n arns u = (x, u1)" by fastforce
  have here: "V u1 = V w" "reads Y svc w u1" "searched Y svc w n (certs_at arns (V w)) x"
    using find_in_page_finds [OF ok _ 3(3,4) x] 3(2) rest by auto
  show ?case
  proof (cases x)
    case (Some a)
    then have "searched Y svc w n (set (V w)) (Some a)"
      using searched_Some [OF here(3) [unfolded Some]] by (auto simp: certs_at_def)
    moreover from this have "a \<noteq> []" using acm_distinct(2) [OF ok, of w] by (auto simp: searched_def) (metis imageI)
    ultimately show ?thesis using 3(5) x Some here(1) by auto
  next
    case None
    then have "find_in_pages Y svc n pages u1 = (r, u')" using 3(5) x by simp
    with "3.IH" [unfolded rest fst_conv snd_conv, OF _ here(2,1)] 3(2) rest have "V u' = V w \<and>
      (case r of Inl _ \<Rightarrow> True
       | Inr a \<Rightarrow> if a = [] then b \<and> searched Y svc w n (certs_at ys (V w)) None
                 else searched Y svc w n (set (V w)) (Some a))" by (cases r) simp_all
    then show ?thesis
      using searched_None [OF here(3) [unfolded None], of "certs_at ys (V w)"] rest
      by (auto simp: certs_at_append split: sum.splits if_splits)
  qed
qed

lemma findCertificateByName_finds:
  assumes ok: "acm_ok Y svc V" and run: "findCertificateByName Y svc n w = (r, w')"
  shows "V w' = V w" and "r = Inr a \<Longrightarrow> a \<noteq> [] \<Longrightarrow> \<exists>c\<in>set (V w). has_name n c \<and> a = ac_arn c"
    and "r = Inr [] \<Longrightarrow> c \<in> set (V w) \<Longrightarrow> has_name n c \<Longrightarrow> unread Y svc w c"
proof -
  obtain pages w1 where pages: "acm_List Y svc w = (pages, w1)" by fastforce
  with run have find: "find_in_pages Y svc n pages w1 = (r, w')" by (simp add: findCertificateByName_def)
  note list = acm_List_ok [OF ok pages]
  have "reads Y svc w w1" using reads_list [OF reads_refl, of Y svc w] pages by simp
  note res = find_in_pages_finds [OF ok list(2) this list(1) find]
  from res show "V w' = V w" by simp
  from res show "\<exists>c\<in>set (V w). has_name n c \<and> a = ac_arn c" if "r = Inr a" "a \<noteq> []"
    using that by (auto simp: searched_def)
  show "unread Y svc w c" if "r = Inr []" "c \<in> set (V w)" "has_name n c"
    using res that list(3) by (auto simp: searched_def certs_at_def)
qed

section \<open>Import and deletion\<close>

definition replaced :: "string \<Rightarrow> string \<times> string \<times> string \<Rightarrow> acm_cert list \<Rightarrow> acm_cert list" where
  "replaced a body cs = map (\<lambda>c. if ac_arn c = a then c\<lparr>ac_body := body\<rparr> else c) cs"

lemma map_snoc_other: "a \<notin> ac_arn ` set cs \<Longrightarrow> map (\<lambda>c. if ac_arn c = a then f c else c) (cs @ [c]) =
    cs @ [if ac_arn c = a then f c else c]"
  by (induction cs) auto

text \<open>No certificate with the name, as far as the search could tell.\<close>

definition unnamed :: "'w sys \<Rightarrow> aws_config \<Rightarrow> ('w \<Rightarrow> acm_cert list) \<Rightarrow> string \<Rightarrow> 'w \<Rightarrow> bool" where
  "unnamed Y svc V n w \<longleftrightarrow> (\<forall>c\<in>set (V w). has_name n c \<longrightarrow> unread Y svc w c)"

text \<open>
  C38. An update that reports success has replaced the content of one certificate with the configured
  name; or, when it saw none and may create one, it has added one new certificate with this content, the
  name and the tags; or, when it may not, it has changed nothing.  One that reports a failure has changed
  nothing, or has left one certificate without tags behind.  It sees no certificate with the name only if
  there is none or reading each such certificate failed: then a second one with the name is added.
\<close>

theorem import_chain_puts:
  assumes ok: "acm_ok Y svc V" and run: "import_chain Y svc v create tags certs w = ((st, msg), w')"
    and body: "body = (tlsCrt certs, tlsKey certs, caCrtChain certs)" and n: "n = acmCertificateName v"
  shows "if st = 200
    then (\<exists>c\<in>set (V w). has_name n c \<and> V w' = replaced (ac_arn c) body (V w)) \<or>
      (unnamed Y svc V n w \<and>
       (if create then \<exists>a. V w' = V w @ [\<lparr>ac_arn = a, ac_body = body, ac_tags = (''Name'', n) # tags\<rparr>] else V w' = V w))
    else V w' = V w \<or>
      (create \<and> unnamed Y svc V n w \<and> (\<exists>a. V w' = V w @ [\<lparr>ac_arn = a, ac_body = body, ac_tags = []\<rparr>]))"
proof -
  obtain r w1 where find: "findCertificateByName Y svc n w = (r, w1)" by fastforce
  note found = findCertificateByName_finds [OF ok find]
  note run' = run [unfolded import_chain_def n [symmetric] find prod.case]
  show ?thesis
  proof (cases r)
    case (Inl e)
    with run' found(1) show ?thesis by auto
  next
    case (Inr arn)
    show ?thesis
    proof (cases "arn = []")
      case False
      then obtain c where c: "c \<in> set (V w)" "has_name n c" "arn = ac_arn c" using found(2) [OF Inr] by auto
      obtain x w2 where imp: "acm_Import Y svc (Some arn) (tlsCrt certs) (tlsKey certs) (caCrtChain certs) w1 = (x, w2)"
        by fastforce
      have "w2 = w'" "st = (if isl x then 500 else 200)"
        using run' Inr False imp by (auto split: sum.splits)
      moreover have "V w2 = (if isl x then V w else replaced arn body (V w))"
        using imp found(1) acm_Import_ok(1,2) [OF ok] by (cases x) (auto simp: replaced_def body)
      ultimately show ?thesis using c by auto
    next
      case True
      then have none: "unnamed Y svc V n w" using found(3) Inr by (auto simp: unnamed_def)
      show ?thesis
      proof (cases create)
        case False
        with run' Inr True found(1) none show ?thesis by auto
      next
        case create: True
        obtain x w2 where imp: "acm_Import Y svc None (tlsCrt certs) (tlsKey certs) (caCrtChain certs) w1 = (x, w2)"
          by fastforce
        show ?thesis
        proof (cases x)
          case (Inl e)
          with run' Inr \<open>r = Inr arn\<close> True create imp acm_Import_ok(1) [OF ok, of None] found(1) show ?thesis by auto
        next
          case x: (Inr a)
          have V2: "V w2 = V w @ [\<lparr>ac_arn = a, ac_body = body, ac_tags = []\<rparr>]"
            using acm_Import_ok(3) [OF ok imp [unfolded x]] found(1) body by simp
          then have a: "a \<notin> ac_arn ` set (V w)" using acm_distinct [OF ok, of w2] by auto
          obtain y w3 where tag: "acm_AddTags Y svc a ((''Name'', n) # tags) w2 = (y, w3)" by fastforce
          have "w3 = w'" "st = (if y = None then 200 else 500)"
            using run' Inr True create imp x tag by (auto split: option.splits)
          then show ?thesis
            using tag V2 none create acm_AddTags_ok [OF ok] map_snoc_other [OF a] by (cases y) auto
        qed
      qed
    qed
  qed
qed

text \<open>
  A deletion that reports success has removed one certificate with the configured name and
  nothing else; every other outcome leaves the account as it was.
\<close>

theorem delete_certificate_removes:
  assumes ok: "\<And>svc. acm_ok Y svc V" and load: "\<And>r w. V (snd (aws_LoadConfig Y r w)) = V w"
    and run: "delete_certificate Y v w = ((st, msg), w')"
  shows "if st = 200
     then \<exists>c\<in>set (V w). has_name (acmCertificateName v) c \<and> V w' = filter (\<lambda>d. ac_arn d \<noteq> ac_arn c) (V w)
     else V w' = V w"
proof -
  let ?n = "acmCertificateName v"
  obtain l w1 where l: "aws_client Y v w = (l, w1)" by fastforce
  then have V1: "V w1 = V w"
    using load [of "region v" w] by (auto simp: aws_client_def split: prod.splits option.splits)
  note run1 = run [unfolded delete_certificate_def l prod.case]
  show ?thesis
  proof (cases "isl l \<or> ?n = []")
    case True
    with run1 V1 show ?thesis by (cases l) auto
  next
    case False
    then obtain svc where svc: "l = Inr svc" by (cases l) auto
    obtain r w2 where find: "findCertificateByName Y svc ?n w1 = (r, w2)" by fastforce
    note found = findCertificateByName_finds [OF ok find]
    show ?thesis
    proof (cases "isl r \<or> r = Inr []")
      case True
      with run1 False svc find found(1) V1 show ?thesis by (cases r) auto
    next
      case named: False
      then obtain arn where r: "r = Inr arn" "arn \<noteq> []" by (cases r) auto
      with found(2) V1 obtain c where c: "c \<in> set (V w)" "has_name ?n c" "arn = ac_arn c" by auto
      obtain x w3 where del: "acm_Delete Y svc arn w2 = (x, w3)" by fastforce
      have "w3 = w'" "st = (if x = None then 200 else 503)"
        using run1 False svc find r del by (auto split: option.splits)
      then show ?thesis
        using acm_Delete_ok [OF ok] del c found(1) V1 by (cases x) auto
    qed
  qed
qed

section \<open>An account in memory\<close>

text \<open>For evaluation: the certificates by position, \<open>None\<close> where one was deleted.\<close>

type_synonym account = "((string \<times> string \<times> string) \<times> (string \<times> string) list) option list"

definition arn_of :: "nat \<Rightarrow> string" where
  "arn_of i = replicate (Suc i) (CHR ''a'')"

fun acct_certs :: "nat \<Rightarrow> account \<Rightarrow> acm_cert list" where
  "acct_certs i [] = []"
| "acct_certs i (None # xs) = acct_certs (Suc i) xs"
| "acct_certs i (Some (b, t) # xs) = \<lparr>ac_arn = arn_of i, ac_body = b, ac_tags = t\<rparr> # acct_certs (Suc i) xs"

fun alter :: "string \<Rightarrow> ('a \<Rightarrow> 'a) \<Rightarrow> nat \<Rightarrow> 'a list \<Rightarrow> 'a list" where
  "alter a f i [] = []"
| "alter a f i (x # xs) = (if arn_of i = a then f x else x) # alter a f (Suc i) xs"

definition mem_tags :: "string \<Rightarrow> account \<Rightarrow> go_err + (string \<times> string) list" where
  "mem_tags a w = (case find (\<lambda>c. ac_arn c = a) (acct_certs 0 w) of None \<Rightarrow> Inl (Errorf ''not found'') | Some c \<Rightarrow> Inr (ac_tags c))"

definition mem_sys :: "account sys" where
  "mem_sys = \<lparr>os_Stat = \<lambda>p w. (NotExist, w), os_ReadFile = \<lambda>p w. (Inl (Errorf ''no file''), w),
     time_Now = \<lambda>w. (0, w), time_Sleep = \<lambda>n w. w,
     http_Get = \<lambda>u w. (Inl (Errorf ''offline''), w), k8s_Apply = \<lambda>n s c k w. (None, w),
     k8s_Get = \<lambda>n s w. (Inr None, w), k8s_Create = \<lambda>n s c k w. (None, w), k8s_Update = \<lambda>n s u c k w. (None, w),
     aws_LoadConfig = \<lambda>r w. (None, w), acm_List = \<lambda>c w. ([Inr (map ac_arn (acct_certs 0 w))], w),
     acm_Describe = \<lambda>c a w. (Inr \<lparr>cd_NotAfter = 0, cd_DomainName = [], cd_CertificateArn = a\<rparr>, w),
     acm_ListTags = \<lambda>c a w. (mem_tags a w, w),
     acm_Import = \<lambda>c a x k h w. (case a of
         None \<Rightarrow> (Inr (arn_of (length w)), w @ [Some ((x, k, h), [])])
       | Some a \<Rightarrow> (Inr a, alter a (map_option (apfst (\<lambda>_. (x, k, h)))) 0 w)),
     acm_AddTags = \<lambda>c a t w. (None, alter a (map_option (apsnd (\<lambda>u. u @ t))) 0 w),
     acm_Delete = \<lambda>c a w. (None, alter a (\<lambda>_. None) 0 w), r53_ListZones = \<lambda>c d w. (Inr [], w),
     r53_CreateZone = \<lambda>c d p w. (Inl (Errorf ''denied''), w), r53_ListRecords = \<lambda>c z n t w. (Inr [], w),
     r53_Change = \<lambda>c z a r w. (None, w)\<rparr>"

lemma arn_of_inj [simp]: "arn_of i = arn_of j \<longleftrightarrow> i = j" "arn_of i \<noteq> []"
  by (auto simp: arn_of_def dest: arg_cong [of _ _ length])

lemma acct_arns: "c \<in> set (acct_certs i w) \<Longrightarrow> \<exists>j\<ge>i. ac_arn c = arn_of j"
  by (induction i w rule: acct_certs.induct) (auto dest: Suc_leD)

lemma acct_distinct: "distinct (map ac_arn (acct_certs i w))"
  by (induction i w rule: acct_certs.induct) (auto dest!: acct_arns)

lemma acct_alter: "(\<And>b t. f (b, t) = (fst (f (b, t)), snd (f (b, t)))) \<Longrightarrow>
    acct_certs i (alter a (map_option f) i w) =
    map (\<lambda>c. if ac_arn c = a then c\<lparr>ac_body := fst (f (ac_body c, ac_tags c)), ac_tags := snd (f (ac_body c, ac_tags c))\<rparr> else c) (acct_certs i w)"
proof (induction i w rule: acct_certs.induct)
  case (3 i b t xs)
  then show ?case
    by (cases "f (b, t)") simp
qed simp_all

lemma acct_delete: "acct_certs i (alter a (\<lambda>_. None) i w) = filter (\<lambda>c. ac_arn c \<noteq> a) (acct_certs i w)"
  by (induction i w rule: acct_certs.induct) auto

lemma acct_append: "acct_certs i (w @ [Some (b, t)]) = acct_certs i w @ [\<lparr>ac_arn = arn_of (i + length w), ac_body = b, ac_tags = t\<rparr>]"
  by (induction i w rule: acct_certs.induct) auto

lemma mem_tags_ok: "c \<in> set (acct_certs 0 w) \<Longrightarrow> mem_tags (ac_arn c) w = Inr (ac_tags c)"
  by (simp add: mem_tags_def find_unique [OF acct_distinct])

lemma mem_sys_ok: "acm_ok mem_sys svc (acct_certs 0)"
proof -
  have "[] \<notin> ac_arn ` set (acct_certs 0 w)" for w
    by (metis acct_arns arn_of_inj(2) imageE)
  moreover have "acct_certs 0 (alter a (map_option (apfst (\<lambda>_. (x, k, h)))) 0 w) =
      map (\<lambda>c. if ac_arn c = a then c\<lparr>ac_body := (x, k, h)\<rparr> else c) (acct_certs 0 w)" for a x k h w
    by (subst acct_alter) auto
  moreover have "acct_certs 0 (alter a (map_option (apsnd (\<lambda>u. u @ t))) 0 w) =
      map (\<lambda>c. if ac_arn c = a then c\<lparr>ac_tags := ac_tags c @ t\<rparr> else c) (acct_certs 0 w)" for a t w
    by (subst acct_alter) auto
  ultimately show ?thesis
    by (auto simp: acm_ok_def mem_sys_def acct_distinct mem_tags_ok acct_delete acct_append)
qed

definition mem_env :: envVars where
  "mem_env = fst (getEnvVars mem_sys \<lparr>DEFAULT_INTER1_PEM = [], DEFAULT_INTER2_PEM = [], DEFAULT_ROOT_PEM = []\<rparr> Map.empty [])"

lemma mem_env_simps [simp]: "acmCertificateName mem_env = ''ACM_Certificate_Importer''" "region mem_env = ''us-west-2''"
    "awsAccessKey mem_env = []"
  by (simp_all add: mem_env_def getEnvVars_def get_cert_def httpGetCertPEM_def mem_sys_def env_or_def Let_def)

definition demo_chain :: certChain where
  "demo_chain = \<lparr>tlsCrt = ''crt'', tlsKey = ''key'', caCrt = ''ca'', tlsCrtChain = ''crtca'', caCrtChain = ''ca''\<rparr>"

definition demo_account :: account where
  "demo_account = [Some ((''x'', ''y'', ''z''), [(''Name'', ''other'')]), None]"

lemma demo_import: "import_chain mem_sys svc mem_env True [] demo_chain demo_account =
    ((200, ''Successfully imported certificate into ACM, cert ARN = '' @ arn_of 2),
     demo_account @ [Some ((''crt'', ''key'', ''ca''), [(''Name'', ''ACM_Certificate_Importer'')])])"
  by (simp add: import_chain_def findCertificateByName_def mem_sys_def demo_account_def demo_chain_def mem_tags_def)

theorem import_chain_puts_witness:
  "unnamed mem_sys (''us-west-2'', None) (acct_certs 0) ''ACM_Certificate_Importer'' demo_account \<and>
   (\<exists>a. acct_certs 0 (demo_account @ [Some ((''crt'', ''key'', ''ca''), [(''Name'', ''ACM_Certificate_Importer'')])]) =
      acct_certs 0 demo_account @
        [\<lparr>ac_arn = a, ac_body = (''crt'', ''key'', ''ca''), ac_tags = [(''Name'', ''ACM_Certificate_Importer'')]\<rparr>])"
proof -
  have "\<not> has_name ''ACM_Certificate_Importer'' c" if "c \<in> set (acct_certs 0 demo_account)" for c
    using that by (auto simp: demo_account_def has_name_def)
  with import_chain_puts [OF mem_sys_ok demo_import [of "(''us-west-2'', None)"] refl refl] show ?thesis by (auto simp: demo_chain_def)
qed

text \<open>When the tags of the certificate with the name cannot be listed, the update adds a second one.\<close>

lemma unread_certificate_is_duplicated:
  assumes "acm_ListTags Y svc = (\<lambda>a w. (Inl (Errorf ''throttled''), w))"
    and "acm_List Y = acm_List mem_sys" "acm_Describe Y = acm_Describe mem_sys"
    and "acm_Import Y = acm_Import mem_sys" "acm_AddTags Y = acm_AddTags mem_sys"
  shows "fst (fst (import_chain Y svc mem_env True [] demo_chain [Some (b, [(''Name'', ''ACM_Certificate_Importer'')])])) = 200 \<and>
    length (filter (has_name ''ACM_Certificate_Importer'') (acct_certs 0
      (snd (import_chain Y svc mem_env True [] demo_chain [Some (b, [(''Name'', ''ACM_Certificate_Importer'')])])))) = 2"
  using assms by (simp add: import_chain_def findCertificateByName_def mem_sys_def has_name_def)

lemma demo_delete: "delete_certificate mem_sys mem_env [Some ((''x'', ''y'', ''z''), [(''Name'', ''ACM_Certificate_Importer'')])] =
    ((200, ''Successfully deleted certificate, ARN='' @ arn_of 0), [None])"
  by (simp add: delete_certificate_def aws_client_def findCertificateByName_def mem_sys_def mem_tags_def)

theorem delete_certificate_removes_witness:
  "\<exists>c\<in>set (acct_certs 0 [Some ((''x'', ''y'', ''z''), [(''Name'', ''ACM_Certificate_Importer'')])]).
     has_name ''ACM_Certificate_Importer'' c \<and> acct_certs 0 [None] = filter (\<lambda>d. ac_arn d \<noteq> ac_arn c) (acct_certs 0 [Some ((''x'', ''y'', ''z''), [(''Name'', ''ACM_Certificate_Importer'')])])"
  using delete_certificate_removes [OF mem_sys_ok _ demo_delete] by (simp add: mem_sys_def)

text \<open>A pod whose CA file is missing.\<close>

definition split_sys :: "unit sys" where
  "split_sys = \<lparr>os_Stat = \<lambda>p w. (NotExist, w),
     os_ReadFile = \<lambda>p w. (if p = tlsCrtPath mem_env
         then Inr (''a'' @ END_CERTIFICATE @ ''b'' @ END_CERTIFICATE @ ''c'') else Inl (Errorf ''no file''), w),
     time_Now = \<lambda>w. (0, w), time_Sleep = \<lambda>n w. w,
     http_Get = \<lambda>u w. (Inl (Errorf ''offline''), w), k8s_Apply = \<lambda>n s c k w. (None, w),
     k8s_Get = \<lambda>n s w. (Inr None, w), k8s_Create = \<lambda>n s c k w. (None, w), k8s_Update = \<lambda>n s u c k w. (None, w),
     aws_LoadConfig = \<lambda>r w. (None, w), acm_List = \<lambda>c w. ([], w),
     acm_Describe = \<lambda>c a w. (Inl (Errorf ''not found''), w), acm_ListTags = \<lambda>c a w. (Inl (Errorf ''not found''), w),
     acm_Import = \<lambda>c a x k h w. (Inl (Errorf ''denied''), w), acm_AddTags = \<lambda>c a t w. (None, w),
     acm_Delete = \<lambda>c a w. (None, w), r53_ListZones = \<lambda>c d w. (Inr [], w),
     r53_CreateZone = \<lambda>c d p w. (Inl (Errorf ''denied''), w), r53_ListRecords = \<lambda>c z n t w. (Inr [], w),
     r53_Change = \<lambda>c z a r w. (None, w)\<rparr>"

lemma demo_split: "SplitAfter (''a'' @ END_CERTIFICATE @ ''b'' @ END_CERTIFICATE @ ''c'') END_CERTIFICATE =
    [''a'' @ END_CERTIFICATE, ''b'' @ END_CERTIFICATE, ''c'']"
  by (simp add: SplitAfter_def END_CERTIFICATE_def)

lemma mem_env_paths: "tlsCrtPath mem_env = ''/etc/ssl/cert/cert-man/tls.crt''" "tlsKeyPath mem_env = ''/etc/ssl/cert/cert-man/tls.key''"
    "caCrtPath mem_env = ''/etc/ssl/cert/cert-man/ca.crt''"
  by (simp_all add: mem_env_def getEnvVars_def get_cert_def httpGetCertPEM_def mem_sys_def env_or_def Let_def yes_def ToLower_def)

lemma demo_read: "readCertFiles split_sys mem_env () =
    (Inr \<lparr>tlsCrt = ''a'' @ END_CERTIFICATE, tlsKey = [], caCrt = ''b'' @ END_CERTIFICATE,
       tlsCrtChain = (''a'' @ END_CERTIFICATE) @ (''b'' @ END_CERTIFICATE) @ rootCert mem_env,
       caCrtChain = (''b'' @ END_CERTIFICATE) @ rootCert mem_env\<rparr>, ())"
  unfolding readCertFiles_def read_or_empty_def split_sys_def by (simp add: mem_env_paths demo_split [simplified] Let_def)

theorem readCertFiles_chain_witness:
  "prefix ((''a'' @ END_CERTIFICATE) @ (''b'' @ END_CERTIFICATE)) (fst (read_or_empty split_sys (tlsCrtPath mem_env) ())) \<or>
   fst (read_or_empty split_sys (tlsCrtPath mem_env) ()) = ''a'' @ END_CERTIFICATE"
  using readCertFiles_chain [OF demo_read] by auto

end
