(* ===== verification/Cert_Requests.thy ===== *)
theory Cert_Requests
  imports Cert_Dns Cert_Chain
begin

text \<open>
  Properties of the DNS handlers of the cert-synchronizer: which requests they refuse, that nothing
  reaches Route 53 unless it was validated, and the normal form of a record's parameters.
\<close>

section \<open>The normal form\<close>

lemma of_char_to_lower:
  "(of_char (to_lower_char c) :: nat) = (if 65 \<le> (of_char c :: nat) \<and> of_char c \<le> (90 :: nat) then of_char c + 32 else of_char c)"
  by (simp add: to_lower_char_def less_eq_char_def)

lemma to_lower_char_idem [simp]: "to_lower_char (to_lower_char c) = to_lower_char c"
proof -
  have "(of_char (to_lower_char (to_lower_char c)) :: nat) = of_char (to_lower_char c)"
    by (simp add: of_char_to_lower)
  then show ?thesis
    by (simp only: of_char_eq_iff)
qed

lemma ToLower_idem [simp]: "ToLower (ToLower s) = ToLower s"
  by (simp add: ToLower_def)

lemma ToLower_Nil [simp]: "ToLower s = [] \<longleftrightarrow> s = []"
  by (simp add: ToLower_def)

lemma ToLower_dot [simp]: "HasSuffix (ToLower (s @ ''.'')) ''.''"
  by (simp add: HasSuffix_def ToLower_def to_lower_char_def suffix_def)

lemma to_lower_char_dot [simp]: "to_lower_char c = CHR ''.'' \<longleftrightarrow> c = CHR ''.''"
  using of_char_to_lower [of c] by (auto simp: of_char_eq_iff [symmetric, where ?'a = nat] simp del: of_char_eq_iff split: if_splits)

lemma TrimLeft_dot [simp]: "\<not> HasPrefix (ToLower (TrimLeft (CHR ''.'') s)) ''.''"
  by (induction s) (simp_all add: HasPrefix_def ToLower_def TrimLeft_def eq_commute [of "CHR ''.''"])

text \<open>Parameters are made canonical once: a second pass changes nothing, unless the domain was nothing
  but dots.\<close>

lemma sanitize_fields:
  "dp_Region (sanitizeDNSRecord v p) = (if dp_Region p = [] then region v else dp_Region p)"
  "dp_Domain (sanitizeDNSRecord v p) =
     (let d = (if dp_Domain p = [] then ToLower (domain v) else dp_Domain p) in
      if HasPrefix d ''.'' then ToLower (TrimLeft (CHR ''.'') d) else d)"
  "dp_Recordname (sanitizeDNSRecord v p) =
     (if HasSuffix (dp_Recordname p) ''.'' then dp_Recordname p else ToLower (dp_Recordname p @ ''.''))"
  "dp_Recordtype (sanitizeDNSRecord v p) = dp_Recordtype p"
  "dp_Recordvalue (sanitizeDNSRecord v p) = (if dp_Recordtype p = ''TXT'' then escapeString (dp_Recordvalue p) else dp_Recordvalue p)"
  "dp_VPC (sanitizeDNSRecord v p) = dp_VPC p" "dp_IsPrivate (sanitizeDNSRecord v p) = dp_IsPrivate p"
  "dp_fqdn (sanitizeDNSRecord v p) = ToLower (dp_Recordname (sanitizeDNSRecord v p) @ dp_Domain (sanitizeDNSRecord v p))"
  by (simp_all add: sanitizeDNSRecord_def Let_def)

lemma sanitizeDNSRecord_idem:
  assumes "dp_Domain (sanitizeDNSRecord v p) \<noteq> []"
  shows "sanitizeDNSRecord v (sanitizeDNSRecord v p) = sanitizeDNSRecord v p"
proof -
  let ?p = "sanitizeDNSRecord v p"
  have dom: "dp_Domain (sanitizeDNSRecord v ?p) = dp_Domain ?p"
    using assms by (subst sanitize_fields(2)) (simp add: sanitize_fields(2) Let_def)
  have name: "dp_Recordname (sanitizeDNSRecord v ?p) = dp_Recordname ?p"
    by (simp add: sanitize_fields(3))
  show ?thesis
    by (rule DNSRecordParams.equality)
       (simp_all add: dom name sanitize_fields(1,4-7) sanitize_fields(8) [of v ?p] sanitize_fields(8) [of v p] escapeString_idem
         del: DNSRecordParams.equality)
qed

section \<open>Refused requests\<close>

lemma query_create_fqdn: "dp_fqdn (query_create kvs p) = dp_fqdn p"
  by (induction kvs p rule: query_create.induct) (simp_all add: Let_def)

lemma query_delete_fqdn: "dp_fqdn (query_delete kvs p) = dp_fqdn p"
  by (induction kvs p rule: query_delete.induct) (simp_all add: Let_def)

text \<open>
  Both handlers refuse every GET request with 400, whatever its query: the parameters are
  validated before the full name is derived from them, and a missing full name is invalid.  They
  refuse a POST of a list with one record as well, since only the other lengths are completed.
\<close>

theorem dns_queries_are_refused:
  assumes name: "\<And>p. dp_fqdn p = [] \<Longrightarrow> valid p \<noteq> None"
    and request: "dc_method r = ''GET'' \<or>
      dc_method r = ''POST'' \<and> dc_body r = Inr body \<and> body \<noteq> [] \<and> dc_one K body = None \<and> dc_many K body = (True, [p]) \<and> dp_fqdn p = []"
  shows "HTTPCreateDNSRecord Y J K valid v r s = respond Y J (400, MSG_400_BAD_RQ) (ToLower (dc_accept r)) no_response s \<and>
    HTTPDeleteDNSRecord Y J K valid v r s = respond Y J (400, MSG_400_BAD_RQ) (ToLower (dc_accept r)) no_response s"
  using request name [of p] name [of "query_create (dc_query r) no_params"] name [of "query_delete (dc_query r) no_params"]
  by (auto simp: HTTPCreateDNSRecord_def HTTPDeleteDNSRecord_def collect_def run_records_def Let_def no_params_def
    query_create_fqdn query_delete_fqdn)

definition demo_valid :: "DNSRecordParams \<Rightarrow> go_err option" where
  "demo_valid p = (if dp_fqdn p = [] \<or> dp_Recordtype p = ''BAD'' then Some (Errorf ''invalid'') else None)"

definition demo_codec :: cert_codec where
  "demo_codec = \<lparr>c_marshal = Inr, c_event = \<lambda>b. None, c_events = \<lambda>b. []\<rparr>"

definition demo_dns :: dns_codec where
  "demo_dns = \<lparr>dc_one = \<lambda>b. None, dc_many = \<lambda>b. (True, [no_params])\<rparr>"

definition demo_times :: fileTimes where
  "demo_times = \<lparr>tlsCrtModTime = 0, tlsKeyModTime = 0, caCrtModTime = 0\<rparr>"

theorem dns_queries_are_refused_witness:
  "HTTPCreateDNSRecord mem_sys demo_codec demo_dns demo_valid mem_env
     \<lparr>dc_method = ''GET'', dc_accept = [], dc_query = [(''recordtype'', ''A'')], dc_body = Inr []\<rparr> \<lparr>cs_world = [], cs_times = demo_times\<rparr> =
   respond mem_sys demo_codec (400, MSG_400_BAD_RQ) (ToLower []) no_response \<lparr>cs_world = [], cs_times = demo_times\<rparr>"
  using dns_queries_are_refused [where Y = mem_sys and valid = demo_valid and r = "\<lparr>dc_method = ''GET'', dc_accept = [], dc_query = [(''recordtype'', ''A'')], dc_body = Inr []\<rparr>"]
  by (auto simp: demo_valid_def)

section \<open>Several records\<close>

text \<open>
  C39. The report of a batch accounts for every record, as invalid, failed or done, and a record
  reaches Route 53 only after it was completed and found valid.
\<close>

theorem batch_accounts_for_every_record:
  assumes "each_record Y valid v reg f ps no_tally w = (Some (Inr t), w')"
    and "\<And>svc p w. valid p = None \<Longrightarrow> f svc p w = g svc p w"
  shows "t_count t = length ps \<and> fst (t_invalid t) + fst (t_errors t) + fst (t_done t) = length ps \<and>
    fst (t_invalid t) = length (filter (\<lambda>p. valid (sanitizeDNSRecord v p) \<noteq> None) ps) \<and>
    each_record Y valid v reg g ps no_tally w = (Some (Inr t), w')"
proof -
  have "t_count t = t_count t0 + length ps \<and>
      fst (t_invalid t) + fst (t_errors t) + fst (t_done t) = fst (t_invalid t0) + fst (t_errors t0) + fst (t_done t0) + length ps \<and>
      fst (t_invalid t) = fst (t_invalid t0) + length (filter (\<lambda>p. valid (sanitizeDNSRecord v p) \<noteq> None) ps) \<and>
      each_record Y valid v reg g ps t0 w = (Some (Inr t), w')"
    if "each_record Y valid v reg f ps t0 w = (Some (Inr t), w')" for t0 w
    using that
  proof (induction ps arbitrary: t0 w)
    case (Cons p ps)
    let ?p = "sanitizeDNSRecord v p"
    obtain e w1 where load: "aws_LoadConfig Y (reg ?p) w = (e, w1)"
      by fastforce
    have e: "e = None"
      using Cons.prems load by (cases e) (simp_all add: Let_def)
    show ?case
    proof (cases "valid ?p")
      case (Some err)
      then show ?thesis
        using Cons.prems Cons.IH load e by (fastforce simp: Let_def bump_def)
    next
      case None
      obtain x w2 where x: "f (reg ?p, None) ?p w1 = (x, w2)" "g (reg ?p, None) ?p w1 = (x, w2)"
        using assms(2) [OF None] by (metis surj_pair)
      show ?thesis
      proof (cases x)
        case (Some m)
        then show ?thesis
          using Cons.prems Cons.IH load e None x by (cases m) (fastforce simp: Let_def bump_def)+
      qed (use Cons.prems load e None x in \<open>simp add: Let_def\<close>)
    qed
  qed simp
  from this [OF assms(1)] show ?thesis
    by (simp add: no_tally_def)
qed

definition demo_batch :: "DNSRecordParams list" where
  "demo_batch = [no_params\<lparr>dp_Recordname := ''www''\<rparr>, no_params\<lparr>dp_Recordtype := ''BAD''\<rparr>]"

lemma demo_each: "each_record mem_sys demo_valid mem_env dp_Region (\<lambda>svc p w. (Some (Inr ''x''), w)) demo_batch no_tally [] =
    (Some (Inr \<lparr>t_count = 2, t_invalid = (1, invalid_text (Errorf ''invalid'') (sanitizeDNSRecord mem_env (demo_batch ! 1))),
       t_errors = (0, []), t_done = (1, ''x'')\<rparr>), [])"
  by (simp add: demo_batch_def no_params_def mem_sys_def demo_valid_def no_tally_def bump_def Let_def sanitize_fields HasSuffix_def)

theorem batch_accounts_for_every_record_witness:
  "fst (each_record mem_sys demo_valid mem_env dp_Region
      (\<lambda>svc p w. if demo_valid p = None then (Some (Inr ''x''), w) else (None, w)) demo_batch no_tally []) \<noteq> None"
  using batch_accounts_for_every_record [OF demo_each,
      of "\<lambda>svc p w. if demo_valid p = None then (Some (Inr ''x''), w) else (None, w)"] by simp

end
