(* ===== verification/Go_Retry.thy ===== *)
theory Go_Retry
  imports Prelude
begin

text \<open>
  internal/retry/retry.go: an action that is repeated until it succeeds.

  A context is what the loop asks of it: whether it is done, and, while it waits, whether it was done
  before the interval had passed.  The variables an action sets are its result.  The loop may run
  forever, so its value is an option and \<open>None\<close> means that it never returns.
\<close>

section \<open>The loop\<close>

record 'w ctx =
  cx_Done :: "'w \<Rightarrow> bool \<times> 'w"
  cx_After :: "int \<Rightarrow> 'w \<Rightarrow> bool \<times> 'w"
  cx_Err :: go_err

partial_function (option) UntilItSucceeds ::
  "'w ctx \<Rightarrow> ('w \<Rightarrow> (go_err + 'a) \<times> 'w) \<Rightarrow> int \<Rightarrow> 'w \<Rightarrow> ((go_err + 'a) \<times> 'w) option" where
  "UntilItSucceeds C action retryInterval w =
     (let c = cx_Done C w in
      if fst c then Some (Inl (cx_Err C), snd c)
      else
        (let a = action (snd c) in
         case fst a of
           Inr x \<Rightarrow> Some (Inr x, snd a)
         | Inl err \<Rightarrow>
             (let c = cx_After C retryInterval (snd a) in
              if fst c then Some (Inl (cx_Err C), snd c)
              else UntilItSucceeds C action retryInterval (snd c))))"

text \<open>\<open>context.Background\<close> is never done; the wait only lets time pass.\<close>

definition background :: "(int \<Rightarrow> 'w \<Rightarrow> 'w) \<Rightarrow> 'w ctx" where
  "background sleep = \<lparr>cx_Done = \<lambda>w. (False, w), cx_After = \<lambda>d w. (False, sleep d w), cx_Err = Errorf ''context canceled''\<rparr>"

section \<open>A context that is never done\<close>

text \<open>The world before the attempt with number \<open>k\<close>, when all attempts before failed.\<close>

fun before_attempt :: "(int \<Rightarrow> 'w \<Rightarrow> 'w) \<Rightarrow> ('w \<Rightarrow> (go_err + 'a) \<times> 'w) \<Rightarrow> int \<Rightarrow> nat \<Rightarrow> 'w \<Rightarrow> 'w" where
  "before_attempt sleep action d 0 w = w"
| "before_attempt sleep action d (Suc k) w = before_attempt sleep action d k (sleep d (snd (action w)))"

definition attempt_fails :: "(int \<Rightarrow> 'w \<Rightarrow> 'w) \<Rightarrow> ('w \<Rightarrow> (go_err + 'a) \<times> 'w) \<Rightarrow> int \<Rightarrow> 'w \<Rightarrow> nat \<Rightarrow> bool" where
  "attempt_fails sleep action d w k \<longleftrightarrow> isl (fst (action (before_attempt sleep action d k w)))"

lemma retry_step:
  "UntilItSucceeds (background sleep) action d w =
     (case action w of
        (Inr x, w) \<Rightarrow> Some (Inr x, w)
      | (Inl err, w) \<Rightarrow> UntilItSucceeds (background sleep) action d (sleep d w))"
  by (subst UntilItSucceeds.simps) (simp add: background_def split: prod.split sum.split)

lemma attempt_fails_Suc: "attempt_fails sleep action d w (Suc k) = attempt_fails sleep action d (sleep d (snd (action w))) k"
  by (simp add: attempt_fails_def)

lemma all_less_Suc: "(\<forall>j<Suc k. P j) \<longleftrightarrow> P 0 \<and> (\<forall>j<k. P (Suc j))"
  by (metis less_Suc_eq_0_disj)

lemma retry_reaches:
  "(\<forall>j<k. attempt_fails sleep action d w j) \<Longrightarrow> action (before_attempt sleep action d k w) = (Inr x, w') \<Longrightarrow>
     UntilItSucceeds (background sleep) action d w = Some (Inr x, w')"
proof (induction k arbitrary: w)
  case 0
  then show ?case
    by (simp add: retry_step)
next
  case (Suc k)
  then have "isl (fst (action w))" and "\<forall>j<k. attempt_fails sleep action d (sleep d (snd (action w))) j"
    by (simp_all add: all_less_Suc attempt_fails_Suc) (simp add: attempt_fails_def)
  with Suc show ?case
    by (subst retry_step) (auto split: prod.split sum.split)
qed

lemma retry_returned:
  assumes "UntilItSucceeds (background sleep) action d w = Some (r, w')"
  shows "\<exists>k x. r = Inr x \<and> (\<forall>j<k. attempt_fails sleep action d w j) \<and> action (before_attempt sleep action d k w) = (Inr x, w')"
proof -
  let ?P = "\<lambda>C action d w y. C = background sleep \<longrightarrow>
      (\<exists>k x. fst y = Inr x \<and> (\<forall>j<k. attempt_fails sleep action d w j) \<and> action (before_attempt sleep action d k w) = (Inr x, snd y))"
  have "?P (background sleep) action d w (r, w')"
  proof (rule UntilItSucceeds.raw_induct [OF _ assms, where P = ?P], goal_cases)
    case (1 f C action d w y)
    show ?case
    proof
      assume C: "C = background sleep"
      obtain a w1 where a: "action w = (a, w1)"
        by fastforce
      show "\<exists>k x. fst y = Inr x \<and> (\<forall>j<k. attempt_fails sleep action d w j) \<and> action (before_attempt sleep action d k w) = (Inr x, snd y)"
      proof (cases a)
        case (Inr x)
        with 1(2) a C show ?thesis
          by (intro exI [of _ 0] exI [of _ x]) (auto simp: background_def)
      next
        case (Inl err)
        with 1(2) a C have "f C action d (sleep d w1) = Some y"
          by (simp add: background_def)
        from 1(1) [OF this] C obtain k x where "fst y = Inr x" "\<forall>j<k. attempt_fails sleep action d (sleep d w1) j"
          "action (before_attempt sleep action d k (sleep d w1)) = (Inr x, snd y)"
          by blast
        with Inl a show ?thesis
          by (intro exI [of _ "Suc k"] exI [of _ x]) (auto simp: all_less_Suc attempt_fails_Suc attempt_fails_def)
      qed
    qed
  qed
  then show ?thesis
    by simp
qed

section \<open>Cancellation\<close>

text \<open>The world before the attempt with number \<open>k\<close> under any context; \<open>None\<close> when
  the loop has ended before.\<close>

fun before_pass :: "'w ctx \<Rightarrow> ('w \<Rightarrow> (go_err + 'a) \<times> 'w) \<Rightarrow> int \<Rightarrow> nat \<Rightarrow> 'w \<Rightarrow> 'w option" where
  "before_pass C action d 0 w = Some w"
| "before_pass C action d (Suc k) w =
     (if fst (cx_Done C w) then None
      else let a = action (snd (cx_Done C w)) in
           if \<not> isl (fst a) then None
           else let c = cx_After C d (snd a) in
                if fst c then None else before_pass C action d k (snd c))"

text \<open>The three ways in which a pass ends the loop.\<close>

definition succeeds :: "'w ctx \<Rightarrow> ('w \<Rightarrow> (go_err + 'a) \<times> 'w) \<Rightarrow> 'w \<Rightarrow> 'a \<Rightarrow> 'w \<Rightarrow> bool" where
  "succeeds C action v x w' \<longleftrightarrow> (\<exists>u. cx_Done C v = (False, u) \<and> action u = (Inr x, w'))"

definition done_before :: "'w ctx \<Rightarrow> 'w \<Rightarrow> 'w \<Rightarrow> bool" where
  "done_before C v w' \<longleftrightarrow> cx_Done C v = (True, w')"

definition done_waiting :: "'w ctx \<Rightarrow> ('w \<Rightarrow> (go_err + 'a) \<times> 'w) \<Rightarrow> int \<Rightarrow> 'w \<Rightarrow> 'w \<Rightarrow> bool" where
  "done_waiting C action d v w' \<longleftrightarrow>
     (\<exists>u err u'. cx_Done C v = (False, u) \<and> action u = (Inl err, u') \<and> cx_After C d u' = (True, w'))"

text \<open>How the loop ends with a pass.\<close>

fun pass_ends :: "'w ctx \<Rightarrow> ('w \<Rightarrow> (go_err + 'a) \<times> 'w) \<Rightarrow> int \<Rightarrow> 'w \<Rightarrow> (go_err + 'a) \<times> 'w \<Rightarrow> bool" where
  "pass_ends C action d v (Inr x, w') \<longleftrightarrow> succeeds C action v x w'"
| "pass_ends C action d v (Inl e, w') \<longleftrightarrow> e = cx_Err C \<and> (done_before C v w' \<or> done_waiting C action d v w')"

lemma retry_pass:
  obtains res where "pass_ends C action d w res" "UntilItSucceeds C action d w = Some res" "before_pass C action d 1 w = None"
  | w1 where "UntilItSucceeds C action d w = UntilItSucceeds C action d w1"
      "\<And>k. before_pass C action d (Suc k) w = before_pass C action d k w1"
proof -
  obtain b u where u: "cx_Done C w = (b, u)" by fastforce
  obtain r v where v: "action u = (r, v)" by fastforce
  obtain b' v' where v': "cx_After C d v = (b', v')" by fastforce
  note step = UntilItSucceeds.simps [of C action d w] u v v'
  consider "b" | "\<not> b" "\<not> isl r" | "\<not> b" "isl r" "b'" | "\<not> b" "isl r" "\<not> b'" by blast
  then show thesis
  proof cases
    case 1
    then show ?thesis by (intro that(1) [of "(Inl (cx_Err C), u)"]) (simp_all add: step done_before_def)
  next
    case 2
    then show ?thesis
      by (cases r) (auto intro!: that(1) [of "(r, v)"] simp: step succeeds_def)
  next
    case 3
    then show ?thesis
      by (cases r) (auto intro!: that(1) [of "(Inl (cx_Err C), v')"] simp: step done_waiting_def)
  next
    case 4
    then show ?thesis by (cases r) (auto intro!: that(2) [of v'] simp: step)
  qed
qed

lemma pass_ends_unique: "pass_ends C action d v res \<Longrightarrow> UntilItSucceeds C action d v = Some res"
  by (subst UntilItSucceeds.simps, cases res rule: prod.exhaust, cases "fst res")
     (auto simp: succeeds_def done_before_def done_waiting_def)

lemma retry_ends:
  "before_pass C action d k w = Some v \<Longrightarrow> pass_ends C action d v res \<Longrightarrow> UntilItSucceeds C action d w = Some res"
proof (induction k arbitrary: w)
  case 0
  then show ?case by (simp add: pass_ends_unique)
next
  case (Suc k)
  show ?case
  proof (rule retry_pass [of C action d w])
    fix w1
    assume "UntilItSucceeds C action d w = UntilItSucceeds C action d w1"
      "\<And>k. before_pass C action d (Suc k) w = before_pass C action d k w1"
    with Suc show ?thesis by simp
  next
    fix res'
    assume "before_pass C action d 1 w = None"
    with Suc.prems(1) show ?thesis by (auto simp: Let_def split: if_splits)
  qed
qed

lemma retry_ended:
  assumes "UntilItSucceeds C action d w = Some res"
  shows "\<exists>k v. before_pass C action d k w = Some v \<and> pass_ends C action d v res"
proof (rule UntilItSucceeds.raw_induct [OF _ assms, where
      P = "\<lambda>C action d w res. \<exists>k v. before_pass C action d k w = Some v \<and> pass_ends C action d v res"], goal_cases)
  case (1 f C action d w res)
  obtain b u where u: "cx_Done C w = (b, u)" by fastforce
  obtain r v where v: "action u = (r, v)" by fastforce
  obtain b' v' where v': "cx_After C d v = (b', v')" by fastforce
  note eq = 1(2) [unfolded Let_def u v v' prod.sel]
  show ?case
  proof (cases "\<not> b \<and> isl r \<and> \<not> b'")
    case True
    with eq have "f C action d v' = Some res" by (auto split: sum.splits)
    from 1(1) [OF this] obtain k x where "before_pass C action d k v' = Some x" "pass_ends C action d x res" by blast
    moreover from this True have "before_pass C action d (Suc k) w = Some x" by (simp add: u v v' Let_def)
    ultimately show ?thesis by blast
  next
    case False
    with eq have "pass_ends C action d w res"
      by (cases r) (auto simp: u v v' succeeds_def done_before_def done_waiting_def split: if_splits)
    then show ?thesis by (intro exI [of _ 0] exI [of _ w]) simp
  qed
qed

lemma retry_cut: "before_pass C action d k w = None \<Longrightarrow> UntilItSucceeds C action d w \<noteq> None"
proof (induction k arbitrary: w)
  case (Suc k)
  then show ?case by (metis retry_pass option.distinct(1))
qed simp

lemma pass_ends_cut: "before_pass C action d k w = Some v \<Longrightarrow> pass_ends C action d v res \<Longrightarrow> before_pass C action d (Suc k) w = None"
proof (induction k arbitrary: w)
  case 0
  then show ?case
    by (cases res rule: prod.exhaust, cases "fst res") (auto simp: succeeds_def done_before_def done_waiting_def)
next
  case (Suc k)
  show ?case
    using Suc.prems Suc.IH [of "snd (cx_After C d (snd (action (snd (cx_Done C w)))))"]
    by (auto simp: Let_def split: if_splits)
qed

text \<open>
  C36. Under any context the loop returns a result exactly when some attempt is made before the context is done and
  succeeds, with the result of the first such attempt; it returns the error of the context exactly when the
  context is done before an attempt or while the loop waits after a failed one; and it runs forever exactly
  when neither ever happens.
\<close>

theorem retry_returns_or_is_cancelled:
  "(UntilItSucceeds C action d w = Some (Inr x, w') \<longleftrightarrow>
      (\<exists>k v. before_pass C action d k w = Some v \<and> succeeds C action v x w')) \<and>
   (UntilItSucceeds C action d w = Some (Inl e, w') \<longleftrightarrow> e = cx_Err C \<and>
      (\<exists>k v. before_pass C action d k w = Some v \<and> (done_before C v w' \<or> done_waiting C action d v w'))) \<and>
   (UntilItSucceeds C action d w = None \<longleftrightarrow> (\<forall>k. before_pass C action d k w \<noteq> None))"
proof (intro conjI)
  show "UntilItSucceeds C action d w = Some (Inr x, w') \<longleftrightarrow>
      (\<exists>k v. before_pass C action d k w = Some v \<and> succeeds C action v x w')"
    using retry_ended [of C action d w "(Inr x, w')"] retry_ends [of C action d _ w _ "(Inr x, w')"] by auto
  show "UntilItSucceeds C action d w = Some (Inl e, w') \<longleftrightarrow> e = cx_Err C \<and>
      (\<exists>k v. before_pass C action d k w = Some v \<and> (done_before C v w' \<or> done_waiting C action d v w'))"
    using retry_ended [of C action d w "(Inl e, w')"] retry_ends [of C action d _ w _ "(Inl e, w')"] by fastforce
  show "UntilItSucceeds C action d w = None \<longleftrightarrow> (\<forall>k. before_pass C action d k w \<noteq> None)"
    using retry_cut retry_ended pass_ends_cut by (metis not_None_eq)
qed

text \<open>A context that is cancelled at the instant 2, and an action that would succeed at 3.\<close>

definition until_two :: "nat ctx" where
  "until_two = \<lparr>cx_Done = \<lambda>n. (2 \<le> n, n), cx_After = \<lambda>d n. (False, n), cx_Err = Errorf ''context canceled''\<rparr>"

definition third_time :: "nat \<Rightarrow> (go_err + nat) \<times> nat" where
  "third_time n = (if n < 3 then (Inl (Errorf ''not yet''), Suc n) else (Inr n, n))"

theorem retry_returns_or_is_cancelled_witness:
  "UntilItSucceeds (background (\<lambda>d n. n)) third_time 5 1 = Some (Inr 3, 3) \<and>
   UntilItSucceeds until_two third_time 5 1 = Some (Inl (Errorf ''context canceled''), 2)"
proof
  have "\<exists>k v. before_pass (background (\<lambda>d n. n)) third_time 5 k 1 = Some v \<and> succeeds (background (\<lambda>d n. n)) third_time v 3 3"
    by (intro exI [of _ 2] exI [of _ 3]) (simp add: background_def third_time_def succeeds_def numeral_2_eq_2)
  then show "UntilItSucceeds (background (\<lambda>d n. n)) third_time 5 1 = Some (Inr 3, 3)"
    using retry_returns_or_is_cancelled [of "background (\<lambda>d n. n)" third_time 5 1 3 3] by blast
  have "\<exists>k v. before_pass until_two third_time 5 k 1 = Some v \<and> (done_before until_two v 2 \<or> done_waiting until_two third_time 5 v 2)"
    by (intro exI [of _ 1] exI [of _ 2]) (simp add: until_two_def third_time_def done_before_def)
  moreover have "Errorf ''context canceled'' = cx_Err until_two" by (simp add: until_two_def)
  ultimately show "UntilItSucceeds until_two third_time 5 1 = Some (Inl (Errorf ''context canceled''), 2)"
    using retry_returns_or_is_cancelled [of until_two third_time 5 1 _ 2 "Errorf ''context canceled''"] by blast
qed

section \<open>Without cancellation\<close>

text \<open>It never returns when no attempt succeeds, and it never reports an error.\<close>

lemma retry_diverges:
  assumes "\<And>k. attempt_fails sleep action d w k"
  shows "UntilItSucceeds (background sleep) action d w = None"
proof (rule ccontr)
  assume "UntilItSucceeds (background sleep) action d w \<noteq> None"
  then obtain r w' where "UntilItSucceeds (background sleep) action d w = Some (r, w')"
    by auto
  then obtain k x where "action (before_attempt sleep action d k w) = (Inr x, w')"
    using retry_returned by metis
  then show False
    using assms [of k] by (simp add: attempt_fails_def)
qed

lemma retry_no_error: "UntilItSucceeds (background sleep) action d w \<noteq> Some (Inl err, w')"
  using retry_returned by (metis sum.distinct(1))

end
