(* ===== verification/Vault_Service.thy ===== *)
theory Vault_Service
  imports Go_Retry
begin

text \<open>
  The two services behind the Vault configuration: secrets/vault/service.go over the Vault API client
  and secrets/kubernetes/storage.go over the Kubernetes client.  Both clients are parameters, on the
  state \<open>'w\<close> of the outside world; every call may fail.
\<close>

section \<open>Results\<close>

text \<open>A call that may run forever is an option, and one that returns may have panicked.\<close>

datatype 'a res = Panic | Fail go_err | Done 'a

type_synonym ('a, 'w) run = "('a res \<times> 'w) option"

definition run_bind :: "string \<Rightarrow> ('a, 'w) run \<Rightarrow> ('a \<Rightarrow> 'w \<Rightarrow> ('b, 'w) run) \<Rightarrow> ('b, 'w) run" where
  "run_bind msg m f =
     (case m of
        None \<Rightarrow> None
      | Some (Panic, w) \<Rightarrow> Some (Panic, w)
      | Some (Fail err, w) \<Rightarrow> Some (Fail (wrapf msg err), w)
      | Some (Done x, w) \<Rightarrow> f x w)"

definition of_sum :: "(go_err + 'a) \<times> 'w \<Rightarrow> 'a res \<times> 'w" where
  "of_sum r = (case fst r of Inl err \<Rightarrow> Fail err | Inr x \<Rightarrow> Done x, snd r)"

definition returns :: "(go_err + 'a) \<times> 'w \<Rightarrow> ('a, 'w) run" where
  "returns r = Some (of_sum r)"

definition retried :: "((go_err + 'a) \<times> 'w) option \<Rightarrow> ('a, 'w) run" where
  "retried m = map_option of_sum m"

text \<open>Calls whose only result is an error.\<close>

definition err_sum :: "go_err option \<times> 'w \<Rightarrow> (go_err + unit) \<times> 'w" where
  "err_sum r = (case fst r of None \<Rightarrow> Inr () | Some err \<Rightarrow> Inl err, snd r)"

definition and_then :: "string \<Rightarrow> ('w \<Rightarrow> go_err option \<times> 'w) \<Rightarrow> ('w \<Rightarrow> go_err option \<times> 'w) \<Rightarrow> 'w \<Rightarrow> go_err option \<times> 'w" where
  "and_then msg f g w = (case f w of (Some err, w) \<Rightarrow> (Some (wrapf msg err), w) | (None, w) \<Rightarrow> g w)"

section \<open>The Vault API\<close>

record init_request =
  SecretShares :: nat
  SecretThreshold :: nat
  RecoveryShares :: nat
  RecoveryThreshold :: nat

record init_resp =
  Keys :: "string list"
  RecoveryKeys :: "string list"
  RootToken :: string

datatype vault_value = VStr string | VNum int | VList "string list" | VMap "(string \<times> string list) list"

type_synonym vault_data = "(string \<times> vault_value) list"

record 'w vault_api =
  va_SetAddress :: "string \<Rightarrow> 'w \<Rightarrow> go_err option \<times> 'w"
  va_SetToken :: "string \<Rightarrow> 'w \<Rightarrow> 'w"
  va_RevokeSelf :: "'w \<Rightarrow> go_err option \<times> 'w"
  va_InitStatus :: "'w \<Rightarrow> (go_err + bool) \<times> 'w"
  va_Init :: "init_request \<Rightarrow> 'w \<Rightarrow> (go_err + init_resp) \<times> 'w"
  va_Unseal :: "string \<Rightarrow> 'w \<Rightarrow> (go_err + bool) \<times> 'w"
  va_EnableAuth :: "string \<Rightarrow> string \<Rightarrow> string \<Rightarrow> 'w \<Rightarrow> go_err option \<times> 'w"
  va_Mount :: "string \<Rightarrow> string \<Rightarrow> 'w \<Rightarrow> go_err option \<times> 'w"
  va_PutPolicy :: "string \<Rightarrow> string \<Rightarrow> 'w \<Rightarrow> go_err option \<times> 'w"
  va_Write :: "string \<Rightarrow> vault_data \<Rightarrow> 'w \<Rightarrow> go_err option \<times> 'w"

section \<open>The configuration\<close>

record vault_config =
  AutoInit :: bool
  AutoUnseal :: bool
  AuthOrchSvcsRoleMaxTTL :: string
  AuthOIDCIdPAddr :: string
  AuthOIDCIdPDiscoveryURL :: string
  AuthOIDCRoleMaxTTL :: string

text \<open>The service: the client, the addresses of the instances and the configuration.  The library
  \<open>vault.NewClient\<close> may refuse the address.\<close>

record 'w vault_service =
  vs_addrs :: "string list"
  vs_api :: "'w vault_api"
  vs_config :: vault_config

definition NewSecretsProviderService ::
  "(string \<Rightarrow> go_err + 'w vault_api) \<Rightarrow> string list \<Rightarrow> vault_config \<Rightarrow> go_err + 'w vault_service" where
  "NewSecretsProviderService NewClient addrs cfg =
     (case addrs of
        [] \<Rightarrow> Inl (Errorf ''vault addresss cannot be empty'')
      | a # _ \<Rightarrow>
          (case NewClient a of
             Inl err \<Rightarrow> Inl (wrapf ''initialize Vault client'' err)
           | Inr api \<Rightarrow> Inr \<lparr>vs_addrs = addrs, vs_api = api, vs_config = cfg\<rparr>))"

definition SetToken :: "'w vault_service \<Rightarrow> string \<Rightarrow> 'w \<Rightarrow> 'w" where
  "SetToken svc t w = va_SetToken (vs_api svc) t w"

definition RevokeToken :: "'w vault_service \<Rightarrow> 'w \<Rightarrow> go_err option \<times> 'w" where
  "RevokeToken svc w = va_RevokeSelf (vs_api svc) w"

definition Initialized :: "'w vault_service \<Rightarrow> 'w \<Rightarrow> (go_err + bool) \<times> 'w" where
  "Initialized svc w = va_InitStatus (vs_api svc) w"

section \<open>Initialisation\<close>

text \<open>One instance: every key is sent until Vault accepts it; the result is the last seal status.\<close>

fun unseal_keys :: "'w vault_service \<Rightarrow> 'w ctx \<Rightarrow> string list \<Rightarrow> bool option \<Rightarrow> 'w \<Rightarrow> (bool option, 'w) run" where
  "unseal_keys svc C [] sealed w = Some (Done sealed, w)"
| "unseal_keys svc C (key # ks) sealed w =
     run_bind ''retry'' (retried (UntilItSucceeds C
         (\<lambda>w. case va_Unseal (vs_api svc) key w of (Inl err, w) \<Rightarrow> (Inl (wrapf ''unseal'' err), w) | (Inr b, w) \<Rightarrow> (Inr b, w))
         5 w))
       (\<lambda>b. unseal_keys svc C ks (Some b))"

text \<open>The test of the status does nothing but dereference it: without keys it is nil.\<close>

fun unseal_instances :: "'w vault_service \<Rightarrow> 'w ctx \<Rightarrow> string list \<Rightarrow> string list \<Rightarrow> 'w \<Rightarrow> (unit, 'w) run" where
  "unseal_instances svc C ks [] w = Some (Done (), w)"
| "unseal_instances svc C ks (addr # addrs) w =
     run_bind (''set address '' @ addr) (returns (err_sum (va_SetAddress (vs_api svc) addr w)))
       (\<lambda>_ w. case unseal_keys svc C ks None w of
          None \<Rightarrow> None
        | Some (Panic, w) \<Rightarrow> Some (Panic, w)
        | Some (Fail err, w) \<Rightarrow> Some (Fail err, w)
        | Some (Done None, w) \<Rightarrow> Some (Panic, w)
        | Some (Done (Some sealed), w) \<Rightarrow> unseal_instances svc C ks addrs w)"

definition unsealVault :: "'w vault_service \<Rightarrow> 'w ctx \<Rightarrow> init_resp \<Rightarrow> 'w \<Rightarrow> (unit, 'w) run" where
  "unsealVault svc C initResp w = unseal_instances svc C (Keys initResp) (vs_addrs svc) w"

definition init_request_of :: "vault_config \<Rightarrow> init_request" where
  "init_request_of cfg =
     (if AutoUnseal cfg
      then \<lparr>SecretShares = 0, SecretThreshold = 0, RecoveryShares = 1, RecoveryThreshold = 1\<rparr>
      else \<lparr>SecretShares = 1, SecretThreshold = 1, RecoveryShares = 0, RecoveryThreshold = 0\<rparr>)"

text \<open>\<open>encode\<close> is the JSON encoder.\<close>

definition Initialize :: "(init_resp \<Rightarrow> go_err + string) \<Rightarrow> 'w vault_service \<Rightarrow> 'w ctx \<Rightarrow> 'w \<Rightarrow> (string, 'w) run" where
  "Initialize encode svc C w =
     run_bind ''initialize vault'' (returns (va_Init (vs_api svc) (init_request_of (vs_config svc)) w))
       (\<lambda>resp w. run_bind ''unseal vault''
            (if AutoUnseal (vs_config svc) then Some (Done (), w) else unsealVault svc C resp w)
       (\<lambda>_ w. run_bind ''reset address'' (returns (err_sum (va_SetAddress (vs_api svc) (vs_addrs svc ! 0) w)))
       (\<lambda>_ w. run_bind ''encode keys'' (returns (encode resp, w)) (\<lambda>s w. Some (Done s, w)))))"

section \<open>Authentication\<close>

definition tolerate_in_use :: "go_err option \<times> 'w \<Rightarrow> go_err option \<times> 'w" where
  "tolerate_in_use r = (case r of (Some err, w) \<Rightarrow> (if Contains (err_text err) ''already in use'' then None else Some err, w) | (None, w) \<Rightarrow> (None, w))"

definition rate_limit :: "string \<Rightarrow> string \<Rightarrow> vault_data" where
  "rate_limit path interval = [(''path'', VStr path), (''interval'', VStr interval), (''rate'', VNum 100)]"

definition enableKubernetesAuth :: "'w vault_service \<Rightarrow> 'w \<Rightarrow> go_err option \<times> 'w" where
  "enableKubernetesAuth svc =
     (let A = vs_api svc in
      and_then ''enable Kubernetes auth'' (\<lambda>w. tolerate_in_use (va_EnableAuth A ''kubernetes'' ''kubernetes'' ''1h'' w))
     (and_then ''configure Kubernetes host''
        (va_Write A ''auth/kubernetes/config'' [(''kubernetes_host'', VStr ''https://kubernetes.default.svc'')])
     (and_then ''create rate limt'' (va_Write A ''sys/quotas/rate-limit/kubernetes'' (rate_limit ''auth/kubernetes/*'' ''1s''))
     (\<lambda>w. (None, w)))))"

definition orchSvcPolicy :: string where
  "orchSvcPolicy = [CHR 0x0A] @ ''path '' @ [CHR 0x22] @ ''secret/*'' @ [CHR 0x22] @ '' {'' @ [CHR 0x0A, CHR 0x09] @
     ''capabilities = ['' @ Join (map (\<lambda>c. [CHR 0x22] @ c @ [CHR 0x22]) [''create'', ''read'', ''update'', ''patch'', ''delete'', ''list'']) '', '' @
     '']'' @ [CHR 0x0A] @ ''}'' @ [CHR 0x0A]"

definition orch_svc_role :: "vault_config \<Rightarrow> vault_data" where
  "orch_svc_role cfg =
     [(''bound_service_account_names'', VList [''orch-svc'', ''alerting-monitor'']),
      (''bound_service_account_namespaces'', VList [''harbor-oci'', ''orch-app'', ''orch-cluster'', ''orch-infra'', ''orch-platform'']),
      (''policies'', VStr ''orch-svc''),
      (''token_ttl'', VStr (AuthOrchSvcsRoleMaxTTL cfg)),
      (''token_max_ttl'', VStr (AuthOrchSvcsRoleMaxTTL cfg)),
      (''token_explicit_max_ttl'', VStr (AuthOrchSvcsRoleMaxTTL cfg))]"

definition CreateOrchSvcSecretsStore :: "'w vault_service \<Rightarrow> 'w \<Rightarrow> go_err option \<times> 'w" where
  "CreateOrchSvcSecretsStore svc =
     (let A = vs_api svc in
      and_then ''enable kubernetes auth'' (enableKubernetesAuth svc)
     (and_then ''enable secret engine'' (\<lambda>w. tolerate_in_use (va_Mount A ''secret'' ''kv-v2'' w))
     (and_then ''create orch-svc policy'' (va_PutPolicy A ''orch-svc'' orchSvcPolicy)
     (and_then ''create orch-svc auth role'' (va_Write A ''auth/kubernetes/role/orch-svc'' (orch_svc_role (vs_config svc)))
     (\<lambda>w. (None, w))))))"

definition secretsRootPolicy :: string where
  "secretsRootPolicy = ''path '' @ [CHR 0x22] @ ''*'' @ [CHR 0x22] @ '' { capabilities = ['' @
     Join (map (\<lambda>c. [CHR 0x22] @ c @ [CHR 0x22]) [''create'', ''read'', ''update'', ''patch'', ''delete'', ''list'']) '', '' @ '']}''"

definition secrets_root_role :: "vault_config \<Rightarrow> vault_data" where
  "secrets_root_role cfg =
     [(''allowed_redirect_uris'', VStr (AuthOIDCIdPDiscoveryURL cfg)),
      (''token_policies'', VStr ''secretsRootPolicy''),
      (''role_type'', VStr ''jwt''),
      (''user_claim'', VStr ''sub''),
      (''bound_claims'', VMap [(''/realm_access/roles'', [''secrets-root-role''])]),
      (''token_ttl'', VStr (AuthOIDCRoleMaxTTL cfg)),
      (''token_max_ttl'', VStr (AuthOIDCRoleMaxTTL cfg)),
      (''token_explicit_max_ttl'', VStr (AuthOIDCRoleMaxTTL cfg))]"

definition jwt_config :: "vault_config \<Rightarrow> vault_data" where
  "jwt_config cfg =
     [(''oidc_discovery_url'', VStr (AuthOIDCIdPDiscoveryURL cfg)), (''oidc_client_id'', VStr []),
      (''oidc_client_secret'', VStr []), (''default_role'', VStr ''secretsRoot'')]"

definition CreateOIDCAuth :: "'w vault_service \<Rightarrow> 'w \<Rightarrow> go_err option \<times> 'w" where
  "CreateOIDCAuth svc =
     (let A = vs_api svc; cfg = vs_config svc in
      and_then ''enable JWT auth'' (\<lambda>w. tolerate_in_use (va_EnableAuth A ''jwt'' ''jwt'' (AuthOIDCRoleMaxTTL cfg) w))
     (and_then ''writing secretsRoot policy'' (va_PutPolicy A ''secretsRootPolicy'' secretsRootPolicy)
     (and_then ''writing secretsRoot role'' (va_Write A ''auth/jwt/role/secretsRoot'' (secrets_root_role cfg))
     (and_then ''write JWT config'' (va_Write A ''auth/jwt/config'' (jwt_config cfg))
     (and_then ''create rate limt'' (va_Write A ''sys/quotas/rate-limit/jwt'' (rate_limit ''auth/jwt/*'' ''60s''))
     (\<lambda>w. (None, w)))))))"

section \<open>The Kubernetes storage\<close>

text \<open>The Kubernetes client: secrets by namespace and name.\<close>

record 'w kube_secrets =
  ks_Create :: "string \<Rightarrow> string \<Rightarrow> (string \<times> string) list \<Rightarrow> 'w \<Rightarrow> go_err option \<times> 'w"
  ks_Get :: "string \<Rightarrow> string \<Rightarrow> 'w \<Rightarrow> (go_err + (string \<times> string) list) \<times> 'w"
  ks_Delete :: "string \<Rightarrow> string \<Rightarrow> 'w \<Rightarrow> go_err option \<times> 'w"

definition Put :: "'w kube_secrets \<Rightarrow> string \<Rightarrow> string \<Rightarrow> (string \<times> string) list \<Rightarrow> 'w \<Rightarrow> go_err option \<times> 'w" where
  "Put K ns name values = and_then ''create secret'' (ks_Create K ns name values) (\<lambda>w. (None, w))"

definition Get :: "'w kube_secrets \<Rightarrow> string \<Rightarrow> string \<Rightarrow> 'w \<Rightarrow> (go_err + (string \<rightharpoonup> string)) \<times> 'w" where
  "Get K ns name w =
     (case ks_Get K ns name w of
        (Inl err, w) \<Rightarrow> (Inl (wrapf (''get secret '' @ name) err), w)
      | (Inr values, w) \<Rightarrow> (Inr (map_of values), w))"

definition Delete_secret :: "'w kube_secrets \<Rightarrow> string \<Rightarrow> string \<Rightarrow> 'w \<Rightarrow> go_err option \<times> 'w" where
  "Delete_secret K ns name = and_then (''delete secret '' @ name) (ks_Delete K ns name) (\<lambda>w. (None, w))"

end
