(* ===== verification/Vault_Configure.thy ===== *)
theory Vault_Configure
  imports Vault_Service
begin

text \<open>
  The configuration job for Vault: secrets/internal/secrets.go over the two interfaces of
  secrets/secrets.go, and secrets/cmd/config/main.go, which puts the services of \<open>Vault_Service\<close> behind
  them.
\<close>

section \<open>The interfaces\<close>

record 'w provider =
  pv_Initialized :: "'w \<Rightarrow> (go_err + bool) \<times> 'w"
  pv_Initialize :: "'w ctx \<Rightarrow> 'w \<Rightarrow> (string, 'w) run"
  pv_SetToken :: "string \<Rightarrow> 'w \<Rightarrow> 'w"
  pv_RevokeToken :: "'w \<Rightarrow> go_err option \<times> 'w"
  pv_CreateOrchSvcSecretsStore :: "'w \<Rightarrow> go_err option \<times> 'w"
  pv_CreateOIDCAuth :: "'w \<Rightarrow> go_err option \<times> 'w"

record 'w storage =
  st_Get :: "string \<Rightarrow> string \<Rightarrow> 'w \<Rightarrow> (go_err + (string \<rightharpoonup> string)) \<times> 'w"
  st_Put :: "string \<Rightarrow> string \<Rightarrow> (string \<times> string) list \<Rightarrow> 'w \<Rightarrow> go_err option \<times> 'w"
  st_Delete :: "string \<Rightarrow> string \<Rightarrow> 'w \<Rightarrow> go_err option \<times> 'w"

definition vault_provider :: "(init_resp \<Rightarrow> go_err + string) \<Rightarrow> 'w vault_service \<Rightarrow> 'w provider" where
  "vault_provider encode svc =
     \<lparr>pv_Initialized = Initialized svc, pv_Initialize = Initialize encode svc, pv_SetToken = SetToken svc,
      pv_RevokeToken = RevokeToken svc, pv_CreateOrchSvcSecretsStore = CreateOrchSvcSecretsStore svc,
      pv_CreateOIDCAuth = CreateOIDCAuth svc\<rparr>"

definition kube_storage :: "'w kube_secrets \<Rightarrow> 'w storage" where
  "kube_storage K = \<lparr>st_Get = Get K, st_Put = Put K, st_Delete = Delete_secret K\<rparr>"

section \<open>The steps\<close>

definition VaultKeysKubernetesSecretName :: string where
  "VaultKeysKubernetesSecretName = ''vault-keys''"

definition PLATFORM :: string where "PLATFORM = ''orch-platform''"

text \<open>An action that only reports an error, in the form the loop takes.\<close>

definition act :: "string \<Rightarrow> ('w \<Rightarrow> go_err option \<times> 'w) \<Rightarrow> 'w \<Rightarrow> (go_err + unit) \<times> 'w" where
  "act msg f w = err_sum (and_then msg f (\<lambda>w. (None, w)) w)"

definition initializeAndPersistKeys :: "'w provider \<Rightarrow> 'w storage \<Rightarrow> 'w ctx \<Rightarrow> 'w \<Rightarrow> (unit, 'w) run" where
  "initializeAndPersistKeys P S C w =
     run_bind ''initialize Vault'' (pv_Initialize P C w)
       (\<lambda>vaultKeys w. run_bind ''retry''
          (retried (UntilItSucceeds C
             (act ''store Vault keys'' (st_Put S PLATFORM VaultKeysKubernetesSecretName [(VaultKeysKubernetesSecretName, vaultKeys)])) 2 w))
          (\<lambda>_ w. Some (Done (), w)))"

text \<open>\<open>root_token\<close> is the JSON decoder of the keys; an absent field is empty.\<close>

definition authenticateVaultUsingTokenInStorage ::
  "(string \<Rightarrow> go_err + string) \<Rightarrow> 'w provider \<Rightarrow> 'w storage \<Rightarrow> 'w \<Rightarrow> go_err option \<times> 'w" where
  "authenticateVaultUsingTokenInStorage root_token P S w =
     (case st_Get S PLATFORM VaultKeysKubernetesSecretName w of
        (Inl err, w) \<Rightarrow> (Some (wrapf ''get Vault keys'' err), w)
      | (Inr values, w) \<Rightarrow>
          (case values VaultKeysKubernetesSecretName of
             None \<Rightarrow> (Some (Errorf ''keys not found''), w)
           | Some vaultKeys \<Rightarrow>
               (case root_token vaultKeys of
                  Inl err \<Rightarrow> (Some (wrapf ''unmarshal keys'' err), w)
                | Inr t \<Rightarrow> if t = [] then (Some (Errorf ''root_token must not be empty''), w) else (None, pv_SetToken P t w))))"

text \<open>\<open>probe\<close> sends the request to the identity provider: \<open>None\<close> when the request cannot be built,
  which ends the wait like an answer does.\<close>

definition probe_action :: "(string \<Rightarrow> 'w \<Rightarrow> go_err option option \<times> 'w) \<Rightarrow> string \<Rightarrow> 'w \<Rightarrow> (go_err + unit) \<times> 'w" where
  "probe_action probe url w =
     (case probe url w of
        (Some (Some err), w) \<Rightarrow> (Inl (wrapf ''get Keycloak config'' err), w)
      | (_, w) \<Rightarrow> (Inr (), w))"

definition ConfigureAuth ::
  "(string \<Rightarrow> 'w \<Rightarrow> go_err option option \<times> 'w) \<Rightarrow> vault_config \<Rightarrow> 'w provider \<Rightarrow> 'w ctx \<Rightarrow> 'w \<Rightarrow> (unit, 'w) run" where
  "ConfigureAuth probe cfg P C w =
     run_bind ''create orch-svc secrets store'' (returns (err_sum (pv_CreateOrchSvcSecretsStore P w)))
       (\<lambda>_ w. run_bind ''wait for Keycloak''
          (retried (UntilItSucceeds C (probe_action probe (AuthOIDCIdPDiscoveryURL cfg)) 10 w))
       (\<lambda>_ w. run_bind ''configure OIDC auth'' (returns (err_sum (pv_CreateOIDCAuth P w))) (\<lambda>_ w. Some (Done (), w))))"

definition initialized_action :: "'w provider \<Rightarrow> 'w \<Rightarrow> (go_err + bool) \<times> 'w" where
  "initialized_action P w =
     (case pv_Initialized P w of (Inl err, w) \<Rightarrow> (Inl (wrapf ''get Vault initialized status'' err), w) | (Inr b, w) \<Rightarrow> (Inr b, w))"

text \<open>What runs outside of the program: the JSON codec and the probe.\<close>

record 'w secrets_lib =
  sl_root_token :: "string \<Rightarrow> go_err + string"
  sl_probe :: "string \<Rightarrow> 'w \<Rightarrow> go_err option option \<times> 'w"

definition authenticate :: "'w secrets_lib \<Rightarrow> 'w provider \<Rightarrow> 'w storage \<Rightarrow> 'w ctx \<Rightarrow> 'w \<Rightarrow> ((go_err + unit) \<times> 'w) option" where
  "authenticate L P S C w =
     UntilItSucceeds C (act (''authenticate with Vault token in secret '' @ VaultKeysKubernetesSecretName)
       (authenticateVaultUsingTokenInStorage (sl_root_token L) P S)) 10 w"

definition Configure :: "'w secrets_lib \<Rightarrow> vault_config \<Rightarrow> 'w provider \<Rightarrow> 'w storage \<Rightarrow> 'w ctx \<Rightarrow> 'w \<Rightarrow> (unit, 'w) run" where
  "Configure L cfg P S C w =
     run_bind ''retry'' (retried (UntilItSucceeds C (initialized_action P) 5 w))
       (\<lambda>initialized w. run_bind ''initialize and authenticate client''
          (if \<not> initialized \<and> AutoInit cfg then initializeAndPersistKeys P S C w else Some (Done (), w))
       (\<lambda>_ w. run_bind (''retry wait for '' @ VaultKeysKubernetesSecretName @ '' secret'') (retried (authenticate L P S C w))
       (\<lambda>_ w. run_bind ''configure auth methods'' (ConfigureAuth (sl_probe L) cfg P C w)
       (\<lambda>_ w. if AutoInit cfg then Some (Done (), w)
          else run_bind ''revoke token'' (returns (err_sum (pv_RevokeToken P w)))
            (\<lambda>_ w. run_bind (''delete secret '' @ VaultKeysKubernetesSecretName)
               (returns (err_sum (st_Delete S PLATFORM VaultKeysKubernetesSecretName w)))
               (\<lambda>_ w. Some (Done (), w)))))))"

section \<open>The job\<close>

text \<open>\<open>vaultPodAddrs\<close>: the addresses of the Vault pods, when there are as many as replicas.  A pod is its
  name and its IP.\<close>

record 'w kube_pods =
  kp_replicas :: "'w \<Rightarrow> (go_err + int option) \<times> 'w"
  kp_pods :: "'w \<Rightarrow> (go_err + (string \<times> string) list) \<times> 'w"

definition pod_addrs :: "(string \<times> string) list \<Rightarrow> string list" where
  "pod_addrs pods =
     map (\<lambda>(name, ip). ''http://'' @ ip @ '':8200'')
       (filter (\<lambda>(name, ip). HasPrefix name ''vault-'' \<and> \<not> HasPrefix name ''vault-agent'' \<and> ip \<noteq> []) pods)"

definition pods_action :: "'w kube_pods \<Rightarrow> 'w \<Rightarrow> (go_err + string list) \<times> 'w" where
  "pods_action K w =
     (case kp_replicas K w of
        (Inl err, w) \<Rightarrow> (Inl (wrapf ''get stateful set'' err), w)
      | (Inr None, w) \<Rightarrow> (Inl (Errorf ''stateful set replicas is nil''), w)
      | (Inr (Some n), w) \<Rightarrow>
     (case kp_pods K w of
        (Inl err, w) \<Rightarrow> (Inl (wrapf ''list pods'' err), w)
      | (Inr pods, w) \<Rightarrow>
          if int (length (pod_addrs pods)) \<noteq> n then 
            (Inl (Errorf (''running pods ('' @ decimal (length (pod_addrs pods)) @ '') != desired ('' @ decimal_int n @ '')'')), w)
          else (Inr (pod_addrs pods), w)))"

definition vaultPodAddrs :: "'w kube_pods \<Rightarrow> 'w ctx \<Rightarrow> 'w \<Rightarrow> (string list, 'w) run" where
  "vaultPodAddrs K C w =
     run_bind ''retry'' (retried (UntilItSucceeds C (pods_action K) 5 w)) (\<lambda>addrs w. Some (Done addrs, w))"

text \<open>\<open>shutdownIstioProxy\<close>: a failed request is logged and its nil response closed, which panics.\<close>

record 'w istio =
  is_Dial :: "'w \<Rightarrow> bool \<times> 'w"
  is_Quit :: "'w \<Rightarrow> bool \<times> 'w"

definition shutdownIstioProxy :: "'w istio \<Rightarrow> 'w \<Rightarrow> unit res \<times> 'w" where
  "shutdownIstioProxy I w =
     (case is_Dial I w of
        (False, w) \<Rightarrow> (Done (), w)
      | (True, w) \<Rightarrow> (case is_Quit I w of (True, w) \<Rightarrow> (Done (), w) | (False, w) \<Rightarrow> (Panic, w)))"

text \<open>\<open>main\<close> after the flags, the logger and the Kubernetes client; its value is the exit code.  The
  deferred call of \<open>os.Exit\<close> also runs in a panic, with the code set so far.\<close>

record 'w job =
  jb_lib :: "'w secrets_lib"
  jb_encode :: "init_resp \<Rightarrow> go_err + string"
  jb_NewClient :: "string \<Rightarrow> go_err + 'w vault_api"
  jb_secrets :: "'w kube_secrets"
  jb_pods :: "'w kube_pods"
  jb_istio :: "'w istio"
  jb_sleep :: "int \<Rightarrow> 'w \<Rightarrow> 'w"

definition exit_code :: "'a res \<Rightarrow> int" where
  "exit_code r = (case r of Fail _ \<Rightarrow> 1 | _ \<Rightarrow> 0)"

definition job_steps :: "'w job \<Rightarrow> vault_config \<Rightarrow> 'w \<Rightarrow> (unit, 'w) run" where
  "job_steps J cfg w =
     (let C = background (jb_sleep J) in
      run_bind [] (vaultPodAddrs (jb_pods J) C w)
        (\<lambda>addrs w. run_bind [] (returns (NewSecretsProviderService (jb_NewClient J) addrs cfg, w))
        (\<lambda>svc w. run_bind [] (Configure (jb_lib J) cfg (vault_provider (jb_encode J) svc) (kube_storage (jb_secrets J)) C w)
        (\<lambda>_ w. Some (shutdownIstioProxy (jb_istio J) w)))))"

definition job_main :: "'w job \<Rightarrow> vault_config \<Rightarrow> 'w \<Rightarrow> (int \<times> 'w) option" where
  "job_main J cfg w = map_option (\<lambda>(r, w). (exit_code r, w)) (job_steps J cfg w)"

definition default_config :: vault_config where
  "default_config = \<lparr>AutoInit = False, AutoUnseal = False, AuthOrchSvcsRoleMaxTTL = ''1h'',
     AuthOIDCIdPAddr = ''http://platform-keycloak'', AuthOIDCIdPDiscoveryURL = ''http://platform-keycloak/realms/master'',
     AuthOIDCRoleMaxTTL = ''1h''\<rparr>"

end
