(* ===== verification/Vault_Job.thy ===== *)
theory Vault_Job
  imports Vault_Configure
begin

text \<open>
  Properties of the Vault configuration job: the keys it must not lose, what it leaves in Vault, and
  what a second run does.
\<close>

section \<open>Runs in sequence\<close>

lemma run_bind_Done:
  "run_bind msg m f = Some (Done y, w') \<longleftrightarrow> (\<exists>x w1. m = Some (Done x, w1) \<and> f x w1 = Some (Done y, w'))"
  by (auto simp: run_bind_def split: option.splits prod.splits res.splits)

lemma run_bind_None: "run_bind msg m f = None \<longleftrightarrow> m = None \<or> (\<exists>x w1. m = Some (Done x, w1) \<and> f x w1 = None)"
  by (auto simp: run_bind_def split: option.splits prod.splits res.splits)

lemma run_bind_Fail:
  "run_bind msg m f = Some (Fail e, w') \<longleftrightarrow>
     (\<exists>err. m = Some (Fail err, w') \<and> e = wrapf msg err) \<or> (\<exists>x w1. m = Some (Done x, w1) \<and> f x w1 = Some (Fail e, w'))"
  by (auto simp: run_bind_def split: option.splits prod.splits res.splits)

lemma and_then_None: "and_then msg f g w = (None, w') \<longleftrightarrow> (\<exists>w1. f w = (None, w1) \<and> g w1 = (None, w'))"
  by (auto simp: and_then_def split: prod.splits option.splits)

lemma returns_Done [simp]: "returns r = Some (Done x, w') \<longleftrightarrow> r = (Inr x, w')"
  by (cases r) (auto simp: returns_def of_sum_def split: sum.splits)

lemma retried_Done [simp]: "retried m = Some (Done x, w') \<longleftrightarrow> m = Some (Inr x, w')"
  by (cases m) (auto simp: retried_def of_sum_def prod_eq_iff split: sum.splits)

lemma retried_None [simp]: "retried m = None \<longleftrightarrow> m = None"
  by (simp add: retried_def)

lemma err_sum_Inr [simp]: "err_sum r = (Inr x, w') \<longleftrightarrow> r = (None, w')"
  by (cases r) (auto simp: err_sum_def split: option.splits)

lemma act_Inr [simp]: "act msg f w = (Inr x, w') \<longleftrightarrow> f w = (None, w')"
  by (auto simp: act_def and_then_None)

lemma act_isl: "isl (fst (act msg f w)) \<longleftrightarrow> fst (f w) \<noteq> None" "snd (act msg f w) = snd (f w)"
  by (auto simp: act_def err_sum_def and_then_def split: prod.splits option.splits)

text \<open>An invariant of the action and of the wait holds before every attempt, and so after the loop.\<close>

lemma before_attempt_invariant:
  "I w \<Longrightarrow> (\<And>w. I w \<Longrightarrow> I (snd (action w))) \<Longrightarrow> (\<And>w. I w \<Longrightarrow> I (sleep d w)) \<Longrightarrow> I (before_attempt sleep action d k w)"
  by (induction k arbitrary: w) auto

lemma retry_invariant:
  assumes "UntilItSucceeds (background sleep) action d w = Some (r, w')"
    and "I w" "\<And>w. I w \<Longrightarrow> I (snd (action w))" "\<And>w. I w \<Longrightarrow> I (sleep d w)"
  shows "I w'"
proof -
  from retry_returned [OF assms(1)] obtain k x where "action (before_attempt sleep action d k w) = (Inr x, w')"
    by blast
  then show ?thesis
    using assms(3) [OF before_attempt_invariant [of I w action sleep d k, OF assms(2-4)]] by simp
qed

section \<open>The keys\<close>

text \<open>
  The keys of a new Vault are not given up: once Vault has answered with keys the job goes on
  storing them until the storage has accepted exactly them, and the only error it can report is that
  of the initialisation itself.
\<close>

lemma keys_persisted:
  assumes "initializeAndPersistKeys P S (background sleep) w = Some (r, w')"
  shows "case r of
      Done _ \<Rightarrow> \<exists>keys w1 w2. pv_Initialize P (background sleep) w = Some (Done keys, w1) \<and>
        st_Put S ''orch-platform'' ''vault-keys'' [(''vault-keys'', keys)] w2 = (None, w')
    | Fail _ \<Rightarrow> \<exists>err. pv_Initialize P (background sleep) w = Some (Fail err, w')
    | Panic \<Rightarrow> pv_Initialize P (background sleep) w = Some (Panic, w')"
proof (cases r)
  case (Done u)
  with assms obtain keys w1 x where init: "pv_Initialize P (background sleep) w = Some (Done keys, w1)"
    and put: "UntilItSucceeds (background sleep)
      (act ''store Vault keys'' (st_Put S PLATFORM VaultKeysKubernetesSecretName [(VaultKeysKubernetesSecretName, keys)])) 2 w1 = Some (Inr x, w')"
    unfolding initializeAndPersistKeys_def by (auto simp: run_bind_Done)
  then show ?thesis
    using Done retry_returned [OF put] by (auto simp: PLATFORM_def VaultKeysKubernetesSecretName_def)
next
  case (Fail e)
  have "retried (UntilItSucceeds (background sleep) a d w1) \<noteq> Some (Fail err, w')" for a :: "'a \<Rightarrow> (go_err + unit) \<times> 'a" and d w1 err
    by (auto simp: retried_def of_sum_def split: sum.splits dest!: retry_returned)
  with assms Fail show ?thesis
    unfolding initializeAndPersistKeys_def by (auto simp: run_bind_Fail)
next
  case Panic
  have "retried (UntilItSucceeds (background sleep) a d w1) \<noteq> Some (Panic, w')" for a :: "'a \<Rightarrow> (go_err + unit) \<times> 'a" and d w1
    by (auto simp: retried_def of_sum_def split: sum.splits)
  with assms Panic show ?thesis
    unfolding initializeAndPersistKeys_def
    by (auto simp: run_bind_def split: option.splits prod.splits res.splits)
qed

section \<open>A second run\<close>

text \<open>What the code relies on of Kubernetes for one secret: \<open>gone\<close> says that it is not there.  A deletion
  that succeeds removes it, a read then fails, and what the rest of the job calls does not bring it back.\<close>

definition secret_gone :: "('w \<Rightarrow> bool) \<Rightarrow> 'w provider \<Rightarrow> 'w storage \<Rightarrow> (int \<Rightarrow> 'w \<Rightarrow> 'w) \<Rightarrow> bool" where
  "secret_gone gone P S sleep \<longleftrightarrow>
     (\<forall>w w'. st_Delete S PLATFORM VaultKeysKubernetesSecretName w = (None, w') \<longrightarrow> gone w') \<and>
     (\<forall>w. gone w \<longrightarrow> isl (fst (st_Get S PLATFORM VaultKeysKubernetesSecretName w)) \<and>
        gone (snd (st_Get S PLATFORM VaultKeysKubernetesSecretName w))) \<and>
     (\<forall>w. gone w \<longrightarrow> gone (snd (pv_Initialized P w))) \<and>
     (\<forall>d w. gone w \<longrightarrow> gone (sleep d w))"

lemma initialized_action_snd: "snd (initialized_action P w) = snd (pv_Initialized P w)"
  by (simp add: initialized_action_def split: prod.split sum.split)

lemma authenticate_without_secret:
  assumes "secret_gone gone P S sleep" and "gone w"
  shows "authenticate L P S (background sleep) w = None"
proof -
  let ?auth = "authenticateVaultUsingTokenInStorage (sl_root_token L) P S"
  note gone = assms(1) [unfolded secret_gone_def]
  have fails: "fst (?auth w) \<noteq> None" "gone (snd (?auth w))" if "gone w" for w
  proof -
    obtain r w1 where get: "st_Get S PLATFORM VaultKeysKubernetesSecretName w = (r, w1)"
      by fastforce
    with gone that obtain err where "r = Inl err" "gone w1"
      by (metis fst_conv snd_conv sum.collapse(1))
    with get show "fst (?auth w) \<noteq> None" "gone (snd (?auth w))"
      by (simp_all add: authenticateVaultUsingTokenInStorage_def)
  qed
  have "gone (before_attempt sleep (act m ?auth) 10 k w)" for k m
    by (rule before_attempt_invariant) (use assms(2) gone fails in \<open>auto simp: act_isl\<close>)
  then show ?thesis
    unfolding authenticate_def
    by (intro retry_diverges) (simp add: attempt_fails_def act_isl fails)
qed

text \<open>
  C35. A manual configuration can be run once: it ends by revoking the token and deleting the secret
  that a second run waits for, so the second run never returns.
\<close>

theorem second_manual_run_never_returns:
  assumes gone: "secret_gone gone P S sleep" and manual: "\<not> AutoInit cfg"
    and first: "Configure L cfg P S (background sleep) w = Some (Done (), w')"
  shows "Configure L cfg P S (background sleep) w' = None"
proof -
  from first manual obtain w1 where "st_Delete S PLATFORM VaultKeysKubernetesSecretName w1 = (None, w')"
    unfolding Configure_def by (auto simp: run_bind_Done split: if_splits)
  then have "gone w'"
    using gone by (auto simp: secret_gone_def)
  have "authenticate L P S (background sleep) w1 = None"
    if "UntilItSucceeds (background sleep) (initialized_action P) 5 w' = Some (r, w1)" for r w1
    by (rule authenticate_without_secret [OF gone retry_invariant [OF that, of gone]])
       (use \<open>gone w'\<close> gone in \<open>auto simp: secret_gone_def initialized_action_snd\<close>)
  then show ?thesis
    using manual
    by (cases "UntilItSucceeds (background sleep) (initialized_action P) 5 w'")
       (auto simp: Configure_def run_bind_def retried_def of_sum_def retry_no_error split: prod.splits option.splits sum.splits)
qed

section \<open>What the configuration leaves in Vault\<close>

text \<open>What the code relies on of Vault, for its auth methods, engines, policies and data: a call that
  fails changes nothing, a mount fails as "already in use" only where something is mounted and succeeds
  only where nothing is, policies and data are overwritten.\<close>

record vault_state =
  vc_auths :: "string \<rightharpoonup> string"
  vc_mounts :: "string \<rightharpoonup> string"
  vc_policies :: "string \<rightharpoonup> string"
  vc_data :: "string \<rightharpoonup> vault_data"

definition vault_ok :: "'w vault_api \<Rightarrow> ('w \<Rightarrow> vault_state) \<Rightarrow> bool" where
  "vault_ok A conf \<longleftrightarrow>
     (\<forall>p t ttl w. case va_EnableAuth A p t ttl w of
        (None, w') \<Rightarrow> vc_auths (conf w) p = None \<and> conf w' = (conf w)\<lparr>vc_auths := (vc_auths (conf w))(p \<mapsto> ttl)\<rparr>
      | (Some err, w') \<Rightarrow> conf w' = conf w \<and> (Contains (err_text err) ''already in use'' \<longrightarrow> vc_auths (conf w) p \<noteq> None)) \<and>
     (\<forall>p t w. case va_Mount A p t w of
        (None, w') \<Rightarrow> vc_mounts (conf w) p = None \<and> conf w' = (conf w)\<lparr>vc_mounts := (vc_mounts (conf w))(p \<mapsto> t)\<rparr>
      | (Some err, w') \<Rightarrow> conf w' = conf w \<and> (Contains (err_text err) ''already in use'' \<longrightarrow> vc_mounts (conf w) p \<noteq> None)) \<and>
     (\<forall>n x w. conf (snd (va_PutPolicy A n x w)) =
        (if fst (va_PutPolicy A n x w) = None then (conf w)\<lparr>vc_policies := (vc_policies (conf w))(n \<mapsto> x)\<rparr> else conf w)) \<and>
     (\<forall>p d w. conf (snd (va_Write A p d w)) =
        (if fst (va_Write A p d w) = None then (conf w)\<lparr>vc_data := (vc_data (conf w))(p \<mapsto> d)\<rparr> else conf w))"

text \<open>What is mounted stays as it is; what is missing is mounted.\<close>

definition mounted :: "string \<Rightarrow> string \<Rightarrow> (string \<rightharpoonup> string) \<Rightarrow> (string \<rightharpoonup> string)" where
  "mounted p x m = (if m p = None then m(p \<mapsto> x) else m)"

definition auth_spec :: "vault_config \<Rightarrow> vault_state \<Rightarrow> vault_state" where
  "auth_spec cfg c = c\<lparr>
     vc_auths := mounted ''jwt'' (AuthOIDCRoleMaxTTL cfg) (mounted ''kubernetes'' ''1h'' (vc_auths c)),
     vc_mounts := mounted ''secret'' ''kv-v2'' (vc_mounts c),
     vc_policies := (vc_policies c)(''orch-svc'' \<mapsto> orchSvcPolicy, ''secretsRootPolicy'' \<mapsto> secretsRootPolicy),
     vc_data := (vc_data c)(
       ''auth/kubernetes/config'' \<mapsto> [(''kubernetes_host'', VStr ''https://kubernetes.default.svc'')],
       ''sys/quotas/rate-limit/kubernetes'' \<mapsto> rate_limit ''auth/kubernetes/*'' ''1s'',
       ''auth/kubernetes/role/orch-svc'' \<mapsto> orch_svc_role cfg,
       ''auth/jwt/role/secretsRoot'' \<mapsto> secrets_root_role cfg,
       ''auth/jwt/config'' \<mapsto> jwt_config cfg,
       ''sys/quotas/rate-limit/jwt'' \<mapsto> rate_limit ''auth/jwt/*'' ''60s'')\<rparr>"

lemma auth_spec_idem: "auth_spec cfg (auth_spec cfg c) = auth_spec cfg c"
  by (rule vault_state.equality) (auto simp: auth_spec_def mounted_def fun_eq_iff)

lemma vault_okD:
  assumes "vault_ok A conf"
  shows ok_EnableAuth: "tolerate_in_use (va_EnableAuth A p t ttl w) = (None, w') \<Longrightarrow>
      conf w' = (conf w)\<lparr>vc_auths := mounted p ttl (vc_auths (conf w))\<rparr>"
    and ok_Mount: "tolerate_in_use (va_Mount A p t w) = (None, w') \<Longrightarrow>
      conf w' = (conf w)\<lparr>vc_mounts := mounted p t (vc_mounts (conf w))\<rparr>"
    and ok_PutPolicy: "va_PutPolicy A n x w = (None, w') \<Longrightarrow> conf w' = (conf w)\<lparr>vc_policies := (vc_policies (conf w))(n \<mapsto> x)\<rparr>"
    and ok_Write: "va_Write A p d w = (None, w') \<Longrightarrow> conf w' = (conf w)\<lparr>vc_data := (vc_data (conf w))(p \<mapsto> d)\<rparr>"
proof -
  note ok = assms [unfolded vault_ok_def]
  note r1 = ok [THEN conjunct2] and auth = ok [THEN conjunct1, rule_format, where p = p and t = t and ttl = ttl and w = w]
  note r2 = r1 [THEN conjunct2] and mount = r1 [THEN conjunct1, rule_format, where p = p and t = t and w = w]
  note pol = r2 [THEN conjunct1, rule_format, where n = n and x = x and w = w] and data = r2 [THEN conjunct2, rule_format, where p = p and d = d and w = w]
  show "conf w' = (conf w)\<lparr>vc_auths := mounted p ttl (vc_auths (conf w))\<rparr>" if "tolerate_in_use (va_EnableAuth A p t ttl w) = (None, w')"
    using auth that by (auto simp: tolerate_in_use_def mounted_def split: prod.splits option.splits if_splits)
  show "conf w' = (conf w)\<lparr>vc_mounts := mounted p t (vc_mounts (conf w))\<rparr>" if "tolerate_in_use (va_Mount A p t w) = (None, w')"
    using mount that by (auto simp: tolerate_in_use_def mounted_def split: prod.splits option.splits if_splits)
  show "conf w' = (conf w)\<lparr>vc_policies := (vc_policies (conf w))(n \<mapsto> x)\<rparr>" if "va_PutPolicy A n x w = (None, w')"
    using pol that by simp
  show "conf w' = (conf w)\<lparr>vc_data := (vc_data (conf w))(p \<mapsto> d)\<rparr>" if "va_Write A p d w = (None, w')"
    using data that by simp
qed

text \<open>
  C22. A configuration of the auth methods that reports success leaves exactly the configured methods,
  engine, policies, roles and limits in Vault and the rest as it was; another run with the same flags
  changes nothing more.  What is already mounted keeps its old settings.
\<close>

theorem ConfigureAuth_meets_spec:
  assumes ok: "vault_ok (vs_api svc) conf" and cfg: "vs_config svc = cfg"
    and probe: "\<And>u w. conf (snd (probe u w)) = conf w" and sleep: "\<And>d w. conf (sleep d w) = conf w"
    and run: "ConfigureAuth probe cfg (vault_provider encode svc) (background sleep) w = Some (Done (), w')"
  shows "conf w' = auth_spec cfg (conf w) \<and>
    (\<forall>w''. ConfigureAuth probe cfg (vault_provider encode svc) (background sleep) w' = Some (Done (), w'') \<longrightarrow> conf w'' = conf w')"
proof -
  have spec: "conf w' = auth_spec cfg (conf w)"
    if "ConfigureAuth probe cfg (vault_provider encode svc) (background sleep) w = Some (Done (), w')" for w w'
  proof -
    from that obtain w1 x w2 where orch: "CreateOrchSvcSecretsStore svc w = (None, w1)"
      and wait: "UntilItSucceeds (background sleep) (probe_action probe (AuthOIDCIdPDiscoveryURL cfg)) 10 w1 = Some (Inr x, w2)"
      and oidc: "CreateOIDCAuth svc w2 = (None, w')"
      unfolding ConfigureAuth_def by (auto simp: run_bind_Done vault_provider_def)
    have "conf w2 = conf w1"
      by (rule retry_invariant [OF wait, of "\<lambda>w. conf w = conf w1"])
         (auto simp: probe_action_def sleep split: prod.split option.split, (metis probe snd_conv)+)
    moreover have "conf w1 = (conf w)\<lparr>vc_auths := mounted ''kubernetes'' ''1h'' (vc_auths (conf w)),
        vc_mounts := mounted ''secret'' ''kv-v2'' (vc_mounts (conf w)), vc_policies := (vc_policies (conf w))(''orch-svc'' \<mapsto> orchSvcPolicy),
        vc_data := (vc_data (conf w))(''auth/kubernetes/config'' \<mapsto> [(''kubernetes_host'', VStr ''https://kubernetes.default.svc'')],
          ''sys/quotas/rate-limit/kubernetes'' \<mapsto> rate_limit ''auth/kubernetes/*'' ''1s'',
          ''auth/kubernetes/role/orch-svc'' \<mapsto> orch_svc_role cfg)\<rparr>"
      using orch unfolding CreateOrchSvcSecretsStore_def enableKubernetesAuth_def Let_def cfg
      by (auto simp: and_then_None dest!: vault_okD [OF ok])
    ultimately show ?thesis
      using oidc unfolding CreateOIDCAuth_def Let_def cfg
      by (auto simp: and_then_None auth_spec_def dest!: vault_okD [OF ok])
  qed
  show ?thesis
    using spec [OF run] spec [of w'] by (auto simp: auth_spec_idem)
qed

section \<open>Instances\<close>

text \<open>For evaluation: a world that is the secret alone, and a Vault in memory.\<close>

definition flag_provider :: "bool provider" where
  "flag_provider = \<lparr>pv_Initialized = \<lambda>w. (Inr True, w), pv_Initialize = \<lambda>C w. Some (Done ''keys'', w), pv_SetToken = \<lambda>t w. w,
     pv_RevokeToken = \<lambda>w. (None, w), pv_CreateOrchSvcSecretsStore = \<lambda>w. (None, w), pv_CreateOIDCAuth = \<lambda>w. (None, w)\<rparr>"

definition flag_storage :: "bool storage" where
  "flag_storage = \<lparr>st_Get = \<lambda>ns n w. (if w then Inr [''vault-keys'' \<mapsto> ''keys''] else Inl (Errorf ''not found''), w),
     st_Put = \<lambda>ns n vs w. if w then (Some (Errorf ''exists''), w) else (None, True), st_Delete = \<lambda>ns n w. (None, False)\<rparr>"

definition flag_lib :: "bool secrets_lib" where
  "flag_lib = \<lparr>sl_root_token = \<lambda>s. Inr ''root'', sl_probe = \<lambda>u w. (Some None, w)\<rparr>"

lemma flag_gone: "secret_gone Not flag_provider flag_storage (\<lambda>d w. w)"
  by (simp add: secret_gone_def flag_provider_def flag_storage_def)

lemma flag_configure: "Configure flag_lib default_config flag_provider flag_storage (background (\<lambda>d w. w)) True = Some (Done (), False)"
  by (simp add: Configure_def ConfigureAuth_def run_bind_def flag_provider_def flag_storage_def flag_lib_def retry_step act_def and_then_def
    err_sum_def retried_def of_sum_def returns_def initialized_action_def authenticate_def authenticateVaultUsingTokenInStorage_def
    probe_action_def default_config_def VaultKeysKubernetesSecretName_def)

theorem second_manual_run_never_returns_witness:
  "Configure flag_lib default_config flag_provider flag_storage (background (\<lambda>d w. w)) False = None"
  using second_manual_run_never_returns [OF flag_gone _ flag_configure] by (simp add: default_config_def)

definition mem_vault :: "vault_state vault_api" where
  "mem_vault = \<lparr>va_SetAddress = \<lambda>a w. (None, w), va_SetToken = \<lambda>t w. w, va_RevokeSelf = \<lambda>w. (None, w),
     va_InitStatus = \<lambda>w. (Inr True, w), va_Init = \<lambda>r w. (Inr \<lparr>Keys = [''k''], RecoveryKeys = [], RootToken = ''t''\<rparr>, w),
     va_Unseal = \<lambda>k w. (Inr False, w),
     va_EnableAuth = \<lambda>p t ttl w. if vc_auths w p = None then (None, w\<lparr>vc_auths := (vc_auths w)(p \<mapsto> ttl)\<rparr>) else (Some (Errorf ''already in use''), w),
     va_Mount = \<lambda>p t w. if vc_mounts w p = None then (None, w\<lparr>vc_mounts := (vc_mounts w)(p \<mapsto> t)\<rparr>) else (Some (Errorf ''already in use''), w),
     va_PutPolicy = \<lambda>n x w. (None, w\<lparr>vc_policies := (vc_policies w)(n \<mapsto> x)\<rparr>),
     va_Write = \<lambda>p d w. (None, w\<lparr>vc_data := (vc_data w)(p \<mapsto> d)\<rparr>)\<rparr>"

definition mem_service :: "vault_state vault_service" where
  "mem_service = \<lparr>vs_addrs = [''a''], vs_api = mem_vault, vs_config = default_config\<rparr>"

definition empty_vault :: vault_state where
  "empty_vault = \<lparr>vc_auths = Map.empty, vc_mounts = Map.empty, vc_policies = Map.empty, vc_data = Map.empty\<rparr>"

lemma mem_vault_ok: "vault_ok mem_vault id"
  by (simp add: vault_ok_def mem_vault_def)

lemma already_in_use [simp]: "Contains ''already in use'' ''already in use''"
  by (simp add: Contains_def)

lemma mem_vault_calls:
  "tolerate_in_use (va_EnableAuth mem_vault p t ttl c) = (None, c\<lparr>vc_auths := mounted p ttl (vc_auths c)\<rparr>)"
  "tolerate_in_use (va_Mount mem_vault p t c) = (None, c\<lparr>vc_mounts := mounted p t (vc_mounts c)\<rparr>)"
  "va_PutPolicy mem_vault n x c = (None, c\<lparr>vc_policies := (vc_policies c)(n \<mapsto> x)\<rparr>)"
  "va_Write mem_vault p d c = (None, c\<lparr>vc_data := (vc_data c)(p \<mapsto> d)\<rparr>)"
  by (simp_all add: mem_vault_def tolerate_in_use_def mounted_def)

lemma mem_configure:
  "\<exists>w. ConfigureAuth (\<lambda>u w. (Some None, w)) default_config (vault_provider encode mem_service) (background (\<lambda>d w. w)) empty_vault = Some (Done (), w)"
  unfolding ConfigureAuth_def vault_provider_def CreateOrchSvcSecretsStore_def CreateOIDCAuth_def enableKubernetesAuth_def mem_service_def Let_def
  by (simp add: and_then_def mem_vault_calls run_bind_def returns_def of_sum_def err_sum_def retried_def retry_step probe_action_def)

theorem ConfigureAuth_meets_spec_witness:
  "\<exists>w. ConfigureAuth (\<lambda>u w. (Some None, w)) default_config (vault_provider (\<lambda>r. Inr []) mem_service) (background (\<lambda>d w. w)) empty_vault = Some (Done (), w) \<and>
     w = auth_spec default_config empty_vault"
proof -
  obtain w where run: "ConfigureAuth (\<lambda>u w. (Some None, w)) default_config (vault_provider (\<lambda>r. Inr []) mem_service) (background (\<lambda>d w. w)) empty_vault = Some (Done (), w)"
    using mem_configure by blast
  have "vault_ok (vs_api mem_service) id"
    using mem_vault_ok by (simp add: mem_service_def)
  from ConfigureAuth_meets_spec [OF this _ _ _ run] run show ?thesis
    by (simp add: mem_service_def)
qed

end
