(* ===== verification/Vault_Token.thy ===== *)
theory Vault_Token
  imports Vault_Job
begin

text \<open>
  The whole job on a Vault that is not initialised yet: the token it configures Vault with is the root
  token of the answer to the initialisation, by way of the encoder, the secret and the decoder.
\<close>

section \<open>What is relied on\<close>

text \<open>A Vault that is not initialised says so, and neither asking nor waiting initialises it.\<close>

definition vault_fresh :: "('w \<Rightarrow> bool) \<Rightarrow> 'w vault_api \<Rightarrow> (int \<Rightarrow> 'w \<Rightarrow> 'w) \<Rightarrow> bool" where
  "vault_fresh fresh A sleep \<longleftrightarrow>
     (\<forall>w. fresh w \<longrightarrow> fst (va_InitStatus A w) \<noteq> Inr True \<and> fresh (snd (va_InitStatus A w))) \<and>
     (\<forall>d w. fresh w \<longrightarrow> fresh (sleep d w))"

text \<open>The secret holds what it was created with; reading it, waiting and setting the token of the client
  leave it alone, and an answer is its content.\<close>

definition secret_kept :: "('w \<Rightarrow> (string \<times> string) list option) \<Rightarrow> 'w kube_secrets \<Rightarrow> 'w vault_api \<Rightarrow> (int \<Rightarrow> 'w \<Rightarrow> 'w) \<Rightarrow> bool" where
  "secret_kept content K A sleep \<longleftrightarrow>
     (\<forall>vs w w'. ks_Create K PLATFORM VaultKeysKubernetesSecretName vs w = (None, w') \<longrightarrow> content w' = Some vs) \<and>
     (\<forall>w. content (snd (ks_Get K PLATFORM VaultKeysKubernetesSecretName w)) = content w \<and>
        (\<forall>vs. fst (ks_Get K PLATFORM VaultKeysKubernetesSecretName w) = Inr vs \<longrightarrow> content w = Some vs)) \<and>
     (\<forall>d w. content (sleep d w) = content w) \<and>
     (\<forall>t w. content (va_SetToken A t w) = content w)"

section \<open>Step by step\<close>

lemma Initialize_Done:
  assumes "Initialize encode svc C w = Some (Done keys, w')"
  obtains resp w1 where "va_Init (vs_api svc) (init_request_of (vs_config svc)) w = (Inr resp, w1)" "encode resp = Inr keys"
  using assms by (auto simp: Initialize_def run_bind_Done)

lemma fresh_status:
  assumes ok: "vault_fresh fresh (vs_api svc) sleep" and "fresh w"
    and run: "UntilItSucceeds (background sleep) (initialized_action (vault_provider encode svc)) d w = Some (Inr b, w')"
  shows "\<not> b \<and> fresh w'"
proof -
  let ?a = "initialized_action (vault_provider encode svc)"
  have keep: "fresh (snd (?a w))" if "fresh w" for w
    using ok that by (simp add: initialized_action_snd vault_provider_def Initialized_def vault_fresh_def)
  obtain k x where k: "?a (before_attempt sleep ?a d k w) = (Inr x, w')" "Inr x = (Inr b :: go_err + bool)"
    using retry_returned [OF run] by blast
  have "fresh (before_attempt sleep ?a d k w)"
    by (rule before_attempt_invariant) (use assms(2) keep ok in \<open>auto simp: vault_fresh_def\<close>)
  with k ok keep [of "before_attempt sleep ?a d k w"] show ?thesis
    by (auto simp: initialized_action_def vault_provider_def Initialized_def vault_fresh_def split: prod.splits sum.splits)
qed

lemma authenticate_token:
  assumes kept: "secret_kept content K (vs_api svc) sleep"
    and codec: "sl_root_token L keys = Inr t"
    and content: "content w = Some [(VaultKeysKubernetesSecretName, keys)]"
    and run: "authenticate L (vault_provider encode svc) (kube_storage K) (background sleep) w = Some (Inr u, w')"
  shows "t \<noteq> [] \<and> (\<exists>v. content v = Some [(VaultKeysKubernetesSecretName, keys)] \<and> w' = va_SetToken (vs_api svc) t v)"
proof -
  let ?auth = "authenticateVaultUsingTokenInStorage (sl_root_token L) (vault_provider encode svc) (kube_storage K)"
  let ?I = "\<lambda>w. content w = Some [(VaultKeysKubernetesSecretName, keys)]"
  note k = kept [unfolded secret_kept_def]
  have keep: "?I (snd (?auth w))" if "?I w" for w
    using that k by (auto simp: authenticateVaultUsingTokenInStorage_def kube_storage_def vault_provider_def Get_def SetToken_def
        split: prod.splits sum.splits option.splits; metis snd_conv)
  have one: "t \<noteq> [] \<and> (\<exists>v. ?I v \<and> w' = va_SetToken (vs_api svc) t v)" if "?I w" "?auth w = (None, w')" for w w'
  proof -
    obtain r w1 where get: "ks_Get K PLATFORM VaultKeysKubernetesSecretName w = (r, w1)"
      by fastforce
    with that k have "?I w1" "\<And>vs. r = Inr vs \<Longrightarrow> vs = [(VaultKeysKubernetesSecretName, keys)]"
      by (metis snd_conv, metis fst_conv option.inject)
    with get that(2) codec show ?thesis
      by (cases r) (auto simp: authenticateVaultUsingTokenInStorage_def kube_storage_def vault_provider_def Get_def SetToken_def
          split: if_splits)
  qed
  obtain m j x where "act m ?auth (before_attempt sleep (act m ?auth) 10 j w) = (Inr x, w')"
    using retry_returned [OF run [unfolded authenticate_def]] by blast
  moreover have "?I (before_attempt sleep (act m ?auth) 10 j w)" for m j
    by (rule before_attempt_invariant) (use content keep k in \<open>auto simp: act_isl\<close>)
  ultimately show ?thesis
    using one by (metis act_Inr)
qed

section \<open>The round trip\<close>

text \<open>
  C21. On a Vault that is not initialised, a job that may initialise it and that succeeds has configured it
  with the root token Vault answered with: the keys it stored are the encoded answer, and the token it
  set before the configuration is the one in the answer.
\<close>

theorem fresh_vault_uses_its_root_token:
  assumes auto: "AutoInit cfg" and fresh: "vault_fresh fresh (vs_api svc) sleep" "fresh w"
    and kept: "secret_kept content K (vs_api svc) sleep"
    and codec: "\<And>resp s. encode resp = Inr s \<Longrightarrow> sl_root_token L s = Inr (RootToken resp)"
    and run: "Configure L cfg (vault_provider encode svc) (kube_storage K) (background sleep) w = Some (Done (), w')"
  shows "\<exists>resp keys w0 w1 w2. fresh w0 \<and> va_Init (vs_api svc) (init_request_of (vs_config svc)) w0 = (Inr resp, w1) \<and>
    encode resp = Inr keys \<and> content w2 = Some [(''vault-keys'', keys)] \<and> RootToken resp \<noteq> [] \<and>
    ConfigureAuth (sl_probe L) cfg (vault_provider encode svc) (background sleep) (va_SetToken (vs_api svc) (RootToken resp) w2) = Some (Done (), w')"
proof -
  let ?P = "vault_provider encode svc" and ?S = "kube_storage K" and ?C = "background sleep"
  from run auto obtain b w0 w3 w4 u where status: "UntilItSucceeds ?C (initialized_action ?P) 5 w = Some (Inr b, w0)"
    and init: "(if \<not> b then initializeAndPersistKeys ?P ?S ?C w0 else Some (Done (), w0)) = Some (Done (), w3)"
    and auth: "authenticate L ?P ?S ?C w3 = Some (Inr u, w4)"
    and conf: "ConfigureAuth (sl_probe L) cfg ?P ?C w4 = Some (Done (), w')"
    unfolding Configure_def by (auto simp: run_bind_Done)
  have b: "\<not> b" "fresh w0"
    using fresh_status [OF fresh status] by auto
  with init obtain keys w5 v where I: "pv_Initialize ?P ?C w0 = Some (Done keys, w5)"
    and put: "st_Put ?S ''orch-platform'' ''vault-keys'' [(''vault-keys'', keys)] v = (None, w3)"
    using keys_persisted [of ?P ?S sleep w0 "Done ()" w3] by auto
  have "Initialize encode svc ?C w0 = Some (Done keys, w5)"
    using I by (simp add: vault_provider_def)
  then obtain resp w1 where resp: "va_Init (vs_api svc) (init_request_of (vs_config svc)) w0 = (Inr resp, w1)" "encode resp = Inr keys"
    by (rule Initialize_Done)
  have stored: "content w3 = Some [(VaultKeysKubernetesSecretName, keys)]"
    using put kept by (auto simp: kube_storage_def Put_def and_then_None secret_kept_def PLATFORM_def VaultKeysKubernetesSecretName_def)
  obtain w2 where w2: "RootToken resp \<noteq> []" "content w2 = Some [(VaultKeysKubernetesSecretName, keys)]"
    "w4 = va_SetToken (vs_api svc) (RootToken resp) w2"
    using authenticate_token [OF kept codec [OF resp(2)] stored auth] by blast
  then show ?thesis
    using b(2) resp conf unfolding VaultKeysKubernetesSecretName_def by blast
qed

text \<open>A world for evaluation: the secret and the token of the client.\<close>

type_synonym mini = "(string \<times> string) list option \<times> string"

definition mini_vault :: "mini vault_api" where
  "mini_vault = \<lparr>va_SetAddress = \<lambda>a w. (None, w), va_SetToken = \<lambda>t w. (fst w, t), va_RevokeSelf = \<lambda>w. (None, w),
     va_InitStatus = \<lambda>w. (Inr False, w), va_Init = \<lambda>r w. (Inr \<lparr>Keys = [''k''], RecoveryKeys = [], RootToken = ''t''\<rparr>, w),
     va_Unseal = \<lambda>k w. (Inr False, w), va_EnableAuth = \<lambda>p t ttl w. (None, w), va_Mount = \<lambda>p t w. (None, w),
     va_PutPolicy = \<lambda>n x w. (None, w), va_Write = \<lambda>p d w. (None, w)\<rparr>"

definition mini_secrets :: "mini kube_secrets" where
  "mini_secrets = \<lparr>ks_Create = \<lambda>ns n vs w. (if fst w = None then (None, (Some vs, snd w)) else (Some (Errorf ''exists''), w)),
     ks_Get = \<lambda>ns n w. (case fst w of None \<Rightarrow> (Inl (Errorf ''not found''), w) | Some vs \<Rightarrow> (Inr vs, w)),
     ks_Delete = \<lambda>ns n w. (None, (None, snd w))\<rparr>"

definition auto_config :: vault_config where
  "auto_config = default_config\<lparr>AutoInit := True\<rparr>"

definition mini_service :: "mini vault_service" where
  "mini_service = \<lparr>vs_addrs = [''a''], vs_api = mini_vault, vs_config = auto_config\<rparr>"

definition mini_lib :: "mini secrets_lib" where
  "mini_lib = \<lparr>sl_root_token = \<lambda>s. Inr s, sl_probe = \<lambda>u w. (Some None, w)\<rparr>"

definition encode_token :: "init_resp \<Rightarrow> go_err + string" where
  "encode_token r = Inr (RootToken r)"

lemmas mini_defs = mini_vault_def mini_secrets_def mini_service_def mini_lib_def auto_config_def default_config_def encode_token_def

lemma mini_Initialize: "Initialize encode_token mini_service (background (\<lambda>d w. w)) w = Some (Done ''t'', w)"
  by (simp add: Initialize_def run_bind_def returns_def of_sum_def err_sum_def unsealVault_def retried_def retry_step mini_defs)

lemma mini_auth_calls:
  "CreateOrchSvcSecretsStore mini_service w = (None, w)" "CreateOIDCAuth mini_service w = (None, w)"
  by (simp_all add: CreateOrchSvcSecretsStore_def enableKubernetesAuth_def CreateOIDCAuth_def and_then_def tolerate_in_use_def mini_defs)

lemma mini_calls:
  "Initialized mini_service w = (Inr False, w)" "SetToken mini_service t w = (fst w, t)" "AutoInit auto_config"
  "Put mini_secrets ns n vs (None, t) = (None, (Some vs, t))" "Get mini_secrets ns n (Some vs, t) = (Inr (map_of vs), (Some vs, t))"
  "sl_root_token mini_lib s = Inr s" "sl_probe mini_lib u w = (Some None, w)"
  by (simp_all add: Initialized_def SetToken_def Put_def Get_def and_then_def mini_defs)

lemma mini_configure:
  "Configure mini_lib auto_config (vault_provider encode_token mini_service) (kube_storage mini_secrets) (background (\<lambda>d w. w)) (None, [])
     = Some (Done (), (Some [(''vault-keys'', ''t'')], ''t''))"
  by (simp add: Configure_def ConfigureAuth_def run_bind_def vault_provider_def kube_storage_def retry_step act_def and_then_def err_sum_def
      retried_def of_sum_def returns_def initialized_action_def authenticate_def authenticateVaultUsingTokenInStorage_def
      initializeAndPersistKeys_def mini_Initialize mini_auth_calls probe_action_def VaultKeysKubernetesSecretName_def
      mini_calls)

theorem fresh_vault_uses_its_root_token_witness:
  "\<exists>w2. fst w2 = Some [(''vault-keys'', ''t'')] \<and>
     ConfigureAuth (sl_probe mini_lib) auto_config (vault_provider encode_token mini_service) (background (\<lambda>d w. w)) (va_SetToken mini_vault ''t'' w2)
       = Some (Done (), (Some [(''vault-keys'', ''t'')], ''t''))"
proof -
  have fresh: "vault_fresh (\<lambda>_. True) (vs_api mini_service) (\<lambda>d w. w)"
    by (simp add: vault_fresh_def mini_defs)
  have kept: "secret_kept fst mini_secrets (vs_api mini_service) (\<lambda>d w. w)"
    by (auto simp: secret_kept_def mini_defs split: option.split)
  show ?thesis
    using fresh_vault_uses_its_root_token [OF _ fresh TrueI kept _ mini_configure]
    by (auto simp: mini_defs)
qed

end
