(* ===== verification/Auth_Service.thy ===== *)
theory Auth_Service
  imports Go_Net
begin

text \<open>
  The auth-service (auth-service/internal and cmd) and token-fs (token-fs/internal and cmd): the store of the
  roles that grant access, the check of a caller's claims, and the resolution of a project name to its
  id at the Tenant Manager.

  The JWT library, the JSON encoder and gjson are parameters.  A request is its Authorization header,
  the header X-Forwarded-Uri and its own URI; a response is the status, the headers that matter and
  the body.
\<close>

section \<open>Roles\<close>

record RoleStore =
  staticRoles :: "string list"
  templates :: "string list"
  templatesAvailable :: bool
  projectIDs :: "string list"
  dynamicRoles :: "string list"

definition PROJECT_ID :: string where "PROJECT_ID = ''{projectId}''"

definition SetProjectIDs :: "string list \<Rightarrow> RoleStore \<Rightarrow> RoleStore" where
  "SetProjectIDs ids rs = rs\<lparr>projectIDs := ids\<rparr>"

definition UpdateDynamicRoles :: "RoleStore \<Rightarrow> RoleStore" where
  "UpdateDynamicRoles rs =
     rs\<lparr>dynamicRoles := staticRoles rs @
       concat (map (\<lambda>template. map (\<lambda>projectID. ReplaceAll template PROJECT_ID projectID) (projectIDs rs)) (templates rs))\<rparr>"

fun sort_roles :: "string list \<Rightarrow> string list \<Rightarrow> string list \<Rightarrow> string list \<times> string list" where
  "sort_roles [] st ts = (st, ts)"
| "sort_roles (role # roles) st ts =
     (if Contains role PROJECT_ID then sort_roles roles st (ts @ [role]) else sort_roles roles (st @ [role]) ts)"

definition NewRoleStore :: "string list \<Rightarrow> RoleStore" where
  "NewRoleStore roles =
     (case sort_roles roles [] [] of
        (st, ts) \<Rightarrow> UpdateDynamicRoles \<lparr>staticRoles = st, templates = ts, templatesAvailable = (length ts > 0), projectIDs = [], dynamicRoles = []\<rparr>)"

definition GetRoles :: "RoleStore \<Rightarrow> string list" where
  "GetRoles rs = dynamicRoles rs"

definition HasTemplatesAvailable :: "RoleStore \<Rightarrow> bool" where
  "HasTemplatesAvailable rs = templatesAvailable rs"

text \<open>\<open>FetchProjectUpdates\<close>: what happens on the stream of the tenant controller, one event after the
  other.  A project of an update is its key and the status in its data, when it has data; a project without
  data is a nil dereference, which ends the process: the result is \<open>None\<close>.  Otherwise its second component
  is the time slept, in milliseconds.\<close>

datatype stream_event =
    OpenFailed
  | Opened
  | Received "(string \<times> string option) list"
  | StreamEnd
  | RecvFailed
  | ContextDone

fun created_projects :: "(string \<times> string option) list \<Rightarrow> string list option" where
  "created_projects [] = Some []"
| "created_projects ((key, None) # ps) = None"
| "created_projects ((key, Some st) # ps) =
     map_option (\<lambda>projects. if st = ''Created'' then key # projects else projects) (created_projects ps)"

fun FetchProjectUpdates :: "bool \<Rightarrow> stream_event list \<Rightarrow> RoleStore \<Rightarrow> (RoleStore \<times> nat) option" where
  "FetchProjectUpdates streaming [] rs = Some (rs, 0)"
| "FetchProjectUpdates False (ContextDone # es) rs = Some (rs, 0)"
| "FetchProjectUpdates False (OpenFailed # es) rs = map_option (apsnd ((+) 5000)) (FetchProjectUpdates False es rs)"
| "FetchProjectUpdates False (Opened # es) rs = FetchProjectUpdates True es rs"
| "FetchProjectUpdates True (Received ps # es) rs =
     (case created_projects ps of
        None \<Rightarrow> None
      | Some projects \<Rightarrow> FetchProjectUpdates True es (UpdateDynamicRoles (SetProjectIDs projects rs)))"
| "FetchProjectUpdates True (StreamEnd # es) rs = map_option (apsnd ((+) 100)) (FetchProjectUpdates False es rs)"
| "FetchProjectUpdates True (RecvFailed # es) rs = map_option (apsnd ((+) 1000)) (FetchProjectUpdates False es rs)"
| "FetchProjectUpdates streaming (e # es) rs = FetchProjectUpdates streaming es rs"

section \<open>Claims\<close>

record 'tok jwt_parser =
  jp_parse :: "string \<Rightarrow> go_err + 'tok"
  jp_marshal :: "'tok \<Rightarrow> go_err + string"
  jp_gjson :: "string \<Rightarrow> string \<Rightarrow> string"

definition bracket_list :: "string list \<Rightarrow> string" where
  "bracket_list xs = ''['' @ Join xs '' '' @ '']''"

definition verifyClaims :: "'tok jwt_parser \<Rightarrow> 'tok \<Rightarrow> string list \<Rightarrow> go_err option" where
  "verifyClaims J token allowRoles =
     (case jp_marshal J token of
        Inl err \<Rightarrow> Some (wrapf ''could not marshal claims'' err)
      | Inr payload \<Rightarrow>
          if list_ex (\<lambda>role. length (jp_gjson J payload role) > 0) allowRoles then None
          else Some (Errorf (''could not find expected roles: '' @ bracket_list allowRoles)))"

record auth_request =
  aq_authorization :: string
  aq_forwarded_uri :: string
  aq_uri :: string

text \<open>The response headers are those that a handler sets by itself.  \<open>Header.Set\<close> replaces the values
  under the canonical form of the name: upper case at the start and after a hyphen, lower case elsewhere, unless the
  name has a byte that is not allowed in it.\<close>

definition letter_at :: "nat \<Rightarrow> char \<Rightarrow> bool" where
  "letter_at a c \<longleftrightarrow> a \<le> of_char c \<and> of_char c < a + (26 :: nat)"

definition ToUpper_char :: "char \<Rightarrow> char" where
  "ToUpper_char c = (if letter_at 97 c then char_of (of_char c - 32 :: nat) else c)"

definition ToLower_char :: "char \<Rightarrow> char" where
  "ToLower_char c = (if letter_at 65 c then char_of (of_char c + 32 :: nat) else c)"

definition header_byte :: "char \<Rightarrow> bool" where
  "header_byte c \<longleftrightarrow> letter_at 65 c \<or> letter_at 97 c \<or> c \<in> set ''0123456789!#$%&*+-.^_`|~'' \<or> c = CHR 0x27"

fun canonical_key :: "bool \<Rightarrow> string \<Rightarrow> string" where
  "canonical_key upper [] = []"
| "canonical_key upper (c # s) = (if upper then ToUpper_char c else ToLower_char c) # canonical_key (c = CHR ''-'') s"

definition CanonicalHeaderKey :: "string \<Rightarrow> string" where
  "CanonicalHeaderKey s = (if list_all header_byte s then canonical_key True s else s)"

definition Header_Set :: "string \<Rightarrow> string \<Rightarrow> (string \<times> string) list \<Rightarrow> (string \<times> string) list" where
  "Header_Set key v hs = filter (\<lambda>h. fst h \<noteq> CanonicalHeaderKey key) hs @ [(CanonicalHeaderKey key, v)]"

record auth_response =
  ar_status :: int
  ar_headers :: "(string \<times> string) list"
  ar_body :: string

definition auth_error :: "string \<Rightarrow> int \<Rightarrow> auth_response" where
  "auth_error msg code = \<lparr>ar_status = code, ar_headers = [], ar_body = msg @ [CHR 0x0A]\<rparr>"

definition NewHandler :: "'tok jwt_parser \<Rightarrow> RoleStore \<Rightarrow> auth_request \<Rightarrow> auth_response" where
  "NewHandler J roleStore r =
     (case jp_parse J (aq_authorization r) of
        Inl err \<Rightarrow> auth_error ''Invalid token'' 401
      | Inr token \<Rightarrow>
          (case verifyClaims J token (GetRoles roleStore) of
             Some err \<Rightarrow> auth_error ''Invalid claims'' 403
           | None \<Rightarrow> \<lparr>ar_status = 200, ar_headers = [], ar_body = []\<rparr>))"

text \<open>\<open>NewFileHandler\<close> of token-fs; \<open>fs\<close> is the file server.\<close>

definition NewFileHandler ::
  "'tok jwt_parser \<Rightarrow> (auth_request \<Rightarrow> auth_response) \<Rightarrow> string list \<Rightarrow> bool \<Rightarrow> auth_request \<Rightarrow> auth_response" where
  "NewFileHandler J fs allowRoles emptyRSToken r =
     (if emptyRSToken then \<lparr>ar_status = 200, ar_headers = [], ar_body = ''anonymous''\<rparr>
      else case jp_parse J (aq_authorization r) of
             Inl err \<Rightarrow> auth_error ''Invalid token'' 401
           | Inr token \<Rightarrow>
               (case verifyClaims J token allowRoles of
                  Some err \<Rightarrow> auth_error ''Invalid claims'' 403
                | None \<Rightarrow> fs r))"

section \<open>Resolving a project\<close>

text \<open>\<open>^/v[0-9]+/projects/([^/]+)/\<close>.\<close>

definition digit :: "char \<Rightarrow> bool" where
  "digit c \<longleftrightarrow> CHR ''0'' \<le> c \<and> c \<le> CHR ''9''"

definition projectPathRegex :: "string \<Rightarrow> string option" where
  "projectPathRegex uri =
     (if \<not> HasPrefix uri ''/v'' then None
      else
        (let rest = drop 2 uri; ds = takeWhile digit rest; tail = dropWhile digit rest in
         if ds = [] \<or> \<not> HasPrefix tail ''/projects/'' then None
         else
           (let name = takeWhile (\<lambda>c. c \<noteq> CHR ''/'') (drop 10 tail);
                after = dropWhile (\<lambda>c. c \<noteq> CHR ''/'') (drop 10 tail)
            in if name = [] \<or> after = [] then None else Some name)))"

text \<open>\<open>url.PathEscape\<close> leaves more marks alone than \<open>url.QueryEscape\<close>.\<close>

definition path_unreserved :: "char \<Rightarrow> bool" where
  "path_unreserved c \<longleftrightarrow> unreserved c \<or> c \<in> set ''$&+=:@''"

definition PathEscape :: "string \<Rightarrow> string" where
  "PathEscape s =
     concat (map (\<lambda>c. if path_unreserved c then [c]
                     else [CHR ''%'', hex_digit (of_char c div 16), hex_digit (of_char c mod 16)]) s)"

text \<open>The Tenant Manager as seen from here: the URL and the Authorization header of a GET request (empty
  when not sent) are answered with a status and a body; \<open>uid_of\<close> decodes the body.\<close>

record 's tm_client =
  tc_do :: "string \<Rightarrow> string \<Rightarrow> 's \<Rightarrow> (go_err + int \<times> string) \<times> 's"
  tc_uid_of :: "string \<Rightarrow> go_err + string"
  tc_build :: "string \<Rightarrow> go_err option"

definition resolveProjectUUID :: "'s tm_client \<Rightarrow> string \<Rightarrow> string \<Rightarrow> string \<Rightarrow> 's \<Rightarrow> (go_err + string) \<times> 's" where
  "resolveProjectUUID T projectName authHeader tenancyManagerURL s =
     (let url = tenancyManagerURL @ ''/v1/projects/'' @ PathEscape projectName in
      case tc_build T url of
        Some err \<Rightarrow> (Inl (wrapf ''build TM request'' err), s)
      | None \<Rightarrow>
     (case tc_do T url authHeader s of
        (Inl err, s) \<Rightarrow> (Inl (wrapf ''call tenancy manager'' err), s)
      | (Inr (status, body), s) \<Rightarrow>
          if status = 404 then (Inl (Errorf (''project '' @ quote projectName @ '' not found'')), s)
          else if status \<noteq> 200 then (Inl (Errorf (''tenancy manager returned status '' @ decimal_int status)), s)
          else case tc_uid_of T body of
                 Inl err \<Rightarrow> (Inl (wrapf ''decode TM response'' err), s)
               | Inr uid \<Rightarrow>
                   if uid = []
                   then (Inl (Errorf (''tenancy manager returned empty UUID for project '' @ quote projectName)), s)
                   else (Inr uid, s)))"

definition NewProjectResolverHandler ::
  "'tok jwt_parser \<Rightarrow> 's tm_client \<Rightarrow> string \<Rightarrow> auth_request \<Rightarrow> 's \<Rightarrow> auth_response \<times> 's" where
  "NewProjectResolverHandler J T tenancyManagerURL r s =
     (case jp_parse J (aq_authorization r) of
        Inl err \<Rightarrow> (auth_error ''Invalid token'' 401, s)
      | Inr _ \<Rightarrow>
          (let forwardedURI = (if aq_forwarded_uri r = [] then aq_uri r else aq_forwarded_uri r) in
           case projectPathRegex forwardedURI of
             None \<Rightarrow> (auth_error ''no project name in request path'' 400, s)
           | Some projectName \<Rightarrow>
               (case resolveProjectUUID T projectName (aq_authorization r) tenancyManagerURL s of
                  (Inl err, s) \<Rightarrow> (auth_error (''project '' @ quote projectName @ '' not found'') 404, s)
                | (Inr uid, s) \<Rightarrow>
                    (\<lparr>ar_status = 200, ar_headers = Header_Set ''ActiveProjectID'' uid (Header_Set ''Activeprojectid'' uid []),
                      ar_body = []\<rparr>, s))))"

text \<open>Both names have the same canonical form: one header is sent.\<close>

lemma one_project_header:
  "Header_Set ''ActiveProjectID'' uid (Header_Set ''Activeprojectid'' uid []) = [(''Activeprojectid'', uid)]"
proof -
  have "CanonicalHeaderKey ''ActiveProjectID'' = ''Activeprojectid''" "CanonicalHeaderKey ''Activeprojectid'' = ''Activeprojectid''"
    by code_simp+
  then show ?thesis by (simp add: Header_Set_def)
qed

section \<open>The servers\<close>

text \<open>The handlers that main registers, by path; other paths are not found.\<close>

definition auth_serve ::
  "'tok jwt_parser \<Rightarrow> 's tm_client \<Rightarrow> string \<Rightarrow> RoleStore \<Rightarrow> string \<Rightarrow> auth_request \<Rightarrow> 's \<Rightarrow> auth_response \<times> 's" where
  "auth_serve J T tenancyManagerURL rs path r s =
     (if path = ''/verifyall'' then (NewHandler J rs r, s)
      else if path = ''/resolveproject'' then NewProjectResolverHandler J T tenancyManagerURL r s
      else if path = ''/healthz'' then (\<lparr>ar_status = 200, ar_headers = [], ar_body = ''success''\<rparr>, s)
      else (auth_error ''404 page not found'' 404, s))"

text \<open>What main makes of the roles file and of the updates received so far; without templates it does
  not connect.  \<open>None\<close> when an update has ended the process.\<close>

definition auth_roles :: "string \<Rightarrow> stream_event list \<Rightarrow> RoleStore option" where
  "auth_roles content es =
     (let rs = NewRoleStore (Split content (CHR 0x0A)) in
      if HasTemplatesAvailable rs then map_option fst (FetchProjectUpdates False es rs) else Some rs)"

text \<open>token-fs serves its files on every path but one; its flags decide whether it starts.\<close>

definition token_fs_flags :: "string \<Rightarrow> string \<Rightarrow> string \<Rightarrow> bool \<Rightarrow> go_err option" where
  "token_fs_flags jwksURL fileServerPath rolesFile emptyRSToken =
     (if jwksURL = [] then Some (Errorf ''Missing required -jwksURL flag'')
      else if rolesFile = [] then Some (Errorf ''Missing required -rolesFile flag'')
      else if \<not> emptyRSToken \<and> fileServerPath = [] then Some (Errorf ''Missing required -fileServerPath flag'')
      else None)"

definition token_fs_serve ::
  "'tok jwt_parser \<Rightarrow> (auth_request \<Rightarrow> auth_response) \<Rightarrow> string \<Rightarrow> bool \<Rightarrow> string \<Rightarrow> auth_request \<Rightarrow> auth_response" where
  "token_fs_serve J fs content emptyRSToken path r =
     (if path = ''/healthz'' then \<lparr>ar_status = 200, ar_headers = [], ar_body = ''hihi''\<rparr>
      else NewFileHandler J fs (Split content (CHR 0x0A)) emptyRSToken r)"

section \<open>Who is let in\<close>

text \<open>The roles that a roles file grants under a list of projects.\<close>

definition granted :: "string list \<Rightarrow> string list \<Rightarrow> string set" where
  "granted lines ids =
     {role \<in> set lines. \<not> Contains role PROJECT_ID} \<union>
     {ReplaceAll t PROJECT_ID i | t i. t \<in> set lines \<and> Contains t PROJECT_ID \<and> i \<in> set ids}"

text \<open>The projects of the last update received on an open stream.\<close>

fun last_update :: "bool \<Rightarrow> stream_event list \<Rightarrow> string list \<Rightarrow> string list" where
  "last_update streaming [] ids = ids"
| "last_update False (ContextDone # es) ids = ids"
| "last_update False (Opened # es) ids = last_update True es ids"
| "last_update True (Received ps # es) ids = last_update True es (map fst (filter (\<lambda>p. snd p = Some ''Created'') ps))"
| "last_update True (StreamEnd # es) ids = last_update False es ids"
| "last_update True (RecvFailed # es) ids = last_update False es ids"
| "last_update streaming (e # es) ids = last_update streaming es ids"

lemma sort_roles_sets:
  "sort_roles roles st ts = (st', ts') \<Longrightarrow>
     set st' = set st \<union> {r \<in> set roles. \<not> Contains r PROJECT_ID} \<and> set ts' = set ts \<union> {r \<in> set roles. Contains r PROJECT_ID}"
  by (induction roles st ts rule: sort_roles.induct) (auto split: if_splits)

definition role_inv :: "string list \<Rightarrow> string list \<Rightarrow> RoleStore \<Rightarrow> bool" where
  "role_inv lines ids rs \<longleftrightarrow>
     set (staticRoles rs) = {r \<in> set lines. \<not> Contains r PROJECT_ID} \<and> set (templates rs) = {r \<in> set lines. Contains r PROJECT_ID} \<and>
     templatesAvailable rs = (templates rs \<noteq> []) \<and> set (dynamicRoles rs) = granted lines ids"

lemma NewRoleStore_inv: "role_inv lines [] (NewRoleStore lines)"
  by (auto simp: NewRoleStore_def role_inv_def UpdateDynamicRoles_def granted_def split: prod.split dest!: sort_roles_sets)

lemma update_inv: "role_inv lines ids rs \<Longrightarrow> role_inv lines ids' (UpdateDynamicRoles (SetProjectIDs ids' rs))"
  by (auto simp: role_inv_def UpdateDynamicRoles_def SetProjectIDs_def granted_def)

lemma created_projects_spec:
  "created_projects ps = (if \<exists>key. (key, None) \<in> set ps then None else Some (map fst (filter (\<lambda>p. snd p = Some ''Created'') ps)))"
proof (induction ps rule: created_projects.induct)
  case (3 key st ps)
  then show ?case by (cases "st = ''Created''") auto
qed auto

lemma FetchProjectUpdates_inv:
  "role_inv lines ids rs \<Longrightarrow>
     (case FetchProjectUpdates streaming es rs of
        None \<Rightarrow> \<exists>ps key. Received ps \<in> set es \<and> (key, None) \<in> set ps
      | Some (rs', _) \<Rightarrow> role_inv lines (last_update streaming es ids) rs')"
proof (induction streaming es rs arbitrary: ids rule: FetchProjectUpdates.induct)
  case (5 ps es rs)
  show ?case
  proof (cases "created_projects ps")
    case None
    then show ?thesis by (auto simp: created_projects_spec split: if_splits)
  next
    case (Some projects)
    from "5.IH" [OF Some update_inv [OF "5.prems", of projects]] Some show ?thesis
      by (auto simp: created_projects_spec split: if_splits option.splits)
  qed
qed (auto simp: option.case_eq_if apsnd_def map_prod_def split: prod.splits option.splits, blast)

lemma no_templates: "role_inv lines ids rs \<Longrightarrow> \<not> templatesAvailable rs \<Longrightarrow> role_inv lines ids' rs"
  by (auto simp: role_inv_def granted_def)

text \<open>
  C23. The endpoint that Traefik asks lets a request pass exactly when its token is valid and its claims
  have a value at one of the paths that the roles file grants: the plain lines of the file, and its
  templates filled with the projects of the last update that was received.  Losing the stream changes
  nothing.  The process ends only when the file has a template and an update has a project without data.
\<close>

theorem verifyall_grants_exactly:
  "case auth_roles content es of
     None \<Rightarrow> (\<exists>t \<in> set (Split content (CHR 0x0A)). Contains t PROJECT_ID) \<and>
       (\<exists>ps key. Received ps \<in> set es \<and> (key, None) \<in> set ps)
   | Some rs \<Rightarrow>
       ar_status (NewHandler J rs r) =
         (case jp_parse J (aq_authorization r) of
            Inl _ \<Rightarrow> 401
          | Inr token \<Rightarrow>
              (case jp_marshal J token of
                 Inl _ \<Rightarrow> 403
               | Inr payload \<Rightarrow>
                   if \<exists>role\<in>granted (Split content (CHR 0x0A)) (last_update False es []). jp_gjson J payload role \<noteq> [] then 200 else 403))"
proof (cases "auth_roles content es")
  case None
  let ?rs = "NewRoleStore (Split content (CHR 0x0A))"
  from None have "templatesAvailable ?rs" "FetchProjectUpdates False es ?rs = None"
    by (auto simp: auth_roles_def Let_def HasTemplatesAvailable_def split: if_splits)
  with FetchProjectUpdates_inv [OF NewRoleStore_inv [of "Split content (CHR 0x0A)"], where streaming = False and es = es] NewRoleStore_inv [of "Split content (CHR 0x0A)"]
  have "\<exists>t. t \<in> set (templates ?rs)" "\<exists>ps key. Received ps \<in> set es \<and> (key, None) \<in> set ps"
    by (auto simp: role_inv_def neq_Nil_conv)
  with NewRoleStore_inv [of "Split content (CHR 0x0A)"] None show ?thesis by (auto simp: role_inv_def)
next
  case (Some rs)
  let ?lines = "Split content (CHR 0x0A)"
  have "role_inv ?lines (last_update False es []) rs"
    using Some FetchProjectUpdates_inv [OF NewRoleStore_inv [of ?lines], where streaming = False and es = es] no_templates [OF NewRoleStore_inv]
    by (auto simp: auth_roles_def Let_def HasTemplatesAvailable_def split: if_splits)
  then have "set (GetRoles rs) = granted ?lines (last_update False es [])"
    by (simp add: role_inv_def GetRoles_def)
  with Some show ?thesis
    by (auto simp: NewHandler_def verifyClaims_def auth_error_def list_ex_iff split: sum.split)
qed

end
