(* ===== verification/Auth_Resolve.thy ===== *)
theory Auth_Resolve
  imports Auth_Service Tenancy_Service
begin

text \<open>
  The auth-service in front of the Tenant Manager: the resolution of a project name, composed with the
  router and the store of the Tenant Manager.
\<close>

section \<open>The Tenant Manager answers a name\<close>

lemma project_path: "CHR ''/'' \<notin> set n \<Longrightarrow> Split (drop 1 (''/v1/projects/'' @ n)) (CHR ''/'') = [''v1'', ''projects'', n]"
  by (simp add: Split_no_sep_id)

definition get_request :: "string \<Rightarrow> string \<Rightarrow> request" where
  "get_request path auth =
     \<lparr>r_method = ''GET'', r_path = path, r_param = [], r_query = \<lambda>k. [],
      r_header = \<lambda>k. if k = ''Authorization'' then auth else [], r_body = [], r_auth = None\<rparr>"

abbreviation project_request :: "string \<Rightarrow> string \<Rightarrow> request" where
  "project_request n auth \<equiv> get_request (''/v1/projects/'' @ n) auth"

lemma GetProject_h_answers:
  assumes "h_store h = store_backend" and "wf_world w" and "GetProject_h h r w = ((200, b), w')"
  shows "\<exists>p br. b = ProjectBody br \<and> p \<in> set (projects (tables w)) \<and> proj_active p \<and> proj_name p = r_param r \<and>
    UID (pr_ProjectStatus br) = uuid_string (h_uuid h) (proj_id p) \<and>
    (\<forall>ns. resolveOrgNames r = Some ns \<longrightarrow> has_org_with (tables w) (\<lambda>o'. org_name o' \<in> set ns) p)"
proof -
  obtain x w1 where g: "b_GetProject store_backend (r_param r) (resolveOrgNames r) w = (x, w1)"
    by fastforce
  note law = tm.readD [OF tm.get_project_law g assms(2)]
  have "\<not> isOrgScopeDenied (resolveOrgNames r)"
    using assms(3) by (auto simp: GetProject_h_def Let_def writeError_def)
  moreover obtain p o' where x: "x = Inr (p, o')"
    using assms(1,3) g calculation
    by (cases x) (auto simp: GetProject_h_def Let_def project_error_def writeError_def split: if_splits)
  moreover obtain br w2 where d: "derive_project h False p (opt_org_name o') w1 = (br, w2)"
    by fastforce
  ultimately have "b = ProjectBody br"
    using assms(1,3) g by (simp add: GetProject_h_def Let_def writeJSON_def)
  moreover have "UID (pr_ProjectStatus br) = uuid_string (h_uuid h) (proj_id p)"
    using d by (auto simp: derive_project_def toProjectResponse_def split: prod.splits)
  ultimately show ?thesis
    using law x by (auto simp: scoped_result_def)
qed

lemma Router_GetProject:
  assumes "h_store h = store_backend" and "wf_world (sv_world s)" and "sv_jwt s = Some v"
    and "CHR ''/'' \<notin> set n" and "n \<noteq> []" and run: "Router J N h (project_request n auth) s = ((200, b), s')"
  shows "\<exists>tok cl v1 p br. bearer_token auth = Inr tok \<and> Validate J N tok v = (Inr cl, v1) \<and>
    authz_allowed (h_uuid h) (caller h cl (sv_world s)) (''/v1/projects/'' @ n) ''GET'' \<and>
    b = ProjectBody br \<and> p \<in> set (projects (tables (sv_world s))) \<and> proj_active p \<and> proj_name p = n \<and>
    UID (pr_ProjectStatus br) = uuid_string (h_uuid h) (proj_id p) \<and>
    (OrgNames (caller h cl (sv_world s)) \<noteq> [] \<longrightarrow>
       has_org_with (tables (sv_world s)) (\<lambda>o'. org_name o' \<in> set (OrgNames (caller h cl (sv_world s)))) p)"
proof -
  let ?r = "(project_request n auth)\<lparr>r_param := n, r_auth := None\<rparr>"
  have "external_route h ''GET'' [''v1'', ''projects'', n] = Some (n, GetProject_h h)"
    using assms(5) by (simp add: external_route_def)
  then have chain: "external_chain J N h (on_world (GetProject_h h)) ?r s = ((200, b), s')"
    using run project_path [OF assms(4)] by (simp add: Router_def Let_def get_request_def)
  obtain tok where tok: "bearer_token auth = Inr tok"
    using chain assms(3) by (cases "bearer_token auth") (auto simp: external_chain_def AuthnMiddleware_def get_request_def writeError_def)
  obtain x v1 where x: "Validate J N tok v = (x, v1)"
    by fastforce
  obtain cl where cl: "x = Inr cl"
    using chain assms(3) tok x by (cases x) (auto simp: external_chain_def AuthnMiddleware_def get_request_def writeError_def)
  let ?ac = "caller h cl (sv_world s)"
  let ?w = "snd (resolve_names h (extractOrgUUIDs (h_uuid h) (extractRolesFromClaims cl)) (sv_world s))"
  have w: "wf_world ?w" "tables ?w = tables (sv_world s)"
    using tm.lookups_stay(1) [OF assms(1) tm.stays_self [OF assms(2)]] by (simp_all add: tm.stays_def)
  have allowed: "authz_allowed (h_uuid h) ?ac (''/v1/projects/'' @ n) ''GET''"
    and get: "on_world (GetProject_h h) (?r\<lparr>r_auth := Some ?ac\<rparr>) (s\<lparr>sv_world := ?w, sv_jwt := Some v1\<rparr>) = ((200, b), s')"
    using chain assms(3) AuthnMiddleware_ok [of ?r tok J N v cl v1 h _ s] tok x cl
    by (auto simp: external_chain_def AuthzMiddleware_def DeletionCheckMiddleware_def getAuthContext_def get_request_def writeError_def
        split: if_splits)
  from get obtain w' where "GetProject_h h (?r\<lparr>r_auth := Some ?ac\<rparr>) ?w = ((200, b), w')"
    by (auto simp: on_world_def split: prod.splits)
  from GetProject_h_answers [OF assms(1) w(1) this] obtain p br where p: "b = ProjectBody br" "p \<in> set (projects (tables ?w))"
      "proj_active p" "proj_name p = n" "UID (pr_ProjectStatus br) = uuid_string (h_uuid h) (proj_id p)"
    and scope: "\<And>ns. resolveOrgNames (?r\<lparr>r_auth := Some ?ac\<rparr>) = Some ns \<Longrightarrow> has_org_with (tables ?w) (\<lambda>o'. org_name o' \<in> set ns) p"
    by auto
  have "OrgNames ?ac \<noteq> [] \<longrightarrow> has_org_with (tables ?w) (\<lambda>o'. org_name o' \<in> set (OrgNames ?ac)) p"
    using scope [of "OrgNames ?ac"] by (simp add: resolveOrgNames_def getAuthContext_def get_request_def)
  then show ?thesis
    using p w(2) tok x cl allowed
    by (intro exI [of _ tok] exI [of _ cl] exI [of _ v1] exI [of _ p] exI [of _ br]) simp
qed

section \<open>The path of a URL\<close>

text \<open>\<open>URL.setPath\<close> of net/url: the path is unescaped, and the raw path is kept beside it when escaping the path
  does not give it back.  chi routes by the raw path when there is one.\<close>

definition unhex :: "char \<Rightarrow> nat option" where
  "unhex c =
     (if CHR ''0'' \<le> c \<and> c \<le> CHR ''9'' then Some (of_char c - 48)
      else if CHR ''a'' \<le> c \<and> c \<le> CHR ''f'' then Some (of_char c - 87)
      else if CHR ''A'' \<le> c \<and> c \<le> CHR ''F'' then Some (of_char c - 55)
      else None)"

fun PathUnescape :: "string \<Rightarrow> string option" where
  "PathUnescape [] = Some []"
| "PathUnescape (c # s) =
     (if c \<noteq> CHR ''%'' then map_option ((#) c) (PathUnescape s)
      else case s of
             a # b # s' \<Rightarrow>
               (case (unhex a, unhex b) of
                  (Some x, Some y) \<Rightarrow> map_option ((#) (char_of (16 * x + y))) (PathUnescape s')
                | _ \<Rightarrow> None)
           | _ \<Rightarrow> None)"

text \<open>The escaping of a whole path leaves the separators between segments and parameters alone, which
  \<open>url.PathEscape\<close> does not.\<close>

definition EscapePath :: "string \<Rightarrow> string" where
  "EscapePath s = concat (map (\<lambda>c. if path_unreserved c \<or> c \<in> set '',/;'' then [c] else PathEscape [c]) s)"

definition route_path :: "string \<Rightarrow> string option" where
  "route_path raw = map_option (\<lambda>path. if EscapePath path = raw then path else raw) (PathUnescape raw)"

lemma hex_halves: "of_char c div 16 < (16 :: nat)" "of_char c mod 16 < (16 :: nat)"
  using nat_of_char_less_256 [of c] by (auto simp del: nat_of_char_less_256)

lemma PathEscape_Cons: "PathEscape (c # s) = PathEscape [c] @ PathEscape s"
  by (simp add: PathEscape_def)

lemma PathUnescape_Escape_char: "PathUnescape (PathEscape [c] @ s) = map_option ((#) c) (PathUnescape s)"
proof -
  have hex: "unhex (hex_digit n) = Some n" if "n < 16" for n
  proof -
    have "list_all (\<lambda>n. unhex (hex_digit n) = Some n) [0..<16]" by code_simp
    with that show ?thesis by (simp add: list_all_iff)
  qed
  have "path_unreserved c \<Longrightarrow> c \<noteq> CHR ''%''" by (auto simp: path_unreserved_def unreserved_def)
  moreover have "unhex (hex_digit (of_char c div 16)) = Some (of_char c div 16)" "unhex (hex_digit (of_char c mod 16)) = Some (of_char c mod 16)"
    by (rule hex, rule hex_halves)+
  ultimately show ?thesis by (simp add: PathEscape_def)
qed

lemma PathUnescape_Escape [simp]: "PathUnescape (PathEscape s) = Some s"
  by (induction s) (simp add: PathEscape_def, subst PathEscape_Cons, simp add: PathUnescape_Escape_char)

lemma PathUnescape_plain: "CHR ''%'' \<notin> set s \<Longrightarrow> PathUnescape (s @ t) = map_option ((@) s) (PathUnescape t)"
  by (induction s; cases "PathUnescape t") auto

text \<open>The name that the Tenant Manager looks up for an escaped name.\<close>

definition routed_name :: "string \<Rightarrow> string" where
  "routed_name n = (if CHR '','' \<in> set n \<or> CHR '';'' \<in> set n then PathEscape n else n)"

lemma EscapePath_eq: "CHR ''/'' \<notin> set n \<Longrightarrow> EscapePath n = PathEscape n \<longleftrightarrow> CHR '','' \<notin> set n \<and> CHR '';'' \<notin> set n"
proof (induction n)
  case (Cons c n)
  have split: "EscapePath (c # n) = (if path_unreserved c \<or> c \<in> set '',/;'' then [c] else PathEscape [c]) @ EscapePath n"
    by (simp add: EscapePath_def)
  have "\<not> path_unreserved (CHR '','')" "\<not> path_unreserved (CHR '';'')" by code_simp+
  then have marks: "\<exists>x. PathEscape [c] = CHR ''%'' # x" if "c = CHR '','' \<or> c = CHR '';''"
    using that by (auto simp: PathEscape_def)
  have same: "PathEscape [c] = [c]" if "path_unreserved c" using that by (simp add: PathEscape_def)
  show ?case
  proof (cases "c = CHR '','' \<or> c = CHR '';''")
    case True
    with marks obtain x where "PathEscape [c] = CHR ''%'' # x" by blast
    with True show ?thesis unfolding split PathEscape_Cons [of c n] by auto
  next
    case False
    then show ?thesis using Cons same unfolding split PathEscape_Cons [of c n] by auto
  qed
qed (simp add: EscapePath_def PathEscape_def)

lemma route_path_project:
  assumes "CHR ''/'' \<notin> set n"
  shows "route_path (''/v1/projects/'' @ PathEscape n) = Some (''/v1/projects/'' @ routed_name n)"
proof -
  have "EscapePath (''/v1/projects/'' @ n) = ''/v1/projects/'' @ EscapePath n"
  proof -
    have "EscapePath ''/v1/projects/'' = ''/v1/projects/''" by code_simp
    then show ?thesis by (simp add: EscapePath_def)
  qed
  moreover have "PathUnescape (''/v1/projects/'' @ PathEscape n) = Some (''/v1/projects/'' @ n)"
    by (subst PathUnescape_plain) simp_all
  ultimately show ?thesis using EscapePath_eq [OF assms] by (auto simp: route_path_def routed_name_def)
qed

lemma routed_name_segment:
  assumes "CHR ''/'' \<notin> set n"
  shows "CHR ''/'' \<notin> set (routed_name n)" "n \<noteq> [] \<Longrightarrow> routed_name n \<noteq> []"
proof -
  have "\<not> unreserved (CHR ''/'')" "\<not> path_unreserved (CHR ''/'')" by code_simp+
  moreover have "unreserved (hex_digit (of_char c div 16))" "unreserved (hex_digit (of_char c mod 16))" for c
    by (rule hex_digit_unreserved, rule hex_halves)+
  ultimately have "CHR ''/'' \<notin> set (PathEscape n)"
    by (auto simp: PathEscape_def split: if_splits)
  with assms show "CHR ''/'' \<notin> set (routed_name n)" by (simp add: routed_name_def)
  show "n \<noteq> [] \<Longrightarrow> routed_name n \<noteq> []"
    by (cases n) (auto simp: routed_name_def PathEscape_def)
qed

section \<open>Resolution\<close>

text \<open>The Tenant Manager behind the client, at a base URL without a path: a request for a URL is routed by its path
  with its Authorization header alone, and the response is encoded.  \<open>encode\<close> is the JSON encoder.\<close>

definition tm_behind ::
  "jwt_lib \<Rightarrow> net \<Rightarrow> world Handler \<Rightarrow> string \<Rightarrow> (body \<Rightarrow> string) \<Rightarrow> (string \<Rightarrow> go_err + string) \<Rightarrow> world server tm_client" where
  "tm_behind J N h base encode uid_of =
     \<lparr>tc_do = \<lambda>url auth s.
        (case route_path (drop (length base) url) of
           None \<Rightarrow> (Inr (400, []), s)
         | Some path \<Rightarrow>
             (case Router J N h (get_request path auth) s of
                ((status, b), s) \<Rightarrow> (Inr (status, encode b), s))),
      tc_uid_of = uid_of, tc_build = \<lambda>url. None\<rparr>"

lemma projectPathRegex_name:
  assumes "projectPathRegex uri = Some n"
  shows "n \<noteq> []" "CHR ''/'' \<notin> set n"
  using assms by (auto simp: projectPathRegex_def Let_def split: if_splits dest: set_takeWhileD)

text \<open>
  C13. An id that the auth-service resolves is that of an active project, and
  the Tenant Manager has accepted the caller's token for it: its roles allow reading projects and, when
  the caller belongs to orgs, the project is in one of them.  The project has the name in the path of the original
  request, or of the request itself when there is none; a name with a comma or a semicolon is looked up
  in its escaped form.  The id is the value of the one header Activeprojectid.  Every other answer is an error without an
  id.
\<close>

theorem resolved_project_is_visible:
  assumes "h_store h = store_backend" and "wf_world (sv_world s)" and "sv_jwt s = Some v"
    and decode: "\<And>b. uid_of (encode (ProjectBody b)) = Inr (UID (pr_ProjectStatus b))"
    and run: "NewProjectResolverHandler K (tm_behind J N h base encode uid_of) base r s = (resp, s')"
  shows "if ar_status resp = 200
    then \<exists>n tok cl v1 p. projectPathRegex (if aq_forwarded_uri r = [] then aq_uri r else aq_forwarded_uri r) = Some n \<and>
      bearer_token (aq_authorization r) = Inr tok \<and> Validate J N tok v = (Inr cl, v1) \<and>
      p \<in> set (projects (tables (sv_world s))) \<and> proj_active p \<and>
      proj_name p = (if CHR '','' \<in> set n \<or> CHR '';'' \<in> set n then PathEscape n else n) \<and>
      authz_allowed (h_uuid h) (caller h cl (sv_world s)) (''/v1/projects/'' @ proj_name p) ''GET'' \<and>
      (OrgNames (caller h cl (sv_world s)) \<noteq> [] \<longrightarrow>
         has_org_with (tables (sv_world s)) (\<lambda>o'. org_name o' \<in> set (OrgNames (caller h cl (sv_world s)))) p) \<and>
      ar_headers resp = [(''Activeprojectid'', uuid_string (h_uuid h) (proj_id p))]
    else ar_headers resp = [] \<and> ar_status resp \<in> {400, 401, 404}"
proof (cases "ar_status resp = 200")
  case False
  then show ?thesis
    using run by (auto simp: NewProjectResolverHandler_def Let_def auth_error_def split: sum.splits option.splits prod.splits)
next
  case True
  let ?uri = "if aq_forwarded_uri r = [] then aq_uri r else aq_forwarded_uri r"
  from run True obtain n uid where n: "projectPathRegex ?uri = Some n"
    and res: "resolveProjectUUID (tm_behind J N h base encode uid_of) n (aq_authorization r) base s = (Inr uid, s')"
    and resp: "ar_headers resp = [(''Activeprojectid'', uid)]"
    unfolding NewProjectResolverHandler_def Let_def one_project_header
    by (auto simp: auth_error_def split: sum.splits option.splits prod.splits)
  note name = projectPathRegex_name [OF n]
  from res obtain b where route: "Router J N h (project_request (routed_name n) (aq_authorization r)) s = ((200, b), s')"
    and uid: "uid_of (encode b) = Inr uid"
    using route_path_project [OF name(2)]
    by (auto simp: resolveProjectUUID_def tm_behind_def Let_def split: prod.splits sum.splits if_splits)
  note seg = routed_name_segment(1) [OF name(2)] routed_name_segment(2) [OF name(2,1)]
  from Router_GetProject [OF assms(1-3) seg route] obtain tok cl v1 p br where
    p: "bearer_token (aq_authorization r) = Inr tok" "Validate J N tok v = (Inr cl, v1)"
      "authz_allowed (h_uuid h) (caller h cl (sv_world s)) (''/v1/projects/'' @ routed_name n) ''GET''" "b = ProjectBody br"
      "p \<in> set (projects (tables (sv_world s)))" "proj_active p" "proj_name p = routed_name n"
      "UID (pr_ProjectStatus br) = uuid_string (h_uuid h) (proj_id p)"
      "OrgNames (caller h cl (sv_world s)) \<noteq> [] \<longrightarrow>
         has_org_with (tables (sv_world s)) (\<lambda>o'. org_name o' \<in> set (OrgNames (caller h cl (sv_world s)))) p"
    by blast
  have "uid = uuid_string (h_uuid h) (proj_id p)"
    using uid decode [of br] p(4,8) by simp
  then show ?thesis
    unfolding if_P [OF True] using p n resp
    by (intro exI [of _ n] exI [of _ tok] exI [of _ cl] exI [of _ v1] exI [of _ p]) (simp add: routed_name_def)
qed

definition sample_parser :: "unit jwt_parser" where
  "sample_parser = \<lparr>jp_parse = \<lambda>a. Inr (), jp_marshal = \<lambda>t. Inr [], jp_gjson = \<lambda>p r. []\<rparr>"

definition sample_encode :: "body \<Rightarrow> string" where
  "sample_encode b = (case b of ProjectBody br \<Rightarrow> UID (pr_ProjectStatus br) | _ \<Rightarrow> [])"

definition sample_tm :: "world server tm_client" where
  "sample_tm = tm_behind (sample_jwt [''4_project-read-role'']) sample_net sample_handler ''http://tm'' sample_encode Inr"

definition sample_call :: auth_request where
  "sample_call = \<lparr>aq_authorization = ''Bearer t'', aq_forwarded_uri = ''/v1/projects/web/clusters'', aq_uri = []\<rparr>"

theorem resolved_project_is_visible_witness:
  "\<exists>p. p \<in> set (projects (tables sample_tenants)) \<and> proj_active p \<and> proj_name p = ''web'' \<and>
     ar_headers (fst (NewProjectResolverHandler sample_parser sample_tm ''http://tm'' sample_call (sample_server sample_tenants))) =
       [(''Activeprojectid'', uuid_string sample_uuid (proj_id p))]"
proof -
  let ?run = "NewProjectResolverHandler sample_parser sample_tm ''http://tm'' sample_call (sample_server sample_tenants)"
  have st: "ar_status (fst ?run) = 200"
    by code_simp
  have path: "projectPathRegex (if aq_forwarded_uri sample_call = [] then aq_uri sample_call else aq_forwarded_uri sample_call) = Some ''web''"
    by code_simp
  obtain resp s' where run: "?run = (resp, s')"
    by fastforce
  have wf: "wf_world (sv_world (sample_server sample_tenants))"
    using sample_tenants_wf by simp
  from resolved_project_is_visible [OF sample_handler_store wf sample_server_sel(2) _ run [unfolded sample_tm_def], unfolded path]
  show ?thesis
    using st run by (auto simp: sample_encode_def)
qed

end
