(* ===== verification/Ops_Services.thy ===== *)
theory Ops_Services
  imports Tenancy_Auth
begin

text \<open>
  Two small services: component-status (pkg/config/loader.go, pkg/handler/status.go, cmd/main.go), which shows the
  installed features of the orchestrator, and aws-sm-proxy (internal/handler.go, cmd/proxy/main.go), which reads secrets
  from AWS.  The YAML decoder, the JSON printer and the AWS client are parameters.
\<close>

section \<open>Features\<close>

text \<open>A Go map is an association list with distinct keys.  The features are a nil map when the file has none,
  which is read as an empty map and printed as null.\<close>

datatype Feature = Feature (Installed: bool) (SubFeatures: "(string \<times> Feature) list")

record Orchestrator =
  oc_Version :: string
  oc_Features :: "(string \<times> Feature) list option"

record StatusConfig =
  SchemaVersion :: string
  Orch :: Orchestrator

definition features_of :: "StatusConfig \<Rightarrow> (string \<times> Feature) list" where
  "features_of c = (case oc_Features (Orch c) of None \<Rightarrow> [] | Some fs \<Rightarrow> fs)"

text \<open>\<open>Feature.MarshalJSON\<close>: the map starts with the flag, and a sub-feature of the same name replaces
  it; \<open>json.Marshal\<close> prints the keys of a map in order.\<close>

fun feature_json :: "Feature \<Rightarrow> json" where
  "feature_json (Feature b subs) =
     JObj (sort_key fst ((if ''installed'' \<in> set (map fst subs) then [] else [(''installed'', JBool b)]) @
       map (\<lambda>kf. (fst kf, feature_json (snd kf))) subs))"

definition config_json :: "StatusConfig \<Rightarrow> json" where
  "config_json c =
     JObj [(''schema-version'', JStr (SchemaVersion c)),
       (''orchestrator'', JObj [(''version'', JStr (oc_Version (Orch c))),
          (''features'',
             (case oc_Features (Orch c) of
                None \<Rightarrow> JNull
              | Some fs \<Rightarrow> JObj (sort_key fst (map (\<lambda>kf. (fst kf, feature_json (snd kf))) fs))))])]"

definition status_Load :: "(string \<Rightarrow> go_err + string) \<Rightarrow> (string \<Rightarrow> go_err + StatusConfig) \<Rightarrow> string \<Rightarrow> go_err + StatusConfig" where
  "status_Load read_file yaml path =
     (case read_file path of
        Inl err \<Rightarrow> Inl (wrapf ''failed to read config file'' err)
      | Inr data \<Rightarrow>
     (case yaml data of
        Inl err \<Rightarrow> Inl (wrapf ''failed to parse config file'' err)
      | Inr c \<Rightarrow>
          if SchemaVersion c = [] then Inl (Errorf ''schema-version is required'')
          else if oc_Version (Orch c) = [] then Inl (Errorf ''orchestrator.version is required'')
          else Inr c))"

text \<open>The loop of \<open>IsFeatureInstalled\<close> over the path.\<close>

fun walk_features :: "(string \<times> Feature) list \<Rightarrow> string list \<Rightarrow> bool" where
  "walk_features features [] = False"
| "walk_features features (name # path) =
     (case map_of features name of
        None \<Rightarrow> False
      | Some f \<Rightarrow> if path = [] then Installed f else walk_features (SubFeatures f) path)"

definition IsFeatureInstalled :: "StatusConfig \<Rightarrow> string list \<Rightarrow> bool" where
  "IsFeatureInstalled c featurePath = walk_features (features_of c) featurePath"

section \<open>The status server\<close>

record status_response =
  sr_status :: int
  sr_headers :: "(string \<times> string) list"
  sr_body :: "string + json"

definition not_allowed :: status_response where
  "not_allowed = \<lparr>sr_status = 405, sr_headers = [(''Content-Type'', ''text/plain; charset=utf-8'')], sr_body = Inl (''Method not allowed'' @ [CHR 0x0A])\<rparr>"

definition GetStatus :: "StatusConfig \<Rightarrow> string \<Rightarrow> status_response" where
  "GetStatus c method =
     (if method \<noteq> ''GET'' then not_allowed
      else \<lparr>sr_status = 200,
        sr_headers = [(''Content-Type'', ''application/json''), (''Cache-Control'', ''no-store''), (''Access-Control-Expose-Headers'', ''Date'')],
        sr_body = Inr (config_json c)\<rparr>)"

definition probe_response :: "string \<Rightarrow> string \<Rightarrow> status_response" where
  "probe_response word method =
     (if method \<noteq> ''GET'' then not_allowed
      else \<lparr>sr_status = 200, sr_headers = [(''Content-Type'', ''application/json'')], sr_body = Inr (JObj [(''status'', JStr word)])\<rparr>)"

definition HealthCheck :: "string \<Rightarrow> status_response" where
  "HealthCheck method = probe_response ''healthy'' method"

definition ReadyCheck :: "string \<Rightarrow> status_response" where
  "ReadyCheck method = probe_response ''ready'' method"

definition status_env :: "(string \<rightharpoonup> string) \<Rightarrow> string \<Rightarrow> string \<Rightarrow> string" where
  "status_env e key defaultValue = (case e key of None \<Rightarrow> defaultValue | Some v \<Rightarrow> if v \<noteq> [] then v else defaultValue)"

definition status_serve :: "StatusConfig \<Rightarrow> string \<Rightarrow> string \<Rightarrow> status_response" where
  "status_serve c path method =
     (if path = ''/v1/orchestrator'' then GetStatus c method
      else if path = ''/healthz'' then HealthCheck method
      else if path = ''/readyz'' then ReadyCheck method
      else \<lparr>sr_status = 404, sr_headers = [(''Content-Type'', ''text/plain; charset=utf-8'')], sr_body = Inl (''404 page not found'' @ [CHR 0x0A])\<rparr>)"

text \<open>\<open>main\<close> up to the listener: the port and the requests it serves, or the error that ends it.\<close>

definition status_main ::
  "(string \<rightharpoonup> string) \<Rightarrow> (string \<Rightarrow> go_err + string) \<Rightarrow> (string \<Rightarrow> go_err + StatusConfig)
     \<Rightarrow> go_err + string \<times> (string \<Rightarrow> string \<Rightarrow> status_response)" where
  "status_main e read_file yaml =
     (case status_Load read_file yaml (status_env e ''CONFIG_PATH'' ''/etc/component-status/config.yaml'') of
        Inl err \<Rightarrow> Inl err
      | Inr c \<Rightarrow> Inr (status_env e ''PORT'' ''8080'', status_serve c))"

section \<open>The secrets proxy\<close>

text \<open>\<open>GetSecretValue\<close> answers with the secret, whose string is absent when it is binary.\<close>

definition NewProxyAWSHandler :: "(string \<Rightarrow> 'w \<Rightarrow> (go_err + string option) \<times> 'w) \<Rightarrow> string \<Rightarrow> 'w \<Rightarrow> (int \<times> string) \<times> 'w" where
  "NewProxyAWSHandler GetSecret name w =
     (if name = [] then ((400, ''query param name empty'' @ [CHR 0x0A]), w)
      else case GetSecret name w of
             (Inl err, w) \<Rightarrow> ((500, err_text err @ [CHR 0x0A]), w)
           | (Inr (Some s), w) \<Rightarrow> ((200, s @ [CHR 0x0A]), w)
           | (Inr None, w) \<Rightarrow> ((404, ''secret is binary'' @ [CHR 0x0A]), w))"

definition proxy_main ::
  "string \<Rightarrow> (string \<Rightarrow> go_err option) \<Rightarrow> (string \<Rightarrow> 'w \<Rightarrow> (go_err + string option) \<times> 'w)
     \<Rightarrow> int + (string \<Rightarrow> string \<Rightarrow> 'w \<Rightarrow> (int \<times> string) \<times> 'w)" where
  "proxy_main region load GetSecret =
     (if region = [] then Inl 1
      else case load region of
             Some err \<Rightarrow> Inl 1
           | None \<Rightarrow> Inr (\<lambda>path name w.
               if path = ''/aws-secret'' then NewProxyAWSHandler GetSecret name w
               else if path = ''/healthz'' then ((200, ''hihi''), w)
               else ((404, ''404 page not found'' @ [CHR 0x0A]), w)))"

section \<open>What is shown is what is installed\<close>

text \<open>A map whose keys are distinct, without a sub-feature that hides the flag.\<close>

inductive wf_features :: "(string \<times> Feature) list \<Rightarrow> bool" where
  "distinct (map fst fs) \<Longrightarrow> (\<And>k f. (k, f) \<in> set fs \<Longrightarrow> wf_features (SubFeatures f) \<and> ''installed'' \<notin> fst ` set (SubFeatures f)) \<Longrightarrow> wf_features fs"

lemma wf_features_distinct: "wf_features fs \<Longrightarrow> distinct (map fst fs)"
  by (erule wf_features.cases) simp

lemma wf_features_sub: "wf_features fs \<Longrightarrow> (k, f) \<in> set fs \<Longrightarrow> wf_features (SubFeatures f) \<and> ''installed'' \<notin> fst ` set (SubFeatures f)"
  by (erule wf_features.cases) blast

text \<open>A path into a document.\<close>

fun json_at :: "json \<Rightarrow> string list \<Rightarrow> json option" where
  "json_at j [] = Some j"
| "json_at (JObj fs) (k # ks) = (case json_field k fs of None \<Rightarrow> None | Some j \<Rightarrow> json_at j ks)"
| "json_at j (k # ks) = None"

lemma map_of_perm: "distinct (map fst xs) \<Longrightarrow> set ys = set xs \<Longrightarrow> length ys = length xs \<Longrightarrow> map_of ys = map_of xs"
  by (metis card_distinct distinct_card distinct_map length_map list.set_map map_of_inject_set)

lemma json_field_sorted:
  assumes "distinct (map fst fs)"
  shows "json_field k (sort_key fst fs) = map_of fs k"
proof -
  have "map_of (rev (sort_key fst fs)) = map_of fs"
    by (rule map_of_perm [OF assms]) simp_all
  then show ?thesis
    by (simp add: json_field_def)
qed

lemma map_of_json: "map_of (map (\<lambda>kf. (fst kf, feature_json (snd kf))) fs) k = map_option feature_json (map_of fs k)"
  by (induction fs) auto

lemma feature_field:
  assumes "distinct (map fst subs)" and "''installed'' \<notin> fst ` set subs"
  shows "json_at (feature_json (Feature b subs)) (k # ks) =
    (if k = ''installed'' then json_at (JBool b) ks
     else case map_of subs k of None \<Rightarrow> None | Some f \<Rightarrow> json_at (feature_json f) ks)"
proof -
  let ?fs = "(''installed'', JBool b) # map (\<lambda>kf. (fst kf, feature_json (snd kf))) subs"
  have "distinct (map fst ?fs)"
    using assms by (simp add: comp_def image_image)
  then have "json_field k (sort_key fst ?fs) = (if k = ''installed'' then Some (JBool b) else map_option feature_json (map_of subs k))"
    by (subst json_field_sorted) (simp_all add: map_of_json)
  moreover have "feature_json (Feature b subs) = JObj (sort_key fst ?fs)"
    using assms(2) by simp
  ultimately show ?thesis
    by (simp del: feature_json.simps sort_key_simps split: option.split)
qed

lemma walk_is_shown:
  "wf_features fs \<Longrightarrow> ''installed'' \<notin> set path \<Longrightarrow> path \<noteq> [] \<Longrightarrow>
     walk_features fs path \<longleftrightarrow>
     (case map_of fs (hd path) of None \<Rightarrow> False | Some f \<Rightarrow> json_at (feature_json f) (tl path @ [''installed'']) = Some (JBool True))"
proof (induction fs path rule: walk_features.induct)
  case (2 fs name path)
  show ?case
  proof (cases "map_of fs name")
    case (Some f)
    obtain b subs where f: "f = Feature b subs"
      by (cases f)
    have sub: "wf_features subs" "''installed'' \<notin> fst ` set subs"
      using wf_features_sub [OF 2(2) map_of_SomeD [OF Some]] f by simp_all
    then have d: "distinct (map fst subs)"
      by (simp add: wf_features_distinct)
    show ?thesis
      using 2 Some f sub feature_field [OF d sub(2)]
      by (cases path) (auto simp del: feature_json.simps split: option.splits)
  qed simp
qed simp

text \<open>
  C40. The document that the status service shows says "installed" at the path of a feature exactly when
  \<open>IsFeatureInstalled\<close> says so.
\<close>

theorem status_shows_installed:
  assumes wf: "wf_features (features_of c)" and path: "path \<noteq> []" "''installed'' \<notin> set path"
  shows "IsFeatureInstalled c path \<longleftrightarrow>
    (case sr_body (status_serve c ''/v1/orchestrator'' ''GET'') of
       Inl _ \<Rightarrow> False
     | Inr j \<Rightarrow> json_at j ([''orchestrator'', ''features''] @ path @ [''installed'']) = Some (JBool True))"
proof -
  obtain k ks where p: "path = k # ks"
    using path(1) by (cases path) auto
  show ?thesis
  proof (cases "oc_Features (Orch c)")
    case None
    then show ?thesis
      by (simp add: p IsFeatureInstalled_def features_of_def status_serve_def GetStatus_def config_json_def json_field_def)
  next
    case (Some fs)
    then have fs: "features_of c = fs" by (simp add: features_of_def)
    have "distinct (map fst (map (\<lambda>kf. (fst kf, feature_json (snd kf))) fs))"
      using wf_features_distinct [OF wf] by (simp add: fs comp_def)
    then have "json_field k (sort_key fst (map (\<lambda>kf. (fst kf, feature_json (snd kf))) fs)) = map_option feature_json (map_of fs k)"
      by (simp add: json_field_sorted map_of_json)
    with walk_is_shown [OF wf path(2,1)] show ?thesis
      by (simp add: p fs Some IsFeatureInstalled_def status_serve_def GetStatus_def config_json_def json_field_def split: option.splits)
  qed
qed

definition demo_config :: StatusConfig where
  "demo_config = \<lparr>SchemaVersion = ''1'', Orch = \<lparr>oc_Version = ''2026'', oc_Features =
     Some [(''observability'', Feature True [(''alerting'', Feature False [])]), (''cluster'', Feature False [])]\<rparr>\<rparr>"

lemma demo_config_wf: "wf_features (features_of demo_config)"
proof -
  have "wf_features []"
    by (rule wf_features.intros) simp_all
  moreover from this have "wf_features [(''alerting'', Feature False [])]"
    by (intro wf_features.intros) auto
  ultimately show ?thesis
    by (simp add: demo_config_def features_of_def) (intro wf_features.intros; auto)
qed

theorem status_shows_installed_witness:
  "\<not> IsFeatureInstalled demo_config [''observability'', ''alerting''] \<and>
   (case sr_body (status_serve demo_config ''/v1/orchestrator'' ''GET'') of
       Inl _ \<Rightarrow> False
     | Inr j \<Rightarrow> json_at j ([''orchestrator'', ''features''] @ [''observability''] @ [''installed'']) = Some (JBool True))"
  using status_shows_installed [OF demo_config_wf, of "[''observability'']"]
  by (simp add: IsFeatureInstalled_def demo_config_def features_of_def)

end
