(* ===== verification/Ent_Base.thy ===== *)
theory Ent_Base
  imports Tenancy_Db
begin

text \<open>
  What the five generated entity packages of tenancy-manager/internal/ent share: the operation
  and the driver of a mutation, the dynamically typed values of the \<open>ent.Mutation\<close>
  interface, the scanned columns of a row, the specifications handed to the package
  \<open>sqlgraph\<close>, hooks (\<open>withHooks\<close> of ent.go) and the fields every mutation
  struct has.

  \<open>sqlgraph\<close> and \<open>google/uuid\<close> are libraries: they are a record of functions
  that the builders take as an argument.  A Go result \<open>(v, ok)\<close> is an option, a
  nillable pointer too; a builder or mutation that Go changes through its pointer is returned
  changed.  The locale \<open>ent_fields\<close> states the contract between the static accessors
  of a mutation and its dynamic ones (\<open>Field\<close>, \<open>SetField\<close>, \<open>Fields\<close>,
  \<open>ClearField\<close>, \<open>ResetField\<close>), which hooks rely on.
\<close>

named_theorems ent_ops "the operations of the generated mutations and builders"

section \<open>Values\<close>

datatype op = OpCreate | OpUpdate | OpUpdateOne | OpDelete | OpDeleteOne

primrec op_name :: "op \<Rightarrow> string" where
  "op_name OpCreate = ''OpCreate''"
| "op_name OpUpdate = ''OpUpdate''"
| "op_name OpUpdateOne = ''OpUpdateOne''"
| "op_name OpDelete = ''OpDelete''"
| "op_name OpDeleteOne = ''OpDeleteOne''"

text \<open>The driver of a configuration: the pool, or the wrapper of an open transaction.\<close>

datatype driver = DbDriver | TxDriver

definition run_driver ::
  "driver \<Rightarrow> (db \<Rightarrow> go_err + 'a \<times> db) \<Rightarrow> world \<Rightarrow> (go_err + 'a) \<times> world" where
  "run_driver drv f w = (case drv of DbDriver \<Rightarrow> in_db f w | TxDriver \<Rightarrow> in_tx f w)"

text \<open>\<open>ent.Value\<close>: an interface value with the dynamic types the entities use.\<close>

datatype gvalue =
    GString string
  | GTime instant
  | GUUID uuid
  | GStatus string
  | GInt int
  | GInt64 int
  | GStringPtr "string option"
  | GTimePtr "instant option"
  | GUUIDPtr "uuid option"
  | GNil

text \<open>The verb \<open>%T\<close>.\<close>

primrec type_name :: "gvalue \<Rightarrow> string" where
  "type_name (GString s) = ''string''"
| "type_name (GTime t) = ''time.Time''"
| "type_name (GUUID u) = ''uuid.UUID''"
| "type_name (GStatus s) = ''controllerstatus.Status''"
| "type_name (GInt i) = ''int''"
| "type_name (GInt64 i) = ''int64''"
| "type_name (GStringPtr s) = ''*string''"
| "type_name (GTimePtr t) = ''*time.Time''"
| "type_name (GUUIDPtr u) = ''*uuid.UUID''"
| "type_name GNil = ''<nil>''"

definition unexpected_type :: "gvalue \<Rightarrow> string \<Rightarrow> go_err" where
  "unexpected_type v name = Errorf (''unexpected type '' @ type_name v @ '' for field '' @ name)"

text \<open>The destinations of \<open>sql.Rows.Scan\<close> and what they hold after it.\<close>

datatype scan_type = TNullString | TNullTime | TNullInt64 | TUUID | TNullUUID | TUnknown

datatype scanned =
    SNullString "string option"
  | SNullTime "instant option"
  | SNullInt64 "int option"
  | SUUID uuid
  | SNullUUID "uuid option"
  | SUnknown gvalue

primrec scan_type_of :: "scanned \<Rightarrow> scan_type" where
  "scan_type_of (SNullString s) = TNullString"
| "scan_type_of (SNullTime t) = TNullTime"
| "scan_type_of (SNullInt64 i) = TNullInt64"
| "scan_type_of (SUUID u) = TUUID"
| "scan_type_of (SNullUUID u) = TNullUUID"
| "scan_type_of (SUnknown v) = TUnknown"

definition scan_type_name :: "scanned \<Rightarrow> string" where
  "scan_type_name s =
     (case s of
        SNullString _ \<Rightarrow> ''*sql.NullString'' | SNullTime _ \<Rightarrow> ''*sql.NullTime''
      | SNullInt64 _ \<Rightarrow> ''*sql.NullInt64'' | SUUID _ \<Rightarrow> ''*uuid.UUID''
      | SNullUUID _ \<Rightarrow> ''*sql.NullScanner'' | SUnknown _ \<Rightarrow> ''*sql.UnknownType'')"

definition unexpected_scan :: "scanned \<Rightarrow> string \<Rightarrow> go_err" where
  "unexpected_scan s name = Errorf (''unexpected type '' @ scan_type_name s @ '' for field '' @ name)"

text \<open>The loop of every \<open>assignValues\<close>: column by column, the first error stops it.
  \<open>len(values) < len(columns)\<close> is refused before.\<close>

fun assign_all ::
  "(string \<Rightarrow> scanned \<Rightarrow> 'n \<Rightarrow> go_err + 'n) \<Rightarrow> string list \<Rightarrow> scanned list \<Rightarrow> 'n \<Rightarrow> go_err + 'n" where
  "assign_all f (c # cs) (v # vs) n =
     (case f c v n of Inl e \<Rightarrow> Inl e | Inr n' \<Rightarrow> assign_all f cs vs n')"
| "assign_all f _ _ n = Inr n"

definition assign_columns ::
  "(string \<Rightarrow> scanned \<Rightarrow> 'n \<Rightarrow> go_err + 'n) \<Rightarrow> string list \<Rightarrow> scanned list \<Rightarrow> 'n \<Rightarrow> go_err + 'n" where
  "assign_columns f columns values n =
     (if length values < length columns
      then Inl (Errorf (''mismatch number of scan values: '' @ decimal (length values) @ '' != ''
                        @ decimal (length columns)))
      else assign_all f columns values n)"

section \<open>The library sqlgraph\<close>

datatype field_type = TypeString | TypeTime | TypeUUID | TypeInt | TypeInt64 | TypeEnum

datatype rel = O2M | M2O

record edge_spec =
  es_rel :: rel
  es_inverse :: bool
  es_table :: string
  es_column :: string
  es_target :: "string \<times> field_type"
  es_nodes :: "uuid set"

record create_spec =
  cs_table :: string
  cs_id_field :: "string \<times> field_type"
  cs_id :: "gvalue option"
  cs_fields :: "(string \<times> field_type \<times> gvalue) list"
  cs_edges :: "edge_spec list"

type_synonym 'r pred = "db \<Rightarrow> 'r \<Rightarrow> bool"

record ('r, 'n) update_spec =
  us_table :: string
  us_columns :: "string list"
  us_id_field :: "string \<times> field_type"
  us_id :: "gvalue option"
  us_preds :: "'r pred list"
  us_set :: "(string \<times> field_type \<times> gvalue) list"
  us_clear :: "(string \<times> field_type) list"
  us_add_edges :: "edge_spec list"
  us_clear_edges :: "edge_spec list"
  us_scan :: "string list \<Rightarrow> scan_type list"
  us_assign :: "string list \<Rightarrow> scanned list \<Rightarrow> go_err + 'n"

record 'r delete_spec =
  ds_table :: string
  ds_id_field :: "string \<times> field_type"
  ds_preds :: "'r pred list"

datatype sql_err = SqlConstraint string | SqlNotFound string | SqlOther go_err

record ('r, 'n) sqlgraph =
  CreateNode :: "driver \<Rightarrow> create_spec \<Rightarrow> world \<Rightarrow> (sql_err + gvalue option) \<times> world"
  BatchCreate :: "driver \<Rightarrow> create_spec list \<Rightarrow> world \<Rightarrow> (sql_err + gvalue option list) \<times> world"
  UpdateNodes :: "driver \<Rightarrow> ('r, 'n) update_spec \<Rightarrow> world \<Rightarrow> (sql_err + nat) \<times> world"
  UpdateNode :: "driver \<Rightarrow> ('r, 'n) update_spec \<Rightarrow> world \<Rightarrow> (sql_err + 'n) \<times> world"
  DeleteNodes :: "driver \<Rightarrow> 'r delete_spec \<Rightarrow> world \<Rightarrow> (sql_err + nat) \<times> world"
  uuid_Scan :: "gvalue \<Rightarrow> go_err + uuid"

text \<open>How the builders turn an error of the library into one of theirs: a creation or a
  deletion, and an update, which also translates a missing node.\<close>

definition create_err :: "sql_err \<Rightarrow> go_err" where
  "create_err e =
     (case e of SqlConstraint m \<Rightarrow> ConstraintError m | SqlNotFound m \<Rightarrow> Errorf m | SqlOther e \<Rightarrow> e)"

definition update_err :: "string \<Rightarrow> sql_err \<Rightarrow> go_err" where
  "update_err label e =
     (case e of SqlConstraint m \<Rightarrow> ConstraintError m | SqlNotFound m \<Rightarrow> NotFoundError label
      | SqlOther e \<Rightarrow> e)"

section \<open>Mutations\<close>

text \<open>The closure \<open>oldValue\<close>: the node the builder was given, or an id whose row is
  fetched once (\<open>sync.Once\<close>, with its result kept).\<close>

datatype ('id, 'n) old_source = OldNode 'n | OldByID 'id "(go_err + 'n) option"

record ('id, 'n, 'r) mutation =
  m_op :: op
  m_typ :: string
  m_driver :: driver
  m_id :: "'id option"
  m_cleared :: "string set"
  m_done :: bool
  m_old :: "('id, 'n) old_source option"
  m_preds :: "'r pred list"

type_synonym ('id, 'n) getter = "driver \<Rightarrow> 'id \<Rightarrow> world \<Rightarrow> (go_err + 'n) \<times> world"

definition mutation_ID :: "('id, 'n, 'r, 'z) mutation_scheme \<Rightarrow> 'id option" where [ent_ops]:
  "mutation_ID m = m_id m"

definition mutation_SetID ::
  "'id \<Rightarrow> ('id, 'n, 'r, 'z) mutation_scheme \<Rightarrow> ('id, 'n, 'r, 'z) mutation_scheme" where [ent_ops]:
  "mutation_SetID i m = m\<lparr>m_id := Some i\<rparr>"

definition mutation_Op :: "('id, 'n, 'r, 'z) mutation_scheme \<Rightarrow> op" where [ent_ops]:
  "mutation_Op m = m_op m"

definition mutation_SetOp ::
  "op \<Rightarrow> ('id, 'n, 'r, 'z) mutation_scheme \<Rightarrow> ('id, 'n, 'r, 'z) mutation_scheme" where [ent_ops]:
  "mutation_SetOp oper m = m\<lparr>m_op := oper\<rparr>"

definition mutation_Type :: "('id, 'n, 'r, 'z) mutation_scheme \<Rightarrow> string" where [ent_ops]:
  "mutation_Type m = m_typ m"

definition mutation_Where ::
  "'r pred list \<Rightarrow> ('id, 'n, 'r, 'z) mutation_scheme \<Rightarrow> ('id, 'n, 'r, 'z) mutation_scheme" where [ent_ops]:
  "mutation_Where ps m = m\<lparr>m_preds := m_preds m @ ps\<rparr>"

definition mutation_AddedFields :: "('id, 'n, 'r, 'z) mutation_scheme \<Rightarrow> string list" where [ent_ops]:
  "mutation_AddedFields m = []"

definition mutation_AddedField :: "('id, 'n, 'r, 'z) mutation_scheme \<Rightarrow> string \<Rightarrow> gvalue option" where [ent_ops]:
  "mutation_AddedField m name = None"

definition mutation_Tx :: "('id, 'n, 'r, 'z) mutation_scheme \<Rightarrow> go_err + driver" where [ent_ops]:
  "mutation_Tx m =
     (if m_driver m \<noteq> TxDriver then Inl (Errorf ''ent: mutation is not running in a transaction'')
      else Inr (m_driver m))"

text \<open>\<open>withXxxID\<close> and \<open>withXxx\<close>.\<close>

definition with_id ::
  "'id \<Rightarrow> ('id, 'n, 'r, 'z) mutation_scheme \<Rightarrow> ('id, 'n, 'r, 'z) mutation_scheme" where [ent_ops]:
  "with_id i m = m\<lparr>m_old := Some (OldByID i None), m_id := Some i\<rparr>"

definition with_node ::
  "('n \<Rightarrow> 'id) \<Rightarrow> 'n \<Rightarrow> ('id, 'n, 'r, 'z) mutation_scheme \<Rightarrow> ('id, 'n, 'r, 'z) mutation_scheme" where [ent_ops]:
  "with_node ident n m = m\<lparr>m_old := Some (OldNode n), m_id := Some (ident n)\<rparr>"

definition mutation_oldValue ::
  "('id, 'n) getter \<Rightarrow> ('id, 'n) old_source \<Rightarrow> ('id, 'n, 'r, 'z) mutation_scheme \<Rightarrow> world
     \<Rightarrow> (go_err + 'n) \<times> ('id, 'n, 'r, 'z) mutation_scheme \<times> world" where
  "mutation_oldValue get src m w =
     (case src of
        OldNode n \<Rightarrow> (Inr n, m, w)
      | OldByID i (Some res) \<Rightarrow> (res, m, w)
      | OldByID i None \<Rightarrow>
          (let (res, w') =
             (if m_done m then (Inl (Errorf ''querying old values post mutation is not allowed''), w)
              else get (m_driver m) i w)
           in (res, m\<lparr>m_old := Some (OldByID i (Some res))\<rparr>, w')))"

text \<open>The body every \<open>OldXxx(ctx)\<close> has; \<open>what\<close> is its name.\<close>

definition mutation_Old ::
  "string \<Rightarrow> ('n \<Rightarrow> 'v) \<Rightarrow> ('id, 'n) getter \<Rightarrow> ('id, 'n, 'r, 'z) mutation_scheme \<Rightarrow> world
     \<Rightarrow> (go_err + 'v) \<times> ('id, 'n, 'r, 'z) mutation_scheme \<times> world" where
  "mutation_Old what field get m w =
     (if m_op m \<noteq> OpUpdateOne
      then (Inl (Errorf (what @ '' is only allowed on UpdateOne operations'')), m, w)
      else case (m_id m, m_old m) of
        (Some i, Some src) \<Rightarrow>
          (case mutation_oldValue get src m w of
             (Inl e, m', w') \<Rightarrow> (Inl (wrapf (''querying old value for '' @ what) e), m', w')
           | (Inr n, m', w') \<Rightarrow> (Inr (field n), m', w'))
      | _ \<Rightarrow> (Inl (Errorf (what @ '' requires an ID field in the mutation'')), m, w))"

definition as_value ::
  "('v \<Rightarrow> gvalue) \<Rightarrow> (go_err + 'v) \<times> 'm \<times> world \<Rightarrow> (go_err + gvalue) \<times> 'm \<times> world" where
  "as_value wrap r = (case r of (res, m, w) \<Rightarrow> (map_sum id wrap res, m, w))"

text \<open>\<open>IDs(ctx)\<close>: the id of the mutation, or those of the rows its predicates select;
  \<open>all\<close> runs that query.\<close>

definition mutation_IDs ::
  "(driver \<Rightarrow> 'r pred list \<Rightarrow> world \<Rightarrow> (go_err + 'id list) \<times> world)
     \<Rightarrow> ('id, 'n, 'r, 'z) mutation_scheme \<Rightarrow> world \<Rightarrow> (go_err + 'id list) \<times> world" where
  "mutation_IDs all m w =
     (if m_op m \<in> {OpUpdateOne, OpDeleteOne} \<and> m_id m \<noteq> None then (Inr [the (m_id m)], w)
      else if m_op m \<in> {OpUpdateOne, OpDeleteOne, OpUpdate, OpDelete}
      then all (m_driver m) (m_preds m) w
      else (Inl (Errorf (''IDs is not allowed on '' @ op_name (m_op m) @ '' operations'')), w))"

section \<open>Hooks and builders\<close>

text \<open>A \<open>Mutator\<close> runs a mutation; a hook wraps one, and a nil hook is \<open>None\<close>.\<close>

type_synonym ('m, 'v) mutator = "'m \<Rightarrow> world \<Rightarrow> (go_err + 'v) \<times> 'm \<times> world"
type_synonym ('m, 'v) hook = "(('m, 'v) mutator \<Rightarrow> ('m, 'v) mutator) option"

fun wrap_hooks :: "('m, 'v) hook list \<Rightarrow> ('m, 'v) mutator \<Rightarrow> ('m, 'v) mutator option" where
  "wrap_hooks [] mut = Some mut"
| "wrap_hooks (h # hs) mut =
     (case wrap_hooks hs mut of None \<Rightarrow> None | Some mut' \<Rightarrow> map_option (\<lambda>f. f mut') h)"

definition withHooks ::
  "('m, 'v) mutator \<Rightarrow> 'm \<Rightarrow> ('m, 'v) hook list \<Rightarrow> world \<Rightarrow> (go_err + 'v) \<times> 'm \<times> world" where
  "withHooks exec m hooks w =
     (if hooks = [] then exec m w
      else case wrap_hooks hooks exec of
        None \<Rightarrow> (Inl (Errorf ''ent: uninitialized hook (forgotten import ent/runtime?)''), m, w)
      | Some mut \<Rightarrow> mut m w)"

record ('m, 'v) builder =
  b_mutation :: 'm
  b_hooks :: "('m, 'v) hook list"

record ('m, 'v) one_builder = "('m, 'v) builder" +
  b_fields :: "string list"

definition on_mutation ::
  "('m \<Rightarrow> 'm) \<Rightarrow> ('m, 'v, 'z) builder_scheme \<Rightarrow> ('m, 'v, 'z) builder_scheme" where [ent_ops]:
  "on_mutation f b = b\<lparr>b_mutation := f (b_mutation b)\<rparr>"

text \<open>\<open>SetNillableXxx(v)\<close>: the setter, unless the pointer is nil.\<close>

definition set_nillable :: "('v \<Rightarrow> 'b \<Rightarrow> 'b) \<Rightarrow> 'v option \<Rightarrow> 'b \<Rightarrow> 'b" where [ent_ops]:
  "set_nillable setter v b = (case v of None \<Rightarrow> b | Some x \<Rightarrow> setter x b)"

text \<open>\<open>Save\<close> of a builder: its mutation is run with the hooks and kept in the builder.\<close>

definition save_with ::
  "('m, 'v) mutator \<Rightarrow> ('m, 'v, 'z) builder_scheme \<Rightarrow> world
     \<Rightarrow> (go_err + 'v) \<times> ('m, 'v, 'z) builder_scheme \<times> world" where
  "save_with exec b w =
     (case withHooks exec (b_mutation b) (b_hooks b) w of
        (res, m, w') \<Rightarrow> (res, b\<lparr>b_mutation := m\<rparr>, w'))"

text \<open>\<open>Exec\<close> drops the node, \<open>SaveX\<close> and \<open>ExecX\<close> panic on an error.\<close>

datatype 'a outcome = Panic go_err | Return 'a

definition exec_of :: "(go_err + 'v) \<times> 'b \<times> world \<Rightarrow> (go_err + unit) \<times> 'b \<times> world" where
  "exec_of r = (case r of (res, b, w) \<Rightarrow> (map_sum id (\<lambda>_. ()) res, b, w))"

definition must :: "(go_err + 'v) \<times> 'b \<times> world \<Rightarrow> 'v outcome \<times> 'b \<times> world" where
  "must r = (case r of (Inl e, b, w) \<Rightarrow> (Panic e, b, w) | (Inr v, b, w) \<Rightarrow> (Return v, b, w))"

definition missing_field :: "string \<Rightarrow> string \<Rightarrow> go_err" where
  "missing_field field qualified =
     ValidationError field (''ent: missing required field '' @ [CHR 0x22] @ qualified @ [CHR 0x22])"

definition missing_edge :: "string \<Rightarrow> string \<Rightarrow> go_err" where
  "missing_edge edge qualified =
     ValidationError edge (''ent: missing required edge '' @ [CHR 0x22] @ qualified @ [CHR 0x22])"

definition clearing_required :: "string \<Rightarrow> go_err" where
  "clearing_required qualified =
     Errorf (''ent: clearing a required unique edge '' @ [CHR 0x22] @ qualified @ [CHR 0x22])"

definition missing_id :: "string \<Rightarrow> go_err" where
  "missing_id qualified =
     ValidationError ''id'' (''ent: missing '' @ [CHR 0x22] @ qualified @ [CHR 0x22] @ '' for update'')"

text \<open>The checks of a builder run in order and the first failure is reported.\<close>

fun first_error :: "go_err option list \<Rightarrow> go_err option" where
  "first_error [] = None"
| "first_error (Some e # es) = Some e"
| "first_error (None # es) = first_error es"

definition required :: "'v option \<Rightarrow> string \<Rightarrow> string \<Rightarrow> go_err option" where
  "required v field qualified = (case v of None \<Rightarrow> Some (missing_field field qualified) | Some x \<Rightarrow> None)"

definition validated ::
  "('v \<Rightarrow> string option) \<Rightarrow> 'v option \<Rightarrow> string \<Rightarrow> string \<Rightarrow> go_err option" where
  "validated validator v field qualified =
     (case v of None \<Rightarrow> None | Some x \<Rightarrow> map_option (validator_failed field qualified) (validator x))"

text \<open>\<open>if value, ok := m.Xxx(); ok { spec.SetField(...) }\<close>.\<close>

definition spec_field ::
  "string \<Rightarrow> field_type \<Rightarrow> ('v \<Rightarrow> gvalue) \<Rightarrow> 'v option \<Rightarrow> (string \<times> field_type \<times> gvalue) list" where
  "spec_field name t wrap v = (case v of None \<Rightarrow> [] | Some x \<Rightarrow> [(name, t, wrap x)])"

text \<open>The columns \<open>UpdateOne\<close> returns: all of them, or the id and those selected, each of
  which must be a column.\<close>

fun select_columns :: "(string \<Rightarrow> bool) \<Rightarrow> string \<Rightarrow> string list \<Rightarrow> go_err + string list" where
  "select_columns valid ident [] = Inr []"
| "select_columns valid ident (f # fs) =
     (if \<not> valid f
      then Inl (ValidationError f (''ent: invalid field '' @ quote f @ '' for query''))
      else case select_columns valid ident fs of
        Inl e \<Rightarrow> Inl e
      | Inr cs \<Rightarrow> Inr (if f \<noteq> ident then f # cs else cs))"

definition node_columns ::
  "(string \<Rightarrow> bool) \<Rightarrow> string list \<Rightarrow> string \<Rightarrow> string list \<Rightarrow> go_err + string list" where
  "node_columns valid columns ident flds =
     (if flds = [] then Inr columns
      else map_sum id (\<lambda>cs. ident # cs) (select_columns valid ident flds))"

text \<open>The identifiers of an edge map, which is nil until it is first used.\<close>

definition added :: "uuid set option \<Rightarrow> uuid set" where [ent_ops]:
  "added s = (case s of None \<Rightarrow> {} | Some ids \<Rightarrow> ids)"

text \<open>\<open>if _, ok := m.Xxx(); !ok { m.SetXxx(default) }\<close>, for a constant, the clock and a
  new UUID.\<close>

definition default_value ::
  "'v \<Rightarrow> ('m \<Rightarrow> 'v option) \<Rightarrow> ('v \<Rightarrow> 'm \<Rightarrow> 'm) \<Rightarrow> 'm \<times> world \<Rightarrow> 'm \<times> world" where
  "default_value v getter setter mw =
     (case mw of (m, w) \<Rightarrow> (if getter m = None then setter v m else m, w))"

definition default_now ::
  "('m \<Rightarrow> instant option) \<Rightarrow> (instant \<Rightarrow> 'm \<Rightarrow> 'm) \<Rightarrow> 'm \<times> world \<Rightarrow> 'm \<times> world" where
  "default_now getter setter mw =
     (case mw of (m, w) \<Rightarrow>
        (if getter m = None then (let (t, w') = now w in (setter t m, w')) else (m, w)))"

definition default_uuid ::
  "('m \<Rightarrow> uuid option) \<Rightarrow> (uuid \<Rightarrow> 'm \<Rightarrow> 'm) \<Rightarrow> 'm \<times> world \<Rightarrow> 'm \<times> world" where
  "default_uuid getter setter mw =
     (case mw of (m, w) \<Rightarrow>
        (if getter m = None then (let (u, w') = new_uuid w in (setter u m, w')) else (m, w)))"

text \<open>The id of a created node, read from the specification after the call: a UUID comes back
  as the pointer that was put in or is scanned; an integer is converted by a type assertion,
  which panics on any other type.\<close>

abbreviation not_int64 :: go_err where
  "not_int64 \<equiv> Errorf ''panic: interface conversion: interface is not int64''"

definition created_uuid ::
  "('r, 'n) sqlgraph \<Rightarrow> gvalue option \<Rightarrow> uuid \<Rightarrow> go_err + uuid" where
  "created_uuid G idv current =
     (case idv of
        None \<Rightarrow> Inr current
      | Some (GUUIDPtr (Some u)) \<Rightarrow> Inr u
      | Some v \<Rightarrow> uuid_Scan G v)"

definition created_int64 :: "gvalue option \<Rightarrow> int \<Rightarrow> go_err + int" where
  "created_int64 idv current =
     (if idv = Some (GInt64 current) then Inr current
      else case idv of Some (GInt64 i) \<Rightarrow> Inr i | _ \<Rightarrow> Inl not_int64)"

definition created_int :: "gvalue option \<Rightarrow> go_err + int" where
  "created_int idv = (case idv of Some (GInt64 i) \<Rightarrow> Inr i | _ \<Rightarrow> Inl not_int64)"

section \<open>The contract of the dynamic accessors\<close>

fun set_fields ::
  "(string \<Rightarrow> gvalue \<Rightarrow> 'm \<Rightarrow> go_err + 'm) \<Rightarrow> (string \<times> gvalue) list \<Rightarrow> 'm \<Rightarrow> go_err + 'm" where
  "set_fields setter [] m = Inr m"
| "set_fields setter ((n, v) # kvs) m =
     (case setter n v m of Inl e \<Rightarrow> Inl e | Inr m' \<Rightarrow> set_fields setter kvs m')"

definition bindings ::
  "('m \<Rightarrow> string list) \<Rightarrow> ('m \<Rightarrow> string \<Rightarrow> gvalue option) \<Rightarrow> 'm \<Rightarrow> (string \<times> gvalue) list" where
  "bindings fields_of field_of m = map (\<lambda>n. (n, the (field_of m n))) (fields_of m)"

locale ent_fields =
  fixes names nullable :: "string list"
    and accepts :: "string \<Rightarrow> gvalue \<Rightarrow> bool"
    and field :: "'m \<Rightarrow> string \<Rightarrow> gvalue option"
    and cleared :: "'m \<Rightarrow> string \<Rightarrow> bool"
    and fields cleared_fields :: "'m \<Rightarrow> string list"
    and set_field :: "string \<Rightarrow> gvalue \<Rightarrow> 'm \<Rightarrow> go_err + 'm"
    and clear_field reset_field :: "string \<Rightarrow> 'm \<Rightarrow> go_err + 'm"
  assumes names_distinct: "distinct names"
    and nullable_names: "set nullable \<subseteq> set names"
    and fields_eq: "fields m = filter (\<lambda>n. field m n \<noteq> None) names"
    and cleared_fields_eq: "cleared_fields m = filter (cleared m) nullable"
    and accepts_names: "accepts n v \<Longrightarrow> n \<in> set names"
    and field_typed: "field m n = Some v \<Longrightarrow> accepts n v"
    and set_ok: "accepts n v \<Longrightarrow>
      \<exists>m'. set_field n v m = Inr m' \<and> field m' = (field m)(n \<mapsto> v) \<and> cleared m' = cleared m"
    and set_bad: "\<not> accepts n v \<Longrightarrow> \<exists>e. set_field n v m = Inl e"
    and clear_ok: "n \<in> set nullable \<Longrightarrow>
      \<exists>m'. clear_field n m = Inr m' \<and> field m' = (field m)(n := None)
           \<and> cleared m' = (cleared m)(n := True)"
    and clear_bad: "n \<notin> set nullable \<Longrightarrow> \<exists>e. clear_field n m = Inl e"
    and reset_ok: "n \<in> set names \<Longrightarrow>
      \<exists>m'. reset_field n m = Inr m' \<and> field m' = (field m)(n := None)
           \<and> cleared m' = (if n \<in> set nullable then (cleared m)(n := False) else cleared m)"
    and reset_bad: "n \<notin> set names \<Longrightarrow> \<exists>e. reset_field n m = Inl e"
begin

lemma set_fields_result:
  assumes "\<forall>(n, v) \<in> set kvs. accepts n v"
  shows "\<exists>m'. set_fields set_field kvs m = Inr m' \<and> field m' = field m ++ map_of (rev kvs)
              \<and> cleared m' = cleared m"
  using assms
proof (induction kvs arbitrary: m)
  case Nil
  then show ?case by simp
next
  case (Cons kv kvs)
  obtain n v where kv: "kv = (n, v)" by (cases kv)
  obtain m1 where m1: "set_field n v m = Inr m1" "field m1 = (field m)(n \<mapsto> v)" "cleared m1 = cleared m"
    using set_ok[of n v m] Cons.prems kv by auto
  obtain m2 where "set_fields set_field kvs m1 = Inr m2" "field m2 = field m1 ++ map_of (rev kvs)"
      "cleared m2 = cleared m1"
    using Cons.IH[of m1] Cons.prems by auto
  with m1 kv show ?case by (auto simp: map_add_def fun_eq_iff split: option.splits)
qed

text \<open>Well-typed bindings of known fields are the only ones that are accepted.\<close>

lemma set_fields_iff:
  "(\<exists>m'. set_fields set_field kvs m = Inr m') \<longleftrightarrow> (\<forall>(n, v) \<in> set kvs. accepts n v)"
proof
  assume "\<exists>m'. set_fields set_field kvs m = Inr m'"
  then show "\<forall>(n, v) \<in> set kvs. accepts n v"
  proof (induction kvs arbitrary: m)
    case (Cons kv kvs)
    obtain n v where kv: "kv = (n, v)" by (cases kv)
    show ?case
    proof (cases "accepts n v")
      case True
      with Cons kv show ?thesis by (auto split: sum.splits)
    next
      case False
      with set_bad[OF False, of m] Cons.prems kv show ?thesis by auto
    qed
  qed simp
next
  assume "\<forall>(n, v) \<in> set kvs. accepts n v"
  then show "\<exists>m'. set_fields set_field kvs m = Inr m'" using set_fields_result[of kvs m] by auto
qed

text \<open>The fields of a mutation, read dynamically and set on a fresh one, give the same fields:
  what a hook does when it copies a mutation.\<close>

lemma map_of_bindings: "map_of (rev (bindings fields field m)) = field m"
proof
  fix n
  have d: "distinct (map fst (bindings fields field m))"
    unfolding bindings_def by (simp add: comp_def fields_eq names_distinct)
  have "map_of (rev (bindings fields field m)) n = map_of (bindings fields field m) n"
    using d by (metis map_of_inject_set[of "rev (bindings fields field m)" "bindings fields field m"] distinct_rev rev_map set_rev)
  also have "\<dots> = field m n"
    using field_typed[of m n] accepts_names[of n]
    by (cases "field m n") (auto simp: bindings_def fields_eq map_of_map_restrict restrict_map_def)
  finally show "map_of (rev (bindings fields field m)) n = field m n" .
qed

lemma copy_fields:
  assumes "field m0 = (\<lambda>_. None)"
  shows "\<exists>m'. set_fields set_field (bindings fields field m) m0 = Inr m' \<and> field m' = field m \<and> cleared m' = cleared m0"
proof -
  have "\<forall>(n, v) \<in> set (bindings fields field m). accepts n v"
    using field_typed[of m] by (auto simp: bindings_def fields_eq)
  from set_fields_result[OF this, of m0] show ?thesis
    using assms map_of_bindings[of m] by (auto simp: map_add_def split: option.splits)
qed

lemma reset_after_set:
  assumes "accepts n v" "field m n = None"
  obtains m1 m2 where "set_field n v m = Inr m1" "reset_field n m1 = Inr m2" "field m2 = field m"
proof -
  obtain m1 where m1: "set_field n v m = Inr m1" "field m1 = (field m)(n \<mapsto> v)"
    using set_ok[OF assms(1), of m] by auto
  obtain m2 where "reset_field n m1 = Inr m2" "field m2 = (field m1)(n := None)"
    using reset_ok[OF accepts_names[OF assms(1)], of m1] by auto
  with m1 assms(2) show thesis by (auto intro!: that simp: fun_eq_iff)
qed

text \<open>A field that was cleared and then set is reported both as set and as cleared.\<close>

lemma set_after_clear:
  assumes "n \<in> set nullable" "accepts n v"
  obtains m1 m2 where "clear_field n m = Inr m1" "set_field n v m1 = Inr m2"
    "n \<in> set (fields m2)" "n \<in> set (cleared_fields m2)"
proof -
  obtain m1 where m1: "clear_field n m = Inr m1" "cleared m1 = (cleared m)(n := True)"
    using clear_ok[OF assms(1), of m] by auto
  have n: "n \<in> set names" using assms(1) nullable_names by auto
  obtain m2 where m2: "set_field n v m1 = Inr m2" "field m2 = (field m1)(n \<mapsto> v)" "cleared m2 = cleared m1"
    using set_ok[OF assms(2), of m1] by auto
  from m1 m2 n assms(1) show thesis
    by (intro that[of m1 m2]) (auto simp: fields_eq cleared_fields_eq)
qed

end

section \<open>Assigning scanned columns\<close>

text \<open>The contract of an entity's \<open>scanValues\<close> and \<open>assignValues\<close>: a value of
  the type allocated for a column is assigned without error.\<close>

locale ent_scan =
  fixes scan_column :: "string \<Rightarrow> scan_type"
    and assign_column :: "string \<Rightarrow> scanned \<Rightarrow> 'n \<Rightarrow> go_err + 'n"
  assumes assign_typed: "scan_type_of v = scan_column c \<Longrightarrow> \<exists>n'. assign_column c v n = Inr n'"
begin

lemma assign_all_total:
  assumes "map scan_type_of values = map scan_column columns"
  shows "\<exists>n'. assign_all assign_column columns values n = Inr n'"
  using assms
proof (induction columns arbitrary: "values" n)
  case (Cons c cs)
  then obtain v vs where vs: "values = v # vs" "scan_type_of v = scan_column c"
      "map scan_type_of vs = map scan_column cs"
    by (cases "values") auto
  then show ?case using assign_typed[of v c n] Cons.IH[of vs] by auto
qed simp

lemma assign_columns_total:
  assumes "map scan_type_of values = map scan_column columns"
  shows "\<exists>n'. assign_columns assign_column columns values n = Inr n'"
  using assign_all_total[OF assms] map_eq_imp_length_eq[OF assms] by (simp add: assign_columns_def)

end

end
