(* ===== verification/Ent_Org.thy ===== *)
theory Ent_Org
  imports Ent_Base
begin

text \<open>
  The entity \<open>Org\<close> of tenancy-manager/internal/ent: its node and the scanning of its
  rows (org.go), its mutation (mutation.go), its builders (org\_create.go, org\_update.go,
  org\_delete.go) and its client (client.go).
\<close>

section \<open>The node\<close>

text \<open>The struct \<open>Org\<close>; \<open>selectValues\<close> keeps the columns that are not fields.\<close>

record org_node =
  on_id :: uuid
  on_name :: string
  on_description :: string
  on_created_at :: instant
  on_updated_at :: instant
  on_deleted_at :: "instant option"
  on_select :: "string \<Rightarrow> scanned option"

definition zero_org_node :: "org_node" where [ent_ops]:
  "zero_org_node =
     \<lparr>on_id = 0,
       on_name = [],
       on_description = [],
       on_created_at = 0,
       on_updated_at = 0,
       on_deleted_at = None,
       on_select = (\<lambda>_. None)\<rparr>"

definition Org_Columns :: "string list" where
  "Org_Columns = [''id'', ''name'', ''description'', ''created_at'', ''updated_at'', ''deleted_at'']"

definition Org_ValidColumn :: "string \<Rightarrow> bool" where
  "Org_ValidColumn c \<longleftrightarrow> c \<in> set Org_Columns"

text \<open>\<open>scanValues\<close> and \<open>assignValues\<close>, one column at a time.\<close>

definition Org_scan_column :: "string \<Rightarrow> scan_type" where
  "Org_scan_column c =
     (if c = ''id'' then TUUID
      else if c = ''name'' then TNullString
      else if c = ''description'' then TNullString
      else if c = ''created_at'' then TNullTime
      else if c = ''updated_at'' then TNullTime
      else if c = ''deleted_at'' then TNullTime
      else TUnknown)"

definition Org_scanValues :: "string list \<Rightarrow> scan_type list" where
  "Org_scanValues columns = map Org_scan_column columns"

definition Org_assign_column ::
  "string \<Rightarrow> scanned \<Rightarrow> org_node \<Rightarrow> go_err + org_node" where
  "Org_assign_column c v n =
     (if c = ''id'' then
       (case v of SUUID i \<Rightarrow> Inr (n\<lparr>on_id := i\<rparr>) | _ \<Rightarrow> Inl (unexpected_scan v ''id''))
      else if c = ''name'' then
       (case v of SNullString x \<Rightarrow> Inr (case x of None \<Rightarrow> n | Some y \<Rightarrow> n\<lparr>on_name := y\<rparr>)
        | _ \<Rightarrow> Inl (unexpected_scan v ''name''))
      else if c = ''description'' then
       (case v of SNullString x \<Rightarrow> Inr (case x of None \<Rightarrow> n | Some y \<Rightarrow> n\<lparr>on_description := y\<rparr>)
        | _ \<Rightarrow> Inl (unexpected_scan v ''description''))
      else if c = ''created_at'' then
       (case v of SNullTime x \<Rightarrow> Inr (case x of None \<Rightarrow> n | Some y \<Rightarrow> n\<lparr>on_created_at := y\<rparr>)
        | _ \<Rightarrow> Inl (unexpected_scan v ''created_at''))
      else if c = ''updated_at'' then
       (case v of SNullTime x \<Rightarrow> Inr (case x of None \<Rightarrow> n | Some y \<Rightarrow> n\<lparr>on_updated_at := y\<rparr>)
        | _ \<Rightarrow> Inl (unexpected_scan v ''updated_at''))
      else if c = ''deleted_at'' then
       (case v of SNullTime x \<Rightarrow> Inr (case x of None \<Rightarrow> n | Some y \<Rightarrow> n\<lparr>on_deleted_at := Some y\<rparr>)
        | _ \<Rightarrow> Inl (unexpected_scan v ''deleted_at''))
      else Inr (n\<lparr>on_select := (on_select n)(c \<mapsto> v)\<rparr>))"

definition Org_assignValues ::
  "org_node \<Rightarrow> string list \<Rightarrow> scanned list \<Rightarrow> go_err + org_node" where
  "Org_assignValues n columns vals = assign_columns Org_assign_column columns vals n"

section \<open>The mutation\<close>

record OrgMutation = "(uuid, org_node, org_row) mutation" +
  om_name :: "string option"
  om_description :: "string option"
  om_created_at :: "instant option"
  om_updated_at :: "instant option"
  om_deleted_at :: "instant option"
  om_folders :: "uuid set option"
  om_removedfolders :: "uuid set option"
  om_clearedfolders :: bool

definition newOrgMutation ::
  "driver \<Rightarrow> op \<Rightarrow> (OrgMutation \<Rightarrow> OrgMutation) list \<Rightarrow> OrgMutation" where [ent_ops]:
  "newOrgMutation drv oper opts =
     fold (\<lambda>opt m. opt m) opts
       \<lparr>m_op = oper, m_typ = ''Org'', m_driver = drv, m_id = None, m_cleared = {},
        m_done = False, m_old = None, m_preds = [], om_name = None, om_description = None,
        om_created_at = None, om_updated_at = None, om_deleted_at = None,
        om_folders = None, om_removedfolders = None, om_clearedfolders = False\<rparr>"

definition OrgMutation_IDs ::
  "(driver \<Rightarrow> org_row pred list \<Rightarrow> world \<Rightarrow> (go_err + uuid list) \<times> world)
     \<Rightarrow> OrgMutation \<Rightarrow> world \<Rightarrow> (go_err + uuid list) \<times> world" where
  "OrgMutation_IDs all m w = mutation_IDs all m w"

definition OrgMutation_SetName ::
  "string \<Rightarrow> OrgMutation \<Rightarrow> OrgMutation" where [ent_ops]:
  "OrgMutation_SetName v m = m\<lparr>om_name := Some v\<rparr>"

definition OrgMutation_Name :: "OrgMutation \<Rightarrow> string option" where [ent_ops]:
  "OrgMutation_Name m = om_name m"

definition OrgMutation_OldName ::
  "(uuid, org_node) getter \<Rightarrow> OrgMutation \<Rightarrow> world \<Rightarrow> (go_err + string) \<times> OrgMutation \<times> world" where
  "OrgMutation_OldName get m w = mutation_Old ''OldName'' on_name get m w"

definition OrgMutation_ResetName :: "OrgMutation \<Rightarrow> OrgMutation" where [ent_ops]:
  "OrgMutation_ResetName m = m\<lparr>om_name := None\<rparr>"

definition OrgMutation_SetDescription ::
  "string \<Rightarrow> OrgMutation \<Rightarrow> OrgMutation" where [ent_ops]:
  "OrgMutation_SetDescription v m = m\<lparr>om_description := Some v\<rparr>"

definition OrgMutation_Description :: "OrgMutation \<Rightarrow> string option" where [ent_ops]:
  "OrgMutation_Description m = om_description m"

definition OrgMutation_OldDescription ::
  "(uuid, org_node) getter \<Rightarrow> OrgMutation \<Rightarrow> world \<Rightarrow> (go_err + string) \<times> OrgMutation \<times> world" where
  "OrgMutation_OldDescription get m w = mutation_Old ''OldDescription'' on_description get m w"

definition OrgMutation_ResetDescription :: "OrgMutation \<Rightarrow> OrgMutation" where [ent_ops]:
  "OrgMutation_ResetDescription m = m\<lparr>om_description := None\<rparr>"

definition OrgMutation_SetCreatedAt ::
  "instant \<Rightarrow> OrgMutation \<Rightarrow> OrgMutation" where [ent_ops]:
  "OrgMutation_SetCreatedAt v m = m\<lparr>om_created_at := Some v\<rparr>"

definition OrgMutation_CreatedAt :: "OrgMutation \<Rightarrow> instant option" where [ent_ops]:
  "OrgMutation_CreatedAt m = om_created_at m"

definition OrgMutation_OldCreatedAt ::
  "(uuid, org_node) getter \<Rightarrow> OrgMutation \<Rightarrow> world \<Rightarrow> (go_err + instant) \<times> OrgMutation \<times> world" where
  "OrgMutation_OldCreatedAt get m w = mutation_Old ''OldCreatedAt'' on_created_at get m w"

definition OrgMutation_ResetCreatedAt :: "OrgMutation \<Rightarrow> OrgMutation" where [ent_ops]:
  "OrgMutation_ResetCreatedAt m = m\<lparr>om_created_at := None\<rparr>"

definition OrgMutation_SetUpdatedAt ::
  "instant \<Rightarrow> OrgMutation \<Rightarrow> OrgMutation" where [ent_ops]:
  "OrgMutation_SetUpdatedAt v m = m\<lparr>om_updated_at := Some v\<rparr>"

definition OrgMutation_UpdatedAt :: "OrgMutation \<Rightarrow> instant option" where [ent_ops]:
  "OrgMutation_UpdatedAt m = om_updated_at m"

definition OrgMutation_OldUpdatedAt ::
  "(uuid, org_node) getter \<Rightarrow> OrgMutation \<Rightarrow> world \<Rightarrow> (go_err + instant) \<times> OrgMutation \<times> world" where
  "OrgMutation_OldUpdatedAt get m w = mutation_Old ''OldUpdatedAt'' on_updated_at get m w"

definition OrgMutation_ResetUpdatedAt :: "OrgMutation \<Rightarrow> OrgMutation" where [ent_ops]:
  "OrgMutation_ResetUpdatedAt m = m\<lparr>om_updated_at := None\<rparr>"

definition OrgMutation_SetDeletedAt ::
  "instant \<Rightarrow> OrgMutation \<Rightarrow> OrgMutation" where [ent_ops]:
  "OrgMutation_SetDeletedAt v m = m\<lparr>om_deleted_at := Some v\<rparr>"

definition OrgMutation_DeletedAt :: "OrgMutation \<Rightarrow> instant option" where [ent_ops]:
  "OrgMutation_DeletedAt m = om_deleted_at m"

definition OrgMutation_OldDeletedAt ::
  "(uuid, org_node) getter \<Rightarrow> OrgMutation \<Rightarrow> world \<Rightarrow> (go_err + instant option) \<times> OrgMutation \<times> world" where
  "OrgMutation_OldDeletedAt get m w = mutation_Old ''OldDeletedAt'' on_deleted_at get m w"

definition OrgMutation_ClearDeletedAt :: "OrgMutation \<Rightarrow> OrgMutation" where [ent_ops]:
  "OrgMutation_ClearDeletedAt m = m\<lparr>om_deleted_at := None, m_cleared := insert ''deleted_at'' (m_cleared m)\<rparr>"

definition OrgMutation_DeletedAtCleared :: "OrgMutation \<Rightarrow> bool" where [ent_ops]:
  "OrgMutation_DeletedAtCleared m \<longleftrightarrow> ''deleted_at'' \<in> m_cleared m"

definition OrgMutation_ResetDeletedAt :: "OrgMutation \<Rightarrow> OrgMutation" where [ent_ops]:
  "OrgMutation_ResetDeletedAt m = m\<lparr>om_deleted_at := None, m_cleared := m_cleared m - {''deleted_at''}\<rparr>"

definition OrgMutation_AddFolderIDs ::
  "uuid list \<Rightarrow> OrgMutation \<Rightarrow> OrgMutation" where [ent_ops]:
  "OrgMutation_AddFolderIDs ids m = m\<lparr>om_folders := Some (added (om_folders m) \<union> set ids)\<rparr>"

definition OrgMutation_ClearFolders :: "OrgMutation \<Rightarrow> OrgMutation" where [ent_ops]:
  "OrgMutation_ClearFolders m = m\<lparr>om_clearedfolders := True\<rparr>"

definition OrgMutation_FoldersCleared :: "OrgMutation \<Rightarrow> bool" where [ent_ops]:
  "OrgMutation_FoldersCleared m \<longleftrightarrow> om_clearedfolders m"

definition OrgMutation_RemoveFolderIDs ::
  "uuid list \<Rightarrow> OrgMutation \<Rightarrow> OrgMutation" where [ent_ops]:
  "OrgMutation_RemoveFolderIDs ids m =
     m\<lparr>om_folders := map_option (\<lambda>s. s - set ids) (om_folders m),
       om_removedfolders := Some (added (om_removedfolders m) \<union> set ids)\<rparr>"

definition OrgMutation_RemovedFoldersIDs :: "OrgMutation \<Rightarrow> uuid set" where [ent_ops]:
  "OrgMutation_RemovedFoldersIDs m = added (om_removedfolders m)"

definition OrgMutation_FoldersIDs :: "OrgMutation \<Rightarrow> uuid set" where [ent_ops]:
  "OrgMutation_FoldersIDs m = added (om_folders m)"

definition OrgMutation_ResetFolders :: "OrgMutation \<Rightarrow> OrgMutation" where [ent_ops]:
  "OrgMutation_ResetFolders m = m\<lparr>om_folders := None, om_clearedfolders := False, om_removedfolders := None\<rparr>"

subsection \<open>The dynamic accessors\<close>

definition OrgMutation_Fields :: "OrgMutation \<Rightarrow> string list" where [ent_ops]:
  "OrgMutation_Fields m =
     (if om_name m \<noteq> None then [''name''] else []) @
     (if om_description m \<noteq> None then [''description''] else []) @
     (if om_created_at m \<noteq> None then [''created_at''] else []) @
     (if om_updated_at m \<noteq> None then [''updated_at''] else []) @
     (if om_deleted_at m \<noteq> None then [''deleted_at''] else [])"

definition OrgMutation_Field ::
  "OrgMutation \<Rightarrow> string \<Rightarrow> gvalue option" where [ent_ops]:
  "OrgMutation_Field m name =
     (if name = ''name'' then map_option GString (OrgMutation_Name m)
      else if name = ''description'' then map_option GString (OrgMutation_Description m)
      else if name = ''created_at'' then map_option GTime (OrgMutation_CreatedAt m)
      else if name = ''updated_at'' then map_option GTime (OrgMutation_UpdatedAt m)
      else if name = ''deleted_at'' then map_option GTime (OrgMutation_DeletedAt m)
      else None)"

definition OrgMutation_OldField ::
  "(uuid, org_node) getter \<Rightarrow> string \<Rightarrow> OrgMutation \<Rightarrow> world \<Rightarrow> (go_err + gvalue) \<times> OrgMutation \<times> world" where
  "OrgMutation_OldField get name m w =
     (if name = ''name'' then as_value GString (OrgMutation_OldName get m w)
      else if name = ''description'' then as_value GString (OrgMutation_OldDescription get m w)
      else if name = ''created_at'' then as_value GTime (OrgMutation_OldCreatedAt get m w)
      else if name = ''updated_at'' then as_value GTime (OrgMutation_OldUpdatedAt get m w)
      else if name = ''deleted_at'' then as_value GTimePtr (OrgMutation_OldDeletedAt get m w)
      else (Inl (Errorf (''unknown Org field '' @ name)), m, w))"

definition OrgMutation_SetField ::
  "string \<Rightarrow> gvalue \<Rightarrow> OrgMutation \<Rightarrow> go_err + OrgMutation" where [ent_ops]:
  "OrgMutation_SetField name v m =
     (if name = ''name'' then
       (case v of GString x \<Rightarrow> Inr (OrgMutation_SetName x m) | _ \<Rightarrow> Inl (unexpected_type v name))
      else if name = ''description'' then
       (case v of GString x \<Rightarrow> Inr (OrgMutation_SetDescription x m) | _ \<Rightarrow> Inl (unexpected_type v name))
      else if name = ''created_at'' then
       (case v of GTime x \<Rightarrow> Inr (OrgMutation_SetCreatedAt x m) | _ \<Rightarrow> Inl (unexpected_type v name))
      else if name = ''updated_at'' then
       (case v of GTime x \<Rightarrow> Inr (OrgMutation_SetUpdatedAt x m) | _ \<Rightarrow> Inl (unexpected_type v name))
      else if name = ''deleted_at'' then
       (case v of GTime x \<Rightarrow> Inr (OrgMutation_SetDeletedAt x m) | _ \<Rightarrow> Inl (unexpected_type v name))
      else Inl (Errorf (''unknown Org field '' @ name)))"

definition OrgMutation_AddField ::
  "string \<Rightarrow> gvalue \<Rightarrow> OrgMutation \<Rightarrow> go_err + OrgMutation" where [ent_ops]:
  "OrgMutation_AddField name v m = Inl (Errorf (''unknown Org numeric field '' @ name))"

definition OrgMutation_FieldCleared ::
  "OrgMutation \<Rightarrow> string \<Rightarrow> bool" where [ent_ops]:
  "OrgMutation_FieldCleared m name \<longleftrightarrow> name \<in> m_cleared m"

definition OrgMutation_ClearedFields :: "OrgMutation \<Rightarrow> string list" where [ent_ops]:
  "OrgMutation_ClearedFields m =
     (if OrgMutation_FieldCleared m ''deleted_at'' then [''deleted_at''] else [])"

definition OrgMutation_ClearField ::
  "string \<Rightarrow> OrgMutation \<Rightarrow> go_err + OrgMutation" where [ent_ops]:
  "OrgMutation_ClearField name m =
     (if name = ''deleted_at'' then Inr (OrgMutation_ClearDeletedAt m)
      else Inl (Errorf (''unknown Org nullable field '' @ name)))"

definition OrgMutation_ResetField ::
  "string \<Rightarrow> OrgMutation \<Rightarrow> go_err + OrgMutation" where [ent_ops]:
  "OrgMutation_ResetField name m =
     (if name = ''name'' then Inr (OrgMutation_ResetName m)
      else if name = ''description'' then Inr (OrgMutation_ResetDescription m)
      else if name = ''created_at'' then Inr (OrgMutation_ResetCreatedAt m)
      else if name = ''updated_at'' then Inr (OrgMutation_ResetUpdatedAt m)
      else if name = ''deleted_at'' then Inr (OrgMutation_ResetDeletedAt m)
      else Inl (Errorf (''unknown Org field '' @ name)))"

definition OrgMutation_AddedEdges :: "OrgMutation \<Rightarrow> string list" where [ent_ops]:
  "OrgMutation_AddedEdges m =
     (if om_folders m \<noteq> None then [''folders''] else [])"

definition OrgMutation_AddedIDs ::
  "OrgMutation \<Rightarrow> string \<Rightarrow> uuid set" where [ent_ops]:
  "OrgMutation_AddedIDs m name =
     (if name = ''folders'' then added (om_folders m)
      else {})"

definition OrgMutation_RemovedEdges :: "OrgMutation \<Rightarrow> string list" where [ent_ops]:
  "OrgMutation_RemovedEdges m = (if om_removedfolders m \<noteq> None then [''folders''] else [])"

definition OrgMutation_RemovedIDs ::
  "OrgMutation \<Rightarrow> string \<Rightarrow> uuid set" where [ent_ops]:
  "OrgMutation_RemovedIDs m name = (if name = ''folders'' then added (om_removedfolders m)
      else {})"

definition OrgMutation_ClearedEdges :: "OrgMutation \<Rightarrow> string list" where [ent_ops]:
  "OrgMutation_ClearedEdges m =
     (if om_clearedfolders m then [''folders''] else [])"

definition OrgMutation_EdgeCleared ::
  "OrgMutation \<Rightarrow> string \<Rightarrow> bool" where [ent_ops]:
  "OrgMutation_EdgeCleared m name \<longleftrightarrow>
     (if name = ''folders'' then om_clearedfolders m
      else False)"

definition OrgMutation_ClearEdge ::
  "string \<Rightarrow> OrgMutation \<Rightarrow> go_err + OrgMutation" where [ent_ops]:
  "OrgMutation_ClearEdge name m = Inl (Errorf (''unknown Org unique edge '' @ name))"

definition OrgMutation_ResetEdge ::
  "string \<Rightarrow> OrgMutation \<Rightarrow> go_err + OrgMutation" where [ent_ops]:
  "OrgMutation_ResetEdge name m =
     (if name = ''folders'' then Inr (OrgMutation_ResetFolders m)
      else Inl (Errorf (''unknown Org edge '' @ name)))"

definition OrgMutation_schema :: "(string \<times> string) list" where
  "OrgMutation_schema =
     [(''name'', ''string''),
      (''description'', ''string''),
      (''created_at'', ''time.Time''),
      (''updated_at'', ''time.Time''),
      (''deleted_at'', ''time.Time'')]"

interpretation of: ent_fields "map fst OrgMutation_schema" "[''deleted_at'']"
    "\<lambda>n v. map_of OrgMutation_schema n = Some (type_name v)"
    OrgMutation_Field OrgMutation_FieldCleared OrgMutation_Fields OrgMutation_ClearedFields OrgMutation_SetField OrgMutation_ClearField OrgMutation_ResetField
proof (unfold_locales, goal_cases)
  case (3 m) show ?case by (auto simp: OrgMutation_schema_def ent_ops)
next
  case (4 m) show ?case by (auto simp: ent_ops)
next
  case (5 n v) then show ?case by (auto simp: OrgMutation_schema_def split: if_splits)
next
  case (6 m n v) then show ?case by (auto simp: OrgMutation_schema_def ent_ops split: if_splits)
next
  case (7 n v m) then show ?case
    by (cases v) (auto simp: OrgMutation_schema_def ent_ops split: if_splits)
next
  case (8 n v m) then show ?case
    by (cases v) (simp_all add: OrgMutation_schema_def ent_ops split: if_split_asm)
next
  case (9 n m) then show ?case by (auto simp: ent_ops fun_eq_iff)
next
  case (11 n m) then show ?case by (auto simp: OrgMutation_schema_def ent_ops fun_eq_iff)
qed (auto simp: OrgMutation_schema_def ent_ops)

interpretation os: ent_scan Org_scan_column Org_assign_column
  by unfold_locales
     (auto simp: Org_scan_column_def Org_assign_column_def split: scanned.splits if_splits)

section \<open>Creation\<close>

type_synonym OrgCreate = "(OrgMutation, org_node) builder"

text \<open>The setters delegate to the mutation.\<close>

definition OrgCreate_SetName ::
  "string \<Rightarrow> OrgCreate \<Rightarrow> OrgCreate" where [ent_ops]:
  "OrgCreate_SetName v = on_mutation (OrgMutation_SetName v)"

definition OrgCreate_SetDescription ::
  "string \<Rightarrow> OrgCreate \<Rightarrow> OrgCreate" where [ent_ops]:
  "OrgCreate_SetDescription v = on_mutation (OrgMutation_SetDescription v)"

definition OrgCreate_SetNillableDescription ::
  "string option \<Rightarrow> OrgCreate \<Rightarrow> OrgCreate" where [ent_ops]:
  "OrgCreate_SetNillableDescription = set_nillable OrgCreate_SetDescription"

definition OrgCreate_SetCreatedAt ::
  "instant \<Rightarrow> OrgCreate \<Rightarrow> OrgCreate" where [ent_ops]:
  "OrgCreate_SetCreatedAt v = on_mutation (OrgMutation_SetCreatedAt v)"

definition OrgCreate_SetNillableCreatedAt ::
  "instant option \<Rightarrow> OrgCreate \<Rightarrow> OrgCreate" where [ent_ops]:
  "OrgCreate_SetNillableCreatedAt = set_nillable OrgCreate_SetCreatedAt"

definition OrgCreate_SetUpdatedAt ::
  "instant \<Rightarrow> OrgCreate \<Rightarrow> OrgCreate" where [ent_ops]:
  "OrgCreate_SetUpdatedAt v = on_mutation (OrgMutation_SetUpdatedAt v)"

definition OrgCreate_SetNillableUpdatedAt ::
  "instant option \<Rightarrow> OrgCreate \<Rightarrow> OrgCreate" where [ent_ops]:
  "OrgCreate_SetNillableUpdatedAt = set_nillable OrgCreate_SetUpdatedAt"

definition OrgCreate_SetDeletedAt ::
  "instant \<Rightarrow> OrgCreate \<Rightarrow> OrgCreate" where [ent_ops]:
  "OrgCreate_SetDeletedAt v = on_mutation (OrgMutation_SetDeletedAt v)"

definition OrgCreate_SetNillableDeletedAt ::
  "instant option \<Rightarrow> OrgCreate \<Rightarrow> OrgCreate" where [ent_ops]:
  "OrgCreate_SetNillableDeletedAt = set_nillable OrgCreate_SetDeletedAt"

definition OrgCreate_SetID :: "uuid \<Rightarrow> OrgCreate \<Rightarrow> OrgCreate" where [ent_ops]:
  "OrgCreate_SetID v = on_mutation (mutation_SetID v)"

definition OrgCreate_SetNillableID ::
  "uuid option \<Rightarrow> OrgCreate \<Rightarrow> OrgCreate" where [ent_ops]:
  "OrgCreate_SetNillableID = set_nillable OrgCreate_SetID"

definition OrgCreate_AddFolderIDs ::
  "uuid list \<Rightarrow> OrgCreate \<Rightarrow> OrgCreate" where [ent_ops]:
  "OrgCreate_AddFolderIDs ids = on_mutation (OrgMutation_AddFolderIDs ids)"

definition OrgCreate_AddFolders ::
  "('n \<Rightarrow> uuid) \<Rightarrow> 'n list \<Rightarrow> OrgCreate \<Rightarrow> OrgCreate" where [ent_ops]:
  "OrgCreate_AddFolders ident v = OrgCreate_AddFolderIDs (map ident v)"

definition OrgCreate_defaults ::
  "OrgMutation \<Rightarrow> world \<Rightarrow> OrgMutation \<times> world" where
  "OrgCreate_defaults m w =
     default_uuid mutation_ID mutation_SetID
       (default_now OrgMutation_UpdatedAt OrgMutation_SetUpdatedAt
       (default_now OrgMutation_CreatedAt OrgMutation_SetCreatedAt
       (default_value [] OrgMutation_Description OrgMutation_SetDescription
       (m, w))))"

definition OrgCreate_check :: "OrgMutation \<Rightarrow> go_err option" where
  "OrgCreate_check m =
     first_error
       [required (OrgMutation_Name m) ''name'' ''Org.name'',
        validated name_validator (OrgMutation_Name m) ''name'' ''Org.name'',
        required (OrgMutation_Description m) ''description'' ''Org.description'',
        required (OrgMutation_CreatedAt m) ''created_at'' ''Org.created_at'',
        required (OrgMutation_UpdatedAt m) ''updated_at'' ''Org.updated_at'']"

definition Org_edge_folders :: "uuid set \<Rightarrow> edge_spec" where
  "Org_edge_folders nodes =
     \<lparr>es_rel = O2M, es_inverse = False, es_table = ''folders'', es_column = ''org_folders'',
           es_target = (''id'', TypeUUID), es_nodes = nodes\<rparr>"

definition OrgCreate_createSpec ::
  "OrgMutation \<Rightarrow> org_node \<times> create_spec" where
  "OrgCreate_createSpec m =
     (\<lparr>on_id = (case m_id m of None \<Rightarrow> 0 | Some i \<Rightarrow> i),
        on_name = (case om_name m of None \<Rightarrow> [] | Some v \<Rightarrow> v),
        on_description = (case om_description m of None \<Rightarrow> [] | Some v \<Rightarrow> v),
        on_created_at = (case om_created_at m of None \<Rightarrow> 0 | Some v \<Rightarrow> v),
        on_updated_at = (case om_updated_at m of None \<Rightarrow> 0 | Some v \<Rightarrow> v),
        on_deleted_at = om_deleted_at m,
        on_select = (\<lambda>_. None)\<rparr>,
      \<lparr>cs_table = ''orgs'', cs_id_field = (''id'', TypeUUID),
        cs_id = map_option (\<lambda>i. GUUIDPtr (Some i)) (m_id m),
        cs_fields =
          spec_field ''name'' TypeString GString (OrgMutation_Name m) @
          spec_field ''description'' TypeString GString (OrgMutation_Description m) @
          spec_field ''created_at'' TypeTime GTime (OrgMutation_CreatedAt m) @
          spec_field ''updated_at'' TypeTime GTime (OrgMutation_UpdatedAt m) @
          spec_field ''deleted_at'' TypeTime GTime (OrgMutation_DeletedAt m),
        cs_edges = (if OrgMutation_FoldersIDs m \<noteq> {} then [Org_edge_folders (OrgMutation_FoldersIDs m)] else [])\<rparr>)"

definition OrgCreate_sqlSave ::
  "(org_row, org_node) sqlgraph \<Rightarrow> (OrgMutation, org_node) mutator" where
  "OrgCreate_sqlSave G m w =
     (case OrgCreate_check m of
        Some e \<Rightarrow> (Inl e, m, w)
      | None \<Rightarrow>
          (let (node, spec) = OrgCreate_createSpec m in
           case CreateNode G (m_driver m) spec w of
             (Inl e, w') \<Rightarrow> (Inl (create_err e), m, w')
           | (Inr idv, w') \<Rightarrow>
               (case created_uuid G idv (on_id node) of
                  Inl e \<Rightarrow> (Inl e, m, w')
                | Inr i \<Rightarrow>
                    (Inr (node\<lparr>on_id := i\<rparr>), m\<lparr>m_id := Some i, m_done := True\<rparr>, w'))))"

definition OrgCreate_Save ::
  "(org_row, org_node) sqlgraph \<Rightarrow> OrgCreate \<Rightarrow> world \<Rightarrow> (go_err + org_node) \<times> OrgCreate \<times> world" where
  "OrgCreate_Save G c w =
     (let (m, w') = OrgCreate_defaults (b_mutation c) w in
      save_with (OrgCreate_sqlSave G) (c\<lparr>b_mutation := m\<rparr>) w')"

definition OrgCreate_Exec ::
  "(org_row, org_node) sqlgraph \<Rightarrow> OrgCreate \<Rightarrow> world \<Rightarrow> (go_err + unit) \<times> OrgCreate \<times> world" where
  "OrgCreate_Exec G c w = exec_of (OrgCreate_Save G c w)"

definition OrgCreate_SaveX ::
  "(org_row, org_node) sqlgraph \<Rightarrow> OrgCreate \<Rightarrow> world \<Rightarrow> org_node outcome \<times> OrgCreate \<times> world" where
  "OrgCreate_SaveX G c w = must (OrgCreate_Save G c w)"

definition OrgCreate_ExecX ::
  "(org_row, org_node) sqlgraph \<Rightarrow> OrgCreate \<Rightarrow> world \<Rightarrow> unit outcome \<times> OrgCreate \<times> world" where
  "OrgCreate_ExecX G c w = must (OrgCreate_Exec G c w)"

section \<open>Updates\<close>

type_synonym OrgUpdate = "(OrgMutation, nat) builder"
type_synonym OrgUpdateOne = "(OrgMutation, org_node) one_builder"

text \<open>The setters are those of both update builders.\<close>

definition OrgUpdate_Where ::
  "org_row pred list \<Rightarrow> (OrgMutation, 'v, 'z) builder_scheme \<Rightarrow> (OrgMutation, 'v, 'z) builder_scheme" where [ent_ops]:
  "OrgUpdate_Where ps = on_mutation (mutation_Where ps)"

definition OrgUpdate_SetName ::
  "string \<Rightarrow> (OrgMutation, 'v, 'z) builder_scheme \<Rightarrow> (OrgMutation, 'v, 'z) builder_scheme" where [ent_ops]:
  "OrgUpdate_SetName v = on_mutation (OrgMutation_SetName v)"

definition OrgUpdate_SetNillableName ::
  "string option \<Rightarrow> (OrgMutation, 'v, 'z) builder_scheme \<Rightarrow> (OrgMutation, 'v, 'z) builder_scheme" where [ent_ops]:
  "OrgUpdate_SetNillableName = set_nillable OrgUpdate_SetName"

definition OrgUpdate_SetDescription ::
  "string \<Rightarrow> (OrgMutation, 'v, 'z) builder_scheme \<Rightarrow> (OrgMutation, 'v, 'z) builder_scheme" where [ent_ops]:
  "OrgUpdate_SetDescription v = on_mutation (OrgMutation_SetDescription v)"

definition OrgUpdate_SetNillableDescription ::
  "string option \<Rightarrow> (OrgMutation, 'v, 'z) builder_scheme \<Rightarrow> (OrgMutation, 'v, 'z) builder_scheme" where [ent_ops]:
  "OrgUpdate_SetNillableDescription = set_nillable OrgUpdate_SetDescription"

definition OrgUpdate_SetUpdatedAt ::
  "instant \<Rightarrow> (OrgMutation, 'v, 'z) builder_scheme \<Rightarrow> (OrgMutation, 'v, 'z) builder_scheme" where [ent_ops]:
  "OrgUpdate_SetUpdatedAt v = on_mutation (OrgMutation_SetUpdatedAt v)"

definition OrgUpdate_SetDeletedAt ::
  "instant \<Rightarrow> (OrgMutation, 'v, 'z) builder_scheme \<Rightarrow> (OrgMutation, 'v, 'z) builder_scheme" where [ent_ops]:
  "OrgUpdate_SetDeletedAt v = on_mutation (OrgMutation_SetDeletedAt v)"

definition OrgUpdate_SetNillableDeletedAt ::
  "instant option \<Rightarrow> (OrgMutation, 'v, 'z) builder_scheme \<Rightarrow> (OrgMutation, 'v, 'z) builder_scheme" where [ent_ops]:
  "OrgUpdate_SetNillableDeletedAt = set_nillable OrgUpdate_SetDeletedAt"

definition OrgUpdate_ClearDeletedAt ::
  "(OrgMutation, 'v, 'z) builder_scheme \<Rightarrow> (OrgMutation, 'v, 'z) builder_scheme" where [ent_ops]:
  "OrgUpdate_ClearDeletedAt = on_mutation OrgMutation_ClearDeletedAt"

definition OrgUpdate_AddFolderIDs ::
  "uuid list \<Rightarrow> (OrgMutation, 'v, 'z) builder_scheme \<Rightarrow> (OrgMutation, 'v, 'z) builder_scheme" where [ent_ops]:
  "OrgUpdate_AddFolderIDs ids = on_mutation (OrgMutation_AddFolderIDs ids)"

definition OrgUpdate_AddFolders ::
  "('n \<Rightarrow> uuid) \<Rightarrow> 'n list \<Rightarrow> (OrgMutation, 'v, 'z) builder_scheme \<Rightarrow> (OrgMutation, 'v, 'z) builder_scheme" where [ent_ops]:
  "OrgUpdate_AddFolders ident v = OrgUpdate_AddFolderIDs (map ident v)"

definition OrgUpdate_ClearFolders ::
  "(OrgMutation, 'v, 'z) builder_scheme \<Rightarrow> (OrgMutation, 'v, 'z) builder_scheme" where [ent_ops]:
  "OrgUpdate_ClearFolders = on_mutation OrgMutation_ClearFolders"

definition OrgUpdate_RemoveFolderIDs ::
  "uuid list \<Rightarrow> (OrgMutation, 'v, 'z) builder_scheme \<Rightarrow> (OrgMutation, 'v, 'z) builder_scheme" where [ent_ops]:
  "OrgUpdate_RemoveFolderIDs ids = on_mutation (OrgMutation_RemoveFolderIDs ids)"

definition OrgUpdate_RemoveFolders ::
  "('n \<Rightarrow> uuid) \<Rightarrow> 'n list \<Rightarrow> (OrgMutation, 'v, 'z) builder_scheme \<Rightarrow> (OrgMutation, 'v, 'z) builder_scheme" where [ent_ops]:
  "OrgUpdate_RemoveFolders ident v = OrgUpdate_RemoveFolderIDs (map ident v)"

definition OrgUpdateOne_Select ::
  "string \<Rightarrow> string list \<Rightarrow> OrgUpdateOne \<Rightarrow> OrgUpdateOne" where [ent_ops]:
  "OrgUpdateOne_Select fld flds u = u\<lparr>b_fields := fld # flds\<rparr>"

definition OrgUpdate_defaults ::
  "OrgMutation \<Rightarrow> world \<Rightarrow> OrgMutation \<times> world" where
  "OrgUpdate_defaults m w = default_now OrgMutation_UpdatedAt OrgMutation_SetUpdatedAt (m, w)"

definition OrgUpdate_check :: "OrgMutation \<Rightarrow> go_err option" where
  "OrgUpdate_check m =
     first_error
       [validated name_validator (OrgMutation_Name m) ''name'' ''Org.name'']"

text \<open>The specification both \<open>sqlSave\<close> build: the bulk update has no id, the update of one node has its id and the columns to return.\<close>

definition OrgUpdate_spec ::
  "OrgMutation \<Rightarrow> gvalue option \<Rightarrow> string list \<Rightarrow> (org_row, org_node) update_spec" where
  "OrgUpdate_spec m i columns =
     \<lparr>us_table = ''orgs'', us_columns = columns, us_id_field = (''id'', TypeUUID), us_id = i,
       us_preds = m_preds m,
       us_set =
          spec_field ''name'' TypeString GString (OrgMutation_Name m) @
          spec_field ''description'' TypeString GString (OrgMutation_Description m) @
          spec_field ''updated_at'' TypeTime GTime (OrgMutation_UpdatedAt m) @
          spec_field ''deleted_at'' TypeTime GTime (OrgMutation_DeletedAt m),
       us_clear =
          (if OrgMutation_DeletedAtCleared m then [(''deleted_at'', TypeTime)] else []),
       us_add_edges =
          (if OrgMutation_FoldersIDs m \<noteq> {} then [Org_edge_folders (OrgMutation_FoldersIDs m)] else []),
       us_clear_edges =
          (if OrgMutation_FoldersCleared m then [Org_edge_folders {}] else []) @
          (if OrgMutation_RemovedFoldersIDs m \<noteq> {} \<and> \<not> OrgMutation_FoldersCleared m
           then [Org_edge_folders (OrgMutation_RemovedFoldersIDs m)] else []),
       us_scan = Org_scanValues, us_assign = Org_assignValues zero_org_node\<rparr>"

definition OrgUpdate_sqlSave ::
  "(org_row, org_node) sqlgraph \<Rightarrow> (OrgMutation, nat) mutator" where
  "OrgUpdate_sqlSave G m w =
     (case OrgUpdate_check m of
        Some e \<Rightarrow> (Inl e, m, w)
      | None \<Rightarrow>
          (case UpdateNodes G (m_driver m) (OrgUpdate_spec m None Org_Columns) w of
             (Inl e, w') \<Rightarrow> (Inl (update_err ''org'' e), m, w')
           | (Inr k, w') \<Rightarrow> (Inr k, m\<lparr>m_done := True\<rparr>, w')))"

definition OrgUpdateOne_sqlSave ::
  "(org_row, org_node) sqlgraph \<Rightarrow> string list \<Rightarrow> (OrgMutation, org_node) mutator" where
  "OrgUpdateOne_sqlSave G flds m w =
     (case OrgUpdate_check m of
        Some e \<Rightarrow> (Inl e, m, w)
      | None \<Rightarrow>
          (case m_id m of
             None \<Rightarrow> (Inl (missing_id ''Org.id''), m, w)
           | Some i \<Rightarrow>
               (case node_columns Org_ValidColumn Org_Columns ''id'' flds of
                  Inl e \<Rightarrow> (Inl e, m, w)
                | Inr columns \<Rightarrow>
                    (case UpdateNode G (m_driver m) (OrgUpdate_spec m (Some (GUUID i)) columns) w of
                       (Inl e, w') \<Rightarrow> (Inl (update_err ''org'' e), m, w')
                     | (Inr node, w') \<Rightarrow> (Inr node, m\<lparr>m_done := True\<rparr>, w')))))"

definition OrgUpdate_Save ::
  "(org_row, org_node) sqlgraph \<Rightarrow> OrgUpdate \<Rightarrow> world \<Rightarrow> (go_err + nat) \<times> OrgUpdate \<times> world" where
  "OrgUpdate_Save G u w =
     (let (m, w') = OrgUpdate_defaults (b_mutation u) w in save_with (OrgUpdate_sqlSave G) (u\<lparr>b_mutation := m\<rparr>) w')"

definition OrgUpdate_Exec ::
  "(org_row, org_node) sqlgraph \<Rightarrow> OrgUpdate \<Rightarrow> world \<Rightarrow> (go_err + unit) \<times> OrgUpdate \<times> world" where
  "OrgUpdate_Exec G u w = exec_of (OrgUpdate_Save G u w)"

definition OrgUpdateOne_Save ::
  "(org_row, org_node) sqlgraph \<Rightarrow> OrgUpdateOne \<Rightarrow> world \<Rightarrow> (go_err + org_node) \<times> OrgUpdateOne \<times> world" where
  "OrgUpdateOne_Save G u w =
     (let (m, w') = OrgUpdate_defaults (b_mutation u) w in save_with (OrgUpdateOne_sqlSave G (b_fields u)) (u\<lparr>b_mutation := m\<rparr>) w')"

definition OrgUpdateOne_Exec ::
  "(org_row, org_node) sqlgraph \<Rightarrow> OrgUpdateOne \<Rightarrow> world \<Rightarrow> (go_err + unit) \<times> OrgUpdateOne \<times> world" where
  "OrgUpdateOne_Exec G u w = exec_of (OrgUpdateOne_Save G u w)"

section \<open>Deletes\<close>

type_synonym OrgDelete = "(OrgMutation, nat) builder"

definition OrgDelete_Where ::
  "org_row pred list \<Rightarrow> OrgDelete \<Rightarrow> OrgDelete" where [ent_ops]:
  "OrgDelete_Where ps = on_mutation (mutation_Where ps)"

definition OrgDelete_sqlExec ::
  "(org_row, org_node) sqlgraph \<Rightarrow> (OrgMutation, nat) mutator" where
  "OrgDelete_sqlExec G m w =
     (case DeleteNodes G (m_driver m)
             \<lparr>ds_table = ''orgs'', ds_id_field = (''id'', TypeUUID), ds_preds = m_preds m\<rparr> w of
        (res, w') \<Rightarrow> (map_sum create_err id res, m\<lparr>m_done := True\<rparr>, w'))"

definition OrgDelete_Exec ::
  "(org_row, org_node) sqlgraph \<Rightarrow> OrgDelete \<Rightarrow> world \<Rightarrow> (go_err + nat) \<times> OrgDelete \<times> world" where
  "OrgDelete_Exec G b w = save_with (OrgDelete_sqlExec G) b w"

definition OrgDeleteOne_Exec ::
  "(org_row, org_node) sqlgraph \<Rightarrow> OrgDelete \<Rightarrow> world \<Rightarrow> (go_err + unit) \<times> OrgDelete \<times> world" where
  "OrgDeleteOne_Exec G b w =
     (case OrgDelete_Exec G b w of
        (Inl e, b', w') \<Rightarrow> (Inl e, b', w')
      | (Inr n, b', w') \<Rightarrow> (if n = 0 then Inl (NotFoundError ''org'') else Inr (), b', w'))"

section \<open>The client\<close>

definition OrgClient_Create ::
  "driver \<Rightarrow> (OrgMutation, org_node) hook list \<Rightarrow> OrgCreate" where [ent_ops]:
  "OrgClient_Create drv hooks = \<lparr>b_mutation = newOrgMutation drv OpCreate [], b_hooks = hooks\<rparr>"

definition OrgClient_Update ::
  "driver \<Rightarrow> (OrgMutation, nat) hook list \<Rightarrow> OrgUpdate" where [ent_ops]:
  "OrgClient_Update drv hooks = \<lparr>b_mutation = newOrgMutation drv OpUpdate [], b_hooks = hooks\<rparr>"

definition OrgClient_UpdateOne ::
  "driver \<Rightarrow> (OrgMutation, org_node) hook list \<Rightarrow> org_node \<Rightarrow> OrgUpdateOne" where [ent_ops]:
  "OrgClient_UpdateOne drv hooks n =
     \<lparr>b_mutation = newOrgMutation drv OpUpdateOne [with_node on_id n], b_hooks = hooks, b_fields = []\<rparr>"

definition OrgClient_UpdateOneID ::
  "driver \<Rightarrow> (OrgMutation, org_node) hook list \<Rightarrow> uuid \<Rightarrow> OrgUpdateOne" where [ent_ops]:
  "OrgClient_UpdateOneID drv hooks i =
     \<lparr>b_mutation = newOrgMutation drv OpUpdateOne [with_id i], b_hooks = hooks, b_fields = []\<rparr>"

definition OrgClient_Delete ::
  "driver \<Rightarrow> (OrgMutation, nat) hook list \<Rightarrow> OrgDelete" where [ent_ops]:
  "OrgClient_Delete drv hooks = \<lparr>b_mutation = newOrgMutation drv OpDelete [], b_hooks = hooks\<rparr>"

definition OrgClient_DeleteOneID ::
  "driver \<Rightarrow> (OrgMutation, nat) hook list \<Rightarrow> uuid \<Rightarrow> OrgDelete" where [ent_ops]:
  "OrgClient_DeleteOneID drv hooks i =
     on_mutation (\<lambda>m. m\<lparr>m_id := Some i, m_op := OpDeleteOne\<rparr>)
       (OrgDelete_Where [\<lambda>d r. org_id r = i] (OrgClient_Delete drv hooks))"

definition OrgClient_DeleteOne ::
  "driver \<Rightarrow> (OrgMutation, nat) hook list \<Rightarrow> org_node \<Rightarrow> OrgDelete" where [ent_ops]:
  "OrgClient_DeleteOne drv hooks n = OrgClient_DeleteOneID drv hooks (on_id n)"

text \<open>A row as its query returns it.\<close>

definition org_node_of :: "org_row \<Rightarrow> org_node" where
  "org_node_of r =
     \<lparr>on_id = org_id r,
       on_name = org_name r,
       on_description = org_description r,
       on_created_at = org_created_at r,
       on_updated_at = org_updated_at r,
       on_deleted_at = org_deleted_at r,
       on_select = (\<lambda>_. None)\<rparr>"

definition OrgClient_Get :: "(uuid, org_node) getter" where
  "OrgClient_Get drv i =
     run_driver drv
       (select (\<lambda>d. map_sum id org_node_of (query_only ''org'' (query (filter (\<lambda>r. org_id r = i) (orgs d))))))"

end
