(* ===== verification/Ent_Folder.thy ===== *)
theory Ent_Folder
  imports Ent_Org
begin

text \<open>
  The entity \<open>Folder\<close> of tenancy-manager/internal/ent: its node and the scanning of its
  rows (folder.go), its mutation (mutation.go), its builders (folder\_create.go, folder\_update.go,
  folder\_delete.go) and its client (client.go).
\<close>

section \<open>The node\<close>

text \<open>The struct \<open>Folder\<close>, with its foreign key; \<open>selectValues\<close> keeps the columns that are not fields.\<close>

record folder_node =
  fn_id :: uuid
  fn_name :: string
  fn_created_at :: instant
  fn_updated_at :: instant
  fn_org_folders :: "uuid option"
  fn_select :: "string \<Rightarrow> scanned option"

definition zero_folder_node :: "folder_node" where [ent_ops]:
  "zero_folder_node = \<lparr>fn_id = 0, fn_name = [], fn_created_at = 0, fn_updated_at = 0, fn_org_folders = None, fn_select = (\<lambda>_. None)\<rparr>"

definition Folder_Columns :: "string list" where
  "Folder_Columns = [''id'', ''name'', ''created_at'', ''updated_at'']"

definition Folder_ValidColumn :: "string \<Rightarrow> bool" where
  "Folder_ValidColumn c \<longleftrightarrow> c \<in> set Folder_Columns \<or> c \<in> set [''org_folders'']"

text \<open>\<open>scanValues\<close> and \<open>assignValues\<close>, one column at a time.\<close>

definition Folder_scan_column :: "string \<Rightarrow> scan_type" where
  "Folder_scan_column c =
     (if c = ''id'' then TUUID
      else if c = ''name'' then TNullString
      else if c = ''created_at'' then TNullTime
      else if c = ''updated_at'' then TNullTime
      else if c = ''org_folders'' then TNullUUID
      else TUnknown)"

definition Folder_scanValues :: "string list \<Rightarrow> scan_type list" where
  "Folder_scanValues columns = map Folder_scan_column columns"

definition Folder_assign_column ::
  "string \<Rightarrow> scanned \<Rightarrow> folder_node \<Rightarrow> go_err + folder_node" where
  "Folder_assign_column c v n =
     (if c = ''id'' then
       (case v of SUUID i \<Rightarrow> Inr (n\<lparr>fn_id := i\<rparr>) | _ \<Rightarrow> Inl (unexpected_scan v ''id''))
      else if c = ''name'' then
       (case v of SNullString x \<Rightarrow> Inr (case x of None \<Rightarrow> n | Some y \<Rightarrow> n\<lparr>fn_name := y\<rparr>)
        | _ \<Rightarrow> Inl (unexpected_scan v ''name''))
      else if c = ''created_at'' then
       (case v of SNullTime x \<Rightarrow> Inr (case x of None \<Rightarrow> n | Some y \<Rightarrow> n\<lparr>fn_created_at := y\<rparr>)
        | _ \<Rightarrow> Inl (unexpected_scan v ''created_at''))
      else if c = ''updated_at'' then
       (case v of SNullTime x \<Rightarrow> Inr (case x of None \<Rightarrow> n | Some y \<Rightarrow> n\<lparr>fn_updated_at := y\<rparr>)
        | _ \<Rightarrow> Inl (unexpected_scan v ''updated_at''))
      else if c = ''org_folders'' then
       (case v of SNullUUID x \<Rightarrow> Inr (case x of None \<Rightarrow> n | Some y \<Rightarrow> n\<lparr>fn_org_folders := Some y\<rparr>)
        | _ \<Rightarrow> Inl (unexpected_scan v ''org_folders''))
      else Inr (n\<lparr>fn_select := (fn_select n)(c \<mapsto> v)\<rparr>))"

definition Folder_assignValues ::
  "folder_node \<Rightarrow> string list \<Rightarrow> scanned list \<Rightarrow> go_err + folder_node" where
  "Folder_assignValues n columns vals = assign_columns Folder_assign_column columns vals n"

section \<open>The mutation\<close>

record FolderMutation = "(uuid, folder_node, folder_row) mutation" +
  fm_name :: "string option"
  fm_created_at :: "instant option"
  fm_updated_at :: "instant option"
  fm_org :: "uuid option"
  fm_clearedorg :: bool
  fm_projects :: "uuid set option"
  fm_removedprojects :: "uuid set option"
  fm_clearedprojects :: bool

definition newFolderMutation ::
  "driver \<Rightarrow> op \<Rightarrow> (FolderMutation \<Rightarrow> FolderMutation) list \<Rightarrow> FolderMutation" where [ent_ops]:
  "newFolderMutation drv oper opts =
     fold (\<lambda>opt m. opt m) opts
       \<lparr>m_op = oper, m_typ = ''Folder'', m_driver = drv, m_id = None, m_cleared = {},
        m_done = False, m_old = None, m_preds = [], fm_name = None, fm_created_at = None,
        fm_updated_at = None, fm_org = None, fm_clearedorg = False, fm_projects = None,
        fm_removedprojects = None, fm_clearedprojects = False\<rparr>"

definition FolderMutation_IDs ::
  "(driver \<Rightarrow> folder_row pred list \<Rightarrow> world \<Rightarrow> (go_err + uuid list) \<times> world)
     \<Rightarrow> FolderMutation \<Rightarrow> world \<Rightarrow> (go_err + uuid list) \<times> world" where
  "FolderMutation_IDs all m w = mutation_IDs all m w"

definition FolderMutation_SetName ::
  "string \<Rightarrow> FolderMutation \<Rightarrow> FolderMutation" where [ent_ops]:
  "FolderMutation_SetName v m = m\<lparr>fm_name := Some v\<rparr>"

definition FolderMutation_Name :: "FolderMutation \<Rightarrow> string option" where [ent_ops]:
  "FolderMutation_Name m = fm_name m"

definition FolderMutation_OldName ::
  "(uuid, folder_node) getter \<Rightarrow> FolderMutation \<Rightarrow> world \<Rightarrow> (go_err + string) \<times> FolderMutation \<times> world" where
  "FolderMutation_OldName get m w = mutation_Old ''OldName'' fn_name get m w"

definition FolderMutation_ResetName :: "FolderMutation \<Rightarrow> FolderMutation" where [ent_ops]:
  "FolderMutation_ResetName m = m\<lparr>fm_name := None\<rparr>"

definition FolderMutation_SetCreatedAt ::
  "instant \<Rightarrow> FolderMutation \<Rightarrow> FolderMutation" where [ent_ops]:
  "FolderMutation_SetCreatedAt v m = m\<lparr>fm_created_at := Some v\<rparr>"

definition FolderMutation_CreatedAt :: "FolderMutation \<Rightarrow> instant option" where [ent_ops]:
  "FolderMutation_CreatedAt m = fm_created_at m"

definition FolderMutation_OldCreatedAt ::
  "(uuid, folder_node) getter \<Rightarrow> FolderMutation \<Rightarrow> world \<Rightarrow> (go_err + instant) \<times> FolderMutation \<times> world" where
  "FolderMutation_OldCreatedAt get m w = mutation_Old ''OldCreatedAt'' fn_created_at get m w"

definition FolderMutation_ResetCreatedAt ::
  "FolderMutation \<Rightarrow> FolderMutation" where [ent_ops]:
  "FolderMutation_ResetCreatedAt m = m\<lparr>fm_created_at := None\<rparr>"

definition FolderMutation_SetUpdatedAt ::
  "instant \<Rightarrow> FolderMutation \<Rightarrow> FolderMutation" where [ent_ops]:
  "FolderMutation_SetUpdatedAt v m = m\<lparr>fm_updated_at := Some v\<rparr>"

definition FolderMutation_UpdatedAt :: "FolderMutation \<Rightarrow> instant option" where [ent_ops]:
  "FolderMutation_UpdatedAt m = fm_updated_at m"

definition FolderMutation_OldUpdatedAt ::
  "(uuid, folder_node) getter \<Rightarrow> FolderMutation \<Rightarrow> world \<Rightarrow> (go_err + instant) \<times> FolderMutation \<times> world" where
  "FolderMutation_OldUpdatedAt get m w = mutation_Old ''OldUpdatedAt'' fn_updated_at get m w"

definition FolderMutation_ResetUpdatedAt ::
  "FolderMutation \<Rightarrow> FolderMutation" where [ent_ops]:
  "FolderMutation_ResetUpdatedAt m = m\<lparr>fm_updated_at := None\<rparr>"

definition FolderMutation_SetOrgID ::
  "uuid \<Rightarrow> FolderMutation \<Rightarrow> FolderMutation" where [ent_ops]:
  "FolderMutation_SetOrgID i m = m\<lparr>fm_org := Some i\<rparr>"

definition FolderMutation_ClearOrg :: "FolderMutation \<Rightarrow> FolderMutation" where [ent_ops]:
  "FolderMutation_ClearOrg m = m\<lparr>fm_clearedorg := True\<rparr>"

definition FolderMutation_OrgCleared :: "FolderMutation \<Rightarrow> bool" where [ent_ops]:
  "FolderMutation_OrgCleared m \<longleftrightarrow> fm_clearedorg m"

definition FolderMutation_OrgID :: "FolderMutation \<Rightarrow> uuid option" where [ent_ops]:
  "FolderMutation_OrgID m = fm_org m"

definition FolderMutation_OrgIDs :: "FolderMutation \<Rightarrow> uuid list" where [ent_ops]:
  "FolderMutation_OrgIDs m = (case fm_org m of None \<Rightarrow> [] | Some i \<Rightarrow> [i])"

definition FolderMutation_ResetOrg :: "FolderMutation \<Rightarrow> FolderMutation" where [ent_ops]:
  "FolderMutation_ResetOrg m = m\<lparr>fm_org := None, fm_clearedorg := False\<rparr>"

definition FolderMutation_AddProjectIDs ::
  "uuid list \<Rightarrow> FolderMutation \<Rightarrow> FolderMutation" where [ent_ops]:
  "FolderMutation_AddProjectIDs ids m = m\<lparr>fm_projects := Some (added (fm_projects m) \<union> set ids)\<rparr>"

definition FolderMutation_ClearProjects ::
  "FolderMutation \<Rightarrow> FolderMutation" where [ent_ops]:
  "FolderMutation_ClearProjects m = m\<lparr>fm_clearedprojects := True\<rparr>"

definition FolderMutation_ProjectsCleared :: "FolderMutation \<Rightarrow> bool" where [ent_ops]:
  "FolderMutation_ProjectsCleared m \<longleftrightarrow> fm_clearedprojects m"

definition FolderMutation_RemoveProjectIDs ::
  "uuid list \<Rightarrow> FolderMutation \<Rightarrow> FolderMutation" where [ent_ops]:
  "FolderMutation_RemoveProjectIDs ids m =
     m\<lparr>fm_projects := map_option (\<lambda>s. s - set ids) (fm_projects m),
       fm_removedprojects := Some (added (fm_removedprojects m) \<union> set ids)\<rparr>"

definition FolderMutation_RemovedProjectsIDs :: "FolderMutation \<Rightarrow> uuid set" where [ent_ops]:
  "FolderMutation_RemovedProjectsIDs m = added (fm_removedprojects m)"

definition FolderMutation_ProjectsIDs :: "FolderMutation \<Rightarrow> uuid set" where [ent_ops]:
  "FolderMutation_ProjectsIDs m = added (fm_projects m)"

definition FolderMutation_ResetProjects ::
  "FolderMutation \<Rightarrow> FolderMutation" where [ent_ops]:
  "FolderMutation_ResetProjects m = m\<lparr>fm_projects := None, fm_clearedprojects := False, fm_removedprojects := None\<rparr>"

subsection \<open>The dynamic accessors\<close>

definition FolderMutation_Fields :: "FolderMutation \<Rightarrow> string list" where [ent_ops]:
  "FolderMutation_Fields m =
     (if fm_name m \<noteq> None then [''name''] else []) @
     (if fm_created_at m \<noteq> None then [''created_at''] else []) @
     (if fm_updated_at m \<noteq> None then [''updated_at''] else [])"

definition FolderMutation_Field ::
  "FolderMutation \<Rightarrow> string \<Rightarrow> gvalue option" where [ent_ops]:
  "FolderMutation_Field m name =
     (if name = ''name'' then map_option GString (FolderMutation_Name m)
      else if name = ''created_at'' then map_option GTime (FolderMutation_CreatedAt m)
      else if name = ''updated_at'' then map_option GTime (FolderMutation_UpdatedAt m)
      else None)"

definition FolderMutation_OldField ::
  "(uuid, folder_node) getter \<Rightarrow> string \<Rightarrow> FolderMutation \<Rightarrow> world \<Rightarrow> (go_err + gvalue) \<times> FolderMutation \<times> world" where
  "FolderMutation_OldField get name m w =
     (if name = ''name'' then as_value GString (FolderMutation_OldName get m w)
      else if name = ''created_at'' then as_value GTime (FolderMutation_OldCreatedAt get m w)
      else if name = ''updated_at'' then as_value GTime (FolderMutation_OldUpdatedAt get m w)
      else (Inl (Errorf (''unknown Folder field '' @ name)), m, w))"

definition FolderMutation_SetField ::
  "string \<Rightarrow> gvalue \<Rightarrow> FolderMutation \<Rightarrow> go_err + FolderMutation" where [ent_ops]:
  "FolderMutation_SetField name v m =
     (if name = ''name'' then
       (case v of GString x \<Rightarrow> Inr (FolderMutation_SetName x m) | _ \<Rightarrow> Inl (unexpected_type v name))
      else if name = ''created_at'' then
       (case v of GTime x \<Rightarrow> Inr (FolderMutation_SetCreatedAt x m) | _ \<Rightarrow> Inl (unexpected_type v name))
      else if name = ''updated_at'' then
       (case v of GTime x \<Rightarrow> Inr (FolderMutation_SetUpdatedAt x m) | _ \<Rightarrow> Inl (unexpected_type v name))
      else Inl (Errorf (''unknown Folder field '' @ name)))"

definition FolderMutation_AddField ::
  "string \<Rightarrow> gvalue \<Rightarrow> FolderMutation \<Rightarrow> go_err + FolderMutation" where [ent_ops]:
  "FolderMutation_AddField name v m = Inl (Errorf (''unknown Folder numeric field '' @ name))"

definition FolderMutation_FieldCleared ::
  "FolderMutation \<Rightarrow> string \<Rightarrow> bool" where [ent_ops]:
  "FolderMutation_FieldCleared m name \<longleftrightarrow> name \<in> m_cleared m"

definition FolderMutation_ClearedFields :: "FolderMutation \<Rightarrow> string list" where [ent_ops]:
  "FolderMutation_ClearedFields m = []"

definition FolderMutation_ClearField ::
  "string \<Rightarrow> FolderMutation \<Rightarrow> go_err + FolderMutation" where [ent_ops]:
  "FolderMutation_ClearField name m = Inl (Errorf (''unknown Folder nullable field '' @ name))"

definition FolderMutation_ResetField ::
  "string \<Rightarrow> FolderMutation \<Rightarrow> go_err + FolderMutation" where [ent_ops]:
  "FolderMutation_ResetField name m =
     (if name = ''name'' then Inr (FolderMutation_ResetName m)
      else if name = ''created_at'' then Inr (FolderMutation_ResetCreatedAt m)
      else if name = ''updated_at'' then Inr (FolderMutation_ResetUpdatedAt m)
      else Inl (Errorf (''unknown Folder field '' @ name)))"

definition FolderMutation_AddedEdges :: "FolderMutation \<Rightarrow> string list" where [ent_ops]:
  "FolderMutation_AddedEdges m =
     (if fm_org m \<noteq> None then [''org''] else []) @ (if fm_projects m \<noteq> None then [''projects''] else [])"

definition FolderMutation_AddedIDs ::
  "FolderMutation \<Rightarrow> string \<Rightarrow> uuid set" where [ent_ops]:
  "FolderMutation_AddedIDs m name =
     (if name = ''org'' then set (FolderMutation_OrgIDs m)
      else if name = ''projects'' then added (fm_projects m)
      else {})"

definition FolderMutation_RemovedEdges :: "FolderMutation \<Rightarrow> string list" where [ent_ops]:
  "FolderMutation_RemovedEdges m = (if fm_removedprojects m \<noteq> None then [''projects''] else [])"

definition FolderMutation_RemovedIDs ::
  "FolderMutation \<Rightarrow> string \<Rightarrow> uuid set" where [ent_ops]:
  "FolderMutation_RemovedIDs m name = (if name = ''projects'' then added (fm_removedprojects m)
      else {})"

definition FolderMutation_ClearedEdges :: "FolderMutation \<Rightarrow> string list" where [ent_ops]:
  "FolderMutation_ClearedEdges m =
     (if fm_clearedorg m then [''org''] else []) @ (if fm_clearedprojects m then [''projects''] else [])"

definition FolderMutation_EdgeCleared ::
  "FolderMutation \<Rightarrow> string \<Rightarrow> bool" where [ent_ops]:
  "FolderMutation_EdgeCleared m name \<longleftrightarrow>
     (if name = ''org'' then fm_clearedorg m
      else if name = ''projects'' then fm_clearedprojects m
      else False)"

definition FolderMutation_ClearEdge ::
  "string \<Rightarrow> FolderMutation \<Rightarrow> go_err + FolderMutation" where [ent_ops]:
  "FolderMutation_ClearEdge name m =
     (if name = ''org'' then Inr (FolderMutation_ClearOrg m)
      else Inl (Errorf (''unknown Folder unique edge '' @ name)))"

definition FolderMutation_ResetEdge ::
  "string \<Rightarrow> FolderMutation \<Rightarrow> go_err + FolderMutation" where [ent_ops]:
  "FolderMutation_ResetEdge name m =
     (if name = ''org'' then Inr (FolderMutation_ResetOrg m)
      else if name = ''projects'' then Inr (FolderMutation_ResetProjects m)
      else Inl (Errorf (''unknown Folder edge '' @ name)))"

definition FolderMutation_schema :: "(string \<times> string) list" where
  "FolderMutation_schema =
     [(''name'', ''string''),
      (''created_at'', ''time.Time''),
      (''updated_at'', ''time.Time'')]"

interpretation ff: ent_fields "map fst FolderMutation_schema" "[] :: string list"
    "\<lambda>n v. map_of FolderMutation_schema n = Some (type_name v)"
    FolderMutation_Field FolderMutation_FieldCleared FolderMutation_Fields FolderMutation_ClearedFields FolderMutation_SetField FolderMutation_ClearField FolderMutation_ResetField
proof (unfold_locales, goal_cases)
  case (3 m) show ?case by (auto simp: FolderMutation_schema_def ent_ops)
next
  case (4 m) show ?case by (auto simp: ent_ops)
next
  case (5 n v) then show ?case by (auto simp: FolderMutation_schema_def split: if_splits)
next
  case (6 m n v) then show ?case by (auto simp: FolderMutation_schema_def ent_ops split: if_splits)
next
  case (7 n v m) then show ?case
    by (cases v) (auto simp: FolderMutation_schema_def ent_ops split: if_splits)
next
  case (8 n v m) then show ?case
    by (cases v) (simp_all add: FolderMutation_schema_def ent_ops split: if_split_asm)
next
  case (9 n m) then show ?case by (auto simp: ent_ops fun_eq_iff)
next
  case (11 n m) then show ?case by (auto simp: FolderMutation_schema_def ent_ops fun_eq_iff)
qed (auto simp: FolderMutation_schema_def ent_ops)

interpretation fs: ent_scan Folder_scan_column Folder_assign_column
  by unfold_locales
     (auto simp: Folder_scan_column_def Folder_assign_column_def split: scanned.splits if_splits)

section \<open>Creation\<close>

type_synonym FolderCreate = "(FolderMutation, folder_node) builder"

text \<open>The setters delegate to the mutation.\<close>

definition FolderCreate_SetName ::
  "string \<Rightarrow> FolderCreate \<Rightarrow> FolderCreate" where [ent_ops]:
  "FolderCreate_SetName v = on_mutation (FolderMutation_SetName v)"

definition FolderCreate_SetCreatedAt ::
  "instant \<Rightarrow> FolderCreate \<Rightarrow> FolderCreate" where [ent_ops]:
  "FolderCreate_SetCreatedAt v = on_mutation (FolderMutation_SetCreatedAt v)"

definition FolderCreate_SetNillableCreatedAt ::
  "instant option \<Rightarrow> FolderCreate \<Rightarrow> FolderCreate" where [ent_ops]:
  "FolderCreate_SetNillableCreatedAt = set_nillable FolderCreate_SetCreatedAt"

definition FolderCreate_SetUpdatedAt ::
  "instant \<Rightarrow> FolderCreate \<Rightarrow> FolderCreate" where [ent_ops]:
  "FolderCreate_SetUpdatedAt v = on_mutation (FolderMutation_SetUpdatedAt v)"

definition FolderCreate_SetNillableUpdatedAt ::
  "instant option \<Rightarrow> FolderCreate \<Rightarrow> FolderCreate" where [ent_ops]:
  "FolderCreate_SetNillableUpdatedAt = set_nillable FolderCreate_SetUpdatedAt"

definition FolderCreate_SetID ::
  "uuid \<Rightarrow> FolderCreate \<Rightarrow> FolderCreate" where [ent_ops]:
  "FolderCreate_SetID v = on_mutation (mutation_SetID v)"

definition FolderCreate_SetNillableID ::
  "uuid option \<Rightarrow> FolderCreate \<Rightarrow> FolderCreate" where [ent_ops]:
  "FolderCreate_SetNillableID = set_nillable FolderCreate_SetID"

definition FolderCreate_SetOrgID ::
  "uuid \<Rightarrow> FolderCreate \<Rightarrow> FolderCreate" where [ent_ops]:
  "FolderCreate_SetOrgID i = on_mutation (FolderMutation_SetOrgID i)"

definition FolderCreate_SetOrg ::
  "org_node \<Rightarrow> FolderCreate \<Rightarrow> FolderCreate" where [ent_ops]:
  "FolderCreate_SetOrg v = FolderCreate_SetOrgID (on_id v)"

definition FolderCreate_AddProjectIDs ::
  "uuid list \<Rightarrow> FolderCreate \<Rightarrow> FolderCreate" where [ent_ops]:
  "FolderCreate_AddProjectIDs ids = on_mutation (FolderMutation_AddProjectIDs ids)"

definition FolderCreate_AddProjects ::
  "('n \<Rightarrow> uuid) \<Rightarrow> 'n list \<Rightarrow> FolderCreate \<Rightarrow> FolderCreate" where [ent_ops]:
  "FolderCreate_AddProjects ident v = FolderCreate_AddProjectIDs (map ident v)"

definition FolderCreate_defaults ::
  "FolderMutation \<Rightarrow> world \<Rightarrow> FolderMutation \<times> world" where
  "FolderCreate_defaults m w =
     default_uuid mutation_ID mutation_SetID
       (default_now FolderMutation_UpdatedAt FolderMutation_SetUpdatedAt
       (default_now FolderMutation_CreatedAt FolderMutation_SetCreatedAt
       (m, w)))"

definition FolderCreate_check :: "FolderMutation \<Rightarrow> go_err option" where
  "FolderCreate_check m =
     first_error
       [required (FolderMutation_Name m) ''name'' ''Folder.name'',
        validated name_validator (FolderMutation_Name m) ''name'' ''Folder.name'',
        required (FolderMutation_CreatedAt m) ''created_at'' ''Folder.created_at'',
        required (FolderMutation_UpdatedAt m) ''updated_at'' ''Folder.updated_at'',
        (if FolderMutation_OrgIDs m = [] then Some (missing_edge ''org'' ''Folder.org'') else None)]"

definition Folder_edge_org :: "uuid set \<Rightarrow> edge_spec" where
  "Folder_edge_org nodes =
     \<lparr>es_rel = M2O, es_inverse = True, es_table = ''folders'', es_column = ''org_folders'',
           es_target = (''id'', TypeUUID), es_nodes = nodes\<rparr>"

definition Folder_edge_projects :: "uuid set \<Rightarrow> edge_spec" where
  "Folder_edge_projects nodes =
     \<lparr>es_rel = O2M, es_inverse = False, es_table = ''projects'', es_column = ''folder_projects'',
           es_target = (''id'', TypeUUID), es_nodes = nodes\<rparr>"

definition FolderCreate_createSpec ::
  "FolderMutation \<Rightarrow> folder_node \<times> create_spec" where
  "FolderCreate_createSpec m =
     (\<lparr>fn_id = (case m_id m of None \<Rightarrow> 0 | Some i \<Rightarrow> i),
        fn_name = (case fm_name m of None \<Rightarrow> [] | Some v \<Rightarrow> v),
        fn_created_at = (case fm_created_at m of None \<Rightarrow> 0 | Some v \<Rightarrow> v),
        fn_updated_at = (case fm_updated_at m of None \<Rightarrow> 0 | Some v \<Rightarrow> v),
        fn_org_folders = FolderMutation_OrgID m,
        fn_select = (\<lambda>_. None)\<rparr>,
      \<lparr>cs_table = ''folders'', cs_id_field = (''id'', TypeUUID),
        cs_id = map_option (\<lambda>i. GUUIDPtr (Some i)) (m_id m),
        cs_fields =
          spec_field ''name'' TypeString GString (FolderMutation_Name m) @
          spec_field ''created_at'' TypeTime GTime (FolderMutation_CreatedAt m) @
          spec_field ''updated_at'' TypeTime GTime (FolderMutation_UpdatedAt m),
        cs_edges = (if FolderMutation_OrgIDs m \<noteq> [] then [Folder_edge_org (set (FolderMutation_OrgIDs m))] else []) @
          (if FolderMutation_ProjectsIDs m \<noteq> {} then [Folder_edge_projects (FolderMutation_ProjectsIDs m)] else [])\<rparr>)"

definition FolderCreate_sqlSave ::
  "(folder_row, folder_node) sqlgraph \<Rightarrow> (FolderMutation, folder_node) mutator" where
  "FolderCreate_sqlSave G m w =
     (case FolderCreate_check m of
        Some e \<Rightarrow> (Inl e, m, w)
      | None \<Rightarrow>
          (let (node, spec) = FolderCreate_createSpec m in
           case CreateNode G (m_driver m) spec w of
             (Inl e, w') \<Rightarrow> (Inl (create_err e), m, w')
           | (Inr idv, w') \<Rightarrow>
               (case created_uuid G idv (fn_id node) of
                  Inl e \<Rightarrow> (Inl e, m, w')
                | Inr i \<Rightarrow>
                    (Inr (node\<lparr>fn_id := i\<rparr>), m\<lparr>m_id := Some i, m_done := True\<rparr>, w'))))"

definition FolderCreate_Save ::
  "(folder_row, folder_node) sqlgraph \<Rightarrow> FolderCreate \<Rightarrow> world \<Rightarrow> (go_err + folder_node) \<times> FolderCreate \<times> world" where
  "FolderCreate_Save G c w =
     (let (m, w') = FolderCreate_defaults (b_mutation c) w in
      save_with (FolderCreate_sqlSave G) (c\<lparr>b_mutation := m\<rparr>) w')"

definition FolderCreate_Exec ::
  "(folder_row, folder_node) sqlgraph \<Rightarrow> FolderCreate \<Rightarrow> world \<Rightarrow> (go_err + unit) \<times> FolderCreate \<times> world" where
  "FolderCreate_Exec G c w = exec_of (FolderCreate_Save G c w)"

definition FolderCreate_SaveX ::
  "(folder_row, folder_node) sqlgraph \<Rightarrow> FolderCreate \<Rightarrow> world \<Rightarrow> folder_node outcome \<times> FolderCreate \<times> world" where
  "FolderCreate_SaveX G c w = must (FolderCreate_Save G c w)"

definition FolderCreate_ExecX ::
  "(folder_row, folder_node) sqlgraph \<Rightarrow> FolderCreate \<Rightarrow> world \<Rightarrow> unit outcome \<times> FolderCreate \<times> world" where
  "FolderCreate_ExecX G c w = must (FolderCreate_Exec G c w)"

section \<open>Updates\<close>

type_synonym FolderUpdate = "(FolderMutation, nat) builder"
type_synonym FolderUpdateOne = "(FolderMutation, folder_node) one_builder"

text \<open>The setters are those of both update builders.\<close>

definition FolderUpdate_Where ::
  "folder_row pred list \<Rightarrow> (FolderMutation, 'v, 'z) builder_scheme \<Rightarrow> (FolderMutation, 'v, 'z) builder_scheme" where [ent_ops]:
  "FolderUpdate_Where ps = on_mutation (mutation_Where ps)"

definition FolderUpdate_SetName ::
  "string \<Rightarrow> (FolderMutation, 'v, 'z) builder_scheme \<Rightarrow> (FolderMutation, 'v, 'z) builder_scheme" where [ent_ops]:
  "FolderUpdate_SetName v = on_mutation (FolderMutation_SetName v)"

definition FolderUpdate_SetNillableName ::
  "string option \<Rightarrow> (FolderMutation, 'v, 'z) builder_scheme \<Rightarrow> (FolderMutation, 'v, 'z) builder_scheme" where [ent_ops]:
  "FolderUpdate_SetNillableName = set_nillable FolderUpdate_SetName"

definition FolderUpdate_SetUpdatedAt ::
  "instant \<Rightarrow> (FolderMutation, 'v, 'z) builder_scheme \<Rightarrow> (FolderMutation, 'v, 'z) builder_scheme" where [ent_ops]:
  "FolderUpdate_SetUpdatedAt v = on_mutation (FolderMutation_SetUpdatedAt v)"

definition FolderUpdate_SetOrgID ::
  "uuid \<Rightarrow> (FolderMutation, 'v, 'z) builder_scheme \<Rightarrow> (FolderMutation, 'v, 'z) builder_scheme" where [ent_ops]:
  "FolderUpdate_SetOrgID i = on_mutation (FolderMutation_SetOrgID i)"

definition FolderUpdate_SetOrg ::
  "org_node \<Rightarrow> (FolderMutation, 'v, 'z) builder_scheme \<Rightarrow> (FolderMutation, 'v, 'z) builder_scheme" where [ent_ops]:
  "FolderUpdate_SetOrg v = FolderUpdate_SetOrgID (on_id v)"

definition FolderUpdate_AddProjectIDs ::
  "uuid list \<Rightarrow> (FolderMutation, 'v, 'z) builder_scheme \<Rightarrow> (FolderMutation, 'v, 'z) builder_scheme" where [ent_ops]:
  "FolderUpdate_AddProjectIDs ids = on_mutation (FolderMutation_AddProjectIDs ids)"

definition FolderUpdate_AddProjects ::
  "('n \<Rightarrow> uuid) \<Rightarrow> 'n list \<Rightarrow> (FolderMutation, 'v, 'z) builder_scheme \<Rightarrow> (FolderMutation, 'v, 'z) builder_scheme" where [ent_ops]:
  "FolderUpdate_AddProjects ident v = FolderUpdate_AddProjectIDs (map ident v)"

definition FolderUpdate_ClearOrg ::
  "(FolderMutation, 'v, 'z) builder_scheme \<Rightarrow> (FolderMutation, 'v, 'z) builder_scheme" where [ent_ops]:
  "FolderUpdate_ClearOrg = on_mutation FolderMutation_ClearOrg"

definition FolderUpdate_ClearProjects ::
  "(FolderMutation, 'v, 'z) builder_scheme \<Rightarrow> (FolderMutation, 'v, 'z) builder_scheme" where [ent_ops]:
  "FolderUpdate_ClearProjects = on_mutation FolderMutation_ClearProjects"

definition FolderUpdate_RemoveProjectIDs ::
  "uuid list \<Rightarrow> (FolderMutation, 'v, 'z) builder_scheme \<Rightarrow> (FolderMutation, 'v, 'z) builder_scheme" where [ent_ops]:
  "FolderUpdate_RemoveProjectIDs ids = on_mutation (FolderMutation_RemoveProjectIDs ids)"

definition FolderUpdate_RemoveProjects ::
  "('n \<Rightarrow> uuid) \<Rightarrow> 'n list \<Rightarrow> (FolderMutation, 'v, 'z) builder_scheme \<Rightarrow> (FolderMutation, 'v, 'z) builder_scheme" where [ent_ops]:
  "FolderUpdate_RemoveProjects ident v = FolderUpdate_RemoveProjectIDs (map ident v)"

definition FolderUpdateOne_Select ::
  "string \<Rightarrow> string list \<Rightarrow> FolderUpdateOne \<Rightarrow> FolderUpdateOne" where [ent_ops]:
  "FolderUpdateOne_Select fld flds u = u\<lparr>b_fields := fld # flds\<rparr>"

definition FolderUpdate_defaults ::
  "FolderMutation \<Rightarrow> world \<Rightarrow> FolderMutation \<times> world" where
  "FolderUpdate_defaults m w = default_now FolderMutation_UpdatedAt FolderMutation_SetUpdatedAt (m, w)"

definition FolderUpdate_check :: "FolderMutation \<Rightarrow> go_err option" where
  "FolderUpdate_check m =
     first_error
       [validated name_validator (FolderMutation_Name m) ''name'' ''Folder.name'',
        (if FolderMutation_OrgCleared m \<and> FolderMutation_OrgIDs m \<noteq> [] then Some (clearing_required ''Folder.org'') else None)]"

text \<open>The specification both \<open>sqlSave\<close> build: the bulk update has no id, the update of one node has its id and the columns to return.\<close>

definition FolderUpdate_spec ::
  "FolderMutation \<Rightarrow> gvalue option \<Rightarrow> string list \<Rightarrow> (folder_row, folder_node) update_spec" where
  "FolderUpdate_spec m i columns =
     \<lparr>us_table = ''folders'', us_columns = columns, us_id_field = (''id'', TypeUUID), us_id = i,
       us_preds = m_preds m,
       us_set =
          spec_field ''name'' TypeString GString (FolderMutation_Name m) @
          spec_field ''updated_at'' TypeTime GTime (FolderMutation_UpdatedAt m),
       us_clear =
          [],
       us_add_edges =
          (if FolderMutation_OrgIDs m \<noteq> [] then [Folder_edge_org (set (FolderMutation_OrgIDs m))] else []) @
          (if FolderMutation_ProjectsIDs m \<noteq> {} then [Folder_edge_projects (FolderMutation_ProjectsIDs m)] else []),
       us_clear_edges =
          (if FolderMutation_OrgCleared m then [Folder_edge_org {}] else []) @
          (if FolderMutation_ProjectsCleared m then [Folder_edge_projects {}] else []) @
          (if FolderMutation_RemovedProjectsIDs m \<noteq> {} \<and> \<not> FolderMutation_ProjectsCleared m
           then [Folder_edge_projects (FolderMutation_RemovedProjectsIDs m)] else []),
       us_scan = Folder_scanValues, us_assign = Folder_assignValues zero_folder_node\<rparr>"

definition FolderUpdate_sqlSave ::
  "(folder_row, folder_node) sqlgraph \<Rightarrow> (FolderMutation, nat) mutator" where
  "FolderUpdate_sqlSave G m w =
     (case FolderUpdate_check m of
        Some e \<Rightarrow> (Inl e, m, w)
      | None \<Rightarrow>
          (case UpdateNodes G (m_driver m) (FolderUpdate_spec m None Folder_Columns) w of
             (Inl e, w') \<Rightarrow> (Inl (update_err ''folder'' e), m, w')
           | (Inr k, w') \<Rightarrow> (Inr k, m\<lparr>m_done := True\<rparr>, w')))"

definition FolderUpdateOne_sqlSave ::
  "(folder_row, folder_node) sqlgraph \<Rightarrow> string list \<Rightarrow> (FolderMutation, folder_node) mutator" where
  "FolderUpdateOne_sqlSave G flds m w =
     (case FolderUpdate_check m of
        Some e \<Rightarrow> (Inl e, m, w)
      | None \<Rightarrow>
          (case m_id m of
             None \<Rightarrow> (Inl (missing_id ''Folder.id''), m, w)
           | Some i \<Rightarrow>
               (case node_columns Folder_ValidColumn Folder_Columns ''id'' flds of
                  Inl e \<Rightarrow> (Inl e, m, w)
                | Inr columns \<Rightarrow>
                    (case UpdateNode G (m_driver m) (FolderUpdate_spec m (Some (GUUID i)) columns) w of
                       (Inl e, w') \<Rightarrow> (Inl (update_err ''folder'' e), m, w')
                     | (Inr node, w') \<Rightarrow> (Inr node, m\<lparr>m_done := True\<rparr>, w')))))"

definition FolderUpdate_Save ::
  "(folder_row, folder_node) sqlgraph \<Rightarrow> FolderUpdate \<Rightarrow> world \<Rightarrow> (go_err + nat) \<times> FolderUpdate \<times> world" where
  "FolderUpdate_Save G u w =
     (let (m, w') = FolderUpdate_defaults (b_mutation u) w in save_with (FolderUpdate_sqlSave G) (u\<lparr>b_mutation := m\<rparr>) w')"

definition FolderUpdate_Exec ::
  "(folder_row, folder_node) sqlgraph \<Rightarrow> FolderUpdate \<Rightarrow> world \<Rightarrow> (go_err + unit) \<times> FolderUpdate \<times> world" where
  "FolderUpdate_Exec G u w = exec_of (FolderUpdate_Save G u w)"

definition FolderUpdateOne_Save ::
  "(folder_row, folder_node) sqlgraph \<Rightarrow> FolderUpdateOne \<Rightarrow> world \<Rightarrow> (go_err + folder_node) \<times> FolderUpdateOne \<times> world" where
  "FolderUpdateOne_Save G u w =
     (let (m, w') = FolderUpdate_defaults (b_mutation u) w in save_with (FolderUpdateOne_sqlSave G (b_fields u)) (u\<lparr>b_mutation := m\<rparr>) w')"

definition FolderUpdateOne_Exec ::
  "(folder_row, folder_node) sqlgraph \<Rightarrow> FolderUpdateOne \<Rightarrow> world \<Rightarrow> (go_err + unit) \<times> FolderUpdateOne \<times> world" where
  "FolderUpdateOne_Exec G u w = exec_of (FolderUpdateOne_Save G u w)"

section \<open>Deletes\<close>

type_synonym FolderDelete = "(FolderMutation, nat) builder"

definition FolderDelete_Where ::
  "folder_row pred list \<Rightarrow> FolderDelete \<Rightarrow> FolderDelete" where [ent_ops]:
  "FolderDelete_Where ps = on_mutation (mutation_Where ps)"

definition FolderDelete_sqlExec ::
  "(folder_row, folder_node) sqlgraph \<Rightarrow> (FolderMutation, nat) mutator" where
  "FolderDelete_sqlExec G m w =
     (case DeleteNodes G (m_driver m)
             \<lparr>ds_table = ''folders'', ds_id_field = (''id'', TypeUUID), ds_preds = m_preds m\<rparr> w of
        (res, w') \<Rightarrow> (map_sum create_err id res, m\<lparr>m_done := True\<rparr>, w'))"

definition FolderDelete_Exec ::
  "(folder_row, folder_node) sqlgraph \<Rightarrow> FolderDelete \<Rightarrow> world \<Rightarrow> (go_err + nat) \<times> FolderDelete \<times> world" where
  "FolderDelete_Exec G b w = save_with (FolderDelete_sqlExec G) b w"

definition FolderDeleteOne_Exec ::
  "(folder_row, folder_node) sqlgraph \<Rightarrow> FolderDelete \<Rightarrow> world \<Rightarrow> (go_err + unit) \<times> FolderDelete \<times> world" where
  "FolderDeleteOne_Exec G b w =
     (case FolderDelete_Exec G b w of
        (Inl e, b', w') \<Rightarrow> (Inl e, b', w')
      | (Inr n, b', w') \<Rightarrow> (if n = 0 then Inl (NotFoundError ''folder'') else Inr (), b', w'))"

section \<open>The client\<close>

definition FolderClient_Create ::
  "driver \<Rightarrow> (FolderMutation, folder_node) hook list \<Rightarrow> FolderCreate" where [ent_ops]:
  "FolderClient_Create drv hooks = \<lparr>b_mutation = newFolderMutation drv OpCreate [], b_hooks = hooks\<rparr>"

definition FolderClient_Update ::
  "driver \<Rightarrow> (FolderMutation, nat) hook list \<Rightarrow> FolderUpdate" where [ent_ops]:
  "FolderClient_Update drv hooks = \<lparr>b_mutation = newFolderMutation drv OpUpdate [], b_hooks = hooks\<rparr>"

definition FolderClient_UpdateOne ::
  "driver \<Rightarrow> (FolderMutation, folder_node) hook list \<Rightarrow> folder_node \<Rightarrow> FolderUpdateOne" where [ent_ops]:
  "FolderClient_UpdateOne drv hooks n =
     \<lparr>b_mutation = newFolderMutation drv OpUpdateOne [with_node fn_id n], b_hooks = hooks, b_fields = []\<rparr>"

definition FolderClient_UpdateOneID ::
  "driver \<Rightarrow> (FolderMutation, folder_node) hook list \<Rightarrow> uuid \<Rightarrow> FolderUpdateOne" where [ent_ops]:
  "FolderClient_UpdateOneID drv hooks i =
     \<lparr>b_mutation = newFolderMutation drv OpUpdateOne [with_id i], b_hooks = hooks, b_fields = []\<rparr>"

definition FolderClient_Delete ::
  "driver \<Rightarrow> (FolderMutation, nat) hook list \<Rightarrow> FolderDelete" where [ent_ops]:
  "FolderClient_Delete drv hooks = \<lparr>b_mutation = newFolderMutation drv OpDelete [], b_hooks = hooks\<rparr>"

definition FolderClient_DeleteOneID ::
  "driver \<Rightarrow> (FolderMutation, nat) hook list \<Rightarrow> uuid \<Rightarrow> FolderDelete" where [ent_ops]:
  "FolderClient_DeleteOneID drv hooks i =
     on_mutation (\<lambda>m. m\<lparr>m_id := Some i, m_op := OpDeleteOne\<rparr>)
       (FolderDelete_Where [\<lambda>d r. folder_id r = i] (FolderClient_Delete drv hooks))"

definition FolderClient_DeleteOne ::
  "driver \<Rightarrow> (FolderMutation, nat) hook list \<Rightarrow> folder_node \<Rightarrow> FolderDelete" where [ent_ops]:
  "FolderClient_DeleteOne drv hooks n = FolderClient_DeleteOneID drv hooks (fn_id n)"

text \<open>A row as its query returns it: without eager loading the foreign key is not selected.\<close>

definition folder_node_of :: "folder_row \<Rightarrow> folder_node" where
  "folder_node_of r =
     \<lparr>fn_id = folder_id r,
       fn_name = folder_name r,
       fn_created_at = folder_created_at r,
       fn_updated_at = folder_updated_at r,
       fn_org_folders = None,
       fn_select = (\<lambda>_. None)\<rparr>"

definition FolderClient_Get :: "(uuid, folder_node) getter" where
  "FolderClient_Get drv i =
     run_driver drv
       (select (\<lambda>d. map_sum id folder_node_of (query_only ''folder'' (query (filter (\<lambda>r. folder_id r = i) (folders d))))))"

end
