(* ===== verification/Ent_Project.thy ===== *)
theory Ent_Project
  imports Ent_Folder
begin

text \<open>
  The entity \<open>Project\<close> of tenancy-manager/internal/ent: its node and the scanning of its
  rows (project.go), its mutation (mutation.go), its builders (project\_create.go, project\_update.go,
  project\_delete.go) and its client (client.go).
\<close>

section \<open>The node\<close>

text \<open>The struct \<open>Project\<close>, with its foreign key; \<open>selectValues\<close> keeps the columns that are not fields.\<close>

record proj_node =
  pn_id :: uuid
  pn_name :: string
  pn_description :: string
  pn_created_at :: instant
  pn_updated_at :: instant
  pn_deleted_at :: "instant option"
  pn_folder_projects :: "uuid option"
  pn_select :: "string \<Rightarrow> scanned option"

definition zero_proj_node :: "proj_node" where [ent_ops]:
  "zero_proj_node =
     \<lparr>pn_id = 0,
       pn_name = [],
       pn_description = [],
       pn_created_at = 0,
       pn_updated_at = 0,
       pn_deleted_at = None,
       pn_folder_projects = None,
       pn_select = (\<lambda>_. None)\<rparr>"

definition Project_Columns :: "string list" where
  "Project_Columns = [''id'', ''name'', ''description'', ''created_at'', ''updated_at'', ''deleted_at'']"

definition Project_ValidColumn :: "string \<Rightarrow> bool" where
  "Project_ValidColumn c \<longleftrightarrow> c \<in> set Project_Columns \<or> c \<in> set [''folder_projects'']"

text \<open>\<open>scanValues\<close> and \<open>assignValues\<close>, one column at a time.\<close>

definition Project_scan_column :: "string \<Rightarrow> scan_type" where
  "Project_scan_column c =
     (if c = ''id'' then TUUID
      else if c = ''name'' then TNullString
      else if c = ''description'' then TNullString
      else if c = ''created_at'' then TNullTime
      else if c = ''updated_at'' then TNullTime
      else if c = ''deleted_at'' then TNullTime
      else if c = ''folder_projects'' then TNullUUID
      else TUnknown)"

definition Project_scanValues :: "string list \<Rightarrow> scan_type list" where
  "Project_scanValues columns = map Project_scan_column columns"

definition Project_assign_column ::
  "string \<Rightarrow> scanned \<Rightarrow> proj_node \<Rightarrow> go_err + proj_node" where
  "Project_assign_column c v n =
     (if c = ''id'' then
       (case v of SUUID i \<Rightarrow> Inr (n\<lparr>pn_id := i\<rparr>) | _ \<Rightarrow> Inl (unexpected_scan v ''id''))
      else if c = ''name'' then
       (case v of SNullString x \<Rightarrow> Inr (case x of None \<Rightarrow> n | Some y \<Rightarrow> n\<lparr>pn_name := y\<rparr>)
        | _ \<Rightarrow> Inl (unexpected_scan v ''name''))
      else if c = ''description'' then
       (case v of SNullString x \<Rightarrow> Inr (case x of None \<Rightarrow> n | Some y \<Rightarrow> n\<lparr>pn_description := y\<rparr>)
        | _ \<Rightarrow> Inl (unexpected_scan v ''description''))
      else if c = ''created_at'' then
       (case v of SNullTime x \<Rightarrow> Inr (case x of None \<Rightarrow> n | Some y \<Rightarrow> n\<lparr>pn_created_at := y\<rparr>)
        | _ \<Rightarrow> Inl (unexpected_scan v ''created_at''))
      else if c = ''updated_at'' then
       (case v of SNullTime x \<Rightarrow> Inr (case x of None \<Rightarrow> n | Some y \<Rightarrow> n\<lparr>pn_updated_at := y\<rparr>)
        | _ \<Rightarrow> Inl (unexpected_scan v ''updated_at''))
      else if c = ''deleted_at'' then
       (case v of SNullTime x \<Rightarrow> Inr (case x of None \<Rightarrow> n | Some y \<Rightarrow> n\<lparr>pn_deleted_at := Some y\<rparr>)
        | _ \<Rightarrow> Inl (unexpected_scan v ''deleted_at''))
      else if c = ''folder_projects'' then
       (case v of SNullUUID x \<Rightarrow> Inr (case x of None \<Rightarrow> n | Some y \<Rightarrow> n\<lparr>pn_folder_projects := Some y\<rparr>)
        | _ \<Rightarrow> Inl (unexpected_scan v ''folder_projects''))
      else Inr (n\<lparr>pn_select := (pn_select n)(c \<mapsto> v)\<rparr>))"

definition Project_assignValues ::
  "proj_node \<Rightarrow> string list \<Rightarrow> scanned list \<Rightarrow> go_err + proj_node" where
  "Project_assignValues n columns vals = assign_columns Project_assign_column columns vals n"

section \<open>The mutation\<close>

record ProjectMutation = "(uuid, proj_node, project_row) mutation" +
  pm_name :: "string option"
  pm_description :: "string option"
  pm_created_at :: "instant option"
  pm_updated_at :: "instant option"
  pm_deleted_at :: "instant option"
  pm_folder :: "uuid option"
  pm_clearedfolder :: bool

definition newProjectMutation ::
  "driver \<Rightarrow> op \<Rightarrow> (ProjectMutation \<Rightarrow> ProjectMutation) list \<Rightarrow> ProjectMutation" where [ent_ops]:
  "newProjectMutation drv oper opts =
     fold (\<lambda>opt m. opt m) opts
       \<lparr>m_op = oper, m_typ = ''Project'', m_driver = drv, m_id = None, m_cleared = {},
        m_done = False, m_old = None, m_preds = [], pm_name = None, pm_description = None,
        pm_created_at = None, pm_updated_at = None, pm_deleted_at = None, pm_folder = None,
        pm_clearedfolder = False\<rparr>"

definition ProjectMutation_IDs ::
  "(driver \<Rightarrow> project_row pred list \<Rightarrow> world \<Rightarrow> (go_err + uuid list) \<times> world)
     \<Rightarrow> ProjectMutation \<Rightarrow> world \<Rightarrow> (go_err + uuid list) \<times> world" where
  "ProjectMutation_IDs all m w = mutation_IDs all m w"

definition ProjectMutation_SetName ::
  "string \<Rightarrow> ProjectMutation \<Rightarrow> ProjectMutation" where [ent_ops]:
  "ProjectMutation_SetName v m = m\<lparr>pm_name := Some v\<rparr>"

definition ProjectMutation_Name :: "ProjectMutation \<Rightarrow> string option" where [ent_ops]:
  "ProjectMutation_Name m = pm_name m"

definition ProjectMutation_OldName ::
  "(uuid, proj_node) getter \<Rightarrow> ProjectMutation \<Rightarrow> world \<Rightarrow> (go_err + string) \<times> ProjectMutation \<times> world" where
  "ProjectMutation_OldName get m w = mutation_Old ''OldName'' pn_name get m w"

definition ProjectMutation_ResetName :: "ProjectMutation \<Rightarrow> ProjectMutation" where [ent_ops]:
  "ProjectMutation_ResetName m = m\<lparr>pm_name := None\<rparr>"

definition ProjectMutation_SetDescription ::
  "string \<Rightarrow> ProjectMutation \<Rightarrow> ProjectMutation" where [ent_ops]:
  "ProjectMutation_SetDescription v m = m\<lparr>pm_description := Some v\<rparr>"

definition ProjectMutation_Description :: "ProjectMutation \<Rightarrow> string option" where [ent_ops]:
  "ProjectMutation_Description m = pm_description m"

definition ProjectMutation_OldDescription ::
  "(uuid, proj_node) getter \<Rightarrow> ProjectMutation \<Rightarrow> world \<Rightarrow> (go_err + string) \<times> ProjectMutation \<times> world" where
  "ProjectMutation_OldDescription get m w = mutation_Old ''OldDescription'' pn_description get m w"

definition ProjectMutation_ResetDescription ::
  "ProjectMutation \<Rightarrow> ProjectMutation" where [ent_ops]:
  "ProjectMutation_ResetDescription m = m\<lparr>pm_description := None\<rparr>"

definition ProjectMutation_SetCreatedAt ::
  "instant \<Rightarrow> ProjectMutation \<Rightarrow> ProjectMutation" where [ent_ops]:
  "ProjectMutation_SetCreatedAt v m = m\<lparr>pm_created_at := Some v\<rparr>"

definition ProjectMutation_CreatedAt :: "ProjectMutation \<Rightarrow> instant option" where [ent_ops]:
  "ProjectMutation_CreatedAt m = pm_created_at m"

definition ProjectMutation_OldCreatedAt ::
  "(uuid, proj_node) getter \<Rightarrow> ProjectMutation \<Rightarrow> world \<Rightarrow> (go_err + instant) \<times> ProjectMutation \<times> world" where
  "ProjectMutation_OldCreatedAt get m w = mutation_Old ''OldCreatedAt'' pn_created_at get m w"

definition ProjectMutation_ResetCreatedAt ::
  "ProjectMutation \<Rightarrow> ProjectMutation" where [ent_ops]:
  "ProjectMutation_ResetCreatedAt m = m\<lparr>pm_created_at := None\<rparr>"

definition ProjectMutation_SetUpdatedAt ::
  "instant \<Rightarrow> ProjectMutation \<Rightarrow> ProjectMutation" where [ent_ops]:
  "ProjectMutation_SetUpdatedAt v m = m\<lparr>pm_updated_at := Some v\<rparr>"

definition ProjectMutation_UpdatedAt :: "ProjectMutation \<Rightarrow> instant option" where [ent_ops]:
  "ProjectMutation_UpdatedAt m = pm_updated_at m"

definition ProjectMutation_OldUpdatedAt ::
  "(uuid, proj_node) getter \<Rightarrow> ProjectMutation \<Rightarrow> world \<Rightarrow> (go_err + instant) \<times> ProjectMutation \<times> world" where
  "ProjectMutation_OldUpdatedAt get m w = mutation_Old ''OldUpdatedAt'' pn_updated_at get m w"

definition ProjectMutation_ResetUpdatedAt ::
  "ProjectMutation \<Rightarrow> ProjectMutation" where [ent_ops]:
  "ProjectMutation_ResetUpdatedAt m = m\<lparr>pm_updated_at := None\<rparr>"

definition ProjectMutation_SetDeletedAt ::
  "instant \<Rightarrow> ProjectMutation \<Rightarrow> ProjectMutation" where [ent_ops]:
  "ProjectMutation_SetDeletedAt v m = m\<lparr>pm_deleted_at := Some v\<rparr>"

definition ProjectMutation_DeletedAt :: "ProjectMutation \<Rightarrow> instant option" where [ent_ops]:
  "ProjectMutation_DeletedAt m = pm_deleted_at m"

definition ProjectMutation_OldDeletedAt ::
  "(uuid, proj_node) getter \<Rightarrow> ProjectMutation \<Rightarrow> world \<Rightarrow> (go_err + instant option) \<times> ProjectMutation \<times> world" where
  "ProjectMutation_OldDeletedAt get m w = mutation_Old ''OldDeletedAt'' pn_deleted_at get m w"

definition ProjectMutation_ClearDeletedAt ::
  "ProjectMutation \<Rightarrow> ProjectMutation" where [ent_ops]:
  "ProjectMutation_ClearDeletedAt m = m\<lparr>pm_deleted_at := None, m_cleared := insert ''deleted_at'' (m_cleared m)\<rparr>"

definition ProjectMutation_DeletedAtCleared :: "ProjectMutation \<Rightarrow> bool" where [ent_ops]:
  "ProjectMutation_DeletedAtCleared m \<longleftrightarrow> ''deleted_at'' \<in> m_cleared m"

definition ProjectMutation_ResetDeletedAt ::
  "ProjectMutation \<Rightarrow> ProjectMutation" where [ent_ops]:
  "ProjectMutation_ResetDeletedAt m = m\<lparr>pm_deleted_at := None, m_cleared := m_cleared m - {''deleted_at''}\<rparr>"

definition ProjectMutation_SetFolderID ::
  "uuid \<Rightarrow> ProjectMutation \<Rightarrow> ProjectMutation" where [ent_ops]:
  "ProjectMutation_SetFolderID i m = m\<lparr>pm_folder := Some i\<rparr>"

definition ProjectMutation_ClearFolder ::
  "ProjectMutation \<Rightarrow> ProjectMutation" where [ent_ops]:
  "ProjectMutation_ClearFolder m = m\<lparr>pm_clearedfolder := True\<rparr>"

definition ProjectMutation_FolderCleared :: "ProjectMutation \<Rightarrow> bool" where [ent_ops]:
  "ProjectMutation_FolderCleared m \<longleftrightarrow> pm_clearedfolder m"

definition ProjectMutation_FolderID :: "ProjectMutation \<Rightarrow> uuid option" where [ent_ops]:
  "ProjectMutation_FolderID m = pm_folder m"

definition ProjectMutation_FolderIDs :: "ProjectMutation \<Rightarrow> uuid list" where [ent_ops]:
  "ProjectMutation_FolderIDs m = (case pm_folder m of None \<Rightarrow> [] | Some i \<Rightarrow> [i])"

definition ProjectMutation_ResetFolder ::
  "ProjectMutation \<Rightarrow> ProjectMutation" where [ent_ops]:
  "ProjectMutation_ResetFolder m = m\<lparr>pm_folder := None, pm_clearedfolder := False\<rparr>"

subsection \<open>The dynamic accessors\<close>

definition ProjectMutation_Fields :: "ProjectMutation \<Rightarrow> string list" where [ent_ops]:
  "ProjectMutation_Fields m =
     (if pm_name m \<noteq> None then [''name''] else []) @
     (if pm_description m \<noteq> None then [''description''] else []) @
     (if pm_created_at m \<noteq> None then [''created_at''] else []) @
     (if pm_updated_at m \<noteq> None then [''updated_at''] else []) @
     (if pm_deleted_at m \<noteq> None then [''deleted_at''] else [])"

definition ProjectMutation_Field ::
  "ProjectMutation \<Rightarrow> string \<Rightarrow> gvalue option" where [ent_ops]:
  "ProjectMutation_Field m name =
     (if name = ''name'' then map_option GString (ProjectMutation_Name m)
      else if name = ''description'' then map_option GString (ProjectMutation_Description m)
      else if name = ''created_at'' then map_option GTime (ProjectMutation_CreatedAt m)
      else if name = ''updated_at'' then map_option GTime (ProjectMutation_UpdatedAt m)
      else if name = ''deleted_at'' then map_option GTime (ProjectMutation_DeletedAt m)
      else None)"

definition ProjectMutation_OldField ::
  "(uuid, proj_node) getter \<Rightarrow> string \<Rightarrow> ProjectMutation \<Rightarrow> world \<Rightarrow> (go_err + gvalue) \<times> ProjectMutation \<times> world" where
  "ProjectMutation_OldField get name m w =
     (if name = ''name'' then as_value GString (ProjectMutation_OldName get m w)
      else if name = ''description'' then as_value GString (ProjectMutation_OldDescription get m w)
      else if name = ''created_at'' then as_value GTime (ProjectMutation_OldCreatedAt get m w)
      else if name = ''updated_at'' then as_value GTime (ProjectMutation_OldUpdatedAt get m w)
      else if name = ''deleted_at'' then as_value GTimePtr (ProjectMutation_OldDeletedAt get m w)
      else (Inl (Errorf (''unknown Project field '' @ name)), m, w))"

definition ProjectMutation_SetField ::
  "string \<Rightarrow> gvalue \<Rightarrow> ProjectMutation \<Rightarrow> go_err + ProjectMutation" where [ent_ops]:
  "ProjectMutation_SetField name v m =
     (if name = ''name'' then
       (case v of GString x \<Rightarrow> Inr (ProjectMutation_SetName x m) | _ \<Rightarrow> Inl (unexpected_type v name))
      else if name = ''description'' then
       (case v of GString x \<Rightarrow> Inr (ProjectMutation_SetDescription x m) | _ \<Rightarrow> Inl (unexpected_type v name))
      else if name = ''created_at'' then
       (case v of GTime x \<Rightarrow> Inr (ProjectMutation_SetCreatedAt x m) | _ \<Rightarrow> Inl (unexpected_type v name))
      else if name = ''updated_at'' then
       (case v of GTime x \<Rightarrow> Inr (ProjectMutation_SetUpdatedAt x m) | _ \<Rightarrow> Inl (unexpected_type v name))
      else if name = ''deleted_at'' then
       (case v of GTime x \<Rightarrow> Inr (ProjectMutation_SetDeletedAt x m) | _ \<Rightarrow> Inl (unexpected_type v name))
      else Inl (Errorf (''unknown Project field '' @ name)))"

definition ProjectMutation_AddField ::
  "string \<Rightarrow> gvalue \<Rightarrow> ProjectMutation \<Rightarrow> go_err + ProjectMutation" where [ent_ops]:
  "ProjectMutation_AddField name v m = Inl (Errorf (''unknown Project numeric field '' @ name))"

definition ProjectMutation_FieldCleared ::
  "ProjectMutation \<Rightarrow> string \<Rightarrow> bool" where [ent_ops]:
  "ProjectMutation_FieldCleared m name \<longleftrightarrow> name \<in> m_cleared m"

definition ProjectMutation_ClearedFields :: "ProjectMutation \<Rightarrow> string list" where [ent_ops]:
  "ProjectMutation_ClearedFields m =
     (if ProjectMutation_FieldCleared m ''deleted_at'' then [''deleted_at''] else [])"

definition ProjectMutation_ClearField ::
  "string \<Rightarrow> ProjectMutation \<Rightarrow> go_err + ProjectMutation" where [ent_ops]:
  "ProjectMutation_ClearField name m =
     (if name = ''deleted_at'' then Inr (ProjectMutation_ClearDeletedAt m)
      else Inl (Errorf (''unknown Project nullable field '' @ name)))"

definition ProjectMutation_ResetField ::
  "string \<Rightarrow> ProjectMutation \<Rightarrow> go_err + ProjectMutation" where [ent_ops]:
  "ProjectMutation_ResetField name m =
     (if name = ''name'' then Inr (ProjectMutation_ResetName m)
      else if name = ''description'' then Inr (ProjectMutation_ResetDescription m)
      else if name = ''created_at'' then Inr (ProjectMutation_ResetCreatedAt m)
      else if name = ''updated_at'' then Inr (ProjectMutation_ResetUpdatedAt m)
      else if name = ''deleted_at'' then Inr (ProjectMutation_ResetDeletedAt m)
      else Inl (Errorf (''unknown Project field '' @ name)))"

definition ProjectMutation_AddedEdges :: "ProjectMutation \<Rightarrow> string list" where [ent_ops]:
  "ProjectMutation_AddedEdges m =
     (if pm_folder m \<noteq> None then [''folder''] else [])"

definition ProjectMutation_AddedIDs ::
  "ProjectMutation \<Rightarrow> string \<Rightarrow> uuid set" where [ent_ops]:
  "ProjectMutation_AddedIDs m name =
     (if name = ''folder'' then set (ProjectMutation_FolderIDs m)
      else {})"

definition ProjectMutation_RemovedEdges :: "ProjectMutation \<Rightarrow> string list" where [ent_ops]:
  "ProjectMutation_RemovedEdges m = []"

definition ProjectMutation_RemovedIDs ::
  "ProjectMutation \<Rightarrow> string \<Rightarrow> uuid set" where [ent_ops]:
  "ProjectMutation_RemovedIDs m name = {}"

definition ProjectMutation_ClearedEdges :: "ProjectMutation \<Rightarrow> string list" where [ent_ops]:
  "ProjectMutation_ClearedEdges m =
     (if pm_clearedfolder m then [''folder''] else [])"

definition ProjectMutation_EdgeCleared ::
  "ProjectMutation \<Rightarrow> string \<Rightarrow> bool" where [ent_ops]:
  "ProjectMutation_EdgeCleared m name \<longleftrightarrow>
     (if name = ''folder'' then pm_clearedfolder m
      else False)"

definition ProjectMutation_ClearEdge ::
  "string \<Rightarrow> ProjectMutation \<Rightarrow> go_err + ProjectMutation" where [ent_ops]:
  "ProjectMutation_ClearEdge name m =
     (if name = ''folder'' then Inr (ProjectMutation_ClearFolder m)
      else Inl (Errorf (''unknown Project unique edge '' @ name)))"

definition ProjectMutation_ResetEdge ::
  "string \<Rightarrow> ProjectMutation \<Rightarrow> go_err + ProjectMutation" where [ent_ops]:
  "ProjectMutation_ResetEdge name m =
     (if name = ''folder'' then Inr (ProjectMutation_ResetFolder m)
      else Inl (Errorf (''unknown Project edge '' @ name)))"

definition ProjectMutation_schema :: "(string \<times> string) list" where
  "ProjectMutation_schema =
     [(''name'', ''string''),
      (''description'', ''string''),
      (''created_at'', ''time.Time''),
      (''updated_at'', ''time.Time''),
      (''deleted_at'', ''time.Time'')]"

interpretation pf: ent_fields "map fst ProjectMutation_schema" "[''deleted_at'']"
    "\<lambda>n v. map_of ProjectMutation_schema n = Some (type_name v)"
    ProjectMutation_Field ProjectMutation_FieldCleared ProjectMutation_Fields ProjectMutation_ClearedFields ProjectMutation_SetField ProjectMutation_ClearField ProjectMutation_ResetField
proof (unfold_locales, goal_cases)
  case (3 m) show ?case by (auto simp: ProjectMutation_schema_def ent_ops)
next
  case (4 m) show ?case by (auto simp: ent_ops)
next
  case (5 n v) then show ?case by (auto simp: ProjectMutation_schema_def split: if_splits)
next
  case (6 m n v) then show ?case by (auto simp: ProjectMutation_schema_def ent_ops split: if_splits)
next
  case (7 n v m) then show ?case
    by (cases v) (auto simp: ProjectMutation_schema_def ent_ops split: if_splits)
next
  case (8 n v m) then show ?case
    by (cases v) (simp_all add: ProjectMutation_schema_def ent_ops split: if_split_asm)
next
  case (9 n m) then show ?case by (auto simp: ent_ops fun_eq_iff)
next
  case (11 n m) then show ?case by (auto simp: ProjectMutation_schema_def ent_ops fun_eq_iff)
qed (auto simp: ProjectMutation_schema_def ent_ops)

interpretation ps: ent_scan Project_scan_column Project_assign_column
  by unfold_locales
     (auto simp: Project_scan_column_def Project_assign_column_def split: scanned.splits if_splits)

section \<open>Creation\<close>

type_synonym ProjectCreate = "(ProjectMutation, proj_node) builder"

text \<open>The setters delegate to the mutation.\<close>

definition ProjectCreate_SetName ::
  "string \<Rightarrow> ProjectCreate \<Rightarrow> ProjectCreate" where [ent_ops]:
  "ProjectCreate_SetName v = on_mutation (ProjectMutation_SetName v)"

definition ProjectCreate_SetDescription ::
  "string \<Rightarrow> ProjectCreate \<Rightarrow> ProjectCreate" where [ent_ops]:
  "ProjectCreate_SetDescription v = on_mutation (ProjectMutation_SetDescription v)"

definition ProjectCreate_SetNillableDescription ::
  "string option \<Rightarrow> ProjectCreate \<Rightarrow> ProjectCreate" where [ent_ops]:
  "ProjectCreate_SetNillableDescription = set_nillable ProjectCreate_SetDescription"

definition ProjectCreate_SetCreatedAt ::
  "instant \<Rightarrow> ProjectCreate \<Rightarrow> ProjectCreate" where [ent_ops]:
  "ProjectCreate_SetCreatedAt v = on_mutation (ProjectMutation_SetCreatedAt v)"

definition ProjectCreate_SetNillableCreatedAt ::
  "instant option \<Rightarrow> ProjectCreate \<Rightarrow> ProjectCreate" where [ent_ops]:
  "ProjectCreate_SetNillableCreatedAt = set_nillable ProjectCreate_SetCreatedAt"

definition ProjectCreate_SetUpdatedAt ::
  "instant \<Rightarrow> ProjectCreate \<Rightarrow> ProjectCreate" where [ent_ops]:
  "ProjectCreate_SetUpdatedAt v = on_mutation (ProjectMutation_SetUpdatedAt v)"

definition ProjectCreate_SetNillableUpdatedAt ::
  "instant option \<Rightarrow> ProjectCreate \<Rightarrow> ProjectCreate" where [ent_ops]:
  "ProjectCreate_SetNillableUpdatedAt = set_nillable ProjectCreate_SetUpdatedAt"

definition ProjectCreate_SetDeletedAt ::
  "instant \<Rightarrow> ProjectCreate \<Rightarrow> ProjectCreate" where [ent_ops]:
  "ProjectCreate_SetDeletedAt v = on_mutation (ProjectMutation_SetDeletedAt v)"

definition ProjectCreate_SetNillableDeletedAt ::
  "instant option \<Rightarrow> ProjectCreate \<Rightarrow> ProjectCreate" where [ent_ops]:
  "ProjectCreate_SetNillableDeletedAt = set_nillable ProjectCreate_SetDeletedAt"

definition ProjectCreate_SetID ::
  "uuid \<Rightarrow> ProjectCreate \<Rightarrow> ProjectCreate" where [ent_ops]:
  "ProjectCreate_SetID v = on_mutation (mutation_SetID v)"

definition ProjectCreate_SetNillableID ::
  "uuid option \<Rightarrow> ProjectCreate \<Rightarrow> ProjectCreate" where [ent_ops]:
  "ProjectCreate_SetNillableID = set_nillable ProjectCreate_SetID"

definition ProjectCreate_SetFolderID ::
  "uuid \<Rightarrow> ProjectCreate \<Rightarrow> ProjectCreate" where [ent_ops]:
  "ProjectCreate_SetFolderID i = on_mutation (ProjectMutation_SetFolderID i)"

definition ProjectCreate_SetFolder ::
  "folder_node \<Rightarrow> ProjectCreate \<Rightarrow> ProjectCreate" where [ent_ops]:
  "ProjectCreate_SetFolder v = ProjectCreate_SetFolderID (fn_id v)"

definition ProjectCreate_defaults ::
  "ProjectMutation \<Rightarrow> world \<Rightarrow> ProjectMutation \<times> world" where
  "ProjectCreate_defaults m w =
     default_uuid mutation_ID mutation_SetID
       (default_now ProjectMutation_UpdatedAt ProjectMutation_SetUpdatedAt
       (default_now ProjectMutation_CreatedAt ProjectMutation_SetCreatedAt
       (default_value [] ProjectMutation_Description ProjectMutation_SetDescription
       (m, w))))"

definition ProjectCreate_check :: "ProjectMutation \<Rightarrow> go_err option" where
  "ProjectCreate_check m =
     first_error
       [required (ProjectMutation_Name m) ''name'' ''Project.name'',
        validated name_validator (ProjectMutation_Name m) ''name'' ''Project.name'',
        required (ProjectMutation_Description m) ''description'' ''Project.description'',
        required (ProjectMutation_CreatedAt m) ''created_at'' ''Project.created_at'',
        required (ProjectMutation_UpdatedAt m) ''updated_at'' ''Project.updated_at'',
        (if ProjectMutation_FolderIDs m = [] then Some (missing_edge ''folder'' ''Project.folder'') else None)]"

definition Project_edge_folder :: "uuid set \<Rightarrow> edge_spec" where
  "Project_edge_folder nodes =
     \<lparr>es_rel = M2O, es_inverse = True, es_table = ''projects'', es_column = ''folder_projects'',
           es_target = (''id'', TypeUUID), es_nodes = nodes\<rparr>"

definition ProjectCreate_createSpec ::
  "ProjectMutation \<Rightarrow> proj_node \<times> create_spec" where
  "ProjectCreate_createSpec m =
     (\<lparr>pn_id = (case m_id m of None \<Rightarrow> 0 | Some i \<Rightarrow> i),
        pn_name = (case pm_name m of None \<Rightarrow> [] | Some v \<Rightarrow> v),
        pn_description = (case pm_description m of None \<Rightarrow> [] | Some v \<Rightarrow> v),
        pn_created_at = (case pm_created_at m of None \<Rightarrow> 0 | Some v \<Rightarrow> v),
        pn_updated_at = (case pm_updated_at m of None \<Rightarrow> 0 | Some v \<Rightarrow> v),
        pn_deleted_at = pm_deleted_at m,
        pn_folder_projects = ProjectMutation_FolderID m,
        pn_select = (\<lambda>_. None)\<rparr>,
      \<lparr>cs_table = ''projects'', cs_id_field = (''id'', TypeUUID),
        cs_id = map_option (\<lambda>i. GUUIDPtr (Some i)) (m_id m),
        cs_fields =
          spec_field ''name'' TypeString GString (ProjectMutation_Name m) @
          spec_field ''description'' TypeString GString (ProjectMutation_Description m) @
          spec_field ''created_at'' TypeTime GTime (ProjectMutation_CreatedAt m) @
          spec_field ''updated_at'' TypeTime GTime (ProjectMutation_UpdatedAt m) @
          spec_field ''deleted_at'' TypeTime GTime (ProjectMutation_DeletedAt m),
        cs_edges = (if ProjectMutation_FolderIDs m \<noteq> [] then [Project_edge_folder (set (ProjectMutation_FolderIDs m))] else [])\<rparr>)"

definition ProjectCreate_sqlSave ::
  "(project_row, proj_node) sqlgraph \<Rightarrow> (ProjectMutation, proj_node) mutator" where
  "ProjectCreate_sqlSave G m w =
     (case ProjectCreate_check m of
        Some e \<Rightarrow> (Inl e, m, w)
      | None \<Rightarrow>
          (let (node, spec) = ProjectCreate_createSpec m in
           case CreateNode G (m_driver m) spec w of
             (Inl e, w') \<Rightarrow> (Inl (create_err e), m, w')
           | (Inr idv, w') \<Rightarrow>
               (case created_uuid G idv (pn_id node) of
                  Inl e \<Rightarrow> (Inl e, m, w')
                | Inr i \<Rightarrow>
                    (Inr (node\<lparr>pn_id := i\<rparr>), m\<lparr>m_id := Some i, m_done := True\<rparr>, w'))))"

definition ProjectCreate_Save ::
  "(project_row, proj_node) sqlgraph \<Rightarrow> ProjectCreate \<Rightarrow> world \<Rightarrow> (go_err + proj_node) \<times> ProjectCreate \<times> world" where
  "ProjectCreate_Save G c w =
     (let (m, w') = ProjectCreate_defaults (b_mutation c) w in
      save_with (ProjectCreate_sqlSave G) (c\<lparr>b_mutation := m\<rparr>) w')"

definition ProjectCreate_Exec ::
  "(project_row, proj_node) sqlgraph \<Rightarrow> ProjectCreate \<Rightarrow> world \<Rightarrow> (go_err + unit) \<times> ProjectCreate \<times> world" where
  "ProjectCreate_Exec G c w = exec_of (ProjectCreate_Save G c w)"

definition ProjectCreate_SaveX ::
  "(project_row, proj_node) sqlgraph \<Rightarrow> ProjectCreate \<Rightarrow> world \<Rightarrow> proj_node outcome \<times> ProjectCreate \<times> world" where
  "ProjectCreate_SaveX G c w = must (ProjectCreate_Save G c w)"

definition ProjectCreate_ExecX ::
  "(project_row, proj_node) sqlgraph \<Rightarrow> ProjectCreate \<Rightarrow> world \<Rightarrow> unit outcome \<times> ProjectCreate \<times> world" where
  "ProjectCreate_ExecX G c w = must (ProjectCreate_Exec G c w)"

section \<open>Updates\<close>

type_synonym ProjectUpdate = "(ProjectMutation, nat) builder"
type_synonym ProjectUpdateOne = "(ProjectMutation, proj_node) one_builder"

text \<open>The setters are those of both update builders.\<close>

definition ProjectUpdate_Where ::
  "project_row pred list \<Rightarrow> (ProjectMutation, 'v, 'z) builder_scheme \<Rightarrow> (ProjectMutation, 'v, 'z) builder_scheme" where [ent_ops]:
  "ProjectUpdate_Where ps = on_mutation (mutation_Where ps)"

definition ProjectUpdate_SetName ::
  "string \<Rightarrow> (ProjectMutation, 'v, 'z) builder_scheme \<Rightarrow> (ProjectMutation, 'v, 'z) builder_scheme" where [ent_ops]:
  "ProjectUpdate_SetName v = on_mutation (ProjectMutation_SetName v)"

definition ProjectUpdate_SetNillableName ::
  "string option \<Rightarrow> (ProjectMutation, 'v, 'z) builder_scheme \<Rightarrow> (ProjectMutation, 'v, 'z) builder_scheme" where [ent_ops]:
  "ProjectUpdate_SetNillableName = set_nillable ProjectUpdate_SetName"

definition ProjectUpdate_SetDescription ::
  "string \<Rightarrow> (ProjectMutation, 'v, 'z) builder_scheme \<Rightarrow> (ProjectMutation, 'v, 'z) builder_scheme" where [ent_ops]:
  "ProjectUpdate_SetDescription v = on_mutation (ProjectMutation_SetDescription v)"

definition ProjectUpdate_SetNillableDescription ::
  "string option \<Rightarrow> (ProjectMutation, 'v, 'z) builder_scheme \<Rightarrow> (ProjectMutation, 'v, 'z) builder_scheme" where [ent_ops]:
  "ProjectUpdate_SetNillableDescription = set_nillable ProjectUpdate_SetDescription"

definition ProjectUpdate_SetUpdatedAt ::
  "instant \<Rightarrow> (ProjectMutation, 'v, 'z) builder_scheme \<Rightarrow> (ProjectMutation, 'v, 'z) builder_scheme" where [ent_ops]:
  "ProjectUpdate_SetUpdatedAt v = on_mutation (ProjectMutation_SetUpdatedAt v)"

definition ProjectUpdate_SetDeletedAt ::
  "instant \<Rightarrow> (ProjectMutation, 'v, 'z) builder_scheme \<Rightarrow> (ProjectMutation, 'v, 'z) builder_scheme" where [ent_ops]:
  "ProjectUpdate_SetDeletedAt v = on_mutation (ProjectMutation_SetDeletedAt v)"

definition ProjectUpdate_SetNillableDeletedAt ::
  "instant option \<Rightarrow> (ProjectMutation, 'v, 'z) builder_scheme \<Rightarrow> (ProjectMutation, 'v, 'z) builder_scheme" where [ent_ops]:
  "ProjectUpdate_SetNillableDeletedAt = set_nillable ProjectUpdate_SetDeletedAt"

definition ProjectUpdate_ClearDeletedAt ::
  "(ProjectMutation, 'v, 'z) builder_scheme \<Rightarrow> (ProjectMutation, 'v, 'z) builder_scheme" where [ent_ops]:
  "ProjectUpdate_ClearDeletedAt = on_mutation ProjectMutation_ClearDeletedAt"

definition ProjectUpdate_SetFolderID ::
  "uuid \<Rightarrow> (ProjectMutation, 'v, 'z) builder_scheme \<Rightarrow> (ProjectMutation, 'v, 'z) builder_scheme" where [ent_ops]:
  "ProjectUpdate_SetFolderID i = on_mutation (ProjectMutation_SetFolderID i)"

definition ProjectUpdate_SetFolder ::
  "folder_node \<Rightarrow> (ProjectMutation, 'v, 'z) builder_scheme \<Rightarrow> (ProjectMutation, 'v, 'z) builder_scheme" where [ent_ops]:
  "ProjectUpdate_SetFolder v = ProjectUpdate_SetFolderID (fn_id v)"

definition ProjectUpdate_ClearFolder ::
  "(ProjectMutation, 'v, 'z) builder_scheme \<Rightarrow> (ProjectMutation, 'v, 'z) builder_scheme" where [ent_ops]:
  "ProjectUpdate_ClearFolder = on_mutation ProjectMutation_ClearFolder"

definition ProjectUpdateOne_Select ::
  "string \<Rightarrow> string list \<Rightarrow> ProjectUpdateOne \<Rightarrow> ProjectUpdateOne" where [ent_ops]:
  "ProjectUpdateOne_Select fld flds u = u\<lparr>b_fields := fld # flds\<rparr>"

definition ProjectUpdate_defaults ::
  "ProjectMutation \<Rightarrow> world \<Rightarrow> ProjectMutation \<times> world" where
  "ProjectUpdate_defaults m w = default_now ProjectMutation_UpdatedAt ProjectMutation_SetUpdatedAt (m, w)"

definition ProjectUpdate_check :: "ProjectMutation \<Rightarrow> go_err option" where
  "ProjectUpdate_check m =
     first_error
       [validated name_validator (ProjectMutation_Name m) ''name'' ''Project.name'',
        (if ProjectMutation_FolderCleared m \<and> ProjectMutation_FolderIDs m \<noteq> [] then Some (clearing_required ''Project.folder'') else None)]"

text \<open>The specification both \<open>sqlSave\<close> build: the bulk update has no id, the update of one node has its id and the columns to return.\<close>

definition ProjectUpdate_spec ::
  "ProjectMutation \<Rightarrow> gvalue option \<Rightarrow> string list \<Rightarrow> (project_row, proj_node) update_spec" where
  "ProjectUpdate_spec m i columns =
     \<lparr>us_table = ''projects'', us_columns = columns, us_id_field = (''id'', TypeUUID), us_id = i,
       us_preds = m_preds m,
       us_set =
          spec_field ''name'' TypeString GString (ProjectMutation_Name m) @
          spec_field ''description'' TypeString GString (ProjectMutation_Description m) @
          spec_field ''updated_at'' TypeTime GTime (ProjectMutation_UpdatedAt m) @
          spec_field ''deleted_at'' TypeTime GTime (ProjectMutation_DeletedAt m),
       us_clear =
          (if ProjectMutation_DeletedAtCleared m then [(''deleted_at'', TypeTime)] else []),
       us_add_edges =
          (if ProjectMutation_FolderIDs m \<noteq> [] then [Project_edge_folder (set (ProjectMutation_FolderIDs m))] else []),
       us_clear_edges =
          (if ProjectMutation_FolderCleared m then [Project_edge_folder {}] else []),
       us_scan = Project_scanValues, us_assign = Project_assignValues zero_proj_node\<rparr>"

definition ProjectUpdate_sqlSave ::
  "(project_row, proj_node) sqlgraph \<Rightarrow> (ProjectMutation, nat) mutator" where
  "ProjectUpdate_sqlSave G m w =
     (case ProjectUpdate_check m of
        Some e \<Rightarrow> (Inl e, m, w)
      | None \<Rightarrow>
          (case UpdateNodes G (m_driver m) (ProjectUpdate_spec m None Project_Columns) w of
             (Inl e, w') \<Rightarrow> (Inl (update_err ''project'' e), m, w')
           | (Inr k, w') \<Rightarrow> (Inr k, m\<lparr>m_done := True\<rparr>, w')))"

definition ProjectUpdateOne_sqlSave ::
  "(project_row, proj_node) sqlgraph \<Rightarrow> string list \<Rightarrow> (ProjectMutation, proj_node) mutator" where
  "ProjectUpdateOne_sqlSave G flds m w =
     (case ProjectUpdate_check m of
        Some e \<Rightarrow> (Inl e, m, w)
      | None \<Rightarrow>
          (case m_id m of
             None \<Rightarrow> (Inl (missing_id ''Project.id''), m, w)
           | Some i \<Rightarrow>
               (case node_columns Project_ValidColumn Project_Columns ''id'' flds of
                  Inl e \<Rightarrow> (Inl e, m, w)
                | Inr columns \<Rightarrow>
                    (case UpdateNode G (m_driver m) (ProjectUpdate_spec m (Some (GUUID i)) columns) w of
                       (Inl e, w') \<Rightarrow> (Inl (update_err ''project'' e), m, w')
                     | (Inr node, w') \<Rightarrow> (Inr node, m\<lparr>m_done := True\<rparr>, w')))))"

definition ProjectUpdate_Save ::
  "(project_row, proj_node) sqlgraph \<Rightarrow> ProjectUpdate \<Rightarrow> world \<Rightarrow> (go_err + nat) \<times> ProjectUpdate \<times> world" where
  "ProjectUpdate_Save G u w =
     (let (m, w') = ProjectUpdate_defaults (b_mutation u) w in save_with (ProjectUpdate_sqlSave G) (u\<lparr>b_mutation := m\<rparr>) w')"

definition ProjectUpdate_Exec ::
  "(project_row, proj_node) sqlgraph \<Rightarrow> ProjectUpdate \<Rightarrow> world \<Rightarrow> (go_err + unit) \<times> ProjectUpdate \<times> world" where
  "ProjectUpdate_Exec G u w = exec_of (ProjectUpdate_Save G u w)"

definition ProjectUpdateOne_Save ::
  "(project_row, proj_node) sqlgraph \<Rightarrow> ProjectUpdateOne \<Rightarrow> world \<Rightarrow> (go_err + proj_node) \<times> ProjectUpdateOne \<times> world" where
  "ProjectUpdateOne_Save G u w =
     (let (m, w') = ProjectUpdate_defaults (b_mutation u) w in save_with (ProjectUpdateOne_sqlSave G (b_fields u)) (u\<lparr>b_mutation := m\<rparr>) w')"

definition ProjectUpdateOne_Exec ::
  "(project_row, proj_node) sqlgraph \<Rightarrow> ProjectUpdateOne \<Rightarrow> world \<Rightarrow> (go_err + unit) \<times> ProjectUpdateOne \<times> world" where
  "ProjectUpdateOne_Exec G u w = exec_of (ProjectUpdateOne_Save G u w)"

section \<open>Deletes\<close>

type_synonym ProjectDelete = "(ProjectMutation, nat) builder"

definition ProjectDelete_Where ::
  "project_row pred list \<Rightarrow> ProjectDelete \<Rightarrow> ProjectDelete" where [ent_ops]:
  "ProjectDelete_Where ps = on_mutation (mutation_Where ps)"

definition ProjectDelete_sqlExec ::
  "(project_row, proj_node) sqlgraph \<Rightarrow> (ProjectMutation, nat) mutator" where
  "ProjectDelete_sqlExec G m w =
     (case DeleteNodes G (m_driver m)
             \<lparr>ds_table = ''projects'', ds_id_field = (''id'', TypeUUID), ds_preds = m_preds m\<rparr> w of
        (res, w') \<Rightarrow> (map_sum create_err id res, m\<lparr>m_done := True\<rparr>, w'))"

definition ProjectDelete_Exec ::
  "(project_row, proj_node) sqlgraph \<Rightarrow> ProjectDelete \<Rightarrow> world \<Rightarrow> (go_err + nat) \<times> ProjectDelete \<times> world" where
  "ProjectDelete_Exec G b w = save_with (ProjectDelete_sqlExec G) b w"

definition ProjectDeleteOne_Exec ::
  "(project_row, proj_node) sqlgraph \<Rightarrow> ProjectDelete \<Rightarrow> world \<Rightarrow> (go_err + unit) \<times> ProjectDelete \<times> world" where
  "ProjectDeleteOne_Exec G b w =
     (case ProjectDelete_Exec G b w of
        (Inl e, b', w') \<Rightarrow> (Inl e, b', w')
      | (Inr n, b', w') \<Rightarrow> (if n = 0 then Inl (NotFoundError ''project'') else Inr (), b', w'))"

section \<open>The client\<close>

definition ProjectClient_Create ::
  "driver \<Rightarrow> (ProjectMutation, proj_node) hook list \<Rightarrow> ProjectCreate" where [ent_ops]:
  "ProjectClient_Create drv hooks = \<lparr>b_mutation = newProjectMutation drv OpCreate [], b_hooks = hooks\<rparr>"

definition ProjectClient_Update ::
  "driver \<Rightarrow> (ProjectMutation, nat) hook list \<Rightarrow> ProjectUpdate" where [ent_ops]:
  "ProjectClient_Update drv hooks = \<lparr>b_mutation = newProjectMutation drv OpUpdate [], b_hooks = hooks\<rparr>"

definition ProjectClient_UpdateOne ::
  "driver \<Rightarrow> (ProjectMutation, proj_node) hook list \<Rightarrow> proj_node \<Rightarrow> ProjectUpdateOne" where [ent_ops]:
  "ProjectClient_UpdateOne drv hooks n =
     \<lparr>b_mutation = newProjectMutation drv OpUpdateOne [with_node pn_id n], b_hooks = hooks, b_fields = []\<rparr>"

definition ProjectClient_UpdateOneID ::
  "driver \<Rightarrow> (ProjectMutation, proj_node) hook list \<Rightarrow> uuid \<Rightarrow> ProjectUpdateOne" where [ent_ops]:
  "ProjectClient_UpdateOneID drv hooks i =
     \<lparr>b_mutation = newProjectMutation drv OpUpdateOne [with_id i], b_hooks = hooks, b_fields = []\<rparr>"

definition ProjectClient_Delete ::
  "driver \<Rightarrow> (ProjectMutation, nat) hook list \<Rightarrow> ProjectDelete" where [ent_ops]:
  "ProjectClient_Delete drv hooks = \<lparr>b_mutation = newProjectMutation drv OpDelete [], b_hooks = hooks\<rparr>"

definition ProjectClient_DeleteOneID ::
  "driver \<Rightarrow> (ProjectMutation, nat) hook list \<Rightarrow> uuid \<Rightarrow> ProjectDelete" where [ent_ops]:
  "ProjectClient_DeleteOneID drv hooks i =
     on_mutation (\<lambda>m. m\<lparr>m_id := Some i, m_op := OpDeleteOne\<rparr>)
       (ProjectDelete_Where [\<lambda>d r. proj_id r = i] (ProjectClient_Delete drv hooks))"

definition ProjectClient_DeleteOne ::
  "driver \<Rightarrow> (ProjectMutation, nat) hook list \<Rightarrow> proj_node \<Rightarrow> ProjectDelete" where [ent_ops]:
  "ProjectClient_DeleteOne drv hooks n = ProjectClient_DeleteOneID drv hooks (pn_id n)"

text \<open>A row as its query returns it: without eager loading the foreign key is not selected.\<close>

definition proj_node_of :: "project_row \<Rightarrow> proj_node" where
  "proj_node_of r =
     \<lparr>pn_id = proj_id r,
       pn_name = proj_name r,
       pn_description = proj_description r,
       pn_created_at = proj_created_at r,
       pn_updated_at = proj_updated_at r,
       pn_deleted_at = proj_deleted_at r,
       pn_folder_projects = None,
       pn_select = (\<lambda>_. None)\<rparr>"

definition ProjectClient_Get :: "(uuid, proj_node) getter" where
  "ProjectClient_Get drv i =
     run_driver drv
       (select (\<lambda>d. map_sum id proj_node_of (query_only ''project'' (query (filter (\<lambda>r. proj_id r = i) (projects d))))))"

end
