(* ===== verification/Ent_Event.thy ===== *)
theory Ent_Event
  imports Ent_Base
begin

text \<open>
  The entity \<open>TenancyEvent\<close> of tenancy-manager/internal/ent: its node and the scanning of its
  rows (tenancyevent.go), its mutation (mutation.go), its builders (tenancyevent\_create.go, tenancyevent\_update.go,
  tenancyevent\_delete.go) and its client (client.go).
\<close>

section \<open>The node\<close>

text \<open>The struct \<open>TenancyEvent\<close>; \<open>selectValues\<close> keeps the columns that are not fields.\<close>

record event_node =
  en_id :: int
  en_event_type :: string
  en_resource_type :: string
  en_resource_id :: uuid
  en_resource_name :: string
  en_org_id :: "uuid option"
  en_org_name :: "string option"
  en_folder_id :: "uuid option"
  en_created_at :: instant
  en_select :: "string \<Rightarrow> scanned option"

definition zero_event_node :: "event_node" where [ent_ops]:
  "zero_event_node =
     \<lparr>en_id = 0,
       en_event_type = [],
       en_resource_type = [],
       en_resource_id = 0,
       en_resource_name = [],
       en_org_id = None,
       en_org_name = None,
       en_folder_id = None,
       en_created_at = 0,
       en_select = (\<lambda>_. None)\<rparr>"

definition TenancyEvent_Columns :: "string list" where
  "TenancyEvent_Columns = [''id'', ''event_type'', ''resource_type'', ''resource_id'', ''resource_name'', ''org_id'', ''org_name'', ''folder_id'', ''created_at'']"

definition TenancyEvent_ValidColumn :: "string \<Rightarrow> bool" where
  "TenancyEvent_ValidColumn c \<longleftrightarrow> c \<in> set TenancyEvent_Columns"

text \<open>\<open>scanValues\<close> and \<open>assignValues\<close>, one column at a time.\<close>

definition TenancyEvent_scan_column :: "string \<Rightarrow> scan_type" where
  "TenancyEvent_scan_column c =
     (if c = ''id'' then TNullInt64
      else if c = ''event_type'' then TNullString
      else if c = ''resource_type'' then TNullString
      else if c = ''resource_id'' then TUUID
      else if c = ''resource_name'' then TNullString
      else if c = ''org_id'' then TNullUUID
      else if c = ''org_name'' then TNullString
      else if c = ''folder_id'' then TNullUUID
      else if c = ''created_at'' then TNullTime
      else TUnknown)"

definition TenancyEvent_scanValues :: "string list \<Rightarrow> scan_type list" where
  "TenancyEvent_scanValues columns = map TenancyEvent_scan_column columns"

definition TenancyEvent_assign_column ::
  "string \<Rightarrow> scanned \<Rightarrow> event_node \<Rightarrow> go_err + event_node" where
  "TenancyEvent_assign_column c v n =
     (if c = ''id'' then
       (case v of SNullInt64 i \<Rightarrow> Inr (n\<lparr>en_id := (case i of None \<Rightarrow> 0 | Some j \<Rightarrow> j)\<rparr>)
        | _ \<Rightarrow> Inl (Errorf ''unexpected type *sql.NullInt64 for field id''))
      else if c = ''event_type'' then
       (case v of SNullString x \<Rightarrow> Inr (case x of None \<Rightarrow> n | Some y \<Rightarrow> n\<lparr>en_event_type := y\<rparr>)
        | _ \<Rightarrow> Inl (unexpected_scan v ''event_type''))
      else if c = ''resource_type'' then
       (case v of SNullString x \<Rightarrow> Inr (case x of None \<Rightarrow> n | Some y \<Rightarrow> n\<lparr>en_resource_type := y\<rparr>)
        | _ \<Rightarrow> Inl (unexpected_scan v ''resource_type''))
      else if c = ''resource_id'' then
       (case v of SUUID i \<Rightarrow> Inr (n\<lparr>en_resource_id := i\<rparr>) | _ \<Rightarrow> Inl (unexpected_scan v ''resource_id''))
      else if c = ''resource_name'' then
       (case v of SNullString x \<Rightarrow> Inr (case x of None \<Rightarrow> n | Some y \<Rightarrow> n\<lparr>en_resource_name := y\<rparr>)
        | _ \<Rightarrow> Inl (unexpected_scan v ''resource_name''))
      else if c = ''org_id'' then
       (case v of SNullUUID x \<Rightarrow> Inr (case x of None \<Rightarrow> n | Some y \<Rightarrow> n\<lparr>en_org_id := Some y\<rparr>)
        | _ \<Rightarrow> Inl (unexpected_scan v ''org_id''))
      else if c = ''org_name'' then
       (case v of SNullString x \<Rightarrow> Inr (case x of None \<Rightarrow> n | Some y \<Rightarrow> n\<lparr>en_org_name := Some y\<rparr>)
        | _ \<Rightarrow> Inl (unexpected_scan v ''org_name''))
      else if c = ''folder_id'' then
       (case v of SNullUUID x \<Rightarrow> Inr (case x of None \<Rightarrow> n | Some y \<Rightarrow> n\<lparr>en_folder_id := Some y\<rparr>)
        | _ \<Rightarrow> Inl (unexpected_scan v ''folder_id''))
      else if c = ''created_at'' then
       (case v of SNullTime x \<Rightarrow> Inr (case x of None \<Rightarrow> n | Some y \<Rightarrow> n\<lparr>en_created_at := y\<rparr>)
        | _ \<Rightarrow> Inl (unexpected_scan v ''created_at''))
      else Inr (n\<lparr>en_select := (en_select n)(c \<mapsto> v)\<rparr>))"

definition TenancyEvent_assignValues ::
  "event_node \<Rightarrow> string list \<Rightarrow> scanned list \<Rightarrow> go_err + event_node" where
  "TenancyEvent_assignValues n columns vals = assign_columns TenancyEvent_assign_column columns vals n"

section \<open>The mutation\<close>

record TenancyEventMutation = "(int, event_node, event_row) mutation" +
  em_event_type :: "string option"
  em_resource_type :: "string option"
  em_resource_id :: "uuid option"
  em_resource_name :: "string option"
  em_org_id :: "uuid option"
  em_org_name :: "string option"
  em_folder_id :: "uuid option"
  em_created_at :: "instant option"

definition newTenancyEventMutation ::
  "driver \<Rightarrow> op \<Rightarrow> (TenancyEventMutation \<Rightarrow> TenancyEventMutation) list \<Rightarrow> TenancyEventMutation" where [ent_ops]:
  "newTenancyEventMutation drv oper opts =
     fold (\<lambda>opt m. opt m) opts
       \<lparr>m_op = oper, m_typ = ''TenancyEvent'', m_driver = drv, m_id = None, m_cleared = {},
        m_done = False, m_old = None, m_preds = [], em_event_type = None,
        em_resource_type = None, em_resource_id = None, em_resource_name = None,
        em_org_id = None, em_org_name = None, em_folder_id = None, em_created_at = None\<rparr>"

definition TenancyEventMutation_IDs ::
  "(driver \<Rightarrow> event_row pred list \<Rightarrow> world \<Rightarrow> (go_err + int list) \<times> world)
     \<Rightarrow> TenancyEventMutation \<Rightarrow> world \<Rightarrow> (go_err + int list) \<times> world" where
  "TenancyEventMutation_IDs all m w = mutation_IDs all m w"

definition TenancyEventMutation_SetEventType ::
  "string \<Rightarrow> TenancyEventMutation \<Rightarrow> TenancyEventMutation" where [ent_ops]:
  "TenancyEventMutation_SetEventType v m = m\<lparr>em_event_type := Some v\<rparr>"

definition TenancyEventMutation_EventType ::
  "TenancyEventMutation \<Rightarrow> string option" where [ent_ops]:
  "TenancyEventMutation_EventType m = em_event_type m"

definition TenancyEventMutation_OldEventType ::
  "(int, event_node) getter \<Rightarrow> TenancyEventMutation \<Rightarrow> world \<Rightarrow> (go_err + string) \<times> TenancyEventMutation \<times> world" where
  "TenancyEventMutation_OldEventType get m w = mutation_Old ''OldEventType'' en_event_type get m w"

definition TenancyEventMutation_ResetEventType ::
  "TenancyEventMutation \<Rightarrow> TenancyEventMutation" where [ent_ops]:
  "TenancyEventMutation_ResetEventType m = m\<lparr>em_event_type := None\<rparr>"

definition TenancyEventMutation_SetResourceType ::
  "string \<Rightarrow> TenancyEventMutation \<Rightarrow> TenancyEventMutation" where [ent_ops]:
  "TenancyEventMutation_SetResourceType v m = m\<lparr>em_resource_type := Some v\<rparr>"

definition TenancyEventMutation_ResourceType ::
  "TenancyEventMutation \<Rightarrow> string option" where [ent_ops]:
  "TenancyEventMutation_ResourceType m = em_resource_type m"

definition TenancyEventMutation_OldResourceType ::
  "(int, event_node) getter \<Rightarrow> TenancyEventMutation \<Rightarrow> world \<Rightarrow> (go_err + string) \<times> TenancyEventMutation \<times> world" where
  "TenancyEventMutation_OldResourceType get m w = mutation_Old ''OldResourceType'' en_resource_type get m w"

definition TenancyEventMutation_ResetResourceType ::
  "TenancyEventMutation \<Rightarrow> TenancyEventMutation" where [ent_ops]:
  "TenancyEventMutation_ResetResourceType m = m\<lparr>em_resource_type := None\<rparr>"

definition TenancyEventMutation_SetResourceID ::
  "uuid \<Rightarrow> TenancyEventMutation \<Rightarrow> TenancyEventMutation" where [ent_ops]:
  "TenancyEventMutation_SetResourceID v m = m\<lparr>em_resource_id := Some v\<rparr>"

definition TenancyEventMutation_ResourceID ::
  "TenancyEventMutation \<Rightarrow> uuid option" where [ent_ops]:
  "TenancyEventMutation_ResourceID m = em_resource_id m"

definition TenancyEventMutation_OldResourceID ::
  "(int, event_node) getter \<Rightarrow> TenancyEventMutation \<Rightarrow> world \<Rightarrow> (go_err + uuid) \<times> TenancyEventMutation \<times> world" where
  "TenancyEventMutation_OldResourceID get m w = mutation_Old ''OldResourceID'' en_resource_id get m w"

definition TenancyEventMutation_ResetResourceID ::
  "TenancyEventMutation \<Rightarrow> TenancyEventMutation" where [ent_ops]:
  "TenancyEventMutation_ResetResourceID m = m\<lparr>em_resource_id := None\<rparr>"

definition TenancyEventMutation_SetResourceName ::
  "string \<Rightarrow> TenancyEventMutation \<Rightarrow> TenancyEventMutation" where [ent_ops]:
  "TenancyEventMutation_SetResourceName v m = m\<lparr>em_resource_name := Some v\<rparr>"

definition TenancyEventMutation_ResourceName ::
  "TenancyEventMutation \<Rightarrow> string option" where [ent_ops]:
  "TenancyEventMutation_ResourceName m = em_resource_name m"

definition TenancyEventMutation_OldResourceName ::
  "(int, event_node) getter \<Rightarrow> TenancyEventMutation \<Rightarrow> world \<Rightarrow> (go_err + string) \<times> TenancyEventMutation \<times> world" where
  "TenancyEventMutation_OldResourceName get m w = mutation_Old ''OldResourceName'' en_resource_name get m w"

definition TenancyEventMutation_ResetResourceName ::
  "TenancyEventMutation \<Rightarrow> TenancyEventMutation" where [ent_ops]:
  "TenancyEventMutation_ResetResourceName m = m\<lparr>em_resource_name := None\<rparr>"

definition TenancyEventMutation_SetOrgID ::
  "uuid \<Rightarrow> TenancyEventMutation \<Rightarrow> TenancyEventMutation" where [ent_ops]:
  "TenancyEventMutation_SetOrgID v m = m\<lparr>em_org_id := Some v\<rparr>"

definition TenancyEventMutation_OrgID ::
  "TenancyEventMutation \<Rightarrow> uuid option" where [ent_ops]:
  "TenancyEventMutation_OrgID m = em_org_id m"

definition TenancyEventMutation_OldOrgID ::
  "(int, event_node) getter \<Rightarrow> TenancyEventMutation \<Rightarrow> world \<Rightarrow> (go_err + uuid option) \<times> TenancyEventMutation \<times> world" where
  "TenancyEventMutation_OldOrgID get m w = mutation_Old ''OldOrgID'' en_org_id get m w"

definition TenancyEventMutation_ClearOrgID ::
  "TenancyEventMutation \<Rightarrow> TenancyEventMutation" where [ent_ops]:
  "TenancyEventMutation_ClearOrgID m = m\<lparr>em_org_id := None, m_cleared := insert ''org_id'' (m_cleared m)\<rparr>"

definition TenancyEventMutation_OrgIDCleared ::
  "TenancyEventMutation \<Rightarrow> bool" where [ent_ops]:
  "TenancyEventMutation_OrgIDCleared m \<longleftrightarrow> ''org_id'' \<in> m_cleared m"

definition TenancyEventMutation_ResetOrgID ::
  "TenancyEventMutation \<Rightarrow> TenancyEventMutation" where [ent_ops]:
  "TenancyEventMutation_ResetOrgID m = m\<lparr>em_org_id := None, m_cleared := m_cleared m - {''org_id''}\<rparr>"

definition TenancyEventMutation_SetOrgName ::
  "string \<Rightarrow> TenancyEventMutation \<Rightarrow> TenancyEventMutation" where [ent_ops]:
  "TenancyEventMutation_SetOrgName v m = m\<lparr>em_org_name := Some v\<rparr>"

definition TenancyEventMutation_OrgName ::
  "TenancyEventMutation \<Rightarrow> string option" where [ent_ops]:
  "TenancyEventMutation_OrgName m = em_org_name m"

definition TenancyEventMutation_OldOrgName ::
  "(int, event_node) getter \<Rightarrow> TenancyEventMutation \<Rightarrow> world \<Rightarrow> (go_err + string option) \<times> TenancyEventMutation \<times> world" where
  "TenancyEventMutation_OldOrgName get m w = mutation_Old ''OldOrgName'' en_org_name get m w"

definition TenancyEventMutation_ClearOrgName ::
  "TenancyEventMutation \<Rightarrow> TenancyEventMutation" where [ent_ops]:
  "TenancyEventMutation_ClearOrgName m = m\<lparr>em_org_name := None, m_cleared := insert ''org_name'' (m_cleared m)\<rparr>"

definition TenancyEventMutation_OrgNameCleared ::
  "TenancyEventMutation \<Rightarrow> bool" where [ent_ops]:
  "TenancyEventMutation_OrgNameCleared m \<longleftrightarrow> ''org_name'' \<in> m_cleared m"

definition TenancyEventMutation_ResetOrgName ::
  "TenancyEventMutation \<Rightarrow> TenancyEventMutation" where [ent_ops]:
  "TenancyEventMutation_ResetOrgName m = m\<lparr>em_org_name := None, m_cleared := m_cleared m - {''org_name''}\<rparr>"

definition TenancyEventMutation_SetFolderID ::
  "uuid \<Rightarrow> TenancyEventMutation \<Rightarrow> TenancyEventMutation" where [ent_ops]:
  "TenancyEventMutation_SetFolderID v m = m\<lparr>em_folder_id := Some v\<rparr>"

definition TenancyEventMutation_FolderID ::
  "TenancyEventMutation \<Rightarrow> uuid option" where [ent_ops]:
  "TenancyEventMutation_FolderID m = em_folder_id m"

definition TenancyEventMutation_OldFolderID ::
  "(int, event_node) getter \<Rightarrow> TenancyEventMutation \<Rightarrow> world \<Rightarrow> (go_err + uuid option) \<times> TenancyEventMutation \<times> world" where
  "TenancyEventMutation_OldFolderID get m w = mutation_Old ''OldFolderID'' en_folder_id get m w"

definition TenancyEventMutation_ClearFolderID ::
  "TenancyEventMutation \<Rightarrow> TenancyEventMutation" where [ent_ops]:
  "TenancyEventMutation_ClearFolderID m = m\<lparr>em_folder_id := None, m_cleared := insert ''folder_id'' (m_cleared m)\<rparr>"

definition TenancyEventMutation_FolderIDCleared ::
  "TenancyEventMutation \<Rightarrow> bool" where [ent_ops]:
  "TenancyEventMutation_FolderIDCleared m \<longleftrightarrow> ''folder_id'' \<in> m_cleared m"

definition TenancyEventMutation_ResetFolderID ::
  "TenancyEventMutation \<Rightarrow> TenancyEventMutation" where [ent_ops]:
  "TenancyEventMutation_ResetFolderID m = m\<lparr>em_folder_id := None, m_cleared := m_cleared m - {''folder_id''}\<rparr>"

definition TenancyEventMutation_SetCreatedAt ::
  "instant \<Rightarrow> TenancyEventMutation \<Rightarrow> TenancyEventMutation" where [ent_ops]:
  "TenancyEventMutation_SetCreatedAt v m = m\<lparr>em_created_at := Some v\<rparr>"

definition TenancyEventMutation_CreatedAt ::
  "TenancyEventMutation \<Rightarrow> instant option" where [ent_ops]:
  "TenancyEventMutation_CreatedAt m = em_created_at m"

definition TenancyEventMutation_OldCreatedAt ::
  "(int, event_node) getter \<Rightarrow> TenancyEventMutation \<Rightarrow> world \<Rightarrow> (go_err + instant) \<times> TenancyEventMutation \<times> world" where
  "TenancyEventMutation_OldCreatedAt get m w = mutation_Old ''OldCreatedAt'' en_created_at get m w"

definition TenancyEventMutation_ResetCreatedAt ::
  "TenancyEventMutation \<Rightarrow> TenancyEventMutation" where [ent_ops]:
  "TenancyEventMutation_ResetCreatedAt m = m\<lparr>em_created_at := None\<rparr>"

subsection \<open>The dynamic accessors\<close>

definition TenancyEventMutation_Fields ::
  "TenancyEventMutation \<Rightarrow> string list" where [ent_ops]:
  "TenancyEventMutation_Fields m =
     (if em_event_type m \<noteq> None then [''event_type''] else []) @
     (if em_resource_type m \<noteq> None then [''resource_type''] else []) @
     (if em_resource_id m \<noteq> None then [''resource_id''] else []) @
     (if em_resource_name m \<noteq> None then [''resource_name''] else []) @
     (if em_org_id m \<noteq> None then [''org_id''] else []) @
     (if em_org_name m \<noteq> None then [''org_name''] else []) @
     (if em_folder_id m \<noteq> None then [''folder_id''] else []) @
     (if em_created_at m \<noteq> None then [''created_at''] else [])"

definition TenancyEventMutation_Field ::
  "TenancyEventMutation \<Rightarrow> string \<Rightarrow> gvalue option" where [ent_ops]:
  "TenancyEventMutation_Field m name =
     (if name = ''event_type'' then map_option GString (TenancyEventMutation_EventType m)
      else if name = ''resource_type'' then map_option GString (TenancyEventMutation_ResourceType m)
      else if name = ''resource_id'' then map_option GUUID (TenancyEventMutation_ResourceID m)
      else if name = ''resource_name'' then map_option GString (TenancyEventMutation_ResourceName m)
      else if name = ''org_id'' then map_option GUUID (TenancyEventMutation_OrgID m)
      else if name = ''org_name'' then map_option GString (TenancyEventMutation_OrgName m)
      else if name = ''folder_id'' then map_option GUUID (TenancyEventMutation_FolderID m)
      else if name = ''created_at'' then map_option GTime (TenancyEventMutation_CreatedAt m)
      else None)"

definition TenancyEventMutation_OldField ::
  "(int, event_node) getter \<Rightarrow> string \<Rightarrow> TenancyEventMutation \<Rightarrow> world \<Rightarrow> (go_err + gvalue) \<times> TenancyEventMutation \<times> world" where
  "TenancyEventMutation_OldField get name m w =
     (if name = ''event_type'' then as_value GString (TenancyEventMutation_OldEventType get m w)
      else if name = ''resource_type'' then as_value GString (TenancyEventMutation_OldResourceType get m w)
      else if name = ''resource_id'' then as_value GUUID (TenancyEventMutation_OldResourceID get m w)
      else if name = ''resource_name'' then as_value GString (TenancyEventMutation_OldResourceName get m w)
      else if name = ''org_id'' then as_value GUUIDPtr (TenancyEventMutation_OldOrgID get m w)
      else if name = ''org_name'' then as_value GStringPtr (TenancyEventMutation_OldOrgName get m w)
      else if name = ''folder_id'' then as_value GUUIDPtr (TenancyEventMutation_OldFolderID get m w)
      else if name = ''created_at'' then as_value GTime (TenancyEventMutation_OldCreatedAt get m w)
      else (Inl (Errorf (''unknown TenancyEvent field '' @ name)), m, w))"

definition TenancyEventMutation_SetField ::
  "string \<Rightarrow> gvalue \<Rightarrow> TenancyEventMutation \<Rightarrow> go_err + TenancyEventMutation" where [ent_ops]:
  "TenancyEventMutation_SetField name v m =
     (if name = ''event_type'' then
       (case v of GString x \<Rightarrow> Inr (TenancyEventMutation_SetEventType x m) | _ \<Rightarrow> Inl (unexpected_type v name))
      else if name = ''resource_type'' then
       (case v of GString x \<Rightarrow> Inr (TenancyEventMutation_SetResourceType x m) | _ \<Rightarrow> Inl (unexpected_type v name))
      else if name = ''resource_id'' then
       (case v of GUUID x \<Rightarrow> Inr (TenancyEventMutation_SetResourceID x m) | _ \<Rightarrow> Inl (unexpected_type v name))
      else if name = ''resource_name'' then
       (case v of GString x \<Rightarrow> Inr (TenancyEventMutation_SetResourceName x m) | _ \<Rightarrow> Inl (unexpected_type v name))
      else if name = ''org_id'' then
       (case v of GUUID x \<Rightarrow> Inr (TenancyEventMutation_SetOrgID x m) | _ \<Rightarrow> Inl (unexpected_type v name))
      else if name = ''org_name'' then
       (case v of GString x \<Rightarrow> Inr (TenancyEventMutation_SetOrgName x m) | _ \<Rightarrow> Inl (unexpected_type v name))
      else if name = ''folder_id'' then
       (case v of GUUID x \<Rightarrow> Inr (TenancyEventMutation_SetFolderID x m) | _ \<Rightarrow> Inl (unexpected_type v name))
      else if name = ''created_at'' then
       (case v of GTime x \<Rightarrow> Inr (TenancyEventMutation_SetCreatedAt x m) | _ \<Rightarrow> Inl (unexpected_type v name))
      else Inl (Errorf (''unknown TenancyEvent field '' @ name)))"

definition TenancyEventMutation_AddField ::
  "string \<Rightarrow> gvalue \<Rightarrow> TenancyEventMutation \<Rightarrow> go_err + TenancyEventMutation" where [ent_ops]:
  "TenancyEventMutation_AddField name v m = Inl (Errorf (''unknown TenancyEvent numeric field '' @ name))"

definition TenancyEventMutation_FieldCleared ::
  "TenancyEventMutation \<Rightarrow> string \<Rightarrow> bool" where [ent_ops]:
  "TenancyEventMutation_FieldCleared m name \<longleftrightarrow> name \<in> m_cleared m"

definition TenancyEventMutation_ClearedFields ::
  "TenancyEventMutation \<Rightarrow> string list" where [ent_ops]:
  "TenancyEventMutation_ClearedFields m =
     (if TenancyEventMutation_FieldCleared m ''org_id'' then [''org_id''] else []) @
     (if TenancyEventMutation_FieldCleared m ''org_name'' then [''org_name''] else []) @
     (if TenancyEventMutation_FieldCleared m ''folder_id'' then [''folder_id''] else [])"

definition TenancyEventMutation_ClearField ::
  "string \<Rightarrow> TenancyEventMutation \<Rightarrow> go_err + TenancyEventMutation" where [ent_ops]:
  "TenancyEventMutation_ClearField name m =
     (if name = ''org_id'' then Inr (TenancyEventMutation_ClearOrgID m)
      else if name = ''org_name'' then Inr (TenancyEventMutation_ClearOrgName m)
      else if name = ''folder_id'' then Inr (TenancyEventMutation_ClearFolderID m)
      else Inl (Errorf (''unknown TenancyEvent nullable field '' @ name)))"

definition TenancyEventMutation_ResetField ::
  "string \<Rightarrow> TenancyEventMutation \<Rightarrow> go_err + TenancyEventMutation" where [ent_ops]:
  "TenancyEventMutation_ResetField name m =
     (if name = ''event_type'' then Inr (TenancyEventMutation_ResetEventType m)
      else if name = ''resource_type'' then Inr (TenancyEventMutation_ResetResourceType m)
      else if name = ''resource_id'' then Inr (TenancyEventMutation_ResetResourceID m)
      else if name = ''resource_name'' then Inr (TenancyEventMutation_ResetResourceName m)
      else if name = ''org_id'' then Inr (TenancyEventMutation_ResetOrgID m)
      else if name = ''org_name'' then Inr (TenancyEventMutation_ResetOrgName m)
      else if name = ''folder_id'' then Inr (TenancyEventMutation_ResetFolderID m)
      else if name = ''created_at'' then Inr (TenancyEventMutation_ResetCreatedAt m)
      else Inl (Errorf (''unknown TenancyEvent field '' @ name)))"

text \<open>No edges: the edge accessors return nothing, \<open>ClearEdge\<close> and \<open>ResetEdge\<close> an error.\<close>

definition TenancyEventMutation_ClearEdge ::
  "string \<Rightarrow> TenancyEventMutation \<Rightarrow> go_err + TenancyEventMutation" where [ent_ops]:
  "TenancyEventMutation_ClearEdge name m = Inl (Errorf (''unknown TenancyEvent unique edge '' @ name))"

definition TenancyEventMutation_ResetEdge ::
  "string \<Rightarrow> TenancyEventMutation \<Rightarrow> go_err + TenancyEventMutation" where [ent_ops]:
  "TenancyEventMutation_ResetEdge name m = Inl (Errorf (''unknown TenancyEvent edge '' @ name))"

definition TenancyEventMutation_schema :: "(string \<times> string) list" where
  "TenancyEventMutation_schema =
     [(''event_type'', ''string''),
      (''resource_type'', ''string''),
      (''resource_id'', ''uuid.UUID''),
      (''resource_name'', ''string''),
      (''org_id'', ''uuid.UUID''),
      (''org_name'', ''string''),
      (''folder_id'', ''uuid.UUID''),
      (''created_at'', ''time.Time'')]"

interpretation ef: ent_fields "map fst TenancyEventMutation_schema" "[''org_id'', ''org_name'', ''folder_id'']"
    "\<lambda>n v. map_of TenancyEventMutation_schema n = Some (type_name v)"
    TenancyEventMutation_Field TenancyEventMutation_FieldCleared TenancyEventMutation_Fields TenancyEventMutation_ClearedFields TenancyEventMutation_SetField TenancyEventMutation_ClearField TenancyEventMutation_ResetField
proof (unfold_locales, goal_cases)
  case (3 m) show ?case by (auto simp: TenancyEventMutation_schema_def ent_ops)
next
  case (4 m) show ?case by (auto simp: ent_ops)
next
  case (5 n v) then show ?case by (auto simp: TenancyEventMutation_schema_def split: if_splits)
next
  case (6 m n v) then show ?case by (auto simp: TenancyEventMutation_schema_def ent_ops split: if_splits)
next
  case (7 n v m) then show ?case
    by (cases v) (auto simp: TenancyEventMutation_schema_def ent_ops split: if_splits)
next
  case (8 n v m) then show ?case
    by (cases v) (simp_all add: TenancyEventMutation_schema_def ent_ops split: if_split_asm)
next
  case (9 n m) then show ?case by (auto simp: ent_ops fun_eq_iff)
next
  case (11 n m) then show ?case by (auto simp: TenancyEventMutation_schema_def ent_ops fun_eq_iff)
qed (auto simp: TenancyEventMutation_schema_def ent_ops)

interpretation es: ent_scan TenancyEvent_scan_column TenancyEvent_assign_column
  by unfold_locales
     (auto simp: TenancyEvent_scan_column_def TenancyEvent_assign_column_def split: scanned.splits if_splits)

section \<open>Creation\<close>

type_synonym TenancyEventCreate = "(TenancyEventMutation, event_node) builder"

text \<open>The setters delegate to the mutation.\<close>

definition TenancyEventCreate_SetEventType ::
  "string \<Rightarrow> TenancyEventCreate \<Rightarrow> TenancyEventCreate" where [ent_ops]:
  "TenancyEventCreate_SetEventType v = on_mutation (TenancyEventMutation_SetEventType v)"

definition TenancyEventCreate_SetResourceType ::
  "string \<Rightarrow> TenancyEventCreate \<Rightarrow> TenancyEventCreate" where [ent_ops]:
  "TenancyEventCreate_SetResourceType v = on_mutation (TenancyEventMutation_SetResourceType v)"

definition TenancyEventCreate_SetResourceID ::
  "uuid \<Rightarrow> TenancyEventCreate \<Rightarrow> TenancyEventCreate" where [ent_ops]:
  "TenancyEventCreate_SetResourceID v = on_mutation (TenancyEventMutation_SetResourceID v)"

definition TenancyEventCreate_SetResourceName ::
  "string \<Rightarrow> TenancyEventCreate \<Rightarrow> TenancyEventCreate" where [ent_ops]:
  "TenancyEventCreate_SetResourceName v = on_mutation (TenancyEventMutation_SetResourceName v)"

definition TenancyEventCreate_SetOrgID ::
  "uuid \<Rightarrow> TenancyEventCreate \<Rightarrow> TenancyEventCreate" where [ent_ops]:
  "TenancyEventCreate_SetOrgID v = on_mutation (TenancyEventMutation_SetOrgID v)"

definition TenancyEventCreate_SetNillableOrgID ::
  "uuid option \<Rightarrow> TenancyEventCreate \<Rightarrow> TenancyEventCreate" where [ent_ops]:
  "TenancyEventCreate_SetNillableOrgID = set_nillable TenancyEventCreate_SetOrgID"

definition TenancyEventCreate_SetOrgName ::
  "string \<Rightarrow> TenancyEventCreate \<Rightarrow> TenancyEventCreate" where [ent_ops]:
  "TenancyEventCreate_SetOrgName v = on_mutation (TenancyEventMutation_SetOrgName v)"

definition TenancyEventCreate_SetNillableOrgName ::
  "string option \<Rightarrow> TenancyEventCreate \<Rightarrow> TenancyEventCreate" where [ent_ops]:
  "TenancyEventCreate_SetNillableOrgName = set_nillable TenancyEventCreate_SetOrgName"

definition TenancyEventCreate_SetFolderID ::
  "uuid \<Rightarrow> TenancyEventCreate \<Rightarrow> TenancyEventCreate" where [ent_ops]:
  "TenancyEventCreate_SetFolderID v = on_mutation (TenancyEventMutation_SetFolderID v)"

definition TenancyEventCreate_SetNillableFolderID ::
  "uuid option \<Rightarrow> TenancyEventCreate \<Rightarrow> TenancyEventCreate" where [ent_ops]:
  "TenancyEventCreate_SetNillableFolderID = set_nillable TenancyEventCreate_SetFolderID"

definition TenancyEventCreate_SetCreatedAt ::
  "instant \<Rightarrow> TenancyEventCreate \<Rightarrow> TenancyEventCreate" where [ent_ops]:
  "TenancyEventCreate_SetCreatedAt v = on_mutation (TenancyEventMutation_SetCreatedAt v)"

definition TenancyEventCreate_SetNillableCreatedAt ::
  "instant option \<Rightarrow> TenancyEventCreate \<Rightarrow> TenancyEventCreate" where [ent_ops]:
  "TenancyEventCreate_SetNillableCreatedAt = set_nillable TenancyEventCreate_SetCreatedAt"

definition TenancyEventCreate_SetID ::
  "int \<Rightarrow> TenancyEventCreate \<Rightarrow> TenancyEventCreate" where [ent_ops]:
  "TenancyEventCreate_SetID v = on_mutation (mutation_SetID v)"

definition TenancyEventCreate_defaults ::
  "TenancyEventMutation \<Rightarrow> world \<Rightarrow> TenancyEventMutation \<times> world" where
  "TenancyEventCreate_defaults m w =
     default_now TenancyEventMutation_CreatedAt TenancyEventMutation_SetCreatedAt
       (m, w)"

definition TenancyEventCreate_check ::
  "TenancyEventMutation \<Rightarrow> go_err option" where
  "TenancyEventCreate_check m =
     first_error
       [required (TenancyEventMutation_EventType m) ''event_type'' ''TenancyEvent.event_type'',
        validated not_empty (TenancyEventMutation_EventType m) ''event_type'' ''TenancyEvent.event_type'',
        required (TenancyEventMutation_ResourceType m) ''resource_type'' ''TenancyEvent.resource_type'',
        validated not_empty (TenancyEventMutation_ResourceType m) ''resource_type'' ''TenancyEvent.resource_type'',
        required (TenancyEventMutation_ResourceID m) ''resource_id'' ''TenancyEvent.resource_id'',
        required (TenancyEventMutation_ResourceName m) ''resource_name'' ''TenancyEvent.resource_name'',
        validated max_len (TenancyEventMutation_ResourceName m) ''resource_name'' ''TenancyEvent.resource_name'',
        validated max_len (TenancyEventMutation_OrgName m) ''org_name'' ''TenancyEvent.org_name'',
        required (TenancyEventMutation_CreatedAt m) ''created_at'' ''TenancyEvent.created_at'']"

definition TenancyEventCreate_createSpec ::
  "TenancyEventMutation \<Rightarrow> event_node \<times> create_spec" where
  "TenancyEventCreate_createSpec m =
     (\<lparr>en_id = (case m_id m of None \<Rightarrow> 0 | Some i \<Rightarrow> i),
        en_event_type = (case em_event_type m of None \<Rightarrow> [] | Some v \<Rightarrow> v),
        en_resource_type = (case em_resource_type m of None \<Rightarrow> [] | Some v \<Rightarrow> v),
        en_resource_id = (case em_resource_id m of None \<Rightarrow> 0 | Some v \<Rightarrow> v),
        en_resource_name = (case em_resource_name m of None \<Rightarrow> [] | Some v \<Rightarrow> v),
        en_org_id = em_org_id m,
        en_org_name = em_org_name m,
        en_folder_id = em_folder_id m,
        en_created_at = (case em_created_at m of None \<Rightarrow> 0 | Some v \<Rightarrow> v),
        en_select = (\<lambda>_. None)\<rparr>,
      \<lparr>cs_table = ''tenancy_events'', cs_id_field = (''id'', TypeInt64),
        cs_id = map_option GInt64 (m_id m),
        cs_fields =
          spec_field ''event_type'' TypeString GString (TenancyEventMutation_EventType m) @
          spec_field ''resource_type'' TypeString GString (TenancyEventMutation_ResourceType m) @
          spec_field ''resource_id'' TypeUUID GUUID (TenancyEventMutation_ResourceID m) @
          spec_field ''resource_name'' TypeString GString (TenancyEventMutation_ResourceName m) @
          spec_field ''org_id'' TypeUUID GUUID (TenancyEventMutation_OrgID m) @
          spec_field ''org_name'' TypeString GString (TenancyEventMutation_OrgName m) @
          spec_field ''folder_id'' TypeUUID GUUID (TenancyEventMutation_FolderID m) @
          spec_field ''created_at'' TypeTime GTime (TenancyEventMutation_CreatedAt m),
        cs_edges = []\<rparr>)"

definition TenancyEventCreate_sqlSave ::
  "(event_row, event_node) sqlgraph \<Rightarrow> (TenancyEventMutation, event_node) mutator" where
  "TenancyEventCreate_sqlSave G m w =
     (case TenancyEventCreate_check m of
        Some e \<Rightarrow> (Inl e, m, w)
      | None \<Rightarrow>
          (let (node, spec) = TenancyEventCreate_createSpec m in
           case CreateNode G (m_driver m) spec w of
             (Inl e, w') \<Rightarrow> (Inl (create_err e), m, w')
           | (Inr idv, w') \<Rightarrow>
               (case created_int64 idv (en_id node) of
                  Inl e \<Rightarrow> (Inl e, m, w')
                | Inr i \<Rightarrow>
                    (Inr (node\<lparr>en_id := i\<rparr>), m\<lparr>m_id := Some i, m_done := True\<rparr>, w'))))"

definition TenancyEventCreate_Save ::
  "(event_row, event_node) sqlgraph \<Rightarrow> TenancyEventCreate \<Rightarrow> world \<Rightarrow> (go_err + event_node) \<times> TenancyEventCreate \<times> world" where
  "TenancyEventCreate_Save G c w =
     (let (m, w') = TenancyEventCreate_defaults (b_mutation c) w in
      save_with (TenancyEventCreate_sqlSave G) (c\<lparr>b_mutation := m\<rparr>) w')"

definition TenancyEventCreate_Exec ::
  "(event_row, event_node) sqlgraph \<Rightarrow> TenancyEventCreate \<Rightarrow> world \<Rightarrow> (go_err + unit) \<times> TenancyEventCreate \<times> world" where
  "TenancyEventCreate_Exec G c w = exec_of (TenancyEventCreate_Save G c w)"

definition TenancyEventCreate_SaveX ::
  "(event_row, event_node) sqlgraph \<Rightarrow> TenancyEventCreate \<Rightarrow> world \<Rightarrow> event_node outcome \<times> TenancyEventCreate \<times> world" where
  "TenancyEventCreate_SaveX G c w = must (TenancyEventCreate_Save G c w)"

definition TenancyEventCreate_ExecX ::
  "(event_row, event_node) sqlgraph \<Rightarrow> TenancyEventCreate \<Rightarrow> world \<Rightarrow> unit outcome \<times> TenancyEventCreate \<times> world" where
  "TenancyEventCreate_ExecX G c w = must (TenancyEventCreate_Exec G c w)"

section \<open>Updates\<close>

type_synonym TenancyEventUpdate = "(TenancyEventMutation, nat) builder"
type_synonym TenancyEventUpdateOne = "(TenancyEventMutation, event_node) one_builder"

text \<open>The setters are those of both update builders.\<close>

definition TenancyEventUpdate_Where ::
  "event_row pred list \<Rightarrow> (TenancyEventMutation, 'v, 'z) builder_scheme \<Rightarrow> (TenancyEventMutation, 'v, 'z) builder_scheme" where [ent_ops]:
  "TenancyEventUpdate_Where ps = on_mutation (mutation_Where ps)"

definition TenancyEventUpdate_SetEventType ::
  "string \<Rightarrow> (TenancyEventMutation, 'v, 'z) builder_scheme \<Rightarrow> (TenancyEventMutation, 'v, 'z) builder_scheme" where [ent_ops]:
  "TenancyEventUpdate_SetEventType v = on_mutation (TenancyEventMutation_SetEventType v)"

definition TenancyEventUpdate_SetNillableEventType ::
  "string option \<Rightarrow> (TenancyEventMutation, 'v, 'z) builder_scheme \<Rightarrow> (TenancyEventMutation, 'v, 'z) builder_scheme" where [ent_ops]:
  "TenancyEventUpdate_SetNillableEventType = set_nillable TenancyEventUpdate_SetEventType"

definition TenancyEventUpdate_SetResourceType ::
  "string \<Rightarrow> (TenancyEventMutation, 'v, 'z) builder_scheme \<Rightarrow> (TenancyEventMutation, 'v, 'z) builder_scheme" where [ent_ops]:
  "TenancyEventUpdate_SetResourceType v = on_mutation (TenancyEventMutation_SetResourceType v)"

definition TenancyEventUpdate_SetNillableResourceType ::
  "string option \<Rightarrow> (TenancyEventMutation, 'v, 'z) builder_scheme \<Rightarrow> (TenancyEventMutation, 'v, 'z) builder_scheme" where [ent_ops]:
  "TenancyEventUpdate_SetNillableResourceType = set_nillable TenancyEventUpdate_SetResourceType"

definition TenancyEventUpdate_SetResourceID ::
  "uuid \<Rightarrow> (TenancyEventMutation, 'v, 'z) builder_scheme \<Rightarrow> (TenancyEventMutation, 'v, 'z) builder_scheme" where [ent_ops]:
  "TenancyEventUpdate_SetResourceID v = on_mutation (TenancyEventMutation_SetResourceID v)"

definition TenancyEventUpdate_SetNillableResourceID ::
  "uuid option \<Rightarrow> (TenancyEventMutation, 'v, 'z) builder_scheme \<Rightarrow> (TenancyEventMutation, 'v, 'z) builder_scheme" where [ent_ops]:
  "TenancyEventUpdate_SetNillableResourceID = set_nillable TenancyEventUpdate_SetResourceID"

definition TenancyEventUpdate_SetResourceName ::
  "string \<Rightarrow> (TenancyEventMutation, 'v, 'z) builder_scheme \<Rightarrow> (TenancyEventMutation, 'v, 'z) builder_scheme" where [ent_ops]:
  "TenancyEventUpdate_SetResourceName v = on_mutation (TenancyEventMutation_SetResourceName v)"

definition TenancyEventUpdate_SetNillableResourceName ::
  "string option \<Rightarrow> (TenancyEventMutation, 'v, 'z) builder_scheme \<Rightarrow> (TenancyEventMutation, 'v, 'z) builder_scheme" where [ent_ops]:
  "TenancyEventUpdate_SetNillableResourceName = set_nillable TenancyEventUpdate_SetResourceName"

definition TenancyEventUpdate_SetOrgID ::
  "uuid \<Rightarrow> (TenancyEventMutation, 'v, 'z) builder_scheme \<Rightarrow> (TenancyEventMutation, 'v, 'z) builder_scheme" where [ent_ops]:
  "TenancyEventUpdate_SetOrgID v = on_mutation (TenancyEventMutation_SetOrgID v)"

definition TenancyEventUpdate_SetNillableOrgID ::
  "uuid option \<Rightarrow> (TenancyEventMutation, 'v, 'z) builder_scheme \<Rightarrow> (TenancyEventMutation, 'v, 'z) builder_scheme" where [ent_ops]:
  "TenancyEventUpdate_SetNillableOrgID = set_nillable TenancyEventUpdate_SetOrgID"

definition TenancyEventUpdate_ClearOrgID ::
  "(TenancyEventMutation, 'v, 'z) builder_scheme \<Rightarrow> (TenancyEventMutation, 'v, 'z) builder_scheme" where [ent_ops]:
  "TenancyEventUpdate_ClearOrgID = on_mutation TenancyEventMutation_ClearOrgID"

definition TenancyEventUpdate_SetOrgName ::
  "string \<Rightarrow> (TenancyEventMutation, 'v, 'z) builder_scheme \<Rightarrow> (TenancyEventMutation, 'v, 'z) builder_scheme" where [ent_ops]:
  "TenancyEventUpdate_SetOrgName v = on_mutation (TenancyEventMutation_SetOrgName v)"

definition TenancyEventUpdate_SetNillableOrgName ::
  "string option \<Rightarrow> (TenancyEventMutation, 'v, 'z) builder_scheme \<Rightarrow> (TenancyEventMutation, 'v, 'z) builder_scheme" where [ent_ops]:
  "TenancyEventUpdate_SetNillableOrgName = set_nillable TenancyEventUpdate_SetOrgName"

definition TenancyEventUpdate_ClearOrgName ::
  "(TenancyEventMutation, 'v, 'z) builder_scheme \<Rightarrow> (TenancyEventMutation, 'v, 'z) builder_scheme" where [ent_ops]:
  "TenancyEventUpdate_ClearOrgName = on_mutation TenancyEventMutation_ClearOrgName"

definition TenancyEventUpdate_SetFolderID ::
  "uuid \<Rightarrow> (TenancyEventMutation, 'v, 'z) builder_scheme \<Rightarrow> (TenancyEventMutation, 'v, 'z) builder_scheme" where [ent_ops]:
  "TenancyEventUpdate_SetFolderID v = on_mutation (TenancyEventMutation_SetFolderID v)"

definition TenancyEventUpdate_SetNillableFolderID ::
  "uuid option \<Rightarrow> (TenancyEventMutation, 'v, 'z) builder_scheme \<Rightarrow> (TenancyEventMutation, 'v, 'z) builder_scheme" where [ent_ops]:
  "TenancyEventUpdate_SetNillableFolderID = set_nillable TenancyEventUpdate_SetFolderID"

definition TenancyEventUpdate_ClearFolderID ::
  "(TenancyEventMutation, 'v, 'z) builder_scheme \<Rightarrow> (TenancyEventMutation, 'v, 'z) builder_scheme" where [ent_ops]:
  "TenancyEventUpdate_ClearFolderID = on_mutation TenancyEventMutation_ClearFolderID"

definition TenancyEventUpdateOne_Select ::
  "string \<Rightarrow> string list \<Rightarrow> TenancyEventUpdateOne \<Rightarrow> TenancyEventUpdateOne" where [ent_ops]:
  "TenancyEventUpdateOne_Select fld flds u = u\<lparr>b_fields := fld # flds\<rparr>"

definition TenancyEventUpdate_check ::
  "TenancyEventMutation \<Rightarrow> go_err option" where
  "TenancyEventUpdate_check m =
     first_error
       [validated not_empty (TenancyEventMutation_EventType m) ''event_type'' ''TenancyEvent.event_type'',
        validated not_empty (TenancyEventMutation_ResourceType m) ''resource_type'' ''TenancyEvent.resource_type'',
        validated max_len (TenancyEventMutation_ResourceName m) ''resource_name'' ''TenancyEvent.resource_name'',
        validated max_len (TenancyEventMutation_OrgName m) ''org_name'' ''TenancyEvent.org_name'']"

text \<open>The specification both \<open>sqlSave\<close> build: the bulk update has no id, the update of one node has its id and the columns to return.\<close>

definition TenancyEventUpdate_spec ::
  "TenancyEventMutation \<Rightarrow> gvalue option \<Rightarrow> string list \<Rightarrow> (event_row, event_node) update_spec" where
  "TenancyEventUpdate_spec m i columns =
     \<lparr>us_table = ''tenancy_events'', us_columns = columns, us_id_field = (''id'', TypeInt64), us_id = i,
       us_preds = m_preds m,
       us_set =
          spec_field ''event_type'' TypeString GString (TenancyEventMutation_EventType m) @
          spec_field ''resource_type'' TypeString GString (TenancyEventMutation_ResourceType m) @
          spec_field ''resource_id'' TypeUUID GUUID (TenancyEventMutation_ResourceID m) @
          spec_field ''resource_name'' TypeString GString (TenancyEventMutation_ResourceName m) @
          spec_field ''org_id'' TypeUUID GUUID (TenancyEventMutation_OrgID m) @
          spec_field ''org_name'' TypeString GString (TenancyEventMutation_OrgName m) @
          spec_field ''folder_id'' TypeUUID GUUID (TenancyEventMutation_FolderID m),
       us_clear =
          (if TenancyEventMutation_OrgIDCleared m then [(''org_id'', TypeUUID)] else []) @
          (if TenancyEventMutation_OrgNameCleared m then [(''org_name'', TypeString)] else []) @
          (if TenancyEventMutation_FolderIDCleared m then [(''folder_id'', TypeUUID)] else []),
       us_add_edges =
          [],
       us_clear_edges =
          [],
       us_scan = TenancyEvent_scanValues, us_assign = TenancyEvent_assignValues zero_event_node\<rparr>"

definition TenancyEventUpdate_sqlSave ::
  "(event_row, event_node) sqlgraph \<Rightarrow> (TenancyEventMutation, nat) mutator" where
  "TenancyEventUpdate_sqlSave G m w =
     (case TenancyEventUpdate_check m of
        Some e \<Rightarrow> (Inl e, m, w)
      | None \<Rightarrow>
          (case UpdateNodes G (m_driver m) (TenancyEventUpdate_spec m None TenancyEvent_Columns) w of
             (Inl e, w') \<Rightarrow> (Inl (update_err ''tenancy_event'' e), m, w')
           | (Inr k, w') \<Rightarrow> (Inr k, m\<lparr>m_done := True\<rparr>, w')))"

definition TenancyEventUpdateOne_sqlSave ::
  "(event_row, event_node) sqlgraph \<Rightarrow> string list \<Rightarrow> (TenancyEventMutation, event_node) mutator" where
  "TenancyEventUpdateOne_sqlSave G flds m w =
     (case TenancyEventUpdate_check m of
        Some e \<Rightarrow> (Inl e, m, w)
      | None \<Rightarrow>
          (case m_id m of
             None \<Rightarrow> (Inl (missing_id ''TenancyEvent.id''), m, w)
           | Some i \<Rightarrow>
               (case node_columns TenancyEvent_ValidColumn TenancyEvent_Columns ''id'' flds of
                  Inl e \<Rightarrow> (Inl e, m, w)
                | Inr columns \<Rightarrow>
                    (case UpdateNode G (m_driver m) (TenancyEventUpdate_spec m (Some (GInt64 i)) columns) w of
                       (Inl e, w') \<Rightarrow> (Inl (update_err ''tenancy_event'' e), m, w')
                     | (Inr node, w') \<Rightarrow> (Inr node, m\<lparr>m_done := True\<rparr>, w')))))"

definition TenancyEventUpdate_Save ::
  "(event_row, event_node) sqlgraph \<Rightarrow> TenancyEventUpdate \<Rightarrow> world \<Rightarrow> (go_err + nat) \<times> TenancyEventUpdate \<times> world" where
  "TenancyEventUpdate_Save G u w = save_with (TenancyEventUpdate_sqlSave G) u w"

definition TenancyEventUpdate_Exec ::
  "(event_row, event_node) sqlgraph \<Rightarrow> TenancyEventUpdate \<Rightarrow> world \<Rightarrow> (go_err + unit) \<times> TenancyEventUpdate \<times> world" where
  "TenancyEventUpdate_Exec G u w = exec_of (TenancyEventUpdate_Save G u w)"

definition TenancyEventUpdateOne_Save ::
  "(event_row, event_node) sqlgraph \<Rightarrow> TenancyEventUpdateOne \<Rightarrow> world \<Rightarrow> (go_err + event_node) \<times> TenancyEventUpdateOne \<times> world" where
  "TenancyEventUpdateOne_Save G u w = save_with (TenancyEventUpdateOne_sqlSave G (b_fields u)) u w"

definition TenancyEventUpdateOne_Exec ::
  "(event_row, event_node) sqlgraph \<Rightarrow> TenancyEventUpdateOne \<Rightarrow> world \<Rightarrow> (go_err + unit) \<times> TenancyEventUpdateOne \<times> world" where
  "TenancyEventUpdateOne_Exec G u w = exec_of (TenancyEventUpdateOne_Save G u w)"

section \<open>Deletes\<close>

type_synonym TenancyEventDelete = "(TenancyEventMutation, nat) builder"

definition TenancyEventDelete_Where ::
  "event_row pred list \<Rightarrow> TenancyEventDelete \<Rightarrow> TenancyEventDelete" where [ent_ops]:
  "TenancyEventDelete_Where ps = on_mutation (mutation_Where ps)"

definition TenancyEventDelete_sqlExec ::
  "(event_row, event_node) sqlgraph \<Rightarrow> (TenancyEventMutation, nat) mutator" where
  "TenancyEventDelete_sqlExec G m w =
     (case DeleteNodes G (m_driver m)
             \<lparr>ds_table = ''tenancy_events'', ds_id_field = (''id'', TypeInt64), ds_preds = m_preds m\<rparr> w of
        (res, w') \<Rightarrow> (map_sum create_err id res, m\<lparr>m_done := True\<rparr>, w'))"

definition TenancyEventDelete_Exec ::
  "(event_row, event_node) sqlgraph \<Rightarrow> TenancyEventDelete \<Rightarrow> world \<Rightarrow> (go_err + nat) \<times> TenancyEventDelete \<times> world" where
  "TenancyEventDelete_Exec G b w = save_with (TenancyEventDelete_sqlExec G) b w"

definition TenancyEventDeleteOne_Exec ::
  "(event_row, event_node) sqlgraph \<Rightarrow> TenancyEventDelete \<Rightarrow> world \<Rightarrow> (go_err + unit) \<times> TenancyEventDelete \<times> world" where
  "TenancyEventDeleteOne_Exec G b w =
     (case TenancyEventDelete_Exec G b w of
        (Inl e, b', w') \<Rightarrow> (Inl e, b', w')
      | (Inr n, b', w') \<Rightarrow> (if n = 0 then Inl (NotFoundError ''tenancy_event'') else Inr (), b', w'))"

section \<open>The client\<close>

definition TenancyEventClient_Create ::
  "driver \<Rightarrow> (TenancyEventMutation, event_node) hook list \<Rightarrow> TenancyEventCreate" where [ent_ops]:
  "TenancyEventClient_Create drv hooks = \<lparr>b_mutation = newTenancyEventMutation drv OpCreate [], b_hooks = hooks\<rparr>"

definition TenancyEventClient_Update ::
  "driver \<Rightarrow> (TenancyEventMutation, nat) hook list \<Rightarrow> TenancyEventUpdate" where [ent_ops]:
  "TenancyEventClient_Update drv hooks = \<lparr>b_mutation = newTenancyEventMutation drv OpUpdate [], b_hooks = hooks\<rparr>"

definition TenancyEventClient_UpdateOne ::
  "driver \<Rightarrow> (TenancyEventMutation, event_node) hook list \<Rightarrow> event_node \<Rightarrow> TenancyEventUpdateOne" where [ent_ops]:
  "TenancyEventClient_UpdateOne drv hooks n =
     \<lparr>b_mutation = newTenancyEventMutation drv OpUpdateOne [with_node en_id n], b_hooks = hooks, b_fields = []\<rparr>"

definition TenancyEventClient_UpdateOneID ::
  "driver \<Rightarrow> (TenancyEventMutation, event_node) hook list \<Rightarrow> int \<Rightarrow> TenancyEventUpdateOne" where [ent_ops]:
  "TenancyEventClient_UpdateOneID drv hooks i =
     \<lparr>b_mutation = newTenancyEventMutation drv OpUpdateOne [with_id i], b_hooks = hooks, b_fields = []\<rparr>"

definition TenancyEventClient_Delete ::
  "driver \<Rightarrow> (TenancyEventMutation, nat) hook list \<Rightarrow> TenancyEventDelete" where [ent_ops]:
  "TenancyEventClient_Delete drv hooks = \<lparr>b_mutation = newTenancyEventMutation drv OpDelete [], b_hooks = hooks\<rparr>"

definition TenancyEventClient_DeleteOneID ::
  "driver \<Rightarrow> (TenancyEventMutation, nat) hook list \<Rightarrow> int \<Rightarrow> TenancyEventDelete" where [ent_ops]:
  "TenancyEventClient_DeleteOneID drv hooks i =
     on_mutation (\<lambda>m. m\<lparr>m_id := Some i, m_op := OpDeleteOne\<rparr>)
       (TenancyEventDelete_Where [\<lambda>d r. ev_id r = i] (TenancyEventClient_Delete drv hooks))"

definition TenancyEventClient_DeleteOne ::
  "driver \<Rightarrow> (TenancyEventMutation, nat) hook list \<Rightarrow> event_node \<Rightarrow> TenancyEventDelete" where [ent_ops]:
  "TenancyEventClient_DeleteOne drv hooks n = TenancyEventClient_DeleteOneID drv hooks (en_id n)"

text \<open>A row as its query returns it.\<close>

definition event_node_of :: "event_row \<Rightarrow> event_node" where
  "event_node_of r =
     \<lparr>en_id = ev_id r,
       en_event_type = ev_type r,
       en_resource_type = ev_resource_type r,
       en_resource_id = ev_resource_id r,
       en_resource_name = ev_resource_name r,
       en_org_id = ev_org_id r,
       en_org_name = ev_org_name r,
       en_folder_id = ev_folder_id r,
       en_created_at = ev_created_at r,
       en_select = (\<lambda>_. None)\<rparr>"

definition TenancyEventClient_Get :: "(int, event_node) getter" where
  "TenancyEventClient_Get drv i =
     run_driver drv
       (select (\<lambda>d. map_sum id event_node_of (query_only ''tenancy_event'' (query (filter (\<lambda>r. ev_id r = i) (events d))))))"

end
