(* ===== verification/Ent_Status.thy ===== *)
theory Ent_Status
  imports Ent_Base
begin

text \<open>
  The entity \<open>ControllerStatus\<close> of tenancy-manager/internal/ent: its node and the scanning of its
  rows (controllerstatus.go), its mutation (mutation.go), its builders (controllerstatus\_create.go, controllerstatus\_update.go,
  controllerstatus\_delete.go) and its client (client.go).
\<close>

section \<open>The node\<close>

text \<open>The struct \<open>ControllerStatus\<close>; \<open>selectValues\<close> keeps the columns that are not fields.\<close>

record status_node =
  cn_id :: int
  cn_controller_name :: string
  cn_resource_type :: string
  cn_resource_id :: uuid
  cn_status :: string
  cn_message :: string
  cn_updated_at :: instant
  cn_select :: "string \<Rightarrow> scanned option"

definition zero_status_node :: "status_node" where [ent_ops]:
  "zero_status_node =
     \<lparr>cn_id = 0,
       cn_controller_name = [],
       cn_resource_type = [],
       cn_resource_id = 0,
       cn_status = [],
       cn_message = [],
       cn_updated_at = 0,
       cn_select = (\<lambda>_. None)\<rparr>"

definition ControllerStatus_Columns :: "string list" where
  "ControllerStatus_Columns = [''id'', ''controller_name'', ''resource_type'', ''resource_id'', ''status'', ''message'', ''updated_at'']"

definition ControllerStatus_ValidColumn :: "string \<Rightarrow> bool" where
  "ControllerStatus_ValidColumn c \<longleftrightarrow> c \<in> set ControllerStatus_Columns"

text \<open>\<open>scanValues\<close> and \<open>assignValues\<close>, one column at a time.\<close>

definition ControllerStatus_scan_column :: "string \<Rightarrow> scan_type" where
  "ControllerStatus_scan_column c =
     (if c = ''id'' then TNullInt64
      else if c = ''controller_name'' then TNullString
      else if c = ''resource_type'' then TNullString
      else if c = ''resource_id'' then TUUID
      else if c = ''status'' then TNullString
      else if c = ''message'' then TNullString
      else if c = ''updated_at'' then TNullTime
      else TUnknown)"

definition ControllerStatus_scanValues :: "string list \<Rightarrow> scan_type list" where
  "ControllerStatus_scanValues columns = map ControllerStatus_scan_column columns"

definition ControllerStatus_assign_column ::
  "string \<Rightarrow> scanned \<Rightarrow> status_node \<Rightarrow> go_err + status_node" where
  "ControllerStatus_assign_column c v n =
     (if c = ''id'' then
       (case v of SNullInt64 i \<Rightarrow> Inr (n\<lparr>cn_id := (case i of None \<Rightarrow> 0 | Some j \<Rightarrow> j)\<rparr>)
        | _ \<Rightarrow> Inl (Errorf ''unexpected type *sql.NullInt64 for field id''))
      else if c = ''controller_name'' then
       (case v of SNullString x \<Rightarrow> Inr (case x of None \<Rightarrow> n | Some y \<Rightarrow> n\<lparr>cn_controller_name := y\<rparr>)
        | _ \<Rightarrow> Inl (unexpected_scan v ''controller_name''))
      else if c = ''resource_type'' then
       (case v of SNullString x \<Rightarrow> Inr (case x of None \<Rightarrow> n | Some y \<Rightarrow> n\<lparr>cn_resource_type := y\<rparr>)
        | _ \<Rightarrow> Inl (unexpected_scan v ''resource_type''))
      else if c = ''resource_id'' then
       (case v of SUUID i \<Rightarrow> Inr (n\<lparr>cn_resource_id := i\<rparr>) | _ \<Rightarrow> Inl (unexpected_scan v ''resource_id''))
      else if c = ''status'' then
       (case v of SNullString x \<Rightarrow> Inr (case x of None \<Rightarrow> n | Some y \<Rightarrow> n\<lparr>cn_status := y\<rparr>)
        | _ \<Rightarrow> Inl (unexpected_scan v ''status''))
      else if c = ''message'' then
       (case v of SNullString x \<Rightarrow> Inr (case x of None \<Rightarrow> n | Some y \<Rightarrow> n\<lparr>cn_message := y\<rparr>)
        | _ \<Rightarrow> Inl (unexpected_scan v ''message''))
      else if c = ''updated_at'' then
       (case v of SNullTime x \<Rightarrow> Inr (case x of None \<Rightarrow> n | Some y \<Rightarrow> n\<lparr>cn_updated_at := y\<rparr>)
        | _ \<Rightarrow> Inl (unexpected_scan v ''updated_at''))
      else Inr (n\<lparr>cn_select := (cn_select n)(c \<mapsto> v)\<rparr>))"

definition ControllerStatus_assignValues ::
  "status_node \<Rightarrow> string list \<Rightarrow> scanned list \<Rightarrow> go_err + status_node" where
  "ControllerStatus_assignValues n columns vals = assign_columns ControllerStatus_assign_column columns vals n"

section \<open>The mutation\<close>

record ControllerStatusMutation = "(int, status_node, status_row) mutation" +
  cm_controller_name :: "string option"
  cm_resource_type :: "string option"
  cm_resource_id :: "uuid option"
  cm_status :: "string option"
  cm_message :: "string option"
  cm_updated_at :: "instant option"

definition newControllerStatusMutation ::
  "driver \<Rightarrow> op \<Rightarrow> (ControllerStatusMutation \<Rightarrow> ControllerStatusMutation) list \<Rightarrow> ControllerStatusMutation" where [ent_ops]:
  "newControllerStatusMutation drv oper opts =
     fold (\<lambda>opt m. opt m) opts
       \<lparr>m_op = oper, m_typ = ''ControllerStatus'', m_driver = drv, m_id = None,
        m_cleared = {}, m_done = False, m_old = None, m_preds = [],
        cm_controller_name = None, cm_resource_type = None, cm_resource_id = None,
        cm_status = None, cm_message = None, cm_updated_at = None\<rparr>"

definition ControllerStatusMutation_IDs ::
  "(driver \<Rightarrow> status_row pred list \<Rightarrow> world \<Rightarrow> (go_err + int list) \<times> world)
     \<Rightarrow> ControllerStatusMutation \<Rightarrow> world \<Rightarrow> (go_err + int list) \<times> world" where
  "ControllerStatusMutation_IDs all m w = mutation_IDs all m w"

definition ControllerStatusMutation_SetControllerName ::
  "string \<Rightarrow> ControllerStatusMutation \<Rightarrow> ControllerStatusMutation" where [ent_ops]:
  "ControllerStatusMutation_SetControllerName v m = m\<lparr>cm_controller_name := Some v\<rparr>"

definition ControllerStatusMutation_ControllerName ::
  "ControllerStatusMutation \<Rightarrow> string option" where [ent_ops]:
  "ControllerStatusMutation_ControllerName m = cm_controller_name m"

definition ControllerStatusMutation_OldControllerName ::
  "(int, status_node) getter \<Rightarrow> ControllerStatusMutation \<Rightarrow> world \<Rightarrow> (go_err + string) \<times> ControllerStatusMutation \<times> world" where
  "ControllerStatusMutation_OldControllerName get m w = mutation_Old ''OldControllerName'' cn_controller_name get m w"

definition ControllerStatusMutation_ResetControllerName ::
  "ControllerStatusMutation \<Rightarrow> ControllerStatusMutation" where [ent_ops]:
  "ControllerStatusMutation_ResetControllerName m = m\<lparr>cm_controller_name := None\<rparr>"

definition ControllerStatusMutation_SetResourceType ::
  "string \<Rightarrow> ControllerStatusMutation \<Rightarrow> ControllerStatusMutation" where [ent_ops]:
  "ControllerStatusMutation_SetResourceType v m = m\<lparr>cm_resource_type := Some v\<rparr>"

definition ControllerStatusMutation_ResourceType ::
  "ControllerStatusMutation \<Rightarrow> string option" where [ent_ops]:
  "ControllerStatusMutation_ResourceType m = cm_resource_type m"

definition ControllerStatusMutation_OldResourceType ::
  "(int, status_node) getter \<Rightarrow> ControllerStatusMutation \<Rightarrow> world \<Rightarrow> (go_err + string) \<times> ControllerStatusMutation \<times> world" where
  "ControllerStatusMutation_OldResourceType get m w = mutation_Old ''OldResourceType'' cn_resource_type get m w"

definition ControllerStatusMutation_ResetResourceType ::
  "ControllerStatusMutation \<Rightarrow> ControllerStatusMutation" where [ent_ops]:
  "ControllerStatusMutation_ResetResourceType m = m\<lparr>cm_resource_type := None\<rparr>"

definition ControllerStatusMutation_SetResourceID ::
  "uuid \<Rightarrow> ControllerStatusMutation \<Rightarrow> ControllerStatusMutation" where [ent_ops]:
  "ControllerStatusMutation_SetResourceID v m = m\<lparr>cm_resource_id := Some v\<rparr>"

definition ControllerStatusMutation_ResourceID ::
  "ControllerStatusMutation \<Rightarrow> uuid option" where [ent_ops]:
  "ControllerStatusMutation_ResourceID m = cm_resource_id m"

definition ControllerStatusMutation_OldResourceID ::
  "(int, status_node) getter \<Rightarrow> ControllerStatusMutation \<Rightarrow> world \<Rightarrow> (go_err + uuid) \<times> ControllerStatusMutation \<times> world" where
  "ControllerStatusMutation_OldResourceID get m w = mutation_Old ''OldResourceID'' cn_resource_id get m w"

definition ControllerStatusMutation_ResetResourceID ::
  "ControllerStatusMutation \<Rightarrow> ControllerStatusMutation" where [ent_ops]:
  "ControllerStatusMutation_ResetResourceID m = m\<lparr>cm_resource_id := None\<rparr>"

definition ControllerStatusMutation_SetStatus ::
  "string \<Rightarrow> ControllerStatusMutation \<Rightarrow> ControllerStatusMutation" where [ent_ops]:
  "ControllerStatusMutation_SetStatus v m = m\<lparr>cm_status := Some v\<rparr>"

definition ControllerStatusMutation_Status ::
  "ControllerStatusMutation \<Rightarrow> string option" where [ent_ops]:
  "ControllerStatusMutation_Status m = cm_status m"

definition ControllerStatusMutation_OldStatus ::
  "(int, status_node) getter \<Rightarrow> ControllerStatusMutation \<Rightarrow> world \<Rightarrow> (go_err + string) \<times> ControllerStatusMutation \<times> world" where
  "ControllerStatusMutation_OldStatus get m w = mutation_Old ''OldStatus'' cn_status get m w"

definition ControllerStatusMutation_ResetStatus ::
  "ControllerStatusMutation \<Rightarrow> ControllerStatusMutation" where [ent_ops]:
  "ControllerStatusMutation_ResetStatus m = m\<lparr>cm_status := None\<rparr>"

definition ControllerStatusMutation_SetMessage ::
  "string \<Rightarrow> ControllerStatusMutation \<Rightarrow> ControllerStatusMutation" where [ent_ops]:
  "ControllerStatusMutation_SetMessage v m = m\<lparr>cm_message := Some v\<rparr>"

definition ControllerStatusMutation_Message ::
  "ControllerStatusMutation \<Rightarrow> string option" where [ent_ops]:
  "ControllerStatusMutation_Message m = cm_message m"

definition ControllerStatusMutation_OldMessage ::
  "(int, status_node) getter \<Rightarrow> ControllerStatusMutation \<Rightarrow> world \<Rightarrow> (go_err + string) \<times> ControllerStatusMutation \<times> world" where
  "ControllerStatusMutation_OldMessage get m w = mutation_Old ''OldMessage'' cn_message get m w"

definition ControllerStatusMutation_ResetMessage ::
  "ControllerStatusMutation \<Rightarrow> ControllerStatusMutation" where [ent_ops]:
  "ControllerStatusMutation_ResetMessage m = m\<lparr>cm_message := None\<rparr>"

definition ControllerStatusMutation_SetUpdatedAt ::
  "instant \<Rightarrow> ControllerStatusMutation \<Rightarrow> ControllerStatusMutation" where [ent_ops]:
  "ControllerStatusMutation_SetUpdatedAt v m = m\<lparr>cm_updated_at := Some v\<rparr>"

definition ControllerStatusMutation_UpdatedAt ::
  "ControllerStatusMutation \<Rightarrow> instant option" where [ent_ops]:
  "ControllerStatusMutation_UpdatedAt m = cm_updated_at m"

definition ControllerStatusMutation_OldUpdatedAt ::
  "(int, status_node) getter \<Rightarrow> ControllerStatusMutation \<Rightarrow> world \<Rightarrow> (go_err + instant) \<times> ControllerStatusMutation \<times> world" where
  "ControllerStatusMutation_OldUpdatedAt get m w = mutation_Old ''OldUpdatedAt'' cn_updated_at get m w"

definition ControllerStatusMutation_ResetUpdatedAt ::
  "ControllerStatusMutation \<Rightarrow> ControllerStatusMutation" where [ent_ops]:
  "ControllerStatusMutation_ResetUpdatedAt m = m\<lparr>cm_updated_at := None\<rparr>"

subsection \<open>The dynamic accessors\<close>

definition ControllerStatusMutation_Fields ::
  "ControllerStatusMutation \<Rightarrow> string list" where [ent_ops]:
  "ControllerStatusMutation_Fields m =
     (if cm_controller_name m \<noteq> None then [''controller_name''] else []) @
     (if cm_resource_type m \<noteq> None then [''resource_type''] else []) @
     (if cm_resource_id m \<noteq> None then [''resource_id''] else []) @
     (if cm_status m \<noteq> None then [''status''] else []) @
     (if cm_message m \<noteq> None then [''message''] else []) @
     (if cm_updated_at m \<noteq> None then [''updated_at''] else [])"

definition ControllerStatusMutation_Field ::
  "ControllerStatusMutation \<Rightarrow> string \<Rightarrow> gvalue option" where [ent_ops]:
  "ControllerStatusMutation_Field m name =
     (if name = ''controller_name'' then map_option GString (ControllerStatusMutation_ControllerName m)
      else if name = ''resource_type'' then map_option GString (ControllerStatusMutation_ResourceType m)
      else if name = ''resource_id'' then map_option GUUID (ControllerStatusMutation_ResourceID m)
      else if name = ''status'' then map_option GStatus (ControllerStatusMutation_Status m)
      else if name = ''message'' then map_option GString (ControllerStatusMutation_Message m)
      else if name = ''updated_at'' then map_option GTime (ControllerStatusMutation_UpdatedAt m)
      else None)"

definition ControllerStatusMutation_OldField ::
  "(int, status_node) getter \<Rightarrow> string \<Rightarrow> ControllerStatusMutation \<Rightarrow> world \<Rightarrow> (go_err + gvalue) \<times> ControllerStatusMutation \<times> world" where
  "ControllerStatusMutation_OldField get name m w =
     (if name = ''controller_name'' then as_value GString (ControllerStatusMutation_OldControllerName get m w)
      else if name = ''resource_type'' then as_value GString (ControllerStatusMutation_OldResourceType get m w)
      else if name = ''resource_id'' then as_value GUUID (ControllerStatusMutation_OldResourceID get m w)
      else if name = ''status'' then as_value GStatus (ControllerStatusMutation_OldStatus get m w)
      else if name = ''message'' then as_value GString (ControllerStatusMutation_OldMessage get m w)
      else if name = ''updated_at'' then as_value GTime (ControllerStatusMutation_OldUpdatedAt get m w)
      else (Inl (Errorf (''unknown ControllerStatus field '' @ name)), m, w))"

definition ControllerStatusMutation_SetField ::
  "string \<Rightarrow> gvalue \<Rightarrow> ControllerStatusMutation \<Rightarrow> go_err + ControllerStatusMutation" where [ent_ops]:
  "ControllerStatusMutation_SetField name v m =
     (if name = ''controller_name'' then
       (case v of GString x \<Rightarrow> Inr (ControllerStatusMutation_SetControllerName x m) | _ \<Rightarrow> Inl (unexpected_type v name))
      else if name = ''resource_type'' then
       (case v of GString x \<Rightarrow> Inr (ControllerStatusMutation_SetResourceType x m) | _ \<Rightarrow> Inl (unexpected_type v name))
      else if name = ''resource_id'' then
       (case v of GUUID x \<Rightarrow> Inr (ControllerStatusMutation_SetResourceID x m) | _ \<Rightarrow> Inl (unexpected_type v name))
      else if name = ''status'' then
       (case v of GStatus x \<Rightarrow> Inr (ControllerStatusMutation_SetStatus x m) | _ \<Rightarrow> Inl (unexpected_type v name))
      else if name = ''message'' then
       (case v of GString x \<Rightarrow> Inr (ControllerStatusMutation_SetMessage x m) | _ \<Rightarrow> Inl (unexpected_type v name))
      else if name = ''updated_at'' then
       (case v of GTime x \<Rightarrow> Inr (ControllerStatusMutation_SetUpdatedAt x m) | _ \<Rightarrow> Inl (unexpected_type v name))
      else Inl (Errorf (''unknown ControllerStatus field '' @ name)))"

definition ControllerStatusMutation_AddField ::
  "string \<Rightarrow> gvalue \<Rightarrow> ControllerStatusMutation \<Rightarrow> go_err + ControllerStatusMutation" where [ent_ops]:
  "ControllerStatusMutation_AddField name v m = Inl (Errorf (''unknown ControllerStatus numeric field '' @ name))"

definition ControllerStatusMutation_FieldCleared ::
  "ControllerStatusMutation \<Rightarrow> string \<Rightarrow> bool" where [ent_ops]:
  "ControllerStatusMutation_FieldCleared m name \<longleftrightarrow> name \<in> m_cleared m"

definition ControllerStatusMutation_ClearedFields ::
  "ControllerStatusMutation \<Rightarrow> string list" where [ent_ops]:
  "ControllerStatusMutation_ClearedFields m = []"

definition ControllerStatusMutation_ClearField ::
  "string \<Rightarrow> ControllerStatusMutation \<Rightarrow> go_err + ControllerStatusMutation" where [ent_ops]:
  "ControllerStatusMutation_ClearField name m = Inl (Errorf (''unknown ControllerStatus nullable field '' @ name))"

definition ControllerStatusMutation_ResetField ::
  "string \<Rightarrow> ControllerStatusMutation \<Rightarrow> go_err + ControllerStatusMutation" where [ent_ops]:
  "ControllerStatusMutation_ResetField name m =
     (if name = ''controller_name'' then Inr (ControllerStatusMutation_ResetControllerName m)
      else if name = ''resource_type'' then Inr (ControllerStatusMutation_ResetResourceType m)
      else if name = ''resource_id'' then Inr (ControllerStatusMutation_ResetResourceID m)
      else if name = ''status'' then Inr (ControllerStatusMutation_ResetStatus m)
      else if name = ''message'' then Inr (ControllerStatusMutation_ResetMessage m)
      else if name = ''updated_at'' then Inr (ControllerStatusMutation_ResetUpdatedAt m)
      else Inl (Errorf (''unknown ControllerStatus field '' @ name)))"

text \<open>No edges: the edge accessors return nothing, \<open>ClearEdge\<close> and \<open>ResetEdge\<close> an error.\<close>

definition ControllerStatusMutation_ClearEdge ::
  "string \<Rightarrow> ControllerStatusMutation \<Rightarrow> go_err + ControllerStatusMutation" where [ent_ops]:
  "ControllerStatusMutation_ClearEdge name m = Inl (Errorf (''unknown ControllerStatus unique edge '' @ name))"

definition ControllerStatusMutation_ResetEdge ::
  "string \<Rightarrow> ControllerStatusMutation \<Rightarrow> go_err + ControllerStatusMutation" where [ent_ops]:
  "ControllerStatusMutation_ResetEdge name m = Inl (Errorf (''unknown ControllerStatus edge '' @ name))"

definition ControllerStatusMutation_schema :: "(string \<times> string) list" where
  "ControllerStatusMutation_schema =
     [(''controller_name'', ''string''),
      (''resource_type'', ''string''),
      (''resource_id'', ''uuid.UUID''),
      (''status'', ''controllerstatus.Status''),
      (''message'', ''string''),
      (''updated_at'', ''time.Time'')]"

interpretation cf: ent_fields "map fst ControllerStatusMutation_schema" "[] :: string list"
    "\<lambda>n v. map_of ControllerStatusMutation_schema n = Some (type_name v)"
    ControllerStatusMutation_Field ControllerStatusMutation_FieldCleared ControllerStatusMutation_Fields ControllerStatusMutation_ClearedFields ControllerStatusMutation_SetField ControllerStatusMutation_ClearField ControllerStatusMutation_ResetField
proof (unfold_locales, goal_cases)
  case (3 m) show ?case by (auto simp: ControllerStatusMutation_schema_def ent_ops)
next
  case (4 m) show ?case by (auto simp: ent_ops)
next
  case (5 n v) then show ?case by (auto simp: ControllerStatusMutation_schema_def split: if_splits)
next
  case (6 m n v) then show ?case by (auto simp: ControllerStatusMutation_schema_def ent_ops split: if_splits)
next
  case (7 n v m) then show ?case
    by (cases v) (auto simp: ControllerStatusMutation_schema_def ent_ops split: if_splits)
next
  case (8 n v m) then show ?case
    by (cases v) (simp_all add: ControllerStatusMutation_schema_def ent_ops split: if_split_asm)
next
  case (9 n m) then show ?case by (auto simp: ent_ops fun_eq_iff)
next
  case (11 n m) then show ?case by (auto simp: ControllerStatusMutation_schema_def ent_ops fun_eq_iff)
qed (auto simp: ControllerStatusMutation_schema_def ent_ops)

interpretation cs: ent_scan ControllerStatus_scan_column ControllerStatus_assign_column
  by unfold_locales
     (auto simp: ControllerStatus_scan_column_def ControllerStatus_assign_column_def split: scanned.splits if_splits)

section \<open>Creation\<close>

type_synonym ControllerStatusCreate = "(ControllerStatusMutation, status_node) builder"

text \<open>The setters delegate to the mutation.\<close>

definition ControllerStatusCreate_SetControllerName ::
  "string \<Rightarrow> ControllerStatusCreate \<Rightarrow> ControllerStatusCreate" where [ent_ops]:
  "ControllerStatusCreate_SetControllerName v = on_mutation (ControllerStatusMutation_SetControllerName v)"

definition ControllerStatusCreate_SetResourceType ::
  "string \<Rightarrow> ControllerStatusCreate \<Rightarrow> ControllerStatusCreate" where [ent_ops]:
  "ControllerStatusCreate_SetResourceType v = on_mutation (ControllerStatusMutation_SetResourceType v)"

definition ControllerStatusCreate_SetResourceID ::
  "uuid \<Rightarrow> ControllerStatusCreate \<Rightarrow> ControllerStatusCreate" where [ent_ops]:
  "ControllerStatusCreate_SetResourceID v = on_mutation (ControllerStatusMutation_SetResourceID v)"

definition ControllerStatusCreate_SetStatus ::
  "string \<Rightarrow> ControllerStatusCreate \<Rightarrow> ControllerStatusCreate" where [ent_ops]:
  "ControllerStatusCreate_SetStatus v = on_mutation (ControllerStatusMutation_SetStatus v)"

definition ControllerStatusCreate_SetNillableStatus ::
  "string option \<Rightarrow> ControllerStatusCreate \<Rightarrow> ControllerStatusCreate" where [ent_ops]:
  "ControllerStatusCreate_SetNillableStatus = set_nillable ControllerStatusCreate_SetStatus"

definition ControllerStatusCreate_SetMessage ::
  "string \<Rightarrow> ControllerStatusCreate \<Rightarrow> ControllerStatusCreate" where [ent_ops]:
  "ControllerStatusCreate_SetMessage v = on_mutation (ControllerStatusMutation_SetMessage v)"

definition ControllerStatusCreate_SetNillableMessage ::
  "string option \<Rightarrow> ControllerStatusCreate \<Rightarrow> ControllerStatusCreate" where [ent_ops]:
  "ControllerStatusCreate_SetNillableMessage = set_nillable ControllerStatusCreate_SetMessage"

definition ControllerStatusCreate_SetUpdatedAt ::
  "instant \<Rightarrow> ControllerStatusCreate \<Rightarrow> ControllerStatusCreate" where [ent_ops]:
  "ControllerStatusCreate_SetUpdatedAt v = on_mutation (ControllerStatusMutation_SetUpdatedAt v)"

definition ControllerStatusCreate_SetNillableUpdatedAt ::
  "instant option \<Rightarrow> ControllerStatusCreate \<Rightarrow> ControllerStatusCreate" where [ent_ops]:
  "ControllerStatusCreate_SetNillableUpdatedAt = set_nillable ControllerStatusCreate_SetUpdatedAt"

definition ControllerStatusCreate_defaults ::
  "ControllerStatusMutation \<Rightarrow> world \<Rightarrow> ControllerStatusMutation \<times> world" where
  "ControllerStatusCreate_defaults m w =
     default_now ControllerStatusMutation_UpdatedAt ControllerStatusMutation_SetUpdatedAt
       (default_value [] ControllerStatusMutation_Message ControllerStatusMutation_SetMessage
       (default_value ''in_progress'' ControllerStatusMutation_Status ControllerStatusMutation_SetStatus
       (m, w)))"

definition ControllerStatusCreate_check ::
  "ControllerStatusMutation \<Rightarrow> go_err option" where
  "ControllerStatusCreate_check m =
     first_error
       [required (ControllerStatusMutation_ControllerName m) ''controller_name'' ''ControllerStatus.controller_name'',
        validated not_empty (ControllerStatusMutation_ControllerName m) ''controller_name'' ''ControllerStatus.controller_name'',
        required (ControllerStatusMutation_ResourceType m) ''resource_type'' ''ControllerStatus.resource_type'',
        validated not_empty (ControllerStatusMutation_ResourceType m) ''resource_type'' ''ControllerStatus.resource_type'',
        required (ControllerStatusMutation_ResourceID m) ''resource_id'' ''ControllerStatus.resource_id'',
        required (ControllerStatusMutation_Status m) ''status'' ''ControllerStatus.status'',
        validated status_validator (ControllerStatusMutation_Status m) ''status'' ''ControllerStatus.status'',
        required (ControllerStatusMutation_Message m) ''message'' ''ControllerStatus.message'',
        required (ControllerStatusMutation_UpdatedAt m) ''updated_at'' ''ControllerStatus.updated_at'']"

definition ControllerStatusCreate_createSpec ::
  "ControllerStatusMutation \<Rightarrow> status_node \<times> create_spec" where
  "ControllerStatusCreate_createSpec m =
     (\<lparr>cn_id = 0,
        cn_controller_name = (case cm_controller_name m of None \<Rightarrow> [] | Some v \<Rightarrow> v),
        cn_resource_type = (case cm_resource_type m of None \<Rightarrow> [] | Some v \<Rightarrow> v),
        cn_resource_id = (case cm_resource_id m of None \<Rightarrow> 0 | Some v \<Rightarrow> v),
        cn_status = (case cm_status m of None \<Rightarrow> [] | Some v \<Rightarrow> v),
        cn_message = (case cm_message m of None \<Rightarrow> [] | Some v \<Rightarrow> v),
        cn_updated_at = (case cm_updated_at m of None \<Rightarrow> 0 | Some v \<Rightarrow> v),
        cn_select = (\<lambda>_. None)\<rparr>,
      \<lparr>cs_table = ''controller_status'', cs_id_field = (''id'', TypeInt),
        cs_id = None,
        cs_fields =
          spec_field ''controller_name'' TypeString GString (ControllerStatusMutation_ControllerName m) @
          spec_field ''resource_type'' TypeString GString (ControllerStatusMutation_ResourceType m) @
          spec_field ''resource_id'' TypeUUID GUUID (ControllerStatusMutation_ResourceID m) @
          spec_field ''status'' TypeEnum GStatus (ControllerStatusMutation_Status m) @
          spec_field ''message'' TypeString GString (ControllerStatusMutation_Message m) @
          spec_field ''updated_at'' TypeTime GTime (ControllerStatusMutation_UpdatedAt m),
        cs_edges = []\<rparr>)"

definition ControllerStatusCreate_sqlSave ::
  "(status_row, status_node) sqlgraph \<Rightarrow> (ControllerStatusMutation, status_node) mutator" where
  "ControllerStatusCreate_sqlSave G m w =
     (case ControllerStatusCreate_check m of
        Some e \<Rightarrow> (Inl e, m, w)
      | None \<Rightarrow>
          (let (node, spec) = ControllerStatusCreate_createSpec m in
           case CreateNode G (m_driver m) spec w of
             (Inl e, w') \<Rightarrow> (Inl (create_err e), m, w')
           | (Inr idv, w') \<Rightarrow>
               (case created_int idv of
                  Inl e \<Rightarrow> (Inl e, m, w')
                | Inr i \<Rightarrow>
                    (Inr (node\<lparr>cn_id := i\<rparr>), m\<lparr>m_id := Some i, m_done := True\<rparr>, w'))))"

definition ControllerStatusCreate_Save ::
  "(status_row, status_node) sqlgraph \<Rightarrow> ControllerStatusCreate \<Rightarrow> world \<Rightarrow> (go_err + status_node) \<times> ControllerStatusCreate \<times> world" where
  "ControllerStatusCreate_Save G c w =
     (let (m, w') = ControllerStatusCreate_defaults (b_mutation c) w in
      save_with (ControllerStatusCreate_sqlSave G) (c\<lparr>b_mutation := m\<rparr>) w')"

definition ControllerStatusCreate_Exec ::
  "(status_row, status_node) sqlgraph \<Rightarrow> ControllerStatusCreate \<Rightarrow> world \<Rightarrow> (go_err + unit) \<times> ControllerStatusCreate \<times> world" where
  "ControllerStatusCreate_Exec G c w = exec_of (ControllerStatusCreate_Save G c w)"

definition ControllerStatusCreate_SaveX ::
  "(status_row, status_node) sqlgraph \<Rightarrow> ControllerStatusCreate \<Rightarrow> world \<Rightarrow> status_node outcome \<times> ControllerStatusCreate \<times> world" where
  "ControllerStatusCreate_SaveX G c w = must (ControllerStatusCreate_Save G c w)"

definition ControllerStatusCreate_ExecX ::
  "(status_row, status_node) sqlgraph \<Rightarrow> ControllerStatusCreate \<Rightarrow> world \<Rightarrow> unit outcome \<times> ControllerStatusCreate \<times> world" where
  "ControllerStatusCreate_ExecX G c w = must (ControllerStatusCreate_Exec G c w)"

section \<open>Updates\<close>

type_synonym ControllerStatusUpdate = "(ControllerStatusMutation, nat) builder"
type_synonym ControllerStatusUpdateOne = "(ControllerStatusMutation, status_node) one_builder"

text \<open>The setters are those of both update builders.\<close>

definition ControllerStatusUpdate_Where ::
  "status_row pred list \<Rightarrow> (ControllerStatusMutation, 'v, 'z) builder_scheme \<Rightarrow> (ControllerStatusMutation, 'v, 'z) builder_scheme" where [ent_ops]:
  "ControllerStatusUpdate_Where ps = on_mutation (mutation_Where ps)"

definition ControllerStatusUpdate_SetControllerName ::
  "string \<Rightarrow> (ControllerStatusMutation, 'v, 'z) builder_scheme \<Rightarrow> (ControllerStatusMutation, 'v, 'z) builder_scheme" where [ent_ops]:
  "ControllerStatusUpdate_SetControllerName v = on_mutation (ControllerStatusMutation_SetControllerName v)"

definition ControllerStatusUpdate_SetNillableControllerName ::
  "string option \<Rightarrow> (ControllerStatusMutation, 'v, 'z) builder_scheme \<Rightarrow> (ControllerStatusMutation, 'v, 'z) builder_scheme" where [ent_ops]:
  "ControllerStatusUpdate_SetNillableControllerName = set_nillable ControllerStatusUpdate_SetControllerName"

definition ControllerStatusUpdate_SetResourceType ::
  "string \<Rightarrow> (ControllerStatusMutation, 'v, 'z) builder_scheme \<Rightarrow> (ControllerStatusMutation, 'v, 'z) builder_scheme" where [ent_ops]:
  "ControllerStatusUpdate_SetResourceType v = on_mutation (ControllerStatusMutation_SetResourceType v)"

definition ControllerStatusUpdate_SetNillableResourceType ::
  "string option \<Rightarrow> (ControllerStatusMutation, 'v, 'z) builder_scheme \<Rightarrow> (ControllerStatusMutation, 'v, 'z) builder_scheme" where [ent_ops]:
  "ControllerStatusUpdate_SetNillableResourceType = set_nillable ControllerStatusUpdate_SetResourceType"

definition ControllerStatusUpdate_SetResourceID ::
  "uuid \<Rightarrow> (ControllerStatusMutation, 'v, 'z) builder_scheme \<Rightarrow> (ControllerStatusMutation, 'v, 'z) builder_scheme" where [ent_ops]:
  "ControllerStatusUpdate_SetResourceID v = on_mutation (ControllerStatusMutation_SetResourceID v)"

definition ControllerStatusUpdate_SetNillableResourceID ::
  "uuid option \<Rightarrow> (ControllerStatusMutation, 'v, 'z) builder_scheme \<Rightarrow> (ControllerStatusMutation, 'v, 'z) builder_scheme" where [ent_ops]:
  "ControllerStatusUpdate_SetNillableResourceID = set_nillable ControllerStatusUpdate_SetResourceID"

definition ControllerStatusUpdate_SetStatus ::
  "string \<Rightarrow> (ControllerStatusMutation, 'v, 'z) builder_scheme \<Rightarrow> (ControllerStatusMutation, 'v, 'z) builder_scheme" where [ent_ops]:
  "ControllerStatusUpdate_SetStatus v = on_mutation (ControllerStatusMutation_SetStatus v)"

definition ControllerStatusUpdate_SetNillableStatus ::
  "string option \<Rightarrow> (ControllerStatusMutation, 'v, 'z) builder_scheme \<Rightarrow> (ControllerStatusMutation, 'v, 'z) builder_scheme" where [ent_ops]:
  "ControllerStatusUpdate_SetNillableStatus = set_nillable ControllerStatusUpdate_SetStatus"

definition ControllerStatusUpdate_SetMessage ::
  "string \<Rightarrow> (ControllerStatusMutation, 'v, 'z) builder_scheme \<Rightarrow> (ControllerStatusMutation, 'v, 'z) builder_scheme" where [ent_ops]:
  "ControllerStatusUpdate_SetMessage v = on_mutation (ControllerStatusMutation_SetMessage v)"

definition ControllerStatusUpdate_SetNillableMessage ::
  "string option \<Rightarrow> (ControllerStatusMutation, 'v, 'z) builder_scheme \<Rightarrow> (ControllerStatusMutation, 'v, 'z) builder_scheme" where [ent_ops]:
  "ControllerStatusUpdate_SetNillableMessage = set_nillable ControllerStatusUpdate_SetMessage"

definition ControllerStatusUpdate_SetUpdatedAt ::
  "instant \<Rightarrow> (ControllerStatusMutation, 'v, 'z) builder_scheme \<Rightarrow> (ControllerStatusMutation, 'v, 'z) builder_scheme" where [ent_ops]:
  "ControllerStatusUpdate_SetUpdatedAt v = on_mutation (ControllerStatusMutation_SetUpdatedAt v)"

definition ControllerStatusUpdateOne_Select ::
  "string \<Rightarrow> string list \<Rightarrow> ControllerStatusUpdateOne \<Rightarrow> ControllerStatusUpdateOne" where [ent_ops]:
  "ControllerStatusUpdateOne_Select fld flds u = u\<lparr>b_fields := fld # flds\<rparr>"

definition ControllerStatusUpdate_defaults ::
  "ControllerStatusMutation \<Rightarrow> world \<Rightarrow> ControllerStatusMutation \<times> world" where
  "ControllerStatusUpdate_defaults m w = default_now ControllerStatusMutation_UpdatedAt ControllerStatusMutation_SetUpdatedAt (m, w)"

definition ControllerStatusUpdate_check ::
  "ControllerStatusMutation \<Rightarrow> go_err option" where
  "ControllerStatusUpdate_check m =
     first_error
       [validated not_empty (ControllerStatusMutation_ControllerName m) ''controller_name'' ''ControllerStatus.controller_name'',
        validated not_empty (ControllerStatusMutation_ResourceType m) ''resource_type'' ''ControllerStatus.resource_type'',
        validated status_validator (ControllerStatusMutation_Status m) ''status'' ''ControllerStatus.status'']"

text \<open>The specification both \<open>sqlSave\<close> build: the bulk update has no id, the update of one node has its id and the columns to return.\<close>

definition ControllerStatusUpdate_spec ::
  "ControllerStatusMutation \<Rightarrow> gvalue option \<Rightarrow> string list \<Rightarrow> (status_row, status_node) update_spec" where
  "ControllerStatusUpdate_spec m i columns =
     \<lparr>us_table = ''controller_status'', us_columns = columns, us_id_field = (''id'', TypeInt), us_id = i,
       us_preds = m_preds m,
       us_set =
          spec_field ''controller_name'' TypeString GString (ControllerStatusMutation_ControllerName m) @
          spec_field ''resource_type'' TypeString GString (ControllerStatusMutation_ResourceType m) @
          spec_field ''resource_id'' TypeUUID GUUID (ControllerStatusMutation_ResourceID m) @
          spec_field ''status'' TypeEnum GStatus (ControllerStatusMutation_Status m) @
          spec_field ''message'' TypeString GString (ControllerStatusMutation_Message m) @
          spec_field ''updated_at'' TypeTime GTime (ControllerStatusMutation_UpdatedAt m),
       us_clear =
          [],
       us_add_edges =
          [],
       us_clear_edges =
          [],
       us_scan = ControllerStatus_scanValues, us_assign = ControllerStatus_assignValues zero_status_node\<rparr>"

definition ControllerStatusUpdate_sqlSave ::
  "(status_row, status_node) sqlgraph \<Rightarrow> (ControllerStatusMutation, nat) mutator" where
  "ControllerStatusUpdate_sqlSave G m w =
     (case ControllerStatusUpdate_check m of
        Some e \<Rightarrow> (Inl e, m, w)
      | None \<Rightarrow>
          (case UpdateNodes G (m_driver m) (ControllerStatusUpdate_spec m None ControllerStatus_Columns) w of
             (Inl e, w') \<Rightarrow> (Inl (update_err ''controller_status'' e), m, w')
           | (Inr k, w') \<Rightarrow> (Inr k, m\<lparr>m_done := True\<rparr>, w')))"

definition ControllerStatusUpdateOne_sqlSave ::
  "(status_row, status_node) sqlgraph \<Rightarrow> string list \<Rightarrow> (ControllerStatusMutation, status_node) mutator" where
  "ControllerStatusUpdateOne_sqlSave G flds m w =
     (case ControllerStatusUpdate_check m of
        Some e \<Rightarrow> (Inl e, m, w)
      | None \<Rightarrow>
          (case m_id m of
             None \<Rightarrow> (Inl (missing_id ''ControllerStatus.id''), m, w)
           | Some i \<Rightarrow>
               (case node_columns ControllerStatus_ValidColumn ControllerStatus_Columns ''id'' flds of
                  Inl e \<Rightarrow> (Inl e, m, w)
                | Inr columns \<Rightarrow>
                    (case UpdateNode G (m_driver m) (ControllerStatusUpdate_spec m (Some (GInt i)) columns) w of
                       (Inl e, w') \<Rightarrow> (Inl (update_err ''controller_status'' e), m, w')
                     | (Inr node, w') \<Rightarrow> (Inr node, m\<lparr>m_done := True\<rparr>, w')))))"

definition ControllerStatusUpdate_Save ::
  "(status_row, status_node) sqlgraph \<Rightarrow> ControllerStatusUpdate \<Rightarrow> world \<Rightarrow> (go_err + nat) \<times> ControllerStatusUpdate \<times> world" where
  "ControllerStatusUpdate_Save G u w =
     (let (m, w') = ControllerStatusUpdate_defaults (b_mutation u) w in save_with (ControllerStatusUpdate_sqlSave G) (u\<lparr>b_mutation := m\<rparr>) w')"

definition ControllerStatusUpdate_Exec ::
  "(status_row, status_node) sqlgraph \<Rightarrow> ControllerStatusUpdate \<Rightarrow> world \<Rightarrow> (go_err + unit) \<times> ControllerStatusUpdate \<times> world" where
  "ControllerStatusUpdate_Exec G u w = exec_of (ControllerStatusUpdate_Save G u w)"

definition ControllerStatusUpdateOne_Save ::
  "(status_row, status_node) sqlgraph \<Rightarrow> ControllerStatusUpdateOne \<Rightarrow> world \<Rightarrow> (go_err + status_node) \<times> ControllerStatusUpdateOne \<times> world" where
  "ControllerStatusUpdateOne_Save G u w =
     (let (m, w') = ControllerStatusUpdate_defaults (b_mutation u) w in save_with (ControllerStatusUpdateOne_sqlSave G (b_fields u)) (u\<lparr>b_mutation := m\<rparr>) w')"

definition ControllerStatusUpdateOne_Exec ::
  "(status_row, status_node) sqlgraph \<Rightarrow> ControllerStatusUpdateOne \<Rightarrow> world \<Rightarrow> (go_err + unit) \<times> ControllerStatusUpdateOne \<times> world" where
  "ControllerStatusUpdateOne_Exec G u w = exec_of (ControllerStatusUpdateOne_Save G u w)"

section \<open>Deletes\<close>

type_synonym ControllerStatusDelete = "(ControllerStatusMutation, nat) builder"

definition ControllerStatusDelete_Where ::
  "status_row pred list \<Rightarrow> ControllerStatusDelete \<Rightarrow> ControllerStatusDelete" where [ent_ops]:
  "ControllerStatusDelete_Where ps = on_mutation (mutation_Where ps)"

definition ControllerStatusDelete_sqlExec ::
  "(status_row, status_node) sqlgraph \<Rightarrow> (ControllerStatusMutation, nat) mutator" where
  "ControllerStatusDelete_sqlExec G m w =
     (case DeleteNodes G (m_driver m)
             \<lparr>ds_table = ''controller_status'', ds_id_field = (''id'', TypeInt), ds_preds = m_preds m\<rparr> w of
        (res, w') \<Rightarrow> (map_sum create_err id res, m\<lparr>m_done := True\<rparr>, w'))"

definition ControllerStatusDelete_Exec ::
  "(status_row, status_node) sqlgraph \<Rightarrow> ControllerStatusDelete \<Rightarrow> world \<Rightarrow> (go_err + nat) \<times> ControllerStatusDelete \<times> world" where
  "ControllerStatusDelete_Exec G b w = save_with (ControllerStatusDelete_sqlExec G) b w"

definition ControllerStatusDeleteOne_Exec ::
  "(status_row, status_node) sqlgraph \<Rightarrow> ControllerStatusDelete \<Rightarrow> world \<Rightarrow> (go_err + unit) \<times> ControllerStatusDelete \<times> world" where
  "ControllerStatusDeleteOne_Exec G b w =
     (case ControllerStatusDelete_Exec G b w of
        (Inl e, b', w') \<Rightarrow> (Inl e, b', w')
      | (Inr n, b', w') \<Rightarrow> (if n = 0 then Inl (NotFoundError ''controller_status'') else Inr (), b', w'))"

section \<open>The client\<close>

definition ControllerStatusClient_Create ::
  "driver \<Rightarrow> (ControllerStatusMutation, status_node) hook list \<Rightarrow> ControllerStatusCreate" where [ent_ops]:
  "ControllerStatusClient_Create drv hooks = \<lparr>b_mutation = newControllerStatusMutation drv OpCreate [], b_hooks = hooks\<rparr>"

definition ControllerStatusClient_Update ::
  "driver \<Rightarrow> (ControllerStatusMutation, nat) hook list \<Rightarrow> ControllerStatusUpdate" where [ent_ops]:
  "ControllerStatusClient_Update drv hooks = \<lparr>b_mutation = newControllerStatusMutation drv OpUpdate [], b_hooks = hooks\<rparr>"

definition ControllerStatusClient_UpdateOne ::
  "driver \<Rightarrow> (ControllerStatusMutation, status_node) hook list \<Rightarrow> status_node \<Rightarrow> ControllerStatusUpdateOne" where [ent_ops]:
  "ControllerStatusClient_UpdateOne drv hooks n =
     \<lparr>b_mutation = newControllerStatusMutation drv OpUpdateOne [with_node cn_id n], b_hooks = hooks, b_fields = []\<rparr>"

definition ControllerStatusClient_UpdateOneID ::
  "driver \<Rightarrow> (ControllerStatusMutation, status_node) hook list \<Rightarrow> int \<Rightarrow> ControllerStatusUpdateOne" where [ent_ops]:
  "ControllerStatusClient_UpdateOneID drv hooks i =
     \<lparr>b_mutation = newControllerStatusMutation drv OpUpdateOne [with_id i], b_hooks = hooks, b_fields = []\<rparr>"

definition ControllerStatusClient_Delete ::
  "driver \<Rightarrow> (ControllerStatusMutation, nat) hook list \<Rightarrow> ControllerStatusDelete" where [ent_ops]:
  "ControllerStatusClient_Delete drv hooks = \<lparr>b_mutation = newControllerStatusMutation drv OpDelete [], b_hooks = hooks\<rparr>"

end
