(* ===== verification/Ent_Store.thy ===== *)
theory Ent_Store
  imports Ent_Project Ent_Event Ent_Status
begin

text \<open>
  The builders against the store's view of the database.  The component theories of the store
  use one function per statement (\<open>org_create\<close>, \<open>status_update\<close>, ... of
  Tenancy\_Db); store.go obtains each statement by a chain of builder calls.  Here the chains
  are written out over the generated code of the entities and shown to be those functions, for
  every implementation of \<open>sqlgraph\<close> that executes the specifications the store sends.

  What \<open>sqlgraph\<close> and Postgres do with a specification is stated by a reference executor per
  table, on the specifications without edges to other tables' rows, cleared columns or changed
  keys: a creation inserts the row with the given columns, a bulk update changes the rows that
  satisfy the predicates, an update by id returns the columns of the changed row, a deletion
  removes the rows that satisfy the predicates.
\<close>

section \<open>Reference executors\<close>

text \<open>The errors of a statement as \<open>sqlgraph\<close> reports them.\<close>

definition sql_err_of :: "go_err \<Rightarrow> sql_err" where
  "sql_err_of e =
     (case e of ConstraintError m \<Rightarrow> SqlConstraint m | NotFoundError l \<Rightarrow> SqlNotFound l
      | _ \<Rightarrow> SqlOther e)"

definition sql_result :: "('a \<Rightarrow> 'b) \<Rightarrow> (go_err + 'a) \<times> world \<Rightarrow> (sql_err + 'b) \<times> world" where
  "sql_result f r = (case r of (res, w) \<Rightarrow> (map_sum sql_err_of f res, w))"

definition spec_value :: "create_spec \<Rightarrow> string \<Rightarrow> gvalue option" where
  "spec_value spec c = map_option snd (map_of (cs_fields spec) c)"

text \<open>The row a specification describes, if it gives every column that is not nullable.\<close>

definition org_of_spec :: "create_spec \<Rightarrow> org_row option" where
  "org_of_spec spec =
     (case (cs_id spec, spec_value spec ''name'', spec_value spec ''description'',
            spec_value spec ''created_at'', spec_value spec ''updated_at'') of
        (Some (GUUIDPtr (Some i)), Some (GString n), Some (GString s), Some (GTime c), Some (GTime u)) \<Rightarrow>
          if cs_table spec = ''orgs'' \<and> cs_edges spec = [] \<and> spec_value spec ''deleted_at'' = None
          then Some \<lparr>org_id = i, org_name = n, org_description = s, org_created_at = c,
                     org_updated_at = u, org_deleted_at = None\<rparr>
          else None
      | _ \<Rightarrow> None)"

definition edge_to :: "create_spec \<Rightarrow> string \<Rightarrow> uuid \<Rightarrow> bool" where
  "edge_to spec col i \<longleftrightarrow>
     (case cs_edges spec of
        [e] \<Rightarrow> es_rel e = M2O \<and> es_inverse e \<and> es_table e = cs_table spec \<and> es_column e = col
                 \<and> es_nodes e = {i}
      | _ \<Rightarrow> False)"

definition folder_of_spec :: "create_spec \<Rightarrow> uuid \<Rightarrow> folder_row option" where
  "folder_of_spec spec o' =
     (case (cs_id spec, spec_value spec ''name'', spec_value spec ''created_at'',
            spec_value spec ''updated_at'') of
        (Some (GUUIDPtr (Some i)), Some (GString n), Some (GTime c), Some (GTime u)) \<Rightarrow>
          if cs_table spec = ''folders'' \<and> edge_to spec ''org_folders'' o'
          then Some \<lparr>folder_id = i, folder_name = n, folder_created_at = c,
                     folder_updated_at = u, folder_org = o'\<rparr>
          else None
      | _ \<Rightarrow> None)"

definition project_of_spec :: "create_spec \<Rightarrow> uuid \<Rightarrow> project_row option" where
  "project_of_spec spec f =
     (case (cs_id spec, spec_value spec ''name'', spec_value spec ''description'',
            spec_value spec ''created_at'', spec_value spec ''updated_at'') of
        (Some (GUUIDPtr (Some i)), Some (GString n), Some (GString s), Some (GTime c), Some (GTime u)) \<Rightarrow>
          if cs_table spec = ''projects'' \<and> edge_to spec ''folder_projects'' f
             \<and> spec_value spec ''deleted_at'' = None
          then Some \<lparr>proj_id = i, proj_name = n, proj_description = s, proj_created_at = c,
                     proj_updated_at = u, proj_deleted_at = None, proj_folder = f\<rparr>
          else None
      | _ \<Rightarrow> None)"

definition string_column :: "gvalue option \<Rightarrow> string option" where
  "string_column v = (case v of Some (GString s) \<Rightarrow> Some s | _ \<Rightarrow> None)"

definition uuid_column :: "gvalue option \<Rightarrow> uuid option" where
  "uuid_column v = (case v of Some (GUUID i) \<Rightarrow> Some i | _ \<Rightarrow> None)"

text \<open>The key of an event is drawn from its sequence.\<close>

definition event_of_spec :: "create_spec \<Rightarrow> int \<Rightarrow> event_row option" where
  "event_of_spec spec k =
     (case (spec_value spec ''event_type'', spec_value spec ''resource_type'',
            spec_value spec ''resource_id'', spec_value spec ''resource_name'',
            spec_value spec ''created_at'') of
        (Some (GString t), Some (GString rt), Some (GUUID i), Some (GString n), Some (GTime c)) \<Rightarrow>
          if cs_table spec = ''tenancy_events'' \<and> cs_id spec = None
          then Some \<lparr>ev_id = k, ev_type = t, ev_resource_type = rt, ev_resource_id = i,
                     ev_resource_name = n, ev_org_id = uuid_column (spec_value spec ''org_id''),
                     ev_org_name = string_column (spec_value spec ''org_name''),
                     ev_folder_id = uuid_column (spec_value spec ''folder_id''), ev_created_at = c\<rparr>
          else None
      | _ \<Rightarrow> None)"

definition status_of_spec :: "create_spec \<Rightarrow> status_row option" where
  "status_of_spec spec =
     (case (spec_value spec ''controller_name'', spec_value spec ''resource_type'',
            spec_value spec ''resource_id'', spec_value spec ''status'', spec_value spec ''message'',
            spec_value spec ''updated_at'') of
        (Some (GString c), Some (GString rt), Some (GUUID i), Some (GStatus st), Some (GString msg),
         Some (GTime u)) \<Rightarrow>
          if cs_table spec = ''controller_status''
          then Some \<lparr>cs_controller = c, cs_resource_type = rt, cs_resource_id = i, cs_status = st,
                     cs_message = msg, cs_updated_at = u\<rparr>
          else None
      | _ \<Rightarrow> None)"

text \<open>The columns an update may set here: none is part of a key.\<close>

definition plain_update :: "string set \<Rightarrow> ('r, 'n) update_spec \<Rightarrow> bool" where
  "plain_update cols spec \<longleftrightarrow>
     us_clear spec = [] \<and> us_add_edges spec = [] \<and> us_clear_edges spec = [] \<and>
     fst ` set (us_set spec) \<subseteq> cols"

definition put_all :: "(string \<Rightarrow> gvalue \<Rightarrow> 'r \<Rightarrow> 'r) \<Rightarrow> ('r, 'n) update_spec \<Rightarrow> 'r \<Rightarrow> 'r" where
  "put_all put spec r = fold (\<lambda>(c, t, v) r. put c v r) (us_set spec) r"

definition satisfies :: "'r pred list \<Rightarrow> db \<Rightarrow> 'r \<Rightarrow> bool" where
  "satisfies ps d r \<longleftrightarrow> (\<forall>p \<in> set ps. p d r)"

definition org_put :: "string \<Rightarrow> gvalue \<Rightarrow> org_row \<Rightarrow> org_row" where
  "org_put c v r =
     (case v of
        GString s \<Rightarrow> (if c = ''description'' then r\<lparr>org_description := s\<rparr> else r)
      | GTime t \<Rightarrow> (if c = ''updated_at'' then r\<lparr>org_updated_at := t\<rparr>
                     else if c = ''deleted_at'' then r\<lparr>org_deleted_at := Some t\<rparr> else r)
      | _ \<Rightarrow> r)"

definition project_put :: "string \<Rightarrow> gvalue \<Rightarrow> project_row \<Rightarrow> project_row" where
  "project_put c v r =
     (case v of
        GString s \<Rightarrow> (if c = ''description'' then r\<lparr>proj_description := s\<rparr> else r)
      | GTime t \<Rightarrow> (if c = ''updated_at'' then r\<lparr>proj_updated_at := t\<rparr>
                     else if c = ''deleted_at'' then r\<lparr>proj_deleted_at := Some t\<rparr> else r)
      | _ \<Rightarrow> r)"

definition status_put :: "string \<Rightarrow> gvalue \<Rightarrow> status_row \<Rightarrow> status_row" where
  "status_put c v r =
     (case v of
        GStatus s \<Rightarrow> (if c = ''status'' then r\<lparr>cs_status := s\<rparr> else r)
      | GString s \<Rightarrow> (if c = ''message'' then r\<lparr>cs_message := s\<rparr> else r)
      | GTime t \<Rightarrow> (if c = ''updated_at'' then r\<lparr>cs_updated_at := t\<rparr> else r)
      | _ \<Rightarrow> r)"

text \<open>The columns of a row as the driver delivers them.\<close>

definition org_column :: "org_row \<Rightarrow> string \<Rightarrow> scanned" where
  "org_column r c =
     (if c = ''id'' then SUUID (org_id r)
      else if c = ''name'' then SNullString (Some (org_name r))
      else if c = ''description'' then SNullString (Some (org_description r))
      else if c = ''created_at'' then SNullTime (Some (org_created_at r))
      else if c = ''updated_at'' then SNullTime (Some (org_updated_at r))
      else if c = ''deleted_at'' then SNullTime (org_deleted_at r)
      else SUnknown GNil)"

definition folder_column :: "folder_row \<Rightarrow> string \<Rightarrow> scanned" where
  "folder_column r c =
     (if c = ''id'' then SUUID (folder_id r)
      else if c = ''name'' then SNullString (Some (folder_name r))
      else if c = ''created_at'' then SNullTime (Some (folder_created_at r))
      else if c = ''updated_at'' then SNullTime (Some (folder_updated_at r))
      else if c = ''org_folders'' then SNullUUID (Some (folder_org r))
      else SUnknown GNil)"

definition project_column :: "project_row \<Rightarrow> string \<Rightarrow> scanned" where
  "project_column r c =
     (if c = ''id'' then SUUID (proj_id r)
      else if c = ''name'' then SNullString (Some (proj_name r))
      else if c = ''description'' then SNullString (Some (proj_description r))
      else if c = ''created_at'' then SNullTime (Some (proj_created_at r))
      else if c = ''updated_at'' then SNullTime (Some (proj_updated_at r))
      else if c = ''deleted_at'' then SNullTime (proj_deleted_at r)
      else if c = ''folder_projects'' then SNullUUID (Some (proj_folder r))
      else SUnknown GNil)"

definition event_column :: "event_row \<Rightarrow> string \<Rightarrow> scanned" where
  "event_column r c =
     (if c = ''id'' then SNullInt64 (Some (ev_id r))
      else if c = ''event_type'' then SNullString (Some (ev_type r))
      else if c = ''resource_type'' then SNullString (Some (ev_resource_type r))
      else if c = ''resource_id'' then SUUID (ev_resource_id r)
      else if c = ''resource_name'' then SNullString (Some (ev_resource_name r))
      else if c = ''org_id'' then SNullUUID (ev_org_id r)
      else if c = ''org_name'' then SNullString (ev_org_name r)
      else if c = ''folder_id'' then SNullUUID (ev_folder_id r)
      else if c = ''created_at'' then SNullTime (Some (ev_created_at r))
      else SUnknown GNil)"

section \<open>The executors\<close>

definition update_rows ::
  "(db \<Rightarrow> 'r list) \<Rightarrow> ('r list \<Rightarrow> db \<Rightarrow> db) \<Rightarrow> (string \<Rightarrow> gvalue \<Rightarrow> 'r \<Rightarrow> 'r)
     \<Rightarrow> ('r, 'n) update_spec \<Rightarrow> db \<Rightarrow> go_err + nat \<times> db" where
  "update_rows rows set_rows put spec d =
     (let P = satisfies (us_preds spec) d in
      Inr (length (filter P (rows d)),
           set_rows (map (\<lambda>r. if P r then put_all put spec r else r) (rows d)) d))"

definition update_row ::
  "(db \<Rightarrow> 'r list) \<Rightarrow> ('r list \<Rightarrow> db \<Rightarrow> db) \<Rightarrow> (string \<Rightarrow> gvalue \<Rightarrow> 'r \<Rightarrow> 'r)
     \<Rightarrow> ('r \<Rightarrow> uuid) \<Rightarrow> ('r \<Rightarrow> string \<Rightarrow> scanned) \<Rightarrow> string
     \<Rightarrow> ('r, 'n) update_spec \<Rightarrow> db \<Rightarrow> go_err + 'n \<times> db" where
  "update_row rows set_rows put ident column label spec d =
     (let P = (\<lambda>r. us_id spec = Some (GUUID (ident r)) \<and> satisfies (us_preds spec) d r) in
      case find P (rows d) of
        None \<Rightarrow> Inl (NotFoundError label)
      | Some r \<Rightarrow>
          (case us_assign spec (us_columns spec) (map (column (put_all put spec r)) (us_columns spec)) of
             Inl e \<Rightarrow> Inl e
           | Inr n \<Rightarrow>
               Inr (n, set_rows (map (\<lambda>r. if P r then put_all put spec r else r) (rows d)) d)))"

definition delete_rows ::
  "(db \<Rightarrow> 'r list) \<Rightarrow> ('r list \<Rightarrow> db \<Rightarrow> db) \<Rightarrow> 'r delete_spec \<Rightarrow> db \<Rightarrow> go_err + nat \<times> db" where
  "delete_rows rows set_rows ds d =
     (let P = satisfies (ds_preds ds) d in
      Inr (length (filter P (rows d)), set_rows (filter (\<lambda>r. \<not> P r) (rows d)) d))"

abbreviation set_orgs :: "org_row list \<Rightarrow> db \<Rightarrow> db" where
  "set_orgs rs d \<equiv> d\<lparr>orgs := rs\<rparr>"

abbreviation set_projects :: "project_row list \<Rightarrow> db \<Rightarrow> db" where
  "set_projects rs d \<equiv> d\<lparr>projects := rs\<rparr>"

abbreviation set_statuses :: "status_row list \<Rightarrow> db \<Rightarrow> db" where
  "set_statuses rs d \<equiv> d\<lparr>statuses := rs\<rparr>"

definition executes_orgs :: "(org_row, org_node) sqlgraph \<Rightarrow> bool" where
  "executes_orgs G \<longleftrightarrow>
     (\<forall>drv spec r w. org_of_spec spec = Some r \<longrightarrow>
        CreateNode G drv spec w =
          sql_result (\<lambda>r. Some (GUUIDPtr (Some (org_id r)))) (run_driver drv (insert_org r) w)) \<and>
     (\<forall>drv spec w. plain_update {''description'', ''updated_at'', ''deleted_at''} spec \<longrightarrow>
        UpdateNodes G drv spec w = sql_result id (run_driver drv (update_rows orgs set_orgs org_put spec) w)) \<and>
     (\<forall>drv spec w. plain_update {''description'', ''updated_at'', ''deleted_at''} spec \<longrightarrow>
        UpdateNode G drv spec w =
          sql_result id (run_driver drv (update_row orgs set_orgs org_put org_id org_column ''org'' spec) w)) \<and>
     (\<forall>drv ds w. ds_table ds = ''orgs'' \<longrightarrow>
        DeleteNodes G drv ds w =
          sql_result id
            (run_driver drv
               (\<lambda>d. if \<exists>r \<in> set (orgs d). satisfies (ds_preds ds) d r \<and> org_id r \<in> folder_org ` set (folders d)
                    then Inl (ConstraintError ''folders_orgs_folders'')
                    else delete_rows orgs set_orgs ds d) w))"

definition executes_folders :: "(folder_row, folder_node) sqlgraph \<Rightarrow> bool" where
  "executes_folders G \<longleftrightarrow>
     (\<forall>drv spec o' r w. folder_of_spec spec o' = Some r \<longrightarrow>
        CreateNode G drv spec w =
          sql_result (\<lambda>r. Some (GUUIDPtr (Some (folder_id r)))) (run_driver drv (insert_folder r) w)) \<and>
     (\<forall>drv ds w. ds_table ds = ''folders'' \<longrightarrow>
        DeleteNodes G drv ds w =
          sql_result id (run_driver drv (\<lambda>d. delete_folders (satisfies (ds_preds ds) d) d) w))"

definition executes_projects :: "(project_row, proj_node) sqlgraph \<Rightarrow> bool" where
  "executes_projects G \<longleftrightarrow>
     (\<forall>drv spec f r w. project_of_spec spec f = Some r \<longrightarrow>
        CreateNode G drv spec w =
          sql_result (\<lambda>r. Some (GUUIDPtr (Some (proj_id r)))) (run_driver drv (insert_project r) w)) \<and>
     (\<forall>drv spec w. plain_update {''description'', ''updated_at'', ''deleted_at''} spec \<longrightarrow>
        UpdateNodes G drv spec w =
          sql_result id (run_driver drv (update_rows projects set_projects project_put spec) w)) \<and>
     (\<forall>drv spec w. plain_update {''description'', ''updated_at'', ''deleted_at''} spec \<longrightarrow>
        UpdateNode G drv spec w =
          sql_result id
            (run_driver drv (update_row projects set_projects project_put proj_id project_column ''project'' spec) w)) \<and>
     (\<forall>drv ds w. ds_table ds = ''projects'' \<longrightarrow>
        DeleteNodes G drv ds w = sql_result id (run_driver drv (delete_rows projects set_projects ds) w))"

definition executes_events :: "(event_row, event_node) sqlgraph \<Rightarrow> bool" where
  "executes_events G \<longleftrightarrow>
     (\<forall>spec r w. event_of_spec spec (event_seq w) = Some r \<longrightarrow>
        CreateNode G TxDriver spec w =
          (case sql_result (\<lambda>r. Some (GInt64 (ev_id r))) (in_tx (insert_event r) w) of
             (res, w') \<Rightarrow>
               (res, if next_fault w = None then w'\<lparr>event_seq := event_seq w' + 1\<rparr> else w'))) \<and>
     (\<forall>drv ds w. ds_table ds = ''tenancy_events'' \<longrightarrow>
        DeleteNodes G drv ds w =
          sql_result id (run_driver drv (\<lambda>d. delete_events (satisfies (ds_preds ds) d) d) w))"

definition executes_statuses :: "(status_row, status_node) sqlgraph \<Rightarrow> bool" where
  "executes_statuses G \<longleftrightarrow>
     (\<forall>drv spec r w. status_of_spec spec = Some r \<longrightarrow>
        (\<exists>k. CreateNode G drv spec w =
               sql_result (\<lambda>_. Some (GInt64 k)) (run_driver drv (insert_status r) w))) \<and>
     (\<forall>drv spec w. plain_update {''status'', ''message'', ''updated_at''} spec \<longrightarrow>
        UpdateNodes G drv spec w =
          sql_result id (run_driver drv (update_rows statuses set_statuses status_put spec) w)) \<and>
     (\<forall>drv ds w. ds_table ds = ''controller_status'' \<longrightarrow>
        DeleteNodes G drv ds w =
          sql_result id (run_driver drv (\<lambda>d. delete_statuses (satisfies (ds_preds ds) d) d) w))"


section \<open>Creations\<close>

text \<open>The row behind a saved node.\<close>

definition org_row_of :: "org_node \<Rightarrow> org_row" where
  "org_row_of n =
     \<lparr>org_id = on_id n, org_name = on_name n, org_description = on_description n,
      org_created_at = on_created_at n, org_updated_at = on_updated_at n,
      org_deleted_at = on_deleted_at n\<rparr>"

definition folder_row_of :: "folder_node \<Rightarrow> folder_row" where
  "folder_row_of n =
     \<lparr>folder_id = fn_id n, folder_name = fn_name n, folder_created_at = fn_created_at n,
      folder_updated_at = fn_updated_at n,
      folder_org = (case fn_org_folders n of None \<Rightarrow> 0 | Some i \<Rightarrow> i)\<rparr>"

definition project_row_of :: "proj_node \<Rightarrow> project_row" where
  "project_row_of n =
     \<lparr>proj_id = pn_id n, proj_name = pn_name n, proj_description = pn_description n,
      proj_created_at = pn_created_at n, proj_updated_at = pn_updated_at n,
      proj_deleted_at = pn_deleted_at n,
      proj_folder = (case pn_folder_projects n of None \<Rightarrow> 0 | Some i \<Rightarrow> i)\<rparr>"

definition event_row_of :: "event_node \<Rightarrow> event_row" where
  "event_row_of n =
     \<lparr>ev_id = en_id n, ev_type = en_event_type n, ev_resource_type = en_resource_type n,
      ev_resource_id = en_resource_id n, ev_resource_name = en_resource_name n,
      ev_org_id = en_org_id n, ev_org_name = en_org_name n, ev_folder_id = en_folder_id n,
      ev_created_at = en_created_at n\<rparr>"

definition saved :: "('n \<Rightarrow> 'r) \<Rightarrow> (go_err + 'n) \<times> 'b \<times> world \<Rightarrow> (go_err + 'r) \<times> world" where
  "saved f res = (case res of (x, b, w) \<Rightarrow> (map_sum id f x, w))"

text \<open>A statement's errors survive the library: it wraps a constraint error and the builder
  unwraps it.\<close>

lemma create_err_of [simp]: "(\<forall>l. e \<noteq> NotFoundError l) \<Longrightarrow> create_err (sql_err_of e) = e"
  by (cases e) (auto simp: create_err_def sql_err_of_def)

lemma update_err_of [simp]: "(\<forall>l. e = NotFoundError l \<longrightarrow> l = label) \<Longrightarrow> update_err label (sql_err_of e) = e"
  by (cases e) (auto simp: update_err_def sql_err_of_def)

lemmas spec_simps = spec_value_def spec_field_def string_column_def uuid_column_def edge_to_def

lemma required_Some [simp]: "required (Some v) f q = None"
  by (simp add: required_def)

lemma validated_Some: "validated val (Some v) f q = map_option (validator_failed f q) (val v)"
  by (simp add: validated_def)

lemma first_error_Cons: "first_error (x # xs) = (case x of None \<Rightarrow> first_error xs | Some e \<Rightarrow> Some e)"
  by (cases x) auto

lemmas build_simps = ent_ops withHooks_def save_with_def saved_def Let_def prod.case_eq_if
  default_now_def default_uuid_def default_value_def validated_Some first_error_Cons run_driver_def
  sql_result_def

lemma run_driver_errD:
  assumes "run_driver drv f w = (Inl e, w')" "\<And>d e. f d = Inl e \<Longrightarrow> P e" "\<And>m. P (Errorf m)"
  shows "P e"
  using assms
  by (cases drv)
     (auto simp: run_driver_def in_tx_def in_db_def split: option.splits sum.splits prod.splits fault.splits)

lemma run_driver_okD:
  assumes "run_driver drv f w = (Inr a, w')"
  obtains d d' where "f d = Inr (a, d')"
  using assms
  by (cases drv)
     (auto simp: run_driver_def in_tx_def in_db_def split: option.splits sum.splits prod.splits fault.splits)

text \<open>What an insertion leaves to the builder: the row that was sent, or an error that is not
  the library's missing node.\<close>

lemma run_insert:
  assumes "run_driver drv f w = (res, w')"
    and "\<And>d. (\<exists>m. f d = Inl (Errorf m)) \<or> (\<exists>m. f d = Inl (ConstraintError m)) \<or> (\<exists>d'. f d = Inr (r, d'))"
  shows "(\<exists>e. res = Inl e \<and> create_err (sql_err_of e) = e) \<or> res = Inr r"
proof (cases res)
  case (Inl e)
  have "\<forall>l. e \<noteq> NotFoundError l"
  proof (rule run_driver_errD[OF assms(1)[unfolded Inl]])
    fix d e assume "f d = Inl e"
    with assms(2)[of d] show "\<forall>l. e \<noteq> NotFoundError l" by auto
  qed simp
  with Inl show ?thesis by simp
next
  case (Inr a)
  obtain d d' where "f d = Inr (a, d')" using run_driver_okD[OF assms(1)[unfolded Inr]] .
  with assms(2)[of d] Inr show ?thesis by auto
qed

lemma org_create_builder:
  assumes "executes_orgs G"
  shows "saved org_row_of
           (OrgCreate_Save G (OrgCreate_SetDescription s (OrgCreate_SetName n (OrgClient_Create TxDriver []))) w)
         = org_create n s w"
proof -
  obtain c w1 where 1: "now w = (c, w1)" by fastforce
  obtain u w2 where 2: "now w1 = (u, w2)" by fastforce
  obtain i w3 where 3: "new_uuid w2 = (i, w3)" by fastforce
  let ?r = "\<lparr>org_id = i, org_name = n, org_description = s, org_created_at = c, org_updated_at = u,
              org_deleted_at = None\<rparr>"
  obtain res w4 where 4: "run_driver TxDriver (insert_org ?r) w3 = (res, w4)" by fastforce
  have C: "CreateNode G TxDriver spec w3 = sql_result (\<lambda>r. Some (GUUIDPtr (Some (org_id r)))) (res, w4)"
    if "org_of_spec spec = Some ?r" for spec using assms that 4 by (simp add: executes_orgs_def)
  have 5: "(\<exists>e. res = Inl e \<and> create_err (sql_err_of e) = e) \<or> res = Inr ?r"
    by (rule run_insert[OF 4]) (simp add: insert_org_def)
  show ?thesis
  proof (cases "name_validator n")
    case None
    with 1 2 3 4 5 show ?thesis
      by (auto simp: OrgCreate_Save_def OrgCreate_defaults_def OrgCreate_sqlSave_def OrgCreate_check_def
          build_simps org_create_def org_check_def OrgCreate_createSpec_def C org_of_spec_def spec_simps
          created_uuid_def org_row_of_def)
  next
    case (Some m)
    with 1 2 3 show ?thesis
      by (simp add: OrgCreate_Save_def OrgCreate_defaults_def OrgCreate_sqlSave_def OrgCreate_check_def
          build_simps org_create_def org_check_def)
  qed
qed

lemma folder_create_builder:
  assumes "executes_folders G"
  shows "saved folder_row_of
           (FolderCreate_Save G (FolderCreate_SetOrg (org_node_of o') (FolderCreate_SetName n (FolderClient_Create TxDriver []))) w)
         = folder_create n o' w"
proof -
  obtain c w1 where 1: "now w = (c, w1)" by fastforce
  obtain u w2 where 2: "now w1 = (u, w2)" by fastforce
  obtain i w3 where 3: "new_uuid w2 = (i, w3)" by fastforce
  let ?r = "\<lparr>folder_id = i, folder_name = n, folder_created_at = c, folder_updated_at = u,
              folder_org = org_id o'\<rparr>"
  obtain res w4 where 4: "run_driver TxDriver (insert_folder ?r) w3 = (res, w4)" by fastforce
  have C: "CreateNode G TxDriver spec w3 = sql_result (\<lambda>r. Some (GUUIDPtr (Some (folder_id r)))) (res, w4)"
    if "folder_of_spec spec (org_id o') = Some ?r" for spec
    using assms[unfolded executes_folders_def, THEN conjunct1, rule_format, OF that] 4 by simp
  have 5: "(\<exists>e. res = Inl e \<and> create_err (sql_err_of e) = e) \<or> res = Inr ?r"
    by (rule run_insert[OF 4]) (simp add: insert_folder_def)
  show ?thesis
  proof (cases "name_validator n")
    case None
    with 1 2 3 4 5 show ?thesis
      by (auto simp: FolderCreate_Save_def FolderCreate_defaults_def FolderCreate_sqlSave_def
          FolderCreate_check_def build_simps folder_create_def folder_check_def FolderCreate_createSpec_def
          C folder_of_spec_def spec_simps Folder_edge_org_def org_node_of_def created_uuid_def folder_row_of_def)
  next
    case (Some m)
    with 1 2 3 show ?thesis
      by (simp add: FolderCreate_Save_def FolderCreate_defaults_def FolderCreate_sqlSave_def
          FolderCreate_check_def build_simps folder_create_def folder_check_def)
  qed
qed

lemma project_create_builder:
  assumes "executes_projects G"
  shows "saved project_row_of
           (ProjectCreate_Save G
              (ProjectCreate_SetFolder (folder_node_of f)
                 (ProjectCreate_SetDescription s (ProjectCreate_SetName n (ProjectClient_Create TxDriver [])))) w)
         = project_create n s f w"
proof -
  obtain c w1 where 1: "now w = (c, w1)" by fastforce
  obtain u w2 where 2: "now w1 = (u, w2)" by fastforce
  obtain i w3 where 3: "new_uuid w2 = (i, w3)" by fastforce
  let ?r = "\<lparr>proj_id = i, proj_name = n, proj_description = s, proj_created_at = c,
              proj_updated_at = u, proj_deleted_at = None, proj_folder = folder_id f\<rparr>"
  obtain res w4 where 4: "run_driver TxDriver (insert_project ?r) w3 = (res, w4)" by fastforce
  have C: "CreateNode G TxDriver spec w3 = sql_result (\<lambda>r. Some (GUUIDPtr (Some (proj_id r)))) (res, w4)"
    if "project_of_spec spec (folder_id f) = Some ?r" for spec
    using assms[unfolded executes_projects_def, THEN conjunct1, rule_format, OF that] 4 by simp
  have 5: "(\<exists>e. res = Inl e \<and> create_err (sql_err_of e) = e) \<or> res = Inr ?r"
    by (rule run_insert[OF 4]) (simp add: insert_project_def)
  show ?thesis
  proof (cases "name_validator n")
    case None
    with 1 2 3 4 5 show ?thesis
      by (auto simp: ProjectCreate_Save_def ProjectCreate_defaults_def ProjectCreate_sqlSave_def
          ProjectCreate_check_def build_simps project_create_def project_check_def
          ProjectCreate_createSpec_def C project_of_spec_def spec_simps Project_edge_folder_def
          folder_node_of_def created_uuid_def project_row_of_def)
  next
    case (Some m)
    with 1 2 3 show ?thesis
      by (simp add: ProjectCreate_Save_def ProjectCreate_defaults_def ProjectCreate_sqlSave_def
          ProjectCreate_check_def build_simps project_create_def project_check_def)
  qed
qed

text \<open>An event is built from the fields the store sets; the optional ones are set when the
  store has them.\<close>

definition event_builder :: "event_row \<Rightarrow> TenancyEventCreate" where
  "event_builder e =
     TenancyEventCreate_SetNillableFolderID (ev_folder_id e)
       (TenancyEventCreate_SetNillableOrgName (ev_org_name e)
         (TenancyEventCreate_SetNillableOrgID (ev_org_id e)
           (TenancyEventCreate_SetResourceName (ev_resource_name e)
             (TenancyEventCreate_SetResourceID (ev_resource_id e)
               (TenancyEventCreate_SetResourceType (ev_resource_type e)
                 (TenancyEventCreate_SetEventType (ev_type e)
                   (TenancyEventClient_Create TxDriver [])))))))"

lemma event_builder_mutation:
  "b_hooks (event_builder e) = []"
  "b_mutation (event_builder e) =
     (newTenancyEventMutation TxDriver OpCreate [])\<lparr>em_event_type := Some (ev_type e),
        em_resource_type := Some (ev_resource_type e), em_resource_id := Some (ev_resource_id e),
        em_resource_name := Some (ev_resource_name e), em_org_id := ev_org_id e,
        em_org_name := ev_org_name e, em_folder_id := ev_folder_id e\<rparr>"
  by (cases "ev_org_id e"; cases "ev_org_name e"; cases "ev_folder_id e";
      simp add: event_builder_def ent_ops)+

lemma validated_bind:
  "validated val v f q = map_option (validator_failed f q) (Option.bind v val)"
  by (cases v) (auto simp: validated_def)

lemma event_create_builder:
  assumes "executes_events G"
  shows "saved event_row_of (TenancyEventCreate_Save G (event_builder e) w) = event_create e w"
proof -
  obtain c w1 where 1: "now w = (c, w1)" by fastforce
  let ?r = "e\<lparr>ev_id := event_seq w1, ev_created_at := c\<rparr>"
  obtain res w4 where 4: "run_driver TxDriver (insert_event ?r) w1 = (res, w4)" by fastforce
  have C: "CreateNode G TxDriver spec w1 =
      (case sql_result (\<lambda>r. Some (GInt64 (ev_id r))) (res, w4) of
         (res, w') \<Rightarrow> (res, if next_fault w1 = None then w'\<lparr>event_seq := event_seq w' + 1\<rparr> else w'))"
    if "event_of_spec spec (event_seq w1) = Some ?r" for spec
    using assms that 4 by (simp add: executes_events_def run_driver_def)
  have 5: "(\<exists>e. res = Inl e \<and> create_err (sql_err_of e) = e) \<or> res = Inr ?r"
    by (rule run_insert[OF 4]) (simp add: insert_event_def)
  have spec: "event_of_spec (snd (TenancyEventCreate_createSpec
      (TenancyEventMutation_SetCreatedAt c (b_mutation (event_builder e))))) (event_seq w1) = Some ?r"
    by (cases e; cases "ev_org_id e"; cases "ev_org_name e"; cases "ev_folder_id e")
       (simp_all add: event_builder_mutation TenancyEventCreate_createSpec_def event_of_spec_def spec_simps ent_ops)
  have node: "event_row_of (fst (TenancyEventCreate_createSpec
      (TenancyEventMutation_SetCreatedAt c (b_mutation (event_builder e))))\<lparr>en_id := event_seq w1\<rparr>) = ?r"
    by (cases e) (simp add: event_builder_mutation TenancyEventCreate_createSpec_def event_row_of_def ent_ops)
  have check: "TenancyEventCreate_check (TenancyEventMutation_SetCreatedAt c (b_mutation (event_builder e)))
      = event_check ?r"
    by (simp add: event_builder_mutation TenancyEventCreate_check_def event_check_def ent_ops validated_bind
        first_error_Cons split: option.splits)
  have drv: "m_driver (TenancyEventMutation_SetCreatedAt c (b_mutation (event_builder e))) = TxDriver"
    by (simp add: event_builder_mutation ent_ops)
  have fresh: "TenancyEventMutation_CreatedAt (b_mutation (event_builder e)) = None"
    by (simp add: event_builder_mutation ent_ops)
  obtain nd sp where ns: "TenancyEventCreate_createSpec
      (TenancyEventMutation_SetCreatedAt c (b_mutation (event_builder e))) = (nd, sp)" by fastforce
  show ?thesis
  proof (cases "event_check ?r")
    case None
    with 1 4 5 C[of sp] spec node check drv fresh ns event_builder_mutation(1)[of e] show ?thesis
      by (auto simp: TenancyEventCreate_Save_def TenancyEventCreate_defaults_def
          TenancyEventCreate_sqlSave_def withHooks_def save_with_def saved_def default_now_def
          event_create_def sql_result_def run_driver_def created_int64_def)
  next
    case (Some m)
    with 1 check fresh event_builder_mutation(1)[of e] show ?thesis
      by (simp add: TenancyEventCreate_Save_def TenancyEventCreate_defaults_def
          TenancyEventCreate_sqlSave_def withHooks_def save_with_def saved_def default_now_def
          event_create_def)
  qed
qed

lemma status_create_builder:
  assumes "executes_statuses G"
  shows "saved id
           (ControllerStatusCreate_Exec G
              (ControllerStatusCreate_SetMessage msg (ControllerStatusCreate_SetStatus st
                (ControllerStatusCreate_SetResourceID i (ControllerStatusCreate_SetResourceType rt
                  (ControllerStatusCreate_SetControllerName c (ControllerStatusClient_Create DbDriver [])))))) w)
         = status_create c rt i st msg w"
proof -
  obtain u w1 where 1: "now w = (u, w1)" by fastforce
  let ?r = "\<lparr>cs_controller = c, cs_resource_type = rt, cs_resource_id = i, cs_status = st,
              cs_message = msg, cs_updated_at = u\<rparr>"
  obtain res w4 where 4: "run_driver DbDriver (insert_status ?r) w1 = (res, w4)" by fastforce
  have C: "\<exists>k. CreateNode G DbDriver spec w1 = sql_result (\<lambda>_. Some (GInt64 k)) (res, w4)"
    if "status_of_spec spec = Some ?r" for spec
    using assms[unfolded executes_statuses_def, THEN conjunct1, rule_format, OF that, of DbDriver w1] 4 by simp
  have 5: "(\<exists>e. res = Inl e \<and> create_err (sql_err_of e) = e) \<or> res = Inr ()"
    by (rule run_insert[OF 4]) (simp add: insert_status_def)
  let ?m = "ControllerStatusMutation_SetUpdatedAt u (ControllerStatusMutation_SetMessage msg
     (ControllerStatusMutation_SetStatus st (ControllerStatusMutation_SetResourceID i
       (ControllerStatusMutation_SetResourceType rt (ControllerStatusMutation_SetControllerName c
         (newControllerStatusMutation DbDriver OpCreate []))))))"
  have spec: "status_of_spec (snd (ControllerStatusCreate_createSpec ?m)) = Some ?r"
    by (simp add: ControllerStatusCreate_createSpec_def status_of_spec_def spec_simps ent_ops)
  have check: "ControllerStatusCreate_check ?m = status_check ?r"
    by (simp add: ControllerStatusCreate_check_def status_check_def ent_ops validated_bind
        first_error_Cons split: option.splits)
  obtain nd sp where ns: "ControllerStatusCreate_createSpec ?m = (nd, sp)" by fastforce
  with C[of sp] spec obtain k where k: "CreateNode G DbDriver sp w1 = sql_result (\<lambda>_. Some (GInt64 k)) (res, w4)"
    by auto
  have drv: "m_driver ?m = DbDriver" by (simp add: ent_ops)
  have dflt: "ControllerStatusCreate_defaults (b_mutation
      (ControllerStatusCreate_SetMessage msg (ControllerStatusCreate_SetStatus st
        (ControllerStatusCreate_SetResourceID i (ControllerStatusCreate_SetResourceType rt
          (ControllerStatusCreate_SetControllerName c (ControllerStatusClient_Create DbDriver []))))))) w = (?m, w1)"
    using 1 by (simp add: ControllerStatusCreate_defaults_def default_now_def default_value_def ent_ops)
  have hooks: "b_hooks (ControllerStatusCreate_SetMessage msg (ControllerStatusCreate_SetStatus st
        (ControllerStatusCreate_SetResourceID i (ControllerStatusCreate_SetResourceType rt
          (ControllerStatusCreate_SetControllerName c (ControllerStatusClient_Create DbDriver [])))))) = []"
    by (simp add: ent_ops)
  show ?thesis
    using 1 4 5
    by (auto simp: ControllerStatusCreate_Exec_def ControllerStatusCreate_Save_def exec_of_def dflt hooks
        ControllerStatusCreate_sqlSave_def check ns drv k withHooks_def save_with_def saved_def
        status_create_def sql_result_def run_driver_def created_int_def split: option.splits)
qed

section \<open>Updates and deletions\<close>

lemma run_driver_cong: "(\<And>d. f d = g d) \<Longrightarrow> run_driver drv f w = run_driver drv g w"
  by (simp add: ext[of f g])

text \<open>The result of a bulk statement that finds no error of its own.\<close>

lemma run_update:
  assumes "run_driver drv f w = (res, w')" "\<And>d e. f d = Inl e \<Longrightarrow> e = NotFoundError label \<or> (\<exists>m. e = ConstraintError m)"
  shows "(\<exists>e. res = Inl e \<and> update_err label (sql_err_of e) = e) \<or> (\<exists>a. res = Inr a)"
proof (cases res)
  case (Inl e)
  have "\<forall>l. e = NotFoundError l \<longrightarrow> l = label"
  proof (rule run_driver_errD[OF assms(1)[unfolded Inl]])
    fix d e assume "f d = Inl e"
    with assms(2)[of d] show "\<forall>l. e = NotFoundError l \<longrightarrow> l = label" by auto
  qed simp
  with Inl show ?thesis by simp
qed simp

lemma run_delete:
  assumes "run_driver drv f w = (res, w')" "\<And>d e. f d = Inl e \<Longrightarrow> \<forall>l. e \<noteq> NotFoundError l"
  shows "(\<exists>e. res = Inl e \<and> create_err (sql_err_of e) = e) \<or> (\<exists>a. res = Inr a)"
proof (cases res)
  case (Inl e)
  have "\<forall>l. e \<noteq> NotFoundError l"
    by (rule run_driver_errD[OF assms(1)[unfolded Inl]]) (use assms(2) in auto)
  with Inl show ?thesis by simp
qed simp

lemma run_driver_map:
  "run_driver drv (\<lambda>d. map_sum id (map_prod g id) (f d)) w =
     (case run_driver drv f w of (res, w') \<Rightarrow> (map_sum id g res, w'))"
  by (cases drv)
     (auto simp: run_driver_def in_tx_def in_db_def split: option.splits sum.splits prod.splits fault.splits)

lemma org_delete_mark_builder:
  assumes "executes_orgs G"
  shows "saved id
           (OrgUpdate_Save G (OrgUpdate_SetDeletedAt t
              (OrgUpdate_Where [\<lambda>d r. org_id r = i, \<lambda>d r. org_deleted_at r = None]
                 (OrgClient_Update TxDriver []))) w)
         = org_set_deleted_at i t w"
proof -
  obtain u w1 where 1: "now w = (u, w1)" by fastforce
  obtain res w4 where 4: "run_driver TxDriver (soft_delete_orgs i t u) w1 = (res, w4)" by fastforce
  have 5: "(\<exists>e. res = Inl e \<and> update_err ''org'' (sql_err_of e) = e) \<or> (\<exists>a. res = Inr a)"
    by (rule run_update[OF 4]) (simp add: soft_delete_orgs_def)
  let ?b = "OrgUpdate_SetDeletedAt t (OrgUpdate_Where [\<lambda>d r. org_id r = i, \<lambda>d r. org_deleted_at r = None]
                 (OrgClient_Update TxDriver [])) :: OrgUpdate"
  let ?m = "OrgMutation_SetUpdatedAt u (b_mutation ?b)"
  have dflt: "OrgUpdate_defaults (b_mutation ?b) w = (?m, w1)" "b_hooks ?b = []"
    using 1 by (simp_all add: OrgUpdate_defaults_def default_now_def ent_ops)
  have plain: "plain_update {''description'', ''updated_at'', ''deleted_at''} (OrgUpdate_spec ?m None cols)" for cols
    by (simp add: plain_update_def OrgUpdate_spec_def spec_field_def ent_ops)
  have rows: "update_rows orgs set_orgs org_put (OrgUpdate_spec ?m None cols) d = soft_delete_orgs i t u d" for cols d
    by (simp add: update_rows_def soft_delete_orgs_def satisfies_def[abs_def] put_all_def org_put_def
        OrgUpdate_spec_def spec_field_def ent_ops Let_def)
  have C: "UpdateNodes G TxDriver (OrgUpdate_spec ?m None cols) w1 = sql_result id (res, w4)" for cols
    using assms plain 4 by (simp add: executes_orgs_def run_driver_cong[OF rows])
  have m: "m_driver ?m = TxDriver" "OrgUpdate_check ?m = None"
    by (simp_all add: ent_ops OrgUpdate_check_def validated_def)
  show ?thesis
    using 1 4 5
    by (auto simp: OrgUpdate_Save_def dflt OrgUpdate_sqlSave_def m C withHooks_def save_with_def saved_def
        sql_result_def org_set_deleted_at_def run_driver_def)
qed

lemma project_delete_mark_builder:
  assumes "executes_projects G"
  shows "saved id
           (ProjectUpdate_Save G (ProjectUpdate_SetDeletedAt t
              (ProjectUpdate_Where [\<lambda>d r. proj_id r = i, \<lambda>d r. proj_deleted_at r = None]
                 (ProjectClient_Update TxDriver []))) w)
         = project_set_deleted_at i t w"
proof -
  obtain u w1 where 1: "now w = (u, w1)" by fastforce
  obtain res w4 where 4: "run_driver TxDriver (soft_delete_projects i t u) w1 = (res, w4)" by fastforce
  have 5: "(\<exists>e. res = Inl e \<and> update_err ''project'' (sql_err_of e) = e) \<or> (\<exists>a. res = Inr a)"
    by (rule run_update[OF 4]) (simp add: soft_delete_projects_def)
  let ?b = "ProjectUpdate_SetDeletedAt t (ProjectUpdate_Where
     [\<lambda>d r. proj_id r = i, \<lambda>d r. proj_deleted_at r = None] (ProjectClient_Update TxDriver [])) :: ProjectUpdate"
  let ?m = "ProjectMutation_SetUpdatedAt u (b_mutation ?b)"
  have dflt: "ProjectUpdate_defaults (b_mutation ?b) w = (?m, w1)" "b_hooks ?b = []"
    using 1 by (simp_all add: ProjectUpdate_defaults_def default_now_def ent_ops)
  have plain: "plain_update {''description'', ''updated_at'', ''deleted_at''} (ProjectUpdate_spec ?m None cols)" for cols
    by (simp add: plain_update_def ProjectUpdate_spec_def spec_field_def ent_ops)
  have rows: "update_rows projects set_projects project_put (ProjectUpdate_spec ?m None cols) d
      = soft_delete_projects i t u d" for cols d
    by (simp add: update_rows_def soft_delete_projects_def satisfies_def[abs_def] put_all_def project_put_def
        ProjectUpdate_spec_def spec_field_def ent_ops Let_def)
  have C: "UpdateNodes G TxDriver (ProjectUpdate_spec ?m None cols) w1 = sql_result id (res, w4)" for cols
    using assms plain 4 by (simp add: executes_projects_def run_driver_cong[OF rows])
  have m: "m_driver ?m = TxDriver" "ProjectUpdate_check ?m = None"
    by (simp_all add: ent_ops ProjectUpdate_check_def validated_def)
  show ?thesis
    using 1 4 5
    by (auto simp: ProjectUpdate_Save_def dflt ProjectUpdate_sqlSave_def m C withHooks_def save_with_def
        saved_def sql_result_def project_set_deleted_at_def run_driver_def)
qed

lemma status_update_builder:
  assumes "executes_statuses G"
  shows "saved id
           (ControllerStatusUpdate_Save G (ControllerStatusUpdate_SetMessage msg
              (ControllerStatusUpdate_SetStatus st
                (ControllerStatusUpdate_Where
                   [\<lambda>d r. cs_controller r = c, \<lambda>d r. cs_resource_type r = rt, \<lambda>d r. cs_resource_id r = i]
                   (ControllerStatusClient_Update DbDriver [])))) w)
         = status_update c rt i st msg w"
proof -
  obtain u w1 where 1: "now w = (u, w1)" by fastforce
  obtain res w4 where 4: "run_driver DbDriver (update_statuses c rt i st msg u) w1 = (res, w4)" by fastforce
  have 5: "(\<exists>e. res = Inl e \<and> update_err ''controller_status'' (sql_err_of e) = e) \<or> (\<exists>a. res = Inr a)"
    by (rule run_update[OF 4]) (simp add: update_statuses_def)
  let ?b = "ControllerStatusUpdate_SetMessage msg (ControllerStatusUpdate_SetStatus st
     (ControllerStatusUpdate_Where
        [\<lambda>d r. cs_controller r = c, \<lambda>d r. cs_resource_type r = rt, \<lambda>d r. cs_resource_id r = i]
        (ControllerStatusClient_Update DbDriver []))) :: ControllerStatusUpdate"
  let ?m = "ControllerStatusMutation_SetUpdatedAt u (b_mutation ?b)"
  have dflt: "ControllerStatusUpdate_defaults (b_mutation ?b) w = (?m, w1)" "b_hooks ?b = []"
    using 1 by (simp_all add: ControllerStatusUpdate_defaults_def default_now_def ent_ops)
  have plain: "plain_update {''status'', ''message'', ''updated_at''} (ControllerStatusUpdate_spec ?m None cols)" for cols
    by (simp add: plain_update_def ControllerStatusUpdate_spec_def spec_field_def ent_ops)
  have rows: "update_rows statuses set_statuses status_put (ControllerStatusUpdate_spec ?m None cols) d
      = update_statuses c rt i st msg u d" for cols d
    by (simp add: update_rows_def update_statuses_def satisfies_def[abs_def] put_all_def status_put_def
        status_key_def[abs_def] ControllerStatusUpdate_spec_def spec_field_def ent_ops Let_def)
  have C: "UpdateNodes G DbDriver (ControllerStatusUpdate_spec ?m None cols) w1 = sql_result id (res, w4)" for cols
    using assms plain 4 by (simp add: executes_statuses_def run_driver_cong[OF rows])
  have m: "m_driver ?m = DbDriver" "ControllerStatusUpdate_check ?m =
      map_option (validator_failed ''status'' ''ControllerStatus.status'') (status_validator st)"
    by (simp_all add: ent_ops ControllerStatusUpdate_check_def validated_def first_error_Cons
        split: option.splits)
  show ?thesis
    using 1 4 5
    by (auto simp: ControllerStatusUpdate_Save_def dflt ControllerStatusUpdate_sqlSave_def m C withHooks_def
        save_with_def saved_def sql_result_def status_update_def run_driver_def split: option.splits)
qed

text \<open>A row that is satisfies with all its columns is assigned to the node it came from.\<close>

lemma org_assign_row: "Org_assignValues zero_org_node Org_Columns (map (org_column r) Org_Columns) = Inr (org_node_of r)"
  by (cases "org_deleted_at r")
     (simp_all add: Org_assignValues_def assign_columns_def Org_Columns_def Org_assign_column_def
        org_column_def zero_org_node_def org_node_of_def)

lemma folder_assign_row:
  "Folder_assignValues zero_folder_node (Folder_Columns @ [''org_folders''])
     (map (folder_column r) (Folder_Columns @ [''org_folders'']))
     = Inr ((folder_node_of r)\<lparr>fn_org_folders := Some (folder_org r)\<rparr>)"
  by (simp add: Folder_assignValues_def assign_columns_def Folder_Columns_def Folder_assign_column_def
        folder_column_def zero_folder_node_def folder_node_of_def)

lemma project_assign_row:
  "Project_assignValues zero_proj_node Project_Columns (map (project_column r) Project_Columns)
     = Inr (proj_node_of r)"
  by (cases "proj_deleted_at r")
     (simp_all add: Project_assignValues_def assign_columns_def Project_Columns_def
        Project_assign_column_def project_column_def zero_proj_node_def proj_node_of_def)

lemma event_assign_row:
  "TenancyEvent_assignValues zero_event_node TenancyEvent_Columns
     (map (event_column r) TenancyEvent_Columns) = Inr (event_node_of r)"
  by (cases "ev_org_id r"; cases "ev_org_name r"; cases "ev_folder_id r")
     (simp_all add: TenancyEvent_assignValues_def assign_columns_def TenancyEvent_Columns_def
        TenancyEvent_assign_column_def event_column_def zero_event_node_def event_node_of_def)

lemma org_row_of_node [simp]: "org_row_of (org_node_of r) = r"
  by (simp add: org_row_of_def org_node_of_def)

lemma event_row_of_node [simp]: "event_row_of (event_node_of r) = r"
  by (simp add: event_row_of_def event_node_of_def)

lemma org_describe_builder:
  assumes "executes_orgs G"
  shows "saved org_row_of
           (OrgUpdateOne_Save G (OrgUpdate_SetDescription s (OrgClient_UpdateOne TxDriver [] n)) w)
         = org_set_description (on_id n) s w"
proof -
  obtain u w1 where 1: "now w = (u, w1)" by fastforce
  obtain res w4 where 4: "run_driver TxDriver (describe_org (on_id n) s u) w1 = (res, w4)" by fastforce
  have 5: "(\<exists>e. res = Inl e \<and> update_err ''org'' (sql_err_of e) = e) \<or> (\<exists>a. res = Inr a)"
    by (rule run_update[OF 4]) (auto simp: describe_org_def split: option.splits)
  let ?b = "OrgUpdate_SetDescription s (OrgClient_UpdateOne TxDriver [] n) :: OrgUpdateOne"
  let ?m = "OrgMutation_SetUpdatedAt u (b_mutation ?b)"
  let ?spec = "OrgUpdate_spec ?m (Some (GUUID (on_id n))) Org_Columns"
  have dflt: "OrgUpdate_defaults (b_mutation ?b) w = (?m, w1)" "b_hooks ?b = []" "b_fields ?b = []"
    using 1 by (simp_all add: OrgUpdate_defaults_def default_now_def ent_ops)
  have plain: "plain_update {''description'', ''updated_at'', ''deleted_at''} ?spec"
    by (simp add: plain_update_def OrgUpdate_spec_def spec_field_def ent_ops)
  have rows: "update_row orgs set_orgs org_put org_id org_column ''org'' ?spec d
      = map_sum id (map_prod org_node_of id) (describe_org (on_id n) s u d)" for d
  proof -
    have find_eq: "find (\<lambda>r. on_id n = org_id r) (orgs d) = find (\<lambda>r. org_id r = on_id n) (orgs d)"
      by (rule arg_cong[where f = "\<lambda>P. find P (orgs d)"]) auto
    have upd: "map (\<lambda>r. if on_id n = org_id r then f r else r) (orgs d)
        = map (\<lambda>r. if org_id r = on_id n then f r else r) (orgs d)" for f by auto
    show ?thesis
      by (auto simp: update_row_def describe_org_def satisfies_def put_all_def org_put_def find_eq upd
          OrgUpdate_spec_def spec_field_def ent_ops org_assign_row[unfolded ent_ops] split: option.splits)
  qed
  have C: "UpdateNode G TxDriver ?spec w1 = sql_result org_node_of (res, w4)"
    using assms plain 4
    by (simp add: executes_orgs_def run_driver_cong[OF rows] run_driver_map sql_result_def sum.map_comp)
  have m: "m_driver ?m = TxDriver" "OrgUpdate_check ?m = None" "m_id ?m = Some (on_id n)"
    by (simp_all add: ent_ops OrgUpdate_check_def validated_def)
  show ?thesis
    using 1 4 5
    by (auto simp: OrgUpdateOne_Save_def dflt OrgUpdateOne_sqlSave_def m C node_columns_def withHooks_def
        save_with_def saved_def sql_result_def org_set_description_def run_driver_def)
qed

lemma project_describe_builder:
  assumes "executes_projects G"
  shows "saved (\<lambda>n. (pn_id n, pn_name n, pn_description n, pn_updated_at n, pn_deleted_at n))
           (ProjectUpdateOne_Save G (ProjectUpdate_SetDescription s (ProjectClient_UpdateOne TxDriver [] n)) w)
         = map_prod
             (map_sum id (\<lambda>r. (proj_id r, proj_name r, proj_description r, proj_updated_at r, proj_deleted_at r)))
             id (project_set_description (pn_id n) s w)"
proof -
  obtain u w1 where 1: "now w = (u, w1)" by fastforce
  obtain res w4 where 4: "run_driver TxDriver (describe_project (pn_id n) s u) w1 = (res, w4)" by fastforce
  have 5: "(\<exists>e. res = Inl e \<and> update_err ''project'' (sql_err_of e) = e) \<or> (\<exists>a. res = Inr a)"
    by (rule run_update[OF 4]) (auto simp: describe_project_def split: option.splits)
  let ?b = "ProjectUpdate_SetDescription s (ProjectClient_UpdateOne TxDriver [] n) :: ProjectUpdateOne"
  let ?m = "ProjectMutation_SetUpdatedAt u (b_mutation ?b)"
  let ?spec = "ProjectUpdate_spec ?m (Some (GUUID (pn_id n))) Project_Columns"
  have dflt: "ProjectUpdate_defaults (b_mutation ?b) w = (?m, w1)" "b_hooks ?b = []" "b_fields ?b = []"
    using 1 by (simp_all add: ProjectUpdate_defaults_def default_now_def ent_ops)
  have plain: "plain_update {''description'', ''updated_at'', ''deleted_at''} ?spec"
    by (simp add: plain_update_def ProjectUpdate_spec_def spec_field_def ent_ops)
  have rows: "update_row projects set_projects project_put proj_id project_column ''project'' ?spec d
      = map_sum id (map_prod proj_node_of id) (describe_project (pn_id n) s u d)" for d
  proof -
    have find_eq: "find (\<lambda>r. pn_id n = proj_id r) (projects d) = find (\<lambda>r. proj_id r = pn_id n) (projects d)"
      by (rule arg_cong[where f = "\<lambda>P. find P (projects d)"]) auto
    have upd: "map (\<lambda>r. if pn_id n = proj_id r then f r else r) (projects d)
        = map (\<lambda>r. if proj_id r = pn_id n then f r else r) (projects d)" for f by auto
    show ?thesis
      by (auto simp: update_row_def describe_project_def satisfies_def put_all_def project_put_def find_eq upd
          ProjectUpdate_spec_def spec_field_def ent_ops project_assign_row[unfolded ent_ops]
          split: option.splits)
  qed
  have C: "UpdateNode G TxDriver ?spec w1 = sql_result proj_node_of (res, w4)"
    using assms plain 4
    by (simp add: executes_projects_def run_driver_cong[OF rows] run_driver_map sql_result_def sum.map_comp)
  have m: "m_driver ?m = TxDriver" "ProjectUpdate_check ?m = None" "m_id ?m = Some (pn_id n)"
    by (simp_all add: ent_ops ProjectUpdate_check_def validated_def)
  show ?thesis
    using 1 4 5
    by (auto simp: ProjectUpdateOne_Save_def dflt ProjectUpdateOne_sqlSave_def m C node_columns_def
        withHooks_def save_with_def saved_def sql_result_def project_set_description_def run_driver_def
        proj_node_of_def)
qed

text \<open>Deletions by predicate and by id.\<close>

lemma folder_delete_builder:
  assumes "executes_folders G"
  shows "saved id (FolderDelete_Exec G (FolderDelete_Where [p] (FolderClient_Delete drv [])) w)
         = run_driver drv (\<lambda>d. delete_folders (p d) d) w"
proof -
  obtain res w4 where 4: "run_driver drv (\<lambda>d. delete_folders (p d) d) w = (res, w4)" by fastforce
  have 5: "(\<exists>e. res = Inl e \<and> create_err (sql_err_of e) = e) \<or> (\<exists>a. res = Inr a)"
    by (rule run_delete[OF 4]) (auto simp: delete_folders_def split: if_splits)
  have D: "DeleteNodes G drv ds w = sql_result id (res, w4)"
    if "ds_table ds = ''folders''" "ds_preds ds = [p]" for ds
    using assms that 4 by (simp add: executes_folders_def satisfies_def[abs_def])
  show ?thesis
    using 4 5
    by (auto simp: FolderDelete_Exec_def FolderDelete_sqlExec_def withHooks_def save_with_def saved_def
        ent_ops D sql_result_def)
qed

lemma event_delete_builder:
  assumes "executes_events G"
  shows "saved id (TenancyEventDelete_Exec G (TenancyEventDelete_Where [p] (TenancyEventClient_Delete drv [])) w)
         = run_driver drv (\<lambda>d. delete_events (p d) d) w"
proof -
  obtain res w4 where 4: "run_driver drv (\<lambda>d. delete_events (p d) d) w = (res, w4)" by fastforce
  have 5: "(\<exists>e. res = Inl e \<and> create_err (sql_err_of e) = e) \<or> (\<exists>a. res = Inr a)"
    by (rule run_delete[OF 4]) (auto simp: delete_events_def)
  have D: "DeleteNodes G drv ds w = sql_result id (res, w4)"
    if "ds_table ds = ''tenancy_events''" "ds_preds ds = [p]" for ds
    using assms that 4 by (simp add: executes_events_def satisfies_def[abs_def])
  show ?thesis
    using 4 5
    by (auto simp: TenancyEventDelete_Exec_def TenancyEventDelete_sqlExec_def withHooks_def save_with_def
        saved_def ent_ops D sql_result_def)
qed

lemma project_delete_one_builder:
  assumes "executes_projects G"
  shows "saved id (ProjectDeleteOne_Exec G (ProjectClient_DeleteOneID DbDriver [] i) w)
         = in_db (delete_one_project i) w"
proof -
  let ?b = "ProjectClient_DeleteOneID DbDriver [] i"
  let ?m = "b_mutation ?b"
  let ?f = "\<lambda>d. delete_rows projects set_projects \<lparr>ds_table = ''projects'', ds_id_field = (''id'', TypeUUID), ds_preds = m_preds ?m\<rparr> d"
  have m: "m_driver ?m = DbDriver" "b_hooks ?b = []" "m_preds ?m = [\<lambda>d r. proj_id r = i]"
    by (simp_all add: ent_ops)
  have f: "?f d = Inr (length (filter (\<lambda>r. proj_id r = i) (projects d)),
                       d\<lparr>projects := filter (\<lambda>r. proj_id r \<noteq> i) (projects d)\<rparr>)" for d
    by (simp add: delete_rows_def m satisfies_def[abs_def])
  have none: "i \<notin> proj_id ` set (projects d) \<longleftrightarrow> filter (\<lambda>r. proj_id r = i) (projects d) = []"
       "i \<notin> proj_id ` set (projects d) \<Longrightarrow> filter (\<lambda>r. proj_id r \<noteq> i) (projects d) = projects d" for d
    by (auto simp: filter_empty_conv intro: filter_True)
  have D: "DeleteNodes G DbDriver \<lparr>ds_table = ''projects'', ds_id_field = (''id'', TypeUUID), ds_preds = m_preds ?m\<rparr> w
      = sql_result id (in_db ?f w)"
    using assms by (simp add: executes_projects_def run_driver_def)
  show ?thesis
    by (auto simp: ProjectDeleteOne_Exec_def ProjectDelete_Exec_def ProjectDelete_sqlExec_def withHooks_def
        save_with_def saved_def m D[unfolded m] sql_result_def in_db_def f[unfolded m] delete_one_project_def
        none create_err_def sql_err_of_def split: option.splits fault.splits)
qed

section \<open>The executors as functions\<close>

text \<open>An implementation of the library for each table: the reference executor itself.\<close>

definition unsupported :: "sql_err + 'a" where
  "unsupported = Inl (SqlOther (Errorf ''unsupported specification''))"

definition edge_target :: "create_spec \<Rightarrow> uuid" where
  "edge_target spec = (case cs_edges spec of e # _ \<Rightarrow> the_elem (es_nodes e) | [] \<Rightarrow> 0)"

definition pg_orgs :: "(org_row, org_node) sqlgraph" where
  "pg_orgs =
     \<lparr>CreateNode = (\<lambda>drv spec w.
        case org_of_spec spec of
          None \<Rightarrow> (unsupported, w)
        | Some r \<Rightarrow> sql_result (\<lambda>r. Some (GUUIDPtr (Some (org_id r)))) (run_driver drv (insert_org r) w)),
      BatchCreate = (\<lambda>drv specs w. (unsupported, w)),
      UpdateNodes = (\<lambda>drv spec w. sql_result id (run_driver drv (update_rows orgs set_orgs org_put spec) w)),
      UpdateNode = (\<lambda>drv spec w.
        sql_result id (run_driver drv (update_row orgs set_orgs org_put org_id org_column ''org'' spec) w)),
      DeleteNodes = (\<lambda>drv ds w.
        sql_result id
          (run_driver drv
             (\<lambda>d. if \<exists>r \<in> set (orgs d). satisfies (ds_preds ds) d r \<and> org_id r \<in> folder_org ` set (folders d)
                  then Inl (ConstraintError ''folders_orgs_folders'')
                  else delete_rows orgs set_orgs ds d) w)),
      uuid_Scan = (\<lambda>v. Inl (Errorf ''Scan: unable to scan type into UUID''))\<rparr>"

definition pg_folders :: "(folder_row, folder_node) sqlgraph" where
  "pg_folders =
     \<lparr>CreateNode = (\<lambda>drv spec w.
        case folder_of_spec spec (edge_target spec) of
          None \<Rightarrow> (unsupported, w)
        | Some r \<Rightarrow>
            sql_result (\<lambda>r. Some (GUUIDPtr (Some (folder_id r)))) (run_driver drv (insert_folder r) w)),
      BatchCreate = (\<lambda>drv specs w. (unsupported, w)),
      UpdateNodes = (\<lambda>drv spec w. (unsupported, w)),
      UpdateNode = (\<lambda>drv spec w. (unsupported, w)),
      DeleteNodes = (\<lambda>drv ds w.
        sql_result id (run_driver drv (\<lambda>d. delete_folders (satisfies (ds_preds ds) d) d) w)),
      uuid_Scan = (\<lambda>v. Inl (Errorf ''Scan: unable to scan type into UUID''))\<rparr>"

definition pg_projects :: "(project_row, proj_node) sqlgraph" where
  "pg_projects =
     \<lparr>CreateNode = (\<lambda>drv spec w.
        case project_of_spec spec (edge_target spec) of
          None \<Rightarrow> (unsupported, w)
        | Some r \<Rightarrow>
            sql_result (\<lambda>r. Some (GUUIDPtr (Some (proj_id r)))) (run_driver drv (insert_project r) w)),
      BatchCreate = (\<lambda>drv specs w. (unsupported, w)),
      UpdateNodes = (\<lambda>drv spec w.
        sql_result id (run_driver drv (update_rows projects set_projects project_put spec) w)),
      UpdateNode = (\<lambda>drv spec w.
        sql_result id
          (run_driver drv (update_row projects set_projects project_put proj_id project_column ''project'' spec) w)),
      DeleteNodes = (\<lambda>drv ds w. sql_result id (run_driver drv (delete_rows projects set_projects ds) w)),
      uuid_Scan = (\<lambda>v. Inl (Errorf ''Scan: unable to scan type into UUID''))\<rparr>"

definition pg_events :: "(event_row, event_node) sqlgraph" where
  "pg_events =
     \<lparr>CreateNode = (\<lambda>drv spec w.
        case event_of_spec spec (event_seq w) of
          None \<Rightarrow> (unsupported, w)
        | Some r \<Rightarrow>
            (case sql_result (\<lambda>r. Some (GInt64 (ev_id r))) (run_driver drv (insert_event r) w) of
               (res, w') \<Rightarrow>
                 (res, if next_fault w = None then w'\<lparr>event_seq := event_seq w' + 1\<rparr> else w'))),
      BatchCreate = (\<lambda>drv specs w. (unsupported, w)),
      UpdateNodes = (\<lambda>drv spec w. (unsupported, w)),
      UpdateNode = (\<lambda>drv spec w. (unsupported, w)),
      DeleteNodes = (\<lambda>drv ds w.
        sql_result id (run_driver drv (\<lambda>d. delete_events (satisfies (ds_preds ds) d) d) w)),
      uuid_Scan = (\<lambda>v. Inl (Errorf ''Scan: unable to scan type into UUID''))\<rparr>"

definition pg_statuses :: "(status_row, status_node) sqlgraph" where
  "pg_statuses =
     \<lparr>CreateNode = (\<lambda>drv spec w.
        case status_of_spec spec of
          None \<Rightarrow> (unsupported, w)
        | Some r \<Rightarrow> sql_result (\<lambda>_. Some (GInt64 1)) (run_driver drv (insert_status r) w)),
      BatchCreate = (\<lambda>drv specs w. (unsupported, w)),
      UpdateNodes = (\<lambda>drv spec w.
        sql_result id (run_driver drv (update_rows statuses set_statuses status_put spec) w)),
      UpdateNode = (\<lambda>drv spec w. (unsupported, w)),
      DeleteNodes = (\<lambda>drv ds w.
        sql_result id (run_driver drv (\<lambda>d. delete_statuses (satisfies (ds_preds ds) d) d) w)),
      uuid_Scan = (\<lambda>v. Inl (Errorf ''Scan: unable to scan type into UUID''))\<rparr>"

lemma edge_to_target: "edge_to spec col i \<Longrightarrow> edge_target spec = i"
  by (auto simp: edge_to_def edge_target_def split: list.splits)

lemma folder_of_spec_edge: "folder_of_spec spec i = Some r \<Longrightarrow> edge_target spec = i"
  by (auto simp: folder_of_spec_def dest: edge_to_target split: option.splits gvalue.splits if_splits)

lemma project_of_spec_edge: "project_of_spec spec i = Some r \<Longrightarrow> edge_target spec = i"
  by (auto simp: project_of_spec_def dest: edge_to_target split: option.splits gvalue.splits if_splits)

lemma pg_executes:
  "executes_orgs pg_orgs" "executes_folders pg_folders" "executes_projects pg_projects"
  "executes_events pg_events" "executes_statuses pg_statuses"
proof -
  show "executes_orgs pg_orgs" by (simp add: executes_orgs_def pg_orgs_def)
  show "executes_folders pg_folders"
    using folder_of_spec_edge by (fastforce simp: executes_folders_def pg_folders_def)
  show "executes_projects pg_projects"
    using project_of_spec_edge by (fastforce simp: executes_projects_def pg_projects_def)
  show "executes_events pg_events" by (simp add: executes_events_def pg_events_def run_driver_def)
  show "executes_statuses pg_statuses" by (auto simp: executes_statuses_def pg_statuses_def)
qed

section \<open>Properties\<close>

text \<open>C24. The chains of builder calls by which store.go creates an org, a folder, a project, an
  event and a controller status (client, setters, defaults, checks, specification, the row the
  library inserts and the node it returns) are exactly the creating statements of the store's
  model, in every world, for every library that executes specifications.\<close>

theorem creations_refine_the_store:
  assumes "executes_orgs Go" "executes_folders Gf" "executes_projects Gp" "executes_events Ge"
    "executes_statuses Gs"
  shows "saved org_row_of
           (OrgCreate_Save Go (OrgCreate_SetDescription s (OrgCreate_SetName n (OrgClient_Create TxDriver []))) w)
         = org_create n s w
    \<and> saved folder_row_of
           (FolderCreate_Save Gf
              (FolderCreate_SetOrg (org_node_of o') (FolderCreate_SetName n (FolderClient_Create TxDriver []))) w)
         = folder_create n o' w
    \<and> saved project_row_of
           (ProjectCreate_Save Gp
              (ProjectCreate_SetFolder (folder_node_of f)
                 (ProjectCreate_SetDescription s (ProjectCreate_SetName n (ProjectClient_Create TxDriver [])))) w)
         = project_create n s f w
    \<and> saved event_row_of (TenancyEventCreate_Save Ge (event_builder e) w) = event_create e w
    \<and> saved id
           (ControllerStatusCreate_Exec Gs
              (ControllerStatusCreate_SetMessage msg (ControllerStatusCreate_SetStatus st
                (ControllerStatusCreate_SetResourceID i (ControllerStatusCreate_SetResourceType rt
                  (ControllerStatusCreate_SetControllerName c (ControllerStatusClient_Create DbDriver [])))))) w)
         = status_create c rt i st msg w"
  by (intro conjI org_create_builder folder_create_builder project_create_builder event_create_builder
      status_create_builder assms)

theorem creations_refine_the_store_witness:
  "case fst (saved org_row_of
     (OrgCreate_Save pg_orgs
        (OrgCreate_SetDescription ''d'' (OrgCreate_SetName ''acme'' (OrgClient_Create TxDriver [])))
        (snd (begin_tx sample_world)))) of
     Inl _ \<Rightarrow> False
   | Inr r \<Rightarrow> org_name r = ''acme'' \<and> org_description r = ''d'' \<and> org_deleted_at r = None"
proof -
  have "case fst (org_create ''acme'' ''d'' (snd (begin_tx sample_world))) of
      Inl _ \<Rightarrow> False
    | Inr r \<Rightarrow> org_name r = ''acme'' \<and> org_description r = ''d'' \<and> org_deleted_at r = None"
    by code_simp
  then show ?thesis
    using creations_refine_the_store[OF pg_executes, of "''d''" "''acme''" "snd (begin_tx sample_world)"]
    by (simp only: conj_assoc)
qed




end
