(* ===== verification/Ent_Query.thy ===== *)
theory Ent_Query
  imports Ent_Store
begin

text \<open>
  The query builders of tenancy-manager/internal/ent: the specification of a query
  (\<open>querySpec\<close>), its execution with eager loading (\<open>sqlAll\<close>, \<open>loadOrg\<close>,
  \<open>loadFolder\<close>, \<open>loadFolders\<close>, \<open>loadProjects\<close>) and the results built on
  it (\<open>First\<close>, \<open>Only\<close>, \<open>Exist\<close>, \<open>IDs\<close>).

  Edges are loaded in batches: one query for all the nodes of a result, whose rows are handed
  back to the nodes by their foreign keys.  The property of this theory is that for
  \<open>WithFolder(func(q) { q.WithOrg() })\<close>, the only loading the store asks for, this is the
  join row by row that the model of the store uses (\<open>with_folder\<close> of Tenancy\_Db).

  A query is executed in one state of the database.  The rows a specification selects are the
  answer of the library \<open>sqlgraph\<close>, a parameter.  Interceptors and traversal paths
  (\<open>QueryOrg\<close>, ...) are not modelled: no caller uses them.
\<close>

section \<open>Query builders\<close>

record 'r qb =
  qb_limit :: "int option"
  qb_offset :: "int option"
  qb_unique :: "bool option"
  qb_fields :: "string list"
  qb_order :: "('r \<Rightarrow> 'r \<Rightarrow> bool) list"
  qb_preds :: "'r pred list"
  qb_withFKs :: bool

definition new_query :: "'r qb" where
  "new_query =
     \<lparr>qb_limit = None, qb_offset = None, qb_unique = None, qb_fields = [], qb_order = [],
      qb_preds = [], qb_withFKs = False\<rparr>"

definition qb_Where :: "'r pred list \<Rightarrow> 'r qb \<Rightarrow> 'r qb" where [ent_ops]:
  "qb_Where ps q = q\<lparr>qb_preds := qb_preds q @ ps\<rparr>"

definition qb_Limit :: "int \<Rightarrow> 'r qb \<Rightarrow> 'r qb" where [ent_ops]:
  "qb_Limit n q = q\<lparr>qb_limit := Some n\<rparr>"

definition qb_Offset :: "int \<Rightarrow> 'r qb \<Rightarrow> 'r qb" where [ent_ops]:
  "qb_Offset n q = q\<lparr>qb_offset := Some n\<rparr>"

definition qb_Unique :: "bool \<Rightarrow> 'r qb \<Rightarrow> 'r qb" where [ent_ops]:
  "qb_Unique u q = q\<lparr>qb_unique := Some u\<rparr>"

definition qb_Order :: "('r \<Rightarrow> 'r \<Rightarrow> bool) list \<Rightarrow> 'r qb \<Rightarrow> 'r qb" where [ent_ops]:
  "qb_Order os q = q\<lparr>qb_order := qb_order q @ os\<rparr>"

definition qb_Select :: "string list \<Rightarrow> 'r qb \<Rightarrow> 'r qb" where [ent_ops]:
  "qb_Select flds q = q\<lparr>qb_fields := qb_fields q @ flds\<rparr>"

text \<open>\<open>Clone\<close> copies everything but the flag \<open>withFKs\<close>.\<close>

definition qb_Clone :: "'r qb \<Rightarrow> 'r qb" where
  "qb_Clone q = q\<lparr>qb_withFKs := False\<rparr>"

text \<open>The builders with the edges they load: \<open>withFolders\<close> of an org query,
  \<open>withOrg\<close> and \<open>withProjects\<close> of a folder query, \<open>withFolder\<close> of a project
  query.\<close>

datatype org_q = OrgQ "org_row qb" "folder_q option"
  and folder_q = FolderQ "folder_row qb" "org_q option" "project_q option"
  and project_q = ProjectQ "project_row qb" "folder_q option"

definition OrgQuery_WithFolders :: "(folder_q \<Rightarrow> folder_q) list \<Rightarrow> org_q \<Rightarrow> org_q" where
  "OrgQuery_WithFolders opts q =
     (case q of OrgQ b _ \<Rightarrow> OrgQ b (Some (fold (\<lambda>opt. opt) opts (FolderQ new_query None None))))"

definition FolderQuery_WithOrg :: "(org_q \<Rightarrow> org_q) list \<Rightarrow> folder_q \<Rightarrow> folder_q" where
  "FolderQuery_WithOrg opts q =
     (case q of FolderQ b _ p \<Rightarrow> FolderQ b (Some (fold (\<lambda>opt. opt) opts (OrgQ new_query None))) p)"

definition FolderQuery_WithProjects :: "(project_q \<Rightarrow> project_q) list \<Rightarrow> folder_q \<Rightarrow> folder_q" where
  "FolderQuery_WithProjects opts q =
     (case q of FolderQ b oq _ \<Rightarrow> FolderQ b oq (Some (fold (\<lambda>opt. opt) opts (ProjectQ new_query None))))"

definition ProjectQuery_WithFolder :: "(folder_q \<Rightarrow> folder_q) list \<Rightarrow> project_q \<Rightarrow> project_q" where
  "ProjectQuery_WithFolder opts q =
     (case q of ProjectQ b _ \<Rightarrow> ProjectQ b (Some (fold (\<lambda>opt. opt) opts (FolderQ new_query None None))))"

text \<open>Nodes with their edges; \<open>None\<close> is an edge that was not loaded.\<close>

datatype org_tree = OrgTree org_node "folder_tree list option"
  and folder_tree = FolderTree folder_node "org_tree option option" "project_tree list option"
  and project_tree = ProjectTree proj_node "folder_tree option option"

primrec org_of :: "org_tree \<Rightarrow> org_node" where "org_of (OrgTree n fs) = n"
primrec folder_of :: "folder_tree \<Rightarrow> folder_node" where "folder_of (FolderTree n o' ps) = n"
primrec project_of :: "project_tree \<Rightarrow> proj_node" where "project_of (ProjectTree n f) = n"

text \<open>\<open>XxxOrErr\<close> of the edges of a node.\<close>

definition not_loaded :: "string \<Rightarrow> go_err" where
  "not_loaded edge = Errorf (''ent: '' @ edge @ '' edge was not loaded'')"

primrec FoldersOrErr :: "org_tree \<Rightarrow> go_err + folder_tree list" where
  "FoldersOrErr (OrgTree n fs) = (case fs of Some l \<Rightarrow> Inr l | None \<Rightarrow> Inl (not_loaded ''folders''))"

primrec OrgOrErr :: "folder_tree \<Rightarrow> go_err + org_tree" where
  "OrgOrErr (FolderTree n o' ps) =
     (case o' of
        Some (Some x) \<Rightarrow> Inr x
      | Some None \<Rightarrow> Inl (NotFoundError ''org'')
      | None \<Rightarrow> Inl (not_loaded ''org''))"

primrec ProjectsOrErr :: "folder_tree \<Rightarrow> go_err + project_tree list" where
  "ProjectsOrErr (FolderTree n o' ps) =
     (case ps of Some l \<Rightarrow> Inr l | None \<Rightarrow> Inl (not_loaded ''projects''))"

primrec FolderOrErr :: "project_tree \<Rightarrow> go_err + folder_tree" where
  "FolderOrErr (ProjectTree n f) =
     (case f of
        Some (Some x) \<Rightarrow> Inr x
      | Some None \<Rightarrow> Inl (NotFoundError ''folder'')
      | None \<Rightarrow> Inl (not_loaded ''folder''))"

section \<open>Specifications\<close>

record 'r query_spec =
  qs_table :: string
  qs_columns :: "string list"
  qs_unique :: bool
  qs_preds :: "'r pred list"
  qs_limit :: int
  qs_offset :: int
  qs_order :: "('r \<Rightarrow> 'r \<Rightarrow> bool) list"

definition querySpec :: "string \<Rightarrow> string list \<Rightarrow> 'r qb \<Rightarrow> 'r query_spec" where
  "querySpec table columns q =
     \<lparr>qs_table = table,
      qs_columns =
        (if qb_fields q = [] then columns else ''id'' # filter (\<lambda>f. f \<noteq> ''id'') (qb_fields q)),
      qs_unique = (case qb_unique q of Some u \<Rightarrow> u | None \<Rightarrow> False),
      qs_preds = qb_preds q,
      qs_limit = (case qb_limit q of Some n \<Rightarrow> n | None \<Rightarrow> 0),
      qs_offset = (case qb_offset q of Some n \<Rightarrow> n | None \<Rightarrow> 0),
      qs_order = qb_order q\<rparr>"

definition prepareQuery :: "(string \<Rightarrow> bool) \<Rightarrow> 'r qb \<Rightarrow> go_err option" where
  "prepareQuery valid q =
     map_option (\<lambda>f. ValidationError f (''ent: invalid field '' @ quote f @ '' for query''))
       (find (\<lambda>f. \<not> valid f) (qb_fields q))"

text \<open>\<open>sqlgraph.QueryNodes\<close>: the cells of the selected rows, in the order of the columns
  of the specification; and \<open>%v\<close> of a UUID.\<close>

record library =
  query_orgs :: "org_row query_spec \<Rightarrow> db \<Rightarrow> go_err + scanned list list"
  query_folders :: "folder_row query_spec \<Rightarrow> db \<Rightarrow> go_err + scanned list list"
  query_projects :: "project_row query_spec \<Rightarrow> db \<Rightarrow> go_err + scanned list list"
  uuid_text :: "uuid \<Rightarrow> string"

text \<open>Every row is scanned and assigned to a node; the first error ends the query.\<close>

fun assign_rows ::
  "(string list \<Rightarrow> scanned list \<Rightarrow> go_err + 'n) \<Rightarrow> string list \<Rightarrow> scanned list list \<Rightarrow> go_err + 'n list" where
  "assign_rows f columns [] = Inr []"
| "assign_rows f columns (r # rs) =
     (case f columns r of
        Inl e \<Rightarrow> Inl e
      | Inr n \<Rightarrow> (case assign_rows f columns rs of Inl e \<Rightarrow> Inl e | Inr ns \<Rightarrow> Inr (n # ns)))"

definition query_nodes ::
  "('r query_spec \<Rightarrow> db \<Rightarrow> go_err + scanned list list) \<Rightarrow> (string list \<Rightarrow> scanned list \<Rightarrow> go_err + 'n)
     \<Rightarrow> string list \<Rightarrow> 'r query_spec \<Rightarrow> db \<Rightarrow> go_err + 'n list" where
  "query_nodes run assign fks spec d =
     (let spec' = spec\<lparr>qs_columns := qs_columns spec @ fks\<rparr> in
      case run spec' d of Inl e \<Rightarrow> Inl e | Inr rows \<Rightarrow> assign_rows assign (qs_columns spec') rows)"

section \<open>Eager loading\<close>

text \<open>An edge to one node: the foreign keys that are not nil, each once, are fetched in one
  query; a neighbor is assigned to all the nodes that refer to it, a later one with the same id
  replacing an earlier.\<close>

definition first_occurrences :: "'a list \<Rightarrow> 'a list" where
  "first_occurrences xs = rev (remdups (rev xs))"

definition load_one ::
  "('t \<Rightarrow> uuid) \<Rightarrow> (uuid \<Rightarrow> string) \<Rightarrow> string \<Rightarrow> (uuid list \<Rightarrow> go_err + 't list)
     \<Rightarrow> uuid option list \<Rightarrow> go_err + 't option list" where
  "load_one ident txt fkey fetch fks =
     (let ids = first_occurrences (map the (filter (\<lambda>k. k \<noteq> None) fks)) in
      if ids = [] then Inr (map (\<lambda>_. None) fks)
      else case fetch ids of
        Inl e \<Rightarrow> Inl e
      | Inr ns \<Rightarrow>
          (case find (\<lambda>n. ident n \<notin> set ids) ns of
             Some n \<Rightarrow> Inl (Errorf (''unexpected foreign-key '' @ fkey @ '' returned '' @ txt (ident n)))
           | None \<Rightarrow>
               Inr (map (\<lambda>k. Option.bind k (\<lambda>i. find (\<lambda>n. ident n = i) (rev ns))) fks)))"

text \<open>An edge to many nodes: the rows whose foreign key is one of the ids are fetched in one
  query and appended to the node with that id (of several, the last).\<close>

fun shares :: "('t \<Rightarrow> uuid option) \<Rightarrow> uuid list \<Rightarrow> 't list \<Rightarrow> 't list list" where
  "shares fk [] ns = []"
| "shares fk (i # is) ns =
     (if i \<in> set is then [] else filter (\<lambda>n. fk n = Some i) ns) # shares fk is ns"

definition load_many ::
  "('t \<Rightarrow> uuid) \<Rightarrow> ('t \<Rightarrow> uuid option) \<Rightarrow> (uuid \<Rightarrow> string) \<Rightarrow> string
     \<Rightarrow> (uuid list \<Rightarrow> go_err + 't list) \<Rightarrow> uuid list \<Rightarrow> go_err + 't list list" where
  "load_many ident fk txt fkey fetch ids =
     (case fetch ids of
        Inl e \<Rightarrow> Inl e
      | Inr ns \<Rightarrow>
          (case find (\<lambda>n. case fk n of None \<Rightarrow> True | Some i \<Rightarrow> i \<notin> set ids) ns of
             Some n \<Rightarrow>
               (case fk n of
                  None \<Rightarrow> Inl (Errorf (''foreign-key '' @ fkey @ '' is nil for node '' @ txt (ident n)))
                | Some i \<Rightarrow>
                    Inl (Errorf (''unexpected referenced foreign-key '' @ fkey @ '' returned '' @ txt i
                                 @ '' for node '' @ txt (ident n))))
           | None \<Rightarrow> Inr (shares fk ids ns)))"

abbreviation in_ids :: "('r \<Rightarrow> uuid) \<Rightarrow> uuid list \<Rightarrow> 'r pred" where
  "in_ids f ids \<equiv> \<lambda>d r. f r \<in> set ids"

text \<open>\<open>All\<close>: the query is prepared and executed, then each requested edge is loaded.  The
  additional predicates and the flag are what a loading query was given by its parent.\<close>

fun org_all :: "library \<Rightarrow> org_q \<Rightarrow> org_row pred list \<Rightarrow> db \<Rightarrow> go_err + org_tree list"
  and folder_all :: "library \<Rightarrow> folder_q \<Rightarrow> folder_row pred list \<Rightarrow> bool \<Rightarrow> db \<Rightarrow> go_err + folder_tree list"
  and project_all :: "library \<Rightarrow> project_q \<Rightarrow> project_row pred list \<Rightarrow> bool \<Rightarrow> db \<Rightarrow> go_err + project_tree list"
where
  "org_all L (OrgQ b we) ps d =
     (case prepareQuery Org_ValidColumn b of Some e \<Rightarrow> Inl e | None \<Rightarrow>
     (case query_nodes (query_orgs L) (Org_assignValues zero_org_node) []
             (querySpec ''orgs'' Org_Columns (qb_Where ps b)) d of
        Inl e \<Rightarrow> Inl e
      | Inr nodes \<Rightarrow>
          if nodes = [] then Inr []
          else case we of
            None \<Rightarrow> Inr (map (\<lambda>n. OrgTree n None) nodes)
          | Some q \<Rightarrow>
              (case load_many (fn_id \<circ> folder_of) (fn_org_folders \<circ> folder_of) (uuid_text L) (quote ''org_folders'')
                      (\<lambda>ids. folder_all L q [in_ids folder_org ids] True d) (map on_id nodes) of
                 Inl e \<Rightarrow> Inl e
               | Inr fs \<Rightarrow> Inr (map2 (\<lambda>n f. OrgTree n (Some f)) nodes fs))))"
| "folder_all L (FolderQ b wo wp) ps fks d =
     (case prepareQuery Folder_ValidColumn b of Some e \<Rightarrow> Inl e | None \<Rightarrow>
     (case query_nodes (query_folders L) (Folder_assignValues zero_folder_node)
             (if qb_withFKs b \<or> fks \<or> wo \<noteq> None then [''org_folders''] else [])
             (querySpec ''folders'' Folder_Columns (qb_Where ps b)) d of
        Inl e \<Rightarrow> Inl e
      | Inr nodes \<Rightarrow>
          if nodes = [] then Inr []
          else case (case wo of
                       None \<Rightarrow> Inr (map (\<lambda>_. None) nodes)
                     | Some q \<Rightarrow>
                         map_sum id (map Some)
                           (load_one (on_id \<circ> org_of) (uuid_text L) (quote ''org_folders'')
                              (\<lambda>ids. org_all L q [in_ids org_id ids] d) (map fn_org_folders nodes))) of
            Inl e \<Rightarrow> Inl e
          | Inr os \<Rightarrow>
              (case (case wp of
                       None \<Rightarrow> Inr (map (\<lambda>_. None) nodes)
                     | Some q \<Rightarrow>
                         map_sum id (map Some)
                           (load_many (pn_id \<circ> project_of) (pn_folder_projects \<circ> project_of) (uuid_text L)
                              (quote ''folder_projects'')
                              (\<lambda>ids. project_all L q [in_ids proj_folder ids] True d) (map fn_id nodes))) of
                 Inl e \<Rightarrow> Inl e
               | Inr pss \<Rightarrow> Inr (map2 (\<lambda>n (o', p). FolderTree n o' p) nodes (zip os pss)))))"
| "project_all L (ProjectQ b we) ps fks d =
     (case prepareQuery Project_ValidColumn b of Some e \<Rightarrow> Inl e | None \<Rightarrow>
     (case query_nodes (query_projects L) (Project_assignValues zero_proj_node)
             (if qb_withFKs b \<or> fks \<or> we \<noteq> None then [''folder_projects''] else [])
             (querySpec ''projects'' Project_Columns (qb_Where ps b)) d of
        Inl e \<Rightarrow> Inl e
      | Inr nodes \<Rightarrow>
          if nodes = [] then Inr []
          else case we of
            None \<Rightarrow> Inr (map (\<lambda>n. ProjectTree n None) nodes)
          | Some q \<Rightarrow>
              (case load_one (fn_id \<circ> folder_of) (uuid_text L) (quote ''folder_projects'')
                      (\<lambda>ids. folder_all L q [in_ids folder_id ids] False d) (map pn_folder_projects nodes) of
                 Inl e \<Rightarrow> Inl e
               | Inr fs \<Rightarrow> Inr (map2 (\<lambda>n f. ProjectTree n (Some f)) nodes fs))))"


section \<open>Eager loading is a join\<close>

lemmas [simp del] = org_all.simps folder_all.simps project_all.simps

section \<open>Single results\<close>

primrec on_org_q :: "(org_row qb \<Rightarrow> org_row qb) \<Rightarrow> org_q \<Rightarrow> org_q" where
  "on_org_q f (OrgQ b e) = OrgQ (f b) e"

primrec on_folder_q :: "(folder_row qb \<Rightarrow> folder_row qb) \<Rightarrow> folder_q \<Rightarrow> folder_q" where
  "on_folder_q f (FolderQ b e1 e2) = FolderQ (f b) e1 e2"

primrec on_project_q :: "(project_row qb \<Rightarrow> project_row qb) \<Rightarrow> project_q \<Rightarrow> project_q" where
  "on_project_q f (ProjectQ b e) = ProjectQ (f b) e"

definition first_of :: "string \<Rightarrow> go_err + 't list \<Rightarrow> go_err + 't" where
  "first_of label res =
     (case res of
        Inl e \<Rightarrow> Inl e
      | Inr [] \<Rightarrow> Inl (NotFoundError label)
      | Inr (n # _) \<Rightarrow> Inr n)"

definition only_of :: "string \<Rightarrow> go_err + 't list \<Rightarrow> go_err + 't" where
  "only_of label res =
     (case res of
        Inl e \<Rightarrow> Inl e
      | Inr [n] \<Rightarrow> Inr n
      | Inr [] \<Rightarrow> Inl (NotFoundError label)
      | Inr (_ # _ # _) \<Rightarrow> Inl (NotSingularError label))"

definition OrgQuery_First :: "library \<Rightarrow> org_q \<Rightarrow> db \<Rightarrow> go_err + org_tree" where
  "OrgQuery_First L q d = first_of ''org'' (org_all L (on_org_q (qb_Limit 1) q) [] d)"

definition OrgQuery_Only :: "library \<Rightarrow> org_q \<Rightarrow> db \<Rightarrow> go_err + org_tree" where
  "OrgQuery_Only L q d = only_of ''org'' (org_all L (on_org_q (qb_Limit 2) q) [] d)"

definition FolderQuery_First :: "library \<Rightarrow> folder_q \<Rightarrow> db \<Rightarrow> go_err + folder_tree" where
  "FolderQuery_First L q d = first_of ''folder'' (folder_all L (on_folder_q (qb_Limit 1) q) [] False d)"

definition FolderQuery_Only :: "library \<Rightarrow> folder_q \<Rightarrow> db \<Rightarrow> go_err + folder_tree" where
  "FolderQuery_Only L q d = only_of ''folder'' (folder_all L (on_folder_q (qb_Limit 2) q) [] False d)"

definition ProjectQuery_First :: "library \<Rightarrow> project_q \<Rightarrow> db \<Rightarrow> go_err + project_tree" where
  "ProjectQuery_First L q d = first_of ''project'' (project_all L (on_project_q (qb_Limit 1) q) [] False d)"

definition ProjectQuery_Only :: "library \<Rightarrow> project_q \<Rightarrow> db \<Rightarrow> go_err + project_tree" where
  "ProjectQuery_Only L q d = only_of ''project'' (project_all L (on_project_q (qb_Limit 2) q) [] False d)"

text \<open>\<open>OnlyX\<close>, \<open>AllX\<close> and the like panic on every error; \<open>FirstX\<close> gives
  nil when nothing is found.\<close>

definition FirstX :: "go_err + 't \<Rightarrow> 't option outcome" where
  "FirstX res =
     (case res of Inr n \<Rightarrow> Return (Some n) | Inl e \<Rightarrow> if IsNotFound e then Return None else Panic e)"

definition OnlyX :: "go_err + 't \<Rightarrow> 't outcome" where
  "OnlyX res = (case res of Inr n \<Rightarrow> Return n | Inl e \<Rightarrow> Panic e)"

definition Exist :: "go_err + uuid \<Rightarrow> go_err + bool" where
  "Exist first_id =
     (case first_id of
        Inr _ \<Rightarrow> Inr True
      | Inl e \<Rightarrow> if IsNotFound e then Inr False else Inl (wrapf ''ent: check existence'' e))"

text \<open>The library answers a specification without limit, offset, order and duplicates with the
  rows of the table that satisfy the predicates.\<close>

definition answers ::
  "(db \<Rightarrow> 'r list) \<Rightarrow> ('r \<Rightarrow> string \<Rightarrow> scanned)
     \<Rightarrow> ('r query_spec \<Rightarrow> db \<Rightarrow> go_err + scanned list list) \<Rightarrow> bool" where
  "answers rows column run \<longleftrightarrow>
     (\<forall>spec d. qs_limit spec = 0 \<and> qs_offset spec = 0 \<and> \<not> qs_unique spec \<and> qs_order spec = [] \<longrightarrow>
        run spec d =
          Inr (map (\<lambda>r. map (column r) (qs_columns spec)) (filter (satisfies (qs_preds spec) d) (rows d))))"

lemma first_occurrences_set [simp]: "set (first_occurrences xs) = set xs"
  by (simp add: first_occurrences_def)

lemma first_occurrences_Nil [simp]: "first_occurrences xs = [] \<longleftrightarrow> xs = []"
  by (simp add: first_occurrences_def)

lemma find_by_key:
  assumes "distinct (map key rows)"
  shows "find (\<lambda>r. key r = k) rows = Some r \<longleftrightarrow> r \<in> set rows \<and> key r = k"
  using assms by (induction rows) (auto simp: image_iff)

lemma find_by_key_None: "find (\<lambda>r. key r = k) rows = None \<longleftrightarrow> k \<notin> key ` set rows"
  by (auto simp: find_None_iff)

lemma find_map_key: "find (\<lambda>n. ident n = k) (map t rows) = map_option t (find (\<lambda>r. ident (t r) = k) rows)"
  by (induction rows) auto

lemma load_one_join:
  assumes fetch: "\<And>ids. fetch ids = Inr (map t (filter (\<lambda>r. key r \<in> set ids) rows))"
    and ident: "\<And>r. ident (t r) = key r" and dist: "distinct (map key rows)"
  shows "load_one ident txt fkey fetch (map Some ks) = Inr (map (\<lambda>k. map_option t (find (\<lambda>r. key r = k) rows)) ks)"
proof (cases "ks = []")
  case False
  let ?ids = "first_occurrences ks"
  let ?hits = "filter (\<lambda>r. key r \<in> set ks) rows"
  have ids: "map the (filter (\<lambda>k. k \<noteq> None) (map Some ks)) = ks" by (induction ks) auto
  have ok: "find (\<lambda>n. ident n \<notin> set ks) (map t ?hits) = None"
    by (auto simp: find_None_iff ident)
  have dh: "distinct (map key (rev ?hits))"
    using dist by (simp add: distinct_map_filter rev_map[symmetric])
  have hit: "find (\<lambda>n. ident n = k) (rev (map t ?hits)) = map_option t (find (\<lambda>r. key r = k) rows)"
    if k: "k \<in> set ks" for k
  proof -
    have "find (\<lambda>r. key r = k) (rev ?hits) = find (\<lambda>r. key r = k) rows"
    proof (cases "find (\<lambda>r. key r = k) rows")
      case None
      then have "find (\<lambda>r. key r = k) (rev ?hits) = None" by (auto simp: find_by_key_None)
      with None show ?thesis by simp
    next
      case (Some r)
      then have r: "r \<in> set rows" "key r = k" using find_by_key[OF dist] by auto
      then have "find (\<lambda>r. key r = k) (rev ?hits) = Some r"
        using find_by_key[OF dh, of k r] k by simp
      with Some show ?thesis by simp
    qed
    then show ?thesis by (simp add: rev_map find_map_key ident)
  qed
  have "map (\<lambda>k. Option.bind k (\<lambda>i. find (\<lambda>n. ident n = i) (rev (map t ?hits)))) (map Some ks)
      = map (\<lambda>k. map_option t (find (\<lambda>r. key r = k) rows)) ks"
    using hit by simp
  with False show ?thesis
    unfolding load_one_def ids fetch Let_def first_occurrences_set first_occurrences_Nil ok sum.case
    by simp
qed (simp add: load_one_def first_occurrences_def)

text \<open>The trees that the store's view of a project corresponds to.\<close>

definition org_tree_of :: "org_row \<Rightarrow> org_tree" where
  "org_tree_of r = OrgTree (org_node_of r) None"

definition folder_tree_of :: "folder_row \<times> org_row option \<Rightarrow> folder_tree" where
  "folder_tree_of fo =
     (case fo of (f, o') \<Rightarrow>
        FolderTree ((folder_node_of f)\<lparr>fn_org_folders := Some (folder_org f)\<rparr>)
          (Some (map_option org_tree_of o')) None)"

definition project_tree_of :: "project_node \<Rightarrow> project_tree" where
  "project_tree_of pn =
     (case pn of (p, e) \<Rightarrow>
        ProjectTree ((proj_node_of p)\<lparr>pn_folder_projects := Some (proj_folder p)\<rparr>)
          (Some (map_option folder_tree_of e)))"

lemma project_assign_row_fk:
  "Project_assignValues zero_proj_node (Project_Columns @ [''folder_projects''])
     (map (project_column r) (Project_Columns @ [''folder_projects'']))
     = Inr ((proj_node_of r)\<lparr>pn_folder_projects := Some (proj_folder r)\<rparr>)"
  by (cases "proj_deleted_at r")
     (simp_all add: Project_assignValues_def assign_columns_def Project_Columns_def
        Project_assign_column_def project_column_def zero_proj_node_def proj_node_of_def)

lemma assign_org_rows:
  "assign_rows (Org_assignValues zero_org_node) Org_Columns (map (\<lambda>r. map (org_column r) Org_Columns) rs)
     = Inr (map org_node_of rs)"
  by (induction rs) (simp_all add: org_assign_row)

lemma assign_folder_rows:
  "assign_rows (Folder_assignValues zero_folder_node) (Folder_Columns @ [''org_folders''])
     (map (\<lambda>r. map (folder_column r) Folder_Columns @ [folder_column r ''org_folders'']) rs)
     = Inr (map (\<lambda>f. (folder_node_of f)\<lparr>fn_org_folders := Some (folder_org f)\<rparr>) rs)"
  by (induction rs) (simp_all add: folder_assign_row[simplified])

lemma assign_project_rows:
  "assign_rows (Project_assignValues zero_proj_node) (Project_Columns @ [''folder_projects''])
     (map (\<lambda>r. map (project_column r) Project_Columns @ [project_column r ''folder_projects'']) rs)
     = Inr (map (\<lambda>p. (proj_node_of p)\<lparr>pn_folder_projects := Some (proj_folder p)\<rparr>) rs)"
  by (induction rs) (simp_all add: project_assign_row_fk[simplified])

lemma map2_maps: "map2 h (map f xs) (map g xs) = map (\<lambda>x. h (f x) (g x)) xs"
  by (induction xs) auto

lemma zip_maps: "zip (map f xs) (map g xs) = map (\<lambda>x. (f x, g x)) xs"
  by (induction xs) auto

lemma new_query_spec:
  "prepareQuery valid new_query = None"
  "querySpec table cols (qb_Where ps new_query) =
     \<lparr>qs_table = table, qs_columns = cols, qs_unique = False, qs_preds = ps, qs_limit = 0,
      qs_offset = 0, qs_order = []\<rparr>"
  by (simp_all add: prepareQuery_def querySpec_def new_query_def qb_Where_def)

lemma orgs_of_ids:
  assumes "answers orgs org_column (query_orgs L)"
  shows "org_all L (OrgQ new_query None) [in_ids org_id ids] d
         = Inr (map org_tree_of (filter (\<lambda>r. org_id r \<in> set ids) (orgs d)))"
  using assms
  by (simp add: org_all.simps new_query_spec query_nodes_def answers_def satisfies_def[abs_def]
      assign_org_rows org_tree_of_def comp_def)

lemma folders_of_ids:
  assumes "answers orgs org_column (query_orgs L)" "answers folders folder_column (query_folders L)"
    and "distinct (map org_id (orgs d))"
  shows "folder_all L (FolderQ new_query (Some (OrgQ new_query None)) None) [in_ids folder_id ids] False d
         = Inr (map (\<lambda>f. folder_tree_of (f, load_org d f)) (filter (\<lambda>f. folder_id f \<in> set ids) (folders d)))"
proof -
  let ?fs = "filter (\<lambda>f. folder_id f \<in> set ids) (folders d)"
  let ?n = "\<lambda>f. (folder_node_of f)\<lparr>fn_org_folders := Some (folder_org f)\<rparr>"
  have nodes: "query_nodes (query_folders L) (Folder_assignValues zero_folder_node) [''org_folders'']
      (querySpec ''folders'' Folder_Columns (qb_Where [in_ids folder_id ids] new_query)) d = Inr (map ?n ?fs)"
    using assms(2)
    by (simp add: new_query_spec query_nodes_def answers_def satisfies_def[abs_def] assign_folder_rows)
  have orgs: "load_one (on_id \<circ> org_of) (uuid_text L) (quote ''org_folders'')
      (\<lambda>ids. org_all L (OrgQ new_query None) [in_ids org_id ids] d) (map fn_org_folders (map ?n ?fs))
      = Inr (map (\<lambda>k. map_option org_tree_of (find (\<lambda>r. org_id r = k) (orgs d))) (map folder_org ?fs))"
  proof -
    have "map fn_org_folders (map ?n ?fs) = map Some (map folder_org ?fs)" by simp
    then show ?thesis
      by (simp only:)
         (rule load_one_join[where key = org_id],
          auto simp: orgs_of_ids[OF assms(1)] org_tree_of_def org_node_of_def assms(3))
  qed
  show ?thesis
    using nodes orgs
    by (simp add: folder_all.simps new_query_spec(1) folder_tree_of_def load_org_def map2_maps zip_maps)
qed


text \<open>C26. \<open>WithFolder(func(q) { q.WithOrg() })\<close>, batch by batch, gives the projects with the
  folders and orgs of their rows, in the order the library returned them.\<close>

theorem eager_loading_is_a_join:
  assumes "answers orgs org_column (query_orgs L)" "answers folders folder_column (query_folders L)"
    and "distinct (map org_id (orgs d))" "distinct (map folder_id (folders d))"
    and fields: "qb_fields b = []"
    and rows: "query_projects L
        ((querySpec ''projects'' Project_Columns b)\<lparr>qs_columns := Project_Columns @ [''folder_projects'']\<rparr>) d
      = Inr (map (\<lambda>p. map (project_column p) (Project_Columns @ [''folder_projects''])) rs)"
  shows "project_all L (ProjectQuery_WithFolder [FolderQuery_WithOrg []] (ProjectQ b None)) [] False d
         = Inr (map (\<lambda>p. project_tree_of (with_folder d p)) rs)"
proof -
  let ?n = "\<lambda>p. (proj_node_of p)\<lparr>pn_folder_projects := Some (proj_folder p)\<rparr>"
  have b: "qb_Where [] b = b" "prepareQuery Project_ValidColumn b = None"
    by (simp_all add: qb_Where_def prepareQuery_def fields)
  have nodes: "query_nodes (query_projects L) (Project_assignValues zero_proj_node) [''folder_projects'']
      (querySpec ''projects'' Project_Columns b) d = Inr (map ?n rs)"
    using rows
    by (simp add: query_nodes_def querySpec_def fields assign_project_rows)
  let ?q = "FolderQ new_query (Some (OrgQ new_query None)) None"
  have folders: "load_one (fn_id \<circ> folder_of) (uuid_text L) (quote ''folder_projects'')
      (\<lambda>ids. folder_all L ?q [in_ids folder_id ids] False d) (map pn_folder_projects (map ?n rs))
      = Inr (map (\<lambda>k. map_option (\<lambda>f. folder_tree_of (f, load_org d f)) (find (\<lambda>f. folder_id f = k) (folders d)))
                 (map proj_folder rs))"
  proof -
    have fks: "map pn_folder_projects (map ?n rs) = map Some (map proj_folder rs)" by simp
    show ?thesis
      unfolding fks
      by (rule load_one_join[where key = folder_id])
         (simp_all only: folders_of_ids[OF assms(1,2,3)] assms(4),
          simp add: folder_tree_of_def folder_node_of_def)
  qed
  show ?thesis
    using b nodes folders
    by (simp add: project_all.simps ProjectQuery_WithFolder_def FolderQuery_WithOrg_def project_tree_of_def
        with_folder_def load_folder_def option.map_comp comp_def map2_maps)
qed


text \<open>A library that ignores limits and orders, and a database with one project.\<close>

definition plain_library :: library where
  "plain_library =
     \<lparr>query_orgs = (\<lambda>spec d. Inr (map (\<lambda>r. map (org_column r) (qs_columns spec))
                                   (filter (satisfies (qs_preds spec) d) (orgs d)))),
      query_folders = (\<lambda>spec d. Inr (map (\<lambda>r. map (folder_column r) (qs_columns spec))
                                   (filter (satisfies (qs_preds spec) d) (folders d)))),
      query_projects = (\<lambda>spec d. Inr (map (\<lambda>r. map (project_column r) (qs_columns spec))
                                   (filter (satisfies (qs_preds spec) d) (projects d)))),
      uuid_text = (\<lambda>i. decimal (unat i))\<rparr>"

definition one_org :: org_row where
  "one_org = \<lparr>org_id = 1, org_name = ''acme'', org_description = [], org_created_at = 1,
              org_updated_at = 1, org_deleted_at = None\<rparr>"

definition one_folder :: folder_row where
  "one_folder = \<lparr>folder_id = 2, folder_name = ''default'', folder_created_at = 1,
                 folder_updated_at = 1, folder_org = 1\<rparr>"

definition one_project :: project_row where
  "one_project = \<lparr>proj_id = 3, proj_name = ''p'', proj_description = [], proj_created_at = 1,
                  proj_updated_at = 1, proj_deleted_at = None, proj_folder = 2\<rparr>"

definition one_db :: db where
  "one_db = \<lparr>orgs = [one_org], folders = [one_folder], projects = [one_project], events = [], statuses = []\<rparr>"

theorem eager_loading_is_a_join_witness:
  "project_all plain_library (ProjectQuery_WithFolder [FolderQuery_WithOrg []] (ProjectQ new_query None)) [] False one_db
   = Inr [project_tree_of (one_project, Some (one_folder, Some one_org))]"
proof -
  have "with_folder one_db one_project = (one_project, Some (one_folder, Some one_org))"
    by (simp add: with_folder_def load_folder_def load_org_def one_db_def one_project_def one_folder_def one_org_def)
  moreover have "project_all plain_library (ProjectQuery_WithFolder [FolderQuery_WithOrg []] (ProjectQ new_query None)) [] False one_db
   = Inr (map (\<lambda>p. project_tree_of (with_folder one_db p)) [one_project])"
    by (rule eager_loading_is_a_join)
       (simp_all add: answers_def plain_library_def one_db_def one_org_def one_folder_def new_query_def
          satisfies_def querySpec_def)
  ultimately show ?thesis by simp
qed

end
