(* ===== verification/Ent_Contract.thy ===== *)
theory Ent_Contract
  imports Ent_Store
begin

text \<open>
  What hooks may rely on: reading a mutation through \<open>Fields\<close> and \<open>Field\<close>,
  setting what was read on a fresh mutation of the same entity and carrying the id and the edges over creates the same
  row.  The
  contract is the locale \<open>ent_fields\<close>, interpreted for the five mutations in their
  theories.  Also here: that rows survive scanning, and the check of an update that clears a
  required edge.
\<close>

section \<open>Copied mutations\<close>

text \<open>The dynamic view determines the fields.\<close>

lemma map_option_ctor [simp]:
  "map_option GString x = map_option GString y \<longleftrightarrow> x = y"
  "map_option GTime t = map_option GTime u \<longleftrightarrow> t = u"
  "map_option GUUID i = map_option GUUID j \<longleftrightarrow> i = j"
  "map_option GStatus p = map_option GStatus q \<longleftrightarrow> p = q"
  subgoal by (cases x; cases y; simp)
  subgoal by (cases t; cases u; simp)
  subgoal by (cases i; cases j; simp)
  subgoal by (cases p; cases q; simp)
  done

text \<open>Setting a field touches neither the id, nor the client, nor an edge.\<close>

lemma set_fields_invariant:
  assumes "\<And>n v m m'. setter n v m = Inr m' \<Longrightarrow> F m' = F m" and "set_fields setter kvs m = Inr m'"
  shows "F m' = F m"
  using assms(2) by (induction kvs arbitrary: m) (auto dest: assms(1) split: sum.splits)

lemma set_field_keeps:
  "OrgMutation_SetField n v mo = Inr mo' \<Longrightarrow> (m_id mo', m_driver mo', om_folders mo') = (m_id mo, m_driver mo, om_folders mo)"
  "FolderMutation_SetField n v mf = Inr mf' \<Longrightarrow>
     (m_id mf', m_driver mf', fm_org mf', fm_projects mf') = (m_id mf, m_driver mf, fm_org mf, fm_projects mf)"
  "ProjectMutation_SetField n v mp = Inr mp' \<Longrightarrow> (m_id mp', m_driver mp', pm_folder mp') = (m_id mp, m_driver mp, pm_folder mp)"
  "TenancyEventMutation_SetField n v me = Inr me' \<Longrightarrow> (m_id me', m_driver me') = (m_id me, m_driver me)"
  "ControllerStatusMutation_SetField n v mc = Inr mc' \<Longrightarrow> (m_id mc', m_driver mc') = (m_id mc, m_driver mc)"
  by (auto simp: ent_ops split: if_splits gvalue.splits)

text \<open>A hook that copies a mutation: a new mutation of the same client, the fields read and set by name, the id if it is
  set, the unique edge if it is set, and the ids of the other edge in the order in which they were listed.\<close>

definition copy_org :: "uuid list \<Rightarrow> OrgMutation \<Rightarrow> go_err + OrgMutation" where
  "copy_org fids m =
     map_sum id (\<lambda>m'. OrgMutation_AddFolderIDs fids (set_nillable mutation_SetID (mutation_ID m) m'))
       (set_fields OrgMutation_SetField (bindings OrgMutation_Fields OrgMutation_Field m) (newOrgMutation (m_driver m) OpCreate []))"

definition copy_folder :: "uuid list \<Rightarrow> FolderMutation \<Rightarrow> go_err + FolderMutation" where
  "copy_folder pids m =
     map_sum id (\<lambda>m'. FolderMutation_AddProjectIDs pids
         (set_nillable FolderMutation_SetOrgID (FolderMutation_OrgID m) (set_nillable mutation_SetID (mutation_ID m) m')))
       (set_fields FolderMutation_SetField (bindings FolderMutation_Fields FolderMutation_Field m) (newFolderMutation (m_driver m) OpCreate []))"

definition copy_project :: "ProjectMutation \<Rightarrow> go_err + ProjectMutation" where
  "copy_project m =
     map_sum id (\<lambda>m'. set_nillable ProjectMutation_SetFolderID (ProjectMutation_FolderID m) (set_nillable mutation_SetID (mutation_ID m) m'))
       (set_fields ProjectMutation_SetField (bindings ProjectMutation_Fields ProjectMutation_Field m) (newProjectMutation (m_driver m) OpCreate []))"

definition copy_event :: "TenancyEventMutation \<Rightarrow> go_err + TenancyEventMutation" where
  "copy_event m =
     map_sum id (set_nillable mutation_SetID (mutation_ID m))
       (set_fields TenancyEventMutation_SetField (bindings TenancyEventMutation_Fields TenancyEventMutation_Field m)
          (newTenancyEventMutation (m_driver m) OpCreate []))"

definition copy_status :: "ControllerStatusMutation \<Rightarrow> go_err + ControllerStatusMutation" where
  "copy_status m =
     set_fields ControllerStatusMutation_SetField (bindings ControllerStatusMutation_Fields ControllerStatusMutation_Field m)
       (newControllerStatusMutation (m_driver m) OpCreate [])"

text \<open>A creation sees the copy as it sees the original: the same verdict of its check, the same specification, and the
  same answer and database of the executor.\<close>

definition same_creation ::
  "('m \<Rightarrow> go_err option) \<Rightarrow> ('m \<Rightarrow> 'n \<times> create_spec) \<Rightarrow> ('m, 'n) mutator \<Rightarrow> 'm \<Rightarrow> 'm \<Rightarrow> bool" where
  "same_creation check spec save m' m \<longleftrightarrow>
     check m' = check m \<and> spec m' = spec m \<and>
     (\<forall>w. fst (save m' w) = fst (save m w) \<and> snd (snd (save m' w)) = snd (snd (save m w)))"

lemma org_creation_determined:
  assumes "OrgMutation_Field m' = OrgMutation_Field m" and "m_id m' = m_id m" and "m_driver m' = m_driver m"
    and "OrgMutation_FoldersIDs m' = OrgMutation_FoldersIDs m"
  shows "same_creation OrgCreate_check OrgCreate_createSpec (OrgCreate_sqlSave G) m' m"
proof -
  have f: "om_name m' = om_name m" "om_description m' = om_description m" "om_created_at m' = om_created_at m"
    "om_updated_at m' = om_updated_at m" "om_deleted_at m' = om_deleted_at m"
    using fun_cong[OF assms(1), of "''name''"] fun_cong[OF assms(1), of "''description''"]
      fun_cong[OF assms(1), of "''created_at''"] fun_cong[OF assms(1), of "''updated_at''"]
      fun_cong[OF assms(1), of "''deleted_at''"] by (simp_all add: ent_ops)
  have "OrgCreate_check m' = OrgCreate_check m" "OrgCreate_createSpec m' = OrgCreate_createSpec m"
    using assms(2,4) by (simp_all add: OrgCreate_check_def OrgCreate_createSpec_def f ent_ops)
  then show ?thesis
    by (simp add: same_creation_def OrgCreate_sqlSave_def assms(3) split: option.split prod.split sum.split)
qed

lemma folder_creation_determined:
  assumes "FolderMutation_Field m' = FolderMutation_Field m" and "m_id m' = m_id m" and "m_driver m' = m_driver m"
    and "fm_org m' = fm_org m" and "FolderMutation_ProjectsIDs m' = FolderMutation_ProjectsIDs m"
  shows "same_creation FolderCreate_check FolderCreate_createSpec (FolderCreate_sqlSave G) m' m"
proof -
  have f: "fm_name m' = fm_name m" "fm_created_at m' = fm_created_at m" "fm_updated_at m' = fm_updated_at m"
    using fun_cong[OF assms(1), of "''name''"] fun_cong[OF assms(1), of "''created_at''"]
      fun_cong[OF assms(1), of "''updated_at''"] by (simp_all add: ent_ops)
  have "FolderCreate_check m' = FolderCreate_check m" "FolderCreate_createSpec m' = FolderCreate_createSpec m"
    using assms(2,4,5) by (simp_all add: FolderCreate_check_def FolderCreate_createSpec_def f ent_ops)
  then show ?thesis
    by (simp add: same_creation_def FolderCreate_sqlSave_def assms(3) split: option.split prod.split sum.split)
qed

lemma project_creation_determined:
  assumes "ProjectMutation_Field m' = ProjectMutation_Field m" and "m_id m' = m_id m" and "m_driver m' = m_driver m"
    and "pm_folder m' = pm_folder m"
  shows "same_creation ProjectCreate_check ProjectCreate_createSpec (ProjectCreate_sqlSave G) m' m"
proof -
  have f: "pm_name m' = pm_name m" "pm_description m' = pm_description m" "pm_created_at m' = pm_created_at m"
    "pm_updated_at m' = pm_updated_at m" "pm_deleted_at m' = pm_deleted_at m"
    using fun_cong[OF assms(1), of "''name''"] fun_cong[OF assms(1), of "''description''"]
      fun_cong[OF assms(1), of "''created_at''"] fun_cong[OF assms(1), of "''updated_at''"]
      fun_cong[OF assms(1), of "''deleted_at''"] by (simp_all add: ent_ops)
  have "ProjectCreate_check m' = ProjectCreate_check m" "ProjectCreate_createSpec m' = ProjectCreate_createSpec m"
    using assms(2,4) by (simp_all add: ProjectCreate_check_def ProjectCreate_createSpec_def f ent_ops)
  then show ?thesis
    by (simp add: same_creation_def ProjectCreate_sqlSave_def assms(3) split: option.split prod.split sum.split)
qed

lemma event_creation_determined:
  assumes "TenancyEventMutation_Field m' = TenancyEventMutation_Field m" and "m_id m' = m_id m" and "m_driver m' = m_driver m"
  shows "same_creation TenancyEventCreate_check TenancyEventCreate_createSpec (TenancyEventCreate_sqlSave G) m' m"
proof -
  have f: "em_event_type m' = em_event_type m" "em_resource_type m' = em_resource_type m" "em_resource_id m' = em_resource_id m"
    "em_resource_name m' = em_resource_name m" "em_org_id m' = em_org_id m" "em_org_name m' = em_org_name m"
    "em_folder_id m' = em_folder_id m" "em_created_at m' = em_created_at m"
    using fun_cong[OF assms(1), of "''event_type''"] fun_cong[OF assms(1), of "''resource_type''"]
      fun_cong[OF assms(1), of "''resource_id''"] fun_cong[OF assms(1), of "''resource_name''"]
      fun_cong[OF assms(1), of "''org_id''"] fun_cong[OF assms(1), of "''org_name''"]
      fun_cong[OF assms(1), of "''folder_id''"] fun_cong[OF assms(1), of "''created_at''"] by (simp_all add: ent_ops)
  have "TenancyEventCreate_check m' = TenancyEventCreate_check m" "TenancyEventCreate_createSpec m' = TenancyEventCreate_createSpec m"
    using assms(2) by (simp_all add: TenancyEventCreate_check_def TenancyEventCreate_createSpec_def f ent_ops)
  then show ?thesis
    by (simp add: same_creation_def TenancyEventCreate_sqlSave_def assms(3) split: option.split prod.split sum.split)
qed

lemma status_creation_determined:
  assumes "ControllerStatusMutation_Field m' = ControllerStatusMutation_Field m" and "m_driver m' = m_driver m"
  shows "same_creation ControllerStatusCreate_check ControllerStatusCreate_createSpec (ControllerStatusCreate_sqlSave G) m' m"
proof -
  have f: "cm_controller_name m' = cm_controller_name m" "cm_resource_type m' = cm_resource_type m"
    "cm_resource_id m' = cm_resource_id m" "cm_status m' = cm_status m" "cm_message m' = cm_message m" "cm_updated_at m' = cm_updated_at m"
    using fun_cong[OF assms(1), of "''controller_name''"] fun_cong[OF assms(1), of "''resource_type''"]
      fun_cong[OF assms(1), of "''resource_id''"] fun_cong[OF assms(1), of "''status''"]
      fun_cong[OF assms(1), of "''message''"] fun_cong[OF assms(1), of "''updated_at''"] by (simp_all add: ent_ops)
  have "ControllerStatusCreate_check m' = ControllerStatusCreate_check m"
    "ControllerStatusCreate_createSpec m' = ControllerStatusCreate_createSpec m"
    by (simp_all add: ControllerStatusCreate_check_def ControllerStatusCreate_createSpec_def f ent_ops)
  then show ?thesis
    by (simp add: same_creation_def ControllerStatusCreate_sqlSave_def assms(2) split: option.split prod.split sum.split)
qed

text \<open>A new mutation has no field set.\<close>

lemma new_mutation_fields:
  "OrgMutation_Field (newOrgMutation drv oper []) = (\<lambda>_. None)"
  "FolderMutation_Field (newFolderMutation drv oper []) = (\<lambda>_. None)"
  "ProjectMutation_Field (newProjectMutation drv oper []) = (\<lambda>_. None)"
  "TenancyEventMutation_Field (newTenancyEventMutation drv oper []) = (\<lambda>_. None)"
  "ControllerStatusMutation_Field (newControllerStatusMutation drv oper []) = (\<lambda>_. None)"
  by (simp_all add: fun_eq_iff ent_ops)

lemma copied_org:
  assumes "set fids = OrgMutation_FoldersIDs m"
  shows "\<exists>m'. copy_org fids m = Inr m' \<and> same_creation OrgCreate_check OrgCreate_createSpec (OrgCreate_sqlSave G) m' m"
proof -
  from of.copy_fields[OF new_mutation_fields(1), of m "m_driver m" OpCreate] obtain m1 where
    m1: "set_fields OrgMutation_SetField (bindings OrgMutation_Fields OrgMutation_Field m) (newOrgMutation (m_driver m) OpCreate []) = Inr m1"
    "OrgMutation_Field m1 = OrgMutation_Field m" by blast
  have k: "m_id m1 = None" "m_driver m1 = m_driver m" "om_folders m1 = None"
    using set_fields_invariant[of OrgMutation_SetField "\<lambda>m. (m_id m, m_driver m, om_folders m)", OF set_field_keeps(1) m1(1)]
    by (simp_all add: ent_ops)
  show ?thesis
  proof (intro exI conjI)
    let ?m' = "OrgMutation_AddFolderIDs fids (set_nillable mutation_SetID (mutation_ID m) m1)"
    show "copy_org fids m = Inr ?m'" unfolding copy_org_def m1(1) by simp
    have "OrgMutation_Field ?m' = OrgMutation_Field m1"
      by (rule ext) (cases "m_id m"; simp add: ent_ops)
    moreover have "m_id ?m' = m_id m" "m_driver ?m' = m_driver m" "OrgMutation_FoldersIDs ?m' = OrgMutation_FoldersIDs m"
      by (cases "m_id m"; simp add: ent_ops k assms)+
    ultimately show "same_creation OrgCreate_check OrgCreate_createSpec (OrgCreate_sqlSave G) ?m' m"
      using m1(2) by (intro org_creation_determined) simp_all
  qed
qed

lemma copied_folder:
  assumes "set pids = FolderMutation_ProjectsIDs m"
  shows "\<exists>m'. copy_folder pids m = Inr m' \<and> same_creation FolderCreate_check FolderCreate_createSpec (FolderCreate_sqlSave G) m' m"
proof -
  from ff.copy_fields[OF new_mutation_fields(2), of m "m_driver m" OpCreate] obtain m1 where
    m1: "set_fields FolderMutation_SetField (bindings FolderMutation_Fields FolderMutation_Field m) (newFolderMutation (m_driver m) OpCreate []) = Inr m1"
    "FolderMutation_Field m1 = FolderMutation_Field m" by blast
  have k: "m_id m1 = None" "m_driver m1 = m_driver m" "fm_org m1 = None" "fm_projects m1 = None"
    using set_fields_invariant[of FolderMutation_SetField "\<lambda>m. (m_id m, m_driver m, fm_org m, fm_projects m)", OF set_field_keeps(2) m1(1)]
    by (simp_all add: ent_ops)
  show ?thesis
  proof (intro exI conjI)
    let ?m' = "FolderMutation_AddProjectIDs pids
          (set_nillable FolderMutation_SetOrgID (FolderMutation_OrgID m) (set_nillable mutation_SetID (mutation_ID m) m1))"
    show "copy_folder pids m = Inr ?m'" unfolding copy_folder_def m1(1) by simp
    have "FolderMutation_Field ?m' = FolderMutation_Field m1"
      by (rule ext) (cases "m_id m"; cases "fm_org m"; simp add: ent_ops)
    moreover have "m_id ?m' = m_id m" "m_driver ?m' = m_driver m" "fm_org ?m' = fm_org m" "FolderMutation_ProjectsIDs ?m' = FolderMutation_ProjectsIDs m"
      by (cases "m_id m"; cases "fm_org m"; simp add: ent_ops k assms)+
    ultimately show "same_creation FolderCreate_check FolderCreate_createSpec (FolderCreate_sqlSave G) ?m' m"
      using m1(2) by (intro folder_creation_determined) simp_all
  qed
qed

lemma copied_project:
  "\<exists>m'. copy_project m = Inr m' \<and> same_creation ProjectCreate_check ProjectCreate_createSpec (ProjectCreate_sqlSave G) m' m"
proof -
  from pf.copy_fields[OF new_mutation_fields(3), of m "m_driver m" OpCreate] obtain m1 where
    m1: "set_fields ProjectMutation_SetField (bindings ProjectMutation_Fields ProjectMutation_Field m) (newProjectMutation (m_driver m) OpCreate []) = Inr m1"
    "ProjectMutation_Field m1 = ProjectMutation_Field m" by blast
  have k: "m_id m1 = None" "m_driver m1 = m_driver m" "pm_folder m1 = None"
    using set_fields_invariant[of ProjectMutation_SetField "\<lambda>m. (m_id m, m_driver m, pm_folder m)", OF set_field_keeps(3) m1(1)]
    by (simp_all add: ent_ops)
  show ?thesis
  proof (intro exI conjI)
    let ?m' = "set_nillable ProjectMutation_SetFolderID (ProjectMutation_FolderID m) (set_nillable mutation_SetID (mutation_ID m) m1)"
    show "copy_project m = Inr ?m'" unfolding copy_project_def m1(1) by simp
    have "ProjectMutation_Field ?m' = ProjectMutation_Field m1"
      by (rule ext) (cases "m_id m"; cases "pm_folder m"; simp add: ent_ops)
    moreover have "m_id ?m' = m_id m" "m_driver ?m' = m_driver m" "pm_folder ?m' = pm_folder m"
      by (cases "m_id m"; cases "pm_folder m"; simp add: ent_ops k)+
    ultimately show "same_creation ProjectCreate_check ProjectCreate_createSpec (ProjectCreate_sqlSave G) ?m' m"
      using m1(2) by (intro project_creation_determined) simp_all
  qed
qed

lemma copied_event:
  "\<exists>m'. copy_event m = Inr m' \<and>
     same_creation TenancyEventCreate_check TenancyEventCreate_createSpec (TenancyEventCreate_sqlSave G) m' m"
proof -
  from ef.copy_fields[OF new_mutation_fields(4), of m "m_driver m" OpCreate] obtain m1 where
    m1: "set_fields TenancyEventMutation_SetField (bindings TenancyEventMutation_Fields TenancyEventMutation_Field m) (newTenancyEventMutation (m_driver m) OpCreate []) = Inr m1"
    "TenancyEventMutation_Field m1 = TenancyEventMutation_Field m" by blast
  have k: "m_id m1 = None" "m_driver m1 = m_driver m"
    using set_fields_invariant[of TenancyEventMutation_SetField "\<lambda>m. (m_id m, m_driver m)", OF set_field_keeps(4) m1(1)]
    by (simp_all add: ent_ops)
  show ?thesis
  proof (intro exI conjI)
    let ?m' = "set_nillable mutation_SetID (mutation_ID m) m1"
    show "copy_event m = Inr ?m'" unfolding copy_event_def m1(1) by simp
    have "TenancyEventMutation_Field ?m' = TenancyEventMutation_Field m1"
      by (rule ext) (cases "m_id m"; simp add: ent_ops)
    moreover have "m_id ?m' = m_id m" "m_driver ?m' = m_driver m"
      by (cases "m_id m"; simp add: ent_ops k)+
    ultimately show "same_creation TenancyEventCreate_check TenancyEventCreate_createSpec (TenancyEventCreate_sqlSave G) ?m' m"
      using m1(2) by (intro event_creation_determined) simp_all
  qed
qed

lemma copied_status:
  "\<exists>m'. copy_status m = Inr m' \<and>
     same_creation ControllerStatusCreate_check ControllerStatusCreate_createSpec (ControllerStatusCreate_sqlSave G) m' m"
proof -
  from cf.copy_fields[OF new_mutation_fields(5), of m "m_driver m" OpCreate] obtain m1 where
    m1: "set_fields ControllerStatusMutation_SetField (bindings ControllerStatusMutation_Fields ControllerStatusMutation_Field m) (newControllerStatusMutation (m_driver m) OpCreate []) = Inr m1"
    "ControllerStatusMutation_Field m1 = ControllerStatusMutation_Field m" by blast
  have "m_driver m1 = m_driver m"
    using set_fields_invariant[of ControllerStatusMutation_SetField "\<lambda>m. (m_id m, m_driver m)", OF set_field_keeps(5) m1(1)]
    by (simp add: ent_ops)
  with m1 show ?thesis unfolding copy_status_def by (simp add: status_creation_determined)
qed

text \<open>C27. For each of the five entities: a hook may replace a mutation by a copy.  The fields of any mutation, read by name
  and set by name on a new mutation, are all accepted; with the id and the edges carried over, a creation from the copy
  passes or fails the same check, has the same node and specification, and saves with the same answer and the
  same database as a creation from the original.\<close>

theorem copied_mutations_create_the_same_row:
  assumes "set fids = OrgMutation_FoldersIDs mo" and "set pids = FolderMutation_ProjectsIDs mf"
  shows
  "(\<exists>m'. copy_org fids mo = Inr m' \<and> same_creation OrgCreate_check OrgCreate_createSpec (OrgCreate_sqlSave Go) m' mo) \<and>
   (\<exists>m'. copy_folder pids mf = Inr m' \<and> same_creation FolderCreate_check FolderCreate_createSpec (FolderCreate_sqlSave Gf) m' mf) \<and>
   (\<exists>m'. copy_project mp = Inr m' \<and> same_creation ProjectCreate_check ProjectCreate_createSpec (ProjectCreate_sqlSave Gp) m' mp) \<and>
   (\<exists>m'. copy_event me = Inr m' \<and>
      same_creation TenancyEventCreate_check TenancyEventCreate_createSpec (TenancyEventCreate_sqlSave Ge) m' me) \<and>
   (\<exists>m'. copy_status mc = Inr m' \<and>
      same_creation ControllerStatusCreate_check ControllerStatusCreate_createSpec (ControllerStatusCreate_sqlSave Gc) m' mc)"
  using copied_org[OF assms(1)] copied_folder[OF assms(2)] copied_project copied_event copied_status by blast

text \<open>A folder with its org and two projects: its copy passes the check, because it keeps the org.\<close>

theorem copied_mutations_create_the_same_row_witness:
  "let m = FolderMutation_AddProjectIDs [7, 8] (FolderMutation_SetOrgID 5 (FolderMutation_SetUpdatedAt 2
             (FolderMutation_SetCreatedAt 1 (FolderMutation_SetName ''f'' (newFolderMutation DbDriver OpCreate [])))))
   in \<exists>m'. copy_folder [8, 7] m = Inr m' \<and> FolderCreate_check m' = None \<and>
        cs_edges (snd (FolderCreate_createSpec m')) = [Folder_edge_org {5}, Folder_edge_projects {7, 8}]"
proof -
  let ?m = "FolderMutation_AddProjectIDs [7, 8] (FolderMutation_SetOrgID 5 (FolderMutation_SetUpdatedAt 2
             (FolderMutation_SetCreatedAt 1 (FolderMutation_SetName ''f'' (newFolderMutation DbDriver OpCreate [])))))"
  have ids: "set [8, 7] = FolderMutation_ProjectsIDs ?m" by (auto simp: ent_ops added_def)
  have none: "set [] = OrgMutation_FoldersIDs (newOrgMutation DbDriver OpCreate [])" by (simp add: ent_ops added_def)
  from copied_mutations_create_the_same_row[OF none ids] obtain m' where m': "copy_folder [8, 7] ?m = Inr m'"
    "FolderCreate_check m' = FolderCreate_check ?m" "FolderCreate_createSpec m' = FolderCreate_createSpec ?m"
    unfolding same_creation_def by blast
  have "FolderCreate_check ?m = None"
    by (simp add: FolderCreate_check_def required_def validated_def name_validator_def ent_ops)
  moreover have "cs_edges (snd (FolderCreate_createSpec ?m)) = [Folder_edge_org {5}, Folder_edge_projects {7, 8}]"
    by (simp add: FolderCreate_createSpec_def ent_ops added_def)
  ultimately show ?thesis using m' by (simp add: Let_def)
qed

text \<open>A field that was cleared and is then set is reported as both, whatever the entity.\<close>

lemma set_after_clear_is_both:
  obtains m1 m2 where "OrgMutation_ClearField ''deleted_at'' m = Inr m1"
    "OrgMutation_SetField ''deleted_at'' (GTime t) m1 = Inr m2"
    "''deleted_at'' \<in> set (OrgMutation_Fields m2)" "''deleted_at'' \<in> set (OrgMutation_ClearedFields m2)"
  using of.set_after_clear[of "''deleted_at''" "GTime t" m] by (auto simp: OrgMutation_schema_def)

section \<open>Scanned rows\<close>

text \<open>Values of the types that \<open>scanValues\<close> allocates are assigned without error, for
  any columns of any query.\<close>

lemma scanned_values_are_assigned:
  "map scan_type_of vals = Org_scanValues cols \<Longrightarrow> \<exists>n'. Org_assignValues on cols vals = Inr n'"
  "map scan_type_of vals = Folder_scanValues cols \<Longrightarrow> \<exists>n'. Folder_assignValues fn cols vals = Inr n'"
  "map scan_type_of vals = Project_scanValues cols \<Longrightarrow> \<exists>n'. Project_assignValues pn cols vals = Inr n'"
  "map scan_type_of vals = TenancyEvent_scanValues cols \<Longrightarrow> \<exists>n'. TenancyEvent_assignValues en cols vals = Inr n'"
  "map scan_type_of vals = ControllerStatus_scanValues cols \<Longrightarrow> \<exists>n'. ControllerStatus_assignValues cn cols vals = Inr n'"
  by (simp_all add: Org_scanValues_def Org_assignValues_def os.assign_columns_total
      Folder_scanValues_def Folder_assignValues_def fs.assign_columns_total
      Project_scanValues_def Project_assignValues_def ps.assign_columns_total
      TenancyEvent_scanValues_def TenancyEvent_assignValues_def es.assign_columns_total
      ControllerStatus_scanValues_def ControllerStatus_assignValues_def cs.assign_columns_total)

section \<open>Clearing a required edge\<close>

text \<open>The check of an update refuses to clear the org of a folder only when the update also
  sets one; an update that just clears it passes the check.\<close>

lemma cleared_org_passes_check:
  "FolderUpdate_check (FolderMutation_ClearOrg (newFolderMutation drv OpUpdate [])) = None"
  "FolderUpdate_check (FolderMutation_SetOrgID i (FolderMutation_ClearOrg (newFolderMutation drv OpUpdate [])))
     = Some (clearing_required ''Folder.org'')"
  by (simp_all add: FolderUpdate_check_def validated_def ent_ops)

end
