(* ===== verification/Spec2Isabelle.thy ===== *)
theory Spec2Isabelle
  imports Tenancy_Admin Tenancy_Ktc Ktc_Secrets Cert_Main Cert_Renewal Cert_Requests Vault_Token Auth_Resolve Ops_Services
    Ent_Query Ent_Contract
begin

text \<open>
  A verification development of the multi-tenancy and certificate services of orch-utils.

  \<^bold>\<open>The program.\<close>  The Tenant Manager (tenancy-manager/) keeps orgs and projects in a database and
  offers them over REST.  Every change of a tenant is written to a feed of events in the same
  transaction.  Controllers, one per service, poll the feed, set up or remove what they keep for the
  tenant, and report a status; the Tenant Manager derives the status shown to users from the reports
  and removes a deleted tenant for good only when the controllers have released it.  The
  keycloak-tenant-controller is such a controller: it gives each org and project its roles and groups
  in Keycloak.  On start the Tenant Manager creates a default tenant and an administrator.
  The cert-synchronizer is independent of them: told by HTTP that a certificate was renewed, it waits
  for the renewed files and copies the certificate to AWS ACM; it also keeps DNS records in Route 53.
  The auth-service decides at the gateway whether a caller is let in, and asks the Tenant Manager for
  the id of the project in a path.  The secrets job initialises and configures Vault, retrying until
  its counterparts answer.  A few small services and libraries are beside them.

  \<^bold>\<open>Theories and sources.\<close>
  \<^item> \<open>Prelude\<close>: Go's errors and the \<open>strings\<close> package, lemmas shared by all components.
  \<^item> \<open>Tenancy_Db\<close>: tenancy-manager/internal/ent (schema, migrate, the builders the store calls, tx.go).
    A table is a list of records; \<open>world\<close> holds the committed tables, the working copy of an open
    transaction, the clock, the ids the driver will draw and the errors it will report.
  \<^item> \<open>Ent_Base\<close>, \<open>Ent_Org\<close>, \<open>Ent_Folder\<close>, \<open>Ent_Project\<close>, \<open>Ent_Event\<close>, \<open>Ent_Status\<close>: the generated code
    behind those statements, per entity of internal/ent: the node and its scanning (org.go), the
    mutation (mutation.go), the builders (org_create.go, org_update.go, org_delete.go) and the client.
    What the five have in common is in \<open>Ent_Base\<close>, with the contracts \<open>ent_fields\<close> (access to
    a mutation by name) and \<open>ent_scan\<close>, which each entity interprets.  The library that runs
    specifications is the record \<open>sqlgraph\<close>.
  \<^item> \<open>Ent_Query\<close>: the query builders and eager loading (org_query.go, folder_query.go, project_query.go).
  \<^item> \<open>Ent_Store\<close>, \<open>Ent_Contract\<close>: the properties of the generated code.
  \<^item> \<open>Tenancy_Store\<close>, \<open>Tenancy_Status\<close>, \<open>Tenancy_Events\<close>, \<open>Tenancy_Cleanup\<close>: internal/store/store.go, one
    definition per method with every early return, and the cleanup tick of cmd/main.go.
  \<^item> \<open>Tenancy_Config\<close>: internal/config/config.go and the overrides of cmd/main.go.
  \<^item> \<open>Tenancy_Auth\<close>, \<open>Tenancy_Api\<close>: internal/api (auth.go, api.go, types.go).  The handlers call the record
    \<open>backend\<close>, the source's interface \<open>storeBackend\<close>.
  \<^item> \<open>Tenancy_Backend\<close>: the contract of that interface as the locale \<open>tenancy_backend\<close>, with the handlers'
    lemmas, interpreted on the store.
  \<^item> \<open>Tenancy_Invariant\<close>, \<open>Tenancy_Feed\<close>, \<open>Tenancy_Retention\<close>, \<open>Tenancy_Lifecycle\<close>, \<open>Tenancy_Service\<close>,
    \<open>Tenancy_Types\<close>: the properties of the store, the feed, the cleanup, the derived status and the router.
  \<^item> \<open>Go_Net\<close>, \<open>Tenancy_Admin\<close>: internal/bootstrap (config, password, Keycloak and Kubernetes clients,
    the flow).
  \<^item> \<open>Ktc_Keycloak\<close>, \<open>Ktc_Provision\<close>: keycloak-tenant-controller/pkg/keycloak and its properties.
  \<^item> \<open>Ktc_Tdm\<close>: its event client, over the interface of the Keycloak client as the locale
    \<open>keycloak_client\<close>, interpreted on client.go.  \<open>Tenancy_Ktc\<close> puts the feed of the Tenant Manager
    before it.
  \<^item> \<open>Cert_Server\<close>, \<open>Cert_Files\<close>, \<open>Cert_Acm\<close>, \<open>Cert_Dns\<close>, \<open>Cert_Main\<close>: cert-synchronizer/pkg/apiserver/server.go
    and cmd/main.go, the environment and the configuration, the files of the pod, the certificate
    handlers, the DNS handlers, the routes and the start.  \<open>'w sys\<close> is what the program calls outside.
  \<^item> \<open>Cert_Renewal\<close>, \<open>Cert_Chain\<close>, \<open>Cert_Requests\<close>: its properties.
  \<^item> \<open>Ktc_Secrets\<close>: keycloak-tenant-controller/pkg/auth, the session at Vault and the credentials.
  \<^item> \<open>Go_Retry\<close>: internal/retry/retry.go.  A run that never ends is \<open>None\<close>.
  \<^item> \<open>Vault_Service\<close>, \<open>Vault_Configure\<close>, \<open>Vault_Job\<close>, \<open>Vault_Token\<close>: secrets/vault, secrets/kubernetes, secrets/internal
    and secrets/cmd/config, the two services, the job over their interfaces (the records \<open>provider\<close> and
    \<open>storage\<close>), and its properties.
  \<^item> \<open>Auth_Service\<close>: auth-service (roles, claims, the resolver, the routes) and token-fs.
    \<open>Auth_Resolve\<close> puts the Router of the Tenant Manager behind the resolver.
  \<^item> \<open>Ops_Services\<close>: component-status and aws-sm-proxy.

  \<^bold>\<open>What the lemmas show.\<close>  \<open>Tenancy_Invariant\<close>: each mutation of the store is one effect that is
  committed whole or not at all under any failure of the driver (locale \<open>mutation\<close>), and every
  reachable state meets the schema's keys, foreign keys and life-cycle rules.  \<open>Tenancy_Feed\<close>: the
  feed explains every change, pages partition it, and a consumer that replays and then polls between any
  calls of the store (\<open>follows\<close>) lacks exactly the events beyond its cursor.
  \<open>Tenancy_Retention\<close>: the hard delete spares what is held and removes what is released.
  \<open>Tenancy_Lifecycle\<close>: the derived status equals a reference definition; the bootstrap of the default
  tenant.  \<open>Tenancy_Service\<close>: mediation and isolation of the router, its invariant, the keys that
  the validator accepts over its life (\<open>validator_life\<close>), and the scope of a caller whose orgs are deleted.
  \<open>Tenancy_Types\<close>: the types of the feed and of every answer.  \<open>Tenancy_Ktc\<close>: a replay brings Keycloak
  to the state of the database.
  \<open>Tenancy_Admin\<close>: the requests a bootstrap sends and where each of their values comes from
  (\<open>provisioned\<close>), what a restart skips, termination of its polling loop, the generated password.  \<open>Ktc_Provision\<close>: what creating and deleting a tenant does to a realm.
  \<open>Ktc_Tdm\<close>: a handled event has a lasting effect, one poller at most.  \<open>Cert_Renewal\<close>: which renewals
  are noticed, the bound on the wait.  \<open>Cert_Chain\<close>: the chain that is read, and that an import refines
  putting one certificate into the account.  \<open>Cert_Requests\<close>: refused DNS requests, batches.
  \<open>Go_Retry\<close>: when the retry loop returns, and with what, under any context.  \<open>Vault_Job\<close>: the keys of a new Vault are
  stored, the configuration that is left in Vault, and that a manual run cannot be repeated.
  \<open>Vault_Token\<close>: a fresh Vault is configured with its root token.
  \<open>Auth_Service\<close>, \<open>Auth_Resolve\<close>: who is let in, and that a resolved project is one the caller may see.
  \<open>Ent_Store\<close>: the builder chains of the store are the statements of \<open>Tenancy_Db\<close>, so what is proved
  of the store's changes holds of the generated code.  \<open>Ent_Query\<close>: batched loading of edges is a join.
  \<open>Ent_Contract\<close>: a mutation copied by name, with its id and edges, creates the same row; scanned rows are assigned.
  \<open>Ops_Services\<close>: what the status document shows.  \<open>Ktc_Secrets\<close>: no session at Vault is left open.

  \<^bold>\<open>Parameters and hypotheses.\<close>  Code that is not in the repository is an argument: uuid parsing, JWT
  and JWK libraries, JSON and YAML decoders, the HTTP servers spoken to (any function of the requests
  so far), the entropy source, the executor of SQL specifications (\<open>executes_orgs\<close> and its siblings state
  what is relied on), the gocloak library (\<open>gocloak_ok\<close> states the behaviour relied on), the
  AWS services (\<open>acm_ok\<close> for ACM; its reads may fail), Keycloak's users and the Secrets of the bootstrap across
  restarts (\<open>user_persists\<close>, \<open>secret_persists\<close>), Vault (\<open>vault_ok\<close>, \<open>vault_fresh\<close>) and the secrets of Kubernetes (\<open>secret_gone\<close>,
  \<open>secret_kept\<close>), gjson,
  the ozzo-validation rules.
  Drivers and servers may fail at every call.  Loops that wait take the clock as an argument and are
  \<open>partial_function (option)\<close>; that they return is proved for a clock that advances.  The attempts of
  the Keycloak client recurse on the retries left, 10 at the start as in the source.  The wait of the
  cert-synchronizer is total, by its own timeout.

  \<^bold>\<open>Not modelled.\<close>  Logging, timeouts (they are failures of a call), goroutine scheduling (the
  operations are atomic where the source holds a lock or a transaction), the parsing of flags, the
  start and shutdown of listeners, charts, images and build scripts.  Of the generated ent code: bulk
  creation, interceptors, traversal paths, group-by, aggregates and the surrogate key of a controller
  status, none of which a caller uses, and the builders of predicates: one is a function on rows here.
  The manifest lists each part with the reason.
\<close>

end
